(* ===== verification/Rust_Std.thy ===== *)
theory Rust_Std
  imports Main "HOL-Library.Word" "HOL-Library.Sublist"
begin

text \<open>
  The prelude of the development: the machine integers, byte strings, results and the parts of
  the Rust standard library (string splitting, trimming, number parsing and printing, UTF-8
  decoding) that the edge proxy's own code calls, with the lemmas every component theory shares.

  A Rust \<open>u8\<close> is an \<open>8 word\<close>; a \<open>Vec<u8>\<close> or \<open>&[u8]\<close> is a list of them. A Rust \<open>String\<close> or
  \<open>&str\<close> is HOL's \<open>string\<close>, whose \<open>char\<close> is one byte: the list is the UTF-8 encoding, so that
  \<open>length\<close> is Rust's \<open>len()\<close>. A \<open>Result\<close> is a sum with the error on the left.
\<close>

unbundle bit_operations_syntax

named_theorems result_simps \<open>characteristic equations of the result combinators\<close>
named_theorems string_simps \<open>evaluation of string operations on ASCII text\<close>

type_synonym u8 = "8 word"
type_synonym u32 = "32 word"
type_synonym u64 = "64 word"
type_synonym bytes = "8 word list"

subsection \<open>Results, and results over a state\<close>

definition bindE :: "'e + 'a \<Rightarrow> ('a \<Rightarrow> 'e + 'b) \<Rightarrow> 'e + 'b" where
  "bindE r f = (case r of Inl e \<Rightarrow> Inl e | Inr x \<Rightarrow> f x)"

definition map_err :: "('e \<Rightarrow> 'f) \<Rightarrow> 'e + 'a \<Rightarrow> 'f + 'a" where
  "map_err g r = (case r of Inl e \<Rightarrow> Inl (g e) | Inr x \<Rightarrow> Inr x)"

definition ok_or :: "'e \<Rightarrow> 'a option \<Rightarrow> 'e + 'a" where
  "ok_or e x = (case x of None \<Rightarrow> Inl e | Some v \<Rightarrow> Inr v)"

definition is_ok :: "'e + 'a \<Rightarrow> bool" where
  "is_ok r = (case r of Inl _ \<Rightarrow> False | Inr _ \<Rightarrow> True)"

text \<open>
  A fallible operation on shared state: it returns its result and the state it leaves behind,
  also when it fails (Rust's \<open>?\<close> returns early and keeps every earlier effect).
\<close>

type_synonym ('s, 'e, 'a) op = "'s \<Rightarrow> ('e + 'a) \<times> 's"

definition returnS :: "'a \<Rightarrow> ('s, 'e, 'a) op" where
  "returnS x s = (Inr x, s)"

definition failS :: "'e \<Rightarrow> ('s, 'e, 'a) op" where
  "failS e s = (Inl e, s)"

definition liftS :: "'e + 'a \<Rightarrow> ('s, 'e, 'a) op" where
  "liftS r s = (r, s)"

definition bindS :: "('s, 'e, 'a) op \<Rightarrow> ('a \<Rightarrow> ('s, 'e, 'b) op) \<Rightarrow> ('s, 'e, 'b) op" where
  "bindS m f s = (case m s of (Inl e, t) \<Rightarrow> (Inl e, t) | (Inr x, t) \<Rightarrow> f x t)"

subsection \<open>Character classes and ASCII case\<close>

definition map_errS :: "('e \<Rightarrow> 'f) \<Rightarrow> ('s, 'e, 'a) op \<Rightarrow> ('s, 'f, 'a) op" where
  "map_errS f m s = (case m s of (r, s') \<Rightarrow> (map_err f r, s'))"

definition code :: "char \<Rightarrow> nat" where
  "code c = of_char c"

definition is_ascii_digit :: "char \<Rightarrow> bool" where
  "is_ascii_digit c \<longleftrightarrow> 48 \<le> code c \<and> code c \<le> 57"

definition is_ascii_alphanumeric :: "char \<Rightarrow> bool" where
  "is_ascii_alphanumeric c \<longleftrightarrow>
     is_ascii_digit c \<or> (65 \<le> code c \<and> code c \<le> 90) \<or> (97 \<le> code c \<and> code c \<le> 122)"

text \<open>Printable ASCII without the space: no such character is white space.\<close>

definition is_graphic :: "char \<Rightarrow> bool" where
  "is_graphic c \<longleftrightarrow> 33 \<le> code c \<and> code c \<le> 126"

definition ascii_lower :: "char \<Rightarrow> char" where
  "ascii_lower c = (if 65 \<le> code c \<and> code c \<le> 90 then char_of (code c + 32) else c)"

definition to_ascii_lowercase :: "string \<Rightarrow> string" where
  "to_ascii_lowercase s = map ascii_lower s"

definition eq_ignore_ascii_case :: "string \<Rightarrow> string \<Rightarrow> bool" where
  "eq_ignore_ascii_case a b \<longleftrightarrow> to_ascii_lowercase a = to_ascii_lowercase b"

definition as_bytes :: "string \<Rightarrow> bytes" where
  "as_bytes s = map of_char s"

definition bytes_str :: "bytes \<Rightarrow> string" where
  "bytes_str b = map (\<lambda>x. char_of (unat x)) b"

subsection \<open>Prefixes, splitting and searching\<close>

definition starts_with :: "string \<Rightarrow> string \<Rightarrow> bool" where
  "starts_with s p \<longleftrightarrow> prefix p s"

definition strip_prefix :: "string \<Rightarrow> string \<Rightarrow> string option" where
  "strip_prefix s p = (if prefix p s then Some (drop (length p) s) else None)"

definition strip_suffix :: "string \<Rightarrow> string \<Rightarrow> string option" where
  "strip_suffix s p = (if suffix p s then Some (take (length s - length p) s) else None)"

text \<open>\<open>str::split\<close> on a set of characters: never empty, one piece more than separators.\<close>

fun split_on :: "('a \<Rightarrow> bool) \<Rightarrow> 'a list \<Rightarrow> 'a list list" where
  "split_on p [] = [[]]"
| "split_on p (c # cs) =
     (if p c then [] # split_on p cs
      else (case split_on p cs of [] \<Rightarrow> [[c]] | x # xs \<Rightarrow> (c # x) # xs))"

definition split_once :: "char \<Rightarrow> string \<Rightarrow> (string \<times> string) option" where
  "split_once c s =
     (if c \<in> set s then Some (takeWhile (\<lambda>x. x \<noteq> c) s, tl (dropWhile (\<lambda>x. x \<noteq> c) s)) else None)"

text \<open>\<open>str::rfind\<close> of one ASCII character: the index of its last occurrence.\<close>

definition rfind :: "char \<Rightarrow> string \<Rightarrow> nat option" where
  "rfind c s =
     (if c \<in> set s then Some (length s - 1 - length (takeWhile (\<lambda>x. x \<noteq> c) (rev s))) else None)"

fun contains :: "'a list \<Rightarrow> 'a list \<Rightarrow> bool" where
  "contains [] n = (n = [])"
| "contains (c # cs) n = (prefix n (c # cs) \<or> contains cs n)"

text \<open>\<open>windows(k).position(..)\<close>: the first index at which the needle occurs.\<close>

fun find_sub :: "'a list \<Rightarrow> 'a list \<Rightarrow> nat option" where
  "find_sub n [] = (if n = [] then Some 0 else None)"
| "find_sub n (c # cs) = (if prefix n (c # cs) then Some 0 else map_option Suc (find_sub n cs))"

subsection \<open>White space\<close>

definition ascii_ws :: "char \<Rightarrow> bool" where
  "ascii_ws c \<longleftrightarrow> (9 \<le> code c \<and> code c \<le> 13) \<or> code c = 32"

text \<open>
  The characters beyond ASCII with Unicode's \<open>White_Space\<close> property, as UTF-8: U+0085, U+00A0,
  U+1680, U+2000 to U+200A, U+2028, U+2029, U+202F, U+205F and U+3000.
\<close>

definition ws_multi :: "string list" where
  "ws_multi =
     [[CHR 0xC2, CHR 0x85], [CHR 0xC2, CHR 0xA0], [CHR 0xE1, CHR 0x9A, CHR 0x80],
      [CHR 0xE2, CHR 0x80, CHR 0x80], [CHR 0xE2, CHR 0x80, CHR 0x81],
      [CHR 0xE2, CHR 0x80, CHR 0x82], [CHR 0xE2, CHR 0x80, CHR 0x83],
      [CHR 0xE2, CHR 0x80, CHR 0x84], [CHR 0xE2, CHR 0x80, CHR 0x85],
      [CHR 0xE2, CHR 0x80, CHR 0x86], [CHR 0xE2, CHR 0x80, CHR 0x87],
      [CHR 0xE2, CHR 0x80, CHR 0x88], [CHR 0xE2, CHR 0x80, CHR 0x89],
      [CHR 0xE2, CHR 0x80, CHR 0x8A], [CHR 0xE2, CHR 0x80, CHR 0xA8],
      [CHR 0xE2, CHR 0x80, CHR 0xA9], [CHR 0xE2, CHR 0x80, CHR 0xAF],
      [CHR 0xE2, CHR 0x81, CHR 0x9F], [CHR 0xE3, CHR 0x80, CHR 0x80]]"

definition ws_head :: "string \<Rightarrow> nat" where
  "ws_head s =
     (case s of [] \<Rightarrow> 0
      | c # _ \<Rightarrow> if ascii_ws c then 1
                 else if code c < 128 then 0
                 else (case find (\<lambda>w. prefix w s) ws_multi of None \<Rightarrow> 0 | Some w \<Rightarrow> length w))"

definition ws_tail :: "string \<Rightarrow> nat" where
  "ws_tail s =
     (if s = [] then 0
      else if ascii_ws (last s) then 1
      else if code (last s) < 128 then 0
      else (case find (\<lambda>w. suffix w s) ws_multi of None \<Rightarrow> 0 | Some w \<Rightarrow> length w))"

function trim_start :: "string \<Rightarrow> string" where
  "trim_start s = (if s = [] \<or> ws_head s = 0 then s else trim_start (drop (ws_head s) s))"
  by pat_completeness auto
termination
  by (relation "measure length") auto

function trim_end :: "string \<Rightarrow> string" where
  "trim_end s =
     (if s = [] \<or> ws_tail s = 0 then s else trim_end (take (length s - ws_tail s) s))"
  by pat_completeness auto
termination
  by (relation "measure length") auto

declare trim_start.simps [simp del] trim_end.simps [simp del]

definition trim :: "string \<Rightarrow> string" where
  "trim s = trim_end (trim_start s)"

text \<open>\<open>opt.map(str::trim).filter(|s| !s.is_empty())\<close>, the shape in which settings are read.\<close>

definition trimmed_nonempty :: "string option \<Rightarrow> string option" where
  "trimmed_nonempty x =
     (case x of None \<Rightarrow> None | Some s \<Rightarrow> if trim s = [] then None else Some (trim s))"

text \<open>\<open>str::lines\<close>: the pieces between line feeds without an empty last one; a carriage return
  before a line feed is dropped.\<close>

definition strip_cr :: "string \<Rightarrow> string" where
  "strip_cr l = (if l \<noteq> [] \<and> last l = CHR 0x0D then butlast l else l)"

definition str_lines :: "string \<Rightarrow> string list" where
  "str_lines s =
     (let ps = split_on (\<lambda>c. c = CHR 0x0A) s
      in map strip_cr (butlast ps) @ (if last ps = [] then [] else [last ps]))"

text \<open>\<open>str::split_whitespace\<close>: the non-empty pieces between white space.\<close>

function split_ws :: "string \<Rightarrow> string \<Rightarrow> string list" where
  "split_ws acc s =
     (if s = [] then [acc]
      else if ws_head s = 0 then split_ws (acc @ [hd s]) (tl s)
      else acc # split_ws [] (drop (ws_head s) s))"
  by pat_completeness auto
termination
  by (relation "measure (\<lambda>(acc, s). length s)") auto

declare split_ws.simps [simp del]

definition split_whitespace :: "string \<Rightarrow> string list" where
  "split_whitespace s = filter (\<lambda>p. p \<noteq> []) (split_ws [] s)"

subsection \<open>Numbers as text\<close>

definition digit_val :: "char \<Rightarrow> nat option" where
  "digit_val c =
     (if is_ascii_digit c then Some (code c - 48)
      else if 97 \<le> code c \<and> code c \<le> 122 then Some (code c - 87)
      else if 65 \<le> code c \<and> code c \<le> 90 then Some (code c - 55)
      else None)"

fun digits_val :: "nat \<Rightarrow> nat \<Rightarrow> string \<Rightarrow> nat option" where
  "digits_val r acc [] = Some acc"
| "digits_val r acc (c # cs) =
     (case digit_val c of
        None \<Rightarrow> None
      | Some d \<Rightarrow> if d < r then digits_val r (acc * r + d) cs else None)"

text \<open>\<open>from_str_radix\<close> and \<open>parse\<close> of an unsigned type: an optional plus sign, at least one
  digit, and a value in range.\<close>

definition parse_uint :: "nat \<Rightarrow> nat \<Rightarrow> string \<Rightarrow> nat option" where
  "parse_uint r maxv s =
     (let ds = (if s \<noteq> [] \<and> hd s = CHR ''+'' then tl s else s)
      in if ds = [] then None
         else (case digits_val r 0 ds of
                 None \<Rightarrow> None
               | Some n \<Rightarrow> if n \<le> maxv then Some n else None))"

definition parse_i64 :: "string \<Rightarrow> int option" where
  "parse_i64 s =
     (if s \<noteq> [] \<and> hd s = CHR ''-'' then
        (if tl s = [] then None
         else (case digits_val 10 0 (tl s) of
                 None \<Rightarrow> None
               | Some n \<Rightarrow> if n \<le> 2 ^ 63 then Some (- int n) else None))
      else map_option int (parse_uint 10 (2 ^ 63 - 1) s))"

abbreviation u64_max :: nat where "u64_max \<equiv> 18446744073709551615"
abbreviation u32_max :: nat where "u32_max \<equiv> 4294967295"

definition parse_u32 :: "string \<Rightarrow> nat option" where
  "parse_u32 = parse_uint 10 u32_max"

definition parse_u64 :: "string \<Rightarrow> nat option" where
  "parse_u64 = parse_uint 10 u64_max"

text \<open>\<open>usize\<close> on the 64-bit targets the edge is built for.\<close>

definition parse_usize :: "nat \<Rightarrow> string \<Rightarrow> nat option" where
  "parse_usize r = parse_uint r u64_max"

definition digit_char :: "nat \<Rightarrow> char" where
  "digit_char d = (if d < 10 then char_of (48 + d) else char_of (87 + d))"

function show_radix :: "nat \<Rightarrow> nat \<Rightarrow> string" where
  "show_radix r n =
     (if n < r \<or> r < 2 then [digit_char n] else show_radix r (n div r) @ [digit_char (n mod r)])"
  by pat_completeness auto
termination
  by (relation "measure snd") (auto simp: div_less_dividend)

declare show_radix.simps [simp del]

definition show_nat :: "nat \<Rightarrow> string" where
  "show_nat n = show_radix 10 n"

definition show_hex :: "nat \<Rightarrow> string" where
  "show_hex n = show_radix 16 n"

subsection \<open>UTF-8\<close>

definition in_range :: "nat \<Rightarrow> nat \<Rightarrow> bytes \<Rightarrow> nat \<Rightarrow> bool" where
  "in_range lo hi b i \<longleftrightarrow> i < length b \<and> lo \<le> unat (b ! i) \<and> unat (b ! i) \<le> hi"

text \<open>
  The first code point of a byte string: \<open>Inr k\<close> if its first \<open>k\<close> bytes are well-formed UTF-8,
  \<open>Inl k\<close> if they are a maximal ill-formed piece (the piece the lossy decoder replaces).
\<close>

definition utf8_head :: "bytes \<Rightarrow> nat + nat" where
  "utf8_head b =
     (let cont = in_range 128 191 b;
          three = (\<lambda>lo hi. if \<not> in_range lo hi b 1 then Inl 1
                           else if \<not> cont 2 then Inl 2 else Inr 3);
          four = (\<lambda>lo hi. if \<not> in_range lo hi b 1 then Inl 1
                          else if \<not> cont 2 then Inl 2
                          else if \<not> cont 3 then Inl 3 else Inr 4)
      in if in_range 0 127 b 0 then Inr 1
         else if in_range 194 223 b 0 then (if cont 1 then Inr 2 else Inl 1)
         else if in_range 224 224 b 0 then three 160 191
         else if in_range 225 236 b 0 then three 128 191
         else if in_range 237 237 b 0 then three 128 159
         else if in_range 238 239 b 0 then three 128 191
         else if in_range 240 240 b 0 then four 144 191
         else if in_range 241 243 b 0 then four 128 191
         else if in_range 244 244 b 0 then four 128 143
         else Inl 1)"

definition head_len :: "nat + nat \<Rightarrow> nat" where
  "head_len h = (case h of Inl k \<Rightarrow> k | Inr k \<Rightarrow> k)"

lemma head_len_pos: "0 < head_len (utf8_head b)"
  by (simp add: utf8_head_def head_len_def Let_def)

function utf8_valid :: "bytes \<Rightarrow> bool" where
  "utf8_valid b =
     (if b = [] then True
      else (case utf8_head b of Inl _ \<Rightarrow> False
            | Inr _ \<Rightarrow> utf8_valid (drop (head_len (utf8_head b)) b)))"
  by pat_completeness auto
termination
proof (relation "measure length")
  show "wf (measure length :: (bytes \<times> bytes) set)" by simp
  show "(drop (head_len (utf8_head b)) b, b) \<in> measure length" if "b \<noteq> []" for b k
    using that head_len_pos [of b] by simp
qed

function lossy_bytes :: "bytes \<Rightarrow> bytes" where
  "lossy_bytes b =
     (if b = [] then []
      else (case utf8_head b of Inl _ \<Rightarrow> [239, 191, 189] | Inr k \<Rightarrow> take k b)
           @ lossy_bytes (drop (head_len (utf8_head b)) b))"
  by pat_completeness auto
termination
  by (relation "measure length") (auto simp: head_len_pos)

declare utf8_valid.simps [simp del] lossy_bytes.simps [simp del]

definition from_utf8 :: "bytes \<Rightarrow> string option" where
  "from_utf8 b = (if utf8_valid b then Some (bytes_str b) else None)"

definition from_utf8_lossy :: "bytes \<Rightarrow> string" where
  "from_utf8_lossy b = bytes_str (lossy_bytes b)"

subsection \<open>Lemmas on results\<close>

lemma bindE_simps [simp]:
  "bindE (Inl e) f = Inl e"
  "bindE (Inr x) f = f x"
  by (simp_all add: bindE_def)

lemma bindE_Inr_iff [result_simps]:
  "bindE r f = Inr y \<longleftrightarrow> (\<exists>x. r = Inr x \<and> f x = Inr y)"
  by (cases r) auto

lemma bindE_Inl_iff [result_simps]:
  "bindE r f = Inl e \<longleftrightarrow> r = Inl e \<or> (\<exists>x. r = Inr x \<and> f x = Inl e)"
  by (cases r) auto

lemma map_err_simps [simp]:
  "map_err g (Inl e) = Inl (g e)"
  "map_err g (Inr x) = Inr x"
  by (simp_all add: map_err_def)

lemma map_err_iff [result_simps]:
  "map_err g r = Inr y \<longleftrightarrow> r = Inr y"
  "map_err g r = Inl e \<longleftrightarrow> (\<exists>d. r = Inl d \<and> e = g d)"
  by (cases r; auto)+

lemma ok_or_simps [simp]:
  "ok_or e None = Inl e"
  "ok_or e (Some x) = Inr x"
  by (simp_all add: ok_or_def)

lemma ok_or_iff [result_simps]:
  "ok_or e x = Inr y \<longleftrightarrow> x = Some y"
  "ok_or e x = Inl d \<longleftrightarrow> x = None \<and> d = e"
  by (cases x; auto)+

lemma is_ok_simps [simp]: "\<not> is_ok (Inl e)" "is_ok (Inr x)"
  by (simp_all add: is_ok_def)

lemma is_ok_iff: "is_ok r \<longleftrightarrow> (\<exists>x. r = Inr x)"
  by (cases r) auto

lemma op_simps [simp]:
  "returnS x s = (Inr x, s)"
  "failS e s = (Inl e, s)"
  "liftS r s = (r, s)"
  by (simp_all add: returnS_def failS_def liftS_def)

lemma bindS_Inr_iff [result_simps]:
  "bindS m f s = (Inr y, t) \<longleftrightarrow> (\<exists>x u. m s = (Inr x, u) \<and> f x u = (Inr y, t))"
  by (auto simp: bindS_def split: prod.splits sum.splits)

lemma bindS_Inl_iff [result_simps]:
  "bindS m f s = (Inl e, t) \<longleftrightarrow>
     m s = (Inl e, t) \<or> (\<exists>x u. m s = (Inr x, u) \<and> f x u = (Inl e, t))"
  by (auto simp: bindS_def split: prod.splits sum.splits)

lemma bindS_step:
  "m s = (Inl e, t) \<Longrightarrow> bindS m f s = (Inl e, t)"
  "m s = (Inr x, t) \<Longrightarrow> bindS m f s = f x t"
  by (simp_all add: bindS_def)

lemma map_errS_iff [result_simps]:
  "map_errS f m s = (Inr x, t) \<longleftrightarrow> m s = (Inr x, t)"
  "map_errS f m s = (Inl e, t) \<longleftrightarrow> (\<exists>d. m s = (Inl d, t) \<and> e = f d)"
  by (auto simp: map_errS_def result_simps split: prod.splits)

lemma snd_map_errS [simp]: "snd (map_errS f m s) = snd (m s)"
  by (simp add: map_errS_def split: prod.split)

text \<open>An operation keeps a relation between the states it starts and ends in.\<close>

definition keeps :: "('s \<Rightarrow> 's \<Rightarrow> bool) \<Rightarrow> ('s, 'e, 'a) op \<Rightarrow> bool" where
  "keeps R m \<longleftrightarrow> (\<forall>s. R s (snd (m s)))"

lemma keepsI [intro?]: "(\<And>s. R s (snd (m s))) \<Longrightarrow> keeps R m"
  by (simp add: keeps_def)

lemma keepsD: "keeps R m \<Longrightarrow> R s (snd (m s))"
  by (simp add: keeps_def)

lemma keeps_bindS:
  assumes "transp R" and "keeps R m" and "\<And>x. keeps R (f x)"
  shows "keeps R (bindS m f)"
proof
  fix s
  obtain r t where m: "m s = (r, t)" by (cases "m s")
  from assms(2) m have st: "R s t" by (metis keepsD snd_conv)
  show "R s (snd (bindS m f s))"
  proof (cases r)
    case (Inl e)
    with m st show ?thesis by (simp add: bindS_def)
  next
    case (Inr x)
    with m have "bindS m f s = f x t" by (simp add: bindS_def)
    with st assms(1,3) show ?thesis by (metis keepsD transpE)
  qed
qed

lemma keeps_pure:
  assumes "reflp R"
  shows "keeps R (returnS x)" "keeps R (failS e)" "keeps R (liftS r)"
  using assms by (auto simp: keeps_def returnS_def failS_def liftS_def dest: reflpD)

subsection \<open>Lemmas on strings\<close>

lemma code_bound: "code c < 256"
  by (simp add: code_def)

lemma as_bytes_simps [simp]:
  "as_bytes [] = []" "as_bytes (c # s) = of_char c # as_bytes s"
  "as_bytes (s @ t) = as_bytes s @ as_bytes t" "length (as_bytes s) = length s"
  by (simp_all add: as_bytes_def)

lemma unat_of_char [simp]: "unat (of_char c :: u8) = of_char c"
proof -
  have "(of_char c :: u8) = word_of_nat (of_char c)"
    by (cases c) (simp add: of_char_def of_nat_of_bool)
  then show ?thesis by (simp add: unat_of_nat)
qed

lemma bytes_str_as_bytes [simp]: "bytes_str (as_bytes s) = s"
  by (simp add: bytes_str_def as_bytes_def o_def)

lemma as_bytes_inj [simp]: "as_bytes s = as_bytes t \<longleftrightarrow> s = t"
  by (metis bytes_str_as_bytes)

lemma as_bytes_bytes_str [simp]: "as_bytes (bytes_str b) = b"
proof -
  have "(of_char (char_of (unat x) :: char) :: u8) = x" for x :: u8
    by (rule word_unat_eq_iff [THEN iffD2]) (use unsigned_less [of x, where 'a = nat] in simp)
  then show ?thesis by (simp add: bytes_str_def as_bytes_def map_idI)
qed

lemma split_on_nonempty [simp]: "split_on p s \<noteq> []"
  by (induction s) (auto split: list.splits)

lemma hd_split_on: "hd (split_on p s) = takeWhile (\<lambda>c. \<not> p c) s"
  by (induction s) (auto split: list.splits)

lemma rfind_Some_iff:
  "rfind c s = Some i \<longleftrightarrow> (\<exists>b. s = take i s @ c # b \<and> c \<notin> set b \<and> i < length s)"
proof
  assume r: "rfind c s = Some i"
  then have c: "c \<in> set (rev s)" by (auto simp: rfind_def split: if_splits)
  let ?b = "rev (takeWhile (\<lambda>x. x \<noteq> c) (rev s))"
  have ne: "dropWhile (\<lambda>x. x \<noteq> c) (rev s) \<noteq> []" using c by (simp add: dropWhile_eq_Nil_conv)
  moreover have "hd (dropWhile (\<lambda>x. x \<noteq> c) (rev s)) = c" using hd_dropWhile [OF ne] by simp
  ultimately obtain a where "dropWhile (\<lambda>x. x \<noteq> c) (rev s) = c # a" by (metis list.collapse)
  then have "rev s = takeWhile (\<lambda>x. x \<noteq> c) (rev s) @ c # a"
    by (metis takeWhile_dropWhile_id)
  then have s: "s = rev a @ c # ?b" by (metis rev_append rev_rev_ident rev.simps(2) append.assoc
        append_Cons append_Nil)
  have "length s = Suc (length a + length ?b)" using arg_cong [OF s, of length] by simp
  moreover have "i = length s - 1 - length ?b" using r by (auto simp: rfind_def split: if_splits)
  ultimately have i: "i = length (rev a)" by simp
  have "take i s = rev a" by (subst s) (simp add: i)
  moreover have "c \<notin> set ?b" by (auto dest: set_takeWhileD)
  moreover have "i < length s" using i \<open>length s = Suc (length a + length ?b)\<close> by simp
  ultimately show "\<exists>b. s = take i s @ c # b \<and> c \<notin> set b \<and> i < length s"
    using s by metis
next
  assume "\<exists>b. s = take i s @ c # b \<and> c \<notin> set b \<and> i < length s"
  then obtain b where b: "s = take i s @ c # b" "c \<notin> set b" "i < length s" by blast
  have "rev s = rev b @ c # rev (take i s)" using arg_cong [OF b(1), of rev] by simp
  moreover have "takeWhile (\<lambda>x. x \<noteq> c) (rev b @ c # rev (take i s)) = rev b"
    using b(2) by (subst takeWhile_append2) auto
  ultimately have "takeWhile (\<lambda>x. x \<noteq> c) (rev s) = rev b" by metis
  moreover have "length s = Suc (i + length b)"
    using arg_cong [OF b(1), of length] b(3) by simp
  moreover have "c \<in> set s" using b(1) by (metis in_set_conv_decomp)
  ultimately show "rfind c s = Some i" by (simp add: rfind_def)
qed

lemma ws_head_graphic:
  assumes "s \<noteq> [] \<Longrightarrow> is_graphic (hd s)"
  shows "ws_head s = 0"
  using assms by (cases s) (auto simp: ws_head_def ascii_ws_def is_graphic_def)

lemma ws_tail_graphic:
  assumes "s \<noteq> [] \<Longrightarrow> is_graphic (last s)"
  shows "ws_tail s = 0"
  using assms by (cases "s = []") (auto simp: ws_tail_def ascii_ws_def is_graphic_def)

text \<open>Trimming leaves a string alone when it neither starts nor ends with white space.\<close>

lemma trim_graphic:
  assumes "s \<noteq> [] \<Longrightarrow> is_graphic (hd s)" and "s \<noteq> [] \<Longrightarrow> is_graphic (last s)"
  shows "trim s = s"
  using ws_head_graphic [OF assms(1)] ws_tail_graphic [OF assms(2)]
  by (simp add: trim_def trim_start.simps [of s] trim_end.simps [of s])

lemma trim_Nil [simp]: "trim [] = []"
  by (simp add: trim_def trim_start.simps [of "[]"] trim_end.simps [of "[]"])

lemma length_trim_start: "length (trim_start s) \<le> length s"
proof (induction s rule: trim_start.induct)
  case (1 s)
  then show ?case by (subst trim_start.simps) (auto intro: order_trans)
qed

lemma length_trim_end: "length (trim_end s) \<le> length s"
proof (induction s rule: trim_end.induct)
  case (1 s)
  then show ?case by (subst trim_end.simps) (auto intro: order_trans)
qed

lemma length_trim: "length (trim s) \<le> length s"
  unfolding trim_def using length_trim_start length_trim_end order_trans by blast

lemma ws_tail_trim_end: "trim_end s = [] \<or> ws_tail (trim_end s) = 0"
proof (induction s rule: trim_end.induct)
  case (1 s)
  then show ?case by (subst (1 2) trim_end.simps) auto
qed

lemma trim_end_fixed: "s = [] \<or> ws_tail s = 0 \<Longrightarrow> trim_end s = s"
  by (subst trim_end.simps) auto

lemma ws_head_trim_start: "trim_start s = [] \<or> ws_head (trim_start s) = 0"
proof (induction s rule: trim_start.induct)
  case (1 s)
  then show ?case by (subst (1 2) trim_start.simps) auto
qed

lemma prefix_trim_end: "prefix (trim_end s) s"
proof (induction s rule: trim_end.induct)
  case (1 s)
  then show ?case by (subst trim_end.simps) (auto intro: prefix_order.trans take_is_prefix)
qed

lemma find_length_0:
  "[] \<notin> set xs \<Longrightarrow>
     (case find P xs of None \<Rightarrow> 0 | Some w \<Rightarrow> length w) = 0 \<longleftrightarrow> (\<forall>w \<in> set xs. \<not> P w)"
  by (induction xs) auto

lemma ws_head_prefix:
  assumes "prefix p t" "p \<noteq> []" "ws_head t = 0"
  shows "ws_head p = 0"
proof -
  from assms(1,2) obtain c ps qs where c: "p = c # ps" "t = c # qs" "prefix ps qs"
    by (cases p; cases t) auto
  have "[] \<notin> set ws_multi" by (simp add: ws_multi_def)
  moreover have "prefix w t" if "prefix w p" for w using that assms(1) by (rule prefix_order.trans)
  ultimately show ?thesis
    using assms(3) c
    by (auto simp: ws_head_def find_length_0 split: if_splits)
qed

lemma trim_trim [simp]: "trim (trim s) = trim s"
proof (cases "trim s = []")
  case True
  moreover have "trim_start [] = []" by (subst trim_start.simps) simp
  moreover have "trim_end [] = []" by (rule trim_end_fixed) simp
  ultimately show ?thesis by (simp add: trim_def)
next
  case False
  then have "trim_start s \<noteq> []" using trim_end_fixed [of "[]"] by (auto simp: trim_def)
  with ws_head_trim_start [of s] False have "ws_head (trim s) = 0"
    using ws_head_prefix [OF prefix_trim_end, of "trim_start s"] by (auto simp: trim_def)
  then have "trim_start (trim s) = trim s" by (subst trim_start.simps) simp
  moreover have "trim_end (trim s) = trim s"
    using ws_tail_trim_end [of "trim_start s"] by (auto simp: trim_def intro: trim_end_fixed)
  ultimately show ?thesis by (simp add: trim_def)
qed

subsection \<open>Lemmas on numbers as text\<close>

lemma code_char_of: "code (char_of n) = n mod 256"
  by (simp add: code_def)

lemma digit_val_digit_char: "d < 36 \<Longrightarrow> digit_val (digit_char d) = Some d"
  by (auto simp: digit_val_def digit_char_def is_ascii_digit_def code_char_of)

lemma digit_char_alphanumeric: "d < 36 \<Longrightarrow> is_ascii_alphanumeric (digit_char d)"
  by (auto simp: is_ascii_alphanumeric_def digit_char_def is_ascii_digit_def code_char_of)

lemma digits_val_append:
  "digits_val r a (xs @ ys) = Option.bind (digits_val r a xs) (\<lambda>b. digits_val r b ys)"
  by (induction xs arbitrary: a) (auto split: option.splits)

lemma digits_val_show_radix:
  assumes "2 \<le> r" and "r \<le> 36"
  shows "digits_val r 0 (show_radix r n) = Some n"
  using assms
proof (induction r n rule: show_radix.induct)
  case (1 r n)
  have d: "n mod r < r" "n mod r < 36"
    using "1.prems" mod_less_divisor [of r n] by linarith+
  show ?case
  proof (cases "n < r \<or> r < 2")
    case True
    with "1.prems" show ?thesis
      by (subst show_radix.simps) (auto simp: digit_val_digit_char)
  next
    case False
    with "1.IH" "1.prems" have "digits_val r 0 (show_radix r (n div r)) = Some (n div r)"
      by simp
    with False d "1.prems" show ?thesis
      by (subst show_radix.simps) (auto simp: digits_val_append digit_val_digit_char)
  qed
qed

lemma show_radix_nonempty [simp]: "show_radix r n \<noteq> []"
  by (subst show_radix.simps) simp

lemma show_radix_alphanumeric:
  assumes "2 \<le> r" and "r \<le> 36" and "c \<in> set (show_radix r n)"
  shows "is_ascii_alphanumeric c"
  using assms
proof (induction r n rule: show_radix.induct)
  case (1 r n)
  show ?case
  proof (cases "n < r \<or> r < 2")
    case True
    with "1.prems" show ?thesis
      by (subst (asm) show_radix.simps) (auto simp: digit_char_alphanumeric)
  next
    case False
    with "1.prems"(3) have "c \<in> set (show_radix r (n div r)) \<or> c = digit_char (n mod r)"
      by (subst (asm) show_radix.simps) auto
    moreover have "n mod r < 36" using "1.prems"(1,2) mod_less_divisor [of r n] by linarith
    ultimately show ?thesis using False "1.IH" "1.prems"(1,2)
      by (auto simp: digit_char_alphanumeric)
  qed
qed

lemma alphanumeric_graphic: "is_ascii_alphanumeric c \<Longrightarrow> is_graphic c"
  by (auto simp: is_ascii_alphanumeric_def is_ascii_digit_def is_graphic_def)

lemma show_radix_hd:
  assumes "2 \<le> r" and "r \<le> 36"
  shows "is_ascii_alphanumeric (hd (show_radix r n))"
  using show_radix_alphanumeric [OF assms] by (metis hd_in_set show_radix_nonempty)

text \<open>Printing a number and reading it back in the same radix gives the number.\<close>

lemma parse_show_radix:
  assumes "2 \<le> r" and "r \<le> 36" and "n \<le> m"
  shows "parse_uint r m (show_radix r n) = Some n"
proof -
  have "hd (show_radix r n) \<noteq> CHR ''+''"
    using show_radix_hd [OF assms(1,2), of n]
    by (auto simp: is_ascii_alphanumeric_def is_ascii_digit_def code_def)
  then show ?thesis
    using assms by (simp add: parse_uint_def digits_val_show_radix)
qed

lemma trim_show_radix:
  assumes "2 \<le> r" and "r \<le> 36"
  shows "trim (show_radix r n) = show_radix r n"
  using show_radix_alphanumeric [OF assms, of _ n]
  by (intro trim_graphic alphanumeric_graphic) simp_all

lemma show_nat_nonempty [simp]: "show_nat n \<noteq> []"
  by (simp add: show_nat_def)

lemma show_nat_inj: "show_nat m = show_nat n \<longleftrightarrow> m = n"
proof
  assume "show_nat m = show_nat n"
  then have "digits_val 10 0 (show_radix 10 m) = digits_val 10 0 (show_radix 10 n)"
    by (simp only: show_nat_def)
  then show "m = n" by (simp add: digits_val_show_radix)
qed simp

subsection \<open>Lemmas on machine integers\<close>

text \<open>A counter below some bound of its own type can be incremented without wrapping.\<close>

lemma unat_Suc_less:
  assumes "c < (r :: 'a::len word)"
  shows "unat (c + 1) = Suc (unat c)"
proof -
  have "unat r < 2 ^ LENGTH('a)" by simp
  moreover have "unat c < unat r" using assms by (simp add: word_less_nat_alt)
  ultimately have "Suc (unat c) < 2 ^ LENGTH('a)" by linarith
  then show ?thesis by (simp add: unat_word_ariths)
qed

lemma unat_saturating_pred:
  "unat ((if c = 0 then 0 else c - 1) :: 'a::len word) = unat c - 1"
  by (auto simp: unat_minus_one)

subsection \<open>Lemmas on UTF-8\<close>

lemma utf8_valid_ascii:
  assumes "\<forall>x\<in>set b. unat x < 128"
  shows "utf8_valid b"
  using assms
proof (induction b)
  case Nil
  then show ?case by (simp add: utf8_valid.simps)
next
  case (Cons x b)
  then have "utf8_head (x # b) = Inr 1"
    by (simp add: utf8_head_def in_range_def)
  with Cons show ?case by (subst utf8_valid.simps) (simp add: head_len_def)
qed

lemma lossy_valid: "utf8_valid b \<Longrightarrow> lossy_bytes b = b"
proof (induction b rule: utf8_valid.induct)
  case (1 b)
  then show ?case
    by (subst lossy_bytes.simps)
      (auto simp: utf8_valid.simps [of b] head_len_def split: sum.splits if_splits)
qed

lemma from_utf8_lossy_valid: "from_utf8 b = Some s \<Longrightarrow> from_utf8_lossy b = s"
  by (auto simp: from_utf8_def from_utf8_lossy_def lossy_valid split: if_splits)

lemma from_utf8_ascii:
  assumes "\<forall>c\<in>set s. code c < 128"
  shows "from_utf8 (as_bytes s) = Some s"
proof -
  have "\<forall>x\<in>set (as_bytes s). unat x < 128"
    using assms by (simp add: as_bytes_def code_def)
  then show ?thesis by (simp add: from_utf8_def utf8_valid_ascii)
qed

text \<open>Comparing byte strings in constant time: the differences are gathered, and none is left iff the
  strings are equal.\<close>

lemma xor_eq_0: "(x :: u8) XOR y = 0 \<longleftrightarrow> x = y"
proof
  assume "x XOR y = 0"
  then have "(x XOR y) XOR y = y" by simp
  then show "x = y" by (simp add: xor.assoc)
qed simp

lemma fold_xor_zero:
  assumes "length a = length b"
  shows "foldl (\<lambda>diff (x, y). diff OR (x XOR y)) (d :: u8) (zip a b) = 0 \<longleftrightarrow> d = 0 \<and> a = b"
  using assms
proof (induction a b arbitrary: d rule: list_induct2)
  case (Cons x xs y ys)
  then show ?case by (auto simp: or_eq_0_iff xor_eq_0)
qed simp

end
