(* ===== verification/Third_Party.thy ===== *)
theory Third_Party
  imports Rust_Std
begin

text \<open>
  The crates the edge calls and whose code is not part of the repository: hashing, signatures,
  hex, base64 and JSON. Their operations are the fields of a record that every definition using
  them takes as an argument; nothing is assumed about a field unless a theorem names it.
  \<open>serde_json\<close>'s tree type \<open>Value\<close> and its accessors are public data the source matches on, so
  they are written out here.
\<close>

datatype json_num = PosInt nat | NegInt int | Float string

datatype json =
    JNull
  | JBool bool
  | JNum json_num
  | JStr string
  | JArr "json list"
  | JObj "(string \<times> json) list"

fun json_get :: "json \<Rightarrow> string \<Rightarrow> json option" where
  "json_get (JObj fs) k = map_of fs k"
| "json_get _ k = None"

fun as_str :: "json \<Rightarrow> string option" where
  "as_str (JStr s) = Some s"
| "as_str _ = None"

fun as_array :: "json \<Rightarrow> json list option" where
  "as_array (JArr xs) = Some xs"
| "as_array _ = None"

fun as_bool :: "json \<Rightarrow> bool option" where
  "as_bool (JBool b) = Some b"
| "as_bool _ = None"

fun as_u64 :: "json \<Rightarrow> nat option" where
  "as_u64 (JNum (PosInt n)) = Some n"
| "as_u64 _ = None"

text \<open>An optional string as \<open>json!\<close> writes it: absent is null.\<close>

definition json_opt_str :: "string option \<Rightarrow> json" where
  "json_opt_str x = (case x of None \<Rightarrow> JNull | Some s \<Rightarrow> JStr s)"

record ext =
  sha256 :: "bytes \<Rightarrow> bytes"
  hex_encode :: "bytes \<Rightarrow> string"
  hex_decode :: "string \<Rightarrow> string + bytes"
  sig_from_slice :: "bytes \<Rightarrow> string + bytes"
  ed25519_verify :: "bytes \<Rightarrow> bytes \<Rightarrow> bytes \<Rightarrow> bool"
  json_from_slice :: "bytes \<Rightarrow> string + json"
  json_to_vec :: "json \<Rightarrow> string + bytes"
  json_to_string :: "json \<Rightarrow> string"
  b64url_decode :: "string \<Rightarrow> string + bytes"
  b64url_encode :: "bytes \<Rightarrow> string"

end
