(* ===== verification/Api_Error.thy ===== *)
theory Api_Error
  imports Third_Party
begin

text \<open>
  \<open>crates/openapi-core/src/error.rs\<close>: the error values of every request path, the HTTP status,
  OpenAI error type, error code and retry delay each is reported with, and the JSON body.
\<close>

datatype api_error =
    Unauthorized
  | Forbidden string
  | NotFound
  | MethodNotAllowed
  | PayloadTooLarge
  | RateLimited
  | InsufficientQuota string
  | BadRequest string
  | Upstream string
  | NotImplemented string
  | Internal string
  | ServiceUnavailable (su_message: string) (su_code: string) (su_retry_after_secs: nat)

fun status_code :: "api_error \<Rightarrow> nat" where
  "status_code Unauthorized = 401"
| "status_code (Forbidden _) = 403"
| "status_code NotFound = 404"
| "status_code MethodNotAllowed = 405"
| "status_code PayloadTooLarge = 413"
| "status_code RateLimited = 429"
| "status_code (InsufficientQuota _) = 429"
| "status_code (BadRequest _) = 400"
| "status_code (NotImplemented _) = 501"
| "status_code (Upstream _) = 502"
| "status_code (ServiceUnavailable _ _ _) = 503"
| "status_code (Internal _) = 500"

fun openai_type :: "api_error \<Rightarrow> string" where
  "openai_type Unauthorized = ''invalid_request_error''"
| "openai_type (Forbidden _) = ''invalid_request_error''"
| "openai_type NotFound = ''invalid_request_error''"
| "openai_type MethodNotAllowed = ''invalid_request_error''"
| "openai_type PayloadTooLarge = ''invalid_request_error''"
| "openai_type RateLimited = ''rate_limit_exceeded''"
| "openai_type (InsufficientQuota _) = ''insufficient_quota''"
| "openai_type (BadRequest _) = ''invalid_request_error''"
| "openai_type (NotImplemented _) = ''invalid_request_error''"
| "openai_type (Upstream _) = ''server_error''"
| "openai_type (ServiceUnavailable _ _ _) = ''server_error''"
| "openai_type (Internal _) = ''server_error''"

fun retry_after_secs :: "api_error \<Rightarrow> nat option" where
  "retry_after_secs RateLimited = Some 1"
| "retry_after_secs (ServiceUnavailable _ _ n) = Some n"
| "retry_after_secs _ = None"

text \<open>The messages of the \<open>#[error(..)]\<close> attributes.\<close>

fun error_to_string :: "api_error \<Rightarrow> string" where
  "error_to_string Unauthorized = ''unauthorized''"
| "error_to_string (Forbidden m) = ''forbidden: '' @ m"
| "error_to_string NotFound = ''not found''"
| "error_to_string MethodNotAllowed = ''method not allowed''"
| "error_to_string PayloadTooLarge = ''payload too large''"
| "error_to_string RateLimited = ''rate limited''"
| "error_to_string (InsufficientQuota m) = ''insufficient quota: '' @ m"
| "error_to_string (BadRequest m) = ''bad request: '' @ m"
| "error_to_string (Upstream m) = ''upstream error: '' @ m"
| "error_to_string (NotImplemented m) = ''not implemented: '' @ m"
| "error_to_string (Internal m) = ''internal error: '' @ m"
| "error_to_string (ServiceUnavailable m _ _) = m"

record api_error_detail =
  err_message :: string
  err_type :: string
  err_code :: "string option"

fun error_code :: "api_error \<Rightarrow> string option" where
  "error_code Unauthorized = Some ''invalid_api_key''"
| "error_code (Forbidden _) = Some ''model_not_allowed''"
| "error_code RateLimited = Some ''rate_limit_exceeded''"
| "error_code (InsufficientQuota _) = Some ''insufficient_quota''"
| "error_code (NotImplemented _) = Some ''not_supported''"
| "error_code (ServiceUnavailable _ c _) = Some c"
| "error_code _ = None"

definition into_body :: "api_error \<Rightarrow> api_error_detail" where
  "into_body e =
     \<lparr>err_message = error_to_string e, err_type = openai_type e, err_code = error_code e\<rparr>"

text \<open>The serialised body: \<open>ApiErrorBody\<close> with its one field \<open>error\<close>.\<close>

definition error_body_json :: "api_error_detail \<Rightarrow> json" where
  "error_body_json d =
     JObj [(''error'', JObj [(''message'', JStr (err_message d)), (''type'', JStr (err_type d)),
                             (''code'', json_opt_str (err_code d))])]"

lemma status_code_error: "400 \<le> status_code e \<and> status_code e < 600"
  by (cases e) auto

lemma client_error_type:
  "status_code e < 500 \<Longrightarrow> openai_type e \<noteq> ''server_error''"
  by (cases e) auto

end
