(* ===== verification/Limits.thy ===== *)
theory Limits
  imports Api_Error
begin

text \<open>
  \<open>crates/openapi-core/src/limits.rs\<close>: the fixed-window rate limiter, the gate on concurrent
  attestation quotes, the per-address connection tracker and the body-size limit. Counters are
  \<open>32 word\<close>s, as in the source. An \<open>Instant\<close> is a number of nanoseconds since an arbitrary
  origin; \<open>duration_since\<close> saturates at zero, as subtraction on \<open>nat\<close> does. The mutex around each
  map makes every operation one atomic step on the state.

  The gate, the tracker and (in the theory of the edge server) the shed-worker counter are three
  implementations of one contract, the locale \<open>permit_pool\<close>: its lemmas say that the recorded
  count is the number of permits still held, never exceeds the limit, and is not leaked.
\<close>

record limits =
  requests_per_minute :: u32
  max_body_bytes :: nat
  challenge_requests_per_minute :: u32
  challenge_max_inflight :: u32
  challenge_bench_token :: "string option"
  ip_max_connections :: u32
  ip_requests_per_minute :: u32

definition limits_default :: limits where
  "limits_default =
     \<lparr>requests_per_minute = 120, max_body_bytes = 4 * 1024 * 1024,
      challenge_requests_per_minute = 10, challenge_max_inflight = 4,
      challenge_bench_token = None, ip_max_connections = 16, ip_requests_per_minute = 180\<rparr>"

record bucket =
  window_start :: nat
  count :: u32

record rate_limiter =
  rl_rpm :: u32
  buckets :: "string \<rightharpoonup> bucket"

definition rate_limiter_new :: "u32 \<Rightarrow> rate_limiter" where
  "rate_limiter_new rpm = \<lparr>rl_rpm = rpm, buckets = Map.empty\<rparr>"

definition window_ns :: nat where
  "window_ns = 60 * 1000000000"

text \<open>The bucket a call works on: the stored one or a fresh one, restarted when its window is
  over.\<close>

definition current_bucket :: "nat \<Rightarrow> bucket option \<Rightarrow> bucket" where
  "current_bucket now b =
     (let b0 = (case b of None \<Rightarrow> \<lparr>window_start = now, count = 0\<rparr> | Some x \<Rightarrow> x)
      in if window_ns \<le> now - window_start b0
         then b0\<lparr>window_start := now, count := 0\<rparr> else b0)"

definition check_with_rpm :: "nat \<Rightarrow> string \<Rightarrow> u32 \<Rightarrow> (rate_limiter, api_error, unit) op" where
  "check_with_rpm now key_id rpm l =
     (if rpm = 0 then (Inr (), l)
      else let b = current_bucket now (buckets l key_id)
           in if rpm \<le> count b
              then (Inl RateLimited, l\<lparr>buckets := (buckets l)(key_id \<mapsto> b)\<rparr>)
              else (Inr (), l\<lparr>buckets := (buckets l)(key_id \<mapsto> b\<lparr>count := count b + 1\<rparr>)\<rparr>))"

definition rl_check :: "nat \<Rightarrow> string \<Rightarrow> (rate_limiter, api_error, unit) op" where
  "rl_check now key_id l = check_with_rpm now key_id (rl_rpm l) l"

record inflight_gate =
  gate_max :: u32
  gate_current :: u32

definition inflight_gate_new :: "u32 \<Rightarrow> inflight_gate" where
  "inflight_gate_new m = \<lparr>gate_max = m, gate_current = 0\<rparr>"

text \<open>An \<open>InflightPermit\<close> is its \<open>active\<close> flag.\<close>

definition gate_try_acquire :: "(inflight_gate, api_error, bool) op" where
  "gate_try_acquire g =
     (if gate_max g = 0 then (Inr False, g)
      else if gate_max g \<le> gate_current g then (Inl RateLimited, g)
      else (Inr True, g\<lparr>gate_current := gate_current g + 1\<rparr>))"

definition saturating_pred :: "u32 \<Rightarrow> u32" where
  "saturating_pred c = (if c = 0 then 0 else c - 1)"

definition gate_drop :: "bool \<Rightarrow> inflight_gate \<Rightarrow> inflight_gate" where
  "gate_drop active g =
     (if \<not> active then g else g\<lparr>gate_current := saturating_pred (gate_current g)\<rparr>)"

record ip_conn_tracker =
  conn_max :: u32
  conn_counts :: "string \<rightharpoonup> u32"

definition ip_conn_tracker_new :: "u32 \<Rightarrow> ip_conn_tracker" where
  "ip_conn_tracker_new m = \<lparr>conn_max = m, conn_counts = Map.empty\<rparr>"

text \<open>An \<open>IpConnPermit\<close> is the address it counts against, or nothing when there is no limit.\<close>

definition conn_try_acquire ::
    "string \<Rightarrow> (ip_conn_tracker, api_error, string option) op" where
  "conn_try_acquire ip t =
     (if conn_max t = 0 then (Inr None, t)
      else let key = (if ip = [] then ''unknown'' else ip);
               n = (case conn_counts t key of None \<Rightarrow> 0 | Some n \<Rightarrow> n)
           in if conn_max t \<le> n
              then (Inl RateLimited, t\<lparr>conn_counts := (conn_counts t)(key \<mapsto> n)\<rparr>)
              else (Inr (Some key), t\<lparr>conn_counts := (conn_counts t)(key \<mapsto> n + 1)\<rparr>))"

definition conn_drop :: "string option \<Rightarrow> ip_conn_tracker \<Rightarrow> ip_conn_tracker" where
  "conn_drop p t =
     (case p of
        None \<Rightarrow> t
      | Some ip \<Rightarrow>
          (case conn_counts t ip of
             None \<Rightarrow> t
           | Some n \<Rightarrow>
               if saturating_pred n = 0
               then t\<lparr>conn_counts := (conn_counts t)(ip := None)\<rparr>
               else t\<lparr>conn_counts := (conn_counts t)(ip \<mapsto> saturating_pred n)\<rparr>))"

definition limits_rate_limiter :: "limits \<Rightarrow> rate_limiter" where
  "limits_rate_limiter l = rate_limiter_new (requests_per_minute l)"

definition limits_challenge_rate_limiter :: "limits \<Rightarrow> rate_limiter" where
  "limits_challenge_rate_limiter l = rate_limiter_new (challenge_requests_per_minute l)"

definition limits_challenge_inflight_gate :: "limits \<Rightarrow> inflight_gate" where
  "limits_challenge_inflight_gate l = inflight_gate_new (challenge_max_inflight l)"

definition limits_ip_conn_tracker :: "limits \<Rightarrow> ip_conn_tracker" where
  "limits_ip_conn_tracker l = ip_conn_tracker_new (ip_max_connections l)"

definition limits_ip_rate_limiter :: "limits \<Rightarrow> rate_limiter" where
  "limits_ip_rate_limiter l = rate_limiter_new (ip_requests_per_minute l)"

definition validate_body_size :: "limits \<Rightarrow> nat \<Rightarrow> api_error + unit" where
  "validate_body_size l len = (if max_body_bytes l < len then Inl PayloadTooLarge else Inr ())"

text \<open>A sequence of calls with one rate, at given times and for given keys: how many calls for
  one key are let through.\<close>

fun admitted :: "u32 \<Rightarrow> string \<Rightarrow> (nat \<times> string) list \<Rightarrow> rate_limiter \<Rightarrow> nat" where
  "admitted rpm k [] l = 0"
| "admitted rpm k ((now, j) # cs) l =
     (case check_with_rpm now j rpm l of
        (r, l') \<Rightarrow> (if j = k \<and> is_ok r then 1 else 0) + admitted rpm k cs l')"

subsection \<open>The rate limiter\<close>

lemma check_other_key:
  "j \<noteq> k \<Longrightarrow> buckets (snd (check_with_rpm now j rpm l)) k = buckets l k"
  by (simp add: check_with_rpm_def Let_def)

lemma check_result_bucket:
  assumes "rpm \<noteq> 0"
  shows "fst (check_with_rpm now k rpm l) =
      (if rpm \<le> count (current_bucket now (buckets l k)) then Inl RateLimited else Inr ())"
    and "buckets (snd (check_with_rpm now k rpm l)) k =
      Some (let b = current_bucket now (buckets l k)
            in if rpm \<le> count b then b else b\<lparr>count := count b + 1\<rparr>)"
  using assms by (simp_all add: check_with_rpm_def Let_def)

text \<open>Invariant: no bucket ever counts more than the rate it is checked against.\<close>

definition counts_within :: "u32 \<Rightarrow> rate_limiter \<Rightarrow> bool" where
  "counts_within rpm l \<longleftrightarrow> (\<forall>k b. buckets l k = Some b \<longrightarrow> count b \<le> rpm)"

lemma counts_within_new: "counts_within rpm (rate_limiter_new r)"
  by (simp add: counts_within_def rate_limiter_new_def)

lemma check_counts_within:
  assumes "counts_within rpm l"
  shows "counts_within rpm (snd (check_with_rpm now k rpm l))"
proof -
  let ?b = "current_bucket now (buckets l k)"
  have b: "count ?b \<le> rpm"
    using assms by (auto simp: counts_within_def current_bucket_def Let_def split: option.splits)
  have "count ?b + 1 \<le> rpm" if "\<not> rpm \<le> count ?b"
    using that by (simp add: inc_le)
  with b assms show ?thesis
    by (auto simp: counts_within_def check_with_rpm_def Let_def split: if_splits)
qed

lemma current_bucket_same_window:
  "now - window_start b < window_ns \<Longrightarrow> current_bucket now (Some b) = b"
  by (simp add: current_bucket_def Let_def)

lemma admitted_Cons:
  "admitted rpm k ((now, j) # cs) l =
     (if j = k \<and> is_ok (fst (check_with_rpm now j rpm l)) then 1 else 0)
     + admitted rpm k cs (snd (check_with_rpm now j rpm l))"
  by (simp split: prod.splits)

declare admitted.simps(2) [simp del]

text \<open>Inside one window exactly the remaining allowance is handed out.\<close>

lemma admitted_same_window:
  assumes "rpm \<noteq> 0" and "buckets l k = Some b"
    and "\<forall>(u, j)\<in>set cs. u - window_start b < window_ns"
  shows "admitted rpm k cs l =
    min (length (filter (\<lambda>(u, j). j = k) cs)) (unat rpm - unat (count b))"
  using assms
proof (induction cs arbitrary: l b)
  case Nil
  then show ?case by simp
next
  case (Cons c cs)
  obtain now j where c: "c = (now, j)" by (cases c)
  let ?l = "snd (check_with_rpm now j rpm l)"
  have win: "now - window_start b < window_ns"
    and rest: "\<forall>(u, j)\<in>set cs. u - window_start b < window_ns"
    using Cons.prems(3) c by auto
  show ?case
  proof (cases "j = k")
    case False
    with Cons.prems(2) have "buckets ?l k = Some b" by (simp add: check_other_key)
    from Cons.IH [OF Cons.prems(1) this rest] False c show ?thesis
      by (simp add: admitted_Cons)
  next
    case True
    have cur: "current_bucket now (buckets l k) = b"
      using Cons.prems(2) win by (simp add: current_bucket_same_window)
    note res = check_result_bucket [OF Cons.prems(1), of now k l, unfolded cur]
    show ?thesis
    proof (cases "rpm \<le> count b")
      case le: True
      then have "buckets ?l k = Some b" using res(2) True by simp
      from Cons.IH [OF Cons.prems(1) this rest] le True c res(1) show ?thesis
        by (simp add: admitted_Cons word_le_nat_alt)
    next
      case gt: False
      then have "buckets ?l k = Some (b\<lparr>count := count b + 1\<rparr>)" using res(2) True by simp
      from Cons.IH [OF Cons.prems(1) this] rest
      have "admitted rpm k cs ?l =
          min (length (filter (\<lambda>(u, j). j = k) cs)) (unat rpm - Suc (unat (count b)))"
        using gt by (simp add: unat_Suc_less [of "count b" rpm])
      moreover have "unat (count b) < unat rpm" using gt by (simp add: word_le_nat_alt)
      ultimately show ?thesis using gt True c res(1) by (auto simp: admitted_Cons)
    qed
  qed
qed

text \<open>The first call for a key at or after the end of its window restarts the window at that call.\<close>

lemma admitted_restart:
  assumes "rpm \<noteq> 0" and "current_bucket now (buckets l k) = \<lparr>window_start = now, count = 0\<rparr>"
    and "\<forall>(u, j)\<in>set cs. u - now < window_ns"
  shows "admitted rpm k ((now, k) # cs) l =
    min (Suc (length (filter (\<lambda>(u, j). j = k) cs))) (unat rpm)"
proof -
  let ?l = "snd (check_with_rpm now k rpm l)"
  have z: "\<not> rpm \<le> 0" using assms(1) by simp
  note res = check_result_bucket [OF assms(1), of now k l, unfolded assms(2)]
  have "buckets ?l k = Some \<lparr>window_start = now, count = 1\<rparr>" using res(2) z by simp
  from admitted_same_window [OF assms(1) this] assms(3)
  have "admitted rpm k cs ?l = min (length (filter (\<lambda>(u, j). j = k) cs)) (unat rpm - 1)"
    by simp
  moreover have "0 < unat rpm" using assms(1) by (simp add: unat_gt_0)
  ultimately show ?thesis using res(1) z by (simp add: admitted_Cons)
qed

lemma admitted_two_windows:
  assumes "rpm \<noteq> 0" and "\<forall>(u, j)\<in>set cs. t \<le> u \<and> u < t + window_ns"
  shows "admitted rpm k cs l \<le> 2 * unat rpm"
    and "\<And>b. buckets l k = Some b \<Longrightarrow>
      admitted rpm k cs l \<le> (unat rpm - unat (count b)) + unat rpm"
    and "buckets l k = None \<Longrightarrow> admitted rpm k cs l =
      min (length (filter (\<lambda>(u, j). j = k) cs)) (unat rpm)"
proof -
  have "(\<forall>b. buckets l k = Some b \<longrightarrow>
        admitted rpm k cs l \<le> (unat rpm - unat (count b)) + unat rpm) \<and>
      (buckets l k = None \<longrightarrow> admitted rpm k cs l =
        min (length (filter (\<lambda>(u, j). j = k) cs)) (unat rpm))"
    using assms(2)
  proof (induction cs arbitrary: l)
    case Nil
    then show ?case by simp
  next
    case (Cons c cs)
    obtain now j where c: "c = (now, j)" by (cases c)
    let ?l = "snd (check_with_rpm now j rpm l)"
    have now: "t \<le> now" and rest: "\<forall>(u, j)\<in>set cs. t \<le> u \<and> u < t + window_ns"
      using Cons.prems c by auto
    have later: "\<forall>(u, j)\<in>set cs. u - now < window_ns"
      using now rest by fastforce
    note IH = Cons.IH [OF rest, of ?l]
    show ?case
    proof (cases "j = k")
      case False
      then have "buckets ?l k = buckets l k" by (simp add: check_other_key)
      with IH False c show ?thesis by (simp add: admitted_Cons)
    next
      case True
      show ?thesis
      proof (cases "current_bucket now (buckets l k) = \<lparr>window_start = now, count = 0\<rparr>")
        case restart: True
        from admitted_restart [OF assms(1) this later] True c show ?thesis by auto
      next
        case False
        then obtain b where b: "buckets l k = Some b" "current_bucket now (buckets l k) = b"
          by (auto simp: current_bucket_def window_ns_def Let_def split: option.splits if_splits)
        note res = check_result_bucket [OF assms(1), of now k l, unfolded b(2)]
        show ?thesis
        proof (cases "rpm \<le> count b")
          case le: True
          then have "buckets ?l k = Some b" using res(2) True by simp
          with IH le True c res(1) b(1) show ?thesis by (auto simp: admitted_Cons)
        next
          case gt: False
          then have "buckets ?l k = Some (b\<lparr>count := count b + 1\<rparr>)" using res(2) True by simp
          with IH have "admitted rpm k cs ?l \<le> (unat rpm - Suc (unat (count b))) + unat rpm"
            using gt by (simp add: unat_Suc_less [of "count b" rpm])
          moreover have "unat (count b) < unat rpm" using gt by (simp add: word_le_nat_alt)
          ultimately show ?thesis using gt True c res(1) b(1) by (auto simp: admitted_Cons)
        qed
      qed
    qed
  qed
  then show "admitted rpm k cs l \<le> 2 * unat rpm"
    and "\<And>b. buckets l k = Some b \<Longrightarrow>
      admitted rpm k cs l \<le> (unat rpm - unat (count b)) + unat rpm"
    and "buckets l k = None \<Longrightarrow> admitted rpm k cs l =
      min (length (filter (\<lambda>(u, j). j = k) cs)) (unat rpm)"
    by (cases "buckets l k"; fastforce)+
qed

subsection \<open>Pools of permits\<close>

text \<open>
  The life of a pool: permits are granted or refused and, in any order, dropped. The second
  component of a state is the list of permits that callers still hold.
\<close>

inductive pool_step ::
    "('k \<Rightarrow> ('s, api_error, 'p) op) \<Rightarrow> ('p \<Rightarrow> 's \<Rightarrow> 's) \<Rightarrow> 's \<times> 'p list \<Rightarrow> 's \<times> 'p list \<Rightarrow> bool"
  for acquire release where
  grant: "acquire k s = (Inr p, t) \<Longrightarrow> pool_step acquire release (s, ps) (t, p # ps)"
| refuse: "acquire k s = (Inl e, t) \<Longrightarrow> pool_step acquire release (s, ps) (t, ps)"
| dropped: "p \<in> set ps \<Longrightarrow> pool_step acquire release (s, ps) (release p s, remove1 p ps)"

inductive_cases pool_stepE: "pool_step acquire release (s, ps) (t, qs)"

locale permit_pool =
  fixes acquire :: "'k \<Rightarrow> ('s, api_error, 'p) op"
    and release :: "'p \<Rightarrow> 's \<Rightarrow> 's"
    and slot :: "'k \<Rightarrow> 'k"
    and weight :: "'p \<Rightarrow> 'k \<Rightarrow> nat"
    and used :: "'s \<Rightarrow> 'k \<Rightarrow> nat"
    and limit :: "'s \<Rightarrow> nat option"
  assumes acquire_used: "acquire k s = (Inr p, t) \<Longrightarrow> used t j = used s j + weight p j"
    and acquire_bound:
      "acquire k s = (Inr p, t) \<Longrightarrow> 0 < weight p j \<Longrightarrow> limit s = Some m \<Longrightarrow> used t j \<le> m"
    and refuse_used: "acquire k s = (Inl e, t) \<Longrightarrow> used t j = used s j"
    and refuse_full:
      "acquire k s = (Inl e, t) \<Longrightarrow> e = RateLimited \<and> (\<exists>m. limit s = Some m \<and> m \<le> used s (slot k))"
    and release_used: "weight p j \<le> used s j \<Longrightarrow> used (release p s) j = used s j - weight p j"
    and acquire_limit: "acquire k s = (r, t) \<Longrightarrow> limit t = limit s"
    and release_limit: "limit (release p s) = limit s"
begin

definition held :: "'p list \<Rightarrow> 'k \<Rightarrow> nat" where
  "held ps j = sum_list (map (\<lambda>p. weight p j) ps)"

lemma held_simps: "held [] j = 0" "held (p # ps) j = weight p j + held ps j"
  by (simp_all add: held_def)

lemma held_remove1: "p \<in> set ps \<Longrightarrow> held ps j = weight p j + held (remove1 p ps) j"
  unfolding held_def by (rule sum_list_map_remove1)

definition accounted :: "nat option \<Rightarrow> 's \<times> 'p list \<Rightarrow> bool" where
  "accounted lim sp \<longleftrightarrow>
     limit (fst sp) = lim \<and> (\<forall>j. used (fst sp) j = held (snd sp) j) \<and>
     (\<forall>m j. lim = Some m \<longrightarrow> held (snd sp) j \<le> m)"

lemma accountedD:
  assumes "accounted lim (s, ps)"
  shows "limit s = lim" "used s j = held ps j" "lim = Some m \<Longrightarrow> held ps j \<le> m"
  using assms by (simp_all add: accounted_def)

lemma pool_step_accounted:
  assumes "pool_step acquire release (s, ps) (t, qs)" and "accounted lim (s, ps)"
  shows "accounted lim (t, qs)"
  using assms(1)
proof cases
  case (grant k p)
  have u: "used t j = held qs j" for j
    using acquire_used [OF grant(2)] assms(2) grant(1)
    by (simp add: accounted_def held_def)
  moreover have "held qs j \<le> m" if "lim = Some m" for m j
    using acquire_bound [OF grant(2), of j m] assms(2) that u [of j] grant(1)
    by (cases "weight p j = 0") (auto simp: accounted_def held_def)
  ultimately show ?thesis
    using acquire_limit [OF grant(2)] assms(2) by (auto simp: accounted_def)
next
  case (refuse k e)
  then show ?thesis
    using assms(2) refuse_used [OF refuse(2)] acquire_limit [OF refuse(2)]
    by (simp add: accounted_def)
next
  case (dropped p)
  have h: "held ps j = weight p j + held qs j" for j
    using held_remove1 [OF dropped(3)] dropped(2) by simp
  have "weight p j \<le> used s j" for j
    using assms(2) h [of j] by (simp add: accounted_def)
  from release_used [OF this] have "used t j = used s j - weight p j" for j
    using dropped(1) by simp
  then show ?thesis
    using assms(2) h release_limit [of p s] dropped(1)
    by (auto simp: accounted_def) (metis add_leD2)
qed

lemma pool_accounted:
  assumes "(pool_step acquire release)\<^sup>*\<^sup>* (s0, []) (s, ps)" and "\<And>j. used s0 j = 0"
  shows "accounted (limit s0) (s, ps)"
  using assms(1)
proof (induction "(s, ps)" arbitrary: s ps rule: rtranclp_induct)
  case base
  then show ?case using assms(2) by (auto simp: accounted_def held_def)
next
  case (step y)
  obtain t qs where y: "y = (t, qs)" by (cases y)
  with step show ?case by (auto intro: pool_step_accounted)
qed

text \<open>No capacity is lost: a request is refused only while the limit's worth of permits for its
  slot is really held.\<close>

lemma refused_only_when_full:
  assumes "(pool_step acquire release)\<^sup>*\<^sup>* (s0, []) (s, ps)" and "\<And>j. used s0 j = 0"
    and "acquire k s = (Inl e, t)"
  shows "e = RateLimited \<and> limit s0 = Some (held ps (slot k))"
proof -
  have acc: "accounted (limit s0) (s, ps)" by (rule pool_accounted [OF assms(1,2)])
  obtain m where "e = RateLimited" "limit s = Some m" "m \<le> used s (slot k)"
    using refuse_full [OF assms(3)] by blast
  moreover from this acc have "held ps (slot k) \<le> m" and "m \<le> held ps (slot k)"
    by (auto simp: accounted_def)
  ultimately show ?thesis using acc by (simp add: accounted_def)
qed

end

definition gate_weight :: "bool \<Rightarrow> unit \<Rightarrow> nat" where
  "gate_weight active u = (if active then 1 else 0)"

definition gate_used :: "inflight_gate \<Rightarrow> unit \<Rightarrow> nat" where
  "gate_used g u = unat (gate_current g)"

definition word_limit :: "u32 \<Rightarrow> nat option" where
  "word_limit m = (if m = 0 then None else Some (unat m))"

definition conn_slot :: "string \<Rightarrow> string" where
  "conn_slot ip = (if ip = [] then ''unknown'' else ip)"

definition conn_weight :: "string option \<Rightarrow> string \<Rightarrow> nat" where
  "conn_weight p j = (if p = Some j then 1 else 0)"

definition conn_used :: "ip_conn_tracker \<Rightarrow> string \<Rightarrow> nat" where
  "conn_used t j = (case conn_counts t j of None \<Rightarrow> 0 | Some n \<Rightarrow> unat n)"

lemma word_limit_inject: "word_limit a = word_limit b \<longleftrightarrow> a = b"
  by (simp add: word_limit_def word_unat_eq_iff)

lemma unat_saturating: "unat (saturating_pred c) = unat c - 1"
  by (simp add: saturating_pred_def unat_minus_one)

lemma saturating_pred_eq_0: "saturating_pred c = 0 \<longleftrightarrow> unat c \<le> 1"
  by (metis unat_saturating unat_eq_zero diff_is_0_eq)

interpretation gate: permit_pool
  "\<lambda>u. gate_try_acquire" gate_drop "\<lambda>u. u" gate_weight gate_used "\<lambda>g. word_limit (gate_max g)"
proof
  fix k j :: unit and s t :: inflight_gate and p :: bool and e :: api_error and m r
  show "gate_try_acquire s = (Inr p, t) \<Longrightarrow> gate_used t j = gate_used s j + gate_weight p j"
    by (auto simp: gate_try_acquire_def gate_used_def gate_weight_def unat_Suc_less not_le
        split: if_splits)
  show "gate_try_acquire s = (Inr p, t) \<Longrightarrow> 0 < gate_weight p j \<Longrightarrow>
      word_limit (gate_max s) = Some m \<Longrightarrow> gate_used t j \<le> m"
    by (auto simp: gate_try_acquire_def gate_used_def word_limit_def gate_weight_def not_le
        unat_Suc_less word_less_nat_alt split: if_splits)
  show "gate_try_acquire s = (Inl e, t) \<Longrightarrow> gate_used t j = gate_used s j"
    by (auto simp: gate_try_acquire_def split: if_splits)
  show "gate_try_acquire s = (Inl e, t) \<Longrightarrow>
      e = RateLimited \<and> (\<exists>m. word_limit (gate_max s) = Some m \<and> m \<le> gate_used s k)"
    by (auto simp: gate_try_acquire_def gate_used_def word_limit_def word_le_nat_alt
        split: if_splits)
  show "gate_weight p j \<le> gate_used s j \<Longrightarrow>
      gate_used (gate_drop p s) j = gate_used s j - gate_weight p j"
    by (auto simp: gate_drop_def gate_used_def gate_weight_def unat_saturating)
  show "gate_try_acquire s = (r, t) \<Longrightarrow> word_limit (gate_max t) = word_limit (gate_max s)"
    by (auto simp: gate_try_acquire_def split: if_splits)
  show "word_limit (gate_max (gate_drop p s)) = word_limit (gate_max s)"
    by (simp add: gate_drop_def)
qed

interpretation conn: permit_pool
  conn_try_acquire conn_drop conn_slot conn_weight conn_used "\<lambda>t. word_limit (conn_max t)"
proof
  fix k j :: string and s t :: ip_conn_tracker and p :: "string option" and e :: api_error and m r
  show "conn_try_acquire k s = (Inr p, t) \<Longrightarrow> conn_used t j = conn_used s j + conn_weight p j"
    by (auto simp: conn_try_acquire_def conn_used_def conn_weight_def unat_Suc_less not_le Let_def
        split: if_splits option.splits)
  show "conn_try_acquire k s = (Inr p, t) \<Longrightarrow> 0 < conn_weight p j \<Longrightarrow>
      word_limit (conn_max s) = Some m \<Longrightarrow> conn_used t j \<le> m"
    by (auto simp: conn_try_acquire_def conn_used_def word_limit_def conn_weight_def not_le
        unat_Suc_less word_less_nat_alt Let_def split: if_splits option.splits)
  show "conn_try_acquire k s = (Inl e, t) \<Longrightarrow> conn_used t j = conn_used s j"
    by (auto simp: conn_try_acquire_def conn_used_def Let_def split: if_splits option.splits)
  show "conn_try_acquire k s = (Inl e, t) \<Longrightarrow>
      e = RateLimited \<and> (\<exists>m. word_limit (conn_max s) = Some m \<and> m \<le> conn_used s (conn_slot k))"
    by (auto simp: conn_try_acquire_def conn_used_def conn_slot_def word_limit_def word_le_nat_alt
        Let_def split: if_splits option.splits)
  show "conn_weight p j \<le> conn_used s j \<Longrightarrow>
      conn_used (conn_drop p s) j = conn_used s j - conn_weight p j"
    by (auto simp: conn_drop_def conn_used_def conn_weight_def unat_saturating
        saturating_pred_eq_0 split: option.splits if_splits)
  show "conn_try_acquire k s = (r, t) \<Longrightarrow> word_limit (conn_max t) = word_limit (conn_max s)"
    by (auto simp: conn_try_acquire_def Let_def split: if_splits)
  show "word_limit (conn_max (conn_drop p s)) = word_limit (conn_max s)"
    by (simp add: conn_drop_def split: option.split)
qed

subsection \<open>Properties of the limits\<close>

text \<open>C20. The fixed-window limiter admits, in any minute-long interval, whatever its starting
  state and whatever calls for other keys come in between, at most twice the rate for one key; a
  key it has not seen gets exactly the rate, with no call refused before that.\<close>

theorem rate_limit_any_minute:
  assumes "rpm \<noteq> 0" and "\<forall>(u, j)\<in>set cs. t \<le> u \<and> u < t + window_ns"
  shows "admitted rpm k cs l \<le> 2 * unat rpm \<and>
    (buckets l k = None \<longrightarrow>
       admitted rpm k cs l = min (length (filter (\<lambda>(u, j). j = k) cs)) (unat rpm))"
  using admitted_two_windows(1,3) [OF assms] by blast

theorem rate_limit_any_minute_witness:
  "admitted 2 ''a'' [(5, ''a''), (6, ''b''), (7, ''a''), (8, ''a'')] (rate_limiter_new 2) = 2"
proof -
  have "\<forall>(u, j)\<in>set [(5::nat, ''a''), (6, ''b''), (7, ''a''), (8, ''a'')].
      5 \<le> u \<and> u < 5 + window_ns"
    by (simp add: window_ns_def)
  from rate_limit_any_minute [OF _ this, of 2 "''a''" "rate_limiter_new 2"] show ?thesis
    by (simp add: rate_limiter_new_def)
qed

text \<open>No entry of the connection table is zero, so the table holds exactly the addresses with an
  open connection.\<close>

definition no_zero_counts :: "ip_conn_tracker \<Rightarrow> bool" where
  "no_zero_counts t \<longleftrightarrow> (\<forall>ip. conn_counts t ip \<noteq> Some 0)"

lemma conn_step_no_zero:
  assumes "pool_step conn_try_acquire conn_drop (s, ps) (t, qs)" and "no_zero_counts s"
  shows "no_zero_counts t"
  using assms(1)
proof cases
  case (grant k p)
  have "n + 1 \<noteq> 0" if "n < conn_max s" for n
    using unat_Suc_less [OF that] by (metis Zero_not_Suc unat_0)
  with grant(2) assms(2) show ?thesis
    by (auto simp: conn_try_acquire_def no_zero_counts_def not_le Let_def split: if_splits)
next
  case (refuse k e)
  then show ?thesis using assms(2)
    by (auto simp: conn_try_acquire_def no_zero_counts_def Let_def split: if_splits)
next
  case (dropped p)
  then show ?thesis using assms(2)
    by (auto simp: conn_drop_def no_zero_counts_def split: option.splits if_splits)
qed

lemma conn_reach_no_zero:
  assumes "(pool_step conn_try_acquire conn_drop)\<^sup>*\<^sup>* (ip_conn_tracker_new m, []) (t, ps)"
  shows "no_zero_counts t"
  using assms
proof (induction "(t, ps)" arbitrary: t ps rule: rtranclp_induct)
  case base
  then show ?case by (simp add: no_zero_counts_def ip_conn_tracker_new_def)
next
  case (step y)
  then show ?case by (cases y) (blast intro: conn_step_no_zero)
qed

lemma conn_held: "conn.held ps ip = length (filter (\<lambda>p. p = Some ip) ps)"
proof (induction ps)
  case (Cons p ps)
  then show ?case unfolding conn.held_simps by (simp add: conn_weight_def [of p ip])
qed (simp add: conn.held_simps)

lemma gate_held: "gate.held ps u = length (filter id ps)"
proof (induction ps)
  case (Cons p ps)
  then show ?case unfolding gate.held_simps
    by (cases p) (simp_all add: gate_weight_def [of True] gate_weight_def [of False])
qed (simp add: gate.held_simps)

text \<open>C37. Connections per address, over any interleaving of accepted, refused and closed
  connections: each address has at most the configured number of open connections, the table
  contains exactly the addresses with an open connection (it cannot grow without bound), and a
  connection is refused only when its address really holds that many.\<close>

theorem ip_connections_capped:
  assumes "m \<noteq> 0"
    and "(pool_step conn_try_acquire conn_drop)\<^sup>*\<^sup>* (ip_conn_tracker_new m, []) (t, ps)"
  shows "length (filter (\<lambda>p. p = Some ip) ps) \<le> unat m \<and>
    dom (conn_counts t) = {a. Some a \<in> set ps} \<and>
    (fst (conn_try_acquire ip t) = Inl RateLimited \<longleftrightarrow>
       length (filter (\<lambda>p. p = Some (conn_slot ip)) ps) = unat m)"
proof -
  have "conn_used (ip_conn_tracker_new m) j = 0" for j
    by (simp add: conn_used_def ip_conn_tracker_new_def)
  note acc = conn.accountedD [OF conn.pool_accounted [OF assms(2) this], unfolded conn_held]
  have lim: "word_limit (conn_max (ip_conn_tracker_new m)) = Some (unat m)"
    using assms(1) by (simp add: word_limit_def ip_conn_tracker_new_def)
  have max: "conn_max t = m" using acc(1) by (simp add: word_limit_inject ip_conn_tracker_new_def)
  have "conn_counts t a \<noteq> None \<longleftrightarrow> conn_used t a \<noteq> 0" for a
    using conn_reach_no_zero [OF assms(2)]
    by (cases "conn_counts t a") (auto simp: no_zero_counts_def conn_used_def unat_gt_0)
  then have "dom (conn_counts t) = {a. Some a \<in> set ps}"
    using acc(2) by (auto simp: filter_empty_conv dom_def)
  moreover have "fst (conn_try_acquire ip t) = Inl RateLimited \<longleftrightarrow>
      unat m \<le> conn_used t (conn_slot ip)"
    using assms(1) max
    by (auto simp: conn_try_acquire_def conn_used_def conn_slot_def word_le_nat_alt Let_def
        split: option.splits if_splits)
  ultimately show ?thesis
    using acc(2) acc(3) [OF lim] by (auto intro: le_antisym)
qed

theorem ip_connections_capped_witness:
  "fst (conn_try_acquire ''::1'' (snd (conn_try_acquire ''::1'' (ip_conn_tracker_new 1))))
     = Inl RateLimited"
proof -
  let ?t = "snd (conn_try_acquire ''::1'' (ip_conn_tracker_new 1))"
  have "conn_try_acquire ''::1'' (ip_conn_tracker_new 1) = (Inr (Some ''::1''), ?t)"
    by (simp add: conn_try_acquire_def ip_conn_tracker_new_def Let_def)
  then have "(pool_step conn_try_acquire conn_drop)\<^sup>*\<^sup>* (ip_conn_tracker_new 1, []) (?t, [Some ''::1''])"
    by (blast intro: r_into_rtranclp pool_step.grant)
  from ip_connections_capped [OF _ this, of "''::1''"] show ?thesis
    by (simp add: conn_slot_def)
qed

text \<open>C36. Concurrent attestation quotes: over any interleaving of acquired, refused and dropped
  permits of the in-flight gate, the counter equals the number of active permits, it never
  exceeds the configured maximum, and a refusal means that the maximum is in use; a maximum of
  zero switches the gate off.\<close>

theorem inflight_gate_exact:
  assumes "(pool_step (\<lambda>_::unit. gate_try_acquire) gate_drop)\<^sup>*\<^sup>* (inflight_gate_new m, []) (g, ps)"
  shows "unat (gate_current g) = length (filter id ps) \<and>
    (m \<noteq> 0 \<longrightarrow> length (filter id ps) \<le> unat m) \<and>
    (fst (gate_try_acquire g) = Inl RateLimited \<longleftrightarrow> m \<noteq> 0 \<and> length (filter id ps) = unat m)"
proof -
  have "gate_used (inflight_gate_new m) j = 0" for j
    by (simp add: gate_used_def inflight_gate_new_def)
  note acc = gate.accountedD [OF gate.pool_accounted [OF assms this], unfolded gate_held]
  have acc: "word_limit (gate_max g) = word_limit m"
      "unat (gate_current g) = length (filter id ps)"
      "m \<noteq> 0 \<longrightarrow> length (filter id ps) \<le> unat m"
    using acc by (simp_all add: gate_used_def inflight_gate_new_def word_limit_def)
  then have "gate_max g = m" by (simp add: word_limit_inject)
  then have "fst (gate_try_acquire g) = Inl RateLimited \<longleftrightarrow> m \<noteq> 0 \<and> unat m \<le> unat (gate_current g)"
    by (auto simp: gate_try_acquire_def word_le_nat_alt)
  with acc show ?thesis by auto
qed

theorem inflight_gate_exact_witness:
  "fst (gate_try_acquire (snd (gate_try_acquire (inflight_gate_new 1)))) = Inl RateLimited"
proof -
  let ?g = "snd (gate_try_acquire (inflight_gate_new 1))"
  have "gate_try_acquire (inflight_gate_new 1) = (Inr True, ?g)"
    by (simp add: gate_try_acquire_def inflight_gate_new_def)
  then have "(pool_step (\<lambda>_::unit. gate_try_acquire) gate_drop)\<^sup>*\<^sup>* (inflight_gate_new 1, []) (?g, [True])"
    by (intro r_into_rtranclp pool_step.grant [where k = "()"]) simp
  from inflight_gate_exact [OF this] show ?thesis by simp
qed

end
