(* ===== verification/Key_Auth.thy ===== *)
theory Key_Auth
  imports Api_Error
begin

text \<open>
  Keys, policies and the file catalog: \<open>key_format.rs\<close>, \<open>authz.rs\<close>, \<open>catalog.rs\<close> and
  \<open>auth.rs\<close> of \<open>crates/openapi-core/src\<close>. A signed document is verified over the bytes of its
  unsigned part; the bytes are produced by the serialisers of the record \<open>auth_ext\<close>, which
  receive the document as its serde attributes present it (\<open>skip_serializing_if\<close> drops a field).
\<close>

subsection \<open>The format of an API key\<close>

definition OPENAPI_KEY_PREFIX :: string where
  "OPENAPI_KEY_PREFIX = ''sk-teechat-''"

definition OPENAPI_KEY_ID_PREFIX :: string where
  "OPENAPI_KEY_ID_PREFIX = ''tcak_''"

record parsed_api_key =
  pk_key_id :: string
  pk_secret :: string
  pk_full_key :: string

definition hash_api_key :: "'x ext_scheme \<Rightarrow> string \<Rightarrow> string" where
  "hash_api_key X api_key = hex_encode X (sha256 X (as_bytes api_key))"

definition is_valid_key_id :: "string \<Rightarrow> bool" where
  "is_valid_key_id key_id \<longleftrightarrow>
     starts_with key_id OPENAPI_KEY_ID_PREFIX \<and>
     (let sfx = drop (length OPENAPI_KEY_ID_PREFIX) key_id
      in length sfx = 8 \<and> list_all is_ascii_alphanumeric sfx)"

definition is_secret_char :: "char \<Rightarrow> bool" where
  "is_secret_char c \<longleftrightarrow> is_ascii_alphanumeric c \<or> c = CHR ''_'' \<or> c = CHR ''-''"

definition parse_api_key :: "string \<Rightarrow> parsed_api_key option" where
  "parse_api_key raw =
     (let token = trim raw
      in if \<not> starts_with token OPENAPI_KEY_PREFIX then None
         else let rest = drop (length OPENAPI_KEY_PREFIX) token
              in (case rfind (CHR ''.'') rest of
                    None \<Rightarrow> None
                  | Some dot \<Rightarrow>
                      if dot = 0 then None
                      else let key_id = take dot rest; secret = drop (dot + 1) rest
                           in if \<not> is_valid_key_id key_id \<or> length secret < 32 then None
                              else if \<not> list_all is_secret_char secret then None
                              else Some \<lparr>pk_key_id = key_id, pk_secret = secret,
                                         pk_full_key = token\<rparr>))"

subsection \<open>Policies and signed authorisations\<close>

record key_policy =
  pol_models :: "string list"
  pol_rpm :: u32
  pol_key_set :: string
  pol_remaining_tokens :: "nat option"
  pol_max_in_flight :: "nat option"
  pol_max_context_tokens :: "nat option"

definition is_default_key_set :: "string \<Rightarrow> bool" where
  "is_default_key_set s \<longleftrightarrow> s = [] \<or> s = ''api''"

definition unrestricted :: key_policy where
  "unrestricted =
     \<lparr>pol_models = [''*''], pol_rpm = 0, pol_key_set = ''api'', pol_remaining_tokens = None,
      pol_max_in_flight = None, pol_max_context_tokens = None\<rparr>"

definition allows_model :: "key_policy \<Rightarrow> string \<Rightarrow> bool" where
  "allows_model p model = list_ex (\<lambda>entry. entry = ''*'' \<or> entry = model) (pol_models p)"

definition effective_rpm :: "key_policy \<Rightarrow> u32 \<Rightarrow> u32" where
  "effective_rpm p global_rpm =
     (if global_rpm = 0 \<and> pol_rpm p = 0 then 0
      else if global_rpm = 0 then pol_rpm p
      else if pol_rpm p = 0 then global_rpm
      else min global_rpm (pol_rpm p))"

record signed_authz =
  authz_version :: u32
  authz_key_id :: string
  authz_key_hash_hex :: string
  authz_account_id :: string
  authz_policy :: key_policy
  authz_exp_ms :: nat
  authz_epoch :: nat
  authz_signature_hex :: string

record signed_revocation =
  revoke_version :: u32
  rev_key_id :: string
  rev_revoked_at_ms :: nat
  rev_epoch :: nat
  rev_signature_hex :: string

record key_record =
  kr_key_id :: string
  kr_key_hash_hex :: string
  kr_revoked :: bool

record signed_key_catalog =
  catalog_version :: u32
  cat_issued_at_ms :: nat
  cat_keys :: "key_record list"
  cat_signature_hex :: string

text \<open>The unsigned documents, with the optional fields that are left out when serialised.\<close>

record policy_wire =
  pw_models :: "string list"
  pw_rpm :: u32
  pw_key_set :: "string option"
  pw_remaining_tokens :: "nat option"
  pw_max_in_flight :: "nat option"
  pw_max_context_tokens :: "nat option"

definition policy_wire :: "key_policy \<Rightarrow> policy_wire" where
  "policy_wire p =
     \<lparr>pw_models = pol_models p, pw_rpm = pol_rpm p,
      pw_key_set = (if is_default_key_set (pol_key_set p) then None else Some (pol_key_set p)),
      pw_remaining_tokens = pol_remaining_tokens p, pw_max_in_flight = pol_max_in_flight p,
      pw_max_context_tokens = pol_max_context_tokens p\<rparr>"

record unsigned_authz =
  ua_version :: u32
  ua_key_id :: string
  ua_key_hash_hex :: string
  ua_account_id :: string
  ua_policy :: policy_wire
  ua_exp_ms :: nat
  ua_epoch :: nat

record unsigned_revocation =
  ur_version :: u32
  ur_key_id :: string
  ur_revoked_at_ms :: nat
  ur_epoch :: nat

record unsigned_catalog =
  uc_version :: u32
  uc_issued_at_ms :: nat
  uc_keys :: "key_record list"

record auth_ext = ext +
  ser_authz :: "unsigned_authz \<Rightarrow> string + bytes"
  ser_revocation :: "unsigned_revocation \<Rightarrow> string + bytes"
  ser_catalog :: "unsigned_catalog \<Rightarrow> string + bytes"

definition authz_unsigned :: "signed_authz \<Rightarrow> unsigned_authz" where
  "authz_unsigned a =
     \<lparr>ua_version = authz_version a, ua_key_id = authz_key_id a,
      ua_key_hash_hex = authz_key_hash_hex a, ua_account_id = authz_account_id a,
      ua_policy = policy_wire (authz_policy a), ua_exp_ms = authz_exp_ms a,
      ua_epoch = authz_epoch a\<rparr>"

definition authz_unsigned_bytes :: "'x auth_ext_scheme \<Rightarrow> signed_authz \<Rightarrow> api_error + bytes" where
  "authz_unsigned_bytes X a = map_err Internal (ser_authz X (authz_unsigned a))"

definition verify_family_b :: "'x ext_scheme \<Rightarrow> bytes \<Rightarrow> string \<Rightarrow> bytes \<Rightarrow> api_error + unit" where
  "verify_family_b X payload signature_hex verify_key =
     bindE (map_err (\<lambda>e. Internal (''invalid signature hex: '' @ e)) (hex_decode X signature_hex))
       (\<lambda>sig_bytes.
     bindE (map_err (\<lambda>e. Internal (''invalid signature: '' @ e)) (sig_from_slice X sig_bytes))
       (\<lambda>signature.
     if ed25519_verify X verify_key payload signature then Inr ()
     else Inl (Internal ''family B signature invalid'')))"

definition authz_verify_signature ::
    "'x auth_ext_scheme \<Rightarrow> signed_authz \<Rightarrow> bytes \<Rightarrow> api_error + unit" where
  "authz_verify_signature X a verify_key =
     bindE (authz_unsigned_bytes X a)
       (\<lambda>payload. verify_family_b X payload (authz_signature_hex a) verify_key)"

definition revocation_unsigned_bytes ::
    "'x auth_ext_scheme \<Rightarrow> signed_revocation \<Rightarrow> api_error + bytes" where
  "revocation_unsigned_bytes X r =
     map_err Internal (ser_revocation X
       \<lparr>ur_version = revoke_version r, ur_key_id = rev_key_id r,
        ur_revoked_at_ms = rev_revoked_at_ms r, ur_epoch = rev_epoch r\<rparr>)"

definition revocation_verify_signature ::
    "'x auth_ext_scheme \<Rightarrow> signed_revocation \<Rightarrow> bytes \<Rightarrow> api_error + unit" where
  "revocation_verify_signature X r verify_key =
     bindE (revocation_unsigned_bytes X r)
       (\<lambda>payload. verify_family_b X payload (rev_signature_hex r) verify_key)"

subsection \<open>The signed key catalog\<close>

definition catalog_unsigned_bytes ::
    "'x auth_ext_scheme \<Rightarrow> signed_key_catalog \<Rightarrow> api_error + bytes" where
  "catalog_unsigned_bytes X c =
     map_err Internal (ser_catalog X
       \<lparr>uc_version = catalog_version c, uc_issued_at_ms = cat_issued_at_ms c,
        uc_keys = cat_keys c\<rparr>)"

definition catalog_verify_signature ::
    "'x auth_ext_scheme \<Rightarrow> signed_key_catalog \<Rightarrow> bytes \<Rightarrow> api_error + unit" where
  "catalog_verify_signature X c verify_key =
     bindE (catalog_unsigned_bytes X c) (\<lambda>payload.
     bindE (map_err (\<lambda>e. Internal (''invalid signature hex: '' @ e))
              (hex_decode X (cat_signature_hex c))) (\<lambda>sig_bytes.
     bindE (map_err (\<lambda>e. Internal (''invalid signature: '' @ e)) (sig_from_slice X sig_bytes))
       (\<lambda>signature.
     if ed25519_verify X verify_key payload signature then Inr ()
     else Inl (Internal ''catalog signature invalid''))))"

record key_catalog =
  kc_catalog :: signed_key_catalog
  kc_verify_key :: bytes

definition catalog_from_signed ::
    "'x auth_ext_scheme \<Rightarrow> signed_key_catalog \<Rightarrow> bytes \<Rightarrow> api_error + key_catalog" where
  "catalog_from_signed X c verify_key =
     bindE (catalog_verify_signature X c verify_key)
       (\<lambda>_. Inr \<lparr>kc_catalog = c, kc_verify_key = verify_key\<rparr>)"

text \<open>\<open>ct_eq\<close> compares byte strings for equality, in constant time.\<close>

definition lookup_by_api_key ::
    "'x ext_scheme \<Rightarrow> key_catalog \<Rightarrow> string \<Rightarrow> api_error + key_record" where
  "lookup_by_api_key X kc api_key =
     (let hash = hash_api_key X api_key
      in ok_or Unauthorized
           (find (\<lambda>k. \<not> kr_revoked k \<and> as_bytes (kr_key_hash_hex k) = as_bytes hash)
              (cat_keys (kc_catalog kc))))"

record auth_context =
  ctx_key_id :: string
  ctx_policy :: key_policy

text \<open>The bearer token of an \<open>Authorization\<close> header, as both authenticators extract it.\<close>

definition bearer_token :: "string option \<Rightarrow> api_error + string" where
  "bearer_token authorization =
     bindE (ok_or Unauthorized authorization) (\<lambda>header.
     bindE (ok_or Unauthorized (strip_prefix header ''Bearer '')) (\<lambda>token.
     if token = [] then Inl Unauthorized else Inr token))"

definition catalog_authenticate_bearer ::
    "'x ext_scheme \<Rightarrow> key_catalog \<Rightarrow> string option \<Rightarrow> api_error + auth_context" where
  "catalog_authenticate_bearer X kc authorization =
     bindE (bearer_token authorization) (\<lambda>token.
     bindE (lookup_by_api_key X kc token) (\<lambda>record.
     Inr \<lparr>ctx_key_id = kr_key_id record, ctx_policy = unrestricted\<rparr>))"

subsection \<open>Key format\<close>

lemma rfind_dot_take:
  assumes "rfind c s = Some i"
  shows "s = take i s @ c # drop (i + 1) s"
proof -
  obtain b where b: "s = take i s @ c # b" "i < length s"
    using assms by (auto simp: rfind_Some_iff)
  have "drop (i + 1) s = b" by (subst b(1)) (use b(2) in simp)
  with b(1) show ?thesis by metis
qed

lemma secret_no_dot: "list_all is_secret_char s \<Longrightarrow> CHR ''.'' \<notin> set s"
  by (auto simp: list_all_iff is_secret_char_def is_ascii_alphanumeric_def is_ascii_digit_def
      code_def)

text \<open>The tokens the parser accepts.\<close>

definition well_formed_key :: "string \<Rightarrow> string \<Rightarrow> bool" where
  "well_formed_key key_id secret \<longleftrightarrow>
     is_valid_key_id key_id \<and> 32 \<le> length secret \<and> list_all is_secret_char secret"

lemma parse_api_key_sound:
  assumes "parse_api_key raw = Some k"
  shows "trim raw = OPENAPI_KEY_PREFIX @ pk_key_id k @ ''.'' @ pk_secret k"
    and "well_formed_key (pk_key_id k) (pk_secret k)" and "pk_full_key k = trim raw"
proof -
  let ?rest = "drop (length OPENAPI_KEY_PREFIX) (trim raw)"
  from assms obtain dot where pre: "prefix OPENAPI_KEY_PREFIX (trim raw)"
    and dot: "rfind (CHR ''.'') ?rest = Some dot"
    and k: "pk_key_id k = take dot ?rest" "pk_secret k = drop (dot + 1) ?rest"
      "pk_full_key k = trim raw"
    and wf: "is_valid_key_id (pk_key_id k)" "32 \<le> length (pk_secret k)"
      "list_all is_secret_char (pk_secret k)"
    by (auto simp: parse_api_key_def starts_with_def Let_def split: if_splits option.splits)
  from wf show "well_formed_key (pk_key_id k) (pk_secret k)" by (simp add: well_formed_key_def)
  from k(3) show "pk_full_key k = trim raw" .
  have "?rest = pk_key_id k @ ''.'' @ pk_secret k"
    using rfind_dot_take [OF dot] k(1,2) by simp
  moreover obtain z where "trim raw = OPENAPI_KEY_PREFIX @ z" using pre by (rule prefixE)
  ultimately show "trim raw = OPENAPI_KEY_PREFIX @ pk_key_id k @ ''.'' @ pk_secret k" by simp
qed

lemma parse_api_key_complete:
  assumes "trim raw = OPENAPI_KEY_PREFIX @ key_id @ ''.'' @ secret"
    and "well_formed_key key_id secret"
  shows "parse_api_key raw =
    Some \<lparr>pk_key_id = key_id, pk_secret = secret, pk_full_key = trim raw\<rparr>"
proof -
  have "rfind (CHR ''.'') (key_id @ ''.'' @ secret) = Some (length key_id)"
    using assms(2) by (auto simp: rfind_Some_iff well_formed_key_def dest: secret_no_dot)
  moreover have "key_id \<noteq> []"
    using assms(2)
    by (auto simp: well_formed_key_def is_valid_key_id_def starts_with_def
        OPENAPI_KEY_ID_PREFIX_def)
  ultimately show ?thesis
    using assms by (simp add: parse_api_key_def starts_with_def well_formed_key_def Let_def)
qed

text \<open>Parsing an API key is exact: the parser accepts a header value precisely when, after
  trimming, it is the prefix, a key id of the documented shape, a dot and a secret of at least 32
  permitted characters, and it returns those two parts and the trimmed token.\<close>

theorem parse_api_key_exact:
  "parse_api_key raw = Some k \<longleftrightarrow>
     (\<exists>key_id secret.
        trim raw = OPENAPI_KEY_PREFIX @ key_id @ ''.'' @ secret \<and>
        well_formed_key key_id secret \<and>
        k = \<lparr>pk_key_id = key_id, pk_secret = secret, pk_full_key = trim raw\<rparr>)"
proof
  assume "parse_api_key raw = Some k"
  from parse_api_key_sound [OF this]
  show "\<exists>key_id secret.
      trim raw = OPENAPI_KEY_PREFIX @ key_id @ ''.'' @ secret \<and>
      well_formed_key key_id secret \<and>
      k = \<lparr>pk_key_id = key_id, pk_secret = secret, pk_full_key = trim raw\<rparr>"
    by (intro exI [of _ "pk_key_id k"] exI [of _ "pk_secret k"]) simp
next
  assume "\<exists>key_id secret.
      trim raw = OPENAPI_KEY_PREFIX @ key_id @ ''.'' @ secret \<and>
      well_formed_key key_id secret \<and>
      k = \<lparr>pk_key_id = key_id, pk_secret = secret, pk_full_key = trim raw\<rparr>"
  then show "parse_api_key raw = Some k" using parse_api_key_complete by blast
qed

subsection \<open>Policies\<close>

lemma allows_model_empty: "pol_models p = [] \<Longrightarrow> \<not> allows_model p m"
  by (simp add: allows_model_def)

lemma allows_model_iff: "allows_model p m \<longleftrightarrow> ''*'' \<in> set (pol_models p) \<or> m \<in> set (pol_models p)"
  by (auto simp: allows_model_def list_ex_iff)

lemma effective_rpm_eq_0: "effective_rpm p g = 0 \<longleftrightarrow> g = 0 \<and> pol_rpm p = 0"
  by (auto simp: effective_rpm_def min_def)

lemma effective_rpm_le:
  "g \<noteq> 0 \<Longrightarrow> effective_rpm p g \<le> g"
  "pol_rpm p \<noteq> 0 \<Longrightarrow> effective_rpm p g \<le> pol_rpm p"
  by (auto simp: effective_rpm_def)

lemma policy_wire_eq_iff:
  "policy_wire p = policy_wire q \<longleftrightarrow>
     (\<exists>ks. q = p\<lparr>pol_key_set := ks\<rparr> \<and>
        (ks = pol_key_set p \<or> is_default_key_set ks \<and> is_default_key_set (pol_key_set p)))"
  by (cases p; cases q) (auto simp: policy_wire_def split: if_splits)

subsection \<open>Signed documents\<close>

lemma verify_family_b_ok:
  "verify_family_b X payload s vk = Inr () \<longleftrightarrow>
     (\<exists>b sig. hex_decode X s = Inr b \<and> sig_from_slice X b = Inr sig \<and>
        ed25519_verify X vk payload sig)"
  by (auto simp: verify_family_b_def result_simps split: if_splits)

lemma authz_verify_ok:
  "authz_verify_signature X a vk = Inr () \<longleftrightarrow>
     (\<exists>payload b sig. ser_authz X (authz_unsigned a) = Inr payload \<and>
        hex_decode X (authz_signature_hex a) = Inr b \<and> sig_from_slice X b = Inr sig \<and>
        ed25519_verify X vk payload sig)"
  by (auto simp: authz_verify_signature_def authz_unsigned_bytes_def verify_family_b_ok result_simps)

subsection \<open>The catalog\<close>

lemma bearer_token_ok:
  "bearer_token h = Inr token \<longleftrightarrow> h = Some (''Bearer '' @ token) \<and> token \<noteq> []"
  by (cases h) (auto simp: bearer_token_def strip_prefix_def prefix_def split: if_splits)

lemma bearer_token_err: "bearer_token h = Inl e \<Longrightarrow> e = Unauthorized"
  by (auto simp: bearer_token_def result_simps split: if_splits)

lemma lookup_ok:
  assumes "lookup_by_api_key X kc key = Inr r"
  shows "r \<in> set (cat_keys (kc_catalog kc))" "\<not> kr_revoked r"
    "kr_key_hash_hex r = hash_api_key X key"
  using assms by (auto simp: lookup_by_api_key_def result_simps find_Some_iff Let_def)

lemma lookup_err:
  "lookup_by_api_key X kc key = Inl e \<longleftrightarrow>
     e = Unauthorized \<and>
     (\<forall>r\<in>set (cat_keys (kc_catalog kc)). kr_revoked r \<or> kr_key_hash_hex r \<noteq> hash_api_key X key)"
  by (auto simp: lookup_by_api_key_def result_simps find_None_iff Let_def)

subsection \<open>A stand-in for the crates\<close>

text \<open>A small instance of the record of crates, on which the theorems about authentication are
  applied: hashes and encodings are the identity on bytes, a document is serialised to its key id and
  a signature is valid when it repeats the verifying key followed by the payload.\<close>

definition sample_crates :: auth_ext where
  "sample_crates =
     \<lparr>sha256 = \<lambda>b. b, hex_encode = bytes_str, hex_decode = \<lambda>s. Inr (as_bytes s),
      sig_from_slice = Inr, ed25519_verify = \<lambda>vk payload sig. sig = vk @ payload,
      json_from_slice = \<lambda>b. Inl ''expected value'', json_to_vec = \<lambda>j. Inr [],
      json_to_string = \<lambda>j. [], b64url_decode = \<lambda>s. Inr (as_bytes s), b64url_encode = bytes_str,
      ser_authz = \<lambda>u. Inr (as_bytes (ua_key_id u)),
      ser_revocation = \<lambda>u. Inr (as_bytes (ur_key_id u)),
      ser_catalog = \<lambda>u. Inr []\<rparr>"

definition sample_key :: string where
  "sample_key = ''sk-teechat-tcak_abcd1234.0123456789abcdef0123456789abcdef''"

definition sample_authz :: signed_authz where
  "sample_authz =
     \<lparr>authz_version = 1, authz_key_id = ''tcak_abcd1234'', authz_key_hash_hex = sample_key,
      authz_account_id = ''acc'', authz_policy = unrestricted, authz_exp_ms = 1000,
      authz_epoch = 0, authz_signature_hex = ''Ktcak_abcd1234''\<rparr>"

definition sample_revocation :: signed_revocation where
  "sample_revocation =
     \<lparr>revoke_version = 1, rev_key_id = ''tcak_abcd1234'', rev_revoked_at_ms = 5, rev_epoch = 3,
      rev_signature_hex = ''Ktcak_abcd1234''\<rparr>"

lemma sample_parse:
  "parse_api_key sample_key =
     Some \<lparr>pk_key_id = ''tcak_abcd1234'', pk_secret = ''0123456789abcdef0123456789abcdef'',
           pk_full_key = sample_key\<rparr>"
  by code_simp

lemma sample_trim: "trim sample_key = sample_key"
  by code_simp

lemma sample_authz_signed: "authz_verify_signature sample_crates sample_authz [75] = Inr ()"
  by code_simp

lemma sample_revocation_signed:
  "revocation_verify_signature sample_crates sample_revocation [75] = Inr ()"
  by code_simp

lemma sample_hash: "hash_api_key sample_crates sample_key = sample_key"
  by code_simp

end
