(* ===== verification/Remote_Auth.thy ===== *)
theory Remote_Auth
  imports Key_Auth
begin

text \<open>
  \<open>crates/openapi-core/src/remote_auth.rs\<close>: the authenticator that asks the L0 service to
  authorise a key, caches the signed answer and applies signed revocations, and the choice
  between it and the file catalog. The L0 client is a parameter; so are the wall clock (in
  milliseconds) and the monotonic clock an operation reads. Each operation is one step on the
  state. The two reader-writer locks carry Rust's poison flag, since the code answers a poisoned
  lock with an error of its own.
\<close>

definition DEFAULT_REVOKE_POLL_SECS :: nat where
  "DEFAULT_REVOKE_POLL_SECS = 15"

record revocation_delta =
  delta_epoch :: nat
  delta_revocations :: "signed_revocation list"

record l0_client =
  l0_authorize :: "string \<Rightarrow> string \<Rightarrow> api_error + signed_authz"
  l0_fetch_revocations :: "nat \<Rightarrow> api_error + revocation_delta"

record poll_clock =
  poll_interval :: nat
  next_due :: nat

definition poll_clock_new :: "nat \<Rightarrow> nat \<Rightarrow> poll_clock" where
  "poll_clock_new interval now = \<lparr>poll_interval = interval, next_due = now + interval\<rparr>"

definition poll_reset :: "nat \<Rightarrow> poll_clock \<Rightarrow> poll_clock" where
  "poll_reset now c = c\<lparr>next_due := now + poll_interval c\<rparr>"

text \<open>One round of the loop of \<open>wait_until_due\<close>: at time \<open>now\<close> it returns, or sleeps for the
  remaining time.\<close>

definition wait_until_due_step :: "nat \<Rightarrow> poll_clock \<Rightarrow> nat option" where
  "wait_until_due_step now c = (if next_due c \<le> now then None else Some (next_due c - now))"

record remote_auth =
  ra_verify_key :: bytes
  ra_rev_poisoned :: bool
  ra_revocations :: "string set"
  ra_cache_poisoned :: bool
  ra_cache :: "string \<rightharpoonup> signed_authz"
  ra_local_epoch :: nat
  ra_poll_clock :: poll_clock

definition remote_with_poll_interval :: "bytes \<Rightarrow> nat \<Rightarrow> nat \<Rightarrow> remote_auth" where
  "remote_with_poll_interval vk interval now =
     \<lparr>ra_verify_key = vk, ra_rev_poisoned = False, ra_revocations = {},
      ra_cache_poisoned = False, ra_cache = Map.empty, ra_local_epoch = 0,
      ra_poll_clock = poll_clock_new interval now\<rparr>"

definition remote_new :: "bytes \<Rightarrow> nat \<Rightarrow> remote_auth" where
  "remote_new vk now = remote_with_poll_interval vk (DEFAULT_REVOKE_POLL_SECS * 1000000000) now"

definition apply_revocation ::
    "'x auth_ext_scheme \<Rightarrow> signed_revocation \<Rightarrow> (remote_auth, api_error, unit) op" where
  "apply_revocation X r s =
     (case revocation_verify_signature X r (ra_verify_key s) of
        Inl e \<Rightarrow> (Inl e, s)
      | Inr _ \<Rightarrow>
          if ra_rev_poisoned s then (Inl (Internal ''revocation lock poisoned''), s)
          else let s1 = s\<lparr>ra_revocations := insert (rev_key_id r) (ra_revocations s)\<rparr>
               in if ra_cache_poisoned s1 then (Inl (Internal ''cache lock poisoned''), s1)
                  else (Inr (), s1\<lparr>ra_cache := (ra_cache s1)(rev_key_id r := None)\<rparr>))"

text \<open>The loop over the frames of a delta: it counts the frames applied and stops at the first
  one that fails.\<close>

fun apply_frames ::
    "'x auth_ext_scheme \<Rightarrow> signed_revocation list \<Rightarrow> nat \<Rightarrow> (remote_auth, api_error, nat) op" where
  "apply_frames X [] applied s = (Inr applied, s)"
| "apply_frames X (r # rs) applied s =
     (case apply_revocation X r s of
        (Inl e, t) \<Rightarrow> (Inl e, t)
      | (Inr _, t) \<Rightarrow> apply_frames X rs (applied + 1) t)"

definition sync_revocations_from_l0 ::
    "'x auth_ext_scheme \<Rightarrow> l0_client \<Rightarrow> nat \<Rightarrow> (remote_auth, api_error, nat) op" where
  "sync_revocations_from_l0 X client now s =
     (let since = ra_local_epoch s
      in (case l0_fetch_revocations client since of
            Inl e \<Rightarrow> (Inl e, s)
          | Inr delta \<Rightarrow>
              (case apply_frames X (delta_revocations delta) 0 s of
                 (Inl e, t) \<Rightarrow> (Inl e, t)
               | (Inr applied, t) \<Rightarrow>
                   let t1 = (if since < delta_epoch delta
                             then t\<lparr>ra_local_epoch := delta_epoch delta\<rparr> else t)
                   in (Inr applied, t1\<lparr>ra_poll_clock := poll_reset now (ra_poll_clock t1)\<rparr>))))"

definition convoy_after_authorize ::
    "'x auth_ext_scheme \<Rightarrow> l0_client \<Rightarrow> nat \<Rightarrow> nat \<Rightarrow> (remote_auth, api_error, unit) op" where
  "convoy_after_authorize X client now epoch s =
     (if ra_local_epoch s < epoch
      then (case sync_revocations_from_l0 X client now s of
              (Inl e, t) \<Rightarrow> (Inl e, t)
            | (Inr _, t) \<Rightarrow> (Inr (), t))
      else (Inr (), s\<lparr>ra_poll_clock := poll_reset now (ra_poll_clock s)\<rparr>))"

definition cache_hit ::
    "'x auth_ext_scheme \<Rightarrow> parsed_api_key \<Rightarrow> string \<Rightarrow> nat \<Rightarrow> remote_auth
       \<Rightarrow> api_error + auth_context option" where
  "cache_hit X parsed hash now_ms s =
     (if ra_cache_poisoned s then Inl (Internal ''cache lock poisoned'')
      else (case ra_cache s (pk_key_id parsed) of
              None \<Rightarrow> Inr None
            | Some a \<Rightarrow>
                if authz_exp_ms a \<le> now_ms then Inr None
                else if as_bytes (authz_key_hash_hex a) \<noteq> as_bytes hash then Inr None
                else bindE (authz_verify_signature X a (ra_verify_key s))
                       (\<lambda>_. Inr (Some \<lparr>ctx_key_id = pk_key_id parsed,
                                       ctx_policy = authz_policy a\<rparr>))))"

definition store_cache ::
    "'x auth_ext_scheme \<Rightarrow> signed_authz \<Rightarrow> (remote_auth, api_error, unit) op" where
  "store_cache X a s =
     (case authz_verify_signature X a (ra_verify_key s) of
        Inl e \<Rightarrow> (Inl e, s)
      | Inr _ \<Rightarrow>
          if ra_cache_poisoned s then (Inl (Internal ''cache lock poisoned''), s)
          else (Inr (), s\<lparr>ra_cache := (ra_cache s)(authz_key_id a \<mapsto> a)\<rparr>))"

text \<open>The answer of L0 to a key that is not cached: verified, checked, stored, then the convoy,
  whose failure is ignored.\<close>

definition admit_authz ::
    "'x auth_ext_scheme \<Rightarrow> l0_client \<Rightarrow> nat \<Rightarrow> nat \<Rightarrow> parsed_api_key \<Rightarrow> string \<Rightarrow> signed_authz
       \<Rightarrow> (remote_auth, api_error, auth_context) op" where
  "admit_authz X client now_ms now parsed hash authz s =
     (case authz_verify_signature X authz (ra_verify_key s) of
        Inl e \<Rightarrow> (Inl e, s)
      | Inr _ \<Rightarrow>
          if authz_exp_ms authz \<le> now_ms then (Inl Unauthorized, s)
          else if as_bytes (authz_key_hash_hex authz) \<noteq> as_bytes hash then (Inl Unauthorized, s)
          else (case store_cache X authz s of
                  (Inl e, t) \<Rightarrow> (Inl e, t)
                | (Inr _, t) \<Rightarrow>
                    (Inr \<lparr>ctx_key_id = pk_key_id parsed, ctx_policy = authz_policy authz\<rparr>,
                     snd (convoy_after_authorize X client now (authz_epoch authz) t))))"

definition authenticate_parsed ::
    "'x auth_ext_scheme \<Rightarrow> l0_client \<Rightarrow> nat \<Rightarrow> nat \<Rightarrow> parsed_api_key
       \<Rightarrow> (remote_auth, api_error, auth_context) op" where
  "authenticate_parsed X client now_ms now parsed s =
     (if ra_rev_poisoned s then (Inl (Internal ''revocation lock poisoned''), s)
      else if pk_key_id parsed \<in> ra_revocations s then (Inl Unauthorized, s)
      else let hash = hash_api_key X (pk_full_key parsed)
           in (case cache_hit X parsed hash now_ms s of
                 Inl e \<Rightarrow> (Inl e, s)
               | Inr (Some ctx) \<Rightarrow> (Inr ctx, s)
               | Inr None \<Rightarrow>
                   (case l0_authorize client (pk_key_id parsed) hash of
                      Inl e \<Rightarrow> (Inl e, s)
                    | Inr authz \<Rightarrow> admit_authz X client now_ms now parsed hash authz s)))"

definition remote_authenticate_bearer ::
    "'x auth_ext_scheme \<Rightarrow> l0_client \<Rightarrow> nat \<Rightarrow> nat \<Rightarrow> string option
       \<Rightarrow> (remote_auth, api_error, auth_context) op" where
  "remote_authenticate_bearer X client now_ms now authorization s =
     (case bearer_token authorization of
        Inl e \<Rightarrow> (Inl e, s)
      | Inr token \<Rightarrow>
          (case parse_api_key token of
             None \<Rightarrow> (Inl Unauthorized, s)
           | Some parsed \<Rightarrow> authenticate_parsed X client now_ms now parsed s))"

datatype edge_authenticator = Catalog key_catalog | Remote remote_auth

definition edge_authenticate_bearer ::
    "'x auth_ext_scheme \<Rightarrow> l0_client \<Rightarrow> nat \<Rightarrow> nat \<Rightarrow> string option
       \<Rightarrow> (edge_authenticator, api_error, auth_context) op" where
  "edge_authenticate_bearer X client now_ms now authorization a =
     (case a of
        Catalog kc \<Rightarrow> (catalog_authenticate_bearer X kc authorization, Catalog kc)
      | Remote s \<Rightarrow>
          (case remote_authenticate_bearer X client now_ms now authorization s of
             (r, t) \<Rightarrow> (r, Remote t)))"

subsection \<open>What every operation keeps\<close>

text \<open>The relation between the states before and after any operation: the trusted key and the lock
  flags are untouched, revocations are only added and the epoch never goes back.\<close>

definition remote_le :: "remote_auth \<Rightarrow> remote_auth \<Rightarrow> bool" where
  "remote_le s t \<longleftrightarrow>
     ra_verify_key t = ra_verify_key s \<and> ra_rev_poisoned t = ra_rev_poisoned s \<and>
     ra_cache_poisoned t = ra_cache_poisoned s \<and>
     ra_revocations s \<subseteq> ra_revocations t \<and> ra_local_epoch s \<le> ra_local_epoch t"

lemma remote_le_refl [simp]: "remote_le s s"
  by (simp add: remote_le_def)

lemma remote_le_trans: "remote_le s t \<Longrightarrow> remote_le t u \<Longrightarrow> remote_le s u"
  by (auto simp: remote_le_def)

text \<open>The cache holds only authorisations signed by the trusted key, each under its own key id.\<close>

definition cache_signed :: "'x auth_ext_scheme \<Rightarrow> remote_auth \<Rightarrow> bool" where
  "cache_signed X s \<longleftrightarrow>
     (\<forall>k a. ra_cache s k = Some a \<longrightarrow>
        authz_key_id a = k \<and> authz_verify_signature X a (ra_verify_key s) = Inr ())"

lemma apply_revocation_le: "remote_le s (snd (apply_revocation X r s))"
  by (auto simp: apply_revocation_def remote_le_def Let_def split: sum.splits)

lemma apply_revocation_signed:
  "cache_signed X s \<Longrightarrow> cache_signed X (snd (apply_revocation X r s))"
  by (auto simp: apply_revocation_def cache_signed_def Let_def split: sum.splits)

lemma apply_frames_le: "remote_le s (snd (apply_frames X rs n s))"
proof (induction rs arbitrary: n s)
  case (Cons r rs)
  show ?case
  proof (cases "apply_revocation X r s")
    case (Pair res t)
    then have "remote_le s t" using apply_revocation_le [of s X r] by simp
    moreover have "remote_le t (snd (apply_frames X rs (n + 1) t))" by (rule Cons.IH)
    ultimately show ?thesis using Pair by (auto split: sum.splits intro: remote_le_trans)
  qed
qed simp

lemma apply_frames_signed:
  "cache_signed X s \<Longrightarrow> cache_signed X (snd (apply_frames X rs n s))"
proof (induction rs arbitrary: n s)
  case (Cons r rs)
  then have "cache_signed X (snd (apply_revocation X r s))" by (simp add: apply_revocation_signed)
  with Cons.IH show ?case by (auto split: sum.splits prod.splits)
qed simp

lemma sync_le: "remote_le s (snd (sync_revocations_from_l0 X client now s))"
proof (cases "l0_fetch_revocations client (ra_local_epoch s)")
  case (Inr delta)
  obtain res t where f: "apply_frames X (delta_revocations delta) 0 s = (res, t)"
    by fastforce
  then have "remote_le s t" using apply_frames_le [of s X "delta_revocations delta" 0] by simp
  with Inr f show ?thesis
    by (auto simp: sync_revocations_from_l0_def remote_le_def Let_def split: sum.splits)
qed (simp add: sync_revocations_from_l0_def)

lemma sync_signed:
  assumes "cache_signed X s"
  shows "cache_signed X (snd (sync_revocations_from_l0 X client now s))"
proof (cases "l0_fetch_revocations client (ra_local_epoch s)")
  case (Inr delta)
  obtain res t where f: "apply_frames X (delta_revocations delta) 0 s = (res, t)"
    by fastforce
  then have "cache_signed X t"
    using apply_frames_signed [OF assms, of "delta_revocations delta" 0] by simp
  with Inr f show ?thesis
    by (auto simp: sync_revocations_from_l0_def cache_signed_def Let_def split: sum.splits)
qed (use assms in \<open>simp add: sync_revocations_from_l0_def\<close>)

lemma convoy_le: "remote_le s (snd (convoy_after_authorize X client now epoch s))"
  using sync_le [of s X client now]
  by (auto simp: convoy_after_authorize_def remote_le_def split: sum.splits prod.splits)

lemma convoy_signed:
  "cache_signed X s \<Longrightarrow> cache_signed X (snd (convoy_after_authorize X client now epoch s))"
  using sync_signed [of X s client now]
  by (auto simp: convoy_after_authorize_def cache_signed_def split: sum.splits prod.splits)

lemma store_cache_le: "remote_le s (snd (store_cache X a s))"
  by (auto simp: store_cache_def remote_le_def split: sum.splits)

lemma store_cache_signed: "cache_signed X s \<Longrightarrow> cache_signed X (snd (store_cache X a s))"
  by (auto simp: store_cache_def cache_signed_def split: sum.splits)

lemma admit_authz_le: "remote_le s (snd (admit_authz X client now_ms now p h a s))"
  using store_cache_le [of s X a]
  by (auto simp: admit_authz_def split: sum.splits prod.splits
      intro: remote_le_trans [OF _ convoy_le])

lemma admit_authz_signed:
  "cache_signed X s \<Longrightarrow> cache_signed X (snd (admit_authz X client now_ms now p h a s))"
  using store_cache_signed [of X s a]
  by (auto simp: admit_authz_def split: sum.splits prod.splits intro: convoy_signed)

lemma authenticate_parsed_le: "remote_le s (snd (authenticate_parsed X client now_ms now p s))"
  by (auto simp: authenticate_parsed_def Let_def admit_authz_le
      split: sum.splits option.splits)

lemma authenticate_parsed_signed:
  "cache_signed X s \<Longrightarrow> cache_signed X (snd (authenticate_parsed X client now_ms now p s))"
  by (auto simp: authenticate_parsed_def Let_def admit_authz_signed
      split: sum.splits option.splits)

text \<open>The operations in any order, with any client answers and clock readings.\<close>

inductive remote_step :: "'x auth_ext_scheme \<Rightarrow> remote_auth \<Rightarrow> remote_auth \<Rightarrow> bool"
  for X where
  authenticate: "remote_step X s (snd (authenticate_parsed X client now_ms now parsed s))"
| revoke: "remote_step X s (snd (apply_revocation X r s))"
| sync: "remote_step X s (snd (sync_revocations_from_l0 X client now s))"

lemma remote_step_le: "remote_step X s t \<Longrightarrow> remote_le s t"
  by (auto elim: remote_step.cases simp: authenticate_parsed_le apply_revocation_le sync_le)

lemma remote_steps_le: "(remote_step X)\<^sup>*\<^sup>* s t \<Longrightarrow> remote_le s t"
  by (induction rule: rtranclp_induct) (auto intro: remote_le_trans remote_step_le)

lemma remote_steps_signed: "(remote_step X)\<^sup>*\<^sup>* s t \<Longrightarrow> cache_signed X s \<Longrightarrow> cache_signed X t"
proof (induction rule: rtranclp_induct)
  case (step t u)
  from step.hyps(2) step.IH [OF step.prems] show ?case
    by (auto elim!: remote_step.cases
        intro: authenticate_parsed_signed apply_revocation_signed sync_signed)
qed

subsection \<open>The contract of an authenticator\<close>

text \<open>What the request handler relies on: a request without a bearer token is refused and changes
  nothing, and an accepted one has a token that the provider vouches for.\<close>

locale bearer_auth =
  fixes auth :: "string option \<Rightarrow> ('s, api_error, auth_context) op"
    and vouched :: "'s \<Rightarrow> string \<Rightarrow> auth_context \<Rightarrow> bool"
  assumes no_token: "bearer_token h = Inl e \<Longrightarrow> auth h s = (Inl Unauthorized, s)"
    and accepts: "auth h s = (Inr ctx, t) \<Longrightarrow> bearer_token h = Inr token \<Longrightarrow> vouched s token ctx"
begin

lemma no_header_refused: "auth None s = (Inl Unauthorized, s)"
  by (rule no_token) (simp add: bearer_token_def)

lemma other_scheme_refused:
  assumes "\<not> prefix ''Bearer '' h"
  shows "auth (Some h) s = (Inl Unauthorized, s)"
proof (cases "bearer_token (Some h)")
  case (Inr token)
  with assms show ?thesis by (simp add: bearer_token_ok prefix_def)
qed (rule no_token)

lemma accepted_is_vouched:
  assumes "auth h s = (Inr ctx, t)"
  obtains token where "h = Some (''Bearer '' @ token)" "token \<noteq> []" "vouched s token ctx"
proof (cases "bearer_token h")
  case (Inl e)
  with no_token [OF Inl, of s] assms show ?thesis by simp
next
  case (Inr token)
  with assms accepts that show ?thesis by (auto simp: bearer_token_ok)
qed

end

text \<open>The catalog vouches for the tokens whose hash is in it, not revoked.\<close>

definition catalog_vouches ::
    "'x ext_scheme \<Rightarrow> key_catalog \<Rightarrow> string \<Rightarrow> auth_context \<Rightarrow> bool" where
  "catalog_vouches X kc token ctx \<longleftrightarrow>
     (\<exists>r\<in>set (cat_keys (kc_catalog kc)).
        \<not> kr_revoked r \<and> kr_key_hash_hex r = hash_api_key X token \<and>
        ctx = \<lparr>ctx_key_id = kr_key_id r, ctx_policy = unrestricted\<rparr>)"

text \<open>An authorisation for the token: signed by the trusted key, not expired, for the token's
  hash.\<close>

definition valid_authz ::
    "'x auth_ext_scheme \<Rightarrow> bytes \<Rightarrow> nat \<Rightarrow> string \<Rightarrow> signed_authz \<Rightarrow> bool" where
  "valid_authz X vk now_ms token a \<longleftrightarrow>
     authz_verify_signature X a vk = Inr () \<and> now_ms < authz_exp_ms a \<and>
     authz_key_hash_hex a = hash_api_key X token"

text \<open>The remote authenticator vouches for well-formed keys that are not revoked and have a valid
  authorisation, cached or given by L0.\<close>

definition remote_vouches ::
    "'x auth_ext_scheme \<Rightarrow> l0_client \<Rightarrow> nat \<Rightarrow> remote_auth \<Rightarrow> string \<Rightarrow> auth_context \<Rightarrow> bool" where
  "remote_vouches X client now_ms s token ctx \<longleftrightarrow>
     (\<exists>p a. parse_api_key token = Some p \<and> pk_key_id p \<notin> ra_revocations s \<and>
        valid_authz X (ra_verify_key s) now_ms (pk_full_key p) a \<and>
        (ra_cache s (pk_key_id p) = Some a \<or>
         l0_authorize client (pk_key_id p) (hash_api_key X (pk_full_key p)) = Inr a) \<and>
        ctx = \<lparr>ctx_key_id = pk_key_id p, ctx_policy = authz_policy a\<rparr>)"

lemma catalog_accepts:
  "catalog_authenticate_bearer X kc h = Inr ctx \<longleftrightarrow>
     (\<exists>token r. bearer_token h = Inr token \<and> lookup_by_api_key X kc token = Inr r \<and>
        ctx = \<lparr>ctx_key_id = kr_key_id r, ctx_policy = unrestricted\<rparr>)"
  by (auto simp: catalog_authenticate_bearer_def result_simps)

lemma cache_hit_ok:
  "cache_hit X p hash now_ms s = Inr (Some ctx) \<longleftrightarrow>
     \<not> ra_cache_poisoned s \<and>
     (\<exists>a. ra_cache s (pk_key_id p) = Some a \<and> now_ms < authz_exp_ms a \<and>
        authz_key_hash_hex a = hash \<and> authz_verify_signature X a (ra_verify_key s) = Inr () \<and>
        ctx = \<lparr>ctx_key_id = pk_key_id p, ctx_policy = authz_policy a\<rparr>)"
  by (auto simp: cache_hit_def result_simps split: option.splits)

lemma admit_authz_ok:
  assumes "admit_authz X client now_ms now p hash a s = (Inr ctx, t)"
  shows "authz_verify_signature X a (ra_verify_key s) = Inr ()" "now_ms < authz_exp_ms a"
    "authz_key_hash_hex a = hash" "ctx = \<lparr>ctx_key_id = pk_key_id p, ctx_policy = authz_policy a\<rparr>"
  using assms by (auto simp: admit_authz_def split: sum.splits if_splits prod.splits)

lemma authenticate_parsed_vouched:
  assumes "authenticate_parsed X client now_ms now p s = (Inr ctx, t)"
    and "parse_api_key token = Some p"
  shows "remote_vouches X client now_ms s token ctx"
  using assms unfolding remote_vouches_def valid_authz_def
  by (auto simp: authenticate_parsed_def Let_def cache_hit_ok split: if_splits sum.splits
      option.splits dest: admit_authz_ok)

interpretation catalog_auth: bearer_auth
  "\<lambda>h kc. (catalog_authenticate_bearer X kc h, kc)" "catalog_vouches X" for X
proof unfold_locales
  show "(catalog_authenticate_bearer X s h, s) = (Inl Unauthorized, s)"
    if "bearer_token h = Inl e" for h e s
    using that bearer_token_err [OF that] by (simp add: catalog_authenticate_bearer_def)
  show "catalog_vouches X s token ctx"
    if "(catalog_authenticate_bearer X s h, s) = (Inr ctx, t)" "bearer_token h = Inr token"
    for h s ctx t token
    using that lookup_ok [of X s token] by (auto simp: catalog_accepts catalog_vouches_def)
qed

interpretation remote: bearer_auth
  "remote_authenticate_bearer X client now_ms now" "remote_vouches X client now_ms"
  for X client now_ms now
proof unfold_locales
  show "remote_authenticate_bearer X client now_ms now h s = (Inl Unauthorized, s)"
    if "bearer_token h = Inl e" for h e s
    using that bearer_token_err [OF that] by (simp add: remote_authenticate_bearer_def)
  show "remote_vouches X client now_ms s token ctx"
    if "remote_authenticate_bearer X client now_ms now h s = (Inr ctx, t)"
      "bearer_token h = Inr token" for h s ctx t token
    using that
    by (auto simp: remote_authenticate_bearer_def intro: authenticate_parsed_vouched
        split: option.splits)
qed

fun edge_vouches ::
    "'x auth_ext_scheme \<Rightarrow> l0_client \<Rightarrow> nat \<Rightarrow> edge_authenticator \<Rightarrow> string \<Rightarrow> auth_context \<Rightarrow> bool"
where
  "edge_vouches X client now_ms (Catalog kc) token ctx = catalog_vouches X kc token ctx"
| "edge_vouches X client now_ms (Remote s) token ctx = remote_vouches X client now_ms s token ctx"

interpretation edge: bearer_auth
  "edge_authenticate_bearer X client now_ms now" "edge_vouches X client now_ms"
  for X client now_ms now
proof unfold_locales
  show "edge_authenticate_bearer X client now_ms now h a = (Inl Unauthorized, a)"
    if "bearer_token h = Inl e" for h e a
    using catalog_auth.no_token [OF that, of X] remote.no_token [OF that, of X client now_ms now]
    by (cases a) (auto simp: edge_authenticate_bearer_def)
  show "edge_vouches X client now_ms a token ctx"
    if "edge_authenticate_bearer X client now_ms now h a = (Inr ctx, t)"
      "bearer_token h = Inr token" for h a ctx t token
    using that catalog_auth.accepts [where X = X and h = h and ctx = ctx] remote.accepts [of X client now_ms now h _ ctx]
    by (cases a) (auto simp: edge_authenticate_bearer_def split: prod.splits)
qed

subsection \<open>Properties\<close>

lemma apply_revocation_ok:
  assumes "fst (apply_revocation X r s) = Inr ()"
  shows "rev_key_id r \<in> ra_revocations (snd (apply_revocation X r s))"
    and "\<not> ra_rev_poisoned (snd (apply_revocation X r s))"
    and "revocation_verify_signature X r (ra_verify_key s) = Inr ()"
  using assms by (auto simp: apply_revocation_def Let_def split: sum.splits if_splits)

lemma revoked_refused:
  "pk_key_id p \<in> ra_revocations s \<Longrightarrow> \<not> ra_rev_poisoned s \<Longrightarrow>
     authenticate_parsed X client now_ms now p s = (Inl Unauthorized, s)"
  by (simp add: authenticate_parsed_def)

lemma parse_api_key_nonempty: "parse_api_key token = Some p \<Longrightarrow> token \<noteq> []"
  by (auto simp: parse_api_key_def Let_def starts_with_def OPENAPI_KEY_PREFIX_def)

lemma remote_bearer:
  "parse_api_key token = Some p \<Longrightarrow>
     remote_authenticate_bearer X client now_ms now (Some (''Bearer '' @ token)) s =
       authenticate_parsed X client now_ms now p s"
  using parse_api_key_nonempty [of token p] bearer_token_ok [of "Some (''Bearer '' @ token)" token]
  by (simp add: remote_authenticate_bearer_def)

text \<open>C8. A revocation is permanent: once a signed revocation of a key has been applied, then after
  any sequence of authentications, further revocations and polls, whatever L0 answers meanwhile and
  whatever the clocks say, a request with that key is refused as unauthorised, without a call that
  changes the state.\<close>

theorem revocation_is_permanent:
  assumes "fst (apply_revocation X r s) = Inr ()"
    and "(remote_step X)\<^sup>*\<^sup>* (snd (apply_revocation X r s)) t"
    and "parse_api_key token = Some p" "pk_key_id p = rev_key_id r"
  shows "remote_authenticate_bearer X client now_ms now (Some (''Bearer '' @ token)) t =
           (Inl Unauthorized, t)"
proof -
  from remote_steps_le [OF assms(2)] apply_revocation_ok [OF assms(1)]
  have "pk_key_id p \<in> ra_revocations t" "\<not> ra_rev_poisoned t"
    using assms(4) by (auto simp: remote_le_def)
  then show ?thesis unfolding remote_bearer [OF assms(3)] by (simp add: revoked_refused)
qed

text \<open>C19. Authentication is sound: whatever L0 answers, a request is accepted only with a
  well-formed key that was not revoked, under an authorisation that is signed by the trusted key,
  unexpired and made for the hash of that very key; the identity is the key's own id and the policy
  the signed one.\<close>

theorem remote_authentication_sound:
  assumes "remote_authenticate_bearer X client now_ms now h s = (Inr ctx, t)"
  shows "\<exists>token p a. h = Some (''Bearer '' @ token) \<and> parse_api_key token = Some p \<and>
      pk_key_id p \<notin> ra_revocations s \<and>
      authz_verify_signature X a (ra_verify_key s) = Inr () \<and> now_ms < authz_exp_ms a \<and>
      authz_key_hash_hex a = hash_api_key X (trim token) \<and>
      ctx = \<lparr>ctx_key_id = pk_key_id p, ctx_policy = authz_policy a\<rparr>"
proof -
  obtain token where h: "h = Some (''Bearer '' @ token)"
    and v: "remote_vouches X client now_ms s token ctx"
    using assms by (rule remote.accepted_is_vouched)
  from v obtain p a where p: "parse_api_key token = Some p" and "pk_key_id p \<notin> ra_revocations s"
    "valid_authz X (ra_verify_key s) now_ms (pk_full_key p) a"
    "ctx = \<lparr>ctx_key_id = pk_key_id p, ctx_policy = authz_policy a\<rparr>"
    by (auto simp: remote_vouches_def)
  with h parse_api_key_sound(3) [OF p] show ?thesis unfolding valid_authz_def by metis
qed

definition sample_client :: l0_client where
  "sample_client =
     \<lparr>l0_authorize = \<lambda>k h. Inr sample_authz,
      l0_fetch_revocations = \<lambda>since. Inr \<lparr>delta_epoch = 3, delta_revocations = [sample_revocation]\<rparr>\<rparr>"

definition sample_remote :: remote_auth where
  "sample_remote = remote_new [75] 0"

theorem revocation_is_permanent_witness:
  "remote_authenticate_bearer sample_crates sample_client 7 7 (Some (''Bearer '' @ sample_key))
     (snd (apply_revocation sample_crates sample_revocation sample_remote)) =
   (Inl Unauthorized, snd (apply_revocation sample_crates sample_revocation sample_remote))"
proof (rule revocation_is_permanent)
  show "fst (apply_revocation sample_crates sample_revocation sample_remote) = Inr ()"
    by (simp add: apply_revocation_def sample_remote_def remote_new_def
        remote_with_poll_interval_def sample_revocation_signed)
qed (auto simp: sample_parse sample_revocation_def)

lemma sample_accepted:
  "\<exists>t. remote_authenticate_bearer sample_crates sample_client 7 7 (Some (''Bearer '' @ sample_key))
          sample_remote = (Inr \<lparr>ctx_key_id = ''tcak_abcd1234'', ctx_policy = unrestricted\<rparr>, t)"
  unfolding remote_bearer [OF sample_parse]
  by (simp add: authenticate_parsed_def cache_hit_def admit_authz_def store_cache_def
      sample_remote_def remote_new_def remote_with_poll_interval_def sample_client_def
      sample_authz_signed sample_hash)
    (simp add: sample_authz_def)

theorem remote_authentication_sound_witness:
  "\<exists>token p a. Some (''Bearer '' @ sample_key) = Some (''Bearer '' @ token) \<and>
      parse_api_key token = Some p \<and> pk_key_id p \<notin> ra_revocations sample_remote \<and>
      authz_verify_signature sample_crates a (ra_verify_key sample_remote) = Inr () \<and>
      7 < authz_exp_ms a \<and> authz_key_hash_hex a = hash_api_key sample_crates (trim token) \<and>
      \<lparr>ctx_key_id = ''tcak_abcd1234'', ctx_policy = unrestricted\<rparr> =
        \<lparr>ctx_key_id = pk_key_id p, ctx_policy = authz_policy a\<rparr>"
proof -
  obtain t where "remote_authenticate_bearer sample_crates sample_client 7 7
      (Some (''Bearer '' @ sample_key)) sample_remote =
        (Inr \<lparr>ctx_key_id = ''tcak_abcd1234'', ctx_policy = unrestricted\<rparr>, t)"
    using sample_accepted by blast
  then show ?thesis by (rule remote_authentication_sound)
qed

lemma apply_frames_ok:
  assumes "apply_frames X rs n s = (Inr m, t)"
  shows "rev_key_id ` set rs \<subseteq> ra_revocations t \<and> m = n + length rs \<and>
    (\<forall>r\<in>set rs. revocation_verify_signature X r (ra_verify_key s) = Inr ())"
  using assms
proof (induction rs arbitrary: n s)
  case (Cons r rs)
  obtain u where u: "apply_revocation X r s = (Inr (), u)"
    and rest: "apply_frames X rs (n + 1) u = (Inr m, t)"
    using Cons.prems by (cases "apply_revocation X r s") (auto split: sum.splits)
  have "ra_revocations u \<subseteq> ra_revocations t"
    using apply_frames_le [of u X rs "n + 1"] rest by (simp add: remote_le_def)
  moreover have "ra_verify_key u = ra_verify_key s"
    using u by (auto simp: apply_revocation_def Let_def split: sum.splits if_splits)
  ultimately show ?case
    using Cons.IH [OF rest] apply_revocation_ok [of X r s] u by auto
qed auto

lemma apply_frames_epoch: "ra_local_epoch (snd (apply_frames X rs n s)) = ra_local_epoch s"
proof (induction rs arbitrary: n s)
  case (Cons r rs)
  have "ra_local_epoch (snd (apply_revocation X r s)) = ra_local_epoch s"
    by (auto simp: apply_revocation_def Let_def split: sum.splits)
  with Cons.IH show ?case by (auto split: sum.splits prod.splits)
qed simp

text \<open>The epoch acknowledges revocations only once they are in force: when a poll moves the
  local epoch, it moves forward to the epoch of the fetched delta, every frame of that delta carries
  a valid signature and every key it names is revoked.\<close>

theorem epoch_moves_only_after_all_frames:
  assumes "ra_local_epoch (snd (sync_revocations_from_l0 X client now s)) \<noteq> ra_local_epoch s"
  shows "\<exists>delta. l0_fetch_revocations client (ra_local_epoch s) = Inr delta \<and>
      ra_local_epoch s < delta_epoch delta \<and>
      ra_local_epoch (snd (sync_revocations_from_l0 X client now s)) = delta_epoch delta \<and>
      fst (sync_revocations_from_l0 X client now s) = Inr (length (delta_revocations delta)) \<and>
      (\<forall>r\<in>set (delta_revocations delta).
         revocation_verify_signature X r (ra_verify_key s) = Inr () \<and>
         rev_key_id r \<in> ra_revocations (snd (sync_revocations_from_l0 X client now s)))"
proof -
  obtain delta where d: "l0_fetch_revocations client (ra_local_epoch s) = Inr delta"
    using assms by (auto simp: sync_revocations_from_l0_def Let_def split: sum.splits)
  obtain res t where f: "apply_frames X (delta_revocations delta) 0 s = (res, t)" by fastforce
  have e: "ra_local_epoch t = ra_local_epoch s"
    using apply_frames_epoch [of X "delta_revocations delta" 0 s] f by simp
  obtain n where n: "res = Inr n" and new: "ra_local_epoch s < delta_epoch delta"
    using assms d f e
    by (auto simp: sync_revocations_from_l0_def Let_def split: sum.splits if_splits)
  with d f apply_frames_ok [of X "delta_revocations delta" 0 s n t] show ?thesis
    by (auto simp: sync_revocations_from_l0_def Let_def)
qed

theorem epoch_moves_only_after_all_frames_witness:
  "\<exists>delta. l0_fetch_revocations sample_client (ra_local_epoch sample_remote) = Inr delta \<and>
      ra_local_epoch sample_remote < delta_epoch delta \<and>
      ra_local_epoch (snd (sync_revocations_from_l0 sample_crates sample_client 9 sample_remote)) =
        delta_epoch delta \<and>
      fst (sync_revocations_from_l0 sample_crates sample_client 9 sample_remote) =
        Inr (length (delta_revocations delta)) \<and>
      (\<forall>r\<in>set (delta_revocations delta).
         revocation_verify_signature sample_crates r (ra_verify_key sample_remote) = Inr () \<and>
         rev_key_id r \<in> ra_revocations
           (snd (sync_revocations_from_l0 sample_crates sample_client 9 sample_remote)))"
proof (rule epoch_moves_only_after_all_frames)
  show "ra_local_epoch (snd (sync_revocations_from_l0 sample_crates sample_client 9 sample_remote))
      \<noteq> ra_local_epoch sample_remote"
    by (simp add: sync_revocations_from_l0_def apply_revocation_def sample_client_def
        sample_remote_def remote_new_def remote_with_poll_interval_def sample_revocation_signed)
qed

text \<open>The cache keeps serving without L0: in every state reached from a fresh authenticator, a
  key whose authorisation is cached, unexpired and not revoked is accepted with the cached policy
  whatever the L0 client answers or fails with, and the request changes nothing.\<close>

theorem cached_key_needs_no_l0:
  assumes "(remote_step X)\<^sup>*\<^sup>* (remote_with_poll_interval vk interval start) s"
    and "parse_api_key token = Some p" "pk_key_id p \<notin> ra_revocations s"
    and "ra_cache s (pk_key_id p) = Some a" "now_ms < authz_exp_ms a"
    and "authz_key_hash_hex a = hash_api_key X (trim token)"
  shows "remote_authenticate_bearer X client now_ms now (Some (''Bearer '' @ token)) s =
           (Inr \<lparr>ctx_key_id = pk_key_id p, ctx_policy = authz_policy a\<rparr>, s)"
proof -
  let ?s0 = "remote_with_poll_interval vk interval start"
  have "cache_signed X ?s0" by (simp add: cache_signed_def remote_with_poll_interval_def)
  then have "cache_signed X s" by (rule remote_steps_signed [OF assms(1)])
  moreover have "\<not> ra_rev_poisoned s" "\<not> ra_cache_poisoned s"
    using remote_steps_le [OF assms(1)] by (auto simp: remote_le_def remote_with_poll_interval_def)
  ultimately have "cache_hit X p (hash_api_key X (pk_full_key p)) now_ms s =
      Inr (Some \<lparr>ctx_key_id = pk_key_id p, ctx_policy = authz_policy a\<rparr>)"
    using assms parse_api_key_sound(3) [OF assms(2)] by (auto simp: cache_hit_ok cache_signed_def)
  then show ?thesis
    using assms \<open>\<not> ra_rev_poisoned s\<close> unfolding remote_bearer [OF assms(2)]
    by (simp add: authenticate_parsed_def)
qed

text \<open>The state after the sample key was authenticated once, with L0 reachable.\<close>

definition sample_cached :: remote_auth where
  "sample_cached = snd (authenticate_parsed sample_crates sample_client 7 7
     \<lparr>pk_key_id = ''tcak_abcd1234'', pk_secret = ''0123456789abcdef0123456789abcdef'',
      pk_full_key = sample_key\<rparr> sample_remote)"

lemma sample_cached_state:
  "ra_cache sample_cached ''tcak_abcd1234'' = Some sample_authz \<and> ra_revocations sample_cached = {}"
  unfolding sample_cached_def
  by (simp add: authenticate_parsed_def cache_hit_def admit_authz_def store_cache_def
      convoy_after_authorize_def sample_remote_def remote_new_def remote_with_poll_interval_def
      sample_client_def sample_authz_signed sample_hash)
    (simp add: sample_authz_def)

theorem cached_key_needs_no_l0_witness:
  "remote_authenticate_bearer sample_crates
     \<lparr>l0_authorize = \<lambda>k h. Inl Unauthorized, l0_fetch_revocations = \<lambda>e. Inl Unauthorized\<rparr>
     8 8 (Some (''Bearer '' @ sample_key)) sample_cached =
   (Inr \<lparr>ctx_key_id = pk_key_id \<lparr>pk_key_id = ''tcak_abcd1234'',
             pk_secret = ''0123456789abcdef0123456789abcdef'', pk_full_key = sample_key\<rparr>,
         ctx_policy = authz_policy sample_authz\<rparr>, sample_cached)"
proof (rule cached_key_needs_no_l0 [OF _ sample_parse])
  show "(remote_step sample_crates)\<^sup>*\<^sup>*
      (remote_with_poll_interval [75] (DEFAULT_REVOKE_POLL_SECS * 1000000000) 0) sample_cached"
    unfolding sample_cached_def sample_remote_def remote_new_def
    by (rule r_into_rtranclp) (rule remote_step.authenticate)
qed (use sample_cached_state in \<open>auto simp: sample_trim sample_hash\<close>,
     auto simp: sample_authz_def)

end
