(* ===== verification/Quota.thy ===== *)
theory Quota
  imports Key_Auth
begin

text \<open>
  The checks on a request body: the token estimate and the two admission gates of \<open>quota.rs\<close>,
  the readers of \<open>upstream.rs\<close> and the models list of \<open>models.rs\<close>, all under
  \<open>crates/openapi-core/src\<close>. Deserialisers that serde derives are fields of \<open>body_ext\<close>. The
  logging of the gates has no effect on their result and is left out.
\<close>

record model_object =
  mo_id :: string
  mo_object :: string
  mo_created :: nat
  mo_owned_by :: string

record models_list_response =
  ml_object :: string
  ml_data :: "model_object list"

record chat_message =
  cm_role :: string
  cm_content :: json

record chat_completion_request =
  cc_model :: string
  cc_messages :: "chat_message list"
  cc_stream :: bool
  cc_extra :: json

record attestation_challenge_request =
  ac_nonce_b64 :: string

record body_ext = auth_ext +
  models_from_value :: "json \<Rightarrow> string + models_list_response"
  models_to_value :: "models_list_response \<Rightarrow> json"
  chat_from_slice :: "bytes \<Rightarrow> string + chat_completion_request"
  challenge_from_slice :: "bytes \<Rightarrow> string + attestation_challenge_request"

subsection \<open>Models\<close>

definition default_models :: models_list_response where
  "default_models =
     \<lparr>ml_object = ''list'',
      ml_data = [\<lparr>mo_id = ''teechat-default'', mo_object = ''model'', mo_created = 1700000000,
                  mo_owned_by = ''teechat''\<rparr>]\<rparr>"

definition parse_models_json :: "'x body_ext_scheme \<Rightarrow> json \<Rightarrow> api_error + models_list_response" where
  "parse_models_json X v =
     map_err (\<lambda>e. Upstream (''invalid models list: '' @ e)) (models_from_value X v)"

definition parse_models_bytes ::
    "'x body_ext_scheme \<Rightarrow> bytes \<Rightarrow> api_error + models_list_response" where
  "parse_models_bytes X b =
     bindE (map_err (\<lambda>e. Upstream (''invalid models json: '' @ e)) (json_from_slice X b))
       (parse_models_json X)"

subsection \<open>Reading request and response bodies\<close>

datatype upstream_response = UpJson json | UpRaw bytes string

definition decode_upstream_response ::
    "'x ext_scheme \<Rightarrow> nat \<Rightarrow> string \<Rightarrow> bytes \<Rightarrow> bool \<Rightarrow> api_error + upstream_response" where
  "decode_upstream_response X status content_type b wants_stream =
     (if \<not> (200 \<le> status \<and> status < 300) then
        Inl (Upstream (''upstream status '' @ show_nat status @ '': '' @ from_utf8_lossy b))
      else if wants_stream \<or> contains content_type ''text/event-stream'' then
        Inr (UpRaw b content_type)
      else bindE (map_err (\<lambda>e. Upstream (''invalid upstream json: '' @ e)) (json_from_slice X b))
             (\<lambda>j. Inr (UpJson j)))"

definition body_json :: "'x ext_scheme \<Rightarrow> bytes \<Rightarrow> json option" where
  "body_json X body = (case json_from_slice X body of Inl _ \<Rightarrow> None | Inr v \<Rightarrow> Some v)"

definition body_wants_stream :: "'x ext_scheme \<Rightarrow> bytes \<Rightarrow> bool" where
  "body_wants_stream X body =
     (case Option.bind (body_json X body) (\<lambda>v. Option.bind (json_get v ''stream'') as_bool) of
        None \<Rightarrow> False | Some b \<Rightarrow> b)"

definition model_from_body :: "'x ext_scheme \<Rightarrow> bytes \<Rightarrow> string" where
  "model_from_body X body =
     (case Option.bind (body_json X body) (\<lambda>v. Option.bind (json_get v ''model'') as_str) of
        None \<Rightarrow> ''unknown'' | Some m \<Rightarrow> m)"

subsection \<open>The token estimate\<close>

definition TIGHT_REMAINING_TOKENS :: nat where
  "TIGHT_REMAINING_TOKENS = 32000"

definition LARGE_PROMPT_TOKENS :: nat where
  "LARGE_PROMPT_TOKENS = 8000"

fun part_chars :: "json \<Rightarrow> nat" where
  "part_chars (JStr s) = length s"
| "part_chars (JObj fs) =
     (case Option.bind (map_of fs ''text'') as_str of None \<Rightarrow> 0 | Some s \<Rightarrow> length s)"
| "part_chars _ = 0"

definition content_chars :: "'x ext_scheme \<Rightarrow> json option \<Rightarrow> nat" where
  "content_chars X content =
     (case content of
        None \<Rightarrow> 0
      | Some (JStr s) \<Rightarrow> length s
      | Some (JArr parts) \<Rightarrow> sum_list (map part_chars parts)
      | Some other \<Rightarrow> length (json_to_string X other))"

definition estimate_prompt_tokens :: "'x ext_scheme \<Rightarrow> bytes \<Rightarrow> nat" where
  "estimate_prompt_tokens X body =
     (case json_from_slice X body of
        Inl _ \<Rightarrow> max (length body div 4) 1
      | Inr v \<Rightarrow>
          let chars =
            (case Option.bind (json_get v ''messages'') as_array of
               Some msgs \<Rightarrow> sum_list (map (\<lambda>m. content_chars X (json_get m ''content'')) msgs)
             | None \<Rightarrow>
                 (case json_get v ''input'' of
                    Some input \<Rightarrow> content_chars X (Some input)
                  | None \<Rightarrow>
                      (case json_get v ''prompt'' of
                         Some prompt \<Rightarrow> content_chars X (Some prompt)
                       | None \<Rightarrow> length body)))
          in max (chars div 4) 1)"

subsection \<open>The gates\<close>

definition enforce_token_quota_for_key ::
    "'x ext_scheme \<Rightarrow> key_policy \<Rightarrow> bytes \<Rightarrow> api_error + unit" where
  "enforce_token_quota_for_key X policy body =
     (case pol_remaining_tokens policy of
        None \<Rightarrow> Inr ()
      | Some remaining \<Rightarrow>
          let est = estimate_prompt_tokens X body;
              tight = remaining < TIGHT_REMAINING_TOKENS;
              large = LARGE_PROMPT_TOKENS \<le> est
          in if remaining = 0 then Inl (InsufficientQuota ''token quota exhausted'')
             else if remaining < est then
               Inl (InsufficientQuota (''estimated prompt tokens ('' @ show_nat est @
                 '') exceed remaining quota ('' @ show_nat remaining @ '')''))
             else if tight \<and> large then
               Inl (InsufficientQuota (''remaining quota ('' @ show_nat remaining @
                 '') is near exhaust; refuse large prompt (~'' @ show_nat est @ '' tokens)''))
             else Inr ())"

definition enforce_token_quota :: "'x ext_scheme \<Rightarrow> key_policy \<Rightarrow> bytes \<Rightarrow> api_error + unit" where
  "enforce_token_quota X policy body = enforce_token_quota_for_key X policy body"

definition enforce_max_context :: "'x ext_scheme \<Rightarrow> key_policy \<Rightarrow> bytes \<Rightarrow> api_error + unit" where
  "enforce_max_context X policy body =
     (case pol_max_context_tokens policy of
        None \<Rightarrow> Inr ()
      | Some m \<Rightarrow>
          let est = estimate_prompt_tokens X body
          in if m < est then
               Inl (BadRequest (''context_length_exceeded: estimated prompt tokens ('' @
                 show_nat est @ '') exceed tier max ('' @ show_nat m @ '')''))
             else Inr ())"

subsection \<open>Properties\<close>

lemma estimate_pos: "1 \<le> estimate_prompt_tokens X body"
  by (simp add: estimate_prompt_tokens_def Let_def split: sum.split)

lemma max_context_ok:
  "enforce_max_context X p body = Inr () \<longleftrightarrow>
     pol_max_context_tokens p = None \<or>
     estimate_prompt_tokens X body \<le> the (pol_max_context_tokens p)"
  by (auto simp: enforce_max_context_def Let_def split: option.splits)

lemma quota_err: "enforce_token_quota_for_key X p body = Inl e \<Longrightarrow> \<exists>msg. e = InsufficientQuota msg"
  by (auto simp: enforce_token_quota_for_key_def Let_def split: option.splits if_splits)

lemma max_context_err: "enforce_max_context X p body = Inl e \<Longrightarrow> \<exists>msg. e = BadRequest msg"
  by (auto simp: enforce_max_context_def Let_def split: option.splits if_splits)

lemma quota_ok:
  "enforce_token_quota_for_key X p body = Inr () \<longleftrightarrow>
     (case pol_remaining_tokens p of
        None \<Rightarrow> True
      | Some r \<Rightarrow> estimate_prompt_tokens X body \<le> r \<and>
                 (TIGHT_REMAINING_TOKENS \<le> r \<or> estimate_prompt_tokens X body < LARGE_PROMPT_TOKENS))"
  using estimate_pos [of X body]
  by (auto simp: enforce_token_quota_for_key_def Let_def split: option.splits if_splits)

text \<open>The quota gate: a key with a quota is let through only when the estimate fits in what
  remains and, below 32000 remaining tokens, the prompt is under 8000; a larger budget never turns
  such a prompt away, a prompt over the budget is refused as a quota error, and a key without a
  quota always passes.\<close>

theorem quota_gate:
  assumes "pol_remaining_tokens p = Some r" "r \<le> r'"
  shows "if enforce_token_quota_for_key X p body = Inr ()
         then estimate_prompt_tokens X body \<le> r \<and>
              (r < 32000 \<longrightarrow> estimate_prompt_tokens X body < 8000) \<and>
              enforce_token_quota_for_key X (p\<lparr>pol_remaining_tokens := Some r'\<rparr>) body = Inr () \<and>
              enforce_token_quota_for_key X (p\<lparr>pol_remaining_tokens := None\<rparr>) body = Inr ()
         else (\<exists>msg. enforce_token_quota_for_key X p body = Inl (InsufficientQuota msg)) \<and>
              (r < estimate_prompt_tokens X body \<or>
               r < 32000 \<and> 8000 \<le> estimate_prompt_tokens X body)"
proof (cases "enforce_token_quota_for_key X p body")
  case (Inl e)
  then have "\<not> enforce_token_quota_for_key X p body = Inr ()" by simp
  then have "r < estimate_prompt_tokens X body \<or>
      r < 32000 \<and> 8000 \<le> estimate_prompt_tokens X body"
    using assms
    by (auto simp: quota_ok TIGHT_REMAINING_TOKENS_def LARGE_PROMPT_TOKENS_def not_le not_less)
  with quota_err [OF Inl] Inl show ?thesis by auto
next
  case (Inr u)
  with quota_ok [of X p body] assms show ?thesis
    by (auto simp: quota_ok TIGHT_REMAINING_TOKENS_def LARGE_PROMPT_TOKENS_def)
qed

theorem quota_gate_witness:
  "estimate_prompt_tokens sample_crates [] \<le> 5 \<and>
   enforce_token_quota_for_key sample_crates
     (unrestricted\<lparr>pol_remaining_tokens := Some 5, pol_remaining_tokens := Some 9\<rparr>) [] = Inr ()"
proof -
  have "enforce_token_quota_for_key sample_crates (unrestricted\<lparr>pol_remaining_tokens := Some 5\<rparr>) [] =
      Inr ()"
    by code_simp
  then show ?thesis
    using quota_gate [of "unrestricted\<lparr>pol_remaining_tokens := Some 5\<rparr>" 5 9 sample_crates "[]"]
    by simp
qed

text \<open>The stand-in crates extended by the body deserialisers: every chat request is read as one
  message, every challenge request as a nonce of 32 zero bytes.\<close>

definition sample_body_crates :: body_ext where
  "sample_body_crates =
     auth_ext.extend sample_crates
       (body_ext.fields (\<lambda>v. Inr default_models) (\<lambda>m. JArr (map (JStr \<circ> mo_id) (ml_data m)))
          (\<lambda>b. Inr \<lparr>cc_model = ''m'', cc_messages = [\<lparr>cm_role = ''user'', cm_content = JNull\<rparr>],
                  cc_stream = False, cc_extra = JNull\<rparr>)
          (\<lambda>b. Inr \<lparr>ac_nonce_b64 = replicate 32 (CHR 0x00)\<rparr>))"

end
