(* ===== verification/Rfc3339.thy ===== *)
theory Rfc3339
  imports Rust_Std
begin

text \<open>
  The timestamp parser of \<open>crates/openapi-core/src/maintenance.rs\<close> and its civil-date arithmetic.
  \<open>i64\<close> arithmetic is \<open>int\<close> arithmetic wrapped after each operation that can leave the range.
\<close>

definition i64 :: "int \<Rightarrow> int" where
  "i64 x = (x + 2 ^ 63) mod 2 ^ 64 - 2 ^ 63"

definition days_from_civil :: "int \<Rightarrow> nat \<Rightarrow> nat \<Rightarrow> string + int" where
  "days_from_civil year month day =
     (if \<not> (1 \<le> month \<and> month \<le> 12) \<or> \<not> (1 \<le> day \<and> day \<le> 31) then Inl ''bad_ymd''
      else let y = (if month \<le> 2 then i64 (year - 1) else year);
               era = y div 400;
               yoe = nat (y mod 400);
               mp = (if 2 < month then month - 3 else month + 9);
               doy = (153 * mp + 2) div 5 + day - 1;
               doe = yoe * 365 + yoe div 4 - yoe div 100 + doy
           in Inr (i64 (i64 (era * 146097 + int doe) - 719468)))"

fun drop_plus :: "string \<Rightarrow> string" where
  "drop_plus (c # s) = (if c = CHR ''+'' then drop_plus s else c # s)"
| "drop_plus [] = []"

text \<open>A byte that begins a character, where a string may be cut.\<close>

definition char_boundary :: "string \<Rightarrow> nat \<Rightarrow> bool" where
  "char_boundary s i \<longleftrightarrow>
     i = 0 \<or> i = length s \<or> i < length s \<and> \<not> (128 \<le> code (s ! i) \<and> code (s ! i) < 192)"

text \<open>The four-character form is cut at byte 2, which panics inside a character.\<close>

definition parse_offset :: "string \<Rightarrow> string + int" where
  "parse_offset s0 =
     (let s = drop_plus s0;
          parts =
            (case split_once (CHR '':'') s of
               Some (a, b) \<Rightarrow>
                 bindE (ok_or ''offset_h'' (parse_i64 a)) (\<lambda>h.
                 bindE (ok_or ''offset_m'' (parse_i64 b)) (\<lambda>m. Inr (h, m)))
             | None \<Rightarrow>
                 if length s = 4 then
                   (if char_boundary s 2 then
                      bindE (ok_or ''offset_h'' (parse_i64 (take 2 s))) (\<lambda>h.
                      bindE (ok_or ''offset_m'' (parse_i64 (drop 2 s))) (\<lambda>m. Inr (h, m)))
                    else Inl ''panic: not a char boundary'')
                 else Inl ''offset_fmt'')
      in bindE parts (\<lambda>(h, m). Inr (i64 (i64 (h * 3600000) + i64 (m * 60000)))))"

text \<open>The last sign of the given kind after the date.\<close>

definition rfind_after_date :: "char \<Rightarrow> string \<Rightarrow> nat option" where
  "rfind_after_date c s =
     (case rfind c s of None \<Rightarrow> None | Some i \<Rightarrow> if 10 < i then Some i else None)"

definition split_offset :: "string \<Rightarrow> string + (string \<times> int)" where
  "split_offset s =
     (case rfind_after_date (CHR ''+'') s of
        Some i \<Rightarrow> bindE (parse_offset (drop i s)) (\<lambda>off. Inr (take i s, off))
      | None \<Rightarrow>
          (case rfind_after_date (CHR ''-'') s of
             Some i \<Rightarrow> bindE (parse_offset (CHR ''+'' # drop (i + 1) s))
                         (\<lambda>off. Inr (take i s, i64 (- off)))
           | None \<Rightarrow> Inl ''rfc3339_missing_offset''))"

text \<open>The next piece of a split string, parsed; the pieces after it are kept.\<close>

definition next_num :: "(string \<Rightarrow> 'n option) \<Rightarrow> string \<Rightarrow> string list \<Rightarrow> string + 'n \<times> string list" where
  "next_num parse name ps =
     (case ps of
        [] \<Rightarrow> Inl name
      | p # rest \<Rightarrow> (case parse p of None \<Rightarrow> Inl name | Some n \<Rightarrow> Inr (n, rest)))"

definition frac_millis :: "string option \<Rightarrow> nat" where
  "frac_millis frac =
     (case frac of
        None \<Rightarrow> 0
      | Some f \<Rightarrow>
          let digits = take 3 f; padded = digits @ replicate (3 - length digits) (CHR ''0'')
          in (case parse_u32 padded of None \<Rightarrow> 0 | Some n \<Rightarrow> n))"

definition parse_rfc3339_ms :: "string \<Rightarrow> string + nat" where
  "parse_rfc3339_ms s0 =
     (let s = trim s0;
          normalized = (case strip_suffix s ''Z'' of Some rest \<Rightarrow> rest @ ''+00:00'' | None \<Rightarrow> s)
      in bindE (split_offset normalized) (\<lambda>(datetime, offset).
         bindE (ok_or ''rfc3339_missing_T'' (split_once (CHR ''T'') datetime)) (\<lambda>(date, tim).
         let d = split_on (\<lambda>c. c = CHR ''-'') date
         in bindE (next_num parse_i64 ''year'' d) (\<lambda>(year, d).
            bindE (next_num parse_u32 ''month'' d) (\<lambda>(month, d).
            bindE (next_num parse_u32 ''day'' d) (\<lambda>(day, d).
            let (time_main, frac) =
                  (case split_once (CHR ''.'') tim of
                     Some (a, b) \<Rightarrow> (a, Some b) | None \<Rightarrow> (tim, None));
                t = split_on (\<lambda>c. c = CHR '':'') time_main
            in bindE (next_num parse_u32 ''hour'' t) (\<lambda>(hour, t).
               bindE (next_num parse_u32 ''minute'' t) (\<lambda>(minute, t).
               bindE (next_num parse_u32 ''second'' t) (\<lambda>(second, t).
               let millis = frac_millis frac
               in bindE (days_from_civil year month day) (\<lambda>days.
                  let day_ms = i64 (days * 86400000);
                      tod_ms = int hour * 3600000 + int minute * 60000 + int second * 1000 +
                               int millis;
                      utc_ms = i64 (i64 (day_ms + tod_ms) - offset)
                  in if utc_ms < 0 then Inl ''before_epoch'' else Inr (nat utc_ms)))))))))))"

subsection \<open>Civil dates\<close>

definition leap_year :: "int \<Rightarrow> bool" where
  "leap_year y \<longleftrightarrow> 4 dvd y \<and> (\<not> 100 dvd y \<or> 400 dvd y)"

definition days_in_month :: "int \<Rightarrow> nat \<Rightarrow> nat" where
  "days_in_month y m =
     (if m = 2 then if leap_year y then 29 else 28
      else if m \<in> {4, 6, 9, 11} then 30 else 31)"

definition valid_date :: "int \<Rightarrow> nat \<Rightarrow> nat \<Rightarrow> bool" where
  "valid_date y m d \<longleftrightarrow> 1 \<le> m \<and> m \<le> 12 \<and> 1 \<le> d \<and> d \<le> days_in_month y m"

definition next_date :: "int \<Rightarrow> nat \<Rightarrow> nat \<Rightarrow> int \<times> nat \<times> nat" where
  "next_date y m d =
     (if d < days_in_month y m then (y, m, d + 1)
      else if m < 12 then (y, m + 1, 1) else (y + 1, 1, 1))"

text \<open>The day number without wrap-around: the days before the March-based year, those before the
  month, and the day.\<close>

definition year_start :: "int \<Rightarrow> int" where
  "year_start y = (y div 400) * 146097 + (y mod 400) * 365 + (y mod 400) div 4 - (y mod 400) div 100"

definition month_start :: "nat \<Rightarrow> int" where
  "month_start m = int ((153 * (if 2 < m then m - 3 else m + 9) + 2) div 5)"

definition civil_day :: "int \<Rightarrow> nat \<Rightarrow> nat \<Rightarrow> int" where
  "civil_day y m d =
     year_start (if m \<le> 2 then y - 1 else y) + month_start m + int d - 1 - 719468"

lemma i64_id: "- (2 ^ 63) \<le> x \<Longrightarrow> x < 2 ^ 63 \<Longrightarrow> i64 x = x"
  by (simp add: i64_def)

lemma div_next:
  assumes "0 \<le> r"
  shows "(r + 1) div int n = r div int n + (if int n dvd r + 1 then 1 else 0)"
proof -
  obtain k where k: "r = int k" using assms zero_le_imp_eq_int by blast
  have "(r + 1) div int n = int (Suc k div n)" by (simp add: k zdiv_int add.commute)
  moreover have "int n dvd r + 1 \<longleftrightarrow> Suc k mod n = 0"
    using int_dvd_int_iff [of n "Suc k"] by (simp add: k dvd_eq_mod_eq_0 add.commute)
  ultimately show ?thesis by (simp add: div_Suc k zdiv_int)
qed

lemma leap_in_cycle:
  assumes "0 \<le> r" "r < 399"
  shows "leap_year (400 * e + (r + 1)) \<longleftrightarrow> 4 dvd r + 1 \<and> \<not> 100 dvd r + 1"
proof -
  have "\<not> 400 dvd r + 1" using assms by (simp add: zdvd_not_zless)
  moreover have "(4 :: int) dvd 400 * e" "(100 :: int) dvd 400 * e" "(400 :: int) dvd 400 * e"
    by (simp_all add: dvd_mult2)
  ultimately show ?thesis by (simp add: leap_year_def dvd_add_right_iff)
qed

lemma year_start_Suc: "year_start (y + 1) = year_start y + (if leap_year (y + 1) then 366 else 365)"
proof -
  define e r where "e = y div 400" and "r = y mod 400"
  have y: "y = 400 * e + r" "0 \<le> r" "r < 400" by (simp_all add: e_def r_def)
  show ?thesis
  proof (cases "r = 399")
    case True
    have "y + 1 = 400 * (e + 1)" using y True by simp
    then have "year_start (y + 1) = (e + 1) * 146097" "leap_year (y + 1)"
      by (simp_all add: year_start_def leap_year_def)
    moreover have "year_start y = e * 146097 + 145731"
      using True by (simp add: year_start_def e_def r_def)
    ultimately show ?thesis by simp
  next
    case False
    then have r: "r < 399" using y(3) by simp
    have y1: "y + 1 = (r + 1) + e * 400" using y(1) by simp
    have "(y + 1) div 400 = e" "(y + 1) mod 400 = r + 1"
      unfolding y1 using y(2) r by simp_all
    then have "year_start (y + 1) =
        e * 146097 + (r + 1) * 365 + (r + 1) div 4 - (r + 1) div 100"
      by (simp add: year_start_def)
    moreover have "year_start y = e * 146097 + r * 365 + r div 4 - r div 100"
      by (simp add: year_start_def e_def r_def)
    moreover have "leap_year (y + 1) \<longleftrightarrow> 4 dvd r + 1 \<and> \<not> 100 dvd r + 1"
      using leap_in_cycle [OF y(2) r, of e] y(1) by (simp add: add.assoc)
    moreover have "100 dvd r + 1 \<Longrightarrow> 4 dvd r + 1"
      by (rule dvd_trans [of 4 100]) simp_all
    ultimately show ?thesis
      using div_next [OF y(2), of 4] div_next [OF y(2), of 100] by (auto split: if_splits)
  qed
qed

text \<open>The years for which no operation of the computation leaves the range of \<open>i64\<close>, far beyond those
  of any timestamp.\<close>

definition sane_year :: "int \<Rightarrow> bool" where
  "sane_year y \<longleftrightarrow> \<bar>y\<bar> \<le> 1000000"

lemma cycle_days:
  assumes "0 \<le> r"
  shows "int (nat r * 365 + nat r div 4 - nat r div 100 + k) = r * 365 + r div 4 - r div 100 + int k"
proof -
  have "nat r div 100 \<le> nat r * 365 + nat r div 4" by (simp add: le_trans [OF div_le_dividend])
  then show ?thesis using assms by (simp add: of_nat_diff zdiv_int)
qed

lemma year_start_bounds:
  assumes "\<bar>y\<bar> \<le> B"
  shows "- (146097 * B + 300000) \<le> year_start y \<and> year_start y \<le> 146097 * B + 300000"
proof -
  have "- B \<le> y div 400" "y div 400 \<le> B" using assms by linarith+
  moreover have "0 \<le> y mod 400" "y mod 400 < 400" by simp_all
  moreover have "0 \<le> y mod 400 div 4" "y mod 400 div 4 < 400" "0 \<le> y mod 400 div 100"
    "y mod 400 div 100 < 400"
    by linarith+
  ultimately show ?thesis unfolding year_start_def by linarith
qed

lemma month_start_bounds: "m \<le> 12 \<Longrightarrow> 0 \<le> month_start m \<and> month_start m < 400"
  by (auto simp: month_start_def)

lemma days_from_civil_eq:
  assumes "1 \<le> m" "m \<le> 12" "1 \<le> d" "d \<le> 31" "sane_year y"
  shows "days_from_civil y m d = Inr (civil_day y m d)"
proof -
  define Y where "Y = (if m \<le> 2 then y - 1 else y)"
  have Y: "\<bar>Y\<bar> \<le> 1000001" using assms(5) by (auto simp: Y_def sane_year_def)
  have w: "(if m \<le> 2 then i64 (y - 1) else y) = Y"
    using assms(5) by (simp add: Y_def sane_year_def i64_id)
  let ?doy = "(153 * (if 2 < m then m - 3 else m + 9) + 2) div 5 + d - 1"
  have "int ?doy = month_start m + int d - 1"
    using assms(3) by (simp add: month_start_def of_nat_diff)
  then have doe: "Y div 400 * 146097 +
      int (nat (Y mod 400) * 365 + nat (Y mod 400) div 4 - nat (Y mod 400) div 100 + ?doy) =
      year_start Y + month_start m + int d - 1"
    unfolding year_start_def by (subst cycle_days) simp_all
  have c: "civil_day y m d = year_start Y + month_start m + int d - 1 - 719468"
    by (simp add: civil_day_def Y_def)
  have "i64 (i64 (year_start Y + month_start m + int d - 1) - 719468) = civil_day y m d"
    unfolding c using year_start_bounds [OF Y] month_start_bounds [OF assms(2)] assms(4)
    by (simp add: i64_id)
  with assms(1-4) show ?thesis
    unfolding days_from_civil_def w Let_def doe by simp
qed

lemma month_start_Suc:
  assumes "1 \<le> m" "m < 12" "m \<noteq> 2"
  shows "month_start (m + 1) = month_start m + int (days_in_month y m)"
proof -
  have "m \<in> {1, 3, 4, 5, 6, 7, 8, 9, 10, 11}" using assms by simp presburger
  then show ?thesis by (auto simp: month_start_def days_in_month_def)
qed

lemma civil_day_next:
  assumes "valid_date y m d" "next_date y m d = (y', m', d')"
  shows "civil_day y' m' d' = civil_day y m d + 1"
proof (cases "d < days_in_month y m")
  case True
  then show ?thesis using assms(2) by (auto simp: next_date_def civil_day_def)
next
  case False
  then have d: "d = days_in_month y m" and m: "1 \<le> m" "m \<le> 12"
    using assms(1) by (auto simp: valid_date_def)
  consider "m = 2" | "m = 12" | "m < 12" "m \<noteq> 2" using m by linarith
  then show ?thesis
  proof cases
    case 1
    then have "y' = y" "m' = 3" "d' = 1" using assms(2) False by (simp_all add: next_date_def)
    moreover have "int d = (if leap_year y then 29 else 28)" by (simp add: d 1 days_in_month_def)
    ultimately show ?thesis
      using year_start_Suc [of "y - 1"] by (simp add: 1 civil_day_def month_start_def)
  next
    case 2
    then have "y' = y + 1" "m' = 1" "d' = 1" using assms(2) False by (simp_all add: next_date_def)
    moreover have "int d = 31" by (simp add: d 2 days_in_month_def)
    ultimately show ?thesis by (simp add: 2 civil_day_def month_start_def)
  next
    case 3
    then have "y' = y" "m' = m + 1" "d' = 1" using assms(2) False by (simp_all add: next_date_def)
    moreover have "(m + 1 \<le> 2) = (m \<le> 2)" using 3 m by linarith
    ultimately show ?thesis
      using month_start_Suc [OF m(1) 3, of y] d by (simp add: civil_day_def)
  qed
qed

lemma next_date_valid:
  assumes "valid_date y m d" "next_date y m d = (y', m', d')"
  shows "valid_date y' m' d'" "y' = y \<or> y' = y + 1"
  using assms by (auto simp: valid_date_def next_date_def days_in_month_def split: if_splits)

lemma valid_date_day: "valid_date y m d \<Longrightarrow> 1 \<le> d \<and> d \<le> 31 \<and> 1 \<le> m \<and> m \<le> 12"
  by (auto simp: valid_date_def days_in_month_def split: if_splits)

text \<open>The civil-date arithmetic is the Gregorian calendar: day zero is the first of January 1970,
  and for every valid date within a million years of the year zero the next date of the calendar,
  with its month lengths and leap years, has the next day number.\<close>

theorem days_from_civil_is_the_calendar:
  assumes "valid_date y m d" "sane_year y" "sane_year (y + 1)"
  shows "days_from_civil 1970 1 1 = Inr 0 \<and>
    (case next_date y m d of (y', m', d') \<Rightarrow>
       \<exists>n. days_from_civil y m d = Inr n \<and> days_from_civil y' m' d' = Inr (n + 1))"
proof
  show "days_from_civil 1970 1 1 = Inr 0"
    by (simp add: days_from_civil_eq sane_year_def civil_day_def year_start_def month_start_def)
  obtain y' m' d' where n: "next_date y m d = (y', m', d')" by (metis prod_cases3)
  note v = next_date_valid [OF assms(1) n]
  have "sane_year y'" using v(2) assms(2,3) by auto
  then have "days_from_civil y' m' d' = Inr (civil_day y m d + 1)"
    using days_from_civil_eq [of m' d' y'] valid_date_day [OF v(1)] civil_day_next [OF assms(1) n]
    by simp
  moreover have "days_from_civil y m d = Inr (civil_day y m d)"
    using days_from_civil_eq [of m d y] valid_date_day [OF assms(1)] assms(2) by simp
  ultimately show "case next_date y m d of (y', m', d') \<Rightarrow>
      \<exists>n. days_from_civil y m d = Inr n \<and> days_from_civil y' m' d' = Inr (n + 1)"
    by (simp add: n)
qed

theorem days_from_civil_is_the_calendar_witness:
  "days_from_civil 1970 1 1 = Inr 0 \<and>
    (case next_date 2024 2 28 of (y', m', d') \<Rightarrow>
       \<exists>n. days_from_civil 2024 2 28 = Inr n \<and> days_from_civil y' m' d' = Inr (n + 1))"
  by (rule days_from_civil_is_the_calendar)
    (simp_all add: valid_date_def days_in_month_def sane_year_def leap_year_def)

subsection \<open>Printed timestamps are read back\<close>

definition pad2 :: "nat \<Rightarrow> string" where
  "pad2 n = [digit_char (n div 10 mod 10), digit_char (n mod 10)]"

definition pad4 :: "nat \<Rightarrow> string" where
  "pad4 n = pad2 (n div 100) @ pad2 (n mod 100)"

datatype zone = Utc | East nat nat | West nat nat

fun print_zone :: "zone \<Rightarrow> string" where
  "print_zone Utc = ''Z''"
| "print_zone (East h m) = ''+'' @ pad2 h @ '':'' @ pad2 m"
| "print_zone (West h m) = ''-'' @ pad2 h @ '':'' @ pad2 m"

fun zone_ms :: "zone \<Rightarrow> int" where
  "zone_ms Utc = 0"
| "zone_ms (East h m) = int h * 3600000 + int m * 60000"
| "zone_ms (West h m) = - (int h * 3600000 + int m * 60000)"

fun zone_ok :: "zone \<Rightarrow> bool" where
  "zone_ok Utc = True"
| "zone_ok (East h m) = (h < 100 \<and> m < 100)"
| "zone_ok (West h m) = (h < 100 \<and> m < 100)"

definition print_date_time :: "nat \<Rightarrow> nat \<Rightarrow> nat \<Rightarrow> nat \<Rightarrow> nat \<Rightarrow> nat \<Rightarrow> string" where
  "print_date_time y m d hh mm ss =
     pad4 y @ ''-'' @ pad2 m @ ''-'' @ pad2 d @ ''T'' @ pad2 hh @ '':'' @ pad2 mm @ '':'' @ pad2 ss"

lemma digit_char_neq [simp]:
  assumes "d < 10" "\<not> is_ascii_digit c"
  shows "digit_char d \<noteq> c" "c \<noteq> digit_char d"
  using assms by (auto simp: digit_char_def is_ascii_digit_def code_char_of)

lemma not_digit [simp]:
  "\<not> is_ascii_digit (CHR ''+'')" "\<not> is_ascii_digit (CHR ''-'')" "\<not> is_ascii_digit (CHR '':'')"
  "\<not> is_ascii_digit (CHR ''T'')" "\<not> is_ascii_digit (CHR ''.'')" "\<not> is_ascii_digit (CHR ''Z'')"
  by (simp_all add: is_ascii_digit_def code_def)

lemma is_graphic_digit: "d < 10 \<Longrightarrow> is_graphic (digit_char d)"
  by (simp add: alphanumeric_graphic digit_char_alphanumeric)

lemma digits_pad2: "n < 100 \<Longrightarrow> digits_val 10 acc (pad2 n @ s) = digits_val 10 (acc * 100 + n) s"
proof -
  assume "n < 100"
  then have "n div 10 < 10" by simp
  then show ?thesis by (simp add: pad2_def digit_val_digit_char algebra_simps)
qed

lemma parse_pad2: "n < 100 \<Longrightarrow> parse_u32 (pad2 n) = Some n"
  using digits_pad2 [of n 0 "[]"]
  by (simp add: parse_u32_def parse_uint_def) (simp add: pad2_def)

lemma parse_i64_pad2: "n < 100 \<Longrightarrow> parse_i64 (pad2 n) = Some (int n)"
  using digits_pad2 [of n 0 "[]"]
  by (simp add: parse_i64_def parse_uint_def) (simp add: pad2_def)

lemma parse_i64_pad4:
  assumes "n < 10000"
  shows "parse_i64 (pad4 n) = Some (int n)"
proof -
  have "digits_val 10 0 (pad4 n) = Some n"
    using assms digits_pad2 [of "n div 100" 0 "pad2 (n mod 100)"] digits_pad2 [of "n mod 100" _ "[]"]
    by (simp add: pad4_def)
  moreover have "pad4 n \<noteq> [] \<and> hd (pad4 n) = digit_char (n div 100 div 10 mod 10)"
    by (simp add: pad4_def pad2_def)
  ultimately show ?thesis using assms by (simp add: parse_i64_def parse_uint_def)
qed

lemma split_once_at:
  "c \<notin> set a \<Longrightarrow> split_once c (a @ c # b) = Some (a, b)"
  by (induction a) (auto simp: split_once_def)

lemma split_once_None: "c \<notin> set s \<Longrightarrow> split_once c s = None"
  by (simp add: split_once_def)

lemma split_on_at:
  "\<forall>x\<in>set a. \<not> p x \<Longrightarrow> p c \<Longrightarrow> split_on p (a @ c # b) = a # split_on p b"
  by (induction a) auto

lemma split_on_none: "\<forall>x\<in>set a. \<not> p x \<Longrightarrow> split_on p a = [a]"
  by (induction a) auto

lemma rfind_at: "c \<notin> set b \<Longrightarrow> rfind c (a @ c # b) = Some (length a)"
  by (auto simp: rfind_Some_iff)

lemma rfind_None: "c \<notin> set s \<Longrightarrow> rfind c s = None"
  by (simp add: rfind_def)

lemma set_pad2: "x \<in> set (pad2 n) \<Longrightarrow> is_ascii_digit x"
  by (auto simp: pad2_def digit_char_def is_ascii_digit_def code_char_of)

lemma not_in_pad [simp]: "\<not> is_ascii_digit c \<Longrightarrow> c \<notin> set (pad2 n)" "\<not> is_ascii_digit c \<Longrightarrow> c \<notin> set (pad4 n)"
  using set_pad2 by (auto simp: pad4_def)

lemma drop_plus_pad: "drop_plus (pad2 h @ s) = pad2 h @ s"
  by (simp add: pad2_def)

lemma parse_offset_pad:
  assumes "h < 100" "m < 100"
  shows "parse_offset (CHR ''+'' # pad2 h @ CHR '':'' # pad2 m) =
    Inr (int h * 3600000 + int m * 60000)"
proof -
  have "i64 (i64 (int h * 3600000) + i64 (int m * 60000)) = int h * 3600000 + int m * 60000"
    using assms by (simp add: i64_id)
  with assms show ?thesis
    by (simp add: parse_offset_def drop_plus_pad split_once_at parse_i64_pad2)
qed

lemma split_offset_plus:
  assumes "10 < length body" "h < 100" "m < 100"
  shows "split_offset (body @ CHR ''+'' # pad2 h @ CHR '':'' # pad2 m) =
    Inr (body, int h * 3600000 + int m * 60000)"
  using assms by (simp add: split_offset_def rfind_after_date_def rfind_at parse_offset_pad)

lemma split_offset_minus:
  assumes "10 < length body" "CHR ''+'' \<notin> set body" "h < 100" "m < 100"
  shows "split_offset (body @ CHR ''-'' # pad2 h @ CHR '':'' # pad2 m) =
    Inr (body, - (int h * 3600000 + int m * 60000))"
  using assms
  by (simp add: split_offset_def rfind_after_date_def rfind_None rfind_at parse_offset_pad i64_id)

lemma pad2_zero: "pad2 0 = ''00''"
  by code_simp

lemma print_date_time_props:
  "length (print_date_time y m d hh mm ss) = 19" "CHR ''+'' \<notin> set (print_date_time y m d hh mm ss)"
  "hd (print_date_time y m d hh mm ss @ z) = digit_char (y div 100 div 10 mod 10)"
  by (simp_all add: print_date_time_def) (simp_all add: pad4_def pad2_def)

lemma last_print_zone: "z \<noteq> Utc \<Longrightarrow> \<exists>d<10. last (print_zone z) = digit_char d"
  by (cases z) (auto simp: pad2_def intro: exI [of _ "n mod 10" for n :: nat])

lemma trim_printed: "trim (print_date_time y m d hh mm ss @ print_zone z) =
    print_date_time y m d hh mm ss @ print_zone z"
proof (rule trim_graphic)
  show "is_graphic (hd (print_date_time y m d hh mm ss @ print_zone z))"
    by (simp add: print_date_time_props is_graphic_digit)
  have "print_zone z \<noteq> []" by (cases z) auto
  moreover have "is_graphic (last (print_zone z))"
  proof (cases "z = Utc")
    case False
    then show ?thesis using last_print_zone is_graphic_digit by metis
  qed (simp add: is_graphic_def code_def)
  ultimately show "is_graphic (last (print_date_time y m d hh mm ss @ print_zone z))" by simp
qed

lemma normalized_printed:
  fixes b :: string
  assumes "zone_ok z" "10 < length b" "CHR ''+'' \<notin> set b"
  shows "split_offset (case strip_suffix (b @ print_zone z) ''Z'' of
             Some rest \<Rightarrow> rest @ ''+00:00'' | None \<Rightarrow> b @ print_zone z) = Inr (b, zone_ms z)"
proof (cases "z = Utc")
  case True
  then show ?thesis
    using split_offset_plus [of b 0 0] assms by (simp add: strip_suffix_def pad2_zero)
next
  case False
  then obtain e where "e < 10" "last (print_zone z) = digit_char e" using last_print_zone by blast
  moreover have "print_zone z \<noteq> []" by (cases z) auto
  ultimately have "last (b @ print_zone z) \<noteq> CHR ''Z''" by simp
  then have "\<not> suffix ''Z'' (b @ print_zone z)" by (auto simp: suffix_def)
  with assms False show ?thesis
    by (cases z) (simp_all add: strip_suffix_def split_offset_plus split_offset_minus)
qed

lemma split_printed:
  "split_once (CHR ''T'') (print_date_time y m d hh mm ss) =
     Some (pad4 y @ ''-'' @ pad2 m @ ''-'' @ pad2 d, pad2 hh @ '':'' @ pad2 mm @ '':'' @ pad2 ss)"
  using split_once_at [of "CHR ''T''" "pad4 y @ ''-'' @ pad2 m @ ''-'' @ pad2 d"]
  by (simp add: print_date_time_def)

lemma split_pads:
  assumes "\<not> is_ascii_digit c"
  shows "split_on (\<lambda>x. x = c) (pad2 a @ c # s) = pad2 a # split_on (\<lambda>x. x = c) s"
    "split_on (\<lambda>x. x = c) (pad4 a @ c # s) = pad4 a # split_on (\<lambda>x. x = c) s"
    "split_on (\<lambda>x. x = c) (pad2 a) = [pad2 a]"
  using assms by (auto intro!: split_on_at split_on_none)

lemma parse_printed:
  assumes "valid_date (int y) m d" "y < 10000" "hh < 100" "mm < 100" "ss < 100" "zone_ok z"
    and "days_from_civil (int y) m d = Inr days"
    and "ms = days * 86400000 + int hh * 3600000 + int mm * 60000 + int ss * 1000 - zone_ms z"
  shows "parse_rfc3339_ms (print_date_time y m d hh mm ss @ print_zone z) =
           (if ms < 0 then Inl ''before_epoch'' else Inr (nat ms))"
proof -
  let ?b = "print_date_time y m d hh mm ss"
  have v: "1 \<le> d" "d \<le> 31" "1 \<le> m" "m \<le> 12" using valid_date_day [OF assms(1)] by auto
  have "days = civil_day (int y) m d"
    using days_from_civil_eq [of m d "int y"] v assms(2,7) by (simp add: sane_year_def)
  moreover have "\<bar>if m \<le> 2 then int y - 1 else int y\<bar> \<le> 10000" using assms(2) by auto
  ultimately have days: "- 2000000000 < days \<and> days < 2000000000"
    using year_start_bounds [of "if m \<le> 2 then int y - 1 else int y" 10000] month_start_bounds [OF v(4)] v
    unfolding civil_day_def by linarith
  have "- 400000000 \<le> zone_ms z \<and> zone_ms z \<le> 400000000" using assms(6) by (cases z) auto
  then have wrap: "i64 (i64 (i64 (days * 86400000) +
      (int hh * 3600000 + int mm * 60000 + int ss * 1000 + int 0)) - zone_ms z) = ms"
    using days assms(3-5,8) by (simp add: i64_id)
  have nodot: "split_once (CHR ''.'') (pad2 hh @ '':'' @ pad2 mm @ '':'' @ pad2 ss) = None"
    by (rule split_once_None) simp
  have n: "split_offset (case strip_suffix (?b @ print_zone z) ''Z'' of
      Some rest \<Rightarrow> rest @ ''+00:00'' | None \<Rightarrow> ?b @ print_zone z) = Inr (?b, zone_ms z)"
    by (rule normalized_printed) (simp_all add: assms(6) print_date_time_props)
  have date: "split_on (\<lambda>c. c = CHR ''-'') (pad4 y @ ''-'' @ pad2 m @ ''-'' @ pad2 d) =
      [pad4 y, pad2 m, pad2 d]"
    by (simp add: split_pads)
  have tim: "split_on (\<lambda>c. c = CHR '':'') (pad2 hh @ '':'' @ pad2 mm @ '':'' @ pad2 ss) =
      [pad2 hh, pad2 mm, pad2 ss]"
    by (simp add: split_pads)
  have "m < 100" "d < 100" using v by auto
  then have nums: "parse_i64 (pad4 y) = Some (int y)" "parse_u32 (pad2 m) = Some m"
    "parse_u32 (pad2 d) = Some d" "parse_u32 (pad2 hh) = Some hh" "parse_u32 (pad2 mm) = Some mm"
    "parse_u32 (pad2 ss) = Some ss"
    using assms(2-5) by (simp_all add: parse_i64_pad4 parse_pad2)
  show ?thesis
    unfolding parse_rfc3339_ms_def Let_def trim_printed n bindE_simps prod.case split_printed
      ok_or_simps date next_num_def list.case nums option.case nodot tim assms(7) frac_millis_def wrap
    by (rule refl)
qed



end
