(* ===== verification/Maintenance.thy ===== *)
theory Maintenance
  imports Rfc3339 Api_Error "HOL-Library.Product_Lexorder"
begin

text \<open>
  Signed maintenance windows: the rest of \<open>crates/openapi-core/src/maintenance.rs\<close> and the error
  of \<open>error.rs\<close> made from an active window. The files and environment the loaders read are
  arguments; the manifest's derived deserialiser and the signature crate are fields of
  \<open>maint_ext\<close>.
\<close>

subsection \<open>Manifest\<close>

definition SCHEMA :: string where
  "SCHEMA = ''teechat-maintenance-windows/v1''"

definition KEY_ID :: string where
  "KEY_ID = ''maintenance-windows-v1''"

definition PINNED_PUBLIC_KEY_HEX :: string where
  "PINNED_PUBLIC_KEY_HEX =
     ''d8e142936c4e12720b2d4ac98c2149279f1bd77369dc7bbd68caa04e7316ccca''"

datatype maintenance_scope = Fleet | Engine
datatype maintenance_reason = GpuHandover | GatewayCutover | SecurityKeyRotation | OtherReason
datatype maintenance_phase = Hard | Soft

record maintenance_window =
  mw_id :: string
  mw_scope :: maintenance_scope
  mw_engine_id :: "string option"
  mw_not_before :: string
  mw_hard_not_after :: "string option"
  mw_soft_not_after :: "string option"
  mw_not_after :: "string option"
  mw_reason :: maintenance_reason
  mw_message :: "string option"

record maintenance_manifest =
  mm_schema :: string
  mm_key_id :: string
  mm_version :: nat
  mm_published_at :: string
  mm_windows :: "maintenance_window list"

record active_maintenance =
  am_window :: maintenance_window
  am_phase :: maintenance_phase
  am_manifest_version :: nat
  am_not_before_ms :: nat
  am_hard_not_after_ms :: nat
  am_soft_not_after_ms :: "nat option"
  am_retry_after_secs :: nat

record verified_maintenance =
  vm_manifest :: maintenance_manifest
  vm_signature_verified :: bool

record maint_ext = ext +
  manifest_from_slice :: "bytes \<Rightarrow> string + maintenance_manifest"
  vk_from_bytes :: "bytes \<Rightarrow> string + bytes"
  sig_from_bytes :: "bytes \<Rightarrow> bytes"

record window_bounds =
  wb_not_before_ms :: nat
  wb_hard_not_after_ms :: nat
  wb_soft_not_after_ms :: "nat option"
  wb_has_soft_phase :: bool

definition resolve_bounds :: "maintenance_window \<Rightarrow> string + window_bounds" where
  "resolve_bounds w =
     bindE (parse_rfc3339_ms (mw_not_before w)) (\<lambda>not_before_ms.
     bindE (ok_or (''missing_hard_end_'' @ mw_id w)
              (case trimmed_nonempty (mw_hard_not_after w) of
                 Some s \<Rightarrow> Some s | None \<Rightarrow> trimmed_nonempty (mw_not_after w))) (\<lambda>hard_raw.
     bindE (parse_rfc3339_ms hard_raw) (\<lambda>hard_not_after_ms.
     if hard_not_after_ms \<le> not_before_ms then Inl (''bad_hard_interval_'' @ mw_id w)
     else let legacy_hard_only =
            trimmed_nonempty (mw_hard_not_after w) = None \<and>
            trimmed_nonempty (mw_not_after w) \<noteq> None
     in if legacy_hard_only then
          Inr \<lparr>wb_not_before_ms = not_before_ms, wb_hard_not_after_ms = hard_not_after_ms,
               wb_soft_not_after_ms = Some hard_not_after_ms, wb_has_soft_phase = False\<rparr>
        else (case trimmed_nonempty (mw_soft_not_after w) of
                None \<Rightarrow>
                  Inr \<lparr>wb_not_before_ms = not_before_ms,
                       wb_hard_not_after_ms = hard_not_after_ms,
                       wb_soft_not_after_ms = None, wb_has_soft_phase = True\<rparr>
              | Some soft \<Rightarrow>
                  bindE (parse_rfc3339_ms soft) (\<lambda>soft_ms.
                  if soft_ms \<le> hard_not_after_ms then Inl (''bad_soft_interval_'' @ mw_id w)
                  else Inr \<lparr>wb_not_before_ms = not_before_ms,
                            wb_hard_not_after_ms = hard_not_after_ms,
                            wb_soft_not_after_ms = Some soft_ms, wb_has_soft_phase = True\<rparr>)))))"

definition engine_id_missing :: "maintenance_window \<Rightarrow> bool" where
  "engine_id_missing w = (case mw_engine_id w of None \<Rightarrow> True | Some s \<Rightarrow> trim s = [])"

definition check_window :: "maintenance_window \<Rightarrow> string + unit" where
  "check_window w =
     (if trim (mw_id w) = [] then Inl ''bad_window_id''
      else if mw_scope w = Engine \<and> engine_id_missing w
        then Inl ''engine_scope_requires_engine_id''
      else bindE (resolve_bounds w) (\<lambda>_. Inr ()))"

fun check_windows :: "maintenance_window list \<Rightarrow> string + unit" where
  "check_windows [] = Inr ()"
| "check_windows (w # ws) = bindE (check_window w) (\<lambda>_. check_windows ws)"

definition parse_manifest_bytes :: "'x maint_ext_scheme \<Rightarrow> bytes \<Rightarrow> string + maintenance_manifest"
where
  "parse_manifest_bytes X b =
     bindE (map_err (\<lambda>e. ''json: '' @ e) (manifest_from_slice X b)) (\<lambda>m.
     if mm_schema m \<noteq> SCHEMA then Inl (''bad_schema_'' @ mm_schema m)
     else if mm_key_id m \<noteq> KEY_ID then Inl (''bad_key_id_'' @ mm_key_id m)
     else if mm_version m < 1 then Inl ''bad_version''
     else bindE (check_windows (mm_windows m)) (\<lambda>_. Inr m))"

definition maint_verify_signature ::
    "'x maint_ext_scheme \<Rightarrow> bytes \<Rightarrow> string \<Rightarrow> string \<Rightarrow> string + unit" where
  "maint_verify_signature X manifest_bytes signature_hex public_key_hex =
     bindE (map_err (\<lambda>_. ''bad_signature_hex'') (hex_decode X (trim signature_hex))) (\<lambda>sig_bytes.
     if length sig_bytes \<noteq> 64 then Inl ''bad_signature_len''
     else bindE (map_err (\<lambda>_. ''bad_public_key_hex'') (hex_decode X (trim public_key_hex)))
            (\<lambda>pk_bytes.
          if length pk_bytes \<noteq> 32 then Inl ''bad_public_key_len''
          else bindE (map_err (\<lambda>e. ''public_key: '' @ e) (vk_from_bytes X pk_bytes)) (\<lambda>vk.
               if ed25519_verify X vk manifest_bytes (sig_from_bytes X sig_bytes) then Inr ()
               else Inl ''signature_mismatch'')))"

definition verify_and_parse ::
    "'x maint_ext_scheme \<Rightarrow> bytes \<Rightarrow> string \<Rightarrow> string + verified_maintenance" where
  "verify_and_parse X manifest_bytes signature_hex =
     bindE (maint_verify_signature X manifest_bytes signature_hex PINNED_PUBLIC_KEY_HEX) (\<lambda>_.
     bindE (parse_manifest_bytes X manifest_bytes) (\<lambda>manifest.
     Inr \<lparr>vm_manifest = manifest, vm_signature_verified = True\<rparr>))"

subsection \<open>Loading\<close>

record host =
  env_var :: "string \<Rightarrow> string option"
  read_file :: "string \<Rightarrow> string + bytes"
  read_text :: "string \<Rightarrow> string + string"

definition load_from_files ::
    "'x maint_ext_scheme \<Rightarrow> host \<Rightarrow> string \<Rightarrow> string \<Rightarrow> string + verified_maintenance" where
  "load_from_files X H manifest_path sig_path =
     bindE (map_err (\<lambda>e. ''read_manifest: '' @ e) (read_file H manifest_path)) (\<lambda>b.
     bindE (map_err (\<lambda>e. ''read_sig: '' @ e) (read_text H sig_path)) (\<lambda>sig.
     verify_and_parse X b (trim sig)))"

definition nonblank :: "string option \<Rightarrow> string option" where
  "nonblank x = (case x of None \<Rightarrow> None | Some s \<Rightarrow> if trim s = [] then None else Some s)"

text \<open>Unix paths: trailing separators and current-directory parts are not components.\<close>

function path_trim :: "string \<Rightarrow> string" where
  "path_trim p =
     (if 1 < length p \<and> last p = CHR ''/'' then path_trim (butlast p)
      else if 1 < length p \<and> suffix ''/.'' p then path_trim (butlast p)
      else p)"
  by pat_completeness auto
termination
  by (relation "measure length") auto

definition path_parent :: "string \<Rightarrow> string" where
  "path_parent p =
     (case rfind (CHR ''/'') (path_trim p) of
        None \<Rightarrow> []
      | Some i \<Rightarrow> if i = 0 then ''/'' else path_trim (take i (path_trim p)))"

definition path_file_name :: "string \<Rightarrow> string option" where
  "path_file_name p =
     (let last_part = (case rfind (CHR ''/'') (path_trim p) of
                         None \<Rightarrow> path_trim p | Some i \<Rightarrow> drop (i + 1) (path_trim p))
      in if last_part \<in> {[], ''.'', ''..''} then None else Some last_part)"

definition with_file_name :: "string \<Rightarrow> string \<Rightarrow> string" where
  "with_file_name p name =
     (let base = (if path_file_name p = None then p else path_parent p)
      in if base = [] then name
         else if last base = CHR ''/'' then base @ name else base @ ''/'' @ name)"

definition default_sig_path :: "string \<Rightarrow> string" where
  "default_sig_path path =
     (if path_file_name path = Some ''manifest.json'' then with_file_name path ''manifest.sig''
      else path @ ''.sig'')"

definition try_load_from_env :: "'x maint_ext_scheme \<Rightarrow> host \<Rightarrow> string + verified_maintenance option"
where
  "try_load_from_env X H =
     (case nonblank (env_var H ''OPENAPI_MAINTENANCE_MANIFEST_PATH'') of
        None \<Rightarrow> Inr None
      | Some path \<Rightarrow>
          let sig_path =
            (case nonblank (env_var H ''OPENAPI_MAINTENANCE_MANIFEST_SIG_PATH'') of
               Some s \<Rightarrow> s | None \<Rightarrow> default_sig_path path)
          in bindE (load_from_files X H path sig_path) (\<lambda>v. Inr (Some v)))"

subsection \<open>Choosing the active window\<close>

definition applies_to :: "string option \<Rightarrow> maintenance_window \<Rightarrow> bool" where
  "applies_to engine_id w =
     (case mw_scope w of
        Fleet \<Rightarrow> True
      | Engine \<Rightarrow>
          (case trimmed_nonempty engine_id of
             None \<Rightarrow> False
           | Some want \<Rightarrow>
               want = (case mw_engine_id w of None \<Rightarrow> [] | Some s \<Rightarrow> trim s)))"

definition phase_at :: "nat \<Rightarrow> window_bounds \<Rightarrow> maintenance_phase option" where
  "phase_at now_ms b =
     (if now_ms < wb_not_before_ms b then None
      else if now_ms \<le> wb_hard_not_after_ms b then Some Hard
      else if \<not> wb_has_soft_phase b then None
      else if (case wb_soft_not_after_ms b of None \<Rightarrow> True | Some e \<Rightarrow> now_ms \<le> e) then Some Soft
      else None)"

definition div_ceil :: "nat \<Rightarrow> nat \<Rightarrow> nat" where
  "div_ceil a b = a div b + (if a mod b = 0 then 0 else 1)"

definition retry_after :: "nat \<Rightarrow> window_bounds \<Rightarrow> maintenance_phase \<Rightarrow> nat" where
  "retry_after now_ms b phase =
     (case phase of
        Hard \<Rightarrow> max (div_ceil (wb_hard_not_after_ms b - now_ms) 1000) 1
      | Soft \<Rightarrow>
          (case wb_soft_not_after_ms b of
             Some e \<Rightarrow> max (div_ceil (e - now_ms) 1000) 1
           | None \<Rightarrow> 180))"

text \<open>One round of the loop: what a window contributes, and whether it replaces the best so far.\<close>

definition candidate ::
    "nat \<Rightarrow> nat \<Rightarrow> string option \<Rightarrow> maintenance_window \<Rightarrow> active_maintenance option" where
  "candidate version now_ms engine_id w =
     (if \<not> applies_to engine_id w then None
      else (case resolve_bounds w of
              Inl _ \<Rightarrow> None
            | Inr b \<Rightarrow>
                (case phase_at now_ms b of
                   None \<Rightarrow> None
                 | Some phase \<Rightarrow>
                     Some \<lparr>am_window = w, am_phase = phase, am_manifest_version = version,
                           am_not_before_ms = wb_not_before_ms b,
                           am_hard_not_after_ms = wb_hard_not_after_ms b,
                           am_soft_not_after_ms = wb_soft_not_after_ms b,
                           am_retry_after_secs = retry_after now_ms b phase\<rparr>)))"

definition soft_end :: "active_maintenance \<Rightarrow> nat" where
  "soft_end a = (case am_soft_not_after_ms a of None \<Rightarrow> u64_max | Some e \<Rightarrow> e)"

definition better :: "active_maintenance \<Rightarrow> active_maintenance \<Rightarrow> bool" where
  "better c b =
     (case (am_phase c, am_phase b) of
        (Hard, Soft) \<Rightarrow> True
      | (Soft, Hard) \<Rightarrow> False
      | (Hard, Hard) \<Rightarrow> am_hard_not_after_ms b < am_hard_not_after_ms c
      | (Soft, Soft) \<Rightarrow> soft_end b < soft_end c)"

definition pick :: "active_maintenance option \<Rightarrow> active_maintenance option \<Rightarrow> active_maintenance option"
where
  "pick best cand =
     (case cand of
        None \<Rightarrow> best
      | Some c \<Rightarrow> (case best of None \<Rightarrow> Some c | Some b \<Rightarrow> if better c b then Some c else Some b))"

definition select_active ::
    "maintenance_manifest \<Rightarrow> nat \<Rightarrow> string option \<Rightarrow> active_maintenance option" where
  "select_active manifest now_ms engine_id =
     foldl (\<lambda>best w. pick best (candidate (mm_version manifest) now_ms engine_id w)) None
       (mm_windows manifest)"

subsection \<open>The shared state\<close>

record maintenance_state =
  ms_inner :: "verified_maintenance option"
  ms_version_floor :: nat

definition maintenance_new :: maintenance_state where
  "maintenance_new = \<lparr>ms_inner = None, ms_version_floor = 0\<rparr>"

definition maintenance_clear :: "maintenance_state \<Rightarrow> maintenance_state" where
  "maintenance_clear s = s\<lparr>ms_inner := None\<rparr>"

definition set_verified :: "verified_maintenance \<Rightarrow> (maintenance_state, string, unit) op" where
  "set_verified v s =
     (if \<not> vm_signature_verified v then (Inl ''signature_not_verified'', s)
      else if mm_version (vm_manifest v) < ms_version_floor s then
        (Inl (''version_rollback_'' @ show_nat (mm_version (vm_manifest v)) @ ''_lt_'' @
              show_nat (ms_version_floor s)), s)
      else (Inr (), s\<lparr>ms_version_floor := mm_version (vm_manifest v), ms_inner := Some v\<rparr>))"

definition maintenance_active ::
    "maintenance_state \<Rightarrow> nat \<Rightarrow> string option \<Rightarrow> active_maintenance option" where
  "maintenance_active s now_ms engine_id =
     (case ms_inner s of
        None \<Rightarrow> None
      | Some v \<Rightarrow> if \<not> vm_signature_verified v then None
                 else select_active (vm_manifest v) now_ms engine_id)"

definition apply_env_to_state ::
    "'x maint_ext_scheme \<Rightarrow> host \<Rightarrow> (maintenance_state, string, bool) op" where
  "apply_env_to_state X H s =
     (case try_load_from_env X H of
        Inl e \<Rightarrow> (Inl e, s)
      | Inr None \<Rightarrow> (Inr False, s)
      | Inr (Some v) \<Rightarrow>
          (case set_verified v s of
             (Inl e, t) \<Rightarrow> (Inl e, t)
           | (Inr _, t) \<Rightarrow> (Inr True, t)))"

fun scope_name :: "maintenance_scope \<Rightarrow> string" where
  "scope_name Fleet = ''fleet''"
| "scope_name Engine = ''engine''"

fun reason_name :: "maintenance_reason \<Rightarrow> string" where
  "reason_name GpuHandover = ''gpu_handover''"
| "reason_name GatewayCutover = ''gateway_cutover''"
| "reason_name SecurityKeyRotation = ''security_key_rotation''"
| "reason_name OtherReason = ''other''"

fun phase_name :: "maintenance_phase \<Rightarrow> string" where
  "phase_name Hard = ''hard''"
| "phase_name Soft = ''soft''"

definition status_json :: "maintenance_state \<Rightarrow> nat \<Rightarrow> string \<Rightarrow> json" where
  "status_json s now_ms region =
     (case maintenance_active s now_ms None of
        Some a \<Rightarrow>
          let w = am_window a in
          JObj [(''mode'', JStr (case am_phase a of Hard \<Rightarrow> ''hard_maintenance''
                                                | Soft \<Rightarrow> ''soft_maintenance'')),
                (''phase'', JStr (phase_name (am_phase a))),
                (''region'', JStr region),
                (''retry_after'', JNum (PosInt (am_retry_after_secs a))),
                (''window'', JObj
                   [(''id'', JStr (mw_id w)), (''scope'', JStr (scope_name (mw_scope w))),
                    (''engine_id'', json_opt_str (mw_engine_id w)),
                    (''not_before'', JStr (mw_not_before w)),
                    (''hard_not_after'', json_opt_str (mw_hard_not_after w)),
                    (''soft_not_after'', json_opt_str (mw_soft_not_after w)),
                    (''not_after'', json_opt_str (mw_not_after w)),
                    (''reason'', JStr (reason_name (mw_reason w))),
                    (''message'', json_opt_str (mw_message w))]),
                (''manifest_version'', JNum (PosInt (am_manifest_version a)))]
      | None \<Rightarrow>
          JObj [(''mode'', JStr ''ok''), (''phase'', JNull), (''region'', JStr region),
                (''retry_after'', JNull), (''window'', JNull)])"

text \<open>\<open>ApiError::maintenance\<close>.\<close>

definition maintenance_error :: "active_maintenance \<Rightarrow> api_error" where
  "maintenance_error a =
     ServiceUnavailable
       (case nonblank (mw_message (am_window a)) of
          Some m \<Rightarrow> m
        | None \<Rightarrow> ''Planned maintenance is in progress. Retry after the announced window.'')
       ''maintenance'' (am_retry_after_secs a)"

subsection \<open>The choice\<close>

lemma resolve_bounds_ok:
  assumes "resolve_bounds w = Inr b"
  shows "wb_not_before_ms b < wb_hard_not_after_ms b"
    and "wb_has_soft_phase b \<Longrightarrow> wb_soft_not_after_ms b = Some e \<Longrightarrow> wb_hard_not_after_ms b < e"
  using assms
  by (auto simp: resolve_bounds_def result_simps Let_def split: if_splits option.splits)

text \<open>Hard before soft, then the later end.\<close>

definition rank :: "active_maintenance \<Rightarrow> nat \<times> nat" where
  "rank a = (case am_phase a of Hard \<Rightarrow> (1, am_hard_not_after_ms a) | Soft \<Rightarrow> (0, soft_end a))"

lemma better_rank: "better c b \<longleftrightarrow> rank b < rank c"
  by (auto simp: better_def rank_def less_prod_def split: maintenance_phase.split)

lemma pick_max:
  "best = Some c \<or> cand = Some c \<Longrightarrow> \<exists>b. pick best cand = Some b \<and> rank c \<le> rank b"
  by (cases best; cases cand) (auto simp: pick_def better_rank not_less intro: less_imp_le)

lemma foldl_pick_max:
  "best = Some c \<or> (\<exists>w\<in>set ws. f w = Some c) \<Longrightarrow>
     \<exists>r. foldl (\<lambda>best w. pick best (f w)) best ws = Some r \<and> rank c \<le> rank r"
proof (induction ws arbitrary: best c)
  case (Cons w ws)
  show ?case
  proof (cases "best = Some c \<or> f w = Some c")
    case True
    then obtain b where "pick best (f w) = Some b" "rank c \<le> rank b" using pick_max by blast
    with Cons.IH [of "pick best (f w)" b] show ?thesis using order_trans by auto
  next
    case False
    with Cons.prems have "\<exists>w\<in>set ws. f w = Some c" by auto
    with Cons.IH [of "pick best (f w)" c] show ?thesis by simp
  qed
qed auto

lemma foldl_pick_mem:
  "foldl (\<lambda>best w. pick best (f w)) best ws = Some r \<Longrightarrow>
     best = Some r \<or> (\<exists>w\<in>set ws. f w = Some r)"
proof (induction ws arbitrary: best)
  case (Cons w ws)
  then have "pick best (f w) = Some r \<or> (\<exists>w\<in>set ws. f w = Some r)" by simp
  moreover have "best = Some r \<or> f w = Some r" if "pick best (f w) = Some r"
    using that by (auto simp: pick_def split: option.splits if_splits)
  ultimately show ?case by auto
qed simp

lemma select_active_max:
  assumes "w \<in> set (mm_windows m)" "candidate (mm_version m) now e w = Some c"
  shows "\<exists>a. select_active m now e = Some a \<and> rank c \<le> rank a"
  unfolding select_active_def using assms by (intro foldl_pick_max) auto

lemma select_active_mem:
  assumes "select_active m now e = Some a"
  shows "\<exists>w\<in>set (mm_windows m). candidate (mm_version m) now e w = Some a"
  using foldl_pick_mem [OF assms [unfolded select_active_def]] by simp

lemma div_ceil_bound: "a \<le> div_ceil a 1000 * 1000"
proof -
  have "a = a div 1000 * 1000 + a mod 1000" "a mod 1000 < 1000" by simp_all
  then show ?thesis unfolding div_ceil_def by (auto simp: add_mult_distrib)
qed

lemma candidate_ok:
  assumes "candidate v now e w = Some a"
  shows "\<exists>b. resolve_bounds w = Inr b \<and> applies_to e w \<and> phase_at now b = Some (am_phase a) \<and>
    am_window a = w \<and> am_manifest_version a = v \<and> am_not_before_ms a = wb_not_before_ms b \<and>
    am_hard_not_after_ms a = wb_hard_not_after_ms b \<and>
    am_soft_not_after_ms a = wb_soft_not_after_ms b \<and>
    am_retry_after_secs a = retry_after now b (am_phase a)"
  using assms by (auto simp: candidate_def split: if_splits sum.splits option.splits)

lemma phase_at_cases:
  "phase_at now b = Some Hard \<longleftrightarrow> wb_not_before_ms b \<le> now \<and> now \<le> wb_hard_not_after_ms b"
  "phase_at now b = Some Soft \<longleftrightarrow>
     wb_not_before_ms b \<le> now \<and> wb_hard_not_after_ms b < now \<and> wb_has_soft_phase b \<and>
     (\<forall>e. wb_soft_not_after_ms b = Some e \<longrightarrow> now \<le> e)"
  by (auto simp: phase_at_def split: option.splits)

lemma retry_reaches_end:
  "am_retry_after_secs a = retry_after now b Hard \<Longrightarrow>
     wb_hard_not_after_ms b \<le> now + 1000 * am_retry_after_secs a \<and> 1 \<le> am_retry_after_secs a"
  using div_ceil_bound [of "wb_hard_not_after_ms b - now"] by (auto simp: retry_after_def max_def)

definition sample_window :: maintenance_window where
  "sample_window =
     \<lparr>mw_id = ''w'', mw_scope = Fleet, mw_engine_id = None,
      mw_not_before = print_date_time 2026 1 2 3 4 5 @ print_zone Utc,
      mw_hard_not_after = Some (print_date_time 2026 1 2 4 4 5 @ print_zone Utc),
      mw_soft_not_after = None, mw_not_after = None, mw_reason = OtherReason, mw_message = None\<rparr>"

definition sample_manifest :: "nat \<Rightarrow> maintenance_manifest" where
  "sample_manifest v =
     \<lparr>mm_schema = SCHEMA, mm_key_id = KEY_ID, mm_version = v, mm_published_at = [],
      mm_windows = [sample_window]\<rparr>"

definition sample_bounds :: window_bounds where
  "sample_bounds =
     \<lparr>wb_not_before_ms = 1767323045000, wb_hard_not_after_ms = 1767326645000,
      wb_soft_not_after_ms = None, wb_has_soft_phase = True\<rparr>"

lemma sample_resolves: "resolve_bounds sample_window = Inr sample_bounds"
proof -
  have d: "days_from_civil (int 2026) 1 2 = Inr 20455"
    by (simp add: days_from_civil_eq sane_year_def civil_day_def year_start_def month_start_def)
  have v: "valid_date (int 2026) 1 2" by (simp add: valid_date_def days_in_month_def)
  have "parse_rfc3339_ms (print_date_time 2026 1 2 3 4 5 @ print_zone Utc) = Inr 1767323045000"
    "parse_rfc3339_ms (print_date_time 2026 1 2 4 4 5 @ print_zone Utc) = Inr 1767326645000"
    using parse_printed [OF v _ _ _ _ _ d, of 3 4 5 Utc 1767323045000]
      parse_printed [OF v _ _ _ _ _ d, of 4 4 5 Utc 1767326645000] by simp_all
  moreover have "trimmed_nonempty (mw_hard_not_after sample_window) =
      Some (print_date_time 2026 1 2 4 4 5 @ print_zone Utc)"
    unfolding trimmed_nonempty_def sample_window_def by (simp add: trim_printed [of _ _ _ _ _ _ Utc, simplified])
  moreover have "mw_not_before sample_window = print_date_time 2026 1 2 3 4 5 @ print_zone Utc"
    "mw_soft_not_after sample_window = None"
    by (simp_all add: sample_window_def)
  ultimately show ?thesis
    unfolding resolve_bounds_def sample_bounds_def by (simp add: trimmed_nonempty_def [of None])
qed

lemma sample_applies: "applies_to None sample_window"
  by (simp add: applies_to_def sample_window_def)

text \<open>Hard downtime is always announced: when some window of the manifest that applies is in its
  hard interval, the selected window is in its own hard interval, is one of the manifest's, ends no
  earlier than any such window, and its retry delay of at least a second reaches that end.\<close>

theorem hard_window_wins:
  assumes "w \<in> set (mm_windows m)" "applies_to e w" "resolve_bounds w = Inr b"
    and "wb_not_before_ms b \<le> now" "now \<le> wb_hard_not_after_ms b"
  shows "\<exists>a. select_active m now e = Some a \<and> am_phase a = Hard \<and>
    am_window a \<in> set (mm_windows m) \<and> applies_to e (am_window a) \<and>
    am_not_before_ms a \<le> now \<and> now \<le> am_hard_not_after_ms a \<and>
    wb_hard_not_after_ms b \<le> am_hard_not_after_ms a \<and>
    am_hard_not_after_ms a \<le> now + 1000 * am_retry_after_secs a \<and> 1 \<le> am_retry_after_secs a"
proof -
  have "phase_at now b = Some Hard" using assms(4,5) by (simp add: phase_at_cases)
  then obtain c where c: "candidate (mm_version m) now e w = Some c" "am_phase c = Hard"
    "am_hard_not_after_ms c = wb_hard_not_after_ms b"
    using assms(2,3) by (auto simp: candidate_def)
  obtain a where a: "select_active m now e = Some a" "rank c \<le> rank a"
    using select_active_max [OF assms(1) c(1)] by blast
  then have hard: "am_phase a = Hard" "wb_hard_not_after_ms b \<le> am_hard_not_after_ms a"
    using c(2,3) by (auto simp: rank_def less_eq_prod_def split: maintenance_phase.splits)
  obtain v where v: "v \<in> set (mm_windows m)" "candidate (mm_version m) now e v = Some a"
    using select_active_mem [OF a(1)] by blast
  from candidate_ok [OF v(2)] a(1) hard v(1) show ?thesis
    by (auto simp: phase_at_cases dest: retry_reaches_end)
qed

theorem hard_window_wins_witness:
  "\<exists>a. select_active (sample_manifest 3) 1767323046000 None = Some a \<and> am_phase a = Hard \<and>
    am_window a \<in> set (mm_windows (sample_manifest 3)) \<and> applies_to None (am_window a) \<and>
    am_not_before_ms a \<le> 1767323046000 \<and> 1767323046000 \<le> am_hard_not_after_ms a \<and>
    wb_hard_not_after_ms sample_bounds \<le> am_hard_not_after_ms a \<and>
    am_hard_not_after_ms a \<le> 1767323046000 + 1000 * am_retry_after_secs a \<and>
    1 \<le> am_retry_after_secs a"
  by (rule hard_window_wins [of sample_window])
    (simp_all add: sample_applies sample_manifest_def sample_resolves [unfolded sample_bounds_def]
      sample_bounds_def)

text \<open>What is announced is real: a selected window belongs to the manifest, applies to the engine
  asked about, carries the manifest's version, and the time lies in its hard interval, or after it
  and within the soft interval when it has one.\<close>

theorem active_window_is_real:
  assumes "select_active m now e = Some a"
  shows "\<exists>b. am_window a \<in> set (mm_windows m) \<and> applies_to e (am_window a) \<and>
    am_manifest_version a = mm_version m \<and> resolve_bounds (am_window a) = Inr b \<and>
    wb_not_before_ms b \<le> now \<and>
    (if am_phase a = Hard then now \<le> wb_hard_not_after_ms b
     else wb_hard_not_after_ms b < now \<and> wb_has_soft_phase b \<and>
          (\<forall>end. wb_soft_not_after_ms b = Some end \<longrightarrow> now \<le> end))"
proof -
  obtain w where w: "w \<in> set (mm_windows m)" "candidate (mm_version m) now e w = Some a"
    using select_active_mem [OF assms] by blast
  from candidate_ok [OF w(2)] w(1) show ?thesis
    by (cases "am_phase a") (auto simp: phase_at_cases)
qed

lemma sample_active:
  "select_active (sample_manifest v) 1767323046000 None =
     Some \<lparr>am_window = sample_window, am_phase = Hard, am_manifest_version = v,
           am_not_before_ms = 1767323045000, am_hard_not_after_ms = 1767326645000,
           am_soft_not_after_ms = None, am_retry_after_secs = 3599\<rparr>"
proof -
  have "candidate v 1767323046000 None sample_window =
     Some \<lparr>am_window = sample_window, am_phase = Hard, am_manifest_version = v,
           am_not_before_ms = 1767323045000, am_hard_not_after_ms = 1767326645000,
           am_soft_not_after_ms = None, am_retry_after_secs = 3599\<rparr>"
    by (simp add: candidate_def sample_applies sample_resolves phase_at_def retry_after_def sample_bounds_def
        div_ceil_def)
  then show ?thesis by (simp add: select_active_def sample_manifest_def pick_def)
qed

theorem active_window_is_real_witness:
  "\<exists>a b. select_active (sample_manifest 3) 1767323046000 None = Some a \<and>
     am_window a \<in> set (mm_windows (sample_manifest 3)) \<and> resolve_bounds (am_window a) = Inr b \<and>
     wb_not_before_ms b \<le> 1767323046000"
  using active_window_is_real [OF sample_active [of 3]] sample_active [of 3] by blast

subsection \<open>No rollback\<close>

inductive maint_step :: "'x maint_ext_scheme \<Rightarrow> maintenance_state \<Rightarrow> maintenance_state \<Rightarrow> bool"
  for X where
  accept: "maint_step X s (snd (set_verified v s))"
| clear: "maint_step X s (maintenance_clear s)"
| reload: "maint_step X s (snd (apply_env_to_state X H s))"

definition floor_ok :: "maintenance_state \<Rightarrow> bool" where
  "floor_ok s \<longleftrightarrow>
     (\<forall>v. ms_inner s = Some v \<longrightarrow>
        vm_signature_verified v \<and> mm_version (vm_manifest v) = ms_version_floor s)"

lemma set_verified_keeps:
  "floor_ok s \<Longrightarrow> floor_ok (snd (set_verified v s)) \<and>
     ms_version_floor s \<le> ms_version_floor (snd (set_verified v s))"
  by (auto simp: set_verified_def floor_ok_def)

lemma apply_env_cases:
  "snd (apply_env_to_state X H s) = s \<or>
     (\<exists>v. try_load_from_env X H = Inr (Some v) \<and>
        snd (apply_env_to_state X H s) = snd (set_verified v s) \<and>
        (fst (apply_env_to_state X H s) = Inr True \<longleftrightarrow> fst (set_verified v s) = Inr ()))"
  by (auto simp: apply_env_to_state_def split: sum.splits option.splits prod.splits)

lemma maint_step_keeps:
  "maint_step X s t \<Longrightarrow> floor_ok s \<Longrightarrow> floor_ok t \<and> ms_version_floor s \<le> ms_version_floor t"
proof (induction rule: maint_step.induct)
  case (reload s H)
  from apply_env_cases [of X H s] set_verified_keeps [OF reload] reload show ?case by auto
next
  case (accept s v)
  then show ?case by (rule set_verified_keeps)
qed (simp add: maintenance_clear_def floor_ok_def)

lemma maint_steps_keep:
  "(maint_step X)\<^sup>*\<^sup>* s t \<Longrightarrow> floor_ok s \<Longrightarrow> floor_ok t \<and> ms_version_floor s \<le> ms_version_floor t"
  by (induction rule: rtranclp_induct) (auto dest: maint_step_keeps)

text \<open>C10. Maintenance manifests cannot be rolled back: once a manifest has been accepted, whatever is
  accepted, refused, cleared or reloaded afterwards, no window of an older version is ever reported
  active.\<close>

theorem no_maintenance_rollback:
  assumes "floor_ok s" "set_verified v s = (Inr (), t)" "(maint_step X)\<^sup>*\<^sup>* t u"
    and "maintenance_active u now e = Some a"
  shows "mm_version (vm_manifest v) \<le> am_manifest_version a"
proof -
  have "floor_ok t" "ms_version_floor t = mm_version (vm_manifest v)"
    using assms(1,2) set_verified_keeps [of s v] by (auto simp: set_verified_def split: if_splits)
  with maint_steps_keep [OF assms(3)]
  have "floor_ok u" "mm_version (vm_manifest v) \<le> ms_version_floor u" by auto
  moreover obtain x where "ms_inner u = Some x" "select_active (vm_manifest x) now e = Some a"
    using assms(4) by (auto simp: maintenance_active_def split: option.splits if_splits)
  moreover from this(2) have "am_manifest_version a = mm_version (vm_manifest x)"
    using select_active_mem candidate_ok by blast
  ultimately show ?thesis by (simp add: floor_ok_def)
qed

definition sample_maint_crates :: maint_ext where
  "sample_maint_crates =
     \<lparr>sha256 = \<lambda>b. b, hex_encode = bytes_str, hex_decode = \<lambda>s. Inr (as_bytes s),
      sig_from_slice = Inr, ed25519_verify = \<lambda>vk payload sig. sig = vk @ payload,
      json_from_slice = \<lambda>b. Inl ''expected value'', json_to_vec = \<lambda>j. Inr [],
      json_to_string = \<lambda>j. [], b64url_decode = \<lambda>s. Inr (as_bytes s), b64url_encode = bytes_str,
      manifest_from_slice = \<lambda>b. Inr (sample_manifest (length b)), vk_from_bytes = Inr,
      sig_from_bytes = \<lambda>b. b\<rparr>"

theorem no_maintenance_rollback_witness:
  "mm_version (vm_manifest \<lparr>vm_manifest = sample_manifest 3, vm_signature_verified = True\<rparr>) \<le>
     am_manifest_version
       \<lparr>am_window = sample_window, am_phase = Hard, am_manifest_version = 3,
        am_not_before_ms = 1767323045000, am_hard_not_after_ms = 1767326645000,
        am_soft_not_after_ms = None, am_retry_after_secs = 3599\<rparr>"
proof (rule no_maintenance_rollback)
  let ?v = "\<lparr>vm_manifest = sample_manifest 3, vm_signature_verified = True\<rparr>"
  let ?t = "\<lparr>ms_inner = Some ?v, ms_version_floor = 3\<rparr>"
  show "floor_ok maintenance_new" by (simp add: floor_ok_def maintenance_new_def)
  show "set_verified ?v maintenance_new = (Inr (), ?t)"
    by (simp add: set_verified_def maintenance_new_def sample_manifest_def)
  let ?old = "\<lparr>vm_manifest = sample_manifest 2, vm_signature_verified = True\<rparr>"
  have "snd (set_verified ?old ?t) = ?t" by (simp add: set_verified_def sample_manifest_def)
  then show "(maint_step sample_maint_crates)\<^sup>*\<^sup>* ?t ?t"
    using maint_step.accept [of sample_maint_crates ?t ?old] by (metis r_into_rtranclp)
  show "maintenance_active ?t 1767323046000 None = Some
       \<lparr>am_window = sample_window, am_phase = Hard, am_manifest_version = 3,
        am_not_before_ms = 1767323045000, am_hard_not_after_ms = 1767326645000,
        am_soft_not_after_ms = None, am_retry_after_secs = 3599\<rparr>"
    by (simp add: maintenance_active_def sample_active)
qed

lemma check_windows_ok:
  "check_windows ws = Inr () \<longleftrightarrow> (\<forall>w\<in>set ws. check_window w = Inr ())"
  by (induction ws) (auto simp: result_simps)

lemma load_ok:
  assumes "try_load_from_env X H = Inr (Some v)"
  shows "\<exists>path sig_path b sig. read_file H path = Inr b \<and> read_text H sig_path = Inr sig \<and>
    verify_and_parse X b (trim sig) = Inr v"
  using assms
  by (auto simp: try_load_from_env_def load_from_files_def result_simps Let_def split: option.splits)

text \<open>Loading is all or nothing: a reload changes the state only when it reports success; then
  the manifest bytes that were read carry a signature of the pinned key over exactly those bytes,
  have the expected schema and key id, a version no lower than the floor, and every one of their
  windows resolves, so that none is skipped later. Any failure leaves the state as it was.\<close>

theorem reload_is_all_or_nothing:
  "if fst (apply_env_to_state X H s) = Inr True
   then \<exists>path sig_path b sig m.
          read_file H path = Inr b \<and> read_text H sig_path = Inr sig \<and>
          maint_verify_signature X b (trim sig) PINNED_PUBLIC_KEY_HEX = Inr () \<and>
          manifest_from_slice X b = Inr m \<and> mm_schema m = SCHEMA \<and> mm_key_id m = KEY_ID \<and>
          ms_version_floor s \<le> mm_version m \<and>
          list_all (\<lambda>w. is_ok (resolve_bounds w)) (mm_windows m) \<and>
          snd (apply_env_to_state X H s) =
            \<lparr>ms_inner = Some \<lparr>vm_manifest = m, vm_signature_verified = True\<rparr>,
             ms_version_floor = mm_version m\<rparr>
   else snd (apply_env_to_state X H s) = s"
proof (cases "fst (apply_env_to_state X H s) = Inr True")
  case True
  then obtain v where v: "try_load_from_env X H = Inr (Some v)" "fst (set_verified v s) = Inr ()"
    "snd (apply_env_to_state X H s) = snd (set_verified v s)"
    by (auto simp: apply_env_to_state_def split: sum.splits option.splits prod.splits)
  obtain path sig_path b sig where f: "read_file H path = Inr b" "read_text H sig_path = Inr sig"
    "verify_and_parse X b (trim sig) = Inr v"
    using load_ok [OF v(1)] by blast
  then have p: "maint_verify_signature X b (trim sig) PINNED_PUBLIC_KEY_HEX = Inr ()"
    "parse_manifest_bytes X b = Inr (vm_manifest v)" "vm_signature_verified v"
    by (auto simp: verify_and_parse_def result_simps)
  from p(2) have m: "manifest_from_slice X b = Inr (vm_manifest v)"
    "mm_schema (vm_manifest v) = SCHEMA" "mm_key_id (vm_manifest v) = KEY_ID"
    "check_windows (mm_windows (vm_manifest v)) = Inr ()"
    by (auto simp: parse_manifest_bytes_def result_simps split: if_splits)
  then have "list_all (\<lambda>w. is_ok (resolve_bounds w)) (mm_windows (vm_manifest v))"
    by (auto simp: check_windows_ok check_window_def list_all_iff is_ok_iff result_simps
        split: if_splits)
  moreover have "ms_version_floor s \<le> mm_version (vm_manifest v)"
    "snd (set_verified v s) = \<lparr>ms_inner = Some \<lparr>vm_manifest = vm_manifest v,
       vm_signature_verified = True\<rparr>, ms_version_floor = mm_version (vm_manifest v)\<rparr>"
    using v(2) p(3) by (auto simp: set_verified_def split: if_splits)
  ultimately show ?thesis using True f(1,2) p(1) m v(3) by auto
next
  case False
  then show ?thesis
    using apply_env_cases [of X H s] by (auto simp: set_verified_def split: if_splits)
qed

end
