(* ===== verification/Routes.thy ===== *)
theory Routes
  imports Api_Error
begin

text \<open>
  \<open>crates/openapi-core/src/routes.rs\<close>: path normalisation and the classification of a request
  line into the action the handler takes. The lemmas show that classification does not depend on
  a query, fragment or trailing slash, that the allowlist mode never proxies an unlisted path,
  and that the transparent mode changes only the paths the allowlist mode does not know.
\<close>

datatype http_method = Get | Post | Other

definition http_method_parse :: "string \<Rightarrow> http_method" where
  "http_method_parse m =
     (if m = ''GET'' then Get else if m = ''POST'' then Post else Other)"

datatype proxy_mode = Allowlist | Transparent

text \<open>The refused value; the source's message is a fixed text around it.\<close>

datatype proxy_mode_error = UnknownProxyMode string

definition proxy_mode_parse :: "string option \<Rightarrow> proxy_mode_error + proxy_mode" where
  "proxy_mode_parse raw =
     (case trimmed_nonempty raw of
        None \<Rightarrow> Inr Allowlist
      | Some s \<Rightarrow>
          if eq_ignore_ascii_case s ''allowlist'' \<or> eq_ignore_ascii_case s ''deny''
          then Inr Allowlist
          else if eq_ignore_ascii_case s ''transparent'' \<or> eq_ignore_ascii_case s ''proxy''
          then Inr Transparent
          else Inl (UnknownProxyMode s))"

datatype route_action =
    Health
  | Status
  | Attestation
  | ModelsList
  | InferencePost
  | ProxyGet
  | ProxyPost
  | RouteNotImplemented string
  | RouteMethodNotAllowed
  | RouteNotFound

text \<open>The loop that pops trailing slashes but leaves a lone slash.\<close>

function pop_slashes :: "string \<Rightarrow> string" where
  "pop_slashes p =
     (if 1 < length p \<and> last p = CHR ''/'' then pop_slashes (butlast p) else p)"
  by pat_completeness auto
termination
  by (relation "measure length") auto

declare pop_slashes.simps [simp del]

definition is_qf :: "char \<Rightarrow> bool" where
  "is_qf c \<longleftrightarrow> c = CHR ''?'' \<or> c = CHR ''#''"

definition normalize_path :: "string \<Rightarrow> route_action + string" where
  "normalize_path raw =
     (let without_qf = hd (split_on is_qf raw)
      in if without_qf = [] \<or> \<not> starts_with without_qf ''/'' then Inl RouteNotFound
         else if ''..'' \<in> set (split_on (\<lambda>c. c = CHR ''/'') without_qf) then Inl RouteNotFound
         else Inr (pop_slashes without_qf))"

definition blocked_routes :: "(string \<times> string) list" where
  "blocked_routes =
     [(''/v1/fine_tuning'',
       ''fine-tuning jobs require durable storage; not supported on the edge''),
      (''/v1/fine-tuning'',
       ''fine-tuning jobs require durable storage; not supported on the edge''),
      (''/v1/assistants'',
       ''Assistants API requires durable thread storage; not supported on the edge''),
      (''/v1/threads'',
       ''Assistants API requires durable thread storage; not supported on the edge''),
      (''/v1/files'', ''file uploads require durable storage; not supported on the edge''),
      (''/v1/batches'', ''batch jobs require durable storage; not supported on the edge''),
      (''/v1/vector_stores'',
       ''vector stores require durable storage; not supported on the edge''),
      (''/v1/uploads'', ''upload sessions require durable storage; not supported on the edge''),
      (''/v1/audio'', ''audio APIs are not yet supported on the edge''),
      (''/v1/images'', ''image generation APIs are not yet supported on the edge''),
      (''/v1/videos'', ''video generation APIs are not yet supported on the edge''),
      (''/v1/realtime'',
       ''realtime sessions require durable WebSocket state; not supported on the edge''),
      (''/v1/containers'', ''container APIs are not supported on the edge'')]"

definition not_implemented_reason :: "string \<Rightarrow> string option" where
  "not_implemented_reason path =
     map_option snd (find (\<lambda>(pre, _). starts_with path pre) blocked_routes)"

text \<open>The match on the normalised path, arm by arm in the order of the source.\<close>

definition classify_normalized :: "http_method \<Rightarrow> string \<Rightarrow> proxy_mode \<Rightarrow> route_action" where
  "classify_normalized method path mode =
     (if path = ''/healthz'' \<and> method = Get then Health
      else if path = ''/v1/status'' \<and> method = Get then Status
      else if path = ''/v1/attestation/challenge'' then
        (case method of Post \<Rightarrow> Attestation | _ \<Rightarrow> RouteMethodNotAllowed)
      else if path = ''/v1/models'' \<and> method = Get then ModelsList
      else if path = ''/v1/chat/completions'' then
        (case method of Post \<Rightarrow> InferencePost | _ \<Rightarrow> RouteMethodNotAllowed)
      else if path \<in> {''/v1/completions'', ''/v1/embeddings'', ''/v1/responses'',
                      ''/v1/moderations''} \<and> method = Post
      then InferencePost
      else if starts_with path ''/v1/'' then
        (case not_implemented_reason path of
           Some reason \<Rightarrow> RouteNotImplemented reason
         | None \<Rightarrow>
             (case mode of
                Allowlist \<Rightarrow> RouteNotFound
              | Transparent \<Rightarrow>
                  (case method of
                     Get \<Rightarrow> ProxyGet
                   | Post \<Rightarrow> ProxyPost
                   | Other \<Rightarrow> RouteMethodNotAllowed)))
      else RouteNotFound)"

definition classify :: "http_method \<Rightarrow> string \<Rightarrow> proxy_mode \<Rightarrow> route_action" where
  "classify method path mode =
     (case normalize_path path of
        Inl action \<Rightarrow> action
      | Inr p \<Rightarrow> classify_normalized method p mode)"

subsection \<open>Normal forms of paths\<close>

lemma split_on_snoc: "p c \<Longrightarrow> split_on p (s @ [c]) = split_on p s @ [[]]"
  by (induction s) (auto split: list.splits)

lemma split_on_replicate:
  "p c \<Longrightarrow> split_on p (s @ replicate k c) = split_on p s @ replicate k []"
  by (induction k)
    (auto simp: replicate_append_same [symmetric] split_on_snoc simp flip: append_assoc)

lemma pop_slashes_app: "\<exists>k. s = pop_slashes s @ replicate k (CHR ''/'')"
proof (induction s rule: pop_slashes.induct)
  case (1 p)
  show ?case
  proof (cases "1 < length p \<and> last p = CHR ''/''")
    case True
    with "1.IH" obtain k where "butlast p = pop_slashes (butlast p) @ replicate k (CHR ''/'')"
      by blast
    with True have "p = pop_slashes (butlast p) @ replicate (Suc k) (CHR ''/'')"
      by (metis append_assoc append_butlast_last_id list.size(3) not_less_zero
            replicate_append_same replicate_Suc)
    with True show ?thesis by (subst pop_slashes.simps) (intro exI [of _ "Suc k"], simp)
  next
    case False
    then show ?thesis by (subst pop_slashes.simps) (auto intro: exI [of _ 0])
  qed
qed

lemma pop_slashes_done: "\<not> (1 < length (pop_slashes s) \<and> last (pop_slashes s) = CHR ''/'')"
proof (induction s rule: pop_slashes.induct)
  case (1 p)
  then show ?case by (subst (1 2) pop_slashes.simps) auto
qed

lemma pop_slashes_fixed:
  "\<not> (1 < length s \<and> last s = CHR ''/'') \<Longrightarrow> pop_slashes s = s"
  by (subst pop_slashes.simps) auto

lemma pop_slashes_snoc: "s \<noteq> [] \<Longrightarrow> pop_slashes (s @ [CHR ''/'']) = pop_slashes s"
  by (subst pop_slashes.simps) auto

lemma pop_slashes_replicate:
  "s \<noteq> [] \<Longrightarrow> pop_slashes (s @ replicate k (CHR ''/'')) = pop_slashes s"
  by (induction k)
    (auto simp: replicate_append_same [symmetric] pop_slashes_snoc simp flip: append_assoc)

lemma pop_slashes_nonempty: "s \<noteq> [] \<Longrightarrow> pop_slashes s \<noteq> []"
proof (induction s rule: pop_slashes.induct)
  case (1 p)
  then show ?case by (subst pop_slashes.simps) (cases p rule: rev_cases, auto)
qed

lemma normalize_path_eq:
  "normalize_path raw =
     (let w = takeWhile (\<lambda>c. \<not> is_qf c) raw
      in if \<not> prefix ''/'' w \<or> ''..'' \<in> set (split_on (\<lambda>c. c = CHR ''/'') w)
         then Inl RouteNotFound else Inr (pop_slashes w))"
  by (auto simp: normalize_path_def Let_def hd_split_on starts_with_def)

lemma normalize_path_Inl: "normalize_path raw = Inl a \<Longrightarrow> a = RouteNotFound"
  by (auto simp: normalize_path_eq Let_def split: if_splits)

text \<open>What a normalised path looks like.\<close>

definition normal_path :: "string \<Rightarrow> bool" where
  "normal_path p \<longleftrightarrow>
     prefix ''/'' p \<and> (\<forall>c\<in>set p. \<not> is_qf c) \<and>
     ''..'' \<notin> set (split_on (\<lambda>c. c = CHR ''/'') p) \<and>
     \<not> (1 < length p \<and> last p = CHR ''/'')"

lemma normalize_path_normal:
  assumes "normalize_path raw = Inr p"
  shows "normal_path p"
proof -
  let ?w = "takeWhile (\<lambda>c. \<not> is_qf c) raw"
  let ?sl = "\<lambda>c. c = CHR ''/''"
  from assms have w: "prefix ''/'' ?w" "''..'' \<notin> set (split_on ?sl ?w)" and p: "p = pop_slashes ?w"
    by (auto simp: normalize_path_eq Let_def split: if_splits)
  obtain k where k: "?w = p @ replicate k (CHR ''/'')"
    using pop_slashes_app [of ?w] p by auto
  have "?w \<noteq> []" using w(1) by (metis list.distinct(1) prefix_Nil)
  then have "p \<noteq> []" unfolding p by (rule pop_slashes_nonempty)
  then have "prefix ''/'' p" using w(1) k by (cases p) auto
  moreover have "\<not> is_qf c" if "c \<in> set p" for c
    using that k set_takeWhileD [of c "\<lambda>c. \<not> is_qf c" raw] by (metis Un_iff set_append)
  moreover have "''..'' \<notin> set (split_on ?sl p)"
    using w(2) k split_on_replicate [of ?sl "CHR ''/''" p k] by simp
  ultimately show ?thesis
    using pop_slashes_done [of ?w] unfolding normal_path_def p by blast
qed

lemma normalize_normal_path: "normal_path p \<Longrightarrow> normalize_path p = Inr p"
  by (auto simp: normalize_path_eq normal_path_def takeWhile_eq_all_conv [THEN iffD2]
      pop_slashes_fixed Let_def)

lemma normalize_idem: "normalize_path raw = Inr p \<Longrightarrow> normalize_path p = Inr p"
  using normalize_path_normal normalize_normal_path by blast

lemma classify_of_normalized:
  "normalize_path raw = Inr p \<Longrightarrow> classify m p mode = classify_normalized m p mode"
  by (simp add: classify_def normalize_idem)

lemma normalize_path_suffix:
  assumes "p \<noteq> []" and "\<forall>c\<in>set p. \<not> is_qf c" and "q = [] \<or> is_qf (hd q)"
  shows "normalize_path (p @ replicate k (CHR ''/'') @ q) = normalize_path p"
proof -
  have "takeWhile (\<lambda>c. \<not> is_qf c) q = []" using assms(3) by (cases q) auto
  then have "takeWhile (\<lambda>c. \<not> is_qf c) (replicate k (CHR ''/'') @ q) = replicate k (CHR ''/'')"
    by (induction k) (simp_all add: is_qf_def)
  then have l: "takeWhile (\<lambda>c. \<not> is_qf c) (p @ replicate k (CHR ''/'') @ q)
      = p @ replicate k (CHR ''/'')"
    using assms(2) takeWhile_append2 [of p "\<lambda>c. \<not> is_qf c" "replicate k (CHR ''/'') @ q"] by simp
  have r: "takeWhile (\<lambda>c. \<not> is_qf c) p = p" using assms(2) by simp
  have "prefix ''/'' (p @ replicate k (CHR ''/'')) \<longleftrightarrow> prefix ''/'' p"
    using assms(1) by (cases p) auto
  then show ?thesis
    unfolding normalize_path_eq Let_def l r
    by (simp add: pop_slashes_replicate [OF assms(1)] split_on_replicate)
qed

subsection \<open>Properties of the classification\<close>

definition inference_paths :: "string set" where
  "inference_paths =
     {''/v1/chat/completions'', ''/v1/completions'', ''/v1/embeddings'', ''/v1/responses'',
      ''/v1/moderations''}"

lemma classify_normalized_inference:
  "classify_normalized m p mode = InferencePost \<longleftrightarrow> m = Post \<and> p \<in> inference_paths"
  by (cases m; cases mode)
    (auto simp: classify_normalized_def inference_paths_def split: option.splits)

lemma classify_normalized_models:
  "classify_normalized m p mode = ModelsList \<longleftrightarrow> m = Get \<and> p = ''/v1/models''"
  by (cases m; cases mode) (auto simp: classify_normalized_def split: option.splits)

lemma classify_normalized_proxy:
  "classify_normalized m p mode \<in> {ProxyGet, ProxyPost} \<Longrightarrow>
     mode = Transparent \<and> starts_with p ''/v1/'' \<and> not_implemented_reason p = None"
  by (auto simp: classify_normalized_def
      split: option.splits http_method.splits proxy_mode.splits if_splits)

lemma classify_normalized_modes:
  assumes "classify_normalized m p Transparent \<noteq> classify_normalized m p Allowlist"
  shows "classify_normalized m p Allowlist = RouteNotFound"
    and "starts_with p ''/v1/'' \<and> not_implemented_reason p = None \<and>
      p \<noteq> ''/v1/chat/completions'' \<and> p \<noteq> ''/v1/attestation/challenge''"
    and "classify_normalized m p Transparent =
      (case m of Get \<Rightarrow> ProxyGet | Post \<Rightarrow> ProxyPost | Other \<Rightarrow> RouteMethodNotAllowed)"
  using assms unfolding classify_normalized_def
  by (simp_all split: if_split_asm option.split_asm)

text \<open>ROUTE-001: a query string, a fragment or any number of trailing slashes never changes
  how a request is classified, in either proxy mode.\<close>

theorem classify_ignores_query_and_slash:
  assumes "p \<noteq> []" and "\<forall>c\<in>set p. \<not> is_qf c" and "q = [] \<or> is_qf (hd q)"
  shows "classify m (p @ replicate k (CHR ''/'') @ q) mode = classify m p mode"
  using normalize_path_suffix [OF assms] by (simp add: classify_def)

theorem classify_ignores_query_and_slash_witness:
  "classify Post (''/v1/chat/completions'' @ replicate 2 (CHR ''/'') @ ''?stream=1'') Transparent
     = InferencePost"
proof -
  have "classify Post (''/v1/chat/completions'' @ replicate 2 (CHR ''/'') @ ''?stream=1'') Transparent
      = classify Post ''/v1/chat/completions'' Transparent"
    by (rule classify_ignores_query_and_slash) (simp_all add: is_qf_def)
  then show ?thesis by code_simp
qed

text \<open>C33. PROXY-001: in allowlist mode a request is passed to the engine exactly when its
  normalised path and method are one of the six listed ones; nothing is ever proxied
  transparently, and a path with a parent-directory segment is not found.\<close>

theorem allowlist_is_exact:
  "(classify m raw Allowlist = InferencePost \<longleftrightarrow>
      m = Post \<and> (\<exists>p\<in>inference_paths. normalize_path raw = Inr p)) \<and>
   (classify m raw Allowlist = ModelsList \<longleftrightarrow>
      m = Get \<and> normalize_path raw = Inr ''/v1/models'') \<and>
   classify m raw Allowlist \<notin> {ProxyGet, ProxyPost} \<and>
   (''..'' \<in> set (split_on (\<lambda>c. c = CHR ''/'') (takeWhile (\<lambda>c. \<not> is_qf c) raw)) \<longrightarrow>
      classify m raw mode = RouteNotFound)"
proof (cases "normalize_path raw")
  case (Inl a)
  then show ?thesis using normalize_path_Inl [OF Inl] by (simp add: classify_def)
next
  case (Inr p)
  then have "\<not> ''..'' \<in> set (split_on (\<lambda>c. c = CHR ''/'') (takeWhile (\<lambda>c. \<not> is_qf c) raw))"
    by (auto simp: normalize_path_eq Let_def split: if_splits)
  with Inr show ?thesis
    using classify_normalized_proxy [of m p Allowlist]
    by (auto simp: classify_def classify_normalized_inference classify_normalized_models)
qed

theorem allowlist_is_exact_witness:
  "classify Get ''/v1/../admin'' Transparent = RouteNotFound"
proof -
  have "''..'' \<in> set (split_on (\<lambda>c. c = CHR ''/'') (takeWhile (\<lambda>c. \<not> is_qf c) ''/v1/../admin''))"
    by code_simp
  then show ?thesis
    using allowlist_is_exact [of Get "''/v1/../admin''" Transparent] by blast
qed

text \<open>The transparent mode refines the allowlist mode: it changes the action only of a path
  under \<open>/v1/\<close> that no rule names and no durable-storage prefix blocks, which the allowlist mode
  answers with not found.\<close>

theorem transparent_only_extends:
  assumes "classify m raw Transparent \<noteq> classify m raw Allowlist"
  shows "classify m raw Allowlist = RouteNotFound \<and>
    (\<exists>p. normalize_path raw = Inr p \<and> starts_with p ''/v1/'' \<and>
         not_implemented_reason p = None \<and> p \<noteq> ''/v1/chat/completions'' \<and>
         p \<noteq> ''/v1/attestation/challenge'') \<and>
    classify m raw Transparent =
      (case m of Get \<Rightarrow> ProxyGet | Post \<Rightarrow> ProxyPost | Other \<Rightarrow> RouteMethodNotAllowed)"
proof (cases "normalize_path raw")
  case (Inl a)
  with assms show ?thesis by (simp add: classify_def)
next
  case (Inr p)
  with assms have "classify_normalized m p Transparent \<noteq> classify_normalized m p Allowlist"
    by (simp add: classify_def)
  from classify_normalized_modes [OF this] Inr show ?thesis by (simp add: classify_def)
qed

theorem transparent_only_extends_witness:
  "classify Get ''/v1/engines'' Transparent = ProxyGet"
proof -
  have "classify Get ''/v1/engines'' Transparent \<noteq> classify Get ''/v1/engines'' Allowlist"
    by code_simp
  from transparent_only_extends [OF this] show ?thesis by simp
qed

end
