(* ===== verification/Profile.thy ===== *)
theory Profile
  imports Routes
begin

text \<open>
  \<open>crates/openapi-platform/src/profile.rs\<close>: the runtime profile and the startup checks a
  production unit must pass. The process environment, the kernel command line and the path of the
  executable are arguments.
\<close>

datatype edge_profile = Dev | Prod

definition is_prod :: "edge_profile \<Rightarrow> bool" where
  "is_prod p \<longleftrightarrow> p = Prod"

datatype profile_error =
    MissingProfile
  | UnknownProfile string
  | ProdPlaintextTlsKey
  | ProdMissingSealedTlsKey
  | ProdMissingTlsCert
  | ProdHostSealRoot
  | ProdAttestedLaunchOverride
  | ProdAmdSpDerivedKeyOverride
  | ProdHostSealTool
  | ProdChallengeBenchToken
  | ProdTransparentProxy
  | ProdTlsKeyPolicyPathOverride
  | ProdUnmeasuredSnpguestBin
  | ProdMissingAppVerity

text \<open>The text of the errors. The argument prints a string in quotes with its escapes, as \<open>{:?}\<close> does
  by the Unicode tables of the standard library.\<close>

definition em_dash :: string where
  "em_dash = [CHR 0xE2, CHR 0x80, CHR 0x94]"

fun profile_error_to_string :: "(string \<Rightarrow> string) \<Rightarrow> profile_error \<Rightarrow> string" where
  "profile_error_to_string dbg MissingProfile =
     ''OPENAPI_PROFILE is required (expected dev|prod|production)''"
| "profile_error_to_string dbg (UnknownProfile s) =
     ''invalid OPENAPI_PROFILE '' @ dbg s @ '' (expected dev|prod|production)''"
| "profile_error_to_string dbg ProdPlaintextTlsKey =
     ''prod forbids plaintext TLS key (OPENAPI_TLS_KEY_PATH)''"
| "profile_error_to_string dbg ProdMissingSealedTlsKey =
     ''prod requires sealed TLS key (OPENAPI_TLS_SEALED_KEY_PATH)''"
| "profile_error_to_string dbg ProdMissingTlsCert =
     ''prod requires TLS certificate (OPENAPI_TLS_CERT_PATH) '' @ em_dash @ '' TLS-001''"
| "profile_error_to_string dbg ProdHostSealRoot =
     ''prod forbids host-supplied OPENAPI_SEAL_ROOT_HEX '' @ em_dash @
     '' seal root is derived inside TEE''"
| "profile_error_to_string dbg ProdAttestedLaunchOverride =
     ''prod forbids OPENAPI_ATTESTED_LAUNCH_DIGEST '' @ em_dash @
     '' use snpguest / /dev/sev-guest (OPS-001)''"
| "profile_error_to_string dbg ProdAmdSpDerivedKeyOverride =
     ''prod forbids OPENAPI_AMD_SP_DERIVED_KEY_HEX '' @ em_dash @
     '' use SNP_GET_DERIVED_KEY via /dev/sev-guest (OPS-003)''"
| "profile_error_to_string dbg ProdHostSealTool =
     ''OPENAPI_PROFILE=prod forbids host-side seal-tls-key tools '' @ em_dash @
     '' run the in-TEE ceremony''"
| "profile_error_to_string dbg ProdChallengeBenchToken =
     ''prod forbids OPENAPI_CHALLENGE_BENCH_TOKEN '' @ em_dash @
     '' challenge DoS caps must stay on (BENCH-001)''"
| "profile_error_to_string dbg ProdTransparentProxy =
     ''prod forbids OPENAPI_PROXY_MODE=transparent '' @ em_dash @ '' use allowlist (PROXY-001)''"
| "profile_error_to_string dbg ProdTlsKeyPolicyPathOverride =
     ''prod forbids OPENAPI_TLS_KEY_POLICY_PATH '' @ em_dash @
     '' use measured /etc/tls_key_policy (POLICY-001)''"
| "profile_error_to_string dbg ProdUnmeasuredSnpguestBin =
     ''prod forbids OPENAPI_SNPGUEST_BIN on unmeasured data paths '' @ em_dash @
     '' use measured helper (SNPGUEST-001)''"
| "profile_error_to_string dbg ProdMissingAppVerity =
     ''prod requires measured app path '' @ em_dash @
     '' teechat.app_verity_root on cmdline and binary not under /data (APP-VERITY-001)''"

type_synonym environ = "string \<Rightarrow> string option"

definition parse_edge_profile :: "string option \<Rightarrow> profile_error + edge_profile" where
  "parse_edge_profile raw =
     (case map_option to_ascii_lowercase (trimmed_nonempty raw) of
        None \<Rightarrow> Inl MissingProfile
      | Some s \<Rightarrow>
          if s = ''dev'' then Inr Dev
          else if s = ''prod'' \<or> s = ''production'' then Inr Prod
          else Inl (UnknownProfile s))"

definition load_edge_profile :: "environ \<Rightarrow> profile_error + edge_profile" where
  "load_edge_profile env = parse_edge_profile (env ''OPENAPI_PROFILE'')"

text \<open>\<open>var(..).ok().filter(|s| !s.is_empty()).is_some()\<close>.\<close>

definition env_set :: "environ \<Rightarrow> string \<Rightarrow> bool" where
  "env_set env k = (case env k of None \<Rightarrow> False | Some s \<Rightarrow> s \<noteq> [])"

definition is_unmeasured_guest_path :: "string \<Rightarrow> bool" where
  "is_unmeasured_guest_path path =
     (let lower = to_ascii_lowercase (trim path)
      in if lower = [] then False
         else if lower = ''/data'' \<or> starts_with lower ''/data/'' then True
         else if starts_with lower ''/var/mnt/teechat-openapi/app/'' \<or>
                 starts_with lower ''/usr/local/teechat/'' then False
         else starts_with lower ''/var/mnt/teechat-openapi/'')"

definition validate_tls_key_policy :: "environ \<Rightarrow> edge_profile \<Rightarrow> profile_error + unit" where
  "validate_tls_key_policy env profile =
     (if \<not> is_prod profile then Inr ()
      else if env_set env ''OPENAPI_TLS_KEY_PATH'' then Inl ProdPlaintextTlsKey
      else if \<not> env_set env ''OPENAPI_CEREMONY_HELPER_URL'' \<and>
              \<not> env_set env ''OPENAPI_TLS_SEALED_KEY_PATH'' then Inl ProdMissingSealedTlsKey
      else if \<not> env_set env ''OPENAPI_CEREMONY_HELPER_URL'' \<and>
              \<not> env_set env ''OPENAPI_TLS_CERT_PATH'' then Inl ProdMissingTlsCert
      else if env_set env ''OPENAPI_SEAL_ROOT_HEX'' then Inl ProdHostSealRoot
      else if env_set env ''OPENAPI_ATTESTED_LAUNCH_DIGEST'' \<and>
              env ''OPENAPI_ATTESTED_LAUNCH_DIGEST'' \<noteq> Some ''unknown''
        then Inl ProdAttestedLaunchOverride
      else if env_set env ''OPENAPI_AMD_SP_DERIVED_KEY_HEX'' then Inl ProdAmdSpDerivedKeyOverride
      else if env_set env ''OPENAPI_CHALLENGE_BENCH_TOKEN'' then Inl ProdChallengeBenchToken
      else if (case env ''OPENAPI_PROXY_MODE'' of
                 None \<Rightarrow> False
               | Some mode \<Rightarrow> eq_ignore_ascii_case (trim mode) ''transparent'' \<or>
                             eq_ignore_ascii_case (trim mode) ''proxy'')
        then Inl ProdTransparentProxy
      else if env_set env ''OPENAPI_TLS_KEY_POLICY_PATH'' then Inl ProdTlsKeyPolicyPathOverride
      else if (case env ''OPENAPI_SNPGUEST_BIN'' of
                 None \<Rightarrow> False | Some bin \<Rightarrow> is_unmeasured_guest_path (trim bin))
        then Inl ProdUnmeasuredSnpguestBin
      else Inr ())"

definition validate_measured_app_path ::
    "string option \<Rightarrow> string option \<Rightarrow> edge_profile \<Rightarrow> profile_error + unit" where
  "validate_measured_app_path kernel_cmdline current_exe profile =
     (if \<not> is_prod profile then Inr ()
      else let cmdline = (case kernel_cmdline of None \<Rightarrow> [] | Some c \<Rightarrow> c)
           in if \<not> list_ex (\<lambda>t. starts_with t ''teechat.app_verity_root='') (split_whitespace cmdline)
              then Inl ProdMissingAppVerity
              else (case current_exe of
                      None \<Rightarrow> Inr ()
                    | Some p \<Rightarrow> if is_unmeasured_guest_path p then Inl ProdMissingAppVerity
                               else Inr ()))"

definition assert_dev_host_seal_tool :: "edge_profile \<Rightarrow> profile_error + unit" where
  "assert_dev_host_seal_tool profile = (if is_prod profile then Inl ProdHostSealTool else Inr ())"

subsection \<open>Properties\<close>

lemma validated_prod:
  assumes "validate_tls_key_policy env Prod = Inr ()"
  shows "\<not> env_set env ''OPENAPI_TLS_KEY_PATH''" "\<not> env_set env ''OPENAPI_SEAL_ROOT_HEX''"
    "\<not> env_set env ''OPENAPI_AMD_SP_DERIVED_KEY_HEX''"
    "\<not> env_set env ''OPENAPI_CHALLENGE_BENCH_TOKEN''"
    "\<not> env_set env ''OPENAPI_TLS_KEY_POLICY_PATH''"
    "\<And>mode. env ''OPENAPI_PROXY_MODE'' = Some mode \<Longrightarrow>
       \<not> eq_ignore_ascii_case (trim mode) ''transparent'' \<and> \<not> eq_ignore_ascii_case (trim mode) ''proxy''"
  using assms by (auto simp: validate_tls_key_policy_def is_prod_def split: if_split_asm)

text \<open>The proxy mode that a production unit reads from the environment it validated.\<close>

lemma validated_prod_allowlist:
  assumes "validate_tls_key_policy env Prod = Inr ()"
    and "proxy_mode_parse (env ''OPENAPI_PROXY_MODE'') = Inr mode"
  shows "mode = Allowlist"
proof (cases "env ''OPENAPI_PROXY_MODE''")
  case None
  then show ?thesis using assms(2) by (simp add: proxy_mode_parse_def trimmed_nonempty_def)
next
  case (Some s)
  with validated_prod(6) [OF assms(1) Some] assms(2) show ?thesis
    by (auto simp: proxy_mode_parse_def trimmed_nonempty_def split: if_split_asm)
qed

lemma profile_cases:
  "parse_edge_profile raw = Inr p \<Longrightarrow>
     (\<exists>s. raw = Some s \<and>
        (p = Dev \<and> to_ascii_lowercase (trim s) = ''dev'' \<or>
         p = Prod \<and> to_ascii_lowercase (trim s) \<in> {''prod'', ''production''}))"
  by (cases raw) (auto simp: parse_edge_profile_def trimmed_nonempty_def split: if_split_asm)

text \<open>The measured-path test looks at the text of a path only: a path that climbs out of the
  measured mount with a parent component is taken for a measured one.\<close>

lemma parent_component_not_seen:
  "is_unmeasured_guest_path ''/var/mnt/teechat-openapi/bin/openapi'' \<and>
   \<not> is_unmeasured_guest_path ''/var/mnt/teechat-openapi/app/../bin/openapi''"
  by code_simp

end
