(* ===== verification/Challenge.thy ===== *)
theory Challenge
  imports Third_Party
begin

text \<open>
  \<open>crates/openapi-platform/src/challenge.rs\<close> (with the identity types of \<open>lib.rs\<close>): how an attestation
  quote is bound to the caller's nonce and to the edge's identity, on the edge and on the client.
  Hashing, hex and base64 are parameters.
\<close>

subsection \<open>Data\<close>

record chal_ext = ext +
  std_b64_decode :: "string \<Rightarrow> string + bytes"
  std_b64_encode :: "bytes \<Rightarrow> string"

datatype measurement =
    Mrenclave string
  | LaunchDigest (launch_digest: string) (image_digest: string)

record edge_identity =
  ei_build_version :: string
  ei_code_hash :: string
  ei_measurement :: measurement
  ei_tls_cert_spki_sha256 :: string
  ei_policy_hash :: "string option"

datatype platform_error = AttestationErr string | SealErr string | PlatformIo string

definition CHALLENGE_SCHEMA_VERSION :: nat where
  "CHALLENGE_SCHEMA_VERSION = 1"

definition REPORT_DATA_VERSION :: nat where
  "REPORT_DATA_VERSION = 1"

definition CHALLENGE_NONCE_LEN :: nat where
  "CHALLENGE_NONCE_LEN = 32"

definition REPORT_DATA_LEN :: nat where
  "REPORT_DATA_LEN = 64"

definition CHALLENGE_MAGIC :: bytes where
  "CHALLENGE_MAGIC = as_bytes ''teechat-openapi-challenge-v1''"

datatype quote_format = SgxDcapEcdsa | SgxReport | SnpReport

fun quote_format_as_str :: "quote_format \<Rightarrow> string" where
  "quote_format_as_str SgxDcapEcdsa = ''sgx_dcap_ecdsa''"
| "quote_format_as_str SgxReport = ''sgx_report''"
| "quote_format_as_str SnpReport = ''snp_report''"

definition remotely_verifiable :: "quote_format \<Rightarrow> bool" where
  "remotely_verifiable f \<longleftrightarrow> f = SgxDcapEcdsa \<or> f = SnpReport"

datatype challenge_bind_error =
    BadNonceLen nat
  | BadHex (bad_field: string) (bad_detail: string)
  | BadHexLen (bad_field: string)

fun bind_error_to_string :: "challenge_bind_error \<Rightarrow> string" where
  "bind_error_to_string (BadNonceLen n) =
     ''nonce must be exactly '' @ show_nat CHALLENGE_NONCE_LEN @ '' bytes, got '' @ show_nat n"
| "bind_error_to_string (BadHex field detail) = ''invalid hex field '' @ field @ '': '' @ detail"
| "bind_error_to_string (BadHexLen field) = ''hex field '' @ field @ '' must decode to 32 bytes''"

definition bind_err :: "challenge_bind_error \<Rightarrow> platform_error" where
  "bind_err e = AttestationErr (bind_error_to_string e)"

record challenge_response =
  cr_schema_version :: nat
  cr_report_data_version :: nat
  cr_edge :: edge_identity
  cr_challenge_nonce_b64 :: string
  cr_quote_format :: quote_format
  cr_quote_b64 :: string

subsection \<open>Canonical identities\<close>

definition is_ascii_hexdigit :: "char \<Rightarrow> bool" where
  "is_ascii_hexdigit c \<longleftrightarrow>
     is_ascii_digit c \<or> (97 \<le> code c \<and> code c \<le> 102) \<or> (65 \<le> code c \<and> code c \<le> 70)"

definition canonicalize_digest_field :: "'x ext_scheme \<Rightarrow> string \<Rightarrow> string" where
  "canonicalize_digest_field X v =
     (let trimmed = trim v
      in if length trimmed = 64 \<and> list_all is_ascii_hexdigit trimmed then to_ascii_lowercase trimmed
         else hex_encode X (sha256 X (as_bytes trimmed)))"

fun canonicalize_measurement :: "'x ext_scheme \<Rightarrow> measurement \<Rightarrow> measurement" where
  "canonicalize_measurement X (Mrenclave v) = Mrenclave (canonicalize_digest_field X v)"
| "canonicalize_measurement X (LaunchDigest l i) =
     LaunchDigest (canonicalize_digest_field X l) (canonicalize_digest_field X i)"

definition canonicalize_edge_identity ::
    "'x ext_scheme \<Rightarrow> edge_identity \<Rightarrow> challenge_bind_error + edge_identity" where
  "canonicalize_edge_identity X edge =
     (if trim (ei_tls_cert_spki_sha256 edge) = []
      then Inl (BadHex ''tls_cert_spki_sha256'' ''empty'')
      else Inr \<lparr>ei_build_version = ei_build_version edge,
                ei_code_hash = canonicalize_digest_field X (ei_code_hash edge),
                ei_measurement = canonicalize_measurement X (ei_measurement edge),
                ei_tls_cert_spki_sha256 = canonicalize_digest_field X (ei_tls_cert_spki_sha256 edge),
                ei_policy_hash = map_option (canonicalize_digest_field X) (ei_policy_hash edge)\<rparr>)"

definition challenge_response_new ::
    "'x chal_ext_scheme \<Rightarrow> edge_identity \<Rightarrow> bytes \<Rightarrow> quote_format \<Rightarrow> bytes
       \<Rightarrow> challenge_bind_error + challenge_response" where
  "challenge_response_new X edge nonce format quote_bytes =
     (if length nonce \<noteq> CHALLENGE_NONCE_LEN then Inl (BadNonceLen (length nonce))
      else bindE (canonicalize_edge_identity X edge) (\<lambda>edge'.
           Inr \<lparr>cr_schema_version = CHALLENGE_SCHEMA_VERSION,
                cr_report_data_version = REPORT_DATA_VERSION, cr_edge = edge',
                cr_challenge_nonce_b64 = b64url_encode X nonce, cr_quote_format = format,
                cr_quote_b64 = std_b64_encode X quote_bytes\<rparr>))"

subsection \<open>The preimage\<close>

definition decode_hex32 :: "'x ext_scheme \<Rightarrow> string \<Rightarrow> string \<Rightarrow> challenge_bind_error + bytes" where
  "decode_hex32 X hex_str field =
     bindE (map_err (BadHex field) (hex_decode X (trim hex_str))) (\<lambda>b.
     if length b \<noteq> 32 then Inl (BadHexLen field) else Inr b)"

fun measurement_body :: "'x ext_scheme \<Rightarrow> measurement \<Rightarrow> challenge_bind_error + bytes" where
  "measurement_body X (Mrenclave v) =
     bindE (decode_hex32 X v ''measurement.value'') (\<lambda>m. Inr (0x01 # m))"
| "measurement_body X (LaunchDigest l i) =
     bindE (decode_hex32 X l ''measurement.launch_digest'') (\<lambda>l'.
     bindE (decode_hex32 X i ''measurement.image_digest'') (\<lambda>i'. Inr (0x02 # l' @ i')))"

definition build_preimage_v1 ::
    "'x ext_scheme \<Rightarrow> bytes \<Rightarrow> edge_identity \<Rightarrow> challenge_bind_error + bytes" where
  "build_preimage_v1 X nonce edge =
     (if length nonce \<noteq> CHALLENGE_NONCE_LEN then Inl (BadNonceLen (length nonce))
      else bindE (decode_hex32 X (ei_tls_cert_spki_sha256 edge) ''tls_cert_spki_sha256'') (\<lambda>spki.
           bindE (decode_hex32 X (ei_code_hash edge) ''code_hash'') (\<lambda>code_hash.
           bindE (measurement_body X (ei_measurement edge)) (\<lambda>m.
           Inr (CHALLENGE_MAGIC @ nonce @ spki @ sha256 X (as_bytes (ei_build_version edge)) @
                code_hash @ m)))))"

definition build_report_data_v1 ::
    "'x ext_scheme \<Rightarrow> bytes \<Rightarrow> edge_identity \<Rightarrow> challenge_bind_error + bytes" where
  "build_report_data_v1 X nonce edge =
     bindE (canonicalize_edge_identity X edge) (\<lambda>edge'.
     bindE (build_preimage_v1 X nonce edge') (\<lambda>preimage.
     Inr (sha256 X preimage @ replicate 32 0)))"

definition report_data_matches_v1 ::
    "'x ext_scheme \<Rightarrow> bytes \<Rightarrow> edge_identity \<Rightarrow> bytes \<Rightarrow> challenge_bind_error + bool" where
  "report_data_matches_v1 X nonce edge actual =
     bindE (build_report_data_v1 X nonce edge) (\<lambda>expected.
     Inr (length actual = REPORT_DATA_LEN \<and> expected = actual))"

subsection \<open>Quotes\<close>

definition SGX_REPORT_DATA_OFFSET :: nat where
  "SGX_REPORT_DATA_OFFSET = 320"

definition SGX_DCAP_QUOTE3_HEADER_LEN :: nat where
  "SGX_DCAP_QUOTE3_HEADER_LEN = 48"

definition SGX_DCAP_REPORT_DATA_OFFSET :: nat where
  "SGX_DCAP_REPORT_DATA_OFFSET = SGX_DCAP_QUOTE3_HEADER_LEN + SGX_REPORT_DATA_OFFSET"

definition SNP_REPORT_DATA_OFFSET :: nat where
  "SNP_REPORT_DATA_OFFSET = 0x50"

definition decode_quote :: "'x chal_ext_scheme \<Rightarrow> string \<Rightarrow> platform_error + bytes" where
  "decode_quote X quote_b64 =
     map_err (\<lambda>e. AttestationErr (''quote_b64 decode: '' @ e)) (std_b64_decode X (trim quote_b64))"

definition sgx_report_reportdata :: "'x chal_ext_scheme \<Rightarrow> string \<Rightarrow> platform_error + bytes" where
  "sgx_report_reportdata X quote_b64 =
     bindE (decode_quote X quote_b64) (\<lambda>raw.
     if length raw < SGX_REPORT_DATA_OFFSET + REPORT_DATA_LEN
     then Inl (AttestationErr (''SGX REPORT too short: '' @ show_nat (length raw) @ '' bytes''))
     else Inr (take REPORT_DATA_LEN (drop SGX_REPORT_DATA_OFFSET raw)))"

definition sgx_dcap_quote_reportdata :: "'x chal_ext_scheme \<Rightarrow> string \<Rightarrow> platform_error + bytes" where
  "sgx_dcap_quote_reportdata X quote_b64 =
     bindE (decode_quote X quote_b64) (\<lambda>raw.
     if length raw < 2 then Inl (AttestationErr ''DCAP quote too short'')
     else let version = unat (raw ! 0) + 256 * unat (raw ! 1)
          in if version \<noteq> 3
             then Inl (AttestationErr (''unsupported DCAP quote version '' @ show_nat version @ '' (want 3)''))
             else if length raw < SGX_DCAP_REPORT_DATA_OFFSET + REPORT_DATA_LEN
             then Inl (AttestationErr (''DCAP quote too short for report_data: '' @
                         show_nat (length raw) @ '' bytes''))
             else Inr (take REPORT_DATA_LEN (drop SGX_DCAP_REPORT_DATA_OFFSET raw)))"

definition snp_report_reportdata :: "'x chal_ext_scheme \<Rightarrow> string \<Rightarrow> platform_error + bytes" where
  "snp_report_reportdata X quote_b64 =
     bindE (decode_quote X quote_b64) (\<lambda>raw.
     if length raw < SNP_REPORT_DATA_OFFSET + REPORT_DATA_LEN
     then Inl (AttestationErr (''SNP report too short: '' @ show_nat (length raw) @ '' bytes''))
     else Inr (take REPORT_DATA_LEN (drop SNP_REPORT_DATA_OFFSET raw)))"

fun quote_reportdata :: "'x chal_ext_scheme \<Rightarrow> quote_format \<Rightarrow> string \<Rightarrow> platform_error + bytes" where
  "quote_reportdata X SgxReport q = sgx_report_reportdata X q"
| "quote_reportdata X SgxDcapEcdsa q = sgx_dcap_quote_reportdata X q"
| "quote_reportdata X SnpReport q = snp_report_reportdata X q"

definition verify_challenge_report_data ::
    "'x chal_ext_scheme \<Rightarrow> bytes \<Rightarrow> challenge_response \<Rightarrow> platform_error + unit" where
  "verify_challenge_report_data X nonce response =
     (if cr_schema_version response \<noteq> CHALLENGE_SCHEMA_VERSION
      then Inl (AttestationErr (''unsupported schema_version '' @ show_nat (cr_schema_version response)))
      else if cr_report_data_version response \<noteq> REPORT_DATA_VERSION
      then Inl (AttestationErr (''unsupported report_data_version '' @
                  show_nat (cr_report_data_version response)))
      else bindE (map_err (\<lambda>e. AttestationErr (''challenge_nonce_b64: '' @ e))
                    (b64url_decode X (cr_challenge_nonce_b64 response))) (\<lambda>echoed.
           if echoed \<noteq> nonce
           then Inl (AttestationErr ''challenge_nonce_b64 does not match client nonce'')
           else bindE (quote_reportdata X (cr_quote_format response) (cr_quote_b64 response)) (\<lambda>actual.
                bindE (map_err bind_err (report_data_matches_v1 X nonce (cr_edge response) actual)) (\<lambda>ok.
                if ok then Inr ()
                else Inl (AttestationErr ''report_data does not match recomputed binding'')))))"

subsection \<open>The binding\<close>

lemma decode_hex32_ok: "decode_hex32 X h f = Inr b \<Longrightarrow> length b = 32"
  by (auto simp: decode_hex32_def result_simps split: if_splits)

text \<open>What a preimage binds besides the nonce: the decoded digests, the digest of the version, and the
  tagged measurement.\<close>

definition same_binding :: "'x ext_scheme \<Rightarrow> edge_identity \<Rightarrow> edge_identity \<Rightarrow> bool" where
  "same_binding X e e' \<longleftrightarrow>
     decode_hex32 X (ei_tls_cert_spki_sha256 e) [] = decode_hex32 X (ei_tls_cert_spki_sha256 e') [] \<and>
     decode_hex32 X (ei_code_hash e) [] = decode_hex32 X (ei_code_hash e') [] \<and>
     sha256 X (as_bytes (ei_build_version e)) = sha256 X (as_bytes (ei_build_version e')) \<and>
     measurement_body X (ei_measurement e) = measurement_body X (ei_measurement e')"

lemma decode_hex32_field: "decode_hex32 X h f = Inr b \<Longrightarrow> decode_hex32 X h [] = Inr b"
  by (auto simp: decode_hex32_def result_simps split: if_splits)

text \<open>The preimage is a sequence of parts of fixed length, so equal preimages have equal parts.\<close>

lemma preimage_injective:
  assumes "\<And>b. length (sha256 X b) = 32"
    and "build_preimage_v1 X n e = Inr p" "build_preimage_v1 X n' e' = Inr p"
  shows "n = n' \<and> same_binding X e e'"
proof -
  from assms(2) obtain spki code m where p: "length n = 32"
    "decode_hex32 X (ei_tls_cert_spki_sha256 e) ''tls_cert_spki_sha256'' = Inr spki"
    "decode_hex32 X (ei_code_hash e) ''code_hash'' = Inr code" "measurement_body X (ei_measurement e) = Inr m"
    "p = CHALLENGE_MAGIC @ n @ spki @ sha256 X (as_bytes (ei_build_version e)) @ code @ m"
    by (auto simp: build_preimage_v1_def result_simps CHALLENGE_NONCE_LEN_def split: if_splits)
  from assms(3) obtain spki' code' m' where p': "length n' = 32"
    "decode_hex32 X (ei_tls_cert_spki_sha256 e') ''tls_cert_spki_sha256'' = Inr spki'"
    "decode_hex32 X (ei_code_hash e') ''code_hash'' = Inr code'" "measurement_body X (ei_measurement e') = Inr m'"
    "p = CHALLENGE_MAGIC @ n' @ spki' @ sha256 X (as_bytes (ei_build_version e')) @ code' @ m'"
    by (auto simp: build_preimage_v1_def result_simps CHALLENGE_NONCE_LEN_def split: if_splits)
  note len = p(1) p'(1) decode_hex32_ok [OF p(2)] decode_hex32_ok [OF p'(2)] decode_hex32_ok [OF p(3)]
    decode_hex32_ok [OF p'(3)] assms(1)
  from p(5) p'(5) have "n = n'" "spki = spki'" "code = code'" "m = m'"
    "sha256 X (as_bytes (ei_build_version e)) = sha256 X (as_bytes (ei_build_version e'))"
    by (simp_all add: len)
  moreover note p(2,3) [THEN decode_hex32_field] p'(2,3) [THEN decode_hex32_field]
  ultimately show ?thesis using p(4) p'(4) by (simp add: same_binding_def)
qed

lemma verify_challenge_ok:
  assumes "verify_challenge_report_data X nonce r = Inr ()"
  obtains edge p where "canonicalize_edge_identity X (cr_edge r) = Inr edge"
    "build_preimage_v1 X nonce edge = Inr p"
    "quote_reportdata X (cr_quote_format r) (cr_quote_b64 r) = Inr (sha256 X p @ replicate 32 0)"
    "b64url_decode X (cr_challenge_nonce_b64 r) = Inr nonce"
  using assms
  by (auto simp: verify_challenge_report_data_def result_simps report_data_matches_v1_def
      build_report_data_v1_def split: if_splits)

text \<open>C18. A quote cannot be replayed for another nonce or another edge: when a client accepts a
  response for its nonce, and the quote in it was made by an edge for the report data of some nonce and
  identity, then, unless SHA-256 collides on the two preimages at hand, that nonce is the client's and
  the two identities agree in TLS key digest, code hash, version digest and measurement.\<close>

theorem accepted_challenge_is_bound:
  assumes hash: "\<And>b. length (sha256 X b) = 32"
    and accepted: "verify_challenge_report_data X nonce r = Inr ()"
    and edge': "canonicalize_edge_identity X edge1 = Inr edge'" "build_preimage_v1 X nonce1 edge' = Inr p1"
    and quoted: "quote_reportdata X (cr_quote_format r) (cr_quote_b64 r) = Inr (sha256 X p1 @ replicate 32 0)"
    and no_collision: "\<And>p. build_preimage_v1 X nonce (projr (canonicalize_edge_identity X (cr_edge r))) = Inr p \<Longrightarrow>
      sha256 X p = sha256 X p1 \<Longrightarrow> p = p1"
  shows "nonce = nonce1 \<and> b64url_decode X (cr_challenge_nonce_b64 r) = Inr nonce \<and>
    (\<exists>edge. canonicalize_edge_identity X (cr_edge r) = Inr edge \<and> same_binding X edge edge')"
proof -
  from accepted obtain edge p where e: "canonicalize_edge_identity X (cr_edge r) = Inr edge"
    "build_preimage_v1 X nonce edge = Inr p"
    "quote_reportdata X (cr_quote_format r) (cr_quote_b64 r) = Inr (sha256 X p @ replicate 32 0)"
    "b64url_decode X (cr_challenge_nonce_b64 r) = Inr nonce"
    by (rule verify_challenge_ok)
  from e(3) quoted have "sha256 X p = sha256 X p1" by simp
  with no_collision [of p] e(1,2) have "p = p1" by simp
  with preimage_injective [OF hash e(2), of nonce1 edge'] edge'(2) e(1,4) show ?thesis by auto
qed

subsection \<open>The round trip\<close>

definition lower_hex64 :: "string \<Rightarrow> bool" where
  "lower_hex64 s \<longleftrightarrow> length s = 64 \<and> list_all (\<lambda>c. is_ascii_hexdigit c \<and> ascii_lower c = c) s"

lemma lower_hex64_fixed:
  assumes "lower_hex64 s"
  shows "canonicalize_digest_field X s = s" "trim s \<noteq> []"
proof -
  have "s \<noteq> []" using assms by (auto simp: lower_hex64_def)
  have "is_graphic c" if "c \<in> set s" for c
    using assms that by (auto simp: lower_hex64_def list_all_iff is_ascii_hexdigit_def is_ascii_digit_def
        is_graphic_def)
  then have t: "trim s = s" using \<open>s \<noteq> []\<close> by (intro trim_graphic) simp_all
  moreover have "to_ascii_lowercase s = s"
    using assms by (auto simp: to_ascii_lowercase_def lower_hex64_def list_all_iff intro: map_idI)
  ultimately show "canonicalize_digest_field X s = s"
    using assms by (auto simp: canonicalize_digest_field_def Let_def lower_hex64_def list_all_iff)
  show "trim s \<noteq> []" using t \<open>s \<noteq> []\<close> by simp
qed

lemma ascii_lower_hex:
  "is_ascii_hexdigit c \<Longrightarrow> is_ascii_hexdigit (ascii_lower c) \<and> ascii_lower (ascii_lower c) = ascii_lower c"
  by (auto simp: ascii_lower_def is_ascii_hexdigit_def is_ascii_digit_def code_char_of)

lemma canonical_lower_hex64:
  assumes "\<And>b. lower_hex64 (hex_encode X (sha256 X b))"
  shows "lower_hex64 (canonicalize_digest_field X v)"
proof (cases "length (trim v) = 64 \<and> list_all is_ascii_hexdigit (trim v)")
  case True
  then show ?thesis using ascii_lower_hex
    by (simp add: canonicalize_digest_field_def Let_def lower_hex64_def to_ascii_lowercase_def list_all_iff)
next
  case False
  then show ?thesis using assms by (auto simp: canonicalize_digest_field_def Let_def)
qed

lemma canonicalize_idempotent:
  assumes "\<And>b. lower_hex64 (hex_encode X (sha256 X b))" "canonicalize_edge_identity X e = Inr e'"
  shows "canonicalize_edge_identity X e' = Inr e'"
proof -
  note fixed = lower_hex64_fixed [OF canonical_lower_hex64 [where X = X, OF assms(1)]]
  have "canonicalize_measurement X (canonicalize_measurement X m) = canonicalize_measurement X m" for m
    by (cases m) (simp_all add: fixed(1))
  with assms(2) show ?thesis
    by (auto simp: canonicalize_edge_identity_def fixed option.map_comp o_def split: if_splits)
qed

text \<open>Honest challenges are accepted: with codecs that decode what they encode and a hash printed as
  64 lower-case hex digits, the response an edge builds for a nonce verifies under that nonce, provided
  the quote in it carries the report data the edge computed from its own, not yet canonical, identity.\<close>

theorem honest_challenge_verifies:
  assumes hash: "\<And>b. length (sha256 X b) = 32" "\<And>b. lower_hex64 (hex_encode X (sha256 X b))"
    and codec: "b64url_decode X (b64url_encode X nonce) = Inr nonce"
    and response: "challenge_response_new X edge nonce format quote_bytes = Inr r"
    and report: "build_report_data_v1 X nonce edge = Inr rd"
    and quote: "quote_reportdata X format (std_b64_encode X quote_bytes) = Inr rd"
  shows "verify_challenge_report_data X nonce r = Inr ()"
proof -
  from response obtain edge' where edge': "canonicalize_edge_identity X edge = Inr edge'"
    and r: "r = \<lparr>cr_schema_version = CHALLENGE_SCHEMA_VERSION, cr_report_data_version = REPORT_DATA_VERSION,
      cr_edge = edge', cr_challenge_nonce_b64 = b64url_encode X nonce, cr_quote_format = format,
      cr_quote_b64 = std_b64_encode X quote_bytes\<rparr>"
    by (auto simp: challenge_response_new_def result_simps split: if_splits)
  from canonicalize_idempotent [where X = X, OF hash(2) edge'] edge' report
  have rd: "build_report_data_v1 X nonce edge' = Inr rd"
    by (simp add: build_report_data_v1_def)
  then have "length rd = REPORT_DATA_LEN"
    by (auto simp: build_report_data_v1_def result_simps hash(1) REPORT_DATA_LEN_def)
  with rd r codec quote show ?thesis
    by (simp add: verify_challenge_report_data_def report_data_matches_v1_def)
qed

subsection \<open>Stand-ins\<close>

text \<open>A hash that keeps the first 32 bytes, a hex codec on nibbles, and codecs that keep bytes.\<close>

definition pad32 :: "bytes \<Rightarrow> bytes" where
  "pad32 b = take 32 (b @ replicate 32 0)"

definition chal_crates :: chal_ext where
  "chal_crates =
     \<lparr>sha256 = pad32, hex_encode = \<lambda>b. replicate 64 (CHR ''a''), hex_decode = \<lambda>s. Inr (pad32 (as_bytes s)),
      sig_from_slice = Inr, ed25519_verify = \<lambda>vk payload sig. sig = vk @ payload,
      json_from_slice = \<lambda>b. if b = [123, 125] \<or> b = [123, 32, 125] then Inr (JObj []) else Inl ''expected value'',
      json_to_vec = \<lambda>j. Inr [], json_to_string = \<lambda>j. [],
      b64url_decode = \<lambda>s. Inr (as_bytes s), b64url_encode = bytes_str,
      std_b64_decode = \<lambda>s. Inr (as_bytes s), std_b64_encode = bytes_str\<rparr>"

definition sample_edge :: edge_identity where
  "sample_edge = \<lparr>ei_build_version = ''1'', ei_code_hash = ''c'', ei_measurement = Mrenclave ''m'',
     ei_tls_cert_spki_sha256 = ''k'', ei_policy_hash = None\<rparr>"

definition sample_edge_canonical :: edge_identity where
  "sample_edge_canonical = \<lparr>ei_build_version = ''1'', ei_code_hash = replicate 64 (CHR ''a''),
     ei_measurement = Mrenclave (replicate 64 (CHR ''a'')),
     ei_tls_cert_spki_sha256 = replicate 64 (CHR ''a''), ei_policy_hash = None\<rparr>"

definition sample_nonce :: bytes where
  "sample_nonce = replicate 32 7"

definition sample_preimage :: bytes where
  "sample_preimage = CHALLENGE_MAGIC @ sample_nonce @ replicate 32 97 @ pad32 [49] @ replicate 32 97 @
     [1] @ replicate 32 97"

text \<open>An SNP report with the report data in its place; its first byte is printable so that the codecs
  that keep bytes do not trim it.\<close>

definition sample_quote :: bytes where
  "sample_quote = replicate 80 97 @ pad32 sample_preimage @ replicate 32 0 @ [97]"

definition sample_challenge :: challenge_response where
  "sample_challenge = \<lparr>cr_schema_version = 1, cr_report_data_version = 1, cr_edge = sample_edge_canonical,
     cr_challenge_nonce_b64 = bytes_str sample_nonce, cr_quote_format = SnpReport,
     cr_quote_b64 = bytes_str sample_quote\<rparr>"

lemma length_pad32: "length (pad32 b) = 32"
  by (simp add: pad32_def)

lemma hex64_a: "lower_hex64 (replicate 64 (CHR ''a''))"
  by code_simp

lemma chal_crates_hash: "length (sha256 chal_crates b) = 32" "lower_hex64 (hex_encode chal_crates (sha256 chal_crates b))"
  using hex64_a by (simp_all add: chal_crates_def length_pad32)

lemma sample_canonical: "canonicalize_edge_identity chal_crates sample_edge = Inr sample_edge_canonical"
proof -
  have t: "trim ''k'' = ''k''" "trim ''c'' = ''c''" "trim ''m'' = ''m''" by code_simp+
  show ?thesis
    by (simp add: canonicalize_edge_identity_def canonicalize_digest_field_def sample_edge_def
        sample_edge_canonical_def chal_crates_def t)
qed

lemma sample_hex: "decode_hex32 chal_crates (replicate 64 (CHR ''a'')) f = Inr (replicate 32 97)"
proof -
  have "is_graphic (CHR ''a'')" "(of_char (CHR ''a'') :: u8) = 97" by code_simp simp
  moreover have "trim (replicate 64 (CHR ''a'')) = replicate 64 (CHR ''a'')"
    by (rule trim_graphic) (use \<open>is_graphic (CHR ''a'')\<close> in simp_all)
  ultimately show ?thesis
    by (simp add: decode_hex32_def chal_crates_def pad32_def as_bytes_def)
qed

lemma sample_preimage_built:
  "build_preimage_v1 chal_crates sample_nonce sample_edge_canonical = Inr sample_preimage"
  by (simp add: build_preimage_v1_def sample_hex sample_edge_canonical_def sample_preimage_def
      CHALLENGE_NONCE_LEN_def sample_nonce_def chal_crates_def [THEN arg_cong, of sha256]
     )

lemma sample_quote_report:
  "quote_reportdata chal_crates SnpReport (bytes_str sample_quote) =
     Inr (sha256 chal_crates sample_preimage @ replicate 32 0)"
proof -
  have a: "is_graphic (char_of (97 :: nat))" by code_simp
  have ends: "hd (bytes_str sample_quote) = char_of (97 :: nat)" "last (bytes_str sample_quote) = char_of (97 :: nat)"
    by (simp_all add: sample_quote_def bytes_str_def hd_map last_map hd_append)
  have "trim (bytes_str sample_quote) = bytes_str sample_quote"
    by (rule trim_graphic) (simp_all add: ends a)
  moreover have "std_b64_decode chal_crates t = Inr (as_bytes t)" for t by (simp add: chal_crates_def)
  moreover have "take 64 (drop 80 sample_quote) = pad32 sample_preimage @ replicate 32 0"
    "length sample_quote = 145"
    by (simp_all add: sample_quote_def length_pad32)
  moreover have "sha256 chal_crates = pad32" by (simp add: chal_crates_def)
  ultimately show ?thesis
    by (simp add: snp_report_reportdata_def decode_quote_def SNP_REPORT_DATA_OFFSET_def REPORT_DATA_LEN_def)
qed

theorem honest_challenge_verifies_witness:
  "verify_challenge_report_data chal_crates sample_nonce sample_challenge = Inr ()"
proof (rule honest_challenge_verifies [OF chal_crates_hash])
  show "b64url_decode chal_crates (b64url_encode chal_crates sample_nonce) = Inr sample_nonce"
    by (simp add: chal_crates_def)
  have "std_b64_encode chal_crates = bytes_str" "b64url_encode chal_crates = bytes_str"
    by (simp_all add: chal_crates_def)
  then show "challenge_response_new chal_crates sample_edge sample_nonce SnpReport sample_quote = Inr sample_challenge"
    by (simp add: challenge_response_new_def sample_canonical sample_challenge_def CHALLENGE_NONCE_LEN_def
        CHALLENGE_SCHEMA_VERSION_def REPORT_DATA_VERSION_def sample_nonce_def [THEN arg_cong, of length])
  show "build_report_data_v1 chal_crates sample_nonce sample_edge =
      Inr (sha256 chal_crates sample_preimage @ replicate 32 0)"
    by (simp add: build_report_data_v1_def sample_canonical sample_preimage_built)
  show "quote_reportdata chal_crates SnpReport (std_b64_encode chal_crates sample_quote) =
      Inr (sha256 chal_crates sample_preimage @ replicate 32 0)"
    using sample_quote_report \<open>std_b64_encode chal_crates = bytes_str\<close> by simp
qed

lemma sample_challenge_accepted: "verify_challenge_report_data chal_crates sample_nonce sample_challenge = Inr ()"
proof -
  have c: "canonicalize_edge_identity chal_crates sample_edge_canonical = Inr sample_edge_canonical"
    by (rule canonicalize_idempotent [OF chal_crates_hash(2) sample_canonical])
  have "b64url_decode chal_crates (bytes_str b) = Inr b" for b by (simp add: chal_crates_def)
  moreover have "quote_reportdata chal_crates (cr_quote_format sample_challenge) (cr_quote_b64 sample_challenge) =
      Inr (sha256 chal_crates sample_preimage @ replicate 32 0)"
    using sample_quote_report by (simp add: sample_challenge_def)
  moreover have "report_data_matches_v1 chal_crates sample_nonce (cr_edge sample_challenge)
      (sha256 chal_crates sample_preimage @ replicate 32 0) = Inr True"
    by (simp add: report_data_matches_v1_def build_report_data_v1_def sample_challenge_def c
        sample_preimage_built chal_crates_hash(1) REPORT_DATA_LEN_def)
  moreover have "cr_schema_version sample_challenge = CHALLENGE_SCHEMA_VERSION"
    "cr_report_data_version sample_challenge = REPORT_DATA_VERSION"
    "cr_challenge_nonce_b64 sample_challenge = bytes_str sample_nonce"
    by (simp_all add: sample_challenge_def CHALLENGE_SCHEMA_VERSION_def REPORT_DATA_VERSION_def)
  ultimately show ?thesis by (simp add: verify_challenge_report_data_def)
qed

theorem accepted_challenge_is_bound_witness:
  "sample_nonce = sample_nonce \<and>
   b64url_decode chal_crates (cr_challenge_nonce_b64 sample_challenge) = Inr sample_nonce \<and>
   (\<exists>edge. canonicalize_edge_identity chal_crates (cr_edge sample_challenge) = Inr edge \<and>
      same_binding chal_crates edge sample_edge_canonical)"
proof (rule accepted_challenge_is_bound [OF chal_crates_hash(1) sample_challenge_accepted sample_canonical sample_preimage_built])
  show "quote_reportdata chal_crates (cr_quote_format sample_challenge) (cr_quote_b64 sample_challenge) =
      Inr (sha256 chal_crates sample_preimage @ replicate 32 0)"
    using sample_quote_report by (simp add: sample_challenge_def)
  have c: "canonicalize_edge_identity chal_crates (cr_edge sample_challenge) = Inr sample_edge_canonical"
    using canonicalize_idempotent [OF chal_crates_hash(2) sample_canonical] by (simp add: sample_challenge_def)
  show "p = sample_preimage"
    if "build_preimage_v1 chal_crates sample_nonce
          (projr (canonicalize_edge_identity chal_crates (cr_edge sample_challenge))) = Inr p" for p
    using that by (simp add: c sample_preimage_built)
qed

end
