(* ===== verification/Handler.thy ===== *)
theory Handler
  imports Limits Remote_Auth Quota Maintenance Profile Challenge
begin

text \<open>
  \<open>crates/openapi-core/src/handler.rs\<close> (with \<open>config.rs\<close>): one HTTP request through the edge. The
  application state is a record of its components; an operation is a step on it. What lies outside,
  the upstream forwarder, the L0 client, the attestation platform, the process environment and the
  clocks, is the record \<open>world\<close> a request is handled in. The field \<open>app_calls\<close> is not in the
  source: it logs the calls made to the upstream, so that theorems can speak about them.
\<close>

subsection \<open>Data\<close>

record config =
  cfg_region :: string
  cfg_upstream_base_url :: string
  cfg_max_body_bytes :: nat
  cfg_proxy_mode :: proxy_mode

definition config_default :: config where
  "config_default =
     \<lparr>cfg_region = ''global'', cfg_upstream_base_url = ''http://127.0.0.1:8000'',
      cfg_max_body_bytes = 4 * 1024 * 1024, cfg_proxy_mode = Allowlist\<rparr>"

datatype app_response =
    AppJson json
  | AppSseBuffered bytes
  | AppSsePassthrough http_method string bytes (pass_key_id: string) (pass_key_set: string)

record upstream_ctx =
  uc_key_id :: string
  uc_key_set :: string

definition ctx_default :: upstream_ctx where
  "ctx_default = \<lparr>uc_key_id = [], uc_key_set = ''api''\<rparr>"

definition ctx_from_auth :: "string \<Rightarrow> string \<Rightarrow> upstream_ctx" where
  "ctx_from_auth key_id key_set =
     \<lparr>uc_key_id = key_id, uc_key_set = (if trim key_set = [] then ''api'' else trim key_set)\<rparr>"

record stream_result =
  sr_status :: nat
  sr_content_type :: string
  sr_bytes_written :: nat

text \<open>A forwarder answers a call; a streaming call also says which pieces it wrote.\<close>

record forwarder =
  fw_forward :: "http_method \<Rightarrow> string \<Rightarrow> bytes option \<Rightarrow> api_error + upstream_response"
  fw_forward_ctx ::
    "http_method \<Rightarrow> string \<Rightarrow> bytes option \<Rightarrow> upstream_ctx \<Rightarrow> api_error + upstream_response"
  fw_stream_ctx ::
    "http_method \<Rightarrow> string \<Rightarrow> bytes option \<Rightarrow> upstream_ctx
       \<Rightarrow> bytes list \<times> (api_error + stream_result)"
  fw_list_models_for_key :: "upstream_ctx \<Rightarrow> key_policy \<Rightarrow> api_error + models_list_response"

subsection \<open>The default methods of a forwarder\<close>

definition forward_v1_ctx_default ::
    "(http_method \<Rightarrow> string \<Rightarrow> bytes option \<Rightarrow> api_error + upstream_response)
       \<Rightarrow> http_method \<Rightarrow> string \<Rightarrow> bytes option \<Rightarrow> upstream_ctx \<Rightarrow> api_error + upstream_response" where
  "forward_v1_ctx_default forward method path body ctx = forward method path body"

definition forward_v1_stream_default ::
    "'x ext_scheme \<Rightarrow> (http_method \<Rightarrow> string \<Rightarrow> bytes option \<Rightarrow> api_error + upstream_response)
       \<Rightarrow> http_method \<Rightarrow> string \<Rightarrow> bytes option \<Rightarrow> bytes list \<times> (api_error + stream_result)" where
  "forward_v1_stream_default X forward method path body =
     (case bindE (forward method path body) (\<lambda>resp.
             case resp of
               UpJson v \<Rightarrow> bindE (map_err Internal (json_to_vec X v))
                            (\<lambda>b. Inr (b, ''application/json''))
             | UpRaw b content_type \<Rightarrow> Inr (b, content_type)) of
        Inl e \<Rightarrow> ([], Inl e)
      | Inr (b, content_type) \<Rightarrow>
          ([b], Inr \<lparr>sr_status = 200, sr_content_type = content_type,
                     sr_bytes_written = length b\<rparr>))"

definition list_models_default ::
    "'x body_ext_scheme \<Rightarrow> (http_method \<Rightarrow> string \<Rightarrow> bytes option \<Rightarrow> api_error + upstream_response)
       \<Rightarrow> api_error + models_list_response" where
  "list_models_default X forward =
     bindE (forward Get ''/v1/models'' None) (\<lambda>resp.
       case resp of UpJson v \<Rightarrow> parse_models_json X v | UpRaw b _ \<Rightarrow> parse_models_bytes X b)"

definition list_models_for_key_default ::
    "(api_error + models_list_response) \<Rightarrow> upstream_ctx \<Rightarrow> key_policy
       \<Rightarrow> api_error + models_list_response" where
  "list_models_for_key_default list_models ctx policy =
     bindE list_models (\<lambda>models.
       Inr (models\<lparr>ml_data := filter (\<lambda>m. allows_model policy (mo_id m)) (ml_data models)\<rparr>))"

subsection \<open>Application state\<close>

datatype upstream_call =
    ForwardCall http_method string "bytes option" upstream_ctx
  | ModelsCall upstream_ctx key_policy

record app =
  app_config :: config
  app_limits :: limits
  app_auth :: edge_authenticator
  app_rate_limiter :: rate_limiter
  app_challenge_rate_limiter :: rate_limiter
  app_challenge_inflight :: inflight_gate
  app_ip_conn_tracker :: ip_conn_tracker
  app_ip_rate_limiter :: rate_limiter
  app_maintenance :: maintenance_state
  app_calls :: "upstream_call list"

definition app_new :: "config \<Rightarrow> limits \<Rightarrow> edge_authenticator \<Rightarrow> app" where
  "app_new cfg l auth =
     \<lparr>app_config = cfg, app_limits = l, app_auth = auth,
      app_rate_limiter = limits_rate_limiter l,
      app_challenge_rate_limiter = limits_challenge_rate_limiter l,
      app_challenge_inflight = limits_challenge_inflight_gate l,
      app_ip_conn_tracker = limits_ip_conn_tracker l,
      app_ip_rate_limiter = limits_ip_rate_limiter l,
      app_maintenance = maintenance_new, app_calls = []\<rparr>"

text \<open>What a request is handled in. The clock readings are those of the calls that read a clock: the
  wall clock of the authenticator, and the monotonic clock of the authenticator and of the three
  rate limiters.\<close>

record world =
  w_upstream :: forwarder
  w_l0 :: l0_client
  w_challenge :: "bytes \<Rightarrow> string + json"
  w_env :: environ
  w_auth_ms :: nat
  w_auth_at :: nat
  w_key_at :: nat
  w_ip_at :: nat
  w_challenge_at :: nat

text \<open>A step on one component is a step on the application.\<close>

definition on_part ::
    "('s \<Rightarrow> 't) \<Rightarrow> ('t \<Rightarrow> 's \<Rightarrow> 's) \<Rightarrow> ('t, 'e, 'a) op \<Rightarrow> ('s, 'e, 'a) op" where
  "on_part get put m s = (case m (get s) of (r, t) \<Rightarrow> (r, put t s))"

definition log_call :: "upstream_call \<Rightarrow> app \<Rightarrow> app" where
  "log_call c s = s\<lparr>app_calls := app_calls s @ [c]\<rparr>"

definition try_acquire_ip_conn :: "string option \<Rightarrow> (app, api_error, string option) op" where
  "try_acquire_ip_conn client_ip =
     on_part app_ip_conn_tracker (\<lambda>t. app_ip_conn_tracker_update (\<lambda>_. t))
       (conn_try_acquire (case client_ip of None \<Rightarrow> ''unknown'' | Some ip \<Rightarrow> ip))"

subsection \<open>Checks\<close>

definition refuse_if_maintenance :: "nat \<Rightarrow> (app, api_error, unit) op" where
  "refuse_if_maintenance now_ms s =
     (case maintenance_active (app_maintenance s) now_ms None of
        Some a \<Rightarrow> if am_phase a = Hard then (Inl (maintenance_error a), s) else (Inr (), s)
      | None \<Rightarrow> (Inr (), s))"

definition enforce_rate_limit :: "world \<Rightarrow> auth_context \<Rightarrow> (app, api_error, unit) op" where
  "enforce_rate_limit W auth s =
     (let rpm = effective_rpm (ctx_policy auth) (requests_per_minute (app_limits s))
      in on_part app_rate_limiter (\<lambda>t. app_rate_limiter_update (\<lambda>_. t))
           (check_with_rpm (w_key_at W) (ctx_key_id auth) rpm) s)"

definition enforce_ip_api_limit :: "world \<Rightarrow> string option \<Rightarrow> (app, api_error, unit) op" where
  "enforce_ip_api_limit W client_ip s =
     (let rpm = ip_requests_per_minute (app_limits s)
      in if rpm = 0 then (Inr (), s)
         else on_part app_ip_rate_limiter (\<lambda>t. app_ip_rate_limiter_update (\<lambda>_. t))
                (check_with_rpm (w_ip_at W)
                   (case client_ip of None \<Rightarrow> ''unknown'' | Some ip \<Rightarrow> ip) rpm) s)"

definition enforce_model_policy ::
    "'x ext_scheme \<Rightarrow> auth_context \<Rightarrow> bytes \<Rightarrow> api_error + unit" where
  "enforce_model_policy X auth body =
     (let model = model_from_body X body
      in if allows_model (ctx_policy auth) model then Inr ()
         else Inl (Forbidden (''model `'' @ model @ ''` is not allowed for this API key'')))"

definition authenticate_request ::
    "'x auth_ext_scheme \<Rightarrow> world \<Rightarrow> string option \<Rightarrow> (app, api_error, auth_context) op" where
  "authenticate_request X W authorization =
     on_part app_auth (\<lambda>t. app_auth_update (\<lambda>_. t))
       (edge_authenticate_bearer X (w_l0 W) (w_auth_ms W) (w_auth_at W) authorization)"

text \<open>The four calls with which each of the routes that reach the upstream begins.\<close>

definition admit ::
    "'x auth_ext_scheme \<Rightarrow> world \<Rightarrow> nat \<Rightarrow> string option \<Rightarrow> string option
       \<Rightarrow> (app, api_error, auth_context) op" where
  "admit X W now_ms client_ip authorization =
     bindS (refuse_if_maintenance now_ms) (\<lambda>_.
     bindS (enforce_ip_api_limit W client_ip) (\<lambda>_.
     bindS (authenticate_request X W authorization) (\<lambda>auth.
     bindS (enforce_rate_limit W auth) (\<lambda>_. returnS auth))))"

text \<open>The three checks on a body that names a model.\<close>

definition check_prompt ::
    "'x ext_scheme \<Rightarrow> auth_context \<Rightarrow> bytes \<Rightarrow> api_error + unit" where
  "check_prompt X auth body =
     bindE (enforce_model_policy X auth body) (\<lambda>_.
     bindE (enforce_token_quota_for_key X (ctx_policy auth) body) (\<lambda>_.
     enforce_max_context X (ctx_policy auth) body))"

subsection \<open>Responses\<close>

definition binary_json :: "'x ext_scheme \<Rightarrow> bytes \<Rightarrow> json" where
  "binary_json X b =
     (case json_from_slice X b of
        Inr body \<Rightarrow> body
      | Inl _ \<Rightarrow> JObj [(''object'', JStr ''binary''), (''data'', JStr (b64url_encode X b))])"

definition upstream_to_json_response :: "'x ext_scheme \<Rightarrow> upstream_response \<Rightarrow> app_response" where
  "upstream_to_json_response X u =
     (case u of UpJson body \<Rightarrow> AppJson body | UpRaw b _ \<Rightarrow> AppJson (binary_json X b))"

definition upstream_to_inference_response ::
    "'x ext_scheme \<Rightarrow> upstream_response \<Rightarrow> bool \<Rightarrow> app_response" where
  "upstream_to_inference_response X u stream =
     (case u of
        UpJson body \<Rightarrow>
          if stream then AppSseBuffered (case json_to_vec X body of Inl _ \<Rightarrow> [] | Inr b \<Rightarrow> b)
          else AppJson body
      | UpRaw b _ \<Rightarrow> if stream then AppSseBuffered b else AppJson (binary_json X b))"

subsection \<open>Routes that reach the upstream\<close>

definition forward_call ::
    "world \<Rightarrow> http_method \<Rightarrow> string \<Rightarrow> bytes option \<Rightarrow> upstream_ctx
       \<Rightarrow> (app, api_error, upstream_response) op" where
  "forward_call W method path body ctx s =
     (fw_forward_ctx (w_upstream W) method path body ctx,
      log_call (ForwardCall method path body ctx) s)"

definition handle_inference_post ::
    "'x ext_scheme \<Rightarrow> world \<Rightarrow> auth_context \<Rightarrow> string \<Rightarrow> bytes \<Rightarrow> (app, api_error, app_response) op"
where
  "handle_inference_post X W auth path body =
     (let ctx = ctx_from_auth (ctx_key_id auth) (pol_key_set (ctx_policy auth))
      in if body_wants_stream X body
         then returnS (AppSsePassthrough Post path body (ctx_key_id auth)
                         (pol_key_set (ctx_policy auth)))
         else bindS (forward_call W Post path (Some body) ctx) (\<lambda>u.
              returnS (upstream_to_inference_response X u False)))"

definition handle_chat_completions ::
    "'x body_ext_scheme \<Rightarrow> world \<Rightarrow> auth_context \<Rightarrow> bytes \<Rightarrow> (app, api_error, app_response) op" where
  "handle_chat_completions X W auth body =
     (case chat_from_slice X body of
        Inl e \<Rightarrow> failS (BadRequest (''invalid chat request: '' @ e))
      | Inr req \<Rightarrow>
          if cc_messages req = [] then failS (BadRequest ''messages must not be empty'')
          else handle_inference_post X W auth ''/v1/chat/completions'' body)"

definition handle_models :: "'x body_ext_scheme \<Rightarrow> world \<Rightarrow> auth_context \<Rightarrow> (app, api_error, app_response) op"
where
  "handle_models X W auth s =
     (let ctx = ctx_from_auth (ctx_key_id auth) (pol_key_set (ctx_policy auth))
      in (bindE (fw_list_models_for_key (w_upstream W) ctx (ctx_policy auth))
            (\<lambda>models. Inr (AppJson (models_to_value X models))),
          log_call (ModelsCall ctx (ctx_policy auth)) s))"

definition handle_inference ::
    "'x body_ext_scheme \<Rightarrow> world \<Rightarrow> auth_context \<Rightarrow> string \<Rightarrow> bytes \<Rightarrow> (app, api_error, app_response) op"
where
  "handle_inference X W auth path body s =
     bindS (liftS (validate_body_size (app_limits s) (length body))) (\<lambda>_.
     bindS (liftS (check_prompt X auth body)) (\<lambda>_.
     if path = ''/v1/chat/completions'' then handle_chat_completions X W auth body
     else handle_inference_post X W auth path body)) s"

definition handle_proxy ::
    "'x body_ext_scheme \<Rightarrow> world \<Rightarrow> http_method \<Rightarrow> auth_context \<Rightarrow> string \<Rightarrow> bytes
       \<Rightarrow> (app, api_error, app_response) op" where
  "handle_proxy X W method auth path body s =
     bindS (liftS (if body \<noteq> [] then validate_body_size (app_limits s) (length body) else Inr ()))
       (\<lambda>_.
     bindS (liftS (if method = Post \<and> body \<noteq> [] then check_prompt X auth body else Inr ())) (\<lambda>_.
     let ctx = ctx_from_auth (ctx_key_id auth) (pol_key_set (ctx_policy auth))
     in if method = Post \<and> body_wants_stream X body
        then returnS (AppSsePassthrough method path body (ctx_key_id auth)
                        (pol_key_set (ctx_policy auth)))
        else bindS (forward_call W method path (if body = [] then None else Some body) ctx) (\<lambda>u.
             returnS (upstream_to_json_response X u)))) s"

definition execute_sse_passthrough_ctx ::
    "world \<Rightarrow> http_method \<Rightarrow> string \<Rightarrow> bytes \<Rightarrow> upstream_ctx
       \<Rightarrow> bytes list \<times> (api_error + stream_result)" where
  "execute_sse_passthrough_ctx W method path body ctx =
     fw_stream_ctx (w_upstream W) method path (Some body) ctx"

definition execute_sse_passthrough ::
    "world \<Rightarrow> http_method \<Rightarrow> string \<Rightarrow> bytes \<Rightarrow> bytes list \<times> (api_error + stream_result)" where
  "execute_sse_passthrough W method path body =
     fw_stream_ctx (w_upstream W) method path (Some body) \<lparr>uc_key_id = [], uc_key_set = ''api''\<rparr>"

subsection \<open>The attestation challenge\<close>

definition subtle_constant_time_eq :: "bytes \<Rightarrow> bytes \<Rightarrow> bool" where
  "subtle_constant_time_eq a b =
     (if length a \<noteq> length b then False
      else foldl (\<lambda>diff (x, y). diff OR (x XOR y)) 0 (zip a b) = 0)"

definition bench_bypass :: "world \<Rightarrow> limits \<Rightarrow> string option \<Rightarrow> bool" where
  "bench_bypass W l header =
     (if load_edge_profile (w_env W) \<noteq> Inr Dev then False
      else (case (challenge_bench_token l, header) of
              (Some expected, Some got) \<Rightarrow>
                expected \<noteq> [] \<and> subtle_constant_time_eq (as_bytes expected) (as_bytes got)
            | _ \<Rightarrow> False))"

definition answer_challenge ::
    "'x body_ext_scheme \<Rightarrow> world \<Rightarrow> limits \<Rightarrow> bytes \<Rightarrow> api_error + app_response" where
  "answer_challenge X W l body =
     bindE (validate_body_size l (length body)) (\<lambda>_.
     if body = [] then
       Inl (BadRequest ''attestation challenge requires JSON body with nonce_b64'')
     else bindE (map_err (\<lambda>e. BadRequest (''invalid challenge request: '' @ e))
                   (challenge_from_slice X body)) (\<lambda>req.
          bindE (map_err (\<lambda>e. BadRequest (''invalid nonce_b64: '' @ e))
                   (b64url_decode X (trim (ac_nonce_b64 req)))) (\<lambda>nonce.
          if length nonce \<noteq> CHALLENGE_NONCE_LEN then
            Inl (BadRequest (''nonce must be exactly '' @ show_nat CHALLENGE_NONCE_LEN @ '' bytes''))
          else bindE (map_err Internal (w_challenge W nonce)) (\<lambda>attestation.
               Inr (AppJson attestation)))))"

text \<open>The permit is dropped when the function returns, on every path.\<close>

definition handle_attestation ::
    "'x body_ext_scheme \<Rightarrow> world \<Rightarrow> bytes \<Rightarrow> string option \<Rightarrow> string option
       \<Rightarrow> (app, api_error, app_response) op" where
  "handle_attestation X W body client_ip header s =
     (if bench_bypass W (app_limits s) header
      then (answer_challenge X W (app_limits s) body, s)
      else let ip_key = (case trimmed_nonempty client_ip of None \<Rightarrow> ''unknown'' | Some ip \<Rightarrow> ip)
           in bindS (on_part app_challenge_rate_limiter
                       (\<lambda>t. app_challenge_rate_limiter_update (\<lambda>_. t))
                       (rl_check (w_challenge_at W) ip_key)) (\<lambda>_.
              bindS (on_part app_challenge_inflight (\<lambda>t. app_challenge_inflight_update (\<lambda>_. t))
                       gate_try_acquire) (\<lambda>permit t.
              (answer_challenge X W (app_limits t) body,
               app_challenge_inflight_update (gate_drop permit) t))) s)"

subsection \<open>Dispatch\<close>

definition handle_from_ex ::
    "'x body_ext_scheme \<Rightarrow> world \<Rightarrow> http_method \<Rightarrow> string \<Rightarrow> string option \<Rightarrow> bytes \<Rightarrow> nat
       \<Rightarrow> string option \<Rightarrow> string option \<Rightarrow> (app, api_error, app_response) op" where
  "handle_from_ex X W method raw_path authorization body now_ms client_ip header s =
     (case normalize_path raw_path of
        Inl _ \<Rightarrow> (Inl NotFound, s)
      | Inr path \<Rightarrow>
          (case classify method path (cfg_proxy_mode (app_config s)) of
             Health \<Rightarrow>
               (Inr (AppJson (JObj [(''status'', JStr ''ok''),
                                    (''region'', JStr (cfg_region (app_config s)))])), s)
           | Status \<Rightarrow>
               (Inr (AppJson (status_json (app_maintenance s) now_ms (cfg_region (app_config s)))), s)
           | Attestation \<Rightarrow> handle_attestation X W body client_ip header s
           | ModelsList \<Rightarrow>
               bindS (admit X W now_ms client_ip authorization) (handle_models X W) s
           | InferencePost \<Rightarrow>
               bindS (admit X W now_ms client_ip authorization)
                 (\<lambda>auth. handle_inference X W auth path body) s
           | ProxyGet \<Rightarrow>
               bindS (admit X W now_ms client_ip authorization)
                 (\<lambda>auth. handle_proxy X W method auth path body) s
           | ProxyPost \<Rightarrow>
               bindS (admit X W now_ms client_ip authorization)
                 (\<lambda>auth. handle_proxy X W method auth path body) s
           | RouteNotImplemented reason \<Rightarrow>
               bindS (enforce_ip_api_limit W client_ip) (\<lambda>_.
               bindS (authenticate_request X W authorization) (\<lambda>_.
               failS (NotImplemented reason))) s
           | RouteMethodNotAllowed \<Rightarrow> (Inl MethodNotAllowed, s)
           | RouteNotFound \<Rightarrow> (Inl NotFound, s)))"

definition handle_from ::
    "'x body_ext_scheme \<Rightarrow> world \<Rightarrow> http_method \<Rightarrow> string \<Rightarrow> string option \<Rightarrow> bytes \<Rightarrow> nat
       \<Rightarrow> string option \<Rightarrow> (app, api_error, app_response) op" where
  "handle_from X W method path authorization body now_ms client_ip =
     handle_from_ex X W method path authorization body now_ms client_ip None"

definition handle ::
    "'x body_ext_scheme \<Rightarrow> world \<Rightarrow> http_method \<Rightarrow> string \<Rightarrow> string option \<Rightarrow> bytes \<Rightarrow> nat
       \<Rightarrow> (app, api_error, app_response) op" where
  "handle X W method path authorization body now_ms =
     handle_from X W method path authorization body now_ms None"

subsection \<open>What the steps of a request leave alone\<close>

text \<open>Two states that differ at most in the authenticator and the two rate limiters that admission
  works on.\<close>

definition same_but_admission :: "app \<Rightarrow> app \<Rightarrow> bool" where
  "same_but_admission s t \<longleftrightarrow>
     t = s\<lparr>app_auth := app_auth t, app_rate_limiter := app_rate_limiter t,
           app_ip_rate_limiter := app_ip_rate_limiter t\<rparr>"

lemma same_but_admission_refl [simp]: "same_but_admission s s"
  by (simp add: same_but_admission_def)

lemma same_but_admission_trans:
  assumes "same_but_admission s t" "same_but_admission t u"
  shows "same_but_admission s u"
  using assms by (cases s; cases t; cases u) (auto simp: same_but_admission_def)

lemma same_but_admissionD:
  assumes "same_but_admission s t"
  shows "app_config t = app_config s" "app_limits t = app_limits s"
    "app_challenge_inflight t = app_challenge_inflight s"
    "app_maintenance t = app_maintenance s" "app_calls t = app_calls s"
  using assms by (cases s; cases t; auto simp: same_but_admission_def)+

lemma refuse_if_maintenance_cases:
  "refuse_if_maintenance now s =
     ((case maintenance_active (app_maintenance s) now None of
         Some a \<Rightarrow> if am_phase a = Hard then Inl (maintenance_error a) else Inr ()
       | None \<Rightarrow> Inr ()), s)"
  by (simp add: refuse_if_maintenance_def split: option.split)

lemma ip_limit_frame:
  "enforce_ip_api_limit W ip s = (r, t) \<Longrightarrow> \<exists>l. t = s\<lparr>app_ip_rate_limiter := l\<rparr>"
  by (auto simp: enforce_ip_api_limit_def on_part_def Let_def split: if_splits prod.splits
      intro: exI [of _ "app_ip_rate_limiter s"])

lemma key_limit_frame:
  "enforce_rate_limit W a s = (r, t) \<Longrightarrow> \<exists>l. t = s\<lparr>app_rate_limiter := l\<rparr>"
  by (auto simp: enforce_rate_limit_def on_part_def Let_def split: prod.splits)

lemma authenticate_frame:
  "authenticate_request X W h s = (r, t) \<Longrightarrow> \<exists>a. t = s\<lparr>app_auth := a\<rparr>"
  by (auto simp: authenticate_request_def on_part_def split: prod.splits)

lemma frame_admission:
  "same_but_admission s (s\<lparr>app_ip_rate_limiter := l\<rparr>)" "same_but_admission s (s\<lparr>app_rate_limiter := l\<rparr>)"
  "same_but_admission s (s\<lparr>app_auth := a\<rparr>)"
  by (simp_all add: same_but_admission_def)

lemma keeps_frameI: "(\<And>s r t. m s = (r, t) \<Longrightarrow> R s t) \<Longrightarrow> keeps R m"
  unfolding keeps_def by (metis prod.collapse)

lemma admission_keeps:
  "keeps same_but_admission (enforce_ip_api_limit W ip)"
  "keeps same_but_admission (enforce_rate_limit W a)"
  "keeps same_but_admission (authenticate_request X W h)"
  "keeps same_but_admission (refuse_if_maintenance now)"
  by (rule keeps_frameI,
      auto dest!: ip_limit_frame key_limit_frame authenticate_frame
        simp: frame_admission refuse_if_maintenance_cases)+

lemma transp_admission: "transp same_but_admission"
  by (rule transpI) (rule same_but_admission_trans)

lemma admit_keeps: "keeps same_but_admission (admit X W now ip h)"
  unfolding admit_def
  by (intro keeps_bindS transp_admission admission_keeps keeps_pure) (simp add: reflp_def)

lemma admit_frame: "admit X W now ip h s = (r, t) \<Longrightarrow> same_but_admission s t"
  using keepsD [OF admit_keeps, of s X W now ip h] by simp

subsection \<open>Admission\<close>

text \<open>What an admitted request has passed.\<close>

definition admissible ::
    "'x auth_ext_scheme \<Rightarrow> world \<Rightarrow> nat \<Rightarrow> string option \<Rightarrow> app \<Rightarrow> auth_context \<Rightarrow> bool" where
  "admissible X W now_ms authorization s auth \<longleftrightarrow>
     (\<forall>a. maintenance_active (app_maintenance s) now_ms None = Some a \<longrightarrow> am_phase a \<noteq> Hard) \<and>
     (\<exists>token. authorization = Some (''Bearer '' @ token) \<and>
        edge_vouches X (w_l0 W) (w_auth_ms W) (app_auth s) token auth)"

lemma authenticate_vouched:
  assumes "authenticate_request X W h s = (Inr auth, t)"
  shows "\<exists>token. h = Some (''Bearer '' @ token) \<and>
    edge_vouches X (w_l0 W) (w_auth_ms W) (app_auth s) token auth"
proof -
  from assms obtain u where
    "edge_authenticate_bearer X (w_l0 W) (w_auth_ms W) (w_auth_at W) h (app_auth s) = (Inr auth, u)"
    by (auto simp: authenticate_request_def on_part_def split: prod.splits)
  then show ?thesis by (rule edge.accepted_is_vouched) blast
qed

lemma admit_admissible:
  assumes "admit X W now ip h s = (Inr auth, t)"
  shows "admissible X W now h s auth"
proof -
  from assms obtain u v where r: "refuse_if_maintenance now s = (Inr (), s)"
    and i: "enforce_ip_api_limit W ip s = (Inr (), u)"
    and a: "authenticate_request X W h u = (Inr auth, v)"
    by (auto simp: admit_def result_simps refuse_if_maintenance_cases)
  have "app_auth u = app_auth s" using ip_limit_frame [OF i] by auto
  with authenticate_vouched [OF a] r show ?thesis
    by (auto simp: admissible_def refuse_if_maintenance_cases split: option.splits if_splits)
qed

subsection \<open>Calls to the upstream\<close>

text \<open>The calls a handled request makes: those logged, and for a streamed response the call the HTTP
  layer makes with the prepared request.\<close>

definition passthrough_call :: "api_error + app_response \<Rightarrow> upstream_call list" where
  "passthrough_call r =
     (case r of
        Inr (AppSsePassthrough m p b k ks) \<Rightarrow> [ForwardCall m p (Some b) (ctx_from_auth k ks)]
      | _ \<Rightarrow> [])"

definition upstream_requests :: "app \<Rightarrow> (api_error + app_response) \<times> app \<Rightarrow> upstream_call list" where
  "upstream_requests s rt =
     drop (length (app_calls s)) (app_calls (snd rt)) @ passthrough_call (fst rt)"

definition key_ctx :: "auth_context \<Rightarrow> upstream_ctx" where
  "key_ctx auth = ctx_from_auth (ctx_key_id auth) (pol_key_set (ctx_policy auth))"

lemma passthrough_simps [simp]:
  "passthrough_call (Inl e) = []" "passthrough_call (Inr (AppJson j)) = []"
  "passthrough_call (Inr (AppSseBuffered b)) = []"
  "passthrough_call (Inr (AppSsePassthrough m p b k ks)) =
     [ForwardCall m p (Some b) (ctx_from_auth k ks)]"
  by (simp_all add: passthrough_call_def)

lemma upstream_requests_same: "app_calls t = app_calls s \<Longrightarrow> upstream_requests s rt = upstream_requests t rt"
  by (simp add: upstream_requests_def)

lemma upstream_requests_pure [simp]: "upstream_requests s (Inl e, s) = []"
  by (simp add: upstream_requests_def)

lemma json_response_not_streamed [simp]:
  "passthrough_call (Inr (upstream_to_json_response X u)) = []"
  "passthrough_call (Inr (upstream_to_inference_response X u b)) = []"
  by (auto simp: upstream_to_json_response_def upstream_to_inference_response_def
      split: upstream_response.split)

lemma requests_forward:
  assumes "\<And>u. passthrough_call (Inr (f u)) = []"
  shows "upstream_requests s (bindS (forward_call W m p b c) (\<lambda>u. returnS (f u)) s) = [ForwardCall m p b c]"
  using assms
  by (auto simp: upstream_requests_def bindS_def forward_call_def log_call_def split: sum.split)

lemma requests_inference_post:
  "upstream_requests s (handle_inference_post X W auth path body s) =
     [ForwardCall Post path (Some body) (key_ctx auth)]"
  using requests_forward [of "\<lambda>u. upstream_to_inference_response X u False"]
  by (simp add: handle_inference_post_def Let_def upstream_requests_def key_ctx_def)

lemma requests_chat:
  "upstream_requests s (handle_chat_completions X W auth body s) \<in>
     {[], [ForwardCall Post ''/v1/chat/completions'' (Some body) (key_ctx auth)]}"
  using requests_inference_post [of s X W auth "''/v1/chat/completions''" body]
  by (auto simp: handle_chat_completions_def split: sum.split)

lemma requests_models:
  "upstream_requests s (handle_models X W auth s) = [ModelsCall (key_ctx auth) (ctx_policy auth)]"
  by (auto simp: handle_models_def upstream_requests_def log_call_def key_ctx_def Let_def bindE_def
      split: sum.split)

text \<open>The checks a forwarded body has passed.\<close>

definition body_admitted ::
    "'x ext_scheme \<Rightarrow> limits \<Rightarrow> auth_context \<Rightarrow> http_method \<Rightarrow> bytes \<Rightarrow> bool" where
  "body_admitted X l auth method body \<longleftrightarrow>
     body = [] \<or>
     length body \<le> max_body_bytes l \<and>
     (method = Post \<longrightarrow>
        allows_model (ctx_policy auth) (model_from_body X body) \<and>
        enforce_token_quota_for_key X (ctx_policy auth) body = Inr () \<and>
        enforce_max_context X (ctx_policy auth) body = Inr ())"

lemma check_prompt_ok:
  "check_prompt X auth body = Inr () \<longleftrightarrow>
     allows_model (ctx_policy auth) (model_from_body X body) \<and>
     enforce_token_quota_for_key X (ctx_policy auth) body = Inr () \<and>
     enforce_max_context X (ctx_policy auth) body = Inr ()"
  by (auto simp: check_prompt_def enforce_model_policy_def Let_def result_simps split: if_splits)

lemma bindS_liftS: "bindS (liftS r) f s = (case r of Inl e \<Rightarrow> (Inl e, s) | Inr x \<Rightarrow> f x s)"
  by (cases r) (simp_all add: bindS_def)

lemma requests_inference:
  assumes "c \<in> set (upstream_requests s (handle_inference X W auth path body s))"
  shows "upstream_requests s (handle_inference X W auth path body s) = [c]"
    "c = ForwardCall Post path (Some body) (key_ctx auth)"
    "body_admitted X (app_limits s) auth Post body"
proof -
  have ok: "validate_body_size (app_limits s) (length body) = Inr ()" "check_prompt X auth body = Inr ()"
    using assms by (auto simp: handle_inference_def bindS_liftS split: sum.splits)
  then have "handle_inference X W auth path body s =
      (if path = ''/v1/chat/completions'' then handle_chat_completions X W auth body s
       else handle_inference_post X W auth path body s)"
    by (simp add: handle_inference_def bindS_liftS)
  with assms requests_inference_post [of s X W auth path body] requests_chat [of s X W auth body]
  show "upstream_requests s (handle_inference X W auth path body s) = [c]"
    "c = ForwardCall Post path (Some body) (key_ctx auth)"
    by (auto split: if_splits)
  from ok show "body_admitted X (app_limits s) auth Post body"
    by (auto simp: body_admitted_def validate_body_size_def check_prompt_ok split: if_splits)
qed

lemma requests_proxy:
  assumes "c \<in> set (upstream_requests s (handle_proxy X W method auth path body s))"
  shows "upstream_requests s (handle_proxy X W method auth path body s) = [c]"
    "\<exists>b. c = ForwardCall method path b (key_ctx auth) \<and> (b = None \<and> body = [] \<or> b = Some body)"
    "body_admitted X (app_limits s) auth method body"
proof -
  let ?fin = "if method = Post \<and> body_wants_stream X body
      then returnS (AppSsePassthrough method path body (ctx_key_id auth) (pol_key_set (ctx_policy auth)))
      else bindS (forward_call W method path (if body = [] then None else Some body) (key_ctx auth))
             (\<lambda>u. returnS (upstream_to_json_response X u))"
  have ok: "body \<noteq> [] \<Longrightarrow> validate_body_size (app_limits s) (length body) = Inr ()"
    "method = Post \<and> body \<noteq> [] \<Longrightarrow> check_prompt X auth body = Inr ()"
    using assms by (auto simp: handle_proxy_def bindS_liftS split: sum.splits if_splits)
  then have eq: "handle_proxy X W method auth path body s = ?fin s"
    by (auto simp: handle_proxy_def bindS_liftS Let_def key_ctx_def)
  have "upstream_requests s (?fin s) =
      [ForwardCall method path
         (if method = Post \<and> body_wants_stream X body then Some body
          else if body = [] then None else Some body) (key_ctx auth)]"
    using requests_forward [of "upstream_to_json_response X"]
    by (simp add: upstream_requests_def key_ctx_def)
  with assms show "upstream_requests s (handle_proxy X W method auth path body s) = [c]"
    "\<exists>b. c = ForwardCall method path b (key_ctx auth) \<and> (b = None \<and> body = [] \<or> b = Some body)"
    unfolding eq by auto
  from ok show "body_admitted X (app_limits s) auth method body"
    by (auto simp: body_admitted_def validate_body_size_def check_prompt_ok split: if_splits)
qed

lemma requests_bind_admit:
  assumes "c \<in> set (upstream_requests s (bindS (admit X W now ip h) f s))"
  obtains auth t where "admissible X W now h s auth" "app_limits t = app_limits s"
    "upstream_requests s (bindS (admit X W now ip h) f s) = upstream_requests t (f auth t)"
proof -
  obtain r t where a: "admit X W now ip h s = (r, t)" by fastforce
  note same = same_but_admissionD [OF admit_frame [OF a]]
  show ?thesis
  proof (cases r)
    case (Inl e)
    with a same assms show ?thesis by (simp add: bindS_def upstream_requests_def)
  next
    case (Inr auth)
    with a have "admissible X W now h s auth" by (simp add: admit_admissible)
    moreover have "upstream_requests s (bindS (admit X W now ip h) f s) = upstream_requests t (f auth t)"
      using Inr a same by (simp add: bindS_def upstream_requests_def)
    ultimately show ?thesis using that same by blast
  qed
qed

lemma answer_challenge_json: "passthrough_call (answer_challenge X W l body) = []"
  by (cases "answer_challenge X W l body")
    (auto simp: answer_challenge_def result_simps Let_def split: if_splits)

lemma challenge_frame:
  "app_calls (snd (handle_attestation X W body ip header s)) = app_calls s"
  by (auto simp: handle_attestation_def bindS_def on_part_def Let_def split: prod.splits sum.splits)

lemma requests_attestation: "upstream_requests s (handle_attestation X W body ip header s) = []"
proof -
  have "passthrough_call (fst (handle_attestation X W body ip header s)) = []"
    by (auto simp: handle_attestation_def bindS_def on_part_def Let_def answer_challenge_json
        split: prod.splits sum.splits)
  then show ?thesis by (simp add: upstream_requests_def challenge_frame)
qed

lemma requests_not_implemented:
  "upstream_requests s (bindS (enforce_ip_api_limit W ip) (\<lambda>_.
     bindS (authenticate_request X W h) (\<lambda>_. failS (NotImplemented reason))) s) = []"
proof -
  let ?m = "bindS (enforce_ip_api_limit W ip) (\<lambda>_.
     bindS (authenticate_request X W h) (\<lambda>_. failS (NotImplemented reason)))
     :: (app, api_error, app_response) op"
  have "keeps same_but_admission ?m"
    by (intro keeps_bindS transp_admission admission_keeps keeps_pure) (simp add: reflp_def)
  from keepsD [OF this, of s] have "app_calls (snd (?m s)) = app_calls s"
    by (rule same_but_admissionD(5))
  moreover have "passthrough_call (fst (?m s)) = []"
    by (auto simp: bindS_def split: prod.splits sum.splits)
  ultimately show ?thesis by (simp add: upstream_requests_def)
qed

lemma upstream_admission:
  assumes "c \<in> set (upstream_requests s (handle_from_ex X W m raw h body now ip header s))"
  shows "upstream_requests s (handle_from_ex X W m raw h body now ip header s) = [c] \<and>
    (\<exists>path auth. normalize_path raw = Inr path \<and> admissible X W now h s auth \<and>
       (c = ModelsCall (key_ctx auth) (ctx_policy auth) \<and> m = Get \<and> path = ''/v1/models'' \<or>
        (\<exists>b. c = ForwardCall m path b (key_ctx auth) \<and> (b = Some body \<or> b = None \<and> body = []) \<and>
           body_admitted X (app_limits s) auth m body \<and>
           (m = Post \<and> path \<in> inference_paths \<or> cfg_proxy_mode (app_config s) = Transparent))))"
proof -
  obtain path where path: "normalize_path raw = Inr path"
    using assms by (cases "normalize_path raw") (auto simp: handle_from_ex_def)
  let ?mode = "cfg_proxy_mode (app_config s)"
  have cl: "classify m path ?mode = classify_normalized m path ?mode"
    using path by (rule classify_of_normalized)
  let ?adm = "admit X W now ip h"
  consider (models) "classify_normalized m path ?mode = ModelsList"
      "handle_from_ex X W m raw h body now ip header s = bindS ?adm (handle_models X W) s"
    | (inference) "classify_normalized m path ?mode = InferencePost"
      "handle_from_ex X W m raw h body now ip header s =
         bindS ?adm (\<lambda>auth. handle_inference X W auth path body) s"
    | (proxy) "classify_normalized m path ?mode \<in> {ProxyGet, ProxyPost}"
      "handle_from_ex X W m raw h body now ip header s =
         bindS ?adm (\<lambda>auth. handle_proxy X W m auth path body) s"
    using assms requests_attestation [of s X W body ip header] requests_not_implemented [of s W ip X h]
    by (cases "classify_normalized m path ?mode")
      (auto simp: handle_from_ex_def path cl upstream_requests_def)
  then show ?thesis
  proof cases
    case models
    from assms [unfolded models(2)] obtain auth t where "admissible X W now h s auth"
      "app_limits t = app_limits s"
      "upstream_requests s (bindS ?adm (handle_models X W) s) = upstream_requests t (handle_models X W auth t)"
      by (rule requests_bind_admit)
    with models assms path show ?thesis
      by (auto simp: requests_models classify_normalized_models)
  next
    case inference
    from assms [unfolded inference(2)] obtain auth t where t: "admissible X W now h s auth" "app_limits t = app_limits s"
      "upstream_requests s (bindS ?adm (\<lambda>auth. handle_inference X W auth path body) s) =
         upstream_requests t (handle_inference X W auth path body t)"
      by (rule requests_bind_admit)
    then have "c \<in> set (upstream_requests t (handle_inference X W auth path body t))"
      using assms inference by simp
    from requests_inference [OF this] t inference path show ?thesis
      by (auto simp: classify_normalized_inference)
  next
    case proxy
    from assms [unfolded proxy(2)] obtain auth t where t: "admissible X W now h s auth" "app_limits t = app_limits s"
      "upstream_requests s (bindS ?adm (\<lambda>auth. handle_proxy X W m auth path body) s) =
         upstream_requests t (handle_proxy X W m auth path body t)"
      by (rule requests_bind_admit)
    then have "c \<in> set (upstream_requests t (handle_proxy X W m auth path body t))"
      using assms proxy by simp
    from requests_proxy [OF this] t proxy path classify_normalized_proxy [OF proxy(1)] show ?thesis
      by auto
  qed
qed

text \<open>C1. Nothing reaches the upstream without admission: whatever the crates, the L0 service, the
  clocks and the upstream answer, a request makes at most one upstream call, streamed or not. If it
  makes one, no hard maintenance window is active, the request carries a bearer token the
  authenticator vouches for, the call names that key, and it is either the models list or the
  request's own method, normalised path and body, where the body is within the size limit and, for
  a POST, its model is allowed and it passes the quota and context gates; and the path is one of the
  allowlisted ones unless the edge runs in transparent mode.\<close>

theorem upstream_only_for_admitted:
  assumes "c \<in> set (upstream_requests s (handle_from_ex X W m raw h body now ip header s))"
  shows "upstream_requests s (handle_from_ex X W m raw h body now ip header s) = [c] \<and>
    (\<exists>path auth. normalize_path raw = Inr path \<and> admissible X W now h s auth \<and>
       (c = ModelsCall (key_ctx auth) (ctx_policy auth) \<and> m = Get \<and> path = ''/v1/models'' \<or>
        (\<exists>b. c = ForwardCall m path b (key_ctx auth) \<and> (b = Some body \<or> b = None \<and> body = []) \<and>
           body_admitted X (app_limits s) auth m body \<and>
           (m = Post \<and> path \<in> inference_paths \<or> cfg_proxy_mode (app_config s) = Transparent))))"
  using assms by (rule upstream_admission)

definition sample_catalog :: key_catalog where
  "sample_catalog =
     \<lparr>kc_catalog = \<lparr>catalog_version = 1, cat_issued_at_ms = 0,
        cat_keys = [\<lparr>kr_key_id = ''tcak_abcd1234'', kr_key_hash_hex = sample_key,
                     kr_revoked = False\<rparr>], cat_signature_hex = []\<rparr>,
      kc_verify_key = []\<rparr>"

definition sample_world :: world where
  "sample_world =
     \<lparr>w_upstream = \<lparr>fw_forward = \<lambda>m p b. Inr (UpJson JNull),
        fw_forward_ctx = \<lambda>m p b c. Inr (UpJson JNull),
        fw_stream_ctx = \<lambda>m p b c. ([], Inl Unauthorized),
        fw_list_models_for_key = \<lambda>c p. Inr default_models\<rparr>,
      w_l0 = sample_client, w_challenge = \<lambda>n. Inr JNull,
      w_env = Map.empty, w_auth_ms = 0, w_auth_at = 0, w_key_at = 0, w_ip_at = 0,
      w_challenge_at = 0\<rparr>"

definition sample_app :: app where
  "sample_app = app_new config_default limits_default (Catalog sample_catalog)"

lemma sample_body_hash: "hash_api_key sample_body_crates sample_key = sample_key"
  by (simp add: hash_api_key_def sample_body_crates_def sample_crates_def auth_ext.defs body_ext.defs)

lemma sample_admit:
  assumes "hash_api_key X sample_key = sample_key"
  shows "\<exists>t. admit X W 0 None (Some (''Bearer '' @ sample_key)) sample_app =
     (Inr \<lparr>ctx_key_id = ''tcak_abcd1234'', ctx_policy = unrestricted\<rparr>, t) \<and>
     app_calls t = [] \<and> app_limits t = limits_default"
proof -
  have "bearer_token (Some (''Bearer '' @ sample_key)) = Inr sample_key"
    unfolding bearer_token_ok by (simp add: sample_key_def)
  then have "catalog_authenticate_bearer X sample_catalog (Some (''Bearer '' @ sample_key)) =
      Inr \<lparr>ctx_key_id = ''tcak_abcd1234'', ctx_policy = unrestricted\<rparr>"
    by (simp add: catalog_authenticate_bearer_def lookup_by_api_key_def assms sample_catalog_def)
  then show ?thesis
    by (simp add: admit_def bindS_def refuse_if_maintenance_def enforce_ip_api_limit_def
        authenticate_request_def on_part_def edge_authenticate_bearer_def enforce_rate_limit_def
        check_with_rpm_def current_bucket_def Let_def sample_app_def app_new_def limits_default_def
        maintenance_new_def maintenance_active_def effective_rpm_def unrestricted_def
        limits_ip_rate_limiter_def limits_rate_limiter_def rate_limiter_new_def window_ns_def)
qed

abbreviation sample_auth :: auth_context where
  "sample_auth \<equiv> \<lparr>ctx_key_id = ''tcak_abcd1234'', ctx_policy = unrestricted\<rparr>"

lemma sample_call:
  "upstream_requests sample_app (handle_from_ex sample_body_crates sample_world Post
     ''/v1/completions'' (Some (''Bearer '' @ sample_key)) [1, 2] 0 None None sample_app) =
   [ForwardCall Post ''/v1/completions'' (Some [1, 2]) (key_ctx sample_auth)]"
proof -
  obtain t where t: "admit sample_body_crates sample_world 0 None (Some (''Bearer '' @ sample_key))
      sample_app = (Inr sample_auth, t)" "app_calls t = []" "app_limits t = limits_default"
    using sample_admit [OF sample_body_hash] by blast
  have n: "normalize_path ''/v1/completions'' = Inr ''/v1/completions''"
    "classify Post ''/v1/completions'' Allowlist = InferencePost" by code_simp+
  have a: "app_calls sample_app = []" "cfg_proxy_mode (app_config sample_app) = Allowlist"
    by (simp_all add: sample_app_def app_new_def config_default_def)
  have "json_from_slice sample_body_crates [1, 2] = Inl ''expected value''"
    by (simp add: sample_body_crates_def sample_crates_def auth_ext.defs body_ext.defs)
  then have "check_prompt sample_body_crates sample_auth [1, 2] = Inr ()"
    by (simp add: check_prompt_ok quota_ok max_context_ok allows_model_iff unrestricted_def)
  then have "handle_inference sample_body_crates sample_world sample_auth ''/v1/completions'' [1, 2] t =
      handle_inference_post sample_body_crates sample_world sample_auth ''/v1/completions'' [1, 2] t"
    using t(3) by (simp add: handle_inference_def bindS_liftS validate_body_size_def limits_default_def)
  then have "handle_from_ex sample_body_crates sample_world Post
     ''/v1/completions'' (Some (''Bearer '' @ sample_key)) [1, 2] 0 None None sample_app =
     handle_inference_post sample_body_crates sample_world sample_auth ''/v1/completions'' [1, 2] t"
    by (simp add: handle_from_ex_def n a bindS_def t(1) [simplified])
  then show ?thesis
    using upstream_requests_same [of t sample_app] t(2) a(1) by (simp add: requests_inference_post)
qed

theorem upstream_only_for_admitted_witness:
  "\<exists>c. c \<in> set (upstream_requests sample_app (handle_from_ex sample_body_crates sample_world Post
         ''/v1/completions'' (Some (''Bearer '' @ sample_key)) [1, 2] 0 None None sample_app)) \<and>
     (\<exists>path auth. normalize_path ''/v1/completions'' = Inr path \<and>
        admissible sample_body_crates sample_world 0 (Some (''Bearer '' @ sample_key)) sample_app auth)"
proof -
  let ?c = "ForwardCall Post ''/v1/completions'' (Some [1, 2]) (key_ctx sample_auth)"
  have "?c \<in> set (upstream_requests sample_app (handle_from_ex sample_body_crates sample_world Post
         ''/v1/completions'' (Some (''Bearer '' @ sample_key)) [1, 2] 0 None None sample_app))"
    by (simp only: sample_call) simp
  from this upstream_only_for_admitted [OF this] show ?thesis by blast
qed

subsection \<open>Maintenance, challenge and models\<close>

lemma admit_refused:
  assumes "maintenance_active (app_maintenance s) now None = Some a" "am_phase a = Hard"
  shows "bindS (admit X W now ip h) f s = (Inl (maintenance_error a), s)"
  using assms by (simp add: admit_def refuse_if_maintenance_cases bindS_def)

text \<open>C32. Hard maintenance closes the metered routes: while a hard window is active, a request that
  would reach the upstream is answered with status 503, the error code \<open>maintenance\<close> and the window's
  retry delay, before it is counted against any limit or authenticated, and it changes nothing.\<close>

theorem hard_maintenance_refuses:
  assumes "maintenance_active (app_maintenance s) now None = Some a" "am_phase a = Hard"
    and "normalize_path raw = Inr path"
    and "classify m path (cfg_proxy_mode (app_config s)) \<in> {ModelsList, InferencePost, ProxyGet, ProxyPost}"
  shows "\<exists>e. handle_from_ex X W m raw h body now ip header s = (Inl e, s) \<and> status_code e = 503 \<and>
    error_code e = Some ''maintenance'' \<and> retry_after_secs e = Some (am_retry_after_secs a)"
  using assms(3,4)
  by (auto simp: handle_from_ex_def admit_refused [OF assms(1,2)] maintenance_error_def)

text \<open>An edge that has loaded the sample manifest.\<close>

definition sample_closed_app :: app where
  "sample_closed_app = sample_app\<lparr>app_maintenance :=
     \<lparr>ms_inner = Some \<lparr>vm_manifest = sample_manifest 3, vm_signature_verified = True\<rparr>,
      ms_version_floor = 3\<rparr>\<rparr>"

theorem hard_maintenance_refuses_witness:
  "\<exists>e. handle_from_ex sample_body_crates sample_world Get ''/v1/models'' None [] 1767323046000 None
      None sample_closed_app = (Inl e, sample_closed_app) \<and> status_code e = 503 \<and>
    error_code e = Some ''maintenance'' \<and> retry_after_secs e = Some 3599"
proof -
  let ?a = "\<lparr>am_window = sample_window, am_phase = Hard, am_manifest_version = 3,
           am_not_before_ms = 1767323045000, am_hard_not_after_ms = 1767326645000,
           am_soft_not_after_ms = None, am_retry_after_secs = 3599\<rparr>"
  have "maintenance_active (app_maintenance sample_closed_app) 1767323046000 None = Some ?a"
    by (simp add: sample_closed_app_def maintenance_active_def sample_active)
  moreover have "normalize_path ''/v1/models'' = Inr ''/v1/models''"
    "classify Get ''/v1/models'' Allowlist = ModelsList" by code_simp+
  moreover have "cfg_proxy_mode (app_config sample_closed_app) = Allowlist"
    by (simp add: sample_closed_app_def sample_app_def app_new_def config_default_def)
  ultimately show ?thesis
    using hard_maintenance_refuses [of sample_closed_app 1767323046000 ?a "''/v1/models''" "''/v1/models''"
        Get sample_body_crates sample_world None "[]" None None]
    by simp
qed

lemma gate_restored:
  "gate_try_acquire g = (Inr permit, g') \<Longrightarrow> gate_drop permit g' = g"
  by (auto simp: gate_try_acquire_def gate_drop_def saturating_pred_def not_le split: if_splits
      dest!: unat_Suc_less)

lemma gate_refused: "gate_try_acquire g = (Inl e, g') \<Longrightarrow> g' = g"
  by (auto simp: gate_try_acquire_def split: if_splits)

text \<open>The parts of the application that are not counters of requests.\<close>

definition fixed_parts ::
    "app \<Rightarrow> config \<times> limits \<times> inflight_gate \<times> ip_conn_tracker \<times> maintenance_state" where
  "fixed_parts s =
     (app_config s, app_limits s, app_challenge_inflight s, app_ip_conn_tracker s, app_maintenance s)"

lemma attestation_fixed:
  "fixed_parts (snd (handle_attestation X W body ip header s)) = fixed_parts s"
  by (auto simp: fixed_parts_def handle_attestation_def bindS_def on_part_def Let_def split: prod.splits sum.splits
      dest: gate_restored gate_refused)

lemma same_but_admission_fixed: "same_but_admission s t \<Longrightarrow> fixed_parts t = fixed_parts s"
  by (cases s; cases t) (auto simp: same_but_admission_def fixed_parts_def)

lemma fixed_bind_admit:
  assumes "\<And>auth t. fixed_parts (snd (f auth t)) = fixed_parts t"
  shows "fixed_parts (snd (bindS (admit X W now ip h) f s)) = fixed_parts s"
  using assms same_but_admission_fixed [OF admit_frame]
  by (auto simp: bindS_def split: prod.splits sum.splits)

lemma fixed_handlers:
  "fixed_parts (snd (handle_models X W auth s)) = fixed_parts s"
  "fixed_parts (snd (handle_inference X W auth p body s)) = fixed_parts s"
  "fixed_parts (snd (handle_proxy X W m auth p body s)) = fixed_parts s"
  by (auto simp: fixed_parts_def handle_models_def handle_inference_def handle_proxy_def bindS_liftS
      handle_chat_completions_def handle_inference_post_def forward_call_def log_call_def bindS_def
      Let_def split: sum.split)

lemma fixed_not_implemented:
  "fixed_parts (snd ((bindS (enforce_ip_api_limit W ip) (\<lambda>_.
     bindS (authenticate_request X W h) (\<lambda>_. failS (NotImplemented reason)))
       :: (app, api_error, app_response) op) s)) = fixed_parts s"
  by (rule same_but_admission_fixed, rule keepsD)
    (intro keeps_bindS transp_admission admission_keeps keeps_pure, simp add: reflp_def)

text \<open>Permits never leak: whatever a request is and however it ends, the number of attestation quotes
  in flight and the table of open connections after it are those before it.\<close>

lemma request_keeps_permits:
  "fixed_parts (snd (handle_from_ex X W m raw h body now ip header s)) =
     fixed_parts s"
  by (auto simp: handle_from_ex_def attestation_fixed fixed_not_implemented
      fixed_bind_admit fixed_handlers split: sum.split route_action.split)

text \<open>The comparison that touches every byte decides equality.\<close>

lemma constant_time_eq: "subtle_constant_time_eq a b \<longleftrightarrow> a = b"
  using fold_xor_zero [of a b 0] by (auto simp: subtle_constant_time_eq_def)

lemma bench_bypass_iff:
  "bench_bypass W l header \<longleftrightarrow>
     load_edge_profile (w_env W) = Inr Dev \<and>
     (\<exists>t. challenge_bench_token l = Some t \<and> t \<noteq> [] \<and> header = Some t)"
  by (auto simp: bench_bypass_def constant_time_eq split: option.splits)

text \<open>The benchmark bypass exists only in development: unless the profile read from the
  environment is \<open>dev\<close>, a request is handled exactly as if it carried no bypass header, so the
  challenge rate limit and the gate apply to it.\<close>

theorem bench_header_needs_dev:
  assumes "load_edge_profile (w_env W) \<noteq> Inr Dev"
  shows "handle_from_ex X W m raw h body now ip header s = handle_from_ex X W m raw h body now ip None s"
proof -
  have "handle_attestation X W body ip header s = handle_attestation X W body ip None s"
    using assms by (simp add: handle_attestation_def bench_bypass_iff)
  then show ?thesis by (simp add: handle_from_ex_def split: sum.split route_action.split)
qed

theorem bench_header_needs_dev_witness:
  "handle_from_ex sample_body_crates sample_world Post ''/v1/attestation/challenge'' None [1] 0 None
     (Some ''token'') sample_app =
   handle_from_ex sample_body_crates sample_world Post ''/v1/attestation/challenge'' None [1] 0 None
     None sample_app"
  by (rule bench_header_needs_dev)
    (simp add: sample_world_def load_edge_profile_def parse_edge_profile_def trimmed_nonempty_def)

lemma answer_challenge_ok:
  assumes "answer_challenge X W l body = Inr r"
  shows "\<exists>req nonce j. body \<noteq> [] \<and> length body \<le> max_body_bytes l \<and>
    challenge_from_slice X body = Inr req \<and> b64url_decode X (trim (ac_nonce_b64 req)) = Inr nonce \<and>
    length nonce = 32 \<and> w_challenge W nonce = Inr j \<and> r = AppJson j"
  using assms
  by (auto simp: answer_challenge_def result_simps validate_body_size_def CHALLENGE_NONCE_LEN_def
      split: if_splits)

lemma handle_attestation_ok:
  "fst (handle_attestation X W body ip header s) = Inr r \<Longrightarrow> answer_challenge X W (app_limits s) body = Inr r"
  by (auto simp: handle_attestation_def bindS_def on_part_def Let_def split: if_splits prod.splits sum.splits)

text \<open>Every attestation answers the caller's own nonce: when a challenge request succeeds, the
  body was a challenge request within the size limit, its nonce decodes to exactly 32 bytes, and the
  response is what the platform attested for those bytes.\<close>

theorem challenge_answers_the_nonce:
  assumes "classify m raw (cfg_proxy_mode (app_config s)) = Attestation"
    and "fst (handle_from_ex X W m raw h body now ip header s) = Inr r"
  shows "\<exists>req nonce j. body \<noteq> [] \<and> length body \<le> max_body_bytes (app_limits s) \<and>
    challenge_from_slice X body = Inr req \<and> b64url_decode X (trim (ac_nonce_b64 req)) = Inr nonce \<and>
    length nonce = 32 \<and> w_challenge W nonce = Inr j \<and> r = AppJson j"
proof -
  obtain path where path: "normalize_path raw = Inr path"
    using assms(2) by (cases "normalize_path raw") (auto simp: handle_from_ex_def)
  then have "classify m path (cfg_proxy_mode (app_config s)) = Attestation"
    using assms(1) classify_of_normalized [OF path] by (simp add: classify_def)
  then have "fst (handle_attestation X W body ip header s) = Inr r"
    using assms(2) by (simp add: handle_from_ex_def path)
  then show ?thesis by (rule answer_challenge_ok [OF handle_attestation_ok])
qed

theorem challenge_answers_the_nonce_witness:
  "\<exists>req nonce j. [1] \<noteq> ([] :: bytes) \<and> length [1 :: u8] \<le> max_body_bytes (app_limits sample_app) \<and>
    challenge_from_slice sample_body_crates [1] = Inr req \<and>
    b64url_decode sample_body_crates (trim (ac_nonce_b64 req)) = Inr nonce \<and> length nonce = 32 \<and>
    w_challenge sample_world nonce = Inr j \<and> AppJson JNull = AppJson j"
proof (rule challenge_answers_the_nonce)
  have c: "normalize_path ''/v1/attestation/challenge'' = Inr ''/v1/attestation/challenge''"
    "classify Post ''/v1/attestation/challenge'' Allowlist = Attestation" by code_simp+
  have a: "cfg_proxy_mode (app_config sample_app) = Allowlist"
    by (simp add: sample_app_def app_new_def config_default_def)
  show "classify Post ''/v1/attestation/challenge'' (cfg_proxy_mode (app_config sample_app)) = Attestation"
    by (simp add: a c)
  have "trim (replicate 32 (CHR 0x00)) = replicate 32 (CHR 0x00)" by code_simp
  then have "answer_challenge sample_body_crates sample_world (app_limits sample_app) [1] = Inr (AppJson JNull)"
    by (simp add: answer_challenge_def validate_body_size_def sample_app_def app_new_def
        limits_default_def sample_body_crates_def sample_crates_def auth_ext.defs body_ext.defs
        CHALLENGE_NONCE_LEN_def sample_world_def as_bytes_def)
  then show "fst (handle_from_ex sample_body_crates sample_world Post ''/v1/attestation/challenge'' None
      [1] 0 None None sample_app) = Inr (AppJson JNull)"
    by (simp add: handle_from_ex_def c a)
      (simp add: handle_attestation_def bench_bypass_iff bindS_def on_part_def
        Let_def rl_check_def check_with_rpm_def current_bucket_def gate_try_acquire_def sample_app_def
        app_new_def limits_default_def limits_challenge_rate_limiter_def rate_limiter_new_def
        limits_challenge_inflight_gate_def inflight_gate_new_def window_ns_def)
qed

text \<open>A key sees exactly its models: with the default listing, the models shown to a key are
  those of the upstream's list that its policy allows, in the upstream's order, and a failed listing
  is passed on.\<close>

theorem models_list_is_filtered:
  "case list_models_for_key_default upstream ctx policy of
     Inl e \<Rightarrow> upstream = Inl e
   | Inr shown \<Rightarrow> \<exists>all. upstream = Inr all \<and> ml_object shown = ml_object all \<and>
       subseq (ml_data shown) (ml_data all) \<and>
       set (ml_data shown) = {m \<in> set (ml_data all). ''*'' \<in> set (pol_models policy) \<or>
                                                    mo_id m \<in> set (pol_models policy)}"
  by (cases upstream) (auto simp: list_models_for_key_default_def allows_model_iff)

end
