(* ===== verification/Http1_Body.thy ===== *)
theory Http1_Body
  imports Api_Error
begin

text \<open>
  \<open>crates/openapi-core/src/http1_body.rs\<close>: copying an upstream HTTP/1.1 body. A reader is the
  sequence of what its reads deliver: errors, and pieces of bytes of any size, so a theorem over all
  readers covers every way the network cuts the stream; a read takes at most as much of the next
  piece as the buffer holds, and the end of the sequence is the end of the stream. The writer is a
  parameter: an operation on some state that may fail.
\<close>

type_synonym reader = "(string + bytes) list"

fun read_some :: "nat \<Rightarrow> reader \<Rightarrow> (string + bytes) \<times> reader" where
  "read_some cap [] = (Inr [], [])"
| "read_some cap (Inl e # r) = (Inl e, r)"
| "read_some cap (Inr b # r) =
     (Inr (take cap b), if length b \<le> cap then r else Inr (drop cap b) # r)"

fun reader_size :: "reader \<Rightarrow> nat" where
  "reader_size [] = 0"
| "reader_size (Inl e # r) = Suc (reader_size r)"
| "reader_size (Inr b # r) = Suc (length b + reader_size r)"

lemma read_some_size:
  "read_some cap r = (Inr b, r') \<Longrightarrow> reader_size r' \<le> reader_size r \<and> (b \<noteq> [] \<longrightarrow> reader_size r' < reader_size r)"
  by (cases "(cap, r)" rule: read_some.cases) (auto split: if_splits)

datatype body_framing = ContentLength nat | Chunked | UntilClose

type_synonym 'w writer = "bytes \<Rightarrow> ('w, string, unit) op"

text \<open>The loop that both the fixed and the chunked copy run: copy \<open>remaining\<close> bytes, with the error
  for an early end of the stream.\<close>

function copy_exact ::
    "nat \<Rightarrow> 'w writer \<Rightarrow> (nat \<Rightarrow> api_error) \<Rightarrow> nat \<Rightarrow> nat \<Rightarrow> reader \<Rightarrow> 'w \<Rightarrow> (api_error + nat) \<times> reader \<times> 'w"
where
  "copy_exact buf_len wr early remaining acc r w =
     (if remaining = 0 then (Inr acc, r, w)
      else (case read_some (min buf_len remaining) r of
              (Inl e, r1) \<Rightarrow> (Inl (Upstream e), r1, w)
            | (Inr b, r1) \<Rightarrow>
                if b = [] then (Inl (early remaining), r1, w)
                else (case wr b w of
                        (Inl e, w1) \<Rightarrow> (Inl (Upstream e), r1, w1)
                      | (Inr _, w1) \<Rightarrow>
                          copy_exact buf_len wr early (remaining - length b) (acc + length b) r1 w1)))"
  by pat_completeness auto
termination
  by (relation "measure (\<lambda>(buf_len, wr, early, remaining, acc, r, w). remaining)") auto

definition copy_fixed ::
    "nat \<Rightarrow> 'w writer \<Rightarrow> nat \<Rightarrow> reader \<Rightarrow> 'w \<Rightarrow> (api_error + nat) \<times> reader \<times> 'w" where
  "copy_fixed buf_len wr remaining r w =
     copy_exact buf_len wr
       (\<lambda>left. Upstream (''upstream closed early ('' @ show_nat left @ '' bytes remaining)''))
       remaining 0 r w"

function copy_until_eof ::
    "nat \<Rightarrow> 'w writer \<Rightarrow> nat \<Rightarrow> reader \<Rightarrow> 'w \<Rightarrow> (api_error + nat) \<times> reader \<times> 'w" where
  "copy_until_eof buf_len wr acc r w =
     (case read_some buf_len r of
        (Inl e, r1) \<Rightarrow> (Inl (Upstream e), r1, w)
      | (Inr b, r1) \<Rightarrow>
          if b = [] then (Inr acc, r1, w)
          else (case wr b w of
                  (Inl e, w1) \<Rightarrow> (Inl (Upstream e), r1, w1)
                | (Inr _, w1) \<Rightarrow> copy_until_eof buf_len wr (acc + length b) r1 w1))"
  by pat_completeness auto
termination
  by (relation "measure (\<lambda>(buf_len, wr, acc, r, w). reader_size r)")
    (auto dest!: read_some_size [OF sym])

definition CRLF :: bytes where
  "CRLF = [13, 10]"

text \<open>The byte loop of \<open>read_line\<close> with the line so far.\<close>

function read_line_from :: "bytes \<Rightarrow> reader \<Rightarrow> (api_error + bytes) \<times> reader" where
  "read_line_from line r =
     (case read_some 1 r of
        (Inl e, r1) \<Rightarrow> (Inl (Upstream e), r1)
      | (Inr b, r1) \<Rightarrow>
          if b = [] then
            (if line = [] then (Inl (Upstream ''unexpected EOF reading header line''), r1)
             else (Inr line, r1))
          else let line1 = line @ b
               in if suffix CRLF line1 then (Inr (take (length line1 - 2) line1), r1)
                  else if 8192 < length line1 then (Inl (Upstream ''header line too long''), r1)
                  else read_line_from line1 r1)"
  by pat_completeness auto
termination
  by (relation "measure (\<lambda>(line, r). reader_size r)") (auto dest!: read_some_size [OF sym])

text \<open>The text of the standard library's \<open>Utf8Error\<close>: the index of the first ill-formed piece, and
  whether it is an incomplete character at the end of the input.\<close>

function utf8_error_at :: "nat \<Rightarrow> bytes \<Rightarrow> string" where
  "utf8_error_at i b =
     (if b = [] then []
      else (case utf8_head b of
              Inr _ \<Rightarrow> utf8_error_at (i + head_len (utf8_head b)) (drop (head_len (utf8_head b)) b)
            | Inl k \<Rightarrow>
                if k = length b \<and> in_range 194 244 b 0
                then ''incomplete utf-8 byte sequence from index '' @ show_nat i
                else ''invalid utf-8 sequence of '' @ show_nat k @ '' bytes from index '' @ show_nat i))"
  by pat_completeness auto
termination
  by (relation "measure (\<lambda>(i, b). length b)") (metis case_prod_conv diff_less head_len_pos in_measure length_drop
    length_greater_0_conv wf_measure)+

definition utf8_error :: "bytes \<Rightarrow> string" where
  "utf8_error b = utf8_error_at 0 b"

declare utf8_error_at.simps [simp del]

definition read_line :: "reader \<Rightarrow> (api_error + string) \<times> reader" where
  "read_line r =
     (case read_line_from [] r of
        (Inl e, r1) \<Rightarrow> (Inl e, r1)
      | (Inr line, r1) \<Rightarrow>
          (case from_utf8 line of
             None \<Rightarrow> (Inl (Upstream (utf8_error line)), r1)
           | Some s \<Rightarrow> (Inr s, r1)))"

declare read_line_from.simps [simp del] copy_exact.simps [simp del] copy_until_eof.simps [simp del]

lemma read_line_from_size:
  "read_line_from line r = (Inr l, r') \<Longrightarrow> reader_size r' \<le> reader_size r \<and> (line = [] \<longrightarrow> reader_size r' < reader_size r)"
proof (induction line r rule: read_line_from.induct)
  case (1 line r)
  obtain x r1 where x: "read_some 1 r = (x, r1)" by fastforce
  from "1.prems" x obtain b where b: "x = Inr b"
    by (subst (asm) read_line_from.simps) (auto split: sum.splits)
  note size = read_some_size [of 1 r b r1]
  show ?case
  proof (cases "b = [] \<or> suffix CRLF (line @ b)")
    case True
    with "1.prems" x b size show ?thesis
      by (subst (asm) read_line_from.simps) (auto simp: Let_def split: if_splits)
  next
    case False
    with "1.prems" x b have rest: "read_line_from (line @ b) r1 = (Inr l, r')" "\<not> 8192 < length (line @ b)"
      by (subst (asm) read_line_from.simps, auto simp: Let_def split: if_splits)+
    from "1.IH" [OF x [symmetric]] b False rest have "reader_size r' \<le> reader_size r1" by auto
    with size x b False show ?thesis by simp
  qed
qed

lemma read_line_size: "read_line r = (Inr l, r') \<Longrightarrow> reader_size r' < reader_size r"
  by (auto simp: read_line_def split: prod.splits sum.splits option.splits dest: read_line_from_size)

lemma copy_exact_size:
  "copy_exact n wr early remaining acc r w = (x, r', w') \<Longrightarrow> reader_size r' \<le> reader_size r"
proof (induction n wr early remaining acc r w rule: copy_exact.induct)
  case (1 n wr early remaining acc r w)
  obtain y r1 where y: "read_some (min n remaining) r = (y, r1)" by fastforce
  have size: "reader_size r1 \<le> reader_size r"
    using y by (cases "(min n remaining, r)" rule: read_some.cases) (auto split: if_splits)
  show ?case
  proof (cases "\<exists>b w1. y = Inr b \<and> remaining \<noteq> 0 \<and> b \<noteq> [] \<and> wr b w = (Inr (), w1)")
    case True
    then obtain b w1 where b: "y = Inr b" "remaining \<noteq> 0" "b \<noteq> []" "wr b w = (Inr (), w1)" by blast
    with "1.prems" y have "copy_exact n wr early (remaining - length b) (acc + length b) r1 w1 = (x, r', w')"
      by (subst (asm) copy_exact.simps) simp
    from "1.IH" [OF _ y [symmetric]] b this have "reader_size r' \<le> reader_size r1" by fastforce
    with size show ?thesis by simp
  next
    case False
    with "1.prems" y size show ?thesis
      by (subst (asm) copy_exact.simps) (auto split: if_splits sum.splits prod.splits)
  qed
qed

text \<open>The part of a chunk-size line before an extension.\<close>

definition chunk_size_text :: "string \<Rightarrow> string" where
  "chunk_size_text line = trim (hd (split_on (\<lambda>c. c = CHR '';'') line))"

text \<open>The text of the standard library's \<open>ParseIntError\<close>: the digits are read from the left, and the
  first one that is none, or that overflows, decides.\<close>

fun digits_error :: "nat \<Rightarrow> nat \<Rightarrow> nat \<Rightarrow> string \<Rightarrow> string" where
  "digits_error r maxv acc [] = []"
| "digits_error r maxv acc (c # cs) =
     (case digit_val c of
        None \<Rightarrow> ''invalid digit found in string''
      | Some d \<Rightarrow>
          if r \<le> d then ''invalid digit found in string''
          else if maxv < acc * r + d then ''number too large to fit in target type''
          else digits_error r maxv (acc * r + d) cs)"

definition parse_int_error :: "nat \<Rightarrow> nat \<Rightarrow> string \<Rightarrow> string" where
  "parse_int_error r maxv s =
     (if s = [] then ''cannot parse integer from empty string''
      else if s = ''+'' then ''invalid digit found in string''
      else digits_error r maxv 0 (if hd s = CHR ''+'' then tl s else s))"

function copy_chunked ::
    "nat \<Rightarrow> 'w writer \<Rightarrow> nat \<Rightarrow> reader \<Rightarrow> 'w \<Rightarrow> (api_error + nat) \<times> reader \<times> 'w" where
  "copy_chunked buf_len wr acc r w =
     (case read_line r of
        (Inl e, r1) \<Rightarrow> (Inl e, r1, w)
      | (Inr line, r1) \<Rightarrow>
          let size_line = trim line
          in if size_line = [] then copy_chunked buf_len wr acc r1 w
             else (case parse_usize 16 (chunk_size_text size_line) of
                     None \<Rightarrow> (Inl (Upstream (''invalid chunk size: '' @
                               parse_int_error 16 u64_max (chunk_size_text size_line))), r1, w)
                   | Some sz \<Rightarrow>
                       if sz = 0 then
                         (case read_line r1 of
                            (Inl e, r2) \<Rightarrow> (Inl e, r2, w)
                          | (Inr _, r2) \<Rightarrow> (Inr acc, r2, w))
                       else (case copy_exact buf_len wr (\<lambda>_. Upstream ''upstream closed mid-chunk'')
                                    sz acc r1 w of
                               (Inl e, r2, w2) \<Rightarrow> (Inl e, r2, w2)
                             | (Inr acc2, r2, w2) \<Rightarrow>
                                 (case read_line r2 of
                                    (Inl e, r3) \<Rightarrow> (Inl e, r3, w2)
                                  | (Inr trailer, r3) \<Rightarrow>
                                      if trailer \<noteq> [] \<and> trailer \<noteq> [CHR 0x0D] then
                                        (Inl (Upstream ''expected chunk CRLF''), r3, w2)
                                      else copy_chunked buf_len wr acc2 r3 w2))))"
  by pat_completeness auto
termination
  by (relation "measure (\<lambda>(buf_len, wr, acc, r, w). reader_size r)")
    (auto dest!: read_line_size [OF sym] copy_exact_size [OF sym])

declare copy_chunked.simps [simp del]

definition copy_body ::
    "nat \<Rightarrow> 'w writer \<Rightarrow> body_framing \<Rightarrow> reader \<Rightarrow> 'w \<Rightarrow> (api_error + nat) \<times> reader \<times> 'w" where
  "copy_body buf_len wr framing r w =
     (case framing of
        ContentLength len \<Rightarrow> copy_fixed buf_len wr len r w
      | Chunked \<Rightarrow> copy_chunked buf_len wr 0 r w
      | UntilClose \<Rightarrow> copy_until_eof buf_len wr 0 r w)"

text \<open>A \<open>Vec<u8>\<close> as a writer: it appends and never fails.\<close>

definition vec_write :: "bytes writer" where
  "vec_write b w = (Inr (), w @ b)"

lemma vec_write_simp: "vec_write b w = (Inr (), w @ b)"
  by (simp add: vec_write_def)

definition read_error_body :: "nat \<Rightarrow> body_framing \<Rightarrow> reader \<Rightarrow> (api_error + string) \<times> reader" where
  "read_error_body buf_len framing r =
     (case copy_body buf_len vec_write framing r [] of
        (Inl e, r1, _) \<Rightarrow> (Inl e, r1)
      | (Inr _, r1, body) \<Rightarrow> (Inr (from_utf8_lossy body), r1))"

subsection \<open>Response headers\<close>

fun framing_lines :: "string list \<Rightarrow> nat option \<Rightarrow> bool \<Rightarrow> nat option \<times> bool" where
  "framing_lines [] content_length chunked = (content_length, chunked)"
| "framing_lines (l # ls) content_length chunked =
     (let line = trim l
      in if line = [] then framing_lines ls content_length chunked
         else (case split_once (CHR '':'') line of
                 None \<Rightarrow> framing_lines ls content_length chunked
               | Some (name, val) \<Rightarrow>
                   framing_lines ls
                     (if eq_ignore_ascii_case name ''content-length''
                      then (case parse_usize 10 (trim val) of
                              Some n \<Rightarrow> Some n | None \<Rightarrow> content_length)
                      else content_length)
                     (chunked \<or> eq_ignore_ascii_case name ''transfer-encoding'' \<and>
                                contains (to_ascii_lowercase val) ''chunked'')))"

definition parse_body_framing :: "string \<Rightarrow> body_framing" where
  "parse_body_framing headers =
     (case framing_lines (str_lines headers) None False of
        (content_length, chunked) \<Rightarrow>
          if chunked then Chunked
          else (case content_length of Some n \<Rightarrow> ContentLength n | None \<Rightarrow> UntilClose))"

function read_head_from :: "bytes \<Rightarrow> reader \<Rightarrow> (api_error + bytes) \<times> reader" where
  "read_head_from raw r =
     (case read_some 1 r of
        (Inl e, r1) \<Rightarrow> (Inl (Upstream e), r1)
      | (Inr b, r1) \<Rightarrow>
          if b = [] then (Inl (Upstream ''EOF reading response headers''), r1)
          else let raw1 = raw @ b
               in if suffix (CRLF @ CRLF) raw1 then (Inr raw1, r1)
                  else if 64 * 1024 < length raw1
                    then (Inl (Upstream ''response headers too large''), r1)
                  else read_head_from raw1 r1)"
  by pat_completeness auto
termination
  by (relation "measure (\<lambda>(raw, r). reader_size r)") (auto dest!: read_some_size [OF sym])

definition status_of_line :: "string \<Rightarrow> nat" where
  "status_of_line line =
     (case split_whitespace line of
        _ # s # _ \<Rightarrow> (case parse_uint 10 65535 s of Some n \<Rightarrow> n | None \<Rightarrow> 502)
      | _ \<Rightarrow> 502)"

definition read_response_headers ::
    "reader \<Rightarrow> (api_error + nat \<times> string \<times> body_framing) \<times> reader" where
  "read_response_headers r =
     (case read_head_from [] r of
        (Inl e, r1) \<Rightarrow> (Inl e, r1)
      | (Inr raw, r1) \<Rightarrow>
          let headers_text = from_utf8_lossy raw;
              status_line = (case str_lines headers_text of [] \<Rightarrow> [] | l # _ \<Rightarrow> l)
          in (Inr (status_of_line status_line, headers_text, parse_body_framing headers_text), r1))"

subsection \<open>Readers that only cut the stream\<close>

text \<open>A clean reader delivers its bytes in non-empty pieces, without errors.\<close>

fun clean :: "reader \<Rightarrow> bool" where
  "clean [] = True"
| "clean (Inl e # r) = False"
| "clean (Inr b # r) = (b \<noteq> [] \<and> clean r)"

fun contents :: "reader \<Rightarrow> bytes" where
  "contents [] = []"
| "contents (Inl e # r) = contents r"
| "contents (Inr b # r) = b @ contents r"

lemma contents_Nil_iff: "clean r \<Longrightarrow> contents r = [] \<longleftrightarrow> r = []"
  by (cases r rule: clean.cases) auto

lemma read_some_clean:
  assumes "clean r" and "0 < cap"
  obtains b r' where "read_some cap r = (Inr b, r')" "clean r'" "contents r = b @ contents r'"
    "length b \<le> cap" "b = [] \<longleftrightarrow> r = []"
proof (cases r)
  case Nil
  with that [of "[]" "[]"] show thesis by simp
next
  case (Cons x r1)
  with assms obtain b where b: "r = Inr b # r1" "b \<noteq> []" "clean r1" by (cases x) auto
  show thesis
    by (rule that [of "take cap b" "if length b \<le> cap then r1 else Inr (drop cap b) # r1"])
      (use assms b in \<open>auto simp: append_assoc [symmetric] simp del: append_assoc\<close>)
qed

text \<open>With a vector as the writer, the exact copy delivers the first \<open>n\<close> bytes of the stream if it has
  them, and otherwise everything and the early-end error.\<close>

lemma copy_exact_enough:
  assumes "clean r" "0 < buf_len" "n \<le> length (contents r)"
  shows "\<exists>r'. copy_exact buf_len vec_write early n acc r w = (Inr (acc + n), r', w @ take n (contents r)) \<and>
    clean r' \<and> contents r' = drop n (contents r)"
  using assms
proof (induction n arbitrary: acc r w rule: less_induct)
  case (less n)
  show ?case
  proof (cases "n = 0")
    case True
    with less.prems show ?thesis by (subst copy_exact.simps) simp
  next
    case False
    with less.prems obtain b r1 where b: "read_some (min buf_len n) r = (Inr b, r1)" "clean r1"
      "contents r = b @ contents r1" "length b \<le> min buf_len n" "b = [] \<longleftrightarrow> r = []"
      using read_some_clean [of r "min buf_len n"] by (metis min_less_iff_conj not_gr_zero)
    with False less.prems(3) have ne: "b \<noteq> []" by auto
    with b False have lt: "n - length b < n" and ge: "n - length b \<le> length (contents r1)"
      using less.prems(3) by (auto simp: not_gr_zero)
    from less.IH [OF lt b(2) less.prems(2) ge, of "acc + length b" "w @ b"] obtain r' where
      "copy_exact buf_len vec_write early (n - length b) (acc + length b) r1 (w @ b) =
         (Inr (acc + length b + (n - length b)), r', w @ b @ take (n - length b) (contents r1))"
      "clean r'" "contents r' = drop (n - length b) (contents r1)" by auto
    moreover have "copy_exact buf_len vec_write early n acc r w =
        copy_exact buf_len vec_write early (n - length b) (acc + length b) r1 (w @ b)"
      by (subst copy_exact.simps) (simp add: b(1) ne False vec_write_simp)
    moreover have "acc + length b + (n - length b) = acc + n" using b(4) by simp
    ultimately show ?thesis using b(3,4) by (intro exI [of _ r']) simp
  qed
qed

lemma copy_exact_short:
  assumes "clean r" "0 < buf_len" "length (contents r) < n"
  shows "copy_exact buf_len vec_write early n acc r w =
    (Inl (early (n - length (contents r))), [], w @ contents r)"
  using assms
proof (induction n arbitrary: acc r w rule: less_induct)
  case (less n)
  from less.prems obtain b r1 where b: "read_some (min buf_len n) r = (Inr b, r1)" "clean r1"
    "contents r = b @ contents r1" "length b \<le> min buf_len n" "b = [] \<longleftrightarrow> r = []"
    using read_some_clean [of r "min buf_len n"] by (metis min_less_iff_conj not_gr_zero not_less_zero)
  show ?case
  proof (cases "b = []")
    case True
    with b less.prems show ?thesis by (subst copy_exact.simps) auto
  next
    case False
    with b less.prems have "n - length b < n" "length (contents r1) < n - length b" by auto
    from less.IH [OF this(1) b(2) less.prems(2) this(2), of "acc + length b" "w @ b"]
    have "copy_exact buf_len vec_write early (n - length b) (acc + length b) r1 (w @ b) =
        (Inl (early (n - length (contents r))), [], w @ contents r)" using b(3) by simp
    moreover have "n \<noteq> 0" using less.prems(3) by simp
    then have "copy_exact buf_len vec_write early n acc r w =
        copy_exact buf_len vec_write early (n - length b) (acc + length b) r1 (w @ b)"
      by (subst copy_exact.simps) (simp add: b(1) False vec_write_simp)
    ultimately show ?thesis by simp
  qed
qed

lemma copy_until_eof_all:
  assumes "clean r" "0 < buf_len"
  shows "copy_until_eof buf_len vec_write acc r w =
    (Inr (acc + length (contents r)), [], w @ contents r)"
  using assms
proof (induction "reader_size r" arbitrary: acc r w rule: less_induct)
  case less
  from less.prems obtain b r1 where b: "read_some buf_len r = (Inr b, r1)" "clean r1"
    "contents r = b @ contents r1" "b = [] \<longleftrightarrow> r = []"
    by (rule read_some_clean) blast
  show ?case
  proof (cases "b = []")
    case True
    with b show ?thesis by (subst copy_until_eof.simps) auto
  next
    case False
    with read_some_size [OF b(1)] have "reader_size r1 < reader_size r" by simp
    from less.hyps [OF this b(2) less.prems(2), of "acc + length b" "w @ b"]
    have "copy_until_eof buf_len vec_write (acc + length b) r1 (w @ b) =
        (Inr (acc + length (contents r)), [], w @ contents r)" using b(3) by simp
    moreover have "copy_until_eof buf_len vec_write acc r w =
        copy_until_eof buf_len vec_write (acc + length b) r1 (w @ b)"
      by (subst copy_until_eof.simps) (simp add: b(1) False vec_write_simp)
    ultimately show ?thesis by simp
  qed
qed

lemma read_one_clean:
  assumes "clean r" "contents r = c # t"
  obtains r' where "read_some 1 r = (Inr [c], r')" "clean r'" "contents r' = t"
proof -
  from assms have "r \<noteq> []" by auto
  from assms(1) obtain b r1 where b: "read_some 1 r = (Inr b, r1)" "clean r1" "contents r = b @ contents r1"
    "length b \<le> 1" "b = [] \<longleftrightarrow> r = []"
    by (rule read_some_clean [of r 1]) auto
  with \<open>r \<noteq> []\<close> obtain d where "b = [d]" by (cases b) auto
  with b assms(2) that show thesis by auto
qed

lemma not_suffix_CRLF: "c \<noteq> 10 \<Longrightarrow> \<not> suffix CRLF (pre @ [c])"
  by (auto simp: CRLF_def suffix_def)

text \<open>A line without a line feed of its own is read as it is, and the reader stops behind its end.\<close>

lemma read_line_from_clean:
  assumes "clean r" "contents r = l @ CRLF @ rest" "10 \<notin> set l" "length pre + length l \<le> 8191"
  shows "\<exists>r'. read_line_from pre r = (Inr (pre @ l), r') \<and> clean r' \<and> contents r' = rest"
  using assms
proof (induction l arbitrary: pre r)
  case Nil
  then have "contents r = 13 # 10 # rest" by (simp add: CRLF_def)
  with Nil.prems(1) obtain r1 where r1: "read_some 1 r = (Inr [13], r1)" "clean r1" "contents r1 = 10 # rest"
    by (rule read_one_clean)
  from r1(2,3) obtain r2 where r2: "read_some 1 r1 = (Inr [10], r2)" "clean r2" "contents r2 = rest"
    by (rule read_one_clean)
  have "suffix CRLF ((pre @ [13]) @ [10])" by (simp add: CRLF_def suffix_def)
  with r2 have "read_line_from (pre @ [13]) r1 = (Inr pre, r2)"
    by (subst read_line_from.simps) (simp add: Let_def)
  with r1 Nil.prems(4) not_suffix_CRLF [of 13 pre] r2 show ?case
    by (subst read_line_from.simps) (simp add: Let_def)
next
  case (Cons c l)
  then have "contents r = c # l @ CRLF @ rest" by simp
  with Cons.prems(1) obtain r1 where r1: "read_some 1 r = (Inr [c], r1)" "clean r1"
    "contents r1 = l @ CRLF @ rest"
    by (rule read_one_clean)
  from Cons.prems(3) have "\<not> suffix CRLF (pre @ [c])" by (intro not_suffix_CRLF) auto
  with r1 Cons.prems Cons.IH [OF r1(2,3), of "pre @ [c]"] show ?case
    by (subst read_line_from.simps) (simp add: Let_def)
qed

lemma read_line_clean:
  assumes "clean r" "contents r = l @ CRLF @ rest" "10 \<notin> set l" "length l \<le> 8191" "utf8_valid l"
  obtains r' where "read_line r = (Inr (bytes_str l), r')" "clean r'" "contents r' = rest"
proof -
  from read_line_from_clean [OF assms(1-3), of "[]"] assms(4) obtain r' where
    "read_line_from [] r = (Inr l, r')" "clean r'" "contents r' = rest" by auto
  with assms(5) that show thesis by (simp add: read_line_def from_utf8_def)
qed

subsection \<open>The chunked encoding\<close>

text \<open>What a writer of one chunk emits: its size in hexadecimal, the data and the line ends.\<close>

definition chunk_frame :: "bytes \<Rightarrow> bytes" where
  "chunk_frame b = as_bytes (show_hex (length b)) @ CRLF @ b @ CRLF"

definition last_chunk :: bytes where
  "last_chunk = as_bytes ''0'' @ CRLF @ CRLF"

lemma length_show_radix:
  assumes "2 \<le> r" "n < r ^ k" "0 < k"
  shows "length (show_radix r n) \<le> k"
  using assms
proof (induction k arbitrary: n)
  case (Suc k)
  show ?case
  proof (cases "n < r")
    case True
    then show ?thesis by (subst show_radix.simps) simp
  next
    case False
    then have "0 < k" using Suc.prems by (cases k) auto
    moreover have "n div r < r ^ k" using Suc.prems by (simp add: less_mult_imp_div_less mult.commute)
    ultimately have "length (show_radix r (n div r)) \<le> k" using Suc.IH Suc.prems by blast
    with False Suc.prems show ?thesis by (subst show_radix.simps) simp
  qed
qed simp

lemma show_hex_line:
  assumes "n \<le> u64_max"
  shows "10 \<notin> set (as_bytes (show_hex n))" "length (as_bytes (show_hex n)) \<le> 8191"
    "utf8_valid (as_bytes (show_hex n))" "trim (show_hex n) = show_hex n"
    "chunk_size_text (show_hex n) = show_hex n" "parse_usize 16 (show_hex n) = Some n"
    "show_hex n \<noteq> []"
proof -
  have an: "is_ascii_alphanumeric c" if "c \<in> set (show_hex n)" for c
    using that show_radix_alphanumeric [of 16 c n] by (simp add: show_hex_def)
  then have code: "48 \<le> code c \<and> code c < 128 \<and> code c \<noteq> 59" if "c \<in> set (show_hex n)" for c
    using that by (fastforce simp: is_ascii_alphanumeric_def is_ascii_digit_def)
  have unat: "unat x = code c" if "x = of_char c" for x :: u8 and c
    using that by (simp add: code_def)
  show "10 \<notin> set (as_bytes (show_hex n))"
  proof
    assume "10 \<in> set (as_bytes (show_hex n))"
    then obtain c where c: "c \<in> set (show_hex n)" "(10 :: u8) = of_char c" by (auto simp: as_bytes_def)
    from unat [OF c(2)] code [OF c(1)] show False by simp
  qed
  show "utf8_valid (as_bytes (show_hex n))"
    using code by (intro utf8_valid_ascii) (auto simp: as_bytes_def code_def)
  have "length (show_hex n) \<le> 16" unfolding show_hex_def
    by (rule length_show_radix) (use assms in simp_all)
  then show "length (as_bytes (show_hex n)) \<le> 8191" by simp
  show trim: "trim (show_hex n) = show_hex n" by (simp add: show_hex_def trim_show_radix)
  have "CHR '';'' \<notin> set (show_hex n)" using code [of "CHR '';''"] by (auto simp: code_def)
  then have "hd (split_on (\<lambda>c. c = CHR '';'') (show_hex n)) = show_hex n"
    unfolding hd_split_on by (auto simp: takeWhile_eq_all_conv)
  with trim show "chunk_size_text (show_hex n) = show_hex n"
    unfolding chunk_size_text_def by (simp only:)
  show "parse_usize 16 (show_hex n) = Some n"
    unfolding parse_usize_def show_hex_def by (rule parse_show_radix) (use assms in simp_all)
  show "show_hex n \<noteq> []" by (simp add: show_hex_def)
qed

lemma copy_chunked_chunk:
  assumes "clean r" "0 < buf_len" "c \<noteq> []" "length c \<le> u64_max" "contents r = chunk_frame c @ rest"
  obtains r' where "clean r'" "contents r' = rest"
    "copy_chunked buf_len vec_write acc r w = copy_chunked buf_len vec_write (acc + length c) r' (w @ c)"
proof -
  note hex = show_hex_line [OF assms(4)]
  from assms(5) have "contents r = as_bytes (show_hex (length c)) @ CRLF @ (c @ CRLF @ rest)"
    by (simp add: chunk_frame_def)
  from read_line_clean [OF assms(1) this hex(1-3)] obtain r1 where
    r1: "read_line r = (Inr (show_hex (length c)), r1)" "clean r1" "contents r1 = c @ CRLF @ rest"
    by auto
  from copy_exact_enough [OF r1(2) assms(2), of "length c"
      "\<lambda>_. Upstream ''upstream closed mid-chunk''" acc w] r1(3)
  obtain r2 where r2: "copy_exact buf_len vec_write (\<lambda>_. Upstream ''upstream closed mid-chunk'')
      (length c) acc r1 w = (Inr (acc + length c), r2, w @ c)" "clean r2" "contents r2 = CRLF @ rest"
    by auto
  from r2(2) obtain r3 where r3: "read_line r2 = (Inr [], r3)" "clean r3" "contents r3 = rest"
    by (rule read_line_clean [of r2 "[]" rest]) (use r2 in \<open>auto simp: utf8_valid.simps bytes_str_def\<close>)
  have "copy_chunked buf_len vec_write acc r w = copy_chunked buf_len vec_write (acc + length c) r3 (w @ c)"
    by (subst copy_chunked.simps) (simp add: r1(1) hex assms(3) r2(1) r3(1) Let_def)
  with r3 that show thesis by blast
qed

lemma copy_chunked_last:
  assumes "clean r" "contents r = last_chunk @ rest"
  obtains r' where "clean r'" "contents r' = rest"
    "copy_chunked buf_len wr acc r w = (Inr acc, r', w)"
proof -
  have hex0: "show_hex 0 = ''0''" by code_simp
  note hex = show_hex_line [of 0, unfolded hex0]
  from assms(2) have "contents r = as_bytes ''0'' @ CRLF @ (CRLF @ rest)"
    unfolding last_chunk_def append_assoc .
  from read_line_clean [OF assms(1) this hex(1-3)] obtain r1 where
    r1: "read_line r = (Inr ''0'', r1)" "clean r1" "contents r1 = CRLF @ rest"
    unfolding bytes_str_as_bytes by auto
  from r1(2) obtain r2 where r2: "read_line r1 = (Inr [], r2)" "clean r2" "contents r2 = rest"
    by (rule read_line_clean [of r1 "[]" rest]) (use r1 in \<open>auto simp: utf8_valid.simps bytes_str_def\<close>)
  have "copy_chunked buf_len wr acc r w = (Inr acc, r2, w)"
    by (subst copy_chunked.simps) (simp add: r1(1) hex r2(1) Let_def)
  with r2 that show thesis by blast
qed

text \<open>Chunks of any sizes, received in pieces of any sizes, are copied as the data they carry.\<close>

lemma copy_chunked_frames:
  assumes "clean r" "0 < buf_len" "\<forall>c\<in>set cs. c \<noteq> [] \<and> length c \<le> u64_max"
    and "contents r = concat (map chunk_frame cs) @ last_chunk @ rest"
  shows "\<exists>r'. copy_chunked buf_len vec_write acc r w = (Inr (acc + length (concat cs)), r', w @ concat cs) \<and>
    clean r' \<and> contents r' = rest"
  using assms
proof (induction cs arbitrary: acc r w)
  case Nil
  then have "contents r = last_chunk @ rest" by simp
  from copy_chunked_last [OF Nil.prems(1) this, of buf_len vec_write acc w] show ?case by auto
next
  case (Cons c cs)
  then have "contents r = chunk_frame c @ (concat (map chunk_frame cs) @ last_chunk @ rest)" by simp
  with Cons.prems obtain r1 where "clean r1" "contents r1 = concat (map chunk_frame cs) @ last_chunk @ rest"
    "copy_chunked buf_len vec_write acc r w = copy_chunked buf_len vec_write (acc + length c) r1 (w @ c)"
    by (metis copy_chunked_chunk list.set_intros(1))
  with Cons.IH [of r1 "acc + length c" "w @ c"] Cons.prems(2,3) show ?case
    by (simp add: add.assoc)
qed

end
