(* ===== verification/Http_Wire.thy ===== *)
theory Http_Wire
  imports Handler Http1_Body
begin

text \<open>
  \<open>crates/openapi-http\<close>: the bytes on the wire. \<open>request.rs\<close> parses a request out of a receive
  buffer (the tokenizer \<open>httparse\<close> is a parameter), \<open>response.rs\<close> and \<open>streaming.rs\<close> print
  responses, \<open>sse.rs\<close> splits an event stream, and \<open>server.rs\<close> ties them to the handler: one request
  to one response, and one connection from its first byte to its last. The output of a connection is
  the byte string written to it; access logging is left out.
\<close>

subsection \<open>Requests\<close>

record http_request =
  hr_method :: string
  hr_path :: string
  hr_headers :: "string \<rightharpoonup> string"
  hr_body :: bytes

datatype parse_error = Incomplete | BodyTooLarge | Invalid string

text \<open>What \<open>httparse\<close> reports of a complete head: its length, the request line and the headers.\<close>

record http_head =
  hh_len :: nat
  hh_method :: "string option"
  hh_path :: "string option"
  hh_headers :: "(string \<times> bytes) list"

type_synonym httparse = "bytes \<Rightarrow> string + http_head option"

definition parse_content_length :: "nat \<Rightarrow> nat option \<Rightarrow> string \<Rightarrow> parse_error + nat" where
  "parse_content_length max_body seen val =
     (if seen \<noteq> None then Inl (Invalid ''duplicate Content-Length'')
      else let v = trim val
           in if v = [] \<or> \<not> list_all is_ascii_digit v then Inl (Invalid ''invalid Content-Length'')
              else (case parse_usize 10 v of
                      None \<Rightarrow> Inl (Invalid ''invalid Content-Length'')
                    | Some n \<Rightarrow> if max_body < n then Inl BodyTooLarge else Inr n))"

fun scan_headers ::
    "nat \<Rightarrow> (string \<times> bytes) list \<Rightarrow> nat option \<Rightarrow> (string \<rightharpoonup> string)
       \<Rightarrow> parse_error + nat option \<times> (string \<rightharpoonup> string)" where
  "scan_headers max_body [] content_length hmap = Inr (content_length, hmap)"
| "scan_headers max_body ((raw_name, raw_value) # hs) content_length hmap =
     (let name = to_ascii_lowercase raw_name
      in (case from_utf8 raw_value of
            None \<Rightarrow> Inl (Invalid (''header utf8: '' @ utf8_error raw_value))
          | Some val \<Rightarrow>
              if name = ''transfer-encoding'' then Inl (Invalid ''Transfer-Encoding is not supported'')
              else if name = ''content-length'' then
                bindE (parse_content_length max_body content_length val) (\<lambda>n.
                scan_headers max_body hs (Some n) (hmap(name \<mapsto> val)))
              else scan_headers max_body hs content_length (hmap(name \<mapsto> val))))"

definition parse_request :: "httparse \<Rightarrow> bytes \<Rightarrow> nat \<Rightarrow> parse_error + http_request option" where
  "parse_request parse buffer max_body =
     (case parse buffer of
        Inl e \<Rightarrow> Inl (Invalid e)
      | Inr None \<Rightarrow> Inr None
      | Inr (Some head) \<Rightarrow>
          bindE (ok_or (Invalid ''missing method'') (hh_method head)) (\<lambda>method.
          bindE (ok_or (Invalid ''missing path'') (hh_path head)) (\<lambda>path.
          bindE (scan_headers max_body (hh_headers head) None Map.empty)
            (\<lambda>(declared, hmap).
          let content_length = (case declared of Some n \<Rightarrow> n | None \<Rightarrow> 0);
              body_start = hh_len head;
              needed = body_start + content_length
          in if u64_max < needed then Inl (Invalid ''request length overflow'')
             else if length buffer < needed then Inr None
             else Inr (Some \<lparr>hr_method = method, hr_path = path, hr_headers = hmap,
                             hr_body = take content_length (drop body_start buffer)\<rparr>)))))"

subsection \<open>Responses\<close>

definition crlf :: string where
  "crlf = [CHR 0x0D, CHR 0x0A]"

definition CHALLENGE_CORS :: string where
  "CHALLENGE_CORS =
     ''Access-Control-Allow-Origin: *'' @ crlf @
     ''Access-Control-Allow-Methods: POST, OPTIONS'' @ crlf @
     ''Access-Control-Allow-Headers: content-type'' @ crlf @
     ''Access-Control-Max-Age: 86400'' @ crlf"

definition is_attestation_challenge_path :: "string \<Rightarrow> bool" where
  "is_attestation_challenge_path path \<longleftrightarrow>
     hd (split_on (\<lambda>c. c = CHR ''?'') path) = ''/v1/attestation/challenge''"

definition build_challenge_cors_preflight :: bytes where
  "build_challenge_cors_preflight =
     as_bytes (''HTTP/1.1 204 No Content'' @ crlf @ CHALLENGE_CORS @ ''Content-Length: 0'' @ crlf @
               ''Connection: close'' @ crlf @ crlf)"

definition with_challenge_cors :: "bytes \<Rightarrow> bytes" where
  "with_challenge_cors response =
     (case find_sub (CRLF @ CRLF) response of
        None \<Rightarrow> response
      | Some i \<Rightarrow> take (i + 2) response @ as_bytes CHALLENGE_CORS @ drop (i + 2) response)"

definition build_json_response :: "nat \<Rightarrow> bytes \<Rightarrow> bytes" where
  "build_json_response status body =
     as_bytes (''HTTP/1.1 '' @ show_nat status @ '' OK'' @ crlf @
               ''Content-Type: application/json'' @ crlf @
               ''Content-Length: '' @ show_nat (length body) @ crlf @
               ''Connection: close'' @ crlf @ crlf) @ body"

definition build_sse_buffered_response :: "bytes \<Rightarrow> bytes" where
  "build_sse_buffered_response body =
     as_bytes (''HTTP/1.1 200 OK'' @ crlf @ ''Content-Type: text/event-stream'' @ crlf @
               ''Cache-Control: no-cache'' @ crlf @
               ''Content-Length: '' @ show_nat (length body) @ crlf @
               ''Connection: close'' @ crlf @ crlf) @ body"

definition reason_phrase :: "nat \<Rightarrow> string" where
  "reason_phrase status =
     (if status = 400 then ''Bad Request''
      else if status = 401 then ''Unauthorized''
      else if status = 403 then ''Forbidden''
      else if status = 404 then ''Not Found''
      else if status = 405 then ''Method Not Allowed''
      else if status = 413 then ''Payload Too Large''
      else if status = 429 then ''Too Many Requests''
      else if status = 502 then ''Bad Gateway''
      else if status = 503 then ''Service Unavailable''
      else ''Internal Server Error'')"

text \<open>\<open>serde_json::to_vec(..).unwrap_or_default()\<close>\<close>

definition to_vec_or_default :: "'x ext_scheme \<Rightarrow> json \<Rightarrow> bytes" where
  "to_vec_or_default X j = (case json_to_vec X j of Inl _ \<Rightarrow> [] | Inr b \<Rightarrow> b)"

definition build_error_response :: "'x ext_scheme \<Rightarrow> api_error \<Rightarrow> bytes" where
  "build_error_response X err =
     (let status = status_code err;
          body = to_vec_or_default X (error_body_json (into_body err))
      in as_bytes (''HTTP/1.1 '' @ show_nat status @ '' '' @ reason_phrase status @ crlf @
                   ''Content-Type: application/json'' @ crlf @
                   ''Content-Length: '' @ show_nat (length body) @ crlf @
                   (case retry_after_secs err of
                      None \<Rightarrow> [] | Some secs \<Rightarrow> ''Retry-After: '' @ show_nat secs @ crlf) @
                   ''Connection: close'' @ crlf @ crlf) @ body)"

definition response_bytes_lack_client_metering :: "string \<Rightarrow> bool" where
  "response_bytes_lack_client_metering text \<longleftrightarrow>
     \<not> contains text ''teechat_usage'' \<and> \<not> contains text ''X-TeeChat-Usage-Report:''"

subsection \<open>Streaming\<close>

definition write_sse_stream_headers :: "'w writer \<Rightarrow> ('w, api_error, unit) op" where
  "write_sse_stream_headers wr w =
     (case wr (as_bytes (''HTTP/1.1 200 OK'' @ crlf @ ''Content-Type: text/event-stream'' @ crlf @
                         ''Cache-Control: no-cache, no-transform'' @ crlf @
                         ''X-Accel-Buffering: no'' @ crlf @ ''Transfer-Encoding: chunked'' @ crlf @
                         ''Connection: close'' @ crlf @ crlf)) w of
        (r, w1) \<Rightarrow> (map_err Internal r, w1))"

definition write_internal :: "'w writer \<Rightarrow> bytes \<Rightarrow> ('w, api_error, unit) op" where
  "write_internal wr b w = (case wr b w of (r, w1) \<Rightarrow> (map_err Internal r, w1))"

definition write_chunk :: "'w writer \<Rightarrow> bytes \<Rightarrow> ('w, api_error, unit) op" where
  "write_chunk wr data =
     (if data = [] then returnS ()
      else bindS (write_internal wr (as_bytes (show_hex (length data) @ crlf))) (\<lambda>_.
           bindS (write_internal wr data) (\<lambda>_.
           write_internal wr CRLF)))"

definition write_sse_stream_end :: "'w writer \<Rightarrow> ('w, api_error, unit) op" where
  "write_sse_stream_end wr = write_internal wr (as_bytes ''0'' @ CRLF @ CRLF)"

text \<open>\<open>ChunkedWriter\<close> turns every \<open>write_all\<close> into one chunk.\<close>

definition chunked_writer :: "'w writer \<Rightarrow> 'w writer" where
  "chunked_writer wr buf w = (case write_chunk wr buf w of (r, w1) \<Rightarrow> (map_err error_to_string r, w1))"

fun write_pieces :: "'w writer \<Rightarrow> bytes list \<Rightarrow> ('w, string, unit) op" where
  "write_pieces wr [] = returnS ()"
| "write_pieces wr (p # ps) = bindS (wr p) (\<lambda>_. write_pieces wr ps)"

subsection \<open>Event streams\<close>

text \<open>\<open>str::split\<close> on a string, with the piece read so far.\<close>

fun split_str :: "string \<Rightarrow> string \<Rightarrow> string \<Rightarrow> string list" where
  "split_str sep piece [] = [piece]"
| "split_str sep piece (c # cs) =
     (if sep \<noteq> [] \<and> prefix sep (c # cs) then piece # split_str sep [] (drop (length sep - 1) cs)
      else split_str sep (piece @ [c]) cs)"

text \<open>\<open>trim_start_matches\<close> drops the prefix as often as it occurs.\<close>

function trim_start_matches :: "string \<Rightarrow> string \<Rightarrow> string" where
  "trim_start_matches pat s =
     (if pat \<noteq> [] \<and> prefix pat s then trim_start_matches pat (drop (length pat) s) else s)"
  by pat_completeness auto
termination
  by (relation "measure (\<lambda>(pat, s). length s)") (auto simp: prefix_def)

declare trim_start_matches.simps [simp del]

fun join_nl :: "string list \<Rightarrow> string" where
  "join_nl [] = []"
| "join_nl [l] = l"
| "join_nl (l # ls) = l @ CHR 0x0A # join_nl ls"

definition sse_block :: "string \<Rightarrow> string option" where
  "sse_block block =
     (let data_ls = map (\<lambda>l. trim (trim_start_matches ''data:'' l))
                      (filter (\<lambda>l. starts_with l ''data:'') (str_lines block))
      in if data_ls = [] then None else Some (join_nl data_ls))"

definition parse_sse_chunks :: "bytes \<Rightarrow> string list" where
  "parse_sse_chunks input =
     List.map_filter sse_block (split_str [CHR 0x0A, CHR 0x0A] [] (from_utf8_lossy input))"

subsection \<open>One request\<close>

datatype server_error = ServerIo string | ServerOther string

fun server_error_to_string :: "server_error \<Rightarrow> string" where
  "server_error_to_string (ServerIo e) = ''io: '' @ e"
| "server_error_to_string (ServerOther e) = ''server: '' @ e"

text \<open>The streamed branch: the headers go out before the upstream is called; the forwarder then writes
  its pieces through the chunked writer, and only after it succeeded the last chunk follows. The call
  is logged like the handler's own calls.\<close>

definition stream_response ::
    "world \<Rightarrow> http_method \<Rightarrow> string \<Rightarrow> bytes \<Rightarrow> upstream_ctx \<Rightarrow> app \<Rightarrow> bytes
       \<Rightarrow> (server_error + unit) \<times> app \<times> bytes" where
  "stream_response W method path body ctx s out =
     (let out1 = snd (write_sse_stream_headers vec_write out);
          s1 = log_call (ForwardCall method path (Some body) ctx) s
      in (case execute_sse_passthrough_ctx W method path body ctx of
            (pieces, res) \<Rightarrow>
              let out2 = snd (write_pieces (chunked_writer vec_write) pieces out1)
              in (case res of
                    Inl e \<Rightarrow> (Inl (ServerOther (error_to_string e)), s1, out2)
                  | Inr _ \<Rightarrow> (Inr (), s1, snd (write_sse_stream_end vec_write out2)))))"

definition dispatch_to_writer ::
    "'x body_ext_scheme \<Rightarrow> world \<Rightarrow> string \<Rightarrow> string \<Rightarrow> string option \<Rightarrow> bytes \<Rightarrow> nat
       \<Rightarrow> string option \<Rightarrow> string option \<Rightarrow> app \<Rightarrow> bytes \<Rightarrow> (server_error + unit) \<times> app \<times> bytes" where
  "dispatch_to_writer X W method path authorization body now_ms client_ip header s out =
     (if eq_ignore_ascii_case method ''OPTIONS'' \<and> is_attestation_challenge_path path
      then (Inr (), s, out @ build_challenge_cors_preflight)
      else let maybe_cors = (\<lambda>b. if is_attestation_challenge_path path
                                 then with_challenge_cors b else b)
           in (case handle_from_ex X W (http_method_parse method) path authorization body now_ms
                      client_ip header s of
                 (Inr (AppJson j), s1) \<Rightarrow>
                   (Inr (), s1, out @ maybe_cors (build_json_response 200 (to_vec_or_default X j)))
               | (Inr (AppSseBuffered b), s1) \<Rightarrow> (Inr (), s1, out @ build_sse_buffered_response b)
               | (Inr (AppSsePassthrough m p b key_id key_set), s1) \<Rightarrow>
                   stream_response W m p b (ctx_from_auth key_id key_set) s1 out
               | (Inl e, s1) \<Rightarrow> (Inr (), s1, out @ maybe_cors (build_error_response X e))))"

definition dispatch_request_from ::
    "'x body_ext_scheme \<Rightarrow> world \<Rightarrow> string \<Rightarrow> string \<Rightarrow> string option \<Rightarrow> bytes \<Rightarrow> nat
       \<Rightarrow> string option \<Rightarrow> string option \<Rightarrow> app \<Rightarrow> bytes \<times> app" where
  "dispatch_request_from X W method path authorization body now_ms client_ip header s =
     (case dispatch_to_writer X W method path authorization body now_ms client_ip header s [] of
        (Inl e, s1, _) \<Rightarrow> (build_error_response X (Internal (server_error_to_string e)), s1)
      | (Inr _, s1, buf) \<Rightarrow> (buf, s1))"

definition dispatch_request ::
    "'x body_ext_scheme \<Rightarrow> world \<Rightarrow> string \<Rightarrow> string \<Rightarrow> string option \<Rightarrow> bytes \<Rightarrow> nat \<Rightarrow> app
       \<Rightarrow> bytes \<times> app" where
  "dispatch_request X W method path authorization body now_ms s =
     dispatch_request_from X W method path authorization body now_ms None None s"

subsection \<open>One connection\<close>

definition idle_secs :: "environ \<Rightarrow> nat" where
  "idle_secs env =
     (case Option.bind (env ''OPENAPI_CONN_IDLE_SECS'') parse_u64 of
        Some n \<Rightarrow> if 0 < n then n else 3 | None \<Rightarrow> 3)"

definition recv_cap :: "nat \<Rightarrow> nat" where
  "recv_cap max_body = max (min u64_max (max_body + 64 * 1024)) (256 * 1024)"

text \<open>The receive loop. A read that times out after \<open>idle_secs\<close> is an error the reader delivers.\<close>

function recv_loop ::
    "'x body_ext_scheme \<Rightarrow> world \<Rightarrow> httparse \<Rightarrow> nat \<Rightarrow> string option \<Rightarrow> nat \<Rightarrow> bytes \<Rightarrow> reader \<Rightarrow> app
       \<Rightarrow> (server_error + unit) \<times> app \<times> bytes" where
  "recv_loop X W parse now_ms client_ip cap buffer r s =
     (case read_some (cap - length buffer) r of
        (Inl e, r1) \<Rightarrow> (Inl (ServerIo e), s, [])
      | (Inr b, r1) \<Rightarrow>
          if b = [] then (Inr (), s, [])
          else let buffer1 = buffer @ b
               in (case parse_request parse buffer1 (cfg_max_body_bytes (app_config s)) of
                     Inr (Some req) \<Rightarrow>
                       dispatch_to_writer X W (hr_method req) (hr_path req)
                         (hr_headers req ''authorization'') (hr_body req) now_ms client_ip
                         (hr_headers req ''x-teechat-challenge-bench'') s []
                   | Inr None \<Rightarrow>
                       if cap \<le> length buffer1
                       then (Inr (), s, build_error_response X PayloadTooLarge)
                       else recv_loop X W parse now_ms client_ip cap buffer1 r1 s
                   | Inl BodyTooLarge \<Rightarrow> (Inr (), s, build_error_response X PayloadTooLarge)
                   | Inl _ \<Rightarrow>
                       (Inr (), s, build_error_response X (BadRequest ''malformed request''))))"
  by pat_completeness auto
termination
  by (relation "measure (\<lambda>(X, W, parse, now_ms, client_ip, cap, buffer, r, s). reader_size r)")
    (auto dest!: read_some_size [OF sym])

declare recv_loop.simps [simp del]

text \<open>The permit of the connection is held to the end of the function and dropped on every path.\<close>

definition handle_connection ::
    "'x body_ext_scheme \<Rightarrow> world \<Rightarrow> httparse \<Rightarrow> nat \<Rightarrow> string option \<Rightarrow> reader \<Rightarrow> app
       \<Rightarrow> (server_error + unit) \<times> app \<times> bytes" where
  "handle_connection X W parse now_ms client_ip r s =
     (case try_acquire_ip_conn client_ip s of
        (Inl e, s1) \<Rightarrow> (Inr (), s1, build_error_response X e)
      | (Inr permit, s1) \<Rightarrow>
          (case recv_loop X W parse now_ms client_ip (recv_cap (cfg_max_body_bytes (app_config s1))) []
                  r s1 of
             (res, s2, out) \<Rightarrow>
               (res, app_ip_conn_tracker_update (conn_drop permit) s2, out)))"

end
