(* ===== verification/Http_Conn.thy ===== *)
theory Http_Conn
  imports Http_Wire
begin

text \<open>
  One connection of \<open>crates/openapi-http/src/server.rs\<close>: what a parsed request may contain, that the
  answer does not depend on how the network cuts the request, and that a connection returns its
  permits.
\<close>

subsection \<open>What a parsed request contains\<close>

definition named :: "string \<Rightarrow> (string \<times> bytes) list \<Rightarrow> (string \<times> bytes) list" where
  "named n hs = filter (\<lambda>h. to_ascii_lowercase (fst h) = n) hs"

lemma named_simps:
  "named n [] = []" "named n (h # hs) = (if to_ascii_lowercase (fst h) = n then h # named n hs else named n hs)"
  by (simp_all add: named_def)

lemma parse_content_length_ok:
  "parse_content_length max_body seen v = Inr n \<Longrightarrow>
     seen = None \<and> parse_usize 10 (trim v) = Some n \<and> n \<le> max_body"
  by (auto simp: parse_content_length_def Let_def split: if_splits option.splits)

lemma scan_headers_ok:
  assumes "scan_headers max_body hs cl hmap = Inr (cl', hmap')"
  shows "named ''transfer-encoding'' hs = [] \<and>
    (case named ''content-length'' hs of
       [] \<Rightarrow> cl' = cl
     | [h] \<Rightarrow> cl = None \<and> (\<exists>v n. from_utf8 (snd h) = Some v \<and> parse_usize 10 (trim v) = Some n \<and>
               n \<le> max_body \<and> cl' = Some n)
     | _ \<Rightarrow> False)"
  using assms
proof (induction hs arbitrary: cl hmap)
  case Nil
  then show ?case by (simp add: named_simps)
next
  case (Cons h hs)
  obtain raw_name raw_value where h: "h = (raw_name, raw_value)" by (cases h)
  let ?name = "to_ascii_lowercase raw_name"
  from Cons.prems h obtain v where v: "from_utf8 raw_value = Some v" "?name \<noteq> ''transfer-encoding''"
    by (auto simp: Let_def split: option.splits if_splits)
  show ?case
  proof (cases "?name = ''content-length''")
    case True
    with Cons.prems h v obtain n where n: "parse_content_length max_body cl v = Inr n"
      "scan_headers max_body hs (Some n) (hmap(?name \<mapsto> v)) = Inr (cl', hmap')"
      by (auto simp: Let_def result_simps)
    from Cons.IH [OF n(2)] parse_content_length_ok [OF n(1)] h v True show ?thesis
      by (auto simp: named_simps split: list.splits)
  next
    case False
    with Cons.prems h v have "scan_headers max_body hs cl (hmap(?name \<mapsto> v)) = Inr (cl', hmap')"
      by (auto simp: Let_def)
    from Cons.IH [OF this] h v False show ?thesis by (simp add: named_simps)
  qed
qed

lemma parse_request_ok:
  assumes "parse_request parse buf max_body = Inr (Some req)"
  obtains head cl where "parse buf = Inr (Some head)" "hh_method head = Some (hr_method req)"
    "hh_path head = Some (hr_path req)"
    "scan_headers max_body (hh_headers head) None Map.empty = Inr (cl, hr_headers req)"
    "hh_len head + (case cl of None \<Rightarrow> 0 | Some n \<Rightarrow> n) \<le> length buf"
    "hr_body req = take (case cl of None \<Rightarrow> 0 | Some n \<Rightarrow> n) (drop (hh_len head) buf)"
proof -
  from assms obtain head where head: "parse buf = Inr (Some head)"
    by (auto simp: parse_request_def split: sum.splits option.splits)
  with assms obtain cl hmap where scan:
    "scan_headers max_body (hh_headers head) None Map.empty = Inr (cl, hmap)"
    "hh_method head \<noteq> None" "hh_path head \<noteq> None"
    by (auto simp: parse_request_def result_simps)
  define n where "n = (case cl of None \<Rightarrow> 0 | Some n \<Rightarrow> n)"
  from assms scan head have "hh_len head + n \<le> length buf"
    "hr_method req = the (hh_method head)" "hr_path req = the (hh_path head)" "hr_headers req = hmap"
    "hr_body req = take n (drop (hh_len head) buf)"
    by (auto simp: parse_request_def Let_def n_def [symmetric] split: if_splits)
  with head scan that n_def show thesis by auto
qed

text \<open>No request smuggling: when a request is parsed out of the buffer, none of its headers is a
  transfer encoding, at most one is a content length, and its body is exactly the bytes that follow
  the head, as many as that header declares (none without one) and no more than the limit.\<close>

theorem request_body_is_delimited:
  assumes "parse_request parse buf max_body = Inr (Some req)"
  shows "\<exists>head. parse buf = Inr (Some head) \<and> hh_method head = Some (hr_method req) \<and>
    hh_path head = Some (hr_path req) \<and> named ''transfer-encoding'' (hh_headers head) = [] \<and>
    length (hr_body req) \<le> max_body \<and> hh_len head + length (hr_body req) \<le> length buf \<and>
    hr_body req = take (length (hr_body req)) (drop (hh_len head) buf) \<and>
    (case named ''content-length'' (hh_headers head) of
       [] \<Rightarrow> hr_body req = []
     | [h] \<Rightarrow> \<exists>v. from_utf8 (snd h) = Some v \<and> parse_usize 10 (trim v) = Some (length (hr_body req))
     | _ \<Rightarrow> False)"
proof -
  from assms obtain head cl where h: "parse buf = Inr (Some head)" "hh_method head = Some (hr_method req)"
    "hh_path head = Some (hr_path req)"
    "scan_headers max_body (hh_headers head) None Map.empty = Inr (cl, hr_headers req)"
    "hh_len head + (case cl of None \<Rightarrow> 0 | Some n \<Rightarrow> n) \<le> length buf"
    "hr_body req = take (case cl of None \<Rightarrow> 0 | Some n \<Rightarrow> n) (drop (hh_len head) buf)"
    by (rule parse_request_ok)
  from h(5,6) have len: "length (hr_body req) = (case cl of None \<Rightarrow> 0 | Some n \<Rightarrow> n)" by simp
  from scan_headers_ok [OF h(4)] len have scan: "named ''transfer-encoding'' (hh_headers head) = []"
    "case named ''content-length'' (hh_headers head) of
       [] \<Rightarrow> hr_body req = []
     | [h] \<Rightarrow> \<exists>v. from_utf8 (snd h) = Some v \<and> parse_usize 10 (trim v) = Some (length (hr_body req))
     | _ \<Rightarrow> False" "length (hr_body req) \<le> max_body"
    by (auto split: list.splits)
  show ?thesis
    by (rule exI [of _ head]) (use h len scan in \<open>auto simp del: length_0_conv\<close>)
qed

text \<open>A tokenizer that takes any four bytes for the head of a request with one header.\<close>

definition sample_httparse :: httparse where
  "sample_httparse b =
     (if length b < 4 then Inr None
      else Inr (Some \<lparr>hh_len = 4, hh_method = Some ''GET'', hh_path = Some ''/healthz'',
                     hh_headers = [(''Content-Length'', [50])]\<rparr>))"

definition sample_request :: http_request where
  "sample_request = \<lparr>hr_method = ''GET'', hr_path = ''/healthz'',
     hr_headers = Map.empty(''content-length'' \<mapsto> ''2''), hr_body = [5, 6]\<rparr>"

lemma sample_request_parsed: "parse_request sample_httparse [1, 2, 3, 4, 5, 6, 7] 1024 = Inr (Some sample_request)"
proof -
  have c: "to_ascii_lowercase ''Content-Length'' = ''content-length''" "from_utf8 [50] = Some ''2''"
    "trim ''2'' = ''2''" "list_all is_ascii_digit ''2''" by code_simp+
  have "parse_usize 10 ''2'' = Some 2"
    by (simp add: parse_usize_def parse_uint_def digit_val_def is_ascii_digit_def code_def)
  with c show ?thesis
    by (simp add: parse_request_def sample_httparse_def parse_content_length_def sample_request_def Let_def)
qed

theorem request_body_is_delimited_witness:
  "\<exists>head. sample_httparse [1, 2, 3, 4, 5, 6, 7] = Inr (Some head) \<and> hh_method head = Some ''GET'' \<and>
    hh_path head = Some ''/healthz'' \<and> named ''transfer-encoding'' (hh_headers head) = [] \<and>
    hh_len head = 4"
  using request_body_is_delimited [OF sample_request_parsed]
  by (auto simp: sample_request_def sample_httparse_def)

subsection \<open>Segmentation\<close>

text \<open>What the loop relies on in the tokenizer: nothing is decided on no bytes, and what was decided
  on some bytes is not changed by more.\<close>

definition incremental :: "httparse \<Rightarrow> bool" where
  "incremental parse \<longleftrightarrow> parse [] = Inr None \<and> (\<forall>b c. parse b \<noteq> Inr None \<longrightarrow> parse (b @ c) = parse b)"

lemma parse_request_incremental:
  assumes "incremental parse" "parse_request parse b max_body \<noteq> Inr None"
  shows "parse_request parse (b @ c) max_body = parse_request parse b max_body"
proof -
  have ne: "parse b \<noteq> Inr None" using assms(2) by (auto simp: parse_request_def)
  with assms(1) have same: "parse (b @ c) = parse b" by (simp add: incremental_def)
  show ?thesis
  proof (cases "parse b")
    case (Inl e)
    with same show ?thesis by (simp add: parse_request_def)
  next
    case (Inr ho)
    with ne obtain head where head: "parse b = Inr (Some head)" by (cases ho) auto
    show ?thesis
    proof (cases "\<exists>cl hmap. scan_headers max_body (hh_headers head) None Map.empty = Inr (cl, hmap)")
      case True
      then obtain cl hmap where scan: "scan_headers max_body (hh_headers head) None Map.empty = Inr (cl, hmap)"
        by blast
      define n where "n = (case cl of None \<Rightarrow> 0 | Some n \<Rightarrow> n)"
      from assms(2) head scan show ?thesis
        by (auto simp: parse_request_def same Let_def bindE_def n_def [symmetric] split: sum.splits if_splits)
    next
      case False
      with head same show ?thesis
        by (auto simp: parse_request_def bindE_def split: sum.split)
    qed
  qed
qed

text \<open>The answer to a byte string that arrives in any number of pieces.\<close>

definition answer ::
    "'x body_ext_scheme \<Rightarrow> world \<Rightarrow> httparse \<Rightarrow> nat \<Rightarrow> string option \<Rightarrow> nat \<Rightarrow> bytes \<Rightarrow> app
       \<Rightarrow> (server_error + unit) \<times> app \<times> bytes" where
  "answer X W parse now_ms client_ip cap bs s =
     (case parse_request parse (take cap bs) (cfg_max_body_bytes (app_config s)) of
        Inr (Some req) \<Rightarrow>
          dispatch_to_writer X W (hr_method req) (hr_path req) (hr_headers req ''authorization'')
            (hr_body req) now_ms client_ip (hr_headers req ''x-teechat-challenge-bench'') s []
      | Inr None \<Rightarrow>
          (Inr (), s, if cap \<le> length bs then build_error_response X PayloadTooLarge else [])
      | Inl BodyTooLarge \<Rightarrow> (Inr (), s, build_error_response X PayloadTooLarge)
      | Inl _ \<Rightarrow> (Inr (), s, build_error_response X (BadRequest ''malformed request'')))"

lemma recv_loop_answer:
  assumes "incremental parse" "clean r" "length buffer < cap"
    and "parse_request parse buffer (cfg_max_body_bytes (app_config s)) = Inr None"
  shows "recv_loop X W parse now_ms ip cap buffer r s = answer X W parse now_ms ip cap (buffer @ contents r) s"
  using assms
proof (induction "reader_size r" arbitrary: r buffer rule: less_induct)
  case less
  from less.prems(3) have "0 < cap - length buffer" by simp
  from read_some_clean [OF less.prems(2) this] obtain b r1 where
    b: "read_some (cap - length buffer) r = (Inr b, r1)" "clean r1" "contents r = b @ contents r1"
      "length b \<le> cap - length buffer" "b = [] \<longleftrightarrow> r = []" by blast
  let ?max = "cfg_max_body_bytes (app_config s)"
  show ?case
  proof (cases "b = []")
    case True
    with b less.prems show ?thesis
      by (subst recv_loop.simps) (simp add: answer_def)
  next
    case False
    let ?buf = "buffer @ b"
    have fits: "length ?buf \<le> cap" using b(4) less.prems(3) by simp
    have all: "buffer @ contents r = ?buf @ contents r1" using b(3) by simp
    have loop: "recv_loop X W parse now_ms ip cap buffer r s =
      (case parse_request parse ?buf ?max of
         Inr None \<Rightarrow> if cap \<le> length ?buf then (Inr (), s, build_error_response X PayloadTooLarge)
                     else recv_loop X W parse now_ms ip cap ?buf r1 s
       | _ \<Rightarrow> answer X W parse now_ms ip cap ?buf s)"
      using b(1) False fits
      by (subst recv_loop.simps) (simp add: answer_def Let_def split: sum.split option.split parse_error.split)
    show ?thesis
    proof (cases "parse_request parse ?buf ?max = Inr None")
      case pending: True
      show ?thesis
      proof (cases "cap \<le> length ?buf")
        case True
        with fits have "take cap (?buf @ contents r1) = ?buf" "cap \<le> length (?buf @ contents r1)" by auto
        with loop pending True all show ?thesis by (simp add: answer_def)
      next
        case more: False
        from read_some_size [OF b(1)] False have "reader_size r1 < reader_size r" by simp
        from less.hyps [OF this assms(1) b(2) _ pending] more
        have "recv_loop X W parse now_ms ip cap ?buf r1 s =
            answer X W parse now_ms ip cap (?buf @ contents r1) s" by simp
        with loop pending more all show ?thesis by simp
      qed
    next
      case decided: False
      have "parse_request parse (take cap (?buf @ contents r1)) ?max = parse_request parse ?buf ?max"
        using parse_request_incremental [OF assms(1) decided, of "take (cap - length ?buf) (contents r1)"] fits
        by simp
      with loop decided all fits show ?thesis
        by (auto simp: answer_def split: sum.split option.split)
    qed
  qed
qed

lemma handle_connection_answer:
  assumes "incremental parse" "clean r"
  shows "handle_connection X W parse now ip r s =
    (case try_acquire_ip_conn ip s of
       (Inl e, s1) \<Rightarrow> (Inr (), s1, build_error_response X e)
     | (Inr permit, s1) \<Rightarrow>
         (case answer X W parse now ip (recv_cap (cfg_max_body_bytes (app_config s1))) (contents r) s1 of
            (res, s2, out) \<Rightarrow> (res, app_ip_conn_tracker_update (conn_drop permit) s2, out)))"
proof -
  have "parse_request parse [] n = Inr None" for n
    using assms(1) by (simp add: incremental_def parse_request_def)
  moreover have "0 < recv_cap n" for n by (simp add: recv_cap_def)
  ultimately have "recv_loop X W parse now ip (recv_cap (cfg_max_body_bytes (app_config s1))) [] r s1 =
      answer X W parse now ip (recv_cap (cfg_max_body_bytes (app_config s1))) (contents r) s1" for s1
    using recv_loop_answer [OF assms, of "[]" _ s1 X W now ip] by simp
  then show ?thesis by (simp add: handle_connection_def split: prod.split sum.split)
qed

text \<open>C22. The network's pieces do not matter: with a tokenizer that decides on what it has read, two
  clients that send the same bytes, cut into any pieces, get the same answer and leave the edge in the
  same state.\<close>

theorem connection_ignores_segmentation:
  assumes "incremental parse" "clean r" "clean r'" "contents r = contents r'"
  shows "handle_connection X W parse now ip r s = handle_connection X W parse now ip r' s"
  using assms(4) by (simp only: handle_connection_answer [OF assms(1,2)] handle_connection_answer [OF assms(1,3)])

theorem connection_ignores_segmentation_witness:
  "handle_connection sample_body_crates sample_world sample_httparse 0 None [Inr [1, 2, 3], Inr [4, 5, 6]]
     sample_app =
   handle_connection sample_body_crates sample_world sample_httparse 0 None [Inr [1, 2, 3, 4, 5, 6]]
     sample_app"
  by (rule connection_ignores_segmentation) (simp_all add: incremental_def sample_httparse_def)

subsection \<open>Permits\<close>

lemma dispatch_keeps_permits:
  "fixed_parts (fst (snd (dispatch_to_writer X W m p h body now ip hdr s out))) = fixed_parts s"
proof -
  have "fixed_parts (log_call c t) = fixed_parts t" for c t by (simp add: fixed_parts_def log_call_def)
  then show ?thesis
    using request_keeps_permits [of X W "http_method_parse m" p h body now ip hdr s]
    by (auto simp: dispatch_to_writer_def stream_response_def Let_def
        split: prod.split sum.split app_response.split)
qed

lemma recv_loop_keeps_permits:
  "fixed_parts (fst (snd (recv_loop X W parse now ip cap buffer r s))) = fixed_parts s"
proof (induction X W parse now ip cap buffer r s rule: recv_loop.induct)
  case (1 X W parse now ip cap buffer r s)
  show ?case
    by (subst recv_loop.simps)
      (use 1 in \<open>auto simp: Let_def dispatch_keeps_permits split: prod.split sum.split option.split parse_error.split\<close>)
qed

lemma conn_restored:
  assumes "no_zero_counts t" "conn_try_acquire ip t = (Inr permit, t')"
  shows "conn_drop permit t' = t"
proof -
  have "n + 1 \<noteq> 0" if "n < conn_max t" for n
    using unat_Suc_less [OF that] by (metis nat.distinct(1) unat_0)
  with assms show ?thesis
    by (auto simp: conn_try_acquire_def conn_drop_def saturating_pred_def no_zero_counts_def Let_def not_le
        fun_upd_idem split: if_splits option.splits intro!: ip_conn_tracker.equality)
qed

lemma conn_refused:
  "conn_try_acquire ip t = (Inl e, t') \<Longrightarrow> t' = t"
  by (auto simp: conn_try_acquire_def Let_def fun_upd_idem split: if_splits option.splits
      intro!: ip_conn_tracker.equality)

text \<open>C34. A connection returns what it took: however a connection ends, refused, broken off, malformed or
  answered, the table of open connections and the number of attestation quotes in flight are
  afterwards what they were before, and configuration, limits and maintenance state are untouched.\<close>

theorem connection_returns_permits:
  assumes "no_zero_counts (app_ip_conn_tracker s)"
  shows "fixed_parts (fst (snd (handle_connection X W parse now ip r s))) = fixed_parts s"
proof -
  let ?ip = "case ip of None \<Rightarrow> ''unknown'' | Some ip \<Rightarrow> ip"
  obtain res t where t: "conn_try_acquire ?ip (app_ip_conn_tracker s) = (res, t)" by fastforce
  let ?s1 = "s\<lparr>app_ip_conn_tracker := t\<rparr>"
  from t have acq: "try_acquire_ip_conn ip s = (res, ?s1)"
    by (simp add: try_acquire_ip_conn_def on_part_def)
  show ?thesis
  proof (cases res)
    case (Inl e)
    with t acq conn_refused [of ?ip] show ?thesis
      by (auto simp: handle_connection_def fixed_parts_def)
  next
    case (Inr permit)
    obtain res2 s2 out where loop: "recv_loop X W parse now ip
        (recv_cap (cfg_max_body_bytes (app_config ?s1))) [] r ?s1 = (res2, s2, out)"
      by (metis prod_cases3)
    then have "fixed_parts s2 = fixed_parts ?s1"
      using recv_loop_keeps_permits [of X W parse now ip _ "[]" r ?s1] by (metis fst_conv snd_conv)
    moreover from t Inr assms have "conn_drop permit t = app_ip_conn_tracker s"
      using conn_restored by blast
    moreover have "handle_connection X W parse now ip r s =
        (res2, app_ip_conn_tracker_update (conn_drop permit) s2, out)"
      using acq Inr loop by (simp add: handle_connection_def)
    ultimately show ?thesis by (simp add: fixed_parts_def)
  qed
qed

theorem connection_returns_permits_witness:
  "fixed_parts (fst (snd (handle_connection sample_body_crates sample_world sample_httparse 0 (Some ''10.0.0.1'')
     [Inr [1, 2, 3, 4, 5, 6]] sample_app))) = fixed_parts sample_app"
  by (rule connection_returns_permits)
    (simp add: sample_app_def app_new_def limits_ip_conn_tracker_def ip_conn_tracker_new_def no_zero_counts_def)

end
