(* ===== verification/Edge_Server.thy ===== *)
theory Edge_Server
  imports Http_Conn "HOL-Library.Multiset"
begin

text \<open>
  \<open>crates/openapi-edge/src/lib.rs\<close>: the listener. A connection is served by a bounded pool of workers
  behind a bounded queue; what does not fit is answered with status 429 by a bounded number of
  short-lived threads, or closed. The TLS acceptor is a parameter: it turns the socket's byte stream
  into the decrypted one or fails. The counter of the short-lived threads is an atomic integer, which
  is modelled at the level of its loads and compare-and-swaps; idle time-outs appear as read errors.
\<close>

subsection \<open>Environment\<close>

definition positive_env :: "environ \<Rightarrow> string \<Rightarrow> (string \<Rightarrow> nat option) \<Rightarrow> nat \<Rightarrow> nat" where
  "positive_env env name parse dflt =
     (case Option.bind (env name) parse of
        Some n \<Rightarrow> if 0 < n then n else dflt | None \<Rightarrow> dflt)"

definition accept_worker_count :: "bool \<Rightarrow> environ \<Rightarrow> nat" where
  "accept_worker_count sgx env =
     positive_env env ''OPENAPI_ACCEPT_WORKERS'' (parse_usize 10) (if sgx then 8 else 512)"

definition accept_queue_depth :: "environ \<Rightarrow> nat \<Rightarrow> nat" where
  "accept_queue_depth env workers =
     positive_env env ''OPENAPI_ACCEPT_QUEUE'' (parse_usize 10) (max (workers div 4) 2)"

definition conn_idle_timeout :: "environ \<Rightarrow> nat" where
  "conn_idle_timeout env = positive_env env ''OPENAPI_CONN_IDLE_SECS'' parse_u64 3"

definition shed_worker_slots :: "environ \<Rightarrow> nat" where
  "shed_worker_slots env = positive_env env ''OPENAPI_SHED_WORKERS'' parse_u32 8"

subsection \<open>One connection\<close>

type_synonym tls_acceptor = "reader \<Rightarrow> reader option"

definition write_429 :: "'x ext_scheme \<Rightarrow> bytes" where
  "write_429 X = build_error_response X RateLimited"

definition respond_429_and_close :: "'x ext_scheme \<Rightarrow> tls_acceptor option \<Rightarrow> reader \<Rightarrow> bytes" where
  "respond_429_and_close X tls stream =
     (case tls of
        Some accept_tls \<Rightarrow> (case accept_tls stream of Some _ \<Rightarrow> write_429 X | None \<Rightarrow> [])
      | None \<Rightarrow> write_429 X)"

definition request_recv_capacity :: "nat \<Rightarrow> nat" where
  "request_recv_capacity max_body = max (min u64_max (max_body + 64 * 1024)) (256 * 1024)"

function serve_loop ::
    "'x body_ext_scheme \<Rightarrow> world \<Rightarrow> httparse \<Rightarrow> nat \<Rightarrow> string option \<Rightarrow> nat \<Rightarrow> bytes \<Rightarrow> reader \<Rightarrow> app
       \<Rightarrow> app \<times> bytes" where
  "serve_loop X W parse now_ms client_ip cap buffer conn s =
     (case read_some (cap - length buffer) conn of
        (Inl e, conn1) \<Rightarrow> (s, [])
      | (Inr b, conn1) \<Rightarrow>
          if b = [] then (s, [])
          else let buffer1 = buffer @ b
               in (case parse_request parse buffer1 (cfg_max_body_bytes (app_config s)) of
                     Inr (Some req) \<Rightarrow>
                       (case dispatch_to_writer X W (hr_method req) (hr_path req)
                               (hr_headers req ''authorization'') (hr_body req) now_ms client_ip
                               (hr_headers req ''x-teechat-challenge-bench'') s [] of
                          (_, s1, out) \<Rightarrow> (s1, out))
                   | Inr None \<Rightarrow>
                       if cap \<le> length buffer1 then (s, build_error_response X PayloadTooLarge)
                       else serve_loop X W parse now_ms client_ip cap buffer1 conn1 s
                   | Inl BodyTooLarge \<Rightarrow> (s, build_error_response X PayloadTooLarge)
                   | Inl _ \<Rightarrow> (s, build_error_response X (BadRequest ''malformed request''))))"
  by pat_completeness auto
termination
  by (relation "measure (\<lambda>(X, W, parse, now_ms, client_ip, cap, buffer, conn, s). reader_size conn)")
    (auto dest!: read_some_size [OF sym])

declare serve_loop.simps [simp del]

definition serve_connection ::
    "'x body_ext_scheme \<Rightarrow> world \<Rightarrow> httparse \<Rightarrow> nat \<Rightarrow> string option \<Rightarrow> reader \<Rightarrow> app \<Rightarrow> app \<times> bytes" where
  "serve_connection X W parse now_ms client_ip conn s =
     serve_loop X W parse now_ms client_ip
       (request_recv_capacity (cfg_max_body_bytes (app_config s))) [] conn s"

definition handle_stream ::
    "'x body_ext_scheme \<Rightarrow> world \<Rightarrow> httparse \<Rightarrow> nat \<Rightarrow> tls_acceptor option \<Rightarrow> string option \<Rightarrow> reader
       \<Rightarrow> app \<Rightarrow> app \<times> bytes" where
  "handle_stream X W parse now_ms tls client_ip stream s =
     (case tls of
        Some accept_tls \<Rightarrow>
          (case try_acquire_ip_conn client_ip s of
             (Inl _, s1) \<Rightarrow> (s1, respond_429_and_close X tls stream)
           | (Inr permit, s1) \<Rightarrow>
               (case (case accept_tls stream of
                        Some conn \<Rightarrow> serve_connection X W parse now_ms client_ip conn s1
                      | None \<Rightarrow> (s1, [])) of
                  (s2, out) \<Rightarrow> (app_ip_conn_tracker_update (conn_drop permit) s2, out)))
      | None \<Rightarrow>
          (case handle_connection X W parse now_ms client_ip stream s of (_, s1, out) \<Rightarrow> (s1, out)))"

lemma serve_loop_is_recv_loop:
  "serve_loop X W parse now ip cap buffer r s =
     (case recv_loop X W parse now ip cap buffer r s of (_, s1, out) \<Rightarrow> (s1, out))"
proof (induction X W parse now ip cap buffer r s rule: recv_loop.induct)
  case (1 X W parse now ip cap buffer r s)
  show ?case
    by (subst serve_loop.simps, subst recv_loop.simps)
      (use 1 in \<open>auto simp: Let_def split: prod.split sum.split option.split parse_error.split\<close>)
qed

text \<open>Encryption changes nothing but the wire: a connection that passes the TLS handshake gets byte
  for byte the answer, and leaves the edge in the state, that the plain listener would have given to
  the decrypted stream, refusals for too many connections included.\<close>

theorem tls_and_plain_agree:
  assumes "accept_tls stream = Some conn"
  shows "handle_stream X W parse now (Some accept_tls) ip stream s = handle_stream X W parse now None ip conn s"
proof -
  obtain res s1 where acq: "try_acquire_ip_conn ip s = (res, s1)" by fastforce
  show ?thesis
  proof (cases res)
    case (Inl e)
    with acq have "e = RateLimited"
      by (auto simp: try_acquire_ip_conn_def on_part_def conn_try_acquire_def Let_def
          split: prod.splits if_splits)
    with Inl acq assms show ?thesis
      by (simp add: handle_stream_def handle_connection_def respond_429_and_close_def write_429_def)
  next
    case (Inr permit)
    with acq assms show ?thesis
      by (simp add: handle_stream_def handle_connection_def serve_connection_def serve_loop_is_recv_loop
          request_recv_capacity_def recv_cap_def split: prod.split)
  qed
qed

theorem tls_and_plain_agree_witness:
  "handle_stream sample_body_crates sample_world sample_httparse 0 (Some (\<lambda>r. Some (tl r))) None
     [Inr [22, 3, 1], Inr [1, 2, 3, 4, 5, 6]] sample_app =
   handle_stream sample_body_crates sample_world sample_httparse 0 None None [Inr [1, 2, 3, 4, 5, 6]] sample_app"
  by (rule tls_and_plain_agree) simp

subsection \<open>The counter of the short-lived threads\<close>

text \<open>\<open>try_acquire_shed\<close> without interference: the new value of the counter, or none at the maximum.\<close>

definition try_acquire_shed :: "u32 \<Rightarrow> u32 \<Rightarrow> u32 option" where
  "try_acquire_shed counter max_shed = (if max_shed \<le> counter then None else Some (counter + 1))"

definition shed_drop :: "u32 \<Rightarrow> u32" where
  "shed_drop counter = counter - 1"

text \<open>The same with interference: every thread runs the loop of \<open>try_acquire_shed\<close> in its own atomic
  steps, a load, a refusal or a compare-and-swap that succeeds or sends it back to the load, and later
  drops its permit.\<close>

datatype shed_thread = ShedIdle | ShedLoaded u32 | ShedHolding

record shed_state =
  shed_counter :: u32
  shed_threads :: "nat \<Rightarrow> shed_thread"

definition shed_new :: shed_state where
  "shed_new = \<lparr>shed_counter = 0, shed_threads = \<lambda>_. ShedIdle\<rparr>"

inductive shed_step :: "u32 \<Rightarrow> shed_state \<Rightarrow> shed_state \<Rightarrow> bool" for max_shed where
  load: "shed_threads s i = ShedIdle \<Longrightarrow>
    shed_step max_shed s (s\<lparr>shed_threads := (shed_threads s)(i := ShedLoaded (shed_counter s))\<rparr>)"
| full: "shed_threads s i = ShedLoaded cur \<Longrightarrow> max_shed \<le> cur \<Longrightarrow>
    shed_step max_shed s (s\<lparr>shed_threads := (shed_threads s)(i := ShedIdle)\<rparr>)"
| swapped: "shed_threads s i = ShedLoaded cur \<Longrightarrow> \<not> max_shed \<le> cur \<Longrightarrow> shed_counter s = cur \<Longrightarrow>
    shed_step max_shed s (s\<lparr>shed_counter := cur + 1, shed_threads := (shed_threads s)(i := ShedHolding)\<rparr>)"
| raced: "shed_threads s i = ShedLoaded cur \<Longrightarrow> \<not> max_shed \<le> cur \<Longrightarrow> shed_counter s \<noteq> cur \<Longrightarrow>
    shed_step max_shed s (s\<lparr>shed_threads := (shed_threads s)(i := ShedIdle)\<rparr>)"
| dropped: "shed_threads s i = ShedHolding \<Longrightarrow>
    shed_step max_shed s (s\<lparr>shed_counter := shed_drop (shed_counter s),
                           shed_threads := (shed_threads s)(i := ShedIdle)\<rparr>)"

definition holders :: "shed_state \<Rightarrow> nat set" where
  "holders s = {i. shed_threads s i = ShedHolding}"

definition shed_ok :: "u32 \<Rightarrow> shed_state \<Rightarrow> bool" where
  "shed_ok max_shed s \<longleftrightarrow> finite (holders s) \<and> unat (shed_counter s) = card (holders s) \<and>
     card (holders s) \<le> unat max_shed"

lemma holders_upd:
  "holders (s\<lparr>shed_threads := (shed_threads s)(i := x)\<rparr>) =
     (if x = ShedHolding then insert i (holders s) else holders s - {i})"
  by (auto simp: holders_def)

lemma shed_step_ok:
  assumes "shed_step max_shed s t" "shed_ok max_shed s"
  shows "shed_ok max_shed t"
  using assms
proof cases
  case (load i)
  then have "holders t = holders s" by (auto simp: holders_def)
  with assms(2) load show ?thesis by (simp add: shed_ok_def)
next
  case (full i cur)
  then have "holders t = holders s" by (auto simp: holders_def)
  with assms(2) full show ?thesis by (simp add: shed_ok_def)
next
  case (raced i cur)
  then have "holders t = holders s" by (auto simp: holders_def)
  with assms(2) raced show ?thesis by (simp add: shed_ok_def)
next
  case (swapped i cur)
  then have h: "holders t = insert i (holders s)" "i \<notin> holders s" by (auto simp: holders_def)
  from swapped have "cur < max_shed" by simp
  from unat_Suc_less [OF this] this swapped h assms(2) show ?thesis
    by (simp add: shed_ok_def word_less_nat_alt)
next
  case (dropped i)
  then have h: "holders t = holders s - {i}" "i \<in> holders s" by (auto simp: holders_def)
  with assms(2) have "0 < card (holders s)" by (auto simp: shed_ok_def card_gt_0_iff)
  with assms(2) have "shed_counter s \<noteq> 0" by (auto simp: shed_ok_def)
  with dropped have "unat (shed_counter t) = unat (shed_counter s) - 1"
    by (simp add: shed_drop_def unat_minus_one)
  moreover have "finite (holders s)" "unat (shed_counter s) = card (holders s)"
    "card (holders s) \<le> unat max_shed"
    using assms(2) by (simp_all add: shed_ok_def)
  ultimately show ?thesis using h by (simp add: shed_ok_def)
qed

text \<open>The bound on 429 threads survives every race: with any number of threads interleaving their
  loads, compare-and-swaps and drops in any order, the atomic counter always equals the number of
  permits alive, never wraps, and never exceeds the configured maximum.\<close>

theorem shed_counter_is_exact:
  assumes "(shed_step max_shed)\<^sup>*\<^sup>* shed_new s"
  shows "finite (holders s) \<and> unat (shed_counter s) = card (holders s) \<and> card (holders s) \<le> unat max_shed"
proof -
  from assms have "shed_ok max_shed s"
  proof (induction rule: rtranclp_induct)
    case base
    show ?case by (simp add: shed_ok_def shed_new_def holders_def)
  next
    case (step s t)
    then show ?case by (blast intro: shed_step_ok)
  qed
  then show ?thesis by (simp add: shed_ok_def)
qed

theorem shed_counter_is_exact_witness:
  "\<exists>s. (shed_step 1)\<^sup>*\<^sup>* shed_new s \<and> holders s = {7} \<and> unat (shed_counter s) = card (holders s)"
proof -
  let ?a = "shed_new\<lparr>shed_threads := (shed_threads shed_new)(7 := ShedLoaded (shed_counter shed_new))\<rparr>"
  let ?b = "?a\<lparr>shed_counter := 0 + 1, shed_threads := (shed_threads ?a)(7 := ShedHolding)\<rparr>"
  have "shed_step 1 shed_new ?a" by (rule load) (simp add: shed_new_def)
  moreover have "shed_step 1 ?a ?b" by (rule swapped) (simp_all add: shed_new_def)
  ultimately have run: "(shed_step 1)\<^sup>*\<^sup>* shed_new ?b" by (meson rtranclp.rtrancl_into_rtrancl rtranclp.rtrancl_refl)
  have "holders ?b = {7}" by (auto simp: holders_def shed_new_def)
  with run shed_counter_is_exact [OF run] show ?thesis by blast
qed

subsection \<open>The listener\<close>

text \<open>Where the accepted connections are: waiting for a worker, being served, served, being answered
  429, answered, or closed without an answer.\<close>

record 'c pool =
  pool_queue :: "'c list"
  pool_serving :: "'c list"
  pool_served :: "'c list"
  pool_shed_inflight :: u32
  pool_shedding :: "'c list"
  pool_shed :: "'c list"
  pool_closed :: "'c list"

definition pool_new :: "'c pool" where
  "pool_new = \<lparr>pool_queue = [], pool_serving = [], pool_served = [], pool_shed_inflight = 0,
               pool_shedding = [], pool_shed = [], pool_closed = []\<rparr>"

text \<open>The loop that starts the workers stops at the first one that cannot be started.\<close>

definition live_workers :: "nat \<Rightarrow> (nat \<Rightarrow> bool) \<Rightarrow> nat" where
  "live_workers want spawns = length (takeWhile spawns [0..<want])"

definition spawn_shed_429 :: "u32 \<Rightarrow> bool \<Rightarrow> 'c \<Rightarrow> 'c pool \<Rightarrow> 'c pool" where
  "spawn_shed_429 shed_max spawned c p =
     (case try_acquire_shed (pool_shed_inflight p) shed_max of
        None \<Rightarrow> p\<lparr>pool_closed := c # pool_closed p\<rparr>
      | Some n \<Rightarrow>
          if spawned then p\<lparr>pool_shed_inflight := n, pool_shedding := c # pool_shedding p\<rparr>
          else p\<lparr>pool_shed_inflight := shed_drop n, pool_closed := c # pool_closed p\<rparr>)"

text \<open>One turn of the accept loop: with no worker at all the listener serves the connection itself.\<close>

definition accept_stream :: "nat \<Rightarrow> nat \<Rightarrow> u32 \<Rightarrow> bool \<Rightarrow> 'c \<Rightarrow> 'c pool \<Rightarrow> 'c pool" where
  "accept_stream live depth shed_max spawned c p =
     (if live = 0 then p\<lparr>pool_served := c # pool_served p\<rparr>
      else if length (pool_queue p) < depth then p\<lparr>pool_queue := pool_queue p @ [c]\<rparr>
      else spawn_shed_429 shed_max spawned c p)"

text \<open>A worker takes the oldest waiting connection; a handler that panics ends the connection like
  one that returns.\<close>

inductive pool_run :: "nat \<Rightarrow> nat \<Rightarrow> u32 \<Rightarrow> 'c list \<times> 'c pool \<Rightarrow> 'c list \<times> 'c pool \<Rightarrow> bool"
  for live depth shed_max where
  accept: "pool_run live depth shed_max (seen, p) (c # seen, accept_stream live depth shed_max spawned c p)"
| take_up: "pool_queue p = c # cs \<Longrightarrow> length (pool_serving p) < live \<Longrightarrow>
    pool_run live depth shed_max (seen, p) (seen, p\<lparr>pool_queue := cs, pool_serving := c # pool_serving p\<rparr>)"
| finish: "c \<in> set (pool_serving p) \<Longrightarrow>
    pool_run live depth shed_max (seen, p)
      (seen, p\<lparr>pool_serving := remove1 c (pool_serving p), pool_served := c # pool_served p\<rparr>)"
| replied: "c \<in> set (pool_shedding p) \<Longrightarrow>
    pool_run live depth shed_max (seen, p)
      (seen, p\<lparr>pool_shed_inflight := shed_drop (pool_shed_inflight p),
               pool_shedding := remove1 c (pool_shedding p), pool_shed := c # pool_shed p\<rparr>)"

definition pool_all :: "'c pool \<Rightarrow> 'c multiset" where
  "pool_all p = mset (pool_queue p) + mset (pool_serving p) + mset (pool_served p) +
     mset (pool_shedding p) + mset (pool_shed p) + mset (pool_closed p)"

definition pool_ok :: "nat \<Rightarrow> nat \<Rightarrow> u32 \<Rightarrow> 'c list \<times> 'c pool \<Rightarrow> bool" where
  "pool_ok live depth shed_max sp \<longleftrightarrow>
     length (pool_queue (snd sp)) \<le> depth \<and> length (pool_serving (snd sp)) \<le> live \<and>
     unat (pool_shed_inflight (snd sp)) = length (pool_shedding (snd sp)) \<and>
     length (pool_shedding (snd sp)) \<le> unat shed_max \<and> pool_all (snd sp) = mset (fst sp)"

lemma spawn_shed_ok:
  assumes "pool_ok live depth shed_max (seen, p)"
  shows "pool_ok live depth shed_max (c # seen, spawn_shed_429 shed_max spawned c p)"
proof (cases "shed_max \<le> pool_shed_inflight p")
  case True
  with assms show ?thesis
    by (simp add: spawn_shed_429_def try_acquire_shed_def pool_ok_def pool_all_def)
next
  case False
  then have less: "pool_shed_inflight p < shed_max" by simp
  from unat_Suc_less [OF less] less
  have "unat (pool_shed_inflight p + 1) = Suc (unat (pool_shed_inflight p))"
    "unat (pool_shed_inflight p) < unat shed_max"
    by (simp_all add: word_less_nat_alt)
  with False assms show ?thesis
    by (simp add: spawn_shed_429_def try_acquire_shed_def shed_drop_def pool_ok_def pool_all_def)
qed

lemma pool_run_ok:
  assumes "pool_run live depth shed_max (seen, p) (seen', p')" "pool_ok live depth shed_max (seen, p)"
  shows "pool_ok live depth shed_max (seen', p')"
  using assms(1)
proof cases
  case (accept c spawned)
  with assms(2) spawn_shed_ok [OF assms(2), of c spawned] show ?thesis
    by (auto simp: accept_stream_def pool_ok_def pool_all_def)
next
  case (take_up c cs)
  with assms(2) show ?thesis by (auto simp: pool_ok_def pool_all_def)
next
  case (finish c)
  have "pool_all p' = pool_all p"
    using finish by (simp add: pool_all_def insert_DiffM)
  moreover have "length (pool_serving p') \<le> length (pool_serving p)"
    using finish by (simp add: length_remove1)
  ultimately show ?thesis using finish assms(2) by (simp add: pool_ok_def)
next
  case (replied c)
  have "pool_all p' = pool_all p"
    using replied by (simp add: pool_all_def insert_DiffM)
  moreover have "length (pool_shedding p) \<noteq> 0" using replied by auto
  then have "pool_shed_inflight p \<noteq> 0" using assms(2) by (auto simp: pool_ok_def)
  then have "unat (shed_drop (pool_shed_inflight p)) = unat (pool_shed_inflight p) - 1"
    by (simp add: shed_drop_def unat_minus_one)
  moreover have "length (pool_shedding p') = length (pool_shedding p) - 1"
    using replied by (simp add: length_remove1)
  moreover have "length (pool_shedding p) - 1 \<le> unat shed_max"
    using assms(2) unfolding pool_ok_def snd_conv by linarith
  ultimately show ?thesis using replied assms(2) by (simp add: pool_ok_def)
qed

text \<open>C35. The listener is bounded and loses nothing: over any sequence of accepted, taken up, finished,
  shed and answered connections, at most the queue's depth are waiting, at most the live workers are
  busy, at most the configured number of 429 threads run, and every accepted connection is in exactly
  one place: waiting, being served, served, being or having been answered 429, or closed.\<close>

theorem listener_is_bounded:
  assumes "(pool_run live depth shed_max)\<^sup>*\<^sup>* ([], pool_new) (seen, p)"
  shows "length (pool_queue p) \<le> depth \<and> length (pool_serving p) \<le> live \<and>
    length (pool_shedding p) \<le> unat shed_max \<and>
    unat (pool_shed_inflight p) = length (pool_shedding p) \<and> pool_all p = mset seen"
proof -
  have "pool_ok live depth shed_max sp" if "(pool_run live depth shed_max)\<^sup>*\<^sup>* ([], pool_new) sp" for sp
    using that
  proof (induction rule: rtranclp_induct)
    case base
    show ?case by (simp add: pool_ok_def pool_new_def pool_all_def)
  next
    case (step sp tq)
    then show ?case using pool_run_ok by (metis prod.collapse)
  qed
  from this [OF assms] show ?thesis by (simp add: pool_ok_def)
qed

theorem listener_is_bounded_witness:
  "\<exists>p. (pool_run 1 1 1)\<^sup>*\<^sup>* ([], pool_new) ([3, 2, 1 :: nat], p) \<and> length (pool_shedding p) = 1 \<and>
     pool_all p = mset [3, 2, 1]"
proof -
  let ?p1 = "accept_stream 1 1 1 True (1 :: nat) pool_new"
  let ?p2 = "accept_stream 1 1 1 True 2 ?p1"
  let ?p3 = "accept_stream 1 1 1 False 3 ?p2"
  have "pool_run 1 1 1 ([], pool_new) ([1], ?p1)" "pool_run 1 1 1 ([1], ?p1) ([2, 1], ?p2)"
    "pool_run 1 1 1 ([2, 1], ?p2) ([3, 2, 1], ?p3)" by (rule accept)+
  then have run: "(pool_run 1 1 1)\<^sup>*\<^sup>* ([], pool_new) ([3, 2, 1], ?p3)"
    by (meson rtranclp.rtrancl_into_rtrancl rtranclp.rtrancl_refl)
  have "length (pool_shedding ?p3) = 1"
    by (simp add: accept_stream_def spawn_shed_429_def try_acquire_shed_def pool_new_def)
  with run listener_is_bounded [OF run] show ?thesis by blast
qed

end
