(* ===== verification/Sealed_Time.thy ===== *)
theory Sealed_Time
  imports Profile Maintenance
begin

text \<open>
  \<open>crates/openapi-platform/src/sealed_time.rs\<close>: the persisted high-water mark of the host clock.
  The state is the content of the floor file (\<open>None\<close> when there is none). The file system can
  fail: the faults of a call are an argument, and a failed write leaves behind what the fault says.
\<close>

datatype sealed_time_error =
    Rewind (host_ms: nat) (floor_ms: nat)
  | SealedIo string
  | Corrupt string

fun sealed_time_error_to_string :: "sealed_time_error \<Rightarrow> string" where
  "sealed_time_error_to_string (Rewind host floor) =
     ''host clock '' @ show_nat host @ '' is behind sealed floor '' @ show_nat floor @ '' (RB-49)''"
| "sealed_time_error_to_string (SealedIo e) = ''sealed time io: '' @ e"
| "sealed_time_error_to_string (Corrupt e) = ''corrupt sealed time floor: '' @ e"

record io_faults =
  read_fault :: "string option"
  mkdir_fault :: "string option"
  write_fault :: "(string \<times> string option) option"

definition no_faults :: io_faults where
  "no_faults = \<lparr>read_fault = None, mkdir_fault = None, write_fault = None\<rparr>"

definition sealed_time_enabled_from_env :: "environ \<Rightarrow> bool" where
  "sealed_time_enabled_from_env env =
     (case env ''OPENAPI_SEALED_TIME'' of
        None \<Rightarrow> False
      | Some v \<Rightarrow> to_ascii_lowercase (trim v) \<in> {''1'', ''true'', ''yes'', ''on''})"

definition DEFAULT_PROD_PATH :: string where
  "DEFAULT_PROD_PATH = ''/data/openapi-sealed-time.floor''"

text \<open>\<open>sgx\<close> is the build target, \<open>data_is_dir\<close> and \<open>temp_dir\<close> what the host answers.\<close>

definition sealed_time_path_from_env :: "environ \<Rightarrow> bool \<Rightarrow> bool \<Rightarrow> string \<Rightarrow> string" where
  "sealed_time_path_from_env env sgx data_is_dir temp_dir =
     (case trimmed_nonempty (env ''OPENAPI_SEALED_TIME_PATH'') of
        Some p \<Rightarrow> p
      | None \<Rightarrow>
          if sgx then DEFAULT_PROD_PATH
          else if data_is_dir then DEFAULT_PROD_PATH
          else temp_dir @ (if temp_dir = [] \<or> last temp_dir = CHR ''/'' then [] else ''/'') @
               ''openapi-sealed-time.floor'')"

record sealed_time_store =
  st_path :: string
  st_enforce :: bool

definition store_from_env :: "environ \<Rightarrow> bool \<Rightarrow> bool \<Rightarrow> string \<Rightarrow> sealed_time_store" where
  "store_from_env env sgx data_is_dir temp_dir =
     (let enforce = sealed_time_enabled_from_env env
      in if \<not> enforce then \<lparr>st_path = [], st_enforce = False\<rparr>
         else \<lparr>st_path = sealed_time_path_from_env env sgx data_is_dir temp_dir,
               st_enforce = True\<rparr>)"

definition read_floor_at ::
    "io_faults \<Rightarrow> string \<Rightarrow> string option \<Rightarrow> sealed_time_error + nat option" where
  "read_floor_at F path file =
     (case read_fault F of
        Some e \<Rightarrow> Inl (SealedIo (''read '' @ path @ '': '' @ e))
      | None \<Rightarrow>
          (case file of
             None \<Rightarrow> Inr None
           | Some s \<Rightarrow>
               (case parse_u64 (trim s) of
                  None \<Rightarrow> Inl (Corrupt (path @ '': '' @ trim s))
                | Some n \<Rightarrow> Inr (Some n))))"

text \<open>A path has a parent directory to create unless it is empty, a root, or a single name.\<close>

definition write_floor_at ::
    "io_faults \<Rightarrow> string \<Rightarrow> nat \<Rightarrow> (string option, sealed_time_error, unit) op" where
  "write_floor_at F path floor file =
     (if path_parent path \<noteq> [] \<and> path \<noteq> ''/'' \<and> mkdir_fault F \<noteq> None then
        (Inl (SealedIo (''mkdir '' @ path_parent path @ '': '' @ the (mkdir_fault F))), file)
      else (case write_fault F of
              Some (e, left) \<Rightarrow> (Inl (SealedIo (''write '' @ path @ '': '' @ e)), left)
            | None \<Rightarrow> (Inr (), Some (show_nat floor @ [CHR 0x0A]))))"

definition observe_at ::
    "io_faults \<Rightarrow> string \<Rightarrow> nat \<Rightarrow> (string option, sealed_time_error, nat) op" where
  "observe_at F path host_now_ms file =
     (case read_floor_at F path file of
        Inl e \<Rightarrow> (Inl e, file)
      | Inr None \<Rightarrow>
          bindS (write_floor_at F path host_now_ms) (\<lambda>_. returnS host_now_ms) file
      | Inr (Some floor) \<Rightarrow>
          if host_now_ms < floor then (Inl (Rewind host_now_ms floor), file)
          else if floor < host_now_ms then
            bindS (write_floor_at F path host_now_ms) (\<lambda>_. returnS host_now_ms) file
          else (Inr host_now_ms, file))"

definition observe ::
    "io_faults \<Rightarrow> sealed_time_store \<Rightarrow> nat \<Rightarrow> (string option, sealed_time_error, nat) op" where
  "observe F st host_now_ms file =
     (if \<not> st_enforce st then (Inr host_now_ms, file)
      else observe_at F (st_path st) host_now_ms file)"

definition floor_past_not_after :: "nat \<Rightarrow> nat \<Rightarrow> bool" where
  "floor_past_not_after floor not_after_ms \<longleftrightarrow> not_after_ms < floor"

definition saturating_add64 :: "nat \<Rightarrow> nat \<Rightarrow> nat" where
  "saturating_add64 a b = min (a + b) u64_max"

definition epoch_window_active :: "nat \<Rightarrow> nat \<Rightarrow> nat \<Rightarrow> nat \<Rightarrow> nat option \<Rightarrow> bool" where
  "epoch_window_active now_ms not_before_ms not_after_ms skew_ms sealed_floor_ms =
     (if not_after_ms < not_before_ms then False
      else if (case sealed_floor_ms of
                 None \<Rightarrow> False | Some floor \<Rightarrow> floor_past_not_after floor not_after_ms) then False
      else not_before_ms - skew_ms \<le> now_ms \<and> now_ms \<le> saturating_add64 not_after_ms skew_ms)"

subsection \<open>The floor only rises\<close>

lemma trim_newline:
  assumes "s \<noteq> []" "is_graphic (hd s)" "is_graphic (last s)"
  shows "trim (s @ [CHR 0x0A]) = s"
proof -
  have "ws_head (s @ [CHR 0x0A]) = 0" using assms by (intro ws_head_graphic) simp
  moreover have "ws_tail (s @ [CHR 0x0A]) = 1" by (simp add: ws_tail_def ascii_ws_def code_def)
  moreover have "ws_tail s = 0" using assms by (intro ws_tail_graphic)
  ultimately show ?thesis
    by (simp add: trim_def trim_start.simps [of "s @ [CHR 0x0A]"]
        trim_end.simps [of "s @ [CHR 0x0A]"] trim_end.simps [of s])
qed

lemma parse_written: "n \<le> u64_max \<Longrightarrow> parse_u64 (trim (show_nat n @ [CHR 0x0A])) = Some n"
proof -
  assume n: "n \<le> u64_max"
  have "list_all is_graphic (show_nat n)"
    using show_radix_alphanumeric [of 10 _ n] alphanumeric_graphic
    by (auto simp: show_nat_def list_all_iff)
  then have "trim (show_nat n @ [CHR 0x0A]) = show_nat n"
    by (intro trim_newline) (auto simp: list_all_iff)
  with n show ?thesis using parse_show_radix [of 10 n u64_max] by (simp add: parse_u64_def show_nat_def)
qed

definition floor_of :: "string option \<Rightarrow> nat option" where
  "floor_of file = Option.bind file (\<lambda>s. parse_u64 (trim s))"

lemma observe_at_ok:
  assumes "observe_at F path t file = (Inr v, file')" "write_fault F = None" "t \<le> u64_max"
  shows "v = t" "floor_of file' = Some t" "floor_of file = None \<or> the (floor_of file) \<le> t"
  using assms parse_written [of t]
  by (auto simp: observe_at_def read_floor_at_def write_floor_at_def floor_of_def bindS_def
      returnS_def split: option.splits sum.splits if_splits)

lemma observe_at_err:
  assumes "observe_at F path t file = (Inl e, file')" "write_fault F = None"
  shows "file' = file"
  using assms
  by (auto simp: observe_at_def read_floor_at_def write_floor_at_def bindS_def
      returnS_def split: option.splits sum.splits if_splits)

text \<open>The host times accepted in a run of observations.\<close>

fun accepted_times :: "string \<Rightarrow> (io_faults \<times> nat) list \<Rightarrow> string option \<Rightarrow> nat list" where
  "accepted_times path [] file = []"
| "accepted_times path ((F, t) # obs) file =
     (case observe F \<lparr>st_path = path, st_enforce = True\<rparr> t file of
        (Inl _, file') \<Rightarrow> accepted_times path obs file'
      | (Inr v, file') \<Rightarrow> v # accepted_times path obs file')"

lemma accepted_above_floor:
  assumes "\<forall>(F, t)\<in>set obs. write_fault F = None \<and> t \<le> u64_max"
  shows "sorted (accepted_times path obs content) \<and>
    (\<forall>f. floor_of content = Some f \<longrightarrow> (\<forall>v\<in>set (accepted_times path obs content). f \<le> v))"
  using assms
proof (induction obs arbitrary: content)
  case (Cons ft obs)
  obtain F t where ft: "ft = (F, t)" by fastforce
  obtain r content' where o: "observe_at F path t content = (r, content')" by fastforce
  have wf: "write_fault F = None" "t \<le> u64_max" using Cons.prems ft by auto
  have IH: "sorted (accepted_times path obs content') \<and>
    (\<forall>f. floor_of content' = Some f \<longrightarrow> (\<forall>v\<in>set (accepted_times path obs content'). f \<le> v))"
    using Cons.IH [of content'] Cons.prems by simp
  show ?case
  proof (cases r)
    case (Inl e)
    with observe_at_err [of F path t content e content'] o wf IH ft show ?thesis
      by (simp add: observe_def)
  next
    case (Inr v)
    have "v = t" "floor_of content' = Some t" "floor_of content = None \<or> the (floor_of content) \<le> t"
      using observe_at_ok [of F path t content v content'] o wf Inr by auto
    with Inr o IH ft show ?thesis by (auto simp: observe_def intro: order_trans)
  qed
qed simp

text \<open>C31. The sealed clock never runs backwards: whatever the floor file contains at first, and
  whatever reads or directory operations fail, the host times accepted in a run of observations are
  in order, as long as the writes that are made complete.\<close>

theorem sealed_time_is_monotone:
  assumes "\<forall>(F, t)\<in>set obs. write_fault F = None \<and> t \<le> u64_max"
  shows "sorted (accepted_times path obs file)"
  using accepted_above_floor [OF assms] by blast

theorem sealed_time_is_monotone_witness:
  "sorted (accepted_times ''/data/f'' [(no_faults, 5), (no_faults, 3), (no_faults, 7)] None)"
  by (rule sealed_time_is_monotone) (simp add: no_faults_def)

text \<open>Saturation never changes the epoch window: for clock values of 64 bits the window is active
  exactly when it is not empty, the sealed floor has not passed its end, and the time is within the
  skew of it in exact arithmetic; in particular no skew revives an epoch the floor has passed.\<close>

theorem epoch_window_exact:
  assumes "now_ms \<le> u64_max"
  shows "epoch_window_active now_ms not_before not_after skew floor \<longleftrightarrow>
    not_before \<le> not_after \<and> (floor = None \<or> the floor \<le> not_after) \<and>
    not_before \<le> now_ms + skew \<and> now_ms \<le> not_after + skew"
  using assms
  by (auto simp: epoch_window_active_def floor_past_not_after_def saturating_add64_def
      split: option.splits)

theorem epoch_window_exact_witness:
  "epoch_window_active 100 50 90 u64_max None \<and> \<not> epoch_window_active 100 50 90 u64_max (Some 91)"
  using epoch_window_exact [of 100 50 90 u64_max None] epoch_window_exact [of 100 50 90 u64_max "Some 91"]
  by simp

end
