(* ===== verification/Engine_Trust.thy ===== *)
theory Engine_Trust
  imports Challenge Sealed_Time
begin

text \<open>
  Which engine the edge encrypts to, from \<open>crates/openapi-platform/src\<close>: \<open>engine_trust.rs\<close> (pinned
  identities and their signatures over an epoch), \<open>launch_digest.rs\<close> (the measurement in a report),
  \<open>epoch_evidence.rs\<close> (a report that names the epoch's keys) and \<open>engine_recipient.rs\<close> (the decision).
  Hashes, codecs, signatures and the decoding of JSON into the wrapper types are parameters.
\<close>

subsection \<open>Data\<close>

record quote_epoch_claims =
  qe_engine_id :: string
  qe_epoch_id :: string
  qe_not_before :: string
  qe_not_after :: string
  qe_mlkem_encapsulation_key :: string
  qe_x25519_public :: string
  qe_usage_signing_public :: string

record wrapper_claims =
  wc_tls_client_cert_sha256 :: string
  wc_engine_binary_sha256 :: "string option"
  wc_vllm_binary_sha256 :: "string option"
  wc_epoch :: "quote_epoch_claims option"
  wc_issued_at :: string

record quote_wrapper =
  qw_v :: nat
  qw_kind :: string
  qw_report_b64 :: string
  qw_report_data_b64 :: string
  qw_claims :: wrapper_claims

record quote_wrapper_head =
  qh_v :: nat
  qh_kind :: string
  qh_report_b64 :: string

text \<open>The pin map, in the order of its keys.\<close>

type_synonym engine_identity_pins = "(string \<times> string) list"

record engine_ext = chal_ext +
  b64url_pad_decode :: "string \<Rightarrow> string + bytes"
  sha512 :: "bytes \<Rightarrow> bytes"
  vk_from_bytes :: "bytes \<Rightarrow> string + bytes"
  pins_from_str :: "string \<Rightarrow> string + engine_identity_pins"
  pins_to_vec :: "engine_identity_pins \<Rightarrow> bytes"
  wrapper_from_slice :: "bytes \<Rightarrow> string + quote_wrapper"
  head_from_slice :: "bytes \<Rightarrow> string + quote_wrapper_head"

datatype engine_trust_error =
    InvalidPinsJson string
  | MissingPins
  | UnpinnedEngine string
  | IdentityPinMismatch
  | InvalidPublicKey
  | InvalidIdentitySignature
  | InvalidTimestamp
  | EpochNotActive

fun engine_trust_error_to_string :: "(string \<Rightarrow> string) \<Rightarrow> engine_trust_error \<Rightarrow> string" where
  "engine_trust_error_to_string dbg (InvalidPinsJson e) = ''invalid engine identity pins JSON: '' @ e"
| "engine_trust_error_to_string dbg MissingPins = ''engine identity pins are required''"
| "engine_trust_error_to_string dbg (UnpinnedEngine i) = ''engine '' @ dbg i @ '' has no pinned identity''"
| "engine_trust_error_to_string dbg IdentityPinMismatch =
     ''engine identity key does not match the signed runtime-policy pin''"
| "engine_trust_error_to_string dbg InvalidPublicKey = ''invalid Ed25519 public key''"
| "engine_trust_error_to_string dbg InvalidIdentitySignature = ''invalid engine identity signature''"
| "engine_trust_error_to_string dbg InvalidTimestamp = ''invalid engine epoch timestamp''"
| "engine_trust_error_to_string dbg EpochNotActive = ''engine epoch is not active''"

record ephemeral_trust =
  et_engine_id :: string
  et_epoch_id :: string
  et_not_before :: string
  et_not_after :: string
  et_mlkem_encapsulation_key :: string
  et_x25519_public :: string
  et_ed25519_public :: string
  et_identity_signature :: string

subsection \<open>Pinned identities\<close>

definition decode_base64url :: "'x engine_ext_scheme \<Rightarrow> string \<Rightarrow> string + bytes" where
  "decode_base64url X v =
     (case b64url_decode X v of Inr b \<Rightarrow> Inr b | Inl _ \<Rightarrow> b64url_pad_decode X v)"

definition decode_public_key :: "'x engine_ext_scheme \<Rightarrow> string \<Rightarrow> engine_trust_error + bytes" where
  "decode_public_key X v =
     bindE (map_err (\<lambda>_. InvalidPublicKey) (decode_base64url X v)) (\<lambda>b.
     if length b = 32 then Inr b else Inl InvalidPublicKey)"

fun check_pins :: "'x engine_ext_scheme \<Rightarrow> engine_identity_pins \<Rightarrow> engine_trust_error + unit" where
  "check_pins X [] = Inr ()"
| "check_pins X ((engine_id, public_key) # ps) =
     (if trim engine_id = [] then Inl (InvalidPinsJson ''engine id must not be empty'')
      else bindE (decode_public_key X public_key) (\<lambda>_. check_pins X ps))"

definition pins_parse_json :: "'x engine_ext_scheme \<Rightarrow> string \<Rightarrow> engine_trust_error + engine_identity_pins" where
  "pins_parse_json X raw =
     bindE (map_err InvalidPinsJson (pins_from_str X raw)) (\<lambda>pins.
     bindE (check_pins X pins) (\<lambda>_. Inr pins))"

definition pins_policy_hash_hex :: "'x engine_ext_scheme \<Rightarrow> engine_identity_pins \<Rightarrow> string" where
  "pins_policy_hash_hex X pins = hex_encode X (sha256 X (pins_to_vec X pins))"

definition pinned_public_key :: "engine_identity_pins \<Rightarrow> string \<Rightarrow> string option" where
  "pinned_public_key pins engine_id = map_of pins engine_id"

text \<open>\<open>[..].join("\0")\<close>\<close>

fun join_nul :: "string list \<Rightarrow> string" where
  "join_nul [] = []"
| "join_nul [s] = s"
| "join_nul (s # ss) = s @ CHR 0x00 # join_nul ss"

definition ephemeral_signing_bytes :: "ephemeral_trust \<Rightarrow> bytes" where
  "ephemeral_signing_bytes t =
     as_bytes (join_nul [''OPE-ENGINE-EPHEMERAL-v1'', et_engine_id t, et_epoch_id t, et_not_after t,
                         et_mlkem_encapsulation_key t, et_x25519_public t])"

subsection \<open>Timestamps\<close>

definition trunc_div :: "int \<Rightarrow> int \<Rightarrow> int" where
  "trunc_div a b = (if 0 \<le> a then a div b else - ((- a) div b))"

definition engine_days_from_civil :: "int \<Rightarrow> nat \<Rightarrow> nat \<Rightarrow> engine_trust_error + nat" where
  "engine_days_from_civil year0 month day =
     (let year = (if month \<le> 2 then i64 (year0 - 1) else year0);
          era = trunc_div (if 0 \<le> year then year else i64 (year - 399)) 400;
          year_of_era = year - era * 400;
          shifted_month = (if 2 < month then month - 3 else month + 9);
          day_of_year = (153 * int shifted_month + 2) div 5 + int day - 1;
          day_of_era = year_of_era * 365 + year_of_era div 4 - year_of_era div 100 + day_of_year;
          days = i64 (i64 (i64 (era * 146097) + day_of_era) - 719468)
      in if days < 0 then Inl InvalidTimestamp else Inr (nat days))"

definition engine_days_in_month :: "int \<Rightarrow> nat \<Rightarrow> nat" where
  "engine_days_in_month year month =
     (if month \<in> {4, 6, 9, 11} then 30
      else if month = 2 \<and> year mod 4 = 0 \<and> (year mod 100 \<noteq> 0 \<or> year mod 400 = 0) then 29
      else if month = 2 then 28 else 31)"

definition parse_part :: "(string \<Rightarrow> 'n option) \<Rightarrow> string list \<Rightarrow> engine_trust_error + 'n \<times> string list" where
  "parse_part parse ps =
     (case ps of
        [] \<Rightarrow> Inl InvalidTimestamp
      | p # rest \<Rightarrow> (case parse p of None \<Rightarrow> Inl InvalidTimestamp | Some n \<Rightarrow> Inr (n, rest)))"

definition utc_body :: "string \<Rightarrow> string option" where
  "utc_body t =
     (case strip_suffix t ''Z'' of
        Some v \<Rightarrow> Some v
      | None \<Rightarrow>
          (case strip_suffix t ''+00:00'' of Some v \<Rightarrow> Some v | None \<Rightarrow> strip_suffix t ''-00:00''))"

fun fraction_millis :: "nat list \<Rightarrow> string \<Rightarrow> nat" where
  "fraction_millis (w # ws) (c # cs) = (code c - 48) * w + fraction_millis ws cs"
| "fraction_millis _ _ = 0"

definition checked_u64 :: "nat \<Rightarrow> engine_trust_error + nat" where
  "checked_u64 n = (if u64_max < n then Inl InvalidTimestamp else Inr n)"

definition engine_parse_rfc3339_ms :: "string \<Rightarrow> engine_trust_error + nat" where
  "engine_parse_rfc3339_ms v =
     bindE (ok_or InvalidTimestamp (utc_body (trim v))) (\<lambda>body.
     bindE (ok_or InvalidTimestamp (split_once (CHR ''T'') body)) (\<lambda>(date, tim).
     bindE (parse_part parse_i64 (split_on (\<lambda>c. c = CHR ''-'') date)) (\<lambda>(year, d).
     bindE (parse_part parse_u32 d) (\<lambda>(month, d).
     bindE (parse_part parse_u32 d) (\<lambda>(day, d).
     if d \<noteq> [] \<or> \<not> (1 \<le> month \<and> month \<le> 12) \<or> day = 0 \<or> engine_days_in_month year month < day
     then Inl InvalidTimestamp
     else
       bindE (parse_part parse_u32 (split_on (\<lambda>c. c = CHR '':'') tim)) (\<lambda>(hour, t).
       bindE (parse_part parse_u32 t) (\<lambda>(minute, t).
       bindE (parse_part Some t) (\<lambda>(second_and_fraction, t).
       if t \<noteq> [] \<or> 23 < hour \<or> 59 < minute then Inl InvalidTimestamp
       else let (second_raw, fraction) =
                  (case split_once (CHR ''.'') second_and_fraction of
                     Some (s, f) \<Rightarrow> (s, f) | None \<Rightarrow> (second_and_fraction, []))
            in bindE (ok_or InvalidTimestamp (parse_u32 second_raw)) (\<lambda>second.
               if 59 < second \<or> (fraction \<noteq> [] \<and> \<not> list_all is_ascii_digit fraction)
               then Inl InvalidTimestamp
               else
                 bindE (engine_days_from_civil year month day) (\<lambda>days.
                 bindE (checked_u64 (days * 86400)) (\<lambda>v.
                 bindE (checked_u64 (v + hour * 3600)) (\<lambda>v.
                 bindE (checked_u64 (v + minute * 60)) (\<lambda>v.
                 bindE (checked_u64 (v + second)) (\<lambda>seconds.
                 bindE (checked_u64 (seconds * 1000)) (\<lambda>v.
                 checked_u64 (v + fraction_millis [100, 10, 1] fraction))))))))))))))))"

definition verify_ephemeral_engine_trust ::
    "'x engine_ext_scheme \<Rightarrow> engine_identity_pins \<Rightarrow> ephemeral_trust \<Rightarrow> nat \<Rightarrow> nat
       \<Rightarrow> engine_trust_error + unit" where
  "verify_ephemeral_engine_trust X pins t now_ms clock_skew_ms =
     (if pins = [] then Inl MissingPins
      else bindE (ok_or (UnpinnedEngine (et_engine_id t)) (pinned_public_key pins (et_engine_id t)))
             (\<lambda>pinned.
           bindE (decode_public_key X pinned) (\<lambda>pinned_bytes.
           bindE (decode_public_key X (et_ed25519_public t)) (\<lambda>presented_bytes.
           if pinned_bytes \<noteq> presented_bytes then Inl IdentityPinMismatch
           else
             bindE (engine_parse_rfc3339_ms (et_not_before t)) (\<lambda>not_before.
             bindE (engine_parse_rfc3339_ms (et_not_after t)) (\<lambda>not_after.
             if not_after < not_before \<or> now_ms < not_before - clock_skew_ms \<or>
                saturating_add64 not_after clock_skew_ms < now_ms
             then Inl EpochNotActive
             else
               bindE (map_err (\<lambda>_. InvalidPublicKey) (vk_from_bytes X pinned_bytes)) (\<lambda>key.
               bindE (map_err (\<lambda>_. InvalidIdentitySignature)
                        (decode_base64url X (et_identity_signature t))) (\<lambda>signature_bytes.
               bindE (map_err (\<lambda>_. InvalidIdentitySignature) (sig_from_slice X signature_bytes))
                 (\<lambda>signature.
               if ed25519_verify X key (ephemeral_signing_bytes t) signature then Inr ()
               else Inl InvalidIdentitySignature)))))))))"

subsection \<open>Launch digests\<close>

definition snp_report_from_quote :: "'x engine_ext_scheme \<Rightarrow> string \<Rightarrow> bytes option" where
  "snp_report_from_quote X quote =
     (case decode_base64url X (trim quote) of
        Inl _ \<Rightarrow> None
      | Inr raw \<Rightarrow>
          (case head_from_slice X raw of
             Inl _ \<Rightarrow> None
           | Inr head \<Rightarrow>
               if qh_v head \<noteq> 2 \<or> qh_kind head \<noteq> ''sev-snp'' \<or> qh_report_b64 head = [] then None
               else (case std_b64_decode X (trim (qh_report_b64 head)) of
                       Inl _ \<Rightarrow> None | Inr b \<Rightarrow> Some b)))"

definition measurement_from_snp_report :: "bytes \<Rightarrow> bytes option" where
  "measurement_from_snp_report report =
     (if 0x90 + 48 \<le> length report then Some (take 48 (drop 0x90 report)) else None)"

definition compose_launch_digest :: "'x ext_scheme \<Rightarrow> string \<Rightarrow> string" where
  "compose_launch_digest X raw_measurement_hex =
     hex_encode X (sha256 X (as_bytes (to_ascii_lowercase (trim raw_measurement_hex))))"

definition launch_digest_from_snp_quote :: "'x engine_ext_scheme \<Rightarrow> string \<Rightarrow> string option" where
  "launch_digest_from_snp_quote X quote =
     Option.bind (snp_report_from_quote X quote) (\<lambda>report.
     Option.bind (measurement_from_snp_report report) (\<lambda>m.
     Some (compose_launch_digest X (hex_encode X m))))"

end
