(* ===== verification/Engine_Usage.thy ===== *)
theory Engine_Usage
  imports Engine_Trust
begin

text \<open>
  \<open>crates/openapi-platform/src/engine_usage.rs\<close>: usage reports signed by an engine, and where the token
  counts of a request come from.
\<close>

subsection \<open>Reports\<close>

datatype engine_usage_error =
    UsageMissing
  | UsageInvalid string
  | UsageSignatureInvalid
  | UsageRequestHashMismatch
  | UsageEngineMismatch
  | UsageEpochMismatch
  | UsageInflatedCounts

fun usage_error_to_string :: "engine_usage_error \<Rightarrow> string" where
  "usage_error_to_string UsageMissing = ''engine usage report required (RB-37)''"
| "usage_error_to_string (UsageInvalid e) = ''engine usage report invalid: '' @ e"
| "usage_error_to_string UsageSignatureInvalid = ''engine usage signature invalid (RB-37)''"
| "usage_error_to_string UsageRequestHashMismatch = ''engine usage request hash mismatch (RB-37)''"
| "usage_error_to_string UsageEngineMismatch = ''engine usage engine_id mismatch (RB-37)''"
| "usage_error_to_string UsageEpochMismatch = ''engine usage epoch mismatch (RB-37)''"
| "usage_error_to_string UsageInflatedCounts =
     ''engine usage token counts exceed independent bound (RB-37)''"

definition require_signed_usage_from_env :: "environ \<Rightarrow> bool" where
  "require_signed_usage_from_env env =
     (case env ''OPENAPI_REQUIRE_SIGNED_USAGE'' of
        None \<Rightarrow> False
      | Some v \<Rightarrow> to_ascii_lowercase (trim v) \<in> {''1'', ''true'', ''yes'', ''on''})"

record engine_usage_report =
  eu_request_id :: string
  eu_conversation_id :: string
  eu_engine_id :: string
  eu_prompt_tokens :: nat
  eu_completion_tokens :: nat
  eu_cached_tokens :: nat
  eu_ts :: string
  eu_epoch_id :: "string option"

record signed_usage_report =
  su_report :: engine_usage_report
  su_sig :: string

record usage_verify_context =
  uv_expected_engine_id :: string
  uv_expected_epoch_id :: string
  uv_verify_key_b64url :: string
  uv_expected_request_hash_hex :: string
  uv_max_total_tokens :: nat

record usage_rep_ext = engine_ext +
  signed_usage_from_slice :: "bytes \<Rightarrow> string + signed_usage_report"

text \<open>The fields a signature covers, in the order \<open>json!\<close> keeps them.\<close>

definition usage_report_value :: "engine_usage_report \<Rightarrow> json" where
  "usage_report_value r =
     JObj [(''cached_tokens'', JNum (PosInt (eu_cached_tokens r))),
           (''completion_tokens'', JNum (PosInt (eu_completion_tokens r))),
           (''conversation_id'', JStr (eu_conversation_id r)),
           (''engine_id'', JStr (eu_engine_id r)),
           (''prompt_tokens'', JNum (PosInt (eu_prompt_tokens r))),
           (''request_id'', JStr (eu_request_id r)),
           (''ts'', JStr (eu_ts r))]"

definition usage_report_signing_bytes :: "'x ext_scheme \<Rightarrow> engine_usage_report \<Rightarrow> bytes" where
  "usage_report_signing_bytes X r =
     (case json_to_vec X (usage_report_value r) of Inl _ \<Rightarrow> [] | Inr b \<Rightarrow> b)"

definition request_body_hash_hex :: "'x ext_scheme \<Rightarrow> bytes \<Rightarrow> string" where
  "request_body_hash_hex X body = hex_encode X (sha256 X body)"

definition byte_estimate :: "nat \<Rightarrow> nat" where
  "byte_estimate len = max (len div 4) 1"

definition independent_token_bound :: "bytes \<Rightarrow> string \<Rightarrow> nat" where
  "independent_token_bound body completion =
     min u64_max (saturating_add64 (byte_estimate (length body)) (byte_estimate (length completion)) * 8)"

definition parse_usage_report_header ::
    "'x usage_rep_ext_scheme \<Rightarrow> string \<Rightarrow> engine_usage_error + signed_usage_report" where
  "parse_usage_report_header X header =
     bindE (map_err (\<lambda>_. UsageInvalid ''base64url decode failed'') (decode_base64url X (trim header)))
       (\<lambda>b. map_err (\<lambda>e. UsageInvalid (''json: '' @ e)) (signed_usage_from_slice X b))"

definition verify_usage_signature :: "'x engine_ext_scheme \<Rightarrow> string \<Rightarrow> signed_usage_report \<Rightarrow> bool" where
  "verify_usage_signature X public s =
     (case (decode_base64url X (trim public), decode_base64url X (trim (su_sig s))) of
        (Inr pub_bytes, Inr sig_bytes) \<Rightarrow>
          if length pub_bytes \<noteq> 32 \<or> length sig_bytes \<noteq> 64 then False
          else (case vk_from_bytes X pub_bytes of
                  Inl _ \<Rightarrow> False
                | Inr key \<Rightarrow> ed25519_verify X key (usage_report_signing_bytes X (su_report s)) sig_bytes)
      | _ \<Rightarrow> False)"

definition usage_constant_time_eq :: "bytes \<Rightarrow> bytes \<Rightarrow> bool" where
  "usage_constant_time_eq a b =
     (if length a \<noteq> length b then False
      else foldl (\<lambda>diff (x, y). diff OR (x XOR y)) 0 (zip a b) = 0)"

definition verify_signed_usage_report ::
    "'x engine_ext_scheme \<Rightarrow> signed_usage_report \<Rightarrow> usage_verify_context \<Rightarrow> engine_usage_error + unit" where
  "verify_signed_usage_report X s ctx =
     (if eu_engine_id (su_report s) \<noteq> uv_expected_engine_id ctx then Inl UsageEngineMismatch
      else if (case eu_epoch_id (su_report s) of
                 Some epoch \<Rightarrow> epoch \<noteq> uv_expected_epoch_id ctx | None \<Rightarrow> False)
      then Inl UsageEpochMismatch
      else if \<not> usage_constant_time_eq (as_bytes (eu_request_id (su_report s)))
                  (as_bytes (uv_expected_request_hash_hex ctx))
      then Inl UsageRequestHashMismatch
      else if uv_max_total_tokens ctx <
              saturating_add64 (eu_prompt_tokens (su_report s)) (eu_completion_tokens (su_report s))
      then Inl UsageInflatedCounts
      else if \<not> verify_usage_signature X (uv_verify_key_b64url ctx) s then Inl UsageSignatureInvalid
      else Inr ())"

subsection \<open>Where the counts come from\<close>

text \<open>The counts of a header nobody signed: of a report, or of any JSON with the two fields.\<close>

definition token_count :: "json \<Rightarrow> string \<Rightarrow> nat" where
  "token_count v k = (case Option.bind (json_get v k) as_u64 of None \<Rightarrow> 0 | Some n \<Rightarrow> n)"

definition unsigned_counts :: "'x usage_rep_ext_scheme \<Rightarrow> string \<Rightarrow> nat \<times> nat" where
  "unsigned_counts X hdr =
     (case parse_usage_report_header X hdr of
        Inr s \<Rightarrow> (eu_prompt_tokens (su_report s), eu_completion_tokens (su_report s))
      | Inl _ \<Rightarrow>
          (case decode_base64url X hdr of
             Inl _ \<Rightarrow> (0, 0)
           | Inr b \<Rightarrow>
               (case json_from_slice X b of
                  Inl _ \<Rightarrow> (0, 0)
                | Inr v \<Rightarrow>
                    let report = (case json_get v ''report'' of Some r \<Rightarrow> r | None \<Rightarrow> v)
                    in (token_count report ''prompt_tokens'', token_count report ''completion_tokens''))))"

definition resolve_usage_tokens ::
    "'x usage_rep_ext_scheme \<Rightarrow> string option \<Rightarrow> bytes \<Rightarrow> string \<Rightarrow> bool \<Rightarrow> usage_verify_context option
       \<Rightarrow> engine_usage_error + nat \<times> nat" where
  "resolve_usage_tokens X usage_hdr body completion require_signed ctx =
     (if require_signed then
        bindE (ok_or UsageMissing ctx) (\<lambda>ctx.
        bindE (ok_or UsageMissing usage_hdr) (\<lambda>hdr.
        bindE (parse_usage_report_header X hdr) (\<lambda>s.
        bindE (verify_signed_usage_report X s ctx) (\<lambda>_.
        Inr (eu_prompt_tokens (su_report s), eu_completion_tokens (su_report s))))))
      else
        let (p, c) = (case usage_hdr of Some hdr \<Rightarrow> unsigned_counts X hdr | None \<Rightarrow> (0, 0))
        in if 0 < p \<or> 0 < c then Inr (p, c)
           else Inr (byte_estimate (length body), byte_estimate (length completion)))"

subsection \<open>Which reports count\<close>

lemma usage_constant_time_eq [simp]: "usage_constant_time_eq a b \<longleftrightarrow> a = b"
  using fold_xor_zero [of a b 0] by (auto simp: usage_constant_time_eq_def)

lemma verify_signed_usage_report_ok:
  "verify_signed_usage_report X s ctx = Inr () \<longleftrightarrow>
     eu_engine_id (su_report s) = uv_expected_engine_id ctx \<and>
     eu_epoch_id (su_report s) \<in> {None, Some (uv_expected_epoch_id ctx)} \<and>
     eu_request_id (su_report s) = uv_expected_request_hash_hex ctx \<and>
     saturating_add64 (eu_prompt_tokens (su_report s)) (eu_completion_tokens (su_report s)) \<le>
       uv_max_total_tokens ctx \<and>
     verify_usage_signature X (uv_verify_key_b64url ctx) s"
  by (auto simp: verify_signed_usage_report_def split: option.splits dest: as_bytes_inj [THEN iffD1])

text \<open>The epoch of a report is not among the signed fields: it can be dropped or replaced.\<close>

lemma epoch_is_not_signed:
  "verify_usage_signature X k (s\<lparr>su_report := su_report s\<lparr>eu_epoch_id := e\<rparr>\<rparr>) \<longleftrightarrow>
     verify_usage_signature X k s"
  by (simp add: verify_usage_signature_def usage_report_signing_bytes_def usage_report_value_def
      split: sum.split)

end
