(* ===== verification/Attest_Snp.thy ===== *)
theory Attest_Snp
  imports Engine_Usage
begin

text \<open>
  \<open>crates/openapi-attest/src/snp.rs\<close> (with \<open>error.rs\<close>): verification of an AMD SEV-SNP report. The
  \<open>sev\<close> crate, which decodes reports and certificates and checks their signatures, and the key
  distribution service of AMD are parameters; the disk cache of certificates is the state.
\<close>

subsection \<open>The crates\<close>

datatype attest_error =
    AttestHttp string
  | AttestTls string
  | AttestManifest string
  | AttestChallenge string
  | AttestQuote string
  | AttestPolicy string
  | AttestIo string

fun attest_error_to_string :: "attest_error \<Rightarrow> string" where
  "attest_error_to_string (AttestHttp e) = ''http: '' @ e"
| "attest_error_to_string (AttestTls e) = ''tls: '' @ e"
| "attest_error_to_string (AttestManifest e) = ''manifest: '' @ e"
| "attest_error_to_string (AttestChallenge e) = ''challenge: '' @ e"
| "attest_error_to_string (AttestQuote e) = ''quote: '' @ e"
| "attest_error_to_string (AttestPolicy e) = ''policy: '' @ e"
| "attest_error_to_string (AttestIo e) = ''io: '' @ e"

text \<open>The fields of \<open>sev\<close>'s report the code reads; the TCB is the numbers of boot loader, TEE, SNP
  firmware and microcode.\<close>

record snp_report =
  sp_policy_debug :: bool
  sp_policy_migrate_ma :: bool
  sp_chip_id :: bytes
  sp_reported_tcb :: "nat \<times> nat \<times> nat \<times> nat"
  sp_measurement :: bytes
  sp_report_data :: bytes
  sp_guest_svn :: nat
  sp_cpuid_fam_id :: "nat option"
  sp_cpuid_mod_id :: "nat option"

record snp_ext = usage_rep_ext +
  snp_report_from_bytes :: "bytes \<Rightarrow> string + snp_report"
  cert_from_der :: "bytes \<Rightarrow> string + bytes"
  builtin_ark :: "string \<Rightarrow> string + bytes"
  builtin_ask :: "string \<Rightarrow> string + bytes"
  snp_chain_verify :: "bytes \<Rightarrow> bytes \<Rightarrow> bytes \<Rightarrow> snp_report \<Rightarrow> string + unit"

record snp_verify_report =
  sv_product_name :: string
  sv_launch_measurement_hex :: string
  sv_report_data_hex :: string
  sv_chip_id_hex :: string
  sv_policy_debug :: bool
  sv_guest_svn :: nat

subsection \<open>Verification without I/O\<close>

definition challenge_canonical_launch_digest :: "'x ext_scheme \<Rightarrow> string \<Rightarrow> string" where
  "challenge_canonical_launch_digest X raw =
     hex_encode X (sha256 X (as_bytes (to_ascii_lowercase (trim raw))))"

definition snp_report_reportdata_local :: "'x chal_ext_scheme \<Rightarrow> string \<Rightarrow> attest_error + bytes" where
  "snp_report_reportdata_local X quote_b64 =
     bindE (map_err (\<lambda>e. AttestQuote (''quote_b64 decode: '' @ e)) (std_b64_decode X (trim quote_b64)))
       (\<lambda>raw.
     if length raw < SNP_REPORT_DATA_OFFSET + REPORT_DATA_LEN
     then Inl (AttestQuote (''SNP report too short: '' @ show_nat (length raw) @ '' bytes''))
     else Inr (take REPORT_DATA_LEN (drop SNP_REPORT_DATA_OFFSET raw)))"

definition trim_end_char :: "char \<Rightarrow> string \<Rightarrow> string" where
  "trim_end_char c s = rev (dropWhile (\<lambda>x. x = c) (rev s))"

definition decode_b64_flexible :: "'x engine_ext_scheme \<Rightarrow> string \<Rightarrow> string + bytes" where
  "decode_b64_flexible X s =
     (case std_b64_decode X (trim s) of
        Inr b \<Rightarrow> Inr b
      | Inl _ \<Rightarrow>
          (case b64url_decode X (trim_end_char (CHR ''='') (trim s)) of
             Inr b \<Rightarrow> Inr b | Inl _ \<Rightarrow> b64url_pad_decode X (trim s)))"

text \<open>The report inside a wrapper, when the decoded bytes are one.\<close>

definition wrapped_report :: "'x ext_scheme \<Rightarrow> bytes \<Rightarrow> json option" where
  "wrapped_report X raw =
     (case from_utf8 raw of
        None \<Rightarrow> None
      | Some _ \<Rightarrow>
          (case json_from_slice X raw of
             Inl _ \<Rightarrow> None
           | Inr v \<Rightarrow>
               if json_get v ''v'' = Some (JNum (PosInt 2)) \<and>
                  Option.bind (json_get v ''kind'') as_str = Some ''sev-snp''
               then Some v else None))"

definition raw_snp_report_b64 :: "'x engine_ext_scheme \<Rightarrow> string \<Rightarrow> attest_error + string" where
  "raw_snp_report_b64 X q =
     bindE (map_err (\<lambda>e. AttestQuote (''quote_b64: '' @ e)) (decode_b64_flexible X (trim q))) (\<lambda>raw.
     case wrapped_report X raw of
       None \<Rightarrow> Inr (std_b64_encode X raw)
     | Some v \<Rightarrow>
         bindE (ok_or (AttestQuote ''wrapper missing report_b64'')
                  (Option.bind (json_get v ''report_b64'') as_str)) (\<lambda>report_b64.
         bindE (map_err (\<lambda>e. AttestQuote (''report_b64: '' @ e)) (decode_b64_flexible X report_b64))
           (\<lambda>report. Inr (std_b64_encode X report))))"

definition apply_snp_policy :: "snp_report \<Rightarrow> bool \<Rightarrow> attest_error + unit" where
  "apply_snp_policy r reject_debug =
     (if reject_debug \<and> sp_policy_debug r then Inl (AttestPolicy ''SNP report has debug policy bit set'')
      else if sp_policy_migrate_ma r
      then Inl (AttestPolicy ''SNP report allows migration agent (policy MIGRATE_MA)'')
      else Inr ())"

definition snp_product_name :: "snp_report \<Rightarrow> string" where
  "snp_product_name r =
     (case sp_cpuid_fam_id r of
        Some fam \<Rightarrow>
          if fam = 0x19 then
            (case sp_cpuid_mod_id r of
               Some m \<Rightarrow> if m < 0x10 then ''Milan'' else ''Genoa'' | None \<Rightarrow> ''Genoa'')
          else if fam = 0x1A then ''Turin'' else ''Genoa''
      | None \<Rightarrow> ''Genoa'')"

definition builtin_ca :: "'x snp_ext_scheme \<Rightarrow> string \<Rightarrow> attest_error + bytes \<times> bytes" where
  "builtin_ca X product =
     (if product \<in> {''Milan'', ''Genoa'', ''Turin''} then
        bindE (map_err (\<lambda>e. AttestQuote (product @ '' ARK: '' @ e)) (builtin_ark X product)) (\<lambda>ark.
        bindE (map_err (\<lambda>e. AttestQuote (product @ '' ASK: '' @ e)) (builtin_ask X product)) (\<lambda>ask.
        Inr (ark, ask)))
      else Inl (AttestQuote (''unsupported SNP product '' @ product)))"

definition decode_snp_report ::
    "'x snp_ext_scheme \<Rightarrow> string \<Rightarrow> bool \<Rightarrow> attest_error + snp_report" where
  "decode_snp_report X quote_b64 reject_debug =
     bindE (map_err (\<lambda>e. AttestQuote (''quote_b64: '' @ e)) (std_b64_decode X (trim quote_b64))) (\<lambda>raw.
     bindE (map_err (\<lambda>e. AttestQuote (''parse SNP report: '' @ e)) (snp_report_from_bytes X raw)) (\<lambda>r.
     bindE (apply_snp_policy r reject_debug) (\<lambda>_. Inr r)))"

definition verify_snp_report_with_collateral ::
    "'x snp_ext_scheme \<Rightarrow> string \<Rightarrow> bytes \<Rightarrow> bool \<Rightarrow> attest_error + snp_verify_report" where
  "verify_snp_report_with_collateral X quote_b64 vcek_der reject_debug =
     bindE (decode_snp_report X quote_b64 reject_debug) (\<lambda>r.
     let product = snp_product_name r
     in bindE (map_err (\<lambda>e. AttestQuote (''VCEK parse: '' @ e)) (cert_from_der X vcek_der)) (\<lambda>vcek.
        bindE (builtin_ca X product) (\<lambda>(ark, ask).
        bindE (map_err (\<lambda>e. AttestQuote (''SNP VCEK/chain verify: '' @ e))
                 (snp_chain_verify X ark ask vcek r)) (\<lambda>_.
        bindE (snp_report_reportdata_local X quote_b64) (\<lambda>_.
        Inr \<lparr>sv_product_name = product, sv_launch_measurement_hex = hex_encode X (sp_measurement r),
             sv_report_data_hex = hex_encode X (sp_report_data r),
             sv_chip_id_hex = hex_encode X (sp_chip_id r), sv_policy_debug = sp_policy_debug r,
             sv_guest_svn = sp_guest_svn r\<rparr>)))))"

definition verify_snp_quote_with_collateral ::
    "'x snp_ext_scheme \<Rightarrow> string \<Rightarrow> bytes \<Rightarrow> bool \<Rightarrow> attest_error + snp_verify_report" where
  "verify_snp_quote_with_collateral X q vcek_der reject_debug =
     bindE (raw_snp_report_b64 X q) (\<lambda>report_b64.
     verify_snp_report_with_collateral X report_b64 vcek_der reject_debug)"

subsection \<open>The key distribution service\<close>

text \<open>One try: a transport error, or a status with the body or the error of reading it. The host may
  refuse to store a file.\<close>

type_synonym kds_try = "string + nat \<times> (string + bytes)"
type_synonym files = "string \<Rightarrow> bytes option"

record kds_host =
  kh_env :: "string \<Rightarrow> string option"
  kh_tries :: "string \<Rightarrow> nat \<Rightarrow> kds_try"
  kh_writable :: "string \<Rightarrow> bool"

definition kds_cache_path :: "kds_host \<Rightarrow> string \<Rightarrow> string" where
  "kds_cache_path H url =
     (let dir = (case kh_env H ''OPENAPI_KDS_CACHE_DIR'' of
                   Some d \<Rightarrow> d | None \<Rightarrow> ''/var/tmp/teechat-kds-cache'');
          key = map (\<lambda>c. if is_ascii_alphanumeric c then c else CHR ''_'') url
      in if dir = [] then key
         else if last dir = CHR ''/'' then dir @ key else dir @ CHR ''/'' # key)"

text \<open>The tries left, with the error of the last one.\<close>

fun kds_fetch :: "kds_host \<Rightarrow> string \<Rightarrow> string \<Rightarrow> nat list \<Rightarrow> attest_error option \<Rightarrow> (files, attest_error, bytes) op"
where
  "kds_fetch H url path [] last_err fs =
     (Inl (case last_err of
             Some e \<Rightarrow> e | None \<Rightarrow> AttestHttp (''GET '' @ url @ '': exhausted retries'')), fs)"
| "kds_fetch H url path (i # rest) last_err fs =
     (case kh_tries H url i of
        Inl e \<Rightarrow> kds_fetch H url path rest (Some (AttestHttp (''GET '' @ url @ '': '' @ e))) fs
      | Inr (status, body) \<Rightarrow>
          if status = 429
          then kds_fetch H url path rest (Some (AttestHttp (''GET '' @ url @ '': HTTP 429''))) fs
          else if \<not> (200 \<le> status \<and> status < 300)
          then (Inl (AttestHttp (''GET '' @ url @ '': HTTP '' @ show_nat status)), fs)
          else (case body of
                  Inl e \<Rightarrow> (Inl (AttestHttp e), fs)
                | Inr b \<Rightarrow> (Inr b, if kh_writable H path then fs(path := Some b) else fs)))"

definition kds_http_get :: "kds_host \<Rightarrow> string \<Rightarrow> (files, attest_error, bytes) op" where
  "kds_http_get H url fs =
     (let path = kds_cache_path H url
      in (case fs path of
            Some b \<Rightarrow>
              if b \<noteq> [] then (Inr b, fs) else kds_fetch H url path [0..<5] None fs
          | None \<Rightarrow> kds_fetch H url path [0..<5] None fs))"

definition pad_spl :: "nat \<Rightarrow> string" where
  "pad_spl n = (if n < 10 then CHR ''0'' # show_nat n else show_nat n)"

definition vcek_url :: "'x ext_scheme \<Rightarrow> snp_report \<Rightarrow> string" where
  "vcek_url X r =
     (case sp_reported_tcb r of
        (bootloader, tee, snp, microcode) \<Rightarrow>
          ''https://kdsintf.amd.com/vcek/v1/'' @ snp_product_name r @ ''/'' @
          hex_encode X (sp_chip_id r) @ ''?blSPL='' @ pad_spl bootloader @ ''&teeSPL='' @ pad_spl tee @
          ''&snpSPL='' @ pad_spl snp @ ''&ucodeSPL='' @ pad_spl microcode)"

definition verify_snp_report ::
    "'x snp_ext_scheme \<Rightarrow> kds_host \<Rightarrow> string \<Rightarrow> bool \<Rightarrow> (files, attest_error, snp_verify_report) op" where
  "verify_snp_report X H quote_b64 reject_debug =
     bindS (liftS (raw_snp_report_b64 X quote_b64)) (\<lambda>report_b64.
     bindS (liftS (decode_snp_report X report_b64 reject_debug)) (\<lambda>r.
     bindS (kds_http_get H (vcek_url X r)) (\<lambda>vcek_der.
     liftS (verify_snp_report_with_collateral X report_b64 vcek_der reject_debug))))"

subsection \<open>What verification shows\<close>

text \<open>Some VCEK certificate, whose chain goes up to the built-in root of the product, signs the report in
  these bytes; the report is of a guest that is neither debuggable nor migratable.\<close>

definition chain_verified :: "'x snp_ext_scheme \<Rightarrow> bytes \<Rightarrow> bool" where
  "chain_verified X raw \<longleftrightarrow>
     (\<exists>r vcek ark ask. snp_report_from_bytes X raw = Inr r \<and>
        \<not> sp_policy_debug r \<and> \<not> sp_policy_migrate_ma r \<and>
        builtin_ark X (snp_product_name r) = Inr ark \<and> builtin_ask X (snp_product_name r) = Inr ask \<and>
        snp_chain_verify X ark ask vcek r = Inr ())"

lemma collateral_chain_verified:
  assumes "verify_snp_report_with_collateral X q vcek True = Inr v" "std_b64_decode X (trim q) = Inr raw"
  shows "chain_verified X raw"
  using assms
  by (fastforce simp: verify_snp_report_with_collateral_def decode_snp_report_def apply_snp_policy_def
      builtin_ca_def chain_verified_def result_simps Let_def split: if_splits)

text \<open>Standard base64 is read by the flexible decoder as such, and what the encoder writes is read back.\<close>

definition std_b64_round_trip :: "'x chal_ext_scheme \<Rightarrow> bool" where
  "std_b64_round_trip X \<longleftrightarrow> (\<forall>b. std_b64_decode X (trim (std_b64_encode X b)) = Inr b)"

lemma report_chain_verified:
  assumes "fst (verify_snp_report X H q True fs) = Inr v" "std_b64_decode X (trim q) = Inr raw"
    and "wrapped_report X raw = None" "std_b64_round_trip X"
  shows "chain_verified X raw"
proof -
  from assms(2,3) have "raw_snp_report_b64 X q = Inr (std_b64_encode X raw)"
    by (simp add: raw_snp_report_b64_def decode_b64_flexible_def)
  with assms(1) obtain vcek where
    "verify_snp_report_with_collateral X (std_b64_encode X raw) vcek True = Inr v"
    by (auto simp: verify_snp_report_def bindS_def liftS_def split: sum.splits prod.splits)
  from collateral_chain_verified [OF this] assms(4) show ?thesis
    by (simp add: std_b64_round_trip_def)
qed

end
