(* ===== verification/Engine_Challenge.thy ===== *)
theory Engine_Challenge
  imports Engine_Trust
begin

text \<open>
  \<open>crates/openapi-platform/src/engine_challenge.rs\<close>: the challenge an edge sends an engine through the
  gateway, the report data an engine should answer with, and the check of the answer.
\<close>

subsection \<open>The preimage\<close>

datatype engine_challenge_error =
    ChalInvalid string
  | ChalNonceEchoMismatch
  | ChalReportDataMismatch
  | ChalSchemaUnsupported
  | ChalDecode string

fun engine_challenge_error_to_string :: "engine_challenge_error \<Rightarrow> string" where
  "engine_challenge_error_to_string (ChalInvalid label) = label"
| "engine_challenge_error_to_string ChalNonceEchoMismatch = ''nonce_echo_mismatch''"
| "engine_challenge_error_to_string ChalReportDataMismatch = ''report_data_mismatch''"
| "engine_challenge_error_to_string ChalSchemaUnsupported = ''schema_unsupported''"
| "engine_challenge_error_to_string (ChalDecode e) = ''decode: '' @ e"

datatype engine_measurement =
    EngineLaunchDigest string string
  | EngineMrenclave string

record challenge_input =
  ci_nonce :: bytes
  ci_engine_id :: string
  ci_epoch_id :: string
  ci_not_before :: string
  ci_not_after :: string
  ci_usage_signing_public_raw :: bytes
  ci_mlkem_encap_key_raw :: bytes
  ci_x25519_public_raw :: bytes
  ci_gpu_evidence_sha256 :: bytes
  ci_policy_hash :: bytes
  ci_measurement :: engine_measurement

definition ENGINE_CHALLENGE_MAGIC :: string where
  "ENGINE_CHALLENGE_MAGIC = ''teechat-engine-challenge-v1''"

definition ENGINE_CHALLENGE_REPORT_DATA_VERSION :: nat where
  "ENGINE_CHALLENGE_REPORT_DATA_VERSION = 1"

definition ENGINE_CHALLENGE_SCHEMA_VERSION :: nat where
  "ENGINE_CHALLENGE_SCHEMA_VERSION = 1"

definition decode_hex_32 :: "'x ext_scheme \<Rightarrow> string \<Rightarrow> string \<Rightarrow> engine_challenge_error + bytes" where
  "decode_hex_32 X raw label =
     (let cleaned = to_ascii_lowercase (trim raw)
      in if length cleaned \<noteq> 64 \<or> \<not> list_all is_ascii_hexdigit cleaned then Inl (ChalInvalid label)
         else bindE (map_err (\<lambda>_. ChalInvalid label) (hex_decode X cleaned)) (\<lambda>b.
              if length b \<noteq> 32 then Inl (ChalInvalid label) else Inr b))"

fun engine_measurement_body :: "'x ext_scheme \<Rightarrow> engine_measurement \<Rightarrow> engine_challenge_error + bytes" where
  "engine_measurement_body X (EngineMrenclave mrenclave) =
     bindE (decode_hex_32 X mrenclave ''invalid_mrenclave'') (\<lambda>m. Inr (0x01 # m))"
| "engine_measurement_body X (EngineLaunchDigest launch img) =
     bindE (decode_hex_32 X launch ''invalid_launch_digest'') (\<lambda>l.
     bindE (decode_hex_32 X img ''invalid_image_digest'') (\<lambda>i. Inr (0x02 # l @ i)))"

definition build_engine_challenge_preimage ::
    "'x ext_scheme \<Rightarrow> challenge_input \<Rightarrow> engine_challenge_error + bytes" where
  "build_engine_challenge_preimage X i =
     (if length (ci_nonce i) \<noteq> 32 then Inl (ChalInvalid ''nonce_must_be_32_bytes'')
      else if length (ci_gpu_evidence_sha256 i) \<noteq> 32 then Inl (ChalInvalid ''gpu_hash_must_be_32_bytes'')
      else if length (ci_policy_hash i) \<noteq> 32 then Inl (ChalInvalid ''policy_hash_must_be_32_bytes'')
      else let window = as_bytes (ci_not_before i) @ 0 # as_bytes (ci_not_after i)
           in bindE (engine_measurement_body X (ci_measurement i)) (\<lambda>measurement.
              Inr (as_bytes ENGINE_CHALLENGE_MAGIC @ ci_nonce i @
                   sha256 X (as_bytes (ci_engine_id i)) @ sha256 X (as_bytes (ci_epoch_id i)) @
                   sha256 X window @ sha256 X (ci_usage_signing_public_raw i) @
                   sha256 X (ci_mlkem_encap_key_raw i) @ sha256 X (ci_x25519_public_raw i) @
                   ci_gpu_evidence_sha256 i @ ci_policy_hash i @ measurement)))"

definition build_engine_challenge_report_data ::
    "'x ext_scheme \<Rightarrow> challenge_input \<Rightarrow> engine_challenge_error + bytes" where
  "build_engine_challenge_report_data X i =
     bindE (build_engine_challenge_preimage X i) (\<lambda>p. Inr (sha256 X p @ replicate 32 0))"

subsection \<open>The answer on the wire\<close>

record wire_measurement =
  wm_kind :: string
  wm_launch_digest :: "string option"
  wm_image_digest :: "string option"
  wm_mrenclave :: "string option"

record wire_engine =
  we_engine_id :: string
  we_policy_hash :: string
  we_measurement :: wire_measurement

record wire_epoch =
  wp_epoch_id :: string
  wp_not_before :: string
  wp_not_after :: string
  wp_mlkem_encapsulation_key :: string
  wp_x25519_public :: string
  wp_usage_signing_public :: string

text \<open>The endorsement holds one field, the VCEK certificate; the GPU block one, the evidence digest.\<close>

record wire_cpu =
  wu_quote_b64 :: string
  wu_vcek_der_b64 :: "string option"

record wire_response =
  wr_schema_version :: nat
  wr_report_data_version :: nat
  wr_engine :: wire_engine
  wr_epoch :: wire_epoch
  wr_challenge_nonce_b64 :: string
  wr_cpu :: wire_cpu
  wr_gpu_evidence_sha256 :: "string option"

definition encode_nonce_b64_url :: "'x ext_scheme \<Rightarrow> bytes \<Rightarrow> string" where
  "encode_nonce_b64_url X nonce = b64url_encode X nonce"

definition decode_nonce_b64_url :: "'x ext_scheme \<Rightarrow> string \<Rightarrow> engine_challenge_error + bytes" where
  "decode_nonce_b64_url X raw =
     bindE (map_err (\<lambda>_. ChalInvalid ''invalid_nonce_b64'') (b64url_decode X (trim raw))) (\<lambda>b.
     if length b \<noteq> 32 then Inl (ChalInvalid ''nonce_must_be_32_bytes'') else Inr b)"

definition decode_b64 :: "'x chal_ext_scheme \<Rightarrow> string \<Rightarrow> engine_challenge_error + bytes" where
  "decode_b64 X raw =
     (let trimmed = trim raw
      in (case b64url_decode X trimmed of
            Inr b \<Rightarrow> Inr b | Inl _ \<Rightarrow> map_err ChalDecode (std_b64_decode X trimmed)))"

definition vcek_der :: "'x chal_ext_scheme \<Rightarrow> wire_cpu \<Rightarrow> engine_challenge_error + bytes option" where
  "vcek_der X cpu =
     (case wu_vcek_der_b64 cpu of
        None \<Rightarrow> Inr None | Some v \<Rightarrow> bindE (decode_b64 X v) (\<lambda>b. Inr (Some b)))"

definition measurement_from_wire :: "wire_measurement \<Rightarrow> engine_challenge_error + engine_measurement" where
  "measurement_from_wire m =
     (if wm_kind m = ''mrenclave'' then
        bindE (ok_or (ChalInvalid ''invalid_measurement'') (wm_mrenclave m)) (\<lambda>mr.
        Inr (EngineMrenclave mr))
      else
        bindE (ok_or (ChalInvalid ''invalid_measurement'') (wm_launch_digest m)) (\<lambda>ld.
        bindE (ok_or (ChalInvalid ''invalid_measurement'') (wm_image_digest m)) (\<lambda>id.
        Inr (EngineLaunchDigest ld id))))"

subsection \<open>The check\<close>

definition report_data_from_raw_snp :: "bytes \<Rightarrow> engine_challenge_error + bytes" where
  "report_data_from_raw_snp raw =
     (if length raw < 0x50 + 64 then Inl (ChalInvalid ''quote_missing_report_data'')
      else Inr (take 64 (drop 0x50 raw)))"

definition extract_report_data_from_quote ::
    "'x chal_ext_scheme \<Rightarrow> bytes \<Rightarrow> engine_challenge_error + bytes" where
  "extract_report_data_from_quote X quote =
     (case json_from_slice X quote of
        Inl _ \<Rightarrow> report_data_from_raw_snp quote
      | Inr v \<Rightarrow>
          (case Option.bind (json_get v ''report_data_b64'') as_str of
             Some b64 \<Rightarrow>
               bindE (decode_b64 X b64) (\<lambda>b.
               if length b \<noteq> 64 then Inl (ChalInvalid ''report_data_len'') else Inr b)
           | None \<Rightarrow>
               (case Option.bind (json_get v ''report_b64'') as_str of
                  Some rb64 \<Rightarrow> bindE (decode_b64 X rb64) report_data_from_raw_snp
                | None \<Rightarrow> report_data_from_raw_snp quote)))"

definition expected_report_data ::
    "'x chal_ext_scheme \<Rightarrow> bytes \<Rightarrow> wire_response \<Rightarrow> engine_challenge_error + bytes" where
  "expected_report_data X nonce doc =
     bindE (decode_b64 X (wp_usage_signing_public (wr_epoch doc))) (\<lambda>usage.
     bindE (decode_b64 X (wp_mlkem_encapsulation_key (wr_epoch doc))) (\<lambda>mlkem.
     bindE (decode_b64 X (wp_x25519_public (wr_epoch doc))) (\<lambda>x25519.
     bindE (decode_hex_32 X (we_policy_hash (wr_engine doc)) ''invalid_policy_hash'') (\<lambda>policy_hash.
     bindE (case wr_gpu_evidence_sha256 doc of
              Some g \<Rightarrow> decode_hex_32 X g ''invalid_gpu_hash'' | None \<Rightarrow> Inr (replicate 32 0)) (\<lambda>gpu_hash.
     bindE (measurement_from_wire (we_measurement (wr_engine doc))) (\<lambda>measurement.
     build_engine_challenge_report_data X
       \<lparr>ci_nonce = nonce, ci_engine_id = we_engine_id (wr_engine doc),
        ci_epoch_id = wp_epoch_id (wr_epoch doc), ci_not_before = wp_not_before (wr_epoch doc),
        ci_not_after = wp_not_after (wr_epoch doc), ci_usage_signing_public_raw = usage,
        ci_mlkem_encap_key_raw = mlkem, ci_x25519_public_raw = x25519,
        ci_gpu_evidence_sha256 = gpu_hash, ci_policy_hash = policy_hash,
        ci_measurement = measurement\<rparr>))))))"

definition verify_engine_challenge_response ::
    "'x chal_ext_scheme \<Rightarrow> bytes \<Rightarrow> wire_response \<Rightarrow> engine_challenge_error + unit" where
  "verify_engine_challenge_response X nonce doc =
     (if wr_schema_version doc \<noteq> ENGINE_CHALLENGE_SCHEMA_VERSION \<or>
         wr_report_data_version doc \<noteq> ENGINE_CHALLENGE_REPORT_DATA_VERSION
      then Inl ChalSchemaUnsupported
      else
        bindE (decode_nonce_b64_url X (wr_challenge_nonce_b64 doc)) (\<lambda>echoed.
        if echoed \<noteq> nonce then Inl ChalNonceEchoMismatch
        else
          bindE (expected_report_data X nonce doc) (\<lambda>expected.
          bindE (decode_b64 X (wu_quote_b64 (wr_cpu doc))) (\<lambda>quote.
          bindE (extract_report_data_from_quote X quote) (\<lambda>actual.
          if actual \<noteq> expected then Inl ChalReportDataMismatch else Inr ())))))"

definition require_engine_challenge_from_env :: "environ \<Rightarrow> bool" where
  "require_engine_challenge_from_env env =
     (case env ''OPENAPI_OPE_REQUIRE_ENGINE_CHALLENGE'' of
        Some v \<Rightarrow> to_ascii_lowercase (trim v) \<notin> {''0'', ''false'', ''no'', ''off''}
      | None \<Rightarrow> True)"

subsection \<open>What the check reads\<close>

lemma verify_engine_challenge_ok:
  "verify_engine_challenge_response X nonce doc = Inr () \<longleftrightarrow>
     wr_schema_version doc = ENGINE_CHALLENGE_SCHEMA_VERSION \<and>
     wr_report_data_version doc = ENGINE_CHALLENGE_REPORT_DATA_VERSION \<and>
     decode_nonce_b64_url X (wr_challenge_nonce_b64 doc) = Inr nonce \<and>
     (\<exists>quote expected. expected_report_data X nonce doc = Inr expected \<and>
        decode_b64 X (wu_quote_b64 (wr_cpu doc)) = Inr quote \<and>
        extract_report_data_from_quote X quote = Inr expected)"
  by (auto simp: verify_engine_challenge_response_def result_simps)

text \<open>A quote that declares report data of its own is judged by that declaration: whatever hardware
  report it carries, or none, the check passes for every answer whose declared data is the digest of
  its own claims.\<close>

lemma declared_report_data_suffices:
  assumes "wr_schema_version doc = ENGINE_CHALLENGE_SCHEMA_VERSION"
    and "wr_report_data_version doc = ENGINE_CHALLENGE_REPORT_DATA_VERSION"
    and "decode_nonce_b64_url X (wr_challenge_nonce_b64 doc) = Inr nonce"
    and "expected_report_data X nonce doc = Inr expected" "length expected = 64"
    and "decode_b64 X (wu_quote_b64 (wr_cpu doc)) = Inr quote" "json_from_slice X quote = Inr v"
    and "json_get v ''report_data_b64'' = Some (JStr d)" "decode_b64 X d = Inr expected"
  shows "verify_engine_challenge_response X nonce doc = Inr ()"
  using assms by (auto simp: verify_engine_challenge_ok extract_report_data_from_quote_def)

end
