(* ===== verification/Engine_Recipient.thy ===== *)
theory Engine_Recipient
  imports Engine_Trust
begin

text \<open>
  \<open>crates/openapi-platform/src/epoch_evidence.rs\<close> and \<open>engine_recipient.rs\<close>: an attestation report
  that names an epoch's keys, and the decision whether customer plaintext may be encrypted to them.
\<close>

subsection \<open>Epoch evidence\<close>

record epoch_subject =
  es_engine_id :: string
  es_epoch_id :: string
  es_not_before :: string
  es_not_after :: string
  es_mlkem_encapsulation_key :: string
  es_x25519_public :: string

datatype epoch_evidence_error =
    Absent
  | UnreadableQuote
  | EngineMismatch
  | EpochMismatch
  | WindowMismatch
  | MlkemMismatch
  | X25519Mismatch
  | UsageKeyMissing
  | ReportDataMismatch
  | ReportUnreadable

fun epoch_evidence_error_to_string :: "epoch_evidence_error \<Rightarrow> string" where
  "epoch_evidence_error_to_string Absent = ''attestation carries no per-epoch evidence''"
| "epoch_evidence_error_to_string UnreadableQuote =
     ''attestation quote is not a readable SEV-SNP wrapper''"
| "epoch_evidence_error_to_string EngineMismatch =
     ''attested engine id does not match the epoch presented''"
| "epoch_evidence_error_to_string EpochMismatch =
     ''attested epoch id does not match the epoch presented''"
| "epoch_evidence_error_to_string WindowMismatch =
     ''attested epoch window does not match the epoch presented''"
| "epoch_evidence_error_to_string MlkemMismatch =
     ''attested ML-KEM key does not match the epoch presented''"
| "epoch_evidence_error_to_string X25519Mismatch =
     ''attested X25519 key does not match the epoch presented''"
| "epoch_evidence_error_to_string UsageKeyMissing = ''attested epoch carries no usage-signing key''"
| "epoch_evidence_error_to_string ReportDataMismatch =
     ''attestation report does not carry this epoch'' @ [CHR 0x27] @ ''s REPORT_DATA''"
| "epoch_evidence_error_to_string ReportUnreadable =
     ''attestation report is too short to hold REPORT_DATA''"

record verified_epoch_evidence =
  ve_epoch :: quote_epoch_claims
  ve_report_b64 :: string

text \<open>The parts of the canonical string, and the digest over them.\<close>

definition bind_epoch_parts ::
    "quote_epoch_claims \<Rightarrow> string \<Rightarrow> string \<Rightarrow> string \<Rightarrow> string \<Rightarrow> string option \<Rightarrow> string list" where
  "bind_epoch_parts e tls_client_cert engine_binary vllm_binary issued_at nonce =
     [''teechat-sev-snp-bind-v2'', qe_engine_id e, qe_epoch_id e, qe_not_before e, qe_not_after e,
      qe_mlkem_encapsulation_key e, qe_x25519_public e, qe_usage_signing_public e,
      to_ascii_lowercase tls_client_cert, to_ascii_lowercase engine_binary,
      to_ascii_lowercase vllm_binary, issued_at, (case nonce of Some n \<Rightarrow> n | None \<Rightarrow> [])]"

definition bind_epoch_report_data_64 ::
    "'x engine_ext_scheme \<Rightarrow> quote_epoch_claims \<Rightarrow> string \<Rightarrow> string \<Rightarrow> string \<Rightarrow> string \<Rightarrow> string option
       \<Rightarrow> bytes" where
  "bind_epoch_report_data_64 X e tls_client_cert engine_binary vllm_binary issued_at nonce =
     take 64 (sha512 X (as_bytes (join_nul
       (bind_epoch_parts e tls_client_cert engine_binary vllm_binary issued_at nonce))))"

definition parse_wrapper :: "'x engine_ext_scheme \<Rightarrow> string \<Rightarrow> quote_wrapper option" where
  "parse_wrapper X quote =
     (case decode_base64url X (trim quote) of
        Inl _ \<Rightarrow> None
      | Inr raw \<Rightarrow>
          (case wrapper_from_slice X raw of
             Inl _ \<Rightarrow> None
           | Inr w \<Rightarrow> if qw_v w \<noteq> 2 \<or> qw_kind w \<noteq> ''sev-snp'' then None else Some w))"

definition quote_has_epoch_evidence :: "'x engine_ext_scheme \<Rightarrow> string \<Rightarrow> bool" where
  "quote_has_epoch_evidence X quote =
     (case parse_wrapper X quote of None \<Rightarrow> False | Some w \<Rightarrow> wc_epoch (qw_claims w) \<noteq> None)"

definition match_fields :: "quote_epoch_claims \<Rightarrow> epoch_subject \<Rightarrow> epoch_evidence_error + unit" where
  "match_fields e s =
     (if qe_engine_id e \<noteq> es_engine_id s then Inl EngineMismatch
      else if qe_epoch_id e \<noteq> es_epoch_id s then Inl EpochMismatch
      else if qe_not_before e \<noteq> es_not_before s \<or> qe_not_after e \<noteq> es_not_after s
      then Inl WindowMismatch
      else if qe_mlkem_encapsulation_key e = [] \<or>
              qe_mlkem_encapsulation_key e \<noteq> es_mlkem_encapsulation_key s then Inl MlkemMismatch
      else if qe_x25519_public e = [] \<or> qe_x25519_public e \<noteq> es_x25519_public s
      then Inl X25519Mismatch
      else if trim (qe_usage_signing_public e) = [] then Inl UsageKeyMissing
      else Inr ())"

text \<open>The report data a wrapper should carry for its own claims.\<close>

definition wrapper_report_data ::
    "'x engine_ext_scheme \<Rightarrow> wrapper_claims \<Rightarrow> quote_epoch_claims \<Rightarrow> string option \<Rightarrow> bytes" where
  "wrapper_report_data X c e nonce =
     bind_epoch_report_data_64 X e (wc_tls_client_cert_sha256 c)
       (case wc_engine_binary_sha256 c of Some m \<Rightarrow> m | None \<Rightarrow> [])
       (case wc_vllm_binary_sha256 c of Some m \<Rightarrow> m | None \<Rightarrow> []) (wc_issued_at c) nonce"

definition verify_epoch_evidence ::
    "'x engine_ext_scheme \<Rightarrow> string \<Rightarrow> epoch_subject \<Rightarrow> string option
       \<Rightarrow> epoch_evidence_error + verified_epoch_evidence" where
  "verify_epoch_evidence X quote subject nonce =
     bindE (ok_or UnreadableQuote (parse_wrapper X quote)) (\<lambda>w.
     bindE (ok_or Absent (wc_epoch (qw_claims w))) (\<lambda>e.
     bindE (match_fields e subject) (\<lambda>_.
     let expected = wrapper_report_data X (qw_claims w) e nonce
     in bindE (map_err (\<lambda>_. ReportDataMismatch) (std_b64_decode X (trim (qw_report_data_b64 w))))
          (\<lambda>declared.
        if length declared \<noteq> REPORT_DATA_LEN \<or> declared \<noteq> expected then Inl ReportDataMismatch
        else bindE (map_err (\<lambda>_. ReportUnreadable) (std_b64_decode X (trim (qw_report_b64 w))))
               (\<lambda>report.
             if length report < SNP_REPORT_DATA_OFFSET + REPORT_DATA_LEN then Inl ReportUnreadable
             else if take REPORT_DATA_LEN (drop SNP_REPORT_DATA_OFFSET report) \<noteq> expected
             then Inl ReportDataMismatch
             else Inr \<lparr>ve_epoch = e, ve_report_b64 = qw_report_b64 w\<rparr>)))))"

subsection \<open>The decision\<close>

datatype recipient_trust_via = EpochEvidence | IdentitySignature

record accepted_recipient =
  ar_via :: recipient_trust_via
  ar_epoch :: "quote_epoch_claims option"
  ar_report_b64 :: "string option"
  ar_launch_digest :: "string option"

datatype recipient_error =
    RecipientEpochNotActive
  | RecipientInvalidTimestamp
  | EpochEvidenceRequired
  | EvidenceRejected epoch_evidence_error
  | LaunchDigestAllowlistMissing
  | LaunchDigestUnreadable
  | LaunchDigestNotAllowed string
  | IdentityRejected engine_trust_error

fun recipient_error_to_string :: "(string \<Rightarrow> string) \<Rightarrow> recipient_error \<Rightarrow> string" where
  "recipient_error_to_string dbg RecipientEpochNotActive = ''engine epoch is not active''"
| "recipient_error_to_string dbg RecipientInvalidTimestamp = ''invalid engine epoch timestamp''"
| "recipient_error_to_string dbg EpochEvidenceRequired =
     ''engine presented no per-epoch attestation evidence''"
| "recipient_error_to_string dbg (EvidenceRejected e) =
     ''engine epoch evidence rejected: '' @ epoch_evidence_error_to_string e"
| "recipient_error_to_string dbg LaunchDigestAllowlistMissing =
     ''engine launch digest allowlist is required but empty''"
| "recipient_error_to_string dbg LaunchDigestUnreadable =
     ''engine attestation carries no readable launch measurement''"
| "recipient_error_to_string dbg (LaunchDigestNotAllowed d) =
     ''engine launch digest '' @ d @ '' is not allowlisted''"
| "recipient_error_to_string dbg (IdentityRejected e) =
     ''engine identity trust rejected: '' @ engine_trust_error_to_string dbg e"

record recipient_policy =
  rp_identity_pins :: engine_identity_pins
  rp_launch_digest_allowlist :: "string set"
  rp_require_epoch_evidence :: bool
  rp_stage5_identity_deleted :: bool
  rp_require_launch_digest :: bool
  rp_epoch_clock_skew_ms :: nat

definition recipient_policy_default :: recipient_policy where
  "recipient_policy_default =
     \<lparr>rp_identity_pins = [], rp_launch_digest_allowlist = {}, rp_require_epoch_evidence = False,
      rp_stage5_identity_deleted = False, rp_require_launch_digest = False,
      rp_epoch_clock_skew_ms = 0\<rparr>"

definition parse_launch_digest_allowlist :: "string \<Rightarrow> string set" where
  "parse_launch_digest_allowlist raw =
     set (filter (\<lambda>s. s \<noteq> [])
       (map (\<lambda>s. to_ascii_lowercase (trim s))
         (split_on (\<lambda>c. c \<in> {CHR '','', CHR '' '', CHR 0x0A, CHR 0x09}) raw)))"

text \<open>What the sealed-time floor is read from.\<close>

record floor_host =
  fh_env :: environ
  fh_sgx :: bool
  fh_data_is_dir :: bool
  fh_temp_dir :: string
  fh_faults :: io_faults
  fh_file :: "string option"

definition read_floor_ms :: "floor_host \<Rightarrow> sealed_time_error + nat option" where
  "read_floor_ms H =
     read_floor_at (fh_faults H)
       (st_path (store_from_env (fh_env H) (fh_sgx H) (fh_data_is_dir H) (fh_temp_dir H))) (fh_file H)"

text \<open>\<open>.ok().flatten()\<close>: a floor that cannot be read counts as none.\<close>

definition sealed_floor :: "floor_host \<Rightarrow> nat option" where
  "sealed_floor H =
     (if sealed_time_enabled_from_env (fh_env H)
      then (case read_floor_ms H of Inl _ \<Rightarrow> None | Inr f \<Rightarrow> f) else None)"

definition check_epoch_window ::
    "floor_host \<Rightarrow> ephemeral_trust \<Rightarrow> nat \<Rightarrow> nat \<Rightarrow> recipient_error + unit" where
  "check_epoch_window H t now_ms skew_ms =
     bindE (map_err (\<lambda>_. RecipientInvalidTimestamp) (engine_parse_rfc3339_ms (et_not_before t)))
       (\<lambda>not_before.
     bindE (map_err (\<lambda>_. RecipientInvalidTimestamp) (engine_parse_rfc3339_ms (et_not_after t)))
       (\<lambda>not_after.
     if epoch_window_active now_ms not_before not_after skew_ms (sealed_floor H) then Inr ()
     else Inl RecipientEpochNotActive))"

definition check_launch_digest ::
    "'x engine_ext_scheme \<Rightarrow> recipient_policy \<Rightarrow> string option \<Rightarrow> recipient_error + string option" where
  "check_launch_digest X policy quote =
     (if \<not> rp_require_launch_digest policy \<and> rp_launch_digest_allowlist policy = {}
      then Inr (Option.bind quote (launch_digest_from_snp_quote X))
      else if rp_launch_digest_allowlist policy = {} then Inl LaunchDigestAllowlistMissing
      else bindE (ok_or LaunchDigestUnreadable (Option.bind quote (launch_digest_from_snp_quote X)))
             (\<lambda>digest.
           if digest \<in> rp_launch_digest_allowlist policy then Inr (Some digest)
           else Inl (LaunchDigestNotAllowed digest)))"

definition trust_subject :: "ephemeral_trust \<Rightarrow> epoch_subject" where
  "trust_subject t =
     \<lparr>es_engine_id = et_engine_id t, es_epoch_id = et_epoch_id t, es_not_before = et_not_before t,
      es_not_after = et_not_after t, es_mlkem_encapsulation_key = et_mlkem_encapsulation_key t,
      es_x25519_public = et_x25519_public t\<rparr>"

definition accept_engine_recipient ::
    "'x engine_ext_scheme \<Rightarrow> floor_host \<Rightarrow> recipient_policy \<Rightarrow> ephemeral_trust \<Rightarrow> string option
       \<Rightarrow> string option \<Rightarrow> nat \<Rightarrow> recipient_error + accepted_recipient" where
  "accept_engine_recipient X H policy t quote nonce now_ms =
     bindE (check_epoch_window H t now_ms (rp_epoch_clock_skew_ms policy)) (\<lambda>_.
     bindE (check_launch_digest X policy quote) (\<lambda>digest.
     let legacy =
           (if rp_require_epoch_evidence policy \<or> rp_stage5_identity_deleted policy
            then Inl EpochEvidenceRequired
            else bindE (map_err IdentityRejected
                          (verify_ephemeral_engine_trust X (rp_identity_pins policy) t now_ms
                             (rp_epoch_clock_skew_ms policy))) (\<lambda>_.
                 Inr \<lparr>ar_via = IdentitySignature, ar_epoch = None, ar_report_b64 = None,
                      ar_launch_digest = digest\<rparr>))
     in (case quote of
           None \<Rightarrow> legacy
         | Some q \<Rightarrow>
             (case verify_epoch_evidence X q (trust_subject t) nonce of
                Inr v \<Rightarrow>
                  Inr \<lparr>ar_via = EpochEvidence, ar_epoch = Some (ve_epoch v),
                       ar_report_b64 = Some (ve_report_b64 v), ar_launch_digest = digest\<rparr>
              | Inl e \<Rightarrow> if e \<noteq> Absent then Inl (EvidenceRejected e) else legacy))))"

subsection \<open>What acceptance means\<close>

lemma match_fields_ok:
  "match_fields e s = Inr () \<longleftrightarrow>
     qe_engine_id e = es_engine_id s \<and> qe_epoch_id e = es_epoch_id s \<and>
     qe_not_before e = es_not_before s \<and> qe_not_after e = es_not_after s \<and>
     qe_mlkem_encapsulation_key e = es_mlkem_encapsulation_key s \<and> qe_mlkem_encapsulation_key e \<noteq> [] \<and>
     qe_x25519_public e = es_x25519_public s \<and> qe_x25519_public e \<noteq> [] \<and>
     trim (qe_usage_signing_public e) \<noteq> []"
  by (auto simp: match_fields_def)

text \<open>The epoch claims name the keys the edge is about to use.\<close>

definition names_keys :: "quote_epoch_claims \<Rightarrow> ephemeral_trust \<Rightarrow> bool" where
  "names_keys e t \<longleftrightarrow>
     qe_engine_id e = et_engine_id t \<and> qe_epoch_id e = et_epoch_id t \<and>
     qe_not_before e = et_not_before t \<and> qe_not_after e = et_not_after t \<and>
     qe_mlkem_encapsulation_key e = et_mlkem_encapsulation_key t \<and>
     qe_x25519_public e = et_x25519_public t"

lemma verify_epoch_evidence_ok:
  assumes "verify_epoch_evidence X q (trust_subject t) nonce = Inr v"
  obtains w e report where "parse_wrapper X q = Some w" "wc_epoch (qw_claims w) = Some e" "names_keys e t"
    "et_mlkem_encapsulation_key t \<noteq> []" "et_x25519_public t \<noteq> []"
    "std_b64_decode X (trim (qw_report_b64 w)) = Inr report" "0x90 \<le> length report"
    "take 64 (drop 0x50 report) = wrapper_report_data X (qw_claims w) e nonce"
    "v = \<lparr>ve_epoch = e, ve_report_b64 = qw_report_b64 w\<rparr>"
proof -
  from assms obtain w e declared report where v: "parse_wrapper X q = Some w"
    "wc_epoch (qw_claims w) = Some e" "match_fields e (trust_subject t) = Inr ()"
    "std_b64_decode X (trim (qw_report_b64 w)) = Inr report"
    "\<not> length report < SNP_REPORT_DATA_OFFSET + REPORT_DATA_LEN"
    "take REPORT_DATA_LEN (drop SNP_REPORT_DATA_OFFSET report) = wrapper_report_data X (qw_claims w) e nonce"
    "v = \<lparr>ve_epoch = e, ve_report_b64 = qw_report_b64 w\<rparr>"
    by (auto simp: verify_epoch_evidence_def result_simps Let_def split: if_splits)
  from v(3) have "names_keys e t" "et_mlkem_encapsulation_key t \<noteq> []" "et_x25519_public t \<noteq> []"
    by (auto simp: match_fields_ok trust_subject_def names_keys_def)
  with v that show thesis by (simp add: SNP_REPORT_DATA_OFFSET_def REPORT_DATA_LEN_def)
qed

text \<open>Decoding the same JSON into the wrapper and into its head gives the same head.\<close>

definition same_head :: "'x engine_ext_scheme \<Rightarrow> bool" where
  "same_head X \<longleftrightarrow> (\<forall>b w. wrapper_from_slice X b = Inr w \<longrightarrow>
     head_from_slice X b = Inr \<lparr>qh_v = qw_v w, qh_kind = qw_kind w, qh_report_b64 = qw_report_b64 w\<rparr>)"

lemma launch_digest_of_wrapper:
  assumes "same_head X" "parse_wrapper X q = Some w" "launch_digest_from_snp_quote X q = Some d"
    and "std_b64_decode X (trim (qw_report_b64 w)) = Inr report"
  shows "0x90 + 48 \<le> length report \<and>
    d = compose_launch_digest X (hex_encode X (take 48 (drop 0x90 report)))"
proof -
  from assms(2) obtain raw where raw: "decode_base64url X (trim q) = Inr raw" "wrapper_from_slice X raw = Inr w"
    by (auto simp: parse_wrapper_def split: sum.splits if_splits)
  from raw(2) assms(1) have "head_from_slice X raw =
      Inr \<lparr>qh_v = qw_v w, qh_kind = qw_kind w, qh_report_b64 = qw_report_b64 w\<rparr>"
    by (simp add: same_head_def)
  with assms(3,4) raw(1) show ?thesis
    by (auto simp: launch_digest_from_snp_quote_def snp_report_from_quote_def measurement_from_snp_report_def
        bind_eq_Some_conv split: if_splits)
qed

lemma check_launch_digest_ok:
  assumes "check_launch_digest X policy quote = Inr digest"
    and "rp_require_launch_digest policy \<or> rp_launch_digest_allowlist policy \<noteq> {}"
  obtains q d where "quote = Some q" "launch_digest_from_snp_quote X q = Some d" "digest = Some d"
    "d \<in> rp_launch_digest_allowlist policy"
  using assms
  by (auto simp: check_launch_digest_def result_simps bind_eq_Some_conv split: if_splits)

lemma accept_evidence:
  assumes "accept_engine_recipient X H policy t quote nonce now = Inr acc"
    and "rp_require_epoch_evidence policy \<or> rp_stage5_identity_deleted policy"
  obtains q v digest where "quote = Some q" "verify_epoch_evidence X q (trust_subject t) nonce = Inr v"
    "check_launch_digest X policy quote = Inr digest"
    "check_epoch_window H t now (rp_epoch_clock_skew_ms policy) = Inr ()"
    "acc = \<lparr>ar_via = EpochEvidence, ar_epoch = Some (ve_epoch v), ar_report_b64 = Some (ve_report_b64 v),
            ar_launch_digest = digest\<rparr>"
proof -
  from assms obtain digest where c: "check_epoch_window H t now (rp_epoch_clock_skew_ms policy) = Inr ()"
    "check_launch_digest X policy quote = Inr digest"
    by (auto simp: accept_engine_recipient_def result_simps)
  with assms obtain q where q: "quote = Some q"
    by (cases quote) (auto simp: accept_engine_recipient_def Let_def)
  with assms c obtain v where "verify_epoch_evidence X q (trust_subject t) nonce = Inr v"
    by (cases "verify_epoch_evidence X q (trust_subject t) nonce")
      (auto simp: accept_engine_recipient_def Let_def split: if_splits)
  with assms c q that show thesis by (auto simp: accept_engine_recipient_def Let_def)
qed

lemma accepted_is_attested:
  assumes "accept_engine_recipient X H policy t quote nonce now = Inr acc"
    and "rp_require_epoch_evidence policy \<or> rp_stage5_identity_deleted policy"
    and "rp_require_launch_digest policy \<or> rp_launch_digest_allowlist policy \<noteq> {}"
    and "same_head X"
  shows "\<exists>q w e report not_before not_after.
    quote = Some q \<and> parse_wrapper X q = Some w \<and> wc_epoch (qw_claims w) = Some e \<and> names_keys e t \<and>
    std_b64_decode X (trim (qw_report_b64 w)) = Inr report \<and>
    take 64 (drop 0x50 report) = wrapper_report_data X (qw_claims w) e nonce \<and>
    compose_launch_digest X (hex_encode X (take 48 (drop 0x90 report))) \<in> rp_launch_digest_allowlist policy \<and>
    ar_via acc = EpochEvidence \<and> ar_report_b64 acc = Some (qw_report_b64 w) \<and>
    engine_parse_rfc3339_ms (et_not_before t) = Inr not_before \<and>
    engine_parse_rfc3339_ms (et_not_after t) = Inr not_after \<and>
    epoch_window_active now not_before not_after (rp_epoch_clock_skew_ms policy) (sealed_floor H)"
proof -
  from assms(1,2) obtain q v digest where a: "quote = Some q"
    "verify_epoch_evidence X q (trust_subject t) nonce = Inr v"
    "check_launch_digest X policy quote = Inr digest"
    "check_epoch_window H t now (rp_epoch_clock_skew_ms policy) = Inr ()"
    "acc = \<lparr>ar_via = EpochEvidence, ar_epoch = Some (ve_epoch v), ar_report_b64 = Some (ve_report_b64 v),
            ar_launch_digest = digest\<rparr>"
    by (rule accept_evidence)
  from a(2) obtain w e report where w: "parse_wrapper X q = Some w" "wc_epoch (qw_claims w) = Some e"
    "names_keys e t" "std_b64_decode X (trim (qw_report_b64 w)) = Inr report"
    "take 64 (drop 0x50 report) = wrapper_report_data X (qw_claims w) e nonce"
    "v = \<lparr>ve_epoch = e, ve_report_b64 = qw_report_b64 w\<rparr>"
    by (rule verify_epoch_evidence_ok)
  from a(3) assms(3) obtain d where d: "launch_digest_from_snp_quote X q = Some d"
    "d \<in> rp_launch_digest_allowlist policy"
    by (rule check_launch_digest_ok) (use a(1) in auto)
  from launch_digest_of_wrapper [OF assms(4) w(1) d(1) w(4)] d(2)
  have "compose_launch_digest X (hex_encode X (take 48 (drop 0x90 report))) \<in> rp_launch_digest_allowlist policy"
    by simp
  moreover from a(4) obtain not_before not_after where
    "engine_parse_rfc3339_ms (et_not_before t) = Inr not_before"
    "engine_parse_rfc3339_ms (et_not_after t) = Inr not_after"
    "epoch_window_active now not_before not_after (rp_epoch_clock_skew_ms policy) (sealed_floor H)"
    by (auto simp: check_epoch_window_def result_simps split: if_splits)
  ultimately show ?thesis using a(1,5) w by auto
qed

text \<open>C7. Customer plaintext goes only to attested engines: under a policy that requires epoch evidence
  and a launch digest, whatever the gateway presents, a recipient is accepted only if one and the same
  report carries, as report data, the digest over this very engine, epoch, window and keys, and, as
  measurement, an allowlisted build; that report is handed on, for the AMD certificate chain; and the
  epoch is active at the time and not past the sealed floor. The pinned identities play no part.\<close>

theorem recipient_is_attested:
  assumes "accept_engine_recipient X H policy t quote nonce now = Inr acc"
    and "rp_require_epoch_evidence policy \<or> rp_stage5_identity_deleted policy"
    and "rp_require_launch_digest policy \<or> rp_launch_digest_allowlist policy \<noteq> {}"
    and "same_head X"
  shows "\<exists>q w e report not_before not_after.
    quote = Some q \<and> parse_wrapper X q = Some w \<and> wc_epoch (qw_claims w) = Some e \<and> names_keys e t \<and>
    std_b64_decode X (trim (qw_report_b64 w)) = Inr report \<and>
    take 64 (drop 0x50 report) = wrapper_report_data X (qw_claims w) e nonce \<and>
    compose_launch_digest X (hex_encode X (take 48 (drop 0x90 report))) \<in> rp_launch_digest_allowlist policy \<and>
    ar_via acc = EpochEvidence \<and> ar_report_b64 acc = Some (qw_report_b64 w) \<and>
    engine_parse_rfc3339_ms (et_not_before t) = Inr not_before \<and>
    engine_parse_rfc3339_ms (et_not_after t) = Inr not_after \<and>
    epoch_window_active now not_before not_after (rp_epoch_clock_skew_ms policy) (sealed_floor H)"
  using assms by (rule accepted_is_attested)

subsection \<open>The canonical string\<close>

definition nul_free :: "string list \<Rightarrow> bool" where
  "nul_free ps \<longleftrightarrow> list_all (\<lambda>p. CHR 0x00 \<notin> set p) ps"

lemma count_join_nul:
  "ps \<noteq> [] \<Longrightarrow> count_list (join_nul ps) (CHR 0x00) =
     length ps - 1 + sum_list (map (\<lambda>p. count_list p (CHR 0x00)) ps)"
  by (induction ps rule: join_nul.induct) auto

lemma nul_free_count: "nul_free ps \<longleftrightarrow> sum_list (map (\<lambda>p. count_list p (CHR 0x00)) ps) = 0"
  by (induction ps) (simp_all add: nul_free_def count_list_0_iff)

lemma split_first_nul:
  assumes "a @ CHR 0x00 # s = b @ CHR 0x00 # t" "CHR 0x00 \<notin> set a" "CHR 0x00 \<notin> set b"
  shows "a = b \<and> s = t"
proof -
  have "takeWhile (\<lambda>c. c \<noteq> CHR 0x00) (a @ CHR 0x00 # s) = a"
    "takeWhile (\<lambda>c. c \<noteq> CHR 0x00) (b @ CHR 0x00 # t) = b"
    using assms(2,3) by (auto simp: takeWhile_append takeWhile_eq_all_conv)
  with assms(1) have "a = b" by metis
  with assms(1) show ?thesis by simp
qed

text \<open>As many parts, one side free of the separator: then the joined strings determine the parts. The
  other side need not be free of it, since a separator inside a part would be one too many.\<close>

lemma join_nul_injective:
  assumes "join_nul ps = join_nul qs" "length ps = length qs" "nul_free ps"
  shows "ps = qs"
proof (cases "ps = []")
  case True
  with assms(2) show ?thesis by simp
next
  case False
  with assms(2) have "qs \<noteq> []" by auto
  with False assms count_join_nul [of ps] count_join_nul [of qs] have "nul_free qs"
    by (simp add: nul_free_count)
  with assms show ?thesis
  proof (induction ps arbitrary: qs rule: join_nul.induct)
    case (2 s)
    then show ?case by (cases qs) auto
  next
    case (3 s s' ss)
    then obtain u u' us where qs: "qs = u # u' # us" by (metis Suc_length_conv)
    from 3 qs have "s = u \<and> join_nul (s' # ss) = join_nul (u' # us)"
      by (intro split_first_nul) (auto simp: nul_free_def)
    with 3 qs show ?case by (simp add: nul_free_def)
  qed simp
qed

definition wrapper_parts :: "wrapper_claims \<Rightarrow> quote_epoch_claims \<Rightarrow> string option \<Rightarrow> string list" where
  "wrapper_parts c e nonce =
     bind_epoch_parts e (wc_tls_client_cert_sha256 c)
       (case wc_engine_binary_sha256 c of Some m \<Rightarrow> m | None \<Rightarrow> [])
       (case wc_vllm_binary_sha256 c of Some m \<Rightarrow> m | None \<Rightarrow> []) (wc_issued_at c) nonce"

definition sha512_collision_free :: "'x engine_ext_scheme \<Rightarrow> string \<Rightarrow> string \<Rightarrow> bool" where
  "sha512_collision_free X s s' \<longleftrightarrow>
     (take 64 (sha512 X (as_bytes s)) = take 64 (sha512 X (as_bytes s')) \<longrightarrow> s = s')"

text \<open>C16. Attested keys cannot be swapped: suppose the report in an accepted wrapper was made by the
  hardware for some epoch, certificate, binaries, time and nonce without NUL bytes in them. Then, unless
  SHA-512 collides on the two canonical strings at hand, the engine, window and keys the edge encrypts
  to are exactly the ones of that epoch, the usage key reported is its usage key, and the nonce is the
  one the caller asked for; NUL bytes in what the gateway presents do not help it.\<close>

theorem attested_keys_cannot_be_swapped:
  assumes "verify_epoch_evidence X q (trust_subject t) nonce = Inr v"
    and "parse_wrapper X q = Some w" "std_b64_decode X (trim (qw_report_b64 w)) = Inr report"
    and "take 64 (drop 0x50 report) = bind_epoch_report_data_64 X e1 cert1 bin1 vllm1 at1 nonce1"
    and "nul_free (bind_epoch_parts e1 cert1 bin1 vllm1 at1 nonce1)"
    and "sha512_collision_free X (join_nul (bind_epoch_parts e1 cert1 bin1 vllm1 at1 nonce1))
      (join_nul (wrapper_parts (qw_claims w) (ve_epoch v) nonce))"
  shows "names_keys e1 t \<and> qe_usage_signing_public e1 = qe_usage_signing_public (ve_epoch v) \<and>
    (case nonce of Some n \<Rightarrow> n | None \<Rightarrow> []) = (case nonce1 of Some n \<Rightarrow> n | None \<Rightarrow> [])"
proof -
  let ?parts1 = "bind_epoch_parts e1 cert1 bin1 vllm1 at1 nonce1"
  from assms(1) obtain w' e report' where w: "parse_wrapper X q = Some w'" "wc_epoch (qw_claims w') = Some e"
    "names_keys e t" "std_b64_decode X (trim (qw_report_b64 w')) = Inr report'"
    "take 64 (drop 0x50 report') = wrapper_report_data X (qw_claims w') e nonce"
    "v = \<lparr>ve_epoch = e, ve_report_b64 = qw_report_b64 w'\<rparr>"
    by (rule verify_epoch_evidence_ok)
  let ?parts = "wrapper_parts (qw_claims w) e nonce"
  from w assms(2,3,4) have "take 64 (sha512 X (as_bytes (join_nul ?parts1))) =
      take 64 (sha512 X (as_bytes (join_nul ?parts)))"
    by (simp add: wrapper_report_data_def bind_epoch_report_data_64_def wrapper_parts_def)
  with assms(6) w(6) have "join_nul ?parts1 = join_nul ?parts" by (simp add: sha512_collision_free_def)
  then have "?parts1 = ?parts"
    by (intro join_nul_injective assms(5)) (simp_all add: bind_epoch_parts_def wrapper_parts_def)
  with w(3,6) show ?thesis by (simp add: bind_epoch_parts_def wrapper_parts_def names_keys_def)
qed

subsection \<open>A concrete engine\<close>

definition sample_epoch :: quote_epoch_claims where
  "sample_epoch = \<lparr>qe_engine_id = ''e'', qe_epoch_id = ''1'', qe_not_before = ''1970-01-01T00:00:00Z'',
     qe_not_after = ''1970-01-01T00:00:01Z'', qe_mlkem_encapsulation_key = ''m'', qe_x25519_public = ''x'',
     qe_usage_signing_public = ''u''\<rparr>"

definition sample_trust :: ephemeral_trust where
  "sample_trust = \<lparr>et_engine_id = ''e'', et_epoch_id = ''1'', et_not_before = ''1970-01-01T00:00:00Z'',
     et_not_after = ''1970-01-01T00:00:01Z'', et_mlkem_encapsulation_key = ''m'', et_x25519_public = ''x'',
     et_ed25519_public = [], et_identity_signature = []\<rparr>"

definition sample_wrapper :: quote_wrapper where
  "sample_wrapper = \<lparr>qw_v = 2, qw_kind = ''sev-snp'', qw_report_b64 = replicate 192 (CHR ''a''),
     qw_report_data_b64 = replicate 64 (CHR ''a''),
     qw_claims = \<lparr>wc_tls_client_cert_sha256 = ''c'', wc_engine_binary_sha256 = None,
       wc_vllm_binary_sha256 = None, wc_epoch = Some sample_epoch, wc_issued_at = ''i''\<rparr>\<rparr>"

definition engine_crates :: "'m \<Rightarrow> 'm engine_ext_scheme" where
  "engine_crates m = chal_ext.extend chal_crates
     \<lparr>b64url_pad_decode = \<lambda>s. Inl [], sha512 = \<lambda>b. replicate 64 97, vk_from_bytes = Inr,
      pins_from_str = \<lambda>s. Inl [], pins_to_vec = \<lambda>p. [], wrapper_from_slice = \<lambda>b. Inr sample_wrapper,
      head_from_slice = \<lambda>b. Inr \<lparr>qh_v = 2, qh_kind = ''sev-snp'',
        qh_report_b64 = replicate 192 (CHR ''a'')\<rparr>, \<dots> = m\<rparr>"

definition sample_policy :: recipient_policy where
  "sample_policy = recipient_policy_default
     \<lparr>rp_launch_digest_allowlist := {replicate 64 (CHR ''a'')}, rp_require_epoch_evidence := True,
      rp_require_launch_digest := True\<rparr>"

definition sample_floor_host :: floor_host where
  "sample_floor_host = \<lparr>fh_env = Map.empty, fh_sgx = False, fh_data_is_dir = False, fh_temp_dir = ''t'',
     fh_faults = no_faults, fh_file = None\<rparr>"

lemma sample_times:
  "engine_parse_rfc3339_ms ''1970-01-01T00:00:00Z'' = Inr 0"
  "engine_parse_rfc3339_ms ''1970-01-01T00:00:01Z'' = Inr 1000"
proof -
  have t: "utc_body (trim ''1970-01-01T00:00:00Z'') = Some ''1970-01-01T00:00:00''"
    "utc_body (trim ''1970-01-01T00:00:01Z'') = Some ''1970-01-01T00:00:01''"
    "split_once (CHR ''T'') ''1970-01-01T00:00:00'' = Some (''1970-01-01'', ''00:00:00'')"
    "split_once (CHR ''T'') ''1970-01-01T00:00:01'' = Some (''1970-01-01'', ''00:00:01'')"
    "split_once (CHR ''.'') ''00'' = None" "split_once (CHR ''.'') ''01'' = None"
    "split_on (\<lambda>c. c = CHR ''-'') ''1970-01-01'' = [''1970'', ''01'', ''01'']"
    "split_on (\<lambda>c. c = CHR '':'') ''00:00:00'' = [''00'', ''00'', ''00'']"
    "split_on (\<lambda>c. c = CHR '':'') ''00:00:01'' = [''00'', ''00'', ''01'']"
    by code_simp+
  have d: "digit_val (CHR ''0'') = Some 0" "digit_val (CHR ''1'') = Some 1" "digit_val (CHR ''7'') = Some 7"
    "digit_val (CHR ''9'') = Some 9"
    by code_simp+
  have n: "parse_i64 ''1970'' = Some 1970" "parse_u32 ''01'' = Some 1" "parse_u32 ''00'' = Some 0"
    by (simp_all add: parse_i64_def parse_u32_def parse_uint_def d)
  have "engine_days_from_civil 1970 1 1 = Inr 0"
    by code_simp
  then show "engine_parse_rfc3339_ms ''1970-01-01T00:00:00Z'' = Inr 0"
    "engine_parse_rfc3339_ms ''1970-01-01T00:00:01Z'' = Inr 1000"
    by (simp_all add: engine_parse_rfc3339_ms_def t n parse_part_def engine_days_in_month_def checked_u64_def)
qed

lemma sample_text: "trim (replicate 64 (CHR ''a'')) = replicate 64 (CHR ''a'')"
  "trim (replicate 192 (CHR ''a'')) = replicate 192 (CHR ''a'')"
  "as_bytes (replicate n (CHR ''a'')) = replicate n 97"
proof -
  have "is_graphic (CHR ''a'')" by code_simp
  then show "trim (replicate 64 (CHR ''a'')) = replicate 64 (CHR ''a'')"
    "trim (replicate 192 (CHR ''a'')) = replicate 192 (CHR ''a'')"
    by (auto intro!: trim_graphic)
qed (simp add: as_bytes_def)

lemma engine_crates_simps:
  "b64url_decode (engine_crates m) s = Inr (as_bytes s)" "std_b64_decode (engine_crates m) s = Inr (as_bytes s)"
  "sha512 (engine_crates m) b = replicate 64 97" "hex_encode (engine_crates m) b = replicate 64 (CHR ''a'')"
  "wrapper_from_slice (engine_crates m) b = Inr sample_wrapper"
  "head_from_slice (engine_crates m) b = Inr \<lparr>qh_v = 2, qh_kind = ''sev-snp'',
        qh_report_b64 = replicate 192 (CHR ''a'')\<rparr>"
  by (simp_all add: engine_crates_def chal_crates_def chal_ext.defs)

lemma sample_head: "same_head (engine_crates m)"
  by (simp add: same_head_def engine_crates_simps sample_wrapper_def)

lemma sample_wrapper_parsed: "parse_wrapper (engine_crates m) q = Some sample_wrapper"
  by (simp add: parse_wrapper_def decode_base64url_def engine_crates_simps) (simp add: sample_wrapper_def)

lemma sample_report_data: "wrapper_report_data (engine_crates m) c e n = replicate 64 97"
  by (simp add: wrapper_report_data_def bind_epoch_report_data_64_def engine_crates_simps)

lemma sample_evidence:
  "verify_epoch_evidence (engine_crates m) q (trust_subject sample_trust) None =
     Inr \<lparr>ve_epoch = sample_epoch, ve_report_b64 = replicate 192 (CHR ''a'')\<rparr>"
proof -
  have "trim ''u'' \<noteq> []" by code_simp
  then have "match_fields sample_epoch (trust_subject sample_trust) = Inr ()"
    by (simp add: match_fields_ok sample_epoch_def trust_subject_def sample_trust_def)
  moreover have "wc_epoch (qw_claims sample_wrapper) = Some sample_epoch"
    "qw_report_b64 sample_wrapper = replicate 192 (CHR ''a'')"
    "qw_report_data_b64 sample_wrapper = replicate 64 (CHR ''a'')"
    by (simp_all add: sample_wrapper_def)
  ultimately show ?thesis
    by (simp add: verify_epoch_evidence_def sample_wrapper_parsed sample_report_data engine_crates_simps sample_text
        REPORT_DATA_LEN_def SNP_REPORT_DATA_OFFSET_def del: replicate.simps)
qed

lemma sample_digest: "launch_digest_from_snp_quote (engine_crates m) q = Some (replicate 64 (CHR ''a''))"
  by (simp add: launch_digest_from_snp_quote_def snp_report_from_quote_def decode_base64url_def
      engine_crates_simps sample_text measurement_from_snp_report_def compose_launch_digest_def
      del: replicate.simps)

lemma sample_recipient:
  assumes "replicate 64 (CHR ''a'') \<in> rp_launch_digest_allowlist policy" "sealed_floor H = None"
  shows "accept_engine_recipient (engine_crates m) H policy sample_trust (Some q) None 0 =
     Inr \<lparr>ar_via = EpochEvidence, ar_epoch = Some sample_epoch,
          ar_report_b64 = Some (replicate 192 (CHR ''a'')), ar_launch_digest = Some (replicate 64 (CHR ''a''))\<rparr>"
proof -
  from assms(2) have "check_epoch_window H sample_trust 0 (rp_epoch_clock_skew_ms policy) = Inr ()"
    by (simp add: check_epoch_window_def sample_trust_def sample_times epoch_window_active_def)
  moreover from assms(1)
  have "check_launch_digest (engine_crates m) policy (Some q) = Inr (Some (replicate 64 (CHR ''a'')))"
    by (auto simp: check_launch_digest_def sample_digest simp del: replicate.simps)
  ultimately show ?thesis by (simp add: accept_engine_recipient_def sample_evidence Let_def)
qed

lemma sample_floor: "sealed_floor sample_floor_host = None"
  by (simp add: sealed_floor_def sealed_time_enabled_from_env_def sample_floor_host_def)

lemma sample_allowlist: "replicate 64 (CHR ''a'') \<in> rp_launch_digest_allowlist sample_policy"
  by (simp add: sample_policy_def)

theorem recipient_is_attested_witness:
  "\<exists>w. parse_wrapper (engine_crates ()) [] = Some w \<and>
     wc_epoch (qw_claims w) = Some sample_epoch \<and> names_keys sample_epoch sample_trust"
  using recipient_is_attested [OF sample_recipient [OF sample_allowlist sample_floor, of "()" "[]"] _ _ sample_head]
  by (simp add: sample_policy_def recipient_policy_default_def sample_wrapper_parsed sample_wrapper_def)

theorem attested_keys_cannot_be_swapped_witness:
  "names_keys sample_epoch sample_trust"
proof -
  have c: "nul_free (bind_epoch_parts sample_epoch ''c'' [] [] ''i'' None)" by code_simp
  have r: "std_b64_decode (engine_crates ()) (trim (qw_report_b64 sample_wrapper)) = Inr (replicate 192 97)"
    by (simp only: sample_wrapper_def quote_wrapper.simps sample_text engine_crates_simps)
  have d: "take 64 (drop 0x50 (replicate 192 97)) =
      bind_epoch_report_data_64 (engine_crates ()) sample_epoch ''c'' [] [] ''i'' None"
    by (simp add: bind_epoch_report_data_64_def engine_crates_simps)
  have "wrapper_parts (qw_claims sample_wrapper) sample_epoch None =
      bind_epoch_parts sample_epoch ''c'' [] [] ''i'' None"
    by (simp add: wrapper_parts_def sample_wrapper_def)
  then have h: "sha512_collision_free (engine_crates ())
      (join_nul (bind_epoch_parts sample_epoch ''c'' [] [] ''i'' None))
      (join_nul (wrapper_parts (qw_claims sample_wrapper)
        (ve_epoch \<lparr>ve_epoch = sample_epoch, ve_report_b64 = replicate 192 (CHR ''a'')\<rparr>) None))"
    by (simp only: verified_epoch_evidence.simps sha512_collision_free_def simp_thms)
  show ?thesis
    using attested_keys_cannot_be_swapped [OF sample_evidence [of "()" "[]"] sample_wrapper_parsed r d c h] by (rule conjunct1)
qed

end
