(* ===== verification/Gateway_Api.thy ===== *)
theory Gateway_Api
  imports Attest_Snp Engine_Challenge Engine_Recipient Profile Http1_Body
begin

text \<open>
  \<open>crates/openapi-platform-cvm/src/gateway_ope_api.rs\<close>: the client the CVM edge dials the gateway's
  private OPE plane with, and its configuration. The HTTP agent (\<open>ureq\<close>), TLS (\<open>rustls\<close>), the loader of
  certificates (\<open>attested-mtls\<close>) and serde are parameters. The state is the log of the requests handed
  to the agent, which is not in the source; the agent's answer may depend on everything sent so far, so
  a theorem over all agents covers every gateway.
\<close>

subsection \<open>Data\<close>

record gateway_config =
  gc_base_url :: string
  gc_token :: "string option"
  gc_client_cert_pem :: "string option"
  gc_client_key_pem :: "string option"
  gc_ca_pem :: "string option"
  gc_insecure_skip_verify :: bool
  gc_connect_timeout_secs :: nat
  gc_read_timeout_secs :: nat
  gc_engine_identity_pins :: engine_identity_pins
  gc_epoch_clock_skew_secs :: nat
  gc_recipient_policy :: recipient_policy
  gc_verify_engine_snp_chain :: bool

text \<open>The last constructor is not in the source: it is a panic, from slicing inside a character.\<close>

datatype gateway_error =
    GwConfig string
  | GwTls string
  | GwTransport string
  | GwHttp nat string
  | GwDecode string
  | GwPanic

fun gateway_error_to_string :: "gateway_error \<Rightarrow> string" where
  "gateway_error_to_string (GwConfig e) = ''config: '' @ e"
| "gateway_error_to_string (GwTls e) = ''tls: '' @ e"
| "gateway_error_to_string (GwTransport e) = ''transport: '' @ e"
| "gateway_error_to_string (GwHttp status body) = ''http '' @ show_nat status @ '': '' @ body"
| "gateway_error_to_string (GwDecode e) = ''decode: '' @ e"
| "gateway_error_to_string GwPanic = []"

record health_response =
  hs_ok :: bool
  hs_plane :: string
  hs_traffic_class_author :: string
  hs_auth :: "string option"
  hs_peer_pin :: "string option"

record inventory_engine =
  ie_engine_id :: string
  ie_engine_set :: string
  ie_models :: "string list"
  ie_healthy :: bool
  ie_ready_sessions :: nat

record inventory_response =
  ir_engines :: "inventory_engine list"
  ir_key_set :: "string option"

record preassign_request =
  pq_engine_id :: string
  pq_key_set :: "string option"
  pq_model :: "string option"
  pq_openapi_key_id :: "string option"

record preassign_hybrid =
  ph_kex :: string
  ph_mlkem_encapsulation_key :: string
  ph_x25519_public :: string

record preassign_identity =
  pi_ed25519_public :: string
  pi_identity_signature :: string

record preassign_cpu_tee =
  pc_kind :: string
  pc_quote :: string

text \<open>The attestation block holds one field, the CPU evidence.\<close>

record preassign_trust =
  pt_engine_id :: string
  pt_epoch_id :: string
  pt_not_before :: string
  pt_not_after :: string
  pt_hybrid :: preassign_hybrid
  pt_identity :: preassign_identity
  pt_attestation :: "preassign_cpu_tee option option"

record preassign_response =
  ps_assign_id :: string
  ps_engine_id :: string
  ps_engine_set :: string
  ps_key_set :: string
  ps_openapi_key_id :: string
  ps_expires_at_ms :: nat
  ps_ttl_ms :: nat
  ps_trust :: preassign_trust

record ope_dispatch_request =
  dr_engine_id :: string
  dr_conversation_id :: "string option"
  dr_ephemeral_epoch :: "string option"
  dr_openapi_key_id :: "string option"
  dr_assign_id :: "string option"
  dr_body :: bytes

type_synonym header_list = "(string \<times> string) list"

record dispatch_response =
  dp_status :: nat
  dp_headers :: header_list
  dp_body :: bytes

definition cpu_quote :: "preassign_trust \<Rightarrow> string option" where
  "cpu_quote t =
     (case pt_attestation t of
        None \<Rightarrow> None
      | Some None \<Rightarrow> None
      | Some (Some c) \<Rightarrow> if trim (pc_quote c) = [] then None else Some (trim (pc_quote c)))"

definition find_header :: "header_list \<Rightarrow> string \<Rightarrow> string option" where
  "find_header hs name = map_option snd (find (\<lambda>(k, _). eq_ignore_ascii_case k name) hs)"

definition dispatch_header :: "dispatch_response \<Rightarrow> string \<Rightarrow> string option" where
  "dispatch_header r name = find_header (dp_headers r) name"

subsection \<open>The crates\<close>

record loaded_tls =
  lt_base_url :: string
  lt_client_cert_pem :: "string option"
  lt_client_key_pem :: "string option"
  lt_ca_pem :: "string option"
  lt_insecure_skip_verify :: bool

record gw_ext = snp_ext +
  load_client_tls :: "string \<Rightarrow> string option \<Rightarrow> string option \<Rightarrow> string option \<Rightarrow> bool \<Rightarrow> string + loaded_tls"
  pem_certs :: "bytes \<Rightarrow> string + bytes list"
  pem_private_key :: "bytes \<Rightarrow> string + bytes option"
  root_add :: "bytes \<Rightarrow> string + unit"
  client_auth_cert :: "bytes list \<Rightarrow> bytes \<Rightarrow> string + unit"
  debug_str :: "string \<Rightarrow> string"
  health_from_str :: "string \<Rightarrow> string + health_response"
  inventory_from_str :: "string \<Rightarrow> string + inventory_response"
  preassign_from_str :: "string \<Rightarrow> string + preassign_response"
  challenge_from_str :: "string \<Rightarrow> string + wire_response"
  preassign_to_vec :: "preassign_request \<Rightarrow> string + bytes"

record http_out =
  ho_method :: string
  ho_url :: string
  ho_headers :: header_list
  ho_body :: "bytes option"

text \<open>An answer: the status, the headers, what reading the body as text gives, and the body as a
  stream.\<close>

record http_answer =
  ha_status :: nat
  ha_headers :: header_list
  ha_text :: "string + string"
  ha_reader :: reader

type_synonym http_agent = "http_out list \<Rightarrow> http_out \<Rightarrow> string + http_answer"

subsection \<open>Configuration\<close>

definition opt_env :: "environ \<Rightarrow> string \<Rightarrow> string option" where
  "opt_env env name =
     (case env name of None \<Rightarrow> None | Some s \<Rightarrow> if trim s = [] then None else Some s)"

definition duration_secs_from_env :: "environ \<Rightarrow> string \<Rightarrow> nat \<Rightarrow> nat" where
  "duration_secs_from_env env name default_secs =
     (case Option.bind (opt_env env name) (\<lambda>v. parse_u64 (trim v)) of
        Some n \<Rightarrow> if 0 < n then n else default_secs | None \<Rightarrow> default_secs)"

definition truthy_env :: "environ \<Rightarrow> string \<Rightarrow> bool" where
  "truthy_env env name =
     (case env name of
        None \<Rightarrow> False | Some v \<Rightarrow> to_ascii_lowercase (trim v) \<in> {''1'', ''true'', ''yes''})"

definition gateway_from_parts ::
    "'x gw_ext_scheme \<Rightarrow> environ \<Rightarrow> string \<Rightarrow> string option \<Rightarrow> string option \<Rightarrow> string option
       \<Rightarrow> string option \<Rightarrow> bool \<Rightarrow> gateway_error + gateway_config" where
  "gateway_from_parts X env base_url token cert key ca insecure =
     bindE (map_err GwConfig (load_client_tls X base_url cert key ca insecure)) (\<lambda>l.
     Inr \<lparr>gc_base_url = lt_base_url l,
          gc_token = (case token of Some s \<Rightarrow> if s = [] then None else Some s | None \<Rightarrow> None),
          gc_client_cert_pem = lt_client_cert_pem l, gc_client_key_pem = lt_client_key_pem l,
          gc_ca_pem = lt_ca_pem l, gc_insecure_skip_verify = lt_insecure_skip_verify l,
          gc_connect_timeout_secs = 10,
          gc_read_timeout_secs = duration_secs_from_env env ''OPENAPI_GATEWAY_OPE_API_READ_TIMEOUT_SECS'' 300,
          gc_engine_identity_pins = [], gc_epoch_clock_skew_secs = 300,
          gc_recipient_policy = recipient_policy_default\<lparr>rp_epoch_clock_skew_ms := 300000\<rparr>,
          gc_verify_engine_snp_chain = False\<rparr>)"

definition validate_for_profile :: "gateway_config \<Rightarrow> edge_profile \<Rightarrow> gateway_error + unit" where
  "validate_for_profile cfg profile =
     (if gc_insecure_skip_verify cfg \<and> is_prod profile
      then Inl (GwConfig ''OPENAPI_GATEWAY_OPE_API_TLS_INSECURE_SKIP_VERIFY forbidden when OPENAPI_PROFILE=prod'')
      else if is_prod profile \<and> \<not> starts_with (gc_base_url cfg) ''https://''
      then Inl (GwConfig ''OPENAPI_GATEWAY_OPE_API_URL must use https:// when OPENAPI_PROFILE=prod'')
      else if is_prod profile \<and> gc_engine_identity_pins cfg = [] \<and>
              \<not> rp_require_epoch_evidence (gc_recipient_policy cfg) \<and>
              \<not> rp_stage5_identity_deleted (gc_recipient_policy cfg)
      then Inl (GwConfig ''OPENAPI_ENGINE_IDENTITY_PINS_JSON required in prod unless OPENAPI_OPE_REQUIRE_EPOCH_EVIDENCE=1 or OPENAPI_STAGE5_IDENTITY_DELETED=1'')
      else if rp_require_launch_digest (gc_recipient_policy cfg) \<and>
              rp_launch_digest_allowlist (gc_recipient_policy cfg) = {}
      then Inl (GwConfig ''OPENAPI_ENGINE_LAUNCH_DIGEST_ALLOWLIST required when OPENAPI_OPE_REQUIRE_ENGINE_LAUNCH_DIGEST=1'')
      else Inr ())"

text \<open>The pins: mandatory unless another check replaces them.\<close>

definition load_identity_pins ::
    "'x gw_ext_scheme \<Rightarrow> environ \<Rightarrow> bool \<Rightarrow> gateway_error + engine_identity_pins" where
  "load_identity_pins X env pins_optional =
     (case opt_env env ''OPENAPI_ENGINE_IDENTITY_PINS_JSON'' of
        Some pins_json \<Rightarrow>
          bindE (map_err (\<lambda>e. GwConfig (engine_trust_error_to_string (debug_str X) e))
                   (pins_parse_json X pins_json)) (\<lambda>pins.
          if pins = [] \<and> \<not> pins_optional
          then Inl (GwConfig ''OPENAPI_ENGINE_IDENTITY_PINS_JSON must contain at least one engine'')
          else Inr pins)
      | None \<Rightarrow>
          if pins_optional then Inr []
          else Inl (GwConfig ''OPENAPI_ENGINE_IDENTITY_PINS_JSON required unless OPENAPI_OPE_REQUIRE_EPOCH_EVIDENCE=1 or OPENAPI_STAGE5_IDENTITY_DELETED=1''))"

definition policy_from_env :: "environ \<Rightarrow> engine_identity_pins \<Rightarrow> nat \<Rightarrow> recipient_policy" where
  "policy_from_env env pins skew_secs =
     \<lparr>rp_identity_pins = pins,
      rp_launch_digest_allowlist = parse_launch_digest_allowlist
        (case opt_env env ''OPENAPI_ENGINE_LAUNCH_DIGEST_ALLOWLIST'' of Some s \<Rightarrow> s | None \<Rightarrow> []),
      rp_require_epoch_evidence = truthy_env env ''OPENAPI_OPE_REQUIRE_EPOCH_EVIDENCE'',
      rp_stage5_identity_deleted = truthy_env env ''OPENAPI_STAGE5_IDENTITY_DELETED'',
      rp_require_launch_digest = truthy_env env ''OPENAPI_OPE_REQUIRE_ENGINE_LAUNCH_DIGEST'',
      rp_epoch_clock_skew_ms = min u64_max (skew_secs * 1000)\<rparr>"

definition gateway_from_env :: "'x gw_ext_scheme \<Rightarrow> environ \<Rightarrow> gateway_error + gateway_config option" where
  "gateway_from_env X env =
     (case opt_env env ''OPENAPI_GATEWAY_OPE_API_URL'' of
        None \<Rightarrow> Inr None
      | Some base_url \<Rightarrow>
          bindE (gateway_from_parts X env base_url (opt_env env ''OPENAPI_GATEWAY_OPE_API_TOKEN'')
                   (opt_env env ''OPENAPI_GATEWAY_OPE_API_TLS_CLIENT_CERT_PEM'')
                   (opt_env env ''OPENAPI_GATEWAY_OPE_API_TLS_CLIENT_KEY_PEM'')
                   (opt_env env ''OPENAPI_GATEWAY_OPE_API_TLS_CA_PEM'')
                   (truthy_env env ''OPENAPI_GATEWAY_OPE_API_TLS_INSECURE_SKIP_VERIFY'')) (\<lambda>cfg.
          let pins_optional = (truthy_env env ''OPENAPI_OPE_REQUIRE_EPOCH_EVIDENCE'' \<or>
                               truthy_env env ''OPENAPI_STAGE5_IDENTITY_DELETED'');
              skew = duration_secs_from_env env ''OPENAPI_OPE_EPOCH_CLOCK_SKEW_SEC'' 300
          in bindE (load_identity_pins X env pins_optional) (\<lambda>pins.
             let cfg' = cfg\<lparr>gc_engine_identity_pins := pins, gc_epoch_clock_skew_secs := skew,
                            gc_recipient_policy := policy_from_env env pins skew,
                            gc_verify_engine_snp_chain :=
                              truthy_env env ''OPENAPI_OPE_VERIFY_ENGINE_SNP_CHAIN''\<rparr>
             in bindE (map_err (\<lambda>e. GwConfig (profile_error_to_string (debug_str X) e))
                         (load_edge_profile env)) (\<lambda>profile.
                bindE (validate_for_profile cfg' profile) (\<lambda>_. Inr (Some cfg'))))))"

subsection \<open>TLS\<close>

datatype server_trust = SkipServerVerify | TrustRoots "bytes list" | WebpkiRoots

record client_tls =
  ct_server :: server_trust
  ct_client :: "(bytes list \<times> bytes) option"

definition load_certs_pem :: "'x gw_ext_scheme \<Rightarrow> bytes \<Rightarrow> gateway_error + bytes list" where
  "load_certs_pem X pem = map_err (\<lambda>e. GwTls (''parse cert PEM: '' @ e)) (pem_certs X pem)"

definition load_private_key_pem :: "'x gw_ext_scheme \<Rightarrow> bytes \<Rightarrow> gateway_error + bytes" where
  "load_private_key_pem X pem =
     bindE (map_err (\<lambda>e. GwTls (''parse key PEM: '' @ e)) (pem_private_key X pem)) (\<lambda>k.
     ok_or (GwTls ''missing private key in PEM'') k)"

fun add_roots :: "'x gw_ext_scheme \<Rightarrow> bytes list \<Rightarrow> gateway_error + unit" where
  "add_roots X [] = Inr ()"
| "add_roots X (c # cs) =
     bindE (map_err (\<lambda>e. GwTls (''add CA: '' @ e)) (root_add X c)) (\<lambda>_. add_roots X cs)"

definition server_trust_of :: "'x gw_ext_scheme \<Rightarrow> gateway_config \<Rightarrow> gateway_error + server_trust" where
  "server_trust_of X cfg =
     (if gc_insecure_skip_verify cfg then Inr SkipServerVerify
      else (case gc_ca_pem cfg of
              None \<Rightarrow> Inr WebpkiRoots
            | Some ca \<Rightarrow>
                bindE (load_certs_pem X (as_bytes ca)) (\<lambda>certs.
                bindE (add_roots X certs) (\<lambda>_.
                if certs = []
                then Inl (GwTls ''OPENAPI_GATEWAY_OPE_API_TLS_CA_PEM contained no certificates'')
                else Inr (TrustRoots certs)))))"

definition build_client_tls_config :: "'x gw_ext_scheme \<Rightarrow> gateway_config \<Rightarrow> gateway_error + client_tls" where
  "build_client_tls_config X cfg =
     bindE (server_trust_of X cfg) (\<lambda>trust.
     case (gc_client_cert_pem cfg, gc_client_key_pem cfg) of
       (Some cert_pem, Some key_pem) \<Rightarrow>
         bindE (load_certs_pem X (as_bytes cert_pem)) (\<lambda>certs.
         bindE (load_private_key_pem X (as_bytes key_pem)) (\<lambda>key.
         bindE (map_err (\<lambda>e. GwTls (''client identity: '' @ e)) (client_auth_cert X certs key)) (\<lambda>_.
         Inr \<lparr>ct_server = trust, ct_client = Some (certs, key)\<rparr>)))
     | _ \<Rightarrow> Inr \<lparr>ct_server = trust, ct_client = None\<rparr>)"

subsection \<open>The client\<close>

record gateway_client =
  gl_base_url :: string
  gl_token :: "string option"
  gl_tls :: "client_tls option"

definition gateway_client_try_new ::
    "'x gw_ext_scheme \<Rightarrow> gateway_config \<Rightarrow> gateway_error + gateway_client" where
  "gateway_client_try_new X cfg =
     (if starts_with (gc_base_url cfg) ''https://'' then
        bindE (build_client_tls_config X cfg) (\<lambda>tls.
        Inr \<lparr>gl_base_url = gc_base_url cfg, gl_token = gc_token cfg, gl_tls = Some tls\<rparr>)
      else Inr \<lparr>gl_base_url = gc_base_url cfg, gl_token = gc_token cfg, gl_tls = None\<rparr>)"

definition hex_byte_upper :: "nat \<Rightarrow> string" where
  "hex_byte_upper n =
     (let digit = (\<lambda>d. char_of (if d < 10 then 48 + d else 55 + d))
      in [digit (n div 16), digit (n mod 16)])"

definition urlencoding_minimal :: "string \<Rightarrow> string" where
  "urlencoding_minimal s =
     concat (map (\<lambda>c. if is_ascii_alphanumeric c \<or> c \<in> {CHR ''-'', CHR ''_'', CHR ''.'', CHR 0x7E}
                      then [c] else CHR 0x25 # hex_byte_upper (code c)) s)"

definition challenge_path :: "string \<Rightarrow> string" where
  "challenge_path engine_id =
     ''/v1/ope/api/engines/'' @ urlencoding_minimal (trim engine_id) @ ''/challenge''"

text \<open>\<open>None\<close> is the panic: byte 256 lies inside a character.\<close>

definition truncate_body :: "string \<Rightarrow> string option" where
  "truncate_body s =
     (if length s \<le> 256 then Some s
      else if 128 \<le> code (s ! 256) \<and> code (s ! 256) < 192 then None
      else Some (take 256 s @ [CHR 0xE2, CHR 0x80, CHR 0xA6]))"

definition agent_call :: "http_agent \<Rightarrow> http_out \<Rightarrow> (http_out list, gateway_error, http_answer) op" where
  "agent_call A req log = (map_err GwTransport (A log req), log @ [req])"

definition auth_headers :: "gateway_client \<Rightarrow> header_list" where
  "auth_headers c =
     (case gl_token c of Some tok \<Rightarrow> [(''Authorization'', ''Bearer '' @ tok)] | None \<Rightarrow> [])"

text \<open>The tail every call but dispatch has: the text, the status, the JSON.\<close>

definition read_json_answer :: "(string \<Rightarrow> string + 'a) \<Rightarrow> http_answer \<Rightarrow> gateway_error + 'a" where
  "read_json_answer from_str a =
     bindE (map_err (\<lambda>e. GwTransport (''read body: '' @ e)) (ha_text a)) (\<lambda>text.
     if ha_status a \<noteq> 200
     then (case truncate_body text of None \<Rightarrow> Inl GwPanic | Some b \<Rightarrow> Inl (GwHttp (ha_status a) b))
     else map_err GwDecode (from_str text))"

definition gateway_get ::
    "(string \<Rightarrow> string + 'a) \<Rightarrow> http_agent \<Rightarrow> gateway_client \<Rightarrow> string
       \<Rightarrow> (http_out list, gateway_error, 'a) op" where
  "gateway_get from_str A c path =
     bindS (agent_call A \<lparr>ho_method = ''GET'', ho_url = gl_base_url c @ path,
                          ho_headers = auth_headers c, ho_body = None\<rparr>)
       (\<lambda>a. liftS (read_json_answer from_str a))"

definition gateway_post ::
    "(string \<Rightarrow> string + 'a) \<Rightarrow> http_agent \<Rightarrow> gateway_client \<Rightarrow> string \<Rightarrow> bytes
       \<Rightarrow> (http_out list, gateway_error, 'a) op" where
  "gateway_post from_str A c path body =
     bindS (agent_call A \<lparr>ho_method = ''POST'', ho_url = gl_base_url c @ path,
                          ho_headers = auth_headers c @ [(''Content-Type'', ''application/json'')],
                          ho_body = Some body\<rparr>)
       (\<lambda>a. liftS (read_json_answer from_str a))"

definition gateway_health ::
    "'x gw_ext_scheme \<Rightarrow> http_agent \<Rightarrow> gateway_client \<Rightarrow> (http_out list, gateway_error, health_response) op" where
  "gateway_health X A c = gateway_get (health_from_str X) A c ''/v1/ope/api/health''"

definition gateway_inventory ::
    "'x gw_ext_scheme \<Rightarrow> http_agent \<Rightarrow> gateway_client \<Rightarrow> string
       \<Rightarrow> (http_out list, gateway_error, inventory_response) op" where
  "gateway_inventory X A c key_set =
     (let ks = trim key_set
      in gateway_get (inventory_from_str X) A c
           (''/v1/ope/api/inventory'' @
            (if ks = [] then [] else ''?key_set='' @ urlencoding_minimal ks)))"

definition gateway_preassign ::
    "'x gw_ext_scheme \<Rightarrow> http_agent \<Rightarrow> gateway_client \<Rightarrow> preassign_request
       \<Rightarrow> (http_out list, gateway_error, preassign_response) op" where
  "gateway_preassign X A c req =
     (if trim (pq_engine_id req) = []
      then failS (GwConfig ''preassign requires non-empty engine_id'')
      else bindS (liftS (map_err GwDecode (preassign_to_vec X req))) (\<lambda>body.
           gateway_post (preassign_from_str X) A c ''/v1/ope/api/preassign'' body))"

definition gateway_challenge_engine ::
    "'x gw_ext_scheme \<Rightarrow> http_agent \<Rightarrow> gateway_client \<Rightarrow> string \<Rightarrow> string \<Rightarrow> string option
       \<Rightarrow> (http_out list, gateway_error, wire_response) op" where
  "gateway_challenge_engine X A c engine_id nonce_b64 epoch_id =
     (if trim engine_id = [] then failS (GwConfig ''challenge requires non-empty engine_id'')
      else let body = JObj ((case trimmed_nonempty epoch_id of
                               Some epoch \<Rightarrow> [(''epoch_id'', JStr epoch)] | None \<Rightarrow> []) @
                            [(''nonce_b64'', JStr nonce_b64)])
           in bindS (liftS (map_err GwDecode (json_to_vec X body))) (\<lambda>b.
              gateway_post (challenge_from_str X) A c (challenge_path (trim engine_id)) b))"

definition opt_header :: "string \<Rightarrow> string option \<Rightarrow> header_list" where
  "opt_header name v = (case trimmed_nonempty v of Some s \<Rightarrow> [(name, s)] | None \<Rightarrow> [])"

definition dispatch_headers :: "ope_dispatch_request \<Rightarrow> header_list" where
  "dispatch_headers req =
     [(''Content-Type'', ''application/json''), (''x-ope-engine-id'', trim (dr_engine_id req))] @
     opt_header ''x-ope-conversation-id'' (dr_conversation_id req) @
     opt_header ''x-ope-ephemeral-epoch'' (dr_ephemeral_epoch req) @
     opt_header ''x-teechat-openapi-key-id'' (dr_openapi_key_id req) @
     opt_header ''x-ope-assign-id'' (dr_assign_id req)"

definition gateway_dispatch_reader ::
    "http_agent \<Rightarrow> gateway_client \<Rightarrow> ope_dispatch_request
       \<Rightarrow> (http_out list, gateway_error, nat \<times> header_list \<times> reader) op" where
  "gateway_dispatch_reader A c req =
     (if trim (dr_engine_id req) = [] then failS (GwConfig ''dispatch requires non-empty engine_id'')
      else bindS (agent_call A \<lparr>ho_method = ''POST'', ho_url = gl_base_url c @ ''/v1/ope/dispatch'',
                                ho_headers = auth_headers c @ dispatch_headers req,
                                ho_body = Some (dr_body req)\<rparr>)
             (\<lambda>a. returnS (ha_status a, ha_headers a, ha_reader a)))"

text \<open>\<open>read_to_end\<close>: everything up to the end of the stream, or the first error. A read
  of no bytes is the end.\<close>

fun read_to_end :: "reader \<Rightarrow> string + bytes" where
  "read_to_end [] = Inr []"
| "read_to_end (Inl e # r) = Inl e"
| "read_to_end (Inr b # r) =
     (if b = [] then Inr [] else bindE (read_to_end r) (\<lambda>bs. Inr (b @ bs)))"

definition gateway_dispatch ::
    "http_agent \<Rightarrow> gateway_client \<Rightarrow> ope_dispatch_request
       \<Rightarrow> (http_out list, gateway_error, dispatch_response) op" where
  "gateway_dispatch A c req =
     bindS (gateway_dispatch_reader A c req) (\<lambda>(status, headers, r).
     liftS (bindE (map_err (\<lambda>e. GwTransport (''read body: '' @ e)) (read_to_end r)) (\<lambda>body.
            Inr \<lparr>dp_status = status, dp_headers = headers, dp_body = body\<rparr>)))"

subsection \<open>At startup\<close>

definition require_gateway_ope_api_healthy ::
    "'x gw_ext_scheme \<Rightarrow> environ \<Rightarrow> http_agent \<Rightarrow> edge_profile \<Rightarrow> (http_out list, gateway_error, unit) op" where
  "require_gateway_ope_api_healthy X env A profile =
     bindS (liftS (gateway_from_env X env)) (\<lambda>cfg.
     case cfg of
       None \<Rightarrow>
         if is_prod profile
         then failS (GwConfig ''OPENAPI_GATEWAY_OPE_API_URL required in prod (hard OPE cutover)'')
         else returnS ()
     | Some cfg \<Rightarrow>
         bindS (liftS (gateway_client_try_new X cfg)) (\<lambda>c log.
         case gateway_health X A c log of
           (Inr _, log1) \<Rightarrow> (Inr (), log1)
         | (Inl e, log1) \<Rightarrow>
             (Inl (if is_prod profile
                   then GwTransport (''F'' @ [CHR 0xE2, CHR 0x80, CHR 0xB2] @ '' health failed at '' @
                          gc_base_url cfg @ '': '' @ gateway_error_to_string e)
                   else e), log1)))"

text \<open>The probe only logs what it finds.\<close>

definition probe_gateway_ope_api_at_startup ::
    "'x gw_ext_scheme \<Rightarrow> environ \<Rightarrow> http_agent \<Rightarrow> http_out list \<Rightarrow> http_out list" where
  "probe_gateway_ope_api_at_startup X env A log =
     (case gateway_from_env X env of
        Inr (Some cfg) \<Rightarrow>
          (case gateway_client_try_new X cfg of
             Inr c \<Rightarrow> snd (gateway_health X A c log) | Inl _ \<Rightarrow> log)
      | _ \<Rightarrow> log)"

end
