(* ===== verification/Ope_Wrap.thy ===== *)
theory Ope_Wrap
  imports Gateway_Api
begin

text \<open>
  \<open>crates/openapi-platform-cvm/src/ope_wrap.rs\<close> (the SGX edge has a copy): building, encrypting and
  signing the envelope that carries a request to an engine. The \<open>ope\<close> crates, which encrypt, sign and
  decrypt, and the clock printer of \<open>chrono\<close> are parameters; random bytes are arguments.
\<close>

subsection \<open>JSON objects\<close>

text \<open>\<open>serde_json\<close> keeps the keys of an object in the order of their bytes.\<close>

fun str_less :: "string \<Rightarrow> string \<Rightarrow> bool" where
  "str_less [] [] = False"
| "str_less [] (d # ds) = True"
| "str_less (c # cs) [] = False"
| "str_less (c # cs) (d # ds) = (code c < code d \<or> (code c = code d \<and> str_less cs ds))"

fun obj_insert :: "string \<Rightarrow> json \<Rightarrow> (string \<times> json) list \<Rightarrow> (string \<times> json) list" where
  "obj_insert k v [] = [(k, v)]"
| "obj_insert k v ((k', v') # fs) =
     (if k = k' then (k, v) # fs
      else if str_less k k' then (k, v) # (k', v') # fs
      else (k', v') # obj_insert k v fs)"

lemma map_of_obj_insert [simp]: "map_of (obj_insert k v fs) = (map_of fs)(k \<mapsto> v)"
  by (induction fs) auto

fun as_object :: "json \<Rightarrow> (string \<times> json) list option" where
  "as_object (JObj fs) = Some fs"
| "as_object _ = None"

text \<open>\<open>as_object_mut\<close> followed by an insertion: other values are left alone.\<close>

fun insert_field :: "string \<Rightarrow> json \<Rightarrow> json \<Rightarrow> json" where
  "insert_field k v (JObj fs) = JObj (obj_insert k v fs)"
| "insert_field k v j = j"

subsection \<open>Envelopes\<close>

datatype ope_wrap_error = OpeErr string | OpeEncode string

fun ope_wrap_error_to_string :: "ope_wrap_error \<Rightarrow> string" where
  "ope_wrap_error_to_string (OpeErr e) = ''ope: '' @ e"
| "ope_wrap_error_to_string (OpeEncode e) = ''encode: '' @ e"

record engine_identity =
  ei_engine_id :: string
  ei_kex :: string
  ei_mlkem_encapsulation_key :: string
  ei_x25519_public :: string
  ei_ed25519_public :: string

record envelope =
  en_ope_version :: string
  en_alg :: string
  en_enc :: string
  en_kid :: string
  en_recipient :: string
  en_engine_id :: "string option"
  en_ts :: string
  en_nonce :: string
  en_payload_hash :: string
  en_payload :: "json option"
  en_ciphertext :: "string option"
  en_iv :: "string option"
  en_aad :: "string option"
  en_meta :: "json option"
  en_e2e :: "json option"
  en_sig :: "string option"

type_synonym session = bytes

record ope_ext = gw_ext +
  kex_x25519_mlkem768 :: string
  session_generate :: "bytes \<Rightarrow> string + session"
  encrypt_request :: "envelope \<Rightarrow> engine_identity \<Rightarrow> json \<Rightarrow> session \<Rightarrow> string + envelope"
  keypair_secret :: "bytes \<Rightarrow> bytes"
  sign_envelope :: "envelope \<Rightarrow> bytes \<Rightarrow> string + envelope"
  envelope_to_vec :: "envelope \<Rightarrow> string + bytes"
  decrypt_response_chunk :: "envelope \<Rightarrow> session \<Rightarrow> string \<Rightarrow> u32 \<Rightarrow> string \<Rightarrow> string + bytes"
  dev_vector_001_seed :: bytes

text \<open>What one encryption draws from outside: the randomness of the session, the time as text, and the
  bytes of the envelope's nonce.\<close>

record enc_draw =
  ed_session :: bytes
  ed_now :: string
  ed_uuid :: bytes

definition normalize_kex :: "'x ope_ext_scheme \<Rightarrow> string \<Rightarrow> string" where
  "normalize_kex X kex =
     (let t = trim kex
      in if t = [] \<or> eq_ignore_ascii_case t ''mlkem768+x25519'' \<or>
            eq_ignore_ascii_case t ''x25519+mlkem768'' \<or> eq_ignore_ascii_case t ''X25519MLKEM768''
         then kex_x25519_mlkem768 X else t)"

definition engine_identity_from_trust :: "'x ope_ext_scheme \<Rightarrow> preassign_trust \<Rightarrow> engine_identity" where
  "engine_identity_from_trust X t =
     \<lparr>ei_engine_id = pt_engine_id t, ei_kex = normalize_kex X (ph_kex (pt_hybrid t)),
      ei_mlkem_encapsulation_key = ph_mlkem_encapsulation_key (pt_hybrid t),
      ei_x25519_public = ph_x25519_public (pt_hybrid t),
      ei_ed25519_public = pi_ed25519_public (pt_identity t)\<rparr>"

record encrypted_request =
  er_envelope :: envelope
  er_client_session :: session
  er_ephemeral_epoch :: string

definition parse_signing_seed_hex :: "'x ext_scheme \<Rightarrow> string \<Rightarrow> ope_wrap_error + bytes" where
  "parse_signing_seed_hex X hex =
     (let raw = to_ascii_lowercase (trim hex)
      in if length raw \<noteq> 64 \<or> \<not> list_all is_ascii_hexdigit raw
         then Inl (OpeErr ''OPENAPI_OPE_ENVELOPE_SIGNING_SEED_HEX must be 64 hex characters'')
         else bindE (map_err (\<lambda>e. OpeErr (''signing seed hex: '' @ e)) (hex_decode X raw)) (\<lambda>b.
              if length b \<noteq> 32
              then Inl (OpeErr ''OPENAPI_OPE_ENVELOPE_SIGNING_SEED_HEX must decode to 32 bytes'')
              else Inr b))"

definition edge_profile_is_prod :: "environ \<Rightarrow> bool" where
  "edge_profile_is_prod env =
     (case env ''OPENAPI_PROFILE'' of
        None \<Rightarrow> False | Some s \<Rightarrow> to_ascii_lowercase (trim s) \<in> {''prod'', ''production''})"

definition envelope_signing_seed :: "'x ope_ext_scheme \<Rightarrow> environ \<Rightarrow> ope_wrap_error + bytes" where
  "envelope_signing_seed X env =
     (let raw = trim (case env ''OPENAPI_OPE_ENVELOPE_SIGNING_SEED_HEX'' of
                        Some v \<Rightarrow> v
                      | None \<Rightarrow> (case env ''TEECHAT_OPE_ENVELOPE_SIGNING_SEED_HEX'' of
                                   Some v \<Rightarrow> v | None \<Rightarrow> []));
          prod = edge_profile_is_prod env
      in if raw = [] then
           (if prod
            then Inl (OpeErr ''OPENAPI_OPE_ENVELOPE_SIGNING_SEED_HEX is required in prod (desktop prod-bootstrap seed; not DEV_VECTOR_001)'')
            else Inr (dev_vector_001_seed X))
         else bindE (parse_signing_seed_hex X raw) (\<lambda>seed.
              if prod \<and> seed = dev_vector_001_seed X
              then Inl (OpeErr ''OPENAPI_OPE_ENVELOPE_SIGNING_SEED_HEX must not be DEV_VECTOR_001 in prod'')
              else Inr seed))"

definition hex_byte_lower :: "nat \<Rightarrow> string" where
  "hex_byte_lower n = map ascii_lower (hex_byte_upper n)"

definition uuid_v4_simple :: "bytes \<Rightarrow> string" where
  "uuid_v4_simple r =
     (let b = (r[6 := ((r ! 6) AND 0x0F) OR 0x40])[8 := ((r ! 8) AND 0x3F) OR 0x80];
          h = (\<lambda>i j. concat (map (\<lambda>x. hex_byte_lower (unat x)) (take (j - i) (drop i b))))
      in h 0 4 @ ''-'' @ h 4 6 @ ''-'' @ h 6 8 @ ''-'' @ h 8 10 @ ''-'' @ h 10 16)"

definition new_envelope ::
    "'x ope_ext_scheme \<Rightarrow> enc_draw \<Rightarrow> preassign_trust \<Rightarrow> string \<Rightarrow> json \<Rightarrow> string \<Rightarrow> envelope" where
  "new_envelope X d t kid payload openai_path =
     \<lparr>en_ope_version = ''1.0'', en_alg = ''EdDSA'', en_enc = ''none'', en_kid = ''prod-bootstrap'',
      en_recipient = ''teechat-gateway'', en_engine_id = Some (pt_engine_id t), en_ts = ed_now d,
      en_nonce = uuid_v4_simple (ed_uuid d), en_payload_hash = [], en_payload = None,
      en_ciphertext = None, en_iv = None, en_aad = None,
      en_meta = Some (JObj [(''model'', (case json_get payload ''model'' of Some m \<Rightarrow> m | None \<Rightarrow> JNull)),
                            (''openai_path'', JStr openai_path), (''openapi_key_id'', JStr kid)]),
      en_e2e = None, en_sig = None\<rparr>"

definition encrypt_openai_body_with_path ::
    "'x ope_ext_scheme \<Rightarrow> environ \<Rightarrow> enc_draw \<Rightarrow> preassign_trust \<Rightarrow> string \<Rightarrow> json \<Rightarrow> string
       \<Rightarrow> ope_wrap_error + encrypted_request" where
  "encrypt_openai_body_with_path X env d t kid payload openai_path =
     bindE (map_err OpeErr (session_generate X (ed_session d))) (\<lambda>session.
     bindE (map_err OpeErr (encrypt_request X (new_envelope X d t kid payload openai_path)
                              (engine_identity_from_trust X t) payload session)) (\<lambda>envelope.
     let envelope' = envelope\<lparr>en_e2e :=
           map_option (insert_field ''ephemeral_epoch'' (JStr (pt_epoch_id t))) (en_e2e envelope)\<rparr>
     in bindE (envelope_signing_seed X env) (\<lambda>seed.
        bindE (map_err OpeErr (sign_envelope X envelope' (keypair_secret X seed))) (\<lambda>signed.
        Inr \<lparr>er_envelope = signed, er_client_session = session,
             er_ephemeral_epoch = pt_epoch_id t\<rparr>))))"

definition encrypt_openai_body ::
    "'x ope_ext_scheme \<Rightarrow> environ \<Rightarrow> enc_draw \<Rightarrow> preassign_trust \<Rightarrow> string \<Rightarrow> json
       \<Rightarrow> ope_wrap_error + encrypted_request" where
  "encrypt_openai_body X env d t kid payload =
     encrypt_openai_body_with_path X env d t kid payload ''/v1/chat/completions''"

definition envelope_to_bytes :: "'x ope_ext_scheme \<Rightarrow> envelope \<Rightarrow> ope_wrap_error + bytes" where
  "envelope_to_bytes X e = map_err OpeEncode (envelope_to_vec X e)"

definition decrypt_chunk ::
    "'x ope_ext_scheme \<Rightarrow> envelope \<Rightarrow> session \<Rightarrow> string \<Rightarrow> u32 \<Rightarrow> string \<Rightarrow> ope_wrap_error + bytes" where
  "decrypt_chunk X e session server_share seq ciphertext =
     map_err OpeErr (decrypt_response_chunk X e session server_share seq ciphertext)"

subsection \<open>What is encrypted to whom\<close>

lemma encrypt_ok:
  assumes "encrypt_openai_body_with_path X env d t kid payload path = Inr enc"
  obtains session e seed where "session_generate X (ed_session d) = Inr session"
    "encrypt_request X (new_envelope X d t kid payload path) (engine_identity_from_trust X t) payload session = Inr e"
    "envelope_signing_seed X env = Inr seed"
    "sign_envelope X (e\<lparr>en_e2e := map_option (insert_field ''ephemeral_epoch'' (JStr (pt_epoch_id t))) (en_e2e e)\<rparr>)
       (keypair_secret X seed) = Inr (er_envelope enc)"
    "er_client_session enc = session" "er_ephemeral_epoch enc = pt_epoch_id t"
  using assms
  by (auto simp: encrypt_openai_body_with_path_def result_simps Let_def)

text \<open>In production an envelope is never signed with the published development key.\<close>

lemma prod_seed_is_private:
  assumes "envelope_signing_seed X env = Inr seed" "edge_profile_is_prod env"
  shows "seed \<noteq> dev_vector_001_seed X"
  using assms by (auto simp: envelope_signing_seed_def result_simps Let_def split: if_splits)

end
