(* ===== verification/Ope_Response.thy ===== *)
theory Ope_Response
  imports Ope_Wrap
begin

text \<open>
  The answer of an engine, from \<open>crates/openapi-platform-cvm/src/ope_upstream.rs\<close> (the SGX edge has a
  copy): decrypting its chunks, reassembling their text, and writing it as an OpenAI event stream or as
  one completion.
\<close>

subsection \<open>Text across chunks\<close>

text \<open>\<open>valid_up_to\<close> of a decoding error.\<close>

function utf8_valid_up_to :: "bytes \<Rightarrow> nat" where
  "utf8_valid_up_to b =
     (if b = [] then 0
      else (case utf8_head b of
              Inl _ \<Rightarrow> 0
            | Inr _ \<Rightarrow> head_len (utf8_head b) + utf8_valid_up_to (drop (head_len (utf8_head b)) b)))"
  by pat_completeness auto
termination
proof (relation "measure length")
  show "(drop (head_len (utf8_head b)) b, b) \<in> measure length" if "b \<noteq> []" for b k
    using that head_len_pos [of b] by simp
qed simp

declare utf8_valid_up_to.simps [simp del]

text \<open>\<open>error_len\<close> is absent when the input ends inside a character.\<close>

definition utf8_incomplete :: "bytes \<Rightarrow> bool" where
  "utf8_incomplete b \<longleftrightarrow> utf8_head b = Inl (length b) \<and> in_range 194 244 b 0"

text \<open>The accumulator is its pending bytes.\<close>

definition acc_push :: "bytes \<Rightarrow> (bytes, api_error, string list) op" where
  "acc_push plain pending =
     (let b = pending @ plain; v = utf8_valid_up_to b; rest = drop v b;
          text = (if v = 0 then [] else [bytes_str (take v b)])
      in if v = length b then (Inr text, [])
         else if utf8_incomplete rest then (Inr text, rest)
         else (Inl (Upstream ''ope plaintext invalid utf8''), rest))"

definition acc_finish :: "bytes \<Rightarrow> api_error + string option" where
  "acc_finish pending =
     (if pending = [] then Inr None
      else (case from_utf8 pending of
              Some s \<Rightarrow> Inr (Some s)
            | None \<Rightarrow> Inl (Upstream ''ope plaintext invalid utf8 tail'')))"

subsection \<open>A completion from its deltas\<close>

record aggregated =
  ag_content :: string
  ag_tool_calls :: "json list"
  ag_finish_reason :: "string option"

definition aggregated_default :: aggregated where
  "aggregated_default = \<lparr>ag_content = [], ag_tool_calls = [], ag_finish_reason = None\<rparr>"

definition get_or :: "json \<Rightarrow> json \<Rightarrow> string \<Rightarrow> json" where
  "get_or d v k = (case json_get v k of Some x \<Rightarrow> x | None \<Rightarrow> d)"

definition get_str :: "json \<Rightarrow> string \<Rightarrow> string option" where
  "get_str v k = Option.bind (json_get v k) as_str"

definition copy_non_null :: "string \<Rightarrow> json \<Rightarrow> json \<Rightarrow> json" where
  "copy_non_null k d slot =
     (case json_get d k of None \<Rightarrow> slot | Some v \<Rightarrow> if v = JNull then slot else insert_field k v slot)"

definition default_field :: "string \<Rightarrow> json \<Rightarrow> json \<Rightarrow> json" where
  "default_field k v slot = (if json_get slot k = None then insert_field k v slot else slot)"

definition merge_function :: "json \<Rightarrow> json \<Rightarrow> json" where
  "merge_function d func =
     (let func1 =
        (case Option.bind (json_get d ''function'') as_object of
           None \<Rightarrow> func
         | Some fs \<Rightarrow>
             let f = JObj fs;
                 func_n = (case get_str f ''name'' of
                             Some name \<Rightarrow> if name = [] then func else insert_field ''name'' (JStr name) func
                           | None \<Rightarrow> func)
             in (case get_str f ''arguments'' of
                   Some args \<Rightarrow>
                     insert_field ''arguments''
                       (JStr ((case get_str func_n ''arguments'' of Some p \<Rightarrow> p | None \<Rightarrow> []) @ args)) func_n
                 | None \<Rightarrow> func_n))
      in default_field ''arguments'' (JStr []) (default_field ''name'' (JStr []) func1))"

definition merge_slot :: "json \<Rightarrow> json \<Rightarrow> json" where
  "merge_slot d slot =
     (let slot1 = default_field ''type'' (JStr ''function'')
                    (copy_non_null ''type'' d (copy_non_null ''id'' d slot))
      in insert_field ''function'' (merge_function d (get_or (JObj []) slot1 ''function'')) slot1)"

definition merge_tool_call_delta :: "json \<Rightarrow> json list \<Rightarrow> json list" where
  "merge_tool_call_delta d into =
     (let idx = (case Option.bind (json_get d ''index'') as_u64 of Some i \<Rightarrow> i | None \<Rightarrow> length into);
          padded = into @ replicate (Suc idx - length into) (JObj [])
      in padded[idx := merge_slot d (padded ! idx)])"

definition merge_tool_call_deltas :: "json list \<Rightarrow> json list \<Rightarrow> json list" where
  "merge_tool_call_deltas into deltas = fold merge_tool_call_delta deltas into"

definition first_choice :: "json \<Rightarrow> json option" where
  "first_choice frame =
     (case Option.bind (json_get frame ''choices'') as_array of
        Some (c # _) \<Rightarrow> Some c | _ \<Rightarrow> None)"

definition finish_of :: "json \<Rightarrow> string option" where
  "finish_of choice =
     (case get_str choice ''finish_reason'' of
        Some s \<Rightarrow> if s = [] \<or> eq_ignore_ascii_case s ''null'' then None else Some s
      | None \<Rightarrow> None)"

definition delta_text :: "json \<Rightarrow> string" where
  "delta_text delta =
     concat (map (\<lambda>k. case get_str delta k of Some t \<Rightarrow> t | None \<Rightarrow> [])
               [''content'', ''reasoning'', ''reasoning_content''])"

definition apply_openai_delta_frame :: "json \<Rightarrow> aggregated \<Rightarrow> aggregated" where
  "apply_openai_delta_frame frame agg =
     (case first_choice frame of
        None \<Rightarrow> agg
      | Some choice \<Rightarrow>
          let delta = get_or (JObj []) choice ''delta'';
              calls = (case Option.bind (json_get delta ''tool_calls'') as_array of
                         Some tcs \<Rightarrow> merge_tool_call_deltas (ag_tool_calls agg) tcs
                       | None \<Rightarrow> ag_tool_calls agg)
          in \<lparr>ag_content = ag_content agg @ delta_text delta, ag_tool_calls = calls,
              ag_finish_reason = (case finish_of choice of
                                    Some fr \<Rightarrow> Some fr | None \<Rightarrow> ag_finish_reason agg)\<rparr>)"

definition openai_delta_value :: "'x ext_scheme \<Rightarrow> bytes \<Rightarrow> json option" where
  "openai_delta_value X text =
     (case json_from_slice X text of
        Inl _ \<Rightarrow> None
      | Inr v \<Rightarrow> if get_str v ''type'' = Some ''openai_delta'' then Some v else None)"

definition append_plain_to_aggregate :: "'x ext_scheme \<Rightarrow> bytes \<Rightarrow> (aggregated, api_error, unit) op" where
  "append_plain_to_aggregate X plain agg =
     (case from_utf8 plain of
        Some piece \<Rightarrow>
          (case openai_delta_value X plain of
             Some v \<Rightarrow> (Inr (), apply_openai_delta_frame v agg)
           | None \<Rightarrow> (Inr (), agg\<lparr>ag_content := ag_content agg @ piece\<rparr>))
      | None \<Rightarrow>
          (Inl (Upstream ''ope plaintext invalid utf8''),
           agg\<lparr>ag_content := ag_content agg @ bytes_str (take (utf8_valid_up_to plain) plain)\<rparr>))"

subsection \<open>Decrypting a buffered answer\<close>

definition decrypt_chunk_up ::
    "'x ope_ext_scheme \<Rightarrow> encrypted_request \<Rightarrow> string \<Rightarrow> nat \<Rightarrow> string \<Rightarrow> api_error + bytes" where
  "decrypt_chunk_up X enc share seq ct =
     map_err (\<lambda>e. Upstream (ope_wrap_error_to_string e))
       (decrypt_chunk X (er_envelope enc) (er_client_session enc) share (of_nat seq) ct)"

fun decrypt_chunks ::
    "'x ope_ext_scheme \<Rightarrow> encrypted_request \<Rightarrow> string \<Rightarrow> nat \<Rightarrow> json list \<Rightarrow> (aggregated, api_error, unit) op"
where
  "decrypt_chunks X enc share i [] = returnS ()"
| "decrypt_chunks X enc share i (c # cs) =
     bindS (liftS (ok_or (Upstream ''ope chunk not string'') (as_str c))) (\<lambda>ct.
     bindS (liftS (decrypt_chunk_up X enc share i ct)) (\<lambda>plain.
     bindS (append_plain_to_aggregate X plain) (\<lambda>_.
     decrypt_chunks X enc share (Suc i) cs)))"

definition looks_like_ope_ndjson :: "bytes \<Rightarrow> bool" where
  "looks_like_ope_ndjson raw =
     list_ex (\<lambda>l. contains l [CHR 0x22, CHR ''o'', CHR ''p'', CHR ''e'', CHR ''_'', CHR ''s'', CHR ''t'',
                              CHR ''r'', CHR ''e'', CHR ''a'', CHR ''m'', CHR 0x22])
       (str_lines (from_utf8_lossy raw))"

text \<open>A line of the stream that counts: JSON of version 1.0.\<close>

definition ope_line_value :: "'x ext_scheme \<Rightarrow> string \<Rightarrow> json option" where
  "ope_line_value X trimmed =
     (if trimmed = [] then None
      else (case json_from_slice X (as_bytes trimmed) of
              Inl _ \<Rightarrow> None
            | Inr v \<Rightarrow> if get_str v ''ope_stream'' = Some ''1.0'' then Some v else None))"

definition seq_and_ciphertext :: "json \<Rightarrow> (nat \<times> string) option" where
  "seq_and_ciphertext v =
     (case (Option.bind (json_get v ''seq'') as_u64, get_str v ''ciphertext'') of
        (Some seq, Some ct) \<Rightarrow> Some (seq, ct) | _ \<Rightarrow> None)"

fun decrypt_ndjson_lines ::
    "'x ope_ext_scheme \<Rightarrow> encrypted_request \<Rightarrow> string \<Rightarrow> string list \<Rightarrow> (aggregated, api_error, unit) op" where
  "decrypt_ndjson_lines X enc share [] = returnS ()"
| "decrypt_ndjson_lines X enc share (l # ls) =
     (case ope_line_value X (trim l) of
        None \<Rightarrow> decrypt_ndjson_lines X enc share ls
      | Some v \<Rightarrow>
          (case get_str v ''server_share'' of
             Some s \<Rightarrow> decrypt_ndjson_lines X enc s ls
           | None \<Rightarrow>
               (case seq_and_ciphertext v of
                  None \<Rightarrow> decrypt_ndjson_lines X enc share ls
                | Some (seq, ct) \<Rightarrow>
                    if share = [] then failS (Upstream ''ope ciphertext before server_share'')
                    else bindS (liftS (decrypt_chunk_up X enc share seq ct)) (\<lambda>plain.
                         bindS (append_plain_to_aggregate X plain) (\<lambda>_.
                         decrypt_ndjson_lines X enc share ls)))))"

definition run_aggregate :: "(aggregated, api_error, unit) op \<Rightarrow> api_error + aggregated" where
  "run_aggregate m = (case m aggregated_default of (Inl e, _) \<Rightarrow> Inl e | (Inr _, agg) \<Rightarrow> Inr agg)"

definition decrypt_ndjson_to_completion ::
    "'x ope_ext_scheme \<Rightarrow> encrypted_request \<Rightarrow> bytes \<Rightarrow> api_error + aggregated" where
  "decrypt_ndjson_to_completion X enc raw =
     run_aggregate (decrypt_ndjson_lines X enc [] (str_lines (from_utf8_lossy raw)))"

definition decrypt_ope_body_to_completion ::
    "'x ope_ext_scheme \<Rightarrow> encrypted_request \<Rightarrow> bytes \<Rightarrow> string \<Rightarrow> api_error + aggregated" where
  "decrypt_ope_body_to_completion X enc raw content_type =
     (if contains content_type ''ope+json-stream'' \<or> looks_like_ope_ndjson raw
      then decrypt_ndjson_to_completion X enc raw
      else bindE (map_err (\<lambda>e. Upstream (''ope body json: '' @ e)) (json_from_slice X raw)) (\<lambda>v.
           case get_str v ''server_share'' of
             Some share \<Rightarrow>
               run_aggregate (decrypt_chunks X enc share 0
                 (case Option.bind (json_get v ''chunks'') as_array of Some cs \<Rightarrow> cs | None \<Rightarrow> []))
           | None \<Rightarrow>
               Inl (Upstream ''unexpected ope response shape (expected stream or server_share/chunks)'')))"

subsection \<open>Events\<close>

definition chunk_value :: "string \<Rightarrow> string \<Rightarrow> json \<Rightarrow> string option \<Rightarrow> json" where
  "chunk_value cid model delta finish =
     JObj [(''choices'', JArr [JObj [(''delta'', delta), (''finish_reason'', json_opt_str finish),
                                     (''index'', JNum (PosInt 0))]]),
           (''created'', JNum (PosInt 1700000000)), (''id'', JStr cid), (''model'', JStr model),
           (''object'', JStr ''chat.completion.chunk'')]"

definition openai_sse_delta ::
    "'x ext_scheme \<Rightarrow> string \<Rightarrow> string \<Rightarrow> string \<Rightarrow> string option \<Rightarrow> string" where
  "openai_sse_delta X cid model content finish =
     json_to_string X
       (chunk_value cid model (if content = [] then JObj [] else JObj [(''content'', JStr content)]) finish)"

definition structured_delta :: "json \<Rightarrow> json" where
  "structured_delta delta =
     (let out0 = (case get_str delta ''content'' of
                    Some c \<Rightarrow> if c = [] then JObj [] else JObj [(''content'', JStr c)] | None \<Rightarrow> JObj []);
          reasoning = find (\<lambda>t. t \<noteq> []) (List.map_filter (get_str delta) [''reasoning_content'', ''reasoning'']);
          out1 = (case reasoning of
                    Some r \<Rightarrow> insert_field ''reasoning_content'' (JStr r) out0 | None \<Rightarrow> out0)
      in (case json_get delta ''tool_calls'' of
            Some tcs \<Rightarrow> insert_field ''tool_calls'' tcs out1 | None \<Rightarrow> out1))"

definition openai_sse_from_structured_delta ::
    "'x ext_scheme \<Rightarrow> string \<Rightarrow> string \<Rightarrow> json \<Rightarrow> string option \<Rightarrow> string option" where
  "openai_sse_from_structured_delta X cid model delta finish =
     (let delta_empty = (case as_object delta of None \<Rightarrow> True | Some fs \<Rightarrow> fs = [])
      in if delta_empty \<and> finish = None then None
         else Some (json_to_string X (chunk_value cid model (structured_delta delta) finish)))"

text \<open>The bridge: the writer, how much it was given, whether a finish reason was written, the pending
  bytes of the accumulator and the share of the engine.\<close>

record 'w bridge =
  br_out :: 'w
  br_written :: nat
  br_saw_finish :: bool
  br_pending :: bytes
  br_share :: string

definition write_all_count :: "'w writer \<Rightarrow> bytes \<Rightarrow> ('w bridge, api_error, unit) op" where
  "write_all_count wr b br =
     (case wr b (br_out br) of
        (Inl e, w1) \<Rightarrow> (Inl (Upstream e), br\<lparr>br_out := w1\<rparr>)
      | (Inr _, w1) \<Rightarrow> (Inr (), br\<lparr>br_out := w1, br_written := br_written br + length b\<rparr>))"

definition sse_event :: "string \<Rightarrow> bytes" where
  "sse_event data = as_bytes (''data: '' @ data @ [CHR 0x0A, CHR 0x0A])"

definition write_sse :: "'w writer \<Rightarrow> string \<Rightarrow> ('w bridge, api_error, unit) op" where
  "write_sse wr data = write_all_count wr (sse_event data)"

definition emit_openai_delta_frame ::
    "'x ext_scheme \<Rightarrow> 'w writer \<Rightarrow> json \<Rightarrow> string \<Rightarrow> string \<Rightarrow> ('w bridge, api_error, unit) op" where
  "emit_openai_delta_frame X wr frame cid model br =
     (case first_choice frame of
        None \<Rightarrow> (Inr (), br)
      | Some choice \<Rightarrow>
          let finish = finish_of choice;
              br1 = (if finish = None then br else br\<lparr>br_saw_finish := True\<rparr>)
          in (case openai_sse_from_structured_delta X cid model (get_or (JObj []) choice ''delta'') finish of
                None \<Rightarrow> (Inr (), br1)
              | Some chunk \<Rightarrow> write_sse wr chunk br1))"

text \<open>One piece of text: a frame, or plain content.\<close>

definition emit_piece ::
    "'x ext_scheme \<Rightarrow> 'w writer \<Rightarrow> string \<Rightarrow> string \<Rightarrow> string \<Rightarrow> ('w bridge, api_error, unit) op" where
  "emit_piece X wr cid model piece =
     (if piece = [] then returnS ()
      else (case openai_delta_value X (as_bytes piece) of
              Some v \<Rightarrow> emit_openai_delta_frame X wr v cid model
            | None \<Rightarrow> write_sse wr (openai_sse_delta X cid model piece None)))"

fun emit_pieces ::
    "'x ext_scheme \<Rightarrow> 'w writer \<Rightarrow> string \<Rightarrow> string \<Rightarrow> string list \<Rightarrow> ('w bridge, api_error, unit) op" where
  "emit_pieces X wr cid model [] = returnS ()"
| "emit_pieces X wr cid model (p # ps) =
     bindS (emit_piece X wr cid model p) (\<lambda>_. emit_pieces X wr cid model ps)"

definition process_decrypted_plaintext ::
    "'x ext_scheme \<Rightarrow> 'w writer \<Rightarrow> string \<Rightarrow> string \<Rightarrow> bytes \<Rightarrow> ('w bridge, api_error, unit) op" where
  "process_decrypted_plaintext X wr cid model plain br =
     (case (if from_utf8 plain = None then None else openai_delta_value X plain) of
        Some v \<Rightarrow> emit_openai_delta_frame X wr v cid model br
      | None \<Rightarrow>
          (case acc_push plain (br_pending br) of
             (Inl e, p) \<Rightarrow> (Inl e, br\<lparr>br_pending := p\<rparr>)
           | (Inr pieces, p) \<Rightarrow> emit_pieces X wr cid model pieces (br\<lparr>br_pending := p\<rparr>)))"

definition bridge_line ::
    "'x ope_ext_scheme \<Rightarrow> 'w writer \<Rightarrow> encrypted_request \<Rightarrow> string \<Rightarrow> string \<Rightarrow> string
       \<Rightarrow> ('w bridge, api_error, unit) op" where
  "bridge_line X wr enc cid model line br =
     (case ope_line_value X (trim line) of
        None \<Rightarrow> (Inr (), br)
      | Some v \<Rightarrow>
          if get_str v ''type'' = Some ''trailer'' then (Inr (), br)
          else (case get_str v ''server_share'' of
                  Some s \<Rightarrow> (Inr (), br\<lparr>br_share := s\<rparr>)
                | None \<Rightarrow>
                    (case seq_and_ciphertext v of
                       None \<Rightarrow> (Inr (), br)
                     | Some (seq, ct) \<Rightarrow>
                         if br_share br = [] then (Inl (Upstream ''ope ciphertext before server_share''), br)
                         else (case decrypt_chunk_up X enc (br_share br) seq ct of
                                 Inl e \<Rightarrow> (Inl e, br)
                               | Inr plain \<Rightarrow>
                                   if plain = [] then (Inr (), br)
                                   else process_decrypted_plaintext X wr cid model plain br))))"

text \<open>\<open>BufRead::read_until\<close> a line feed; what the buffer holds beyond it is read next.\<close>

fun read_until_nl :: "bytes \<Rightarrow> reader \<Rightarrow> (string + bytes) \<times> reader" where
  "read_until_nl line [] = (Inr line, [])"
| "read_until_nl line (Inl e # r) = (Inl e, r)"
| "read_until_nl line (Inr b # r) =
     (if b = [] then (Inr line, r)
      else if 10 \<in> set b then
        let n = Suc (length (takeWhile (\<lambda>x. x \<noteq> 10) b))
        in (Inr (line @ take n b), if drop n b = [] then r else Inr (drop n b) # r)
      else read_until_nl (line @ b) r)"

lemma read_until_nl_size:
  "read_until_nl line r = (Inr l, r') \<Longrightarrow>
     reader_size r' \<le> reader_size r \<and> (line = [] \<and> l \<noteq> [] \<longrightarrow> reader_size r' < reader_size r)"
proof (induction line r rule: read_until_nl.induct)
  case (3 line b r)
  show ?case
  proof (cases "b = [] \<or> 10 \<in> set b")
    case True
    with 3 show ?thesis by (auto simp: Let_def split: if_splits)
  next
    case False
    with 3 show ?thesis by (auto split: if_splits)
  qed
qed auto

function bridge_loop ::
    "'x ope_ext_scheme \<Rightarrow> 'w writer \<Rightarrow> encrypted_request \<Rightarrow> string \<Rightarrow> string \<Rightarrow> reader
       \<Rightarrow> ('w bridge, api_error, unit) op" where
  "bridge_loop X wr enc cid model r br =
     (case read_until_nl [] r of
        (Inl e, r1) \<Rightarrow> (Inl (Upstream e), br)
      | (Inr raw, r1) \<Rightarrow>
          if raw = [] then (Inr (), br)
          else (case from_utf8 raw of
                  None \<Rightarrow> (Inl (Upstream ''stream did not contain valid UTF-8''), br)
                | Some line \<Rightarrow>
                    (case bridge_line X wr enc cid model line br of
                       (Inl e, br1) \<Rightarrow> (Inl e, br1)
                     | (Inr _, br1) \<Rightarrow> bridge_loop X wr enc cid model r1 br1)))"
  by pat_completeness auto
termination
  by (relation "measure (\<lambda>(X, wr, enc, cid, model, r, br). reader_size r)")
    (auto dest!: read_until_nl_size [OF sym])

declare bridge_loop.simps [simp del]

definition emit_aggregated_completion_as_sse ::
    "'x ext_scheme \<Rightarrow> 'w writer \<Rightarrow> string \<Rightarrow> string \<Rightarrow> aggregated \<Rightarrow> ('w bridge, api_error, unit) op" where
  "emit_aggregated_completion_as_sse X wr cid model agg =
     bindS (if ag_content agg = [] then returnS ()
            else write_sse wr (openai_sse_delta X cid model (ag_content agg) None)) (\<lambda>_.
     bindS (if ag_tool_calls agg = [] then returnS ()
            else (let indexed = map (\<lambda>(i, tc). insert_field ''index'' (JNum (PosInt i)) tc)
                                  (enumerate 0 (ag_tool_calls agg))
                  in (case openai_sse_from_structured_delta X cid model
                             (JObj [(''tool_calls'', JArr indexed)]) None of
                        Some chunk \<Rightarrow> write_sse wr chunk | None \<Rightarrow> returnS ()))) (\<lambda>_.
     (case (case ag_finish_reason agg of
              Some fr \<Rightarrow> Some fr
            | None \<Rightarrow> if ag_tool_calls agg = [] then None else Some ''tool_calls'') of
        None \<Rightarrow> returnS ()
      | Some fr \<Rightarrow>
          (\<lambda>br. write_sse wr (openai_sse_delta X cid model [] (Some fr)) (br\<lparr>br_saw_finish := True\<rparr>)))))"

text \<open>The pieces before the finish: the lines of a stream and the tail of the accumulator, or the whole
  body at once.\<close>

definition bridge_body ::
    "'x ope_ext_scheme \<Rightarrow> 'w writer \<Rightarrow> encrypted_request \<Rightarrow> string \<Rightarrow> string \<Rightarrow> string \<Rightarrow> reader
       \<Rightarrow> ('w bridge, api_error, unit) op" where
  "bridge_body X wr enc cid model content_type r =
     (if contains content_type ''ope+json-stream'' \<or> content_type = [] then
        bindS (bridge_loop X wr enc cid model r) (\<lambda>_ br.
        case acc_finish (br_pending br) of
          Inl e \<Rightarrow> (Inl e, br)
        | Inr None \<Rightarrow> (Inr (), br)
        | Inr (Some tail) \<Rightarrow> emit_piece X wr cid model tail br)
      else
        bindS (liftS (map_err Upstream (read_to_end r))) (\<lambda>raw.
        bindS (liftS (decrypt_ope_body_to_completion X enc raw content_type)) (\<lambda>agg.
        emit_aggregated_completion_as_sse X wr cid model agg)))"

definition bridge_ope_to_openai_sse ::
    "'x ope_ext_scheme \<Rightarrow> 'w writer \<Rightarrow> encrypted_request \<Rightarrow> bytes \<Rightarrow> reader \<Rightarrow> string \<Rightarrow> string \<Rightarrow> 'w
       \<Rightarrow> (api_error + nat) \<times> 'w" where
  "bridge_ope_to_openai_sse X wr enc rand r content_type model w =
     (let cid = ''chatcmpl-'' @ hex_encode X rand;
          br0 = \<lparr>br_out = w, br_written = 0, br_saw_finish = False, br_pending = [], br_share = []\<rparr>
      in (case bindS (bridge_body X wr enc cid model content_type r) (\<lambda>_.
               bindS (\<lambda>br. if br_saw_finish br then (Inr (), br)
                           else write_sse wr (openai_sse_delta X cid model [] (Some ''stop'')) br) (\<lambda>_.
               write_all_count wr (sse_event ''[DONE]''))) br0 of
            (Inl e, br) \<Rightarrow> (Inl e, br_out br)
          | (Inr _, br) \<Rightarrow> (Inr (br_written br), br_out br)))"

subsection \<open>One completion\<close>

definition completion_tool_call :: "nat \<times> json \<Rightarrow> json" where
  "completion_tool_call x =
     (case x of (i, tc) \<Rightarrow>
        JObj [(''function'', get_or (JObj [(''arguments'', JStr []), (''name'', JStr [])]) tc ''function''),
              (''id'', get_or (JStr (''call_'' @ show_nat i)) tc ''id''),
              (''type'', get_or (JStr ''function'') tc ''type'')])"

definition completion_message :: "aggregated \<Rightarrow> json" where
  "completion_message agg =
     (if ag_tool_calls agg = []
      then JObj [(''content'', JStr (ag_content agg)), (''role'', JStr ''assistant'')]
      else JObj [(''content'', if ag_content agg = [] then JNull else JStr (ag_content agg)),
                 (''role'', JStr ''assistant''),
                 (''tool_calls'', JArr (map completion_tool_call (enumerate 0 (ag_tool_calls agg))))])"

text \<open>The total wraps in a release build.\<close>

definition openai_chat_completion_json ::
    "'x ext_scheme \<Rightarrow> bytes \<Rightarrow> string \<Rightarrow> aggregated \<Rightarrow> nat \<Rightarrow> nat \<Rightarrow> json" where
  "openai_chat_completion_json X rand model agg prompt_tokens completion_tokens =
     (let finish = (case ag_finish_reason agg of
                      Some fr \<Rightarrow> fr
                    | None \<Rightarrow> if ag_tool_calls agg = [] then ''stop'' else ''tool_calls'')
      in JObj [(''choices'', JArr [JObj [(''finish_reason'', JStr finish), (''index'', JNum (PosInt 0)),
                                         (''message'', completion_message agg)]]),
               (''created'', JNum (PosInt 1700000000)), (''id'', JStr (''chatcmpl-'' @ hex_encode X rand)),
               (''model'', JStr model), (''object'', JStr ''chat.completion''),
               (''usage'', JObj [(''completion_tokens'', JNum (PosInt completion_tokens)),
                                 (''prompt_tokens'', JNum (PosInt prompt_tokens)),
                                 (''total_tokens'',
                                  JNum (PosInt ((prompt_tokens + completion_tokens) mod 2 ^ 64)))])])"

end
