(* ===== verification/Ope_Text.thy ===== *)
theory Ope_Text
  imports Ope_Response
begin

text \<open>
  What the response path of \<open>ope_upstream.rs\<close> keeps of an answer: the text does not depend on how it was
  cut into chunks, the events not on how the network cut the stream.
\<close>

subsection \<open>Characters across a cut\<close>

text \<open>A character as its lead byte and the ranges its other bytes must lie in.\<close>

definition lead_ranges :: "nat \<Rightarrow> (nat \<times> nat) list option" where
  "lead_ranges u =
     (if u \<le> 127 then Some []
      else if 194 \<le> u \<and> u \<le> 223 then Some [(128, 191)]
      else if u = 224 then Some [(160, 191), (128, 191)]
      else if u = 237 then Some [(128, 159), (128, 191)]
      else if 225 \<le> u \<and> u \<le> 239 then Some [(128, 191), (128, 191)]
      else if u = 240 then Some [(144, 191), (128, 191), (128, 191)]
      else if 241 \<le> u \<and> u \<le> 243 then Some [(128, 191), (128, 191), (128, 191)]
      else if u = 244 then Some [(128, 143), (128, 191), (128, 191)]
      else None)"

fun tail_check :: "(nat \<times> nat) list \<Rightarrow> bytes \<Rightarrow> nat \<Rightarrow> nat + nat" where
  "tail_check [] ys k = Inr k"
| "tail_check (r # rs) [] k = Inl k"
| "tail_check ((lo, hi) # rs) (y # ys) k =
     (if lo \<le> unat y \<and> unat y \<le> hi then tail_check rs ys (Suc k) else Inl k)"

lemma in_range_Cons:
  "in_range lo hi (x # xs) 0 \<longleftrightarrow> lo \<le> unat x \<and> unat x \<le> hi"
  "in_range lo hi (x # xs) (Suc i) \<longleftrightarrow> in_range lo hi xs i"
  "\<not> in_range lo hi [] i"
  by (simp_all add: in_range_def)

lemma tail_check_unfold:
  "tail_check [(lo, hi)] xs 1 = (if in_range lo hi xs 0 then Inr 2 else Inl 1)"
  "tail_check [(lo, hi), (lo', hi')] xs 1 =
     (if \<not> in_range lo hi xs 0 then Inl 1 else if \<not> in_range lo' hi' xs 1 then Inl 2 else Inr 3)"
  "tail_check [(lo, hi), (lo', hi'), (lo'', hi'')] xs 1 =
     (if \<not> in_range lo hi xs 0 then Inl 1 else if \<not> in_range lo' hi' xs 1 then Inl 2
      else if \<not> in_range lo'' hi'' xs 2 then Inl 3 else Inr 4)"
  by (cases xs; cases "tl xs"; cases "tl (tl xs)"; auto simp: in_range_def nth_Cons numeral_2_eq_2)+

lemma utf8_head_Cons:
  "utf8_head (x # xs) = (case lead_ranges (unat x) of None \<Rightarrow> Inl 1 | Some rs \<Rightarrow> tail_check rs xs 1)"
proof -
  have i: "in_range lo hi (x # xs) 1 = in_range lo hi xs 0" "in_range lo hi (x # xs) 2 = in_range lo hi xs 1"
    "in_range lo hi (x # xs) 3 = in_range lo hi xs 2" for lo hi
    by (simp_all add: in_range_def)
  note defs = utf8_head_def lead_ranges_def Let_def in_range_Cons(1) i tail_check_unfold
  consider "unat x \<le> 127" | "128 \<le> unat x" "unat x \<le> 193" | "194 \<le> unat x" "unat x \<le> 223"
    | "unat x = 224" | "225 \<le> unat x" "unat x \<le> 236" | "unat x = 237" | "238 \<le> unat x" "unat x \<le> 239"
    | "unat x = 240" | "241 \<le> unat x" "unat x \<le> 243" | "unat x = 244" | "245 \<le> unat x"
    by linarith
  then show ?thesis by cases (simp_all add: defs del: One_nat_def)
qed

lemma tail_check_Inr:
  "tail_check rs ys k = Inr n \<Longrightarrow> tail_check rs (ys @ b) k = Inr n \<and> n \<le> k + length ys"
  by (induction rs ys k rule: tail_check.induct) (auto split: if_splits)

lemma tail_check_Inl:
  "tail_check rs ys k = Inl n \<Longrightarrow> rs \<noteq> [] \<and> n \<le> k + length ys \<and> (n < k + length ys \<longrightarrow> tail_check rs (ys @ b) k = Inl n)"
  by (induction rs ys k rule: tail_check.induct) (auto split: if_splits)

lemma utf8_head_Inr_append:
  assumes "utf8_head a = Inr k" "a \<noteq> []"
  shows "utf8_head (a @ b) = Inr k \<and> k \<le> length a"
  using assms tail_check_Inr [where b = b] by (cases a) (fastforce simp: utf8_head_Cons split: option.splits)+

lemma lead_ranges_lead: "lead_ranges u = Some rs \<Longrightarrow> rs \<noteq> [] \<Longrightarrow> 194 \<le> u \<and> u \<le> 244"
  by (auto simp: lead_ranges_def split: if_splits)

lemma utf8_head_Inl_append:
  assumes "utf8_head a = Inl k" "a \<noteq> []" "\<not> utf8_incomplete a"
  shows "utf8_head (a @ b) = Inl k"
proof -
  from assms(2) obtain x xs where a: "a = x # xs" by (cases a) auto
  show ?thesis
  proof (cases "lead_ranges (unat x)")
    case None
    with assms(1) a show ?thesis by (simp add: utf8_head_Cons)
  next
    case (Some rs)
    with assms(1) a have t: "tail_check rs xs 1 = Inl k" by (simp add: utf8_head_Cons)
    note i = tail_check_Inl [OF t, of b]
    with assms(1,3) a Some have "k < 1 + length xs"
      using lead_ranges_lead [OF Some] by (auto simp: utf8_incomplete_def in_range_Cons)
    with i a Some show ?thesis by (simp add: utf8_head_Cons)
  qed
qed

lemma utf8_valid_append:
  "utf8_valid a \<Longrightarrow> utf8_valid (a @ b) \<longleftrightarrow> utf8_valid b"
proof (induction a rule: utf8_valid.induct)
  case (1 a)
  show ?case
  proof (cases "a = []")
    case False
    with "1.prems" obtain k where k: "utf8_head a = Inr k" "utf8_valid (drop k a)"
      by (subst (asm) utf8_valid.simps) (auto simp: head_len_def split: sum.splits)
    from utf8_head_Inr_append [OF k(1) False, of b] have h: "utf8_head (a @ b) = Inr k" "k \<le> length a"
      by simp_all
    have "utf8_valid (a @ b) \<longleftrightarrow> utf8_valid (drop k a @ b)"
      using False h by (subst utf8_valid.simps) (simp add: head_len_def)
    with 1(1) [OF False k(1)] k show ?thesis by (simp add: head_len_def)
  qed simp
qed

lemma utf8_valid_head: "utf8_head b = Inl k \<Longrightarrow> b \<noteq> [] \<Longrightarrow> \<not> utf8_valid b"
  by (subst utf8_valid.simps) simp

lemma tail_check_take:
  "tail_check rs ys k = Inr n \<Longrightarrow> k \<le> n \<and> tail_check rs (take (n - k) ys) k = Inr n"
proof (induction rs ys k rule: tail_check.induct)
  case (3 lo hi rs y ys k)
  then have "tail_check rs ys (Suc k) = Inr n" "lo \<le> unat y" "unat y \<le> hi" by (auto split: if_splits)
  with 3 have "Suc k \<le> n" "tail_check rs (take (n - Suc k) ys) (Suc k) = Inr n" by auto
  moreover from this(1) have "n - k = Suc (n - Suc k)" by simp
  ultimately show ?case using \<open>lo \<le> unat y\<close> \<open>unat y \<le> hi\<close> by simp
qed auto

lemma utf8_head_take:
  assumes "utf8_head b = Inr k" "b \<noteq> []"
  shows "utf8_valid (take k b)"
proof -
  obtain x xs where b: "b = x # xs" using assms(2) by (cases b) auto
  with assms(1) obtain rs where rs: "lead_ranges (unat x) = Some rs" "tail_check rs xs 1 = Inr k"
    by (auto simp: utf8_head_Cons split: option.splits)
  from tail_check_take [OF rs(2)] have k: "1 \<le> k" "tail_check rs (take (k - 1) xs) 1 = Inr k" by auto
  from k(1) b have t: "take k b = x # take (k - 1) xs" by (cases k) auto
  with rs k have "utf8_head (take k b) = Inr k" by (simp add: utf8_head_Cons)
  then show ?thesis by (subst utf8_valid.simps) (simp add: head_len_def utf8_valid.simps [of "[]"])
qed

lemma valid_up_to:
  "utf8_valid_up_to b \<le> length b \<and> utf8_valid (take (utf8_valid_up_to b) b) \<and>
   (utf8_valid_up_to b = length b \<or> (\<exists>k. utf8_head (drop (utf8_valid_up_to b) b) = Inl k))"
proof (induction b rule: utf8_valid_up_to.induct)
  case (1 b)
  show ?case
  proof (cases "b = []")
    case True
    then show ?thesis by (simp add: utf8_valid_up_to.simps utf8_valid.simps)
  next
    case False
    show ?thesis
    proof (cases "utf8_head b")
      case (Inl k)
      with False show ?thesis by (simp add: utf8_valid_up_to.simps [of b] utf8_valid.simps [of "[]"])
    next
      case (Inr k)
      let ?v = "utf8_valid_up_to (drop k b)"
      from Inr False have v: "utf8_valid_up_to b = k + ?v"
        by (simp add: utf8_valid_up_to.simps [of b] head_len_def)
      from utf8_head_Inr_append [OF Inr False, of "[]"] have "k \<le> length b" by simp
      from 1 [OF False Inr] Inr have ih: "?v \<le> length b - k" "utf8_valid (take ?v (drop k b))"
        "?v = length b - k \<or> (\<exists>j. utf8_head (drop ?v (drop k b)) = Inl j)"
        by (simp_all add: head_len_def)
      have "utf8_valid (take k b)" using utf8_head_take [OF Inr False] .
      then have "utf8_valid (take k b @ take ?v (drop k b))" using ih(2) by (simp add: utf8_valid_append)
      with v ih \<open>k \<le> length b\<close> show ?thesis by (auto simp: take_add add.commute)
    qed
  qed
qed

lemma valid_up_to_all: "utf8_valid_up_to b = length b \<longleftrightarrow> utf8_valid b"
proof
  assume "utf8_valid_up_to b = length b"
  with valid_up_to [of b] show "utf8_valid b" by simp
next
  assume "utf8_valid b"
  then have "utf8_valid (drop (utf8_valid_up_to b) b)"
    using valid_up_to [of b] utf8_valid_append [of "take (utf8_valid_up_to b) b" "drop (utf8_valid_up_to b) b"]
    by simp
  with valid_up_to [of b] utf8_valid_head [of "drop (utf8_valid_up_to b) b"]
  show "utf8_valid_up_to b = length b" by fastforce
qed

lemma incomplete_not_valid: "utf8_incomplete b \<Longrightarrow> b \<noteq> [] \<and> \<not> utf8_valid b"
  using utf8_valid_head by (auto simp: utf8_incomplete_def in_range_def)

subsection \<open>The accumulator\<close>

definition pending_ok :: "bytes \<Rightarrow> bool" where
  "pending_ok p \<longleftrightarrow> p = [] \<or> utf8_incomplete p"

lemma acc_push_ok:
  assumes "acc_push plain p = (Inr texts, p')"
  shows "as_bytes (concat texts) @ p' = p @ plain" "utf8_valid (as_bytes (concat texts))" "pending_ok p'"
proof -
  define b where "b = p @ plain"
  have "as_bytes (concat texts) @ p' = b \<and> utf8_valid (as_bytes (concat texts)) \<and> pending_ok p'"
    using assms valid_up_to [of b]
    by (auto simp: acc_push_def b_def [symmetric] Let_def pending_ok_def utf8_valid.simps [of "[]"]
        split: if_splits)
  then show "as_bytes (concat texts) @ p' = p @ plain" "utf8_valid (as_bytes (concat texts))" "pending_ok p'"
    by (simp_all add: b_def)
qed

lemma acc_push_err:
  assumes "acc_push plain p = (Inl e, p')"
  shows "\<not> utf8_valid (p @ plain @ suf)"
proof -
  define b where "b = p @ plain"
  define v where "v = utf8_valid_up_to b"
  from assms have v: "v \<noteq> length b" "\<not> utf8_incomplete (drop v b)"
    by (auto simp: acc_push_def b_def v_def Let_def split: if_splits)
  with valid_up_to [of b] obtain k where k: "utf8_head (drop v b) = Inl k" "drop v b \<noteq> []"
    "utf8_valid (take v b)"
    by (auto simp: v_def [symmetric])
  from k(1,2) v(2) have "utf8_head (drop v b @ suf) = Inl k" by (rule utf8_head_Inl_append)
  with k(2) have "\<not> utf8_valid (drop v b @ suf)" by (intro utf8_valid_head) auto
  then have "\<not> utf8_valid (take v b @ drop v b @ suf)" by (simp only: utf8_valid_append [OF k(3)] not_False_eq_True)
  moreover have "take v b @ drop v b @ suf = b @ suf" by (simp only: append.assoc [symmetric] append_take_drop_id)
  ultimately have "\<not> utf8_valid (b @ suf)" by metis
  then show ?thesis by (simp add: b_def)
qed

text \<open>A run of the accumulator: the text of all chunks, and the tail.\<close>

fun acc_pushes :: "bytes list \<Rightarrow> (bytes, api_error, string) op" where
  "acc_pushes [] = returnS []"
| "acc_pushes (c # cs) = bindS (acc_push c) (\<lambda>ts. bindS (acc_pushes cs) (\<lambda>rest. returnS (concat ts @ rest)))"

definition acc_text :: "bytes list \<Rightarrow> api_error + string" where
  "acc_text chunks =
     (case acc_pushes chunks [] of
        (Inl e, _) \<Rightarrow> Inl e
      | (Inr text, p) \<Rightarrow> bindE (acc_finish p) (\<lambda>t. Inr (text @ (case t of Some s \<Rightarrow> s | None \<Rightarrow> []))))"

lemma acc_pushes_ok:
  assumes "acc_pushes chunks p = (Inr tx, p')" "pending_ok p"
  shows "as_bytes tx @ p' = p @ concat chunks \<and> utf8_valid (as_bytes tx) \<and> pending_ok p'"
  using assms
proof (induction chunks arbitrary: p tx)
  case Nil
  then show ?case by (simp add: returnS_def utf8_valid.simps)
next
  case (Cons c cs)
  then obtain ts q rest where c: "acc_push c p = (Inr ts, q)" "acc_pushes cs q = (Inr rest, p')"
    "tx = concat ts @ rest"
    by (auto simp: bindS_def returnS_def split: prod.splits sum.splits)
  note step = acc_push_ok [OF c(1)]
  note ih = Cons.IH [OF c(2) step(3)]
  have "p @ concat (c # cs) = as_bytes (concat ts) @ q @ concat cs" by (simp flip: step(1))
  also have "q @ concat cs = as_bytes rest @ p'" using ih by simp
  finally show ?case using ih by (simp add: c(3) utf8_valid_append [OF step(2)])
qed

lemma acc_pushes_err:
  assumes "acc_pushes chunks p = (Inl e, p')"
  shows "\<not> utf8_valid (p @ concat chunks)"
  using assms
proof (induction chunks arbitrary: p)
  case (Cons c cs)
  show ?case
  proof (cases "acc_push c p")
    case (Pair r q)
    show ?thesis
    proof (cases r)
      case (Inl e')
      with Pair acc_push_err [of c p e' q] show ?thesis by simp
    next
      case (Inr ts)
      with Pair Cons.prems have "acc_pushes cs q = (Inl e, p')"
        by (auto simp: bindS_def returnS_def split: prod.splits sum.splits)
      with Cons.IH have "\<not> utf8_valid (q @ concat cs)" by blast
      moreover from Pair Inr have "acc_push c p = (Inr ts, q)" by simp
      note step = acc_push_ok [OF this]
      have "p @ concat (c # cs) = as_bytes (concat ts) @ q @ concat cs" by (simp flip: step(1))
      ultimately show ?thesis by (simp only: utf8_valid_append [OF step(2)] not_False_eq_True)
    qed
  qed
qed (simp add: returnS_def)

text \<open>Text survives any cutting into chunks: however the plaintext of an answer is cut, the
  accumulator delivers exactly the text of all chunks together when that is UTF-8, and fails when it is
  not; no character is lost, replaced or split.\<close>

theorem chunks_join_to_text: "acc_text chunks = Inr tx \<longleftrightarrow> from_utf8 (concat chunks) = Some tx"
proof (cases "acc_pushes chunks []")
  case (Pair r p)
  show ?thesis
  proof (cases r)
    case (Inl e)
    with Pair acc_pushes_err [of chunks "[]" e p] show ?thesis
      by (simp add: acc_text_def from_utf8_def)
  next
    case (Inr t)
    from Pair Inr acc_pushes_ok [of chunks "[]" t p] have t: "as_bytes t @ p = concat chunks"
      "utf8_valid (as_bytes t)" "pending_ok p"
      by (simp_all add: pending_ok_def)
    show ?thesis
    proof (cases "p = []")
      case True
      with t have "concat chunks = as_bytes t" by simp
      with t(2) Pair Inr True show ?thesis
        by (auto simp: acc_text_def acc_finish_def from_utf8_def)
    next
      case False
      with t(3) have "\<not> utf8_valid p" by (simp add: pending_ok_def incomplete_not_valid)
      then have "\<not> utf8_valid (concat chunks)" by (simp add: utf8_valid_append [OF t(2)] flip: t(1))
      with Pair Inr False \<open>\<not> utf8_valid p\<close> show ?thesis
        by (simp add: acc_text_def acc_finish_def from_utf8_def)
    qed
  qed
qed

end
