(* ===== verification/Ope_Upstream.thy ===== *)
theory Ope_Upstream
  imports Ope_Text Handler "HOL-Library.List_Lexorder" "HOL-Library.Char_ord"
begin

text \<open>
  \<open>crates/openapi-platform-cvm/src/ope_upstream.rs\<close> and its SGX copy: a request from the client through
  inventory, preassignment, the check of the recipient, encryption and dispatch. The two editions differ
  in the client they dial the gateway with and in the AMD certificate chain, which only the CVM edition
  can check; the client is a record of its calls, so one model serves both.
\<close>

subsection \<open>Data\<close>

text \<open>The calls of a gateway client, as steps on whatever state the client has.\<close>

record 'n gw_ops =
  go_inventory :: "string \<Rightarrow> ('n, gateway_error, inventory_response) op"
  go_preassign :: "preassign_request \<Rightarrow> ('n, gateway_error, preassign_response) op"
  go_challenge :: "string \<Rightarrow> string \<Rightarrow> string option \<Rightarrow> ('n, gateway_error, wire_response) op"
  go_dispatch :: "ope_dispatch_request \<Rightarrow> ('n, gateway_error, dispatch_response) op"
  go_dispatch_reader :: "ope_dispatch_request \<Rightarrow> ('n, gateway_error, nat \<times> header_list \<times> reader) op"

text \<open>\<open>ou_chain\<close> is \<open>verify_engine_snp_chain\<close>, or \<open>None\<close> in the edition without chain verification.\<close>

record 'n ope_upstream =
  ou_client :: "'n gw_ops"
  ou_policy :: recipient_policy
  ou_chain :: "bool option"

text \<open>What a request changes: the state of the client, the reports whose chain was verified, the file of
  the sealed clock, and the cache of the AMD key service.\<close>

record 'n ope_state =
  os_net :: 'n
  os_verified :: "string set"
  os_floor :: "string option"
  os_files :: files

text \<open>What a request reads from the host: the environment and the sealed clock, the wall clock, random
  bytes, and the AMD key service.\<close>

record ope_host =
  oh_floor :: floor_host
  oh_now_ms :: nat
  oh_clock_faults :: io_faults
  oh_nonce :: bytes
  oh_draw :: enc_draw
  oh_uuid :: bytes
  oh_kds :: kds_host

abbreviation oh_env :: "ope_host \<Rightarrow> environ" where
  "oh_env H \<equiv> fh_env (oh_floor H)"

definition on_net :: "('n, gateway_error, 'a) op \<Rightarrow> ('n ope_state, gateway_error, 'a) op" where
  "on_net = on_part os_net (\<lambda>n. os_net_update (\<lambda>_. n))"

subsection \<open>Errors\<close>

text \<open>A panic of the client ends the request; it is an error without text here.\<close>

definition map_gw :: "gateway_error \<Rightarrow> api_error" where
  "map_gw err =
     (case err of
        GwHttp status body \<Rightarrow>
          if status = 403 then Forbidden (''ope matrix denied: '' @ body)
          else if status = 409 then Upstream (''ope assign stale: '' @ body)
          else if status = 503 then Upstream (''ope unavailable: '' @ body)
          else if 400 \<le> status \<and> status < 500
          then BadRequest (''ope dispatch '' @ show_nat status @ '': '' @ body)
          else Upstream (''ope http '' @ show_nat status @ '': '' @ body)
      | other \<Rightarrow> Upstream (gateway_error_to_string other))"

definition dispatch_status_error :: "nat \<Rightarrow> string \<Rightarrow> api_error" where
  "dispatch_status_error status msg =
     (let m = ''ope dispatch '' @ show_nat status @ '': '' @ msg
      in if 400 \<le> status \<and> status < 500 then BadRequest m else Upstream m)"

subsection \<open>Choosing an engine\<close>

definition strip_model_provider_suffix :: "string \<Rightarrow> string" where
  "strip_model_provider_suffix model =
     (case rfind (CHR ''@'') model of Some at \<Rightarrow> take at model | None \<Rightarrow> model)"

definition serves_model :: "string \<Rightarrow> inventory_engine \<Rightarrow> bool" where
  "serves_model m e \<longleftrightarrow> list_ex (\<lambda>x. strip_model_provider_suffix x = m) (ie_models e)"

definition pick_engine :: "inventory_response \<Rightarrow> string \<Rightarrow> api_error + inventory_engine" where
  "pick_engine inventory model =
     (let m = strip_model_provider_suffix (trim model)
      in if m = [] then Inl (BadRequest ''model required'')
         else (case find (\<lambda>e. ie_healthy e \<and> 0 < ie_ready_sessions e \<and> serves_model m e) (ir_engines inventory) of
                 Some e \<Rightarrow> Inr e
               | None \<Rightarrow>
                   (case find (\<lambda>e. ie_healthy e \<and> serves_model m e) (ir_engines inventory) of
                      Some e \<Rightarrow> Inr e
                    | None \<Rightarrow> Inl (Upstream (''no engine available for model `'' @ m @ ''`'')))))"

subsection \<open>Checking the recipient\<close>

definition observe_host_time_from_env ::
    "ope_host \<Rightarrow> (string option, sealed_time_error, nat) op" where
  "observe_host_time_from_env H =
     observe (oh_clock_faults H)
       (store_from_env (oh_env H) (fh_sgx (oh_floor H)) (fh_data_is_dir (oh_floor H))
          (fh_temp_dir (oh_floor H)))
       (oh_now_ms H)"

definition current_unix_ms :: "ope_host \<Rightarrow> ('n ope_state, api_error, nat) op" where
  "current_unix_ms H =
     on_part os_floor (\<lambda>f. os_floor_update (\<lambda>_. f))
       (map_errS (\<lambda>e. Forbidden (sealed_time_error_to_string e)) (observe_host_time_from_env H))"

definition report_key :: "'x ext_scheme \<Rightarrow> string \<Rightarrow> string" where
  "report_key X report_b64 = hex_encode X (sha256 X (as_bytes report_b64))"

definition verify_report_chain ::
    "'x snp_ext_scheme \<Rightarrow> bool \<Rightarrow> ope_host \<Rightarrow> string \<Rightarrow> bytes option \<Rightarrow> ('n ope_state, api_error, unit) op"
where
  "verify_report_chain X enabled H report_b64 vcek s =
     (if \<not> enabled then (Inr (), s)
      else if report_key X report_b64 \<in> os_verified s then (Inr (), s)
      else (case (case vcek of
                    Some der \<Rightarrow> (verify_snp_report_with_collateral X report_b64 der True, os_files s)
                  | None \<Rightarrow> verify_snp_report X (oh_kds H) report_b64 True (os_files s)) of
              (Inl e, fs) \<Rightarrow>
                (Inl (Forbidden (''engine SNP report failed chain verification: '' @
                                 attest_error_to_string e)), s\<lparr>os_files := fs\<rparr>)
            | (Inr _, fs) \<Rightarrow>
                (Inr (), s\<lparr>os_files := fs, os_verified := insert (report_key X report_b64) (os_verified s)\<rparr>)))"

definition ephemeral_trust_of :: "preassign_trust \<Rightarrow> ephemeral_trust" where
  "ephemeral_trust_of t =
     \<lparr>et_engine_id = pt_engine_id t, et_epoch_id = pt_epoch_id t, et_not_before = pt_not_before t,
      et_not_after = pt_not_after t,
      et_mlkem_encapsulation_key = ph_mlkem_encapsulation_key (pt_hybrid t),
      et_x25519_public = ph_x25519_public (pt_hybrid t),
      et_ed25519_public = pi_ed25519_public (pt_identity t),
      et_identity_signature = pi_identity_signature (pt_identity t)\<rparr>"

definition preassign_bound :: "preassign_response \<Rightarrow> inventory_engine \<Rightarrow> upstream_ctx \<Rightarrow> bool" where
  "preassign_bound pre engine ctx \<longleftrightarrow>
     trim (ps_assign_id pre) \<noteq> [] \<and> ps_engine_id pre = ie_engine_id engine \<and>
     pt_engine_id (ps_trust pre) = ie_engine_id engine \<and> ps_engine_set pre = ie_engine_set engine \<and>
     ps_key_set pre = uc_key_set ctx \<and> ps_openapi_key_id pre = uc_key_id ctx"

text \<open>The challenge, when it is required: the VCEK certificate the engine sent with its answer.\<close>

definition challenge_recipient ::
    "'x ope_ext_scheme \<Rightarrow> 'n ope_upstream \<Rightarrow> ope_host \<Rightarrow> preassign_trust
       \<Rightarrow> ('n ope_state, api_error, bytes option) op" where
  "challenge_recipient X U H t =
     (if \<not> require_engine_challenge_from_env (oh_env H) then returnS None
      else
        bindS (map_errS map_gw (on_net (go_challenge (ou_client U) (pt_engine_id t)
                 (encode_nonce_b64_url X (oh_nonce H)) (Some (pt_epoch_id t))))) (\<lambda>chal.
        bindS (liftS (map_err (\<lambda>e. Forbidden (''engine challenge failed: '' @
                                  engine_challenge_error_to_string e))
                        (verify_engine_challenge_response X (oh_nonce H) chal))) (\<lambda>_.
        if ou_chain U = None then returnS None
        else liftS (map_err (\<lambda>e. Forbidden (''engine challenge VCEK decode failed: '' @
                               engine_challenge_error_to_string e)) (vcek_der X (wr_cpu chal))))))"

definition accept_recipient ::
    "'x ope_ext_scheme \<Rightarrow> 'n ope_upstream \<Rightarrow> ope_host \<Rightarrow> preassign_trust \<Rightarrow> nat
       \<Rightarrow> ('n ope_state, api_error, accepted_recipient) op" where
  "accept_recipient X U H t now_ms s =
     (map_err (\<lambda>e. Forbidden (''untrusted OPE engine recipient: '' @ recipient_error_to_string (debug_str X) e))
        (accept_engine_recipient X ((oh_floor H)\<lparr>fh_file := os_floor s\<rparr>) (ou_policy U)
           (ephemeral_trust_of t) (cpu_quote t) None now_ms), s)"

definition verify_preassign ::
    "'x ope_ext_scheme \<Rightarrow> 'n ope_upstream \<Rightarrow> ope_host \<Rightarrow> preassign_response \<Rightarrow> inventory_engine
       \<Rightarrow> upstream_ctx \<Rightarrow> ('n ope_state, api_error, unit) op" where
  "verify_preassign X U H pre engine ctx =
     (if \<not> preassign_bound pre engine ctx then failS (Forbidden ''OPE preassignment binding mismatch'')
      else
        bindS (current_unix_ms H) (\<lambda>now_ms.
        if ps_ttl_ms pre = 0 \<or> ps_expires_at_ms pre \<le> now_ms
        then failS (Forbidden ''OPE preassignment expired'')
        else
          bindS (challenge_recipient X U H (ps_trust pre)) (\<lambda>vcek.
          bindS (accept_recipient X U H (ps_trust pre) now_ms) (\<lambda>accepted.
          case (ou_chain U, ar_report_b64 accepted) of
            (Some enabled, Some report_b64) \<Rightarrow> verify_report_chain X enabled H report_b64 vcek
          | _ \<Rightarrow> returnS ()))))"

subsection \<open>Preparing and dispatching a request\<close>

text \<open>The body as JSON, with the bare model name in it.\<close>

definition request_payload :: "'x ext_scheme \<Rightarrow> bytes \<Rightarrow> api_error + json" where
  "request_payload X body =
     bindE (map_err (\<lambda>e. BadRequest (''invalid json: '' @ e)) (json_from_slice X body)) (\<lambda>payload.
     Inr (insert_field ''model'' (JStr (strip_model_provider_suffix (model_from_body X body))) payload))"

text \<open>Everything the gateway is asked before the payload is touched again.\<close>

definition assign_engine ::
    "'x ope_ext_scheme \<Rightarrow> 'n ope_upstream \<Rightarrow> ope_host \<Rightarrow> string \<Rightarrow> upstream_ctx
       \<Rightarrow> ('n ope_state, api_error, preassign_response) op" where
  "assign_engine X U H model ctx =
     bindS (map_errS map_gw (on_net (go_inventory (ou_client U) (uc_key_set ctx)))) (\<lambda>inventory.
     bindS (liftS (pick_engine inventory model)) (\<lambda>engine.
     bindS (map_errS map_gw (on_net (go_preassign (ou_client U)
              \<lparr>pq_engine_id = ie_engine_id engine, pq_key_set = Some (uc_key_set ctx),
               pq_model = Some model, pq_openapi_key_id = Some (uc_key_id ctx)\<rparr>))) (\<lambda>pre.
     bindS (verify_preassign X U H pre engine ctx) (\<lambda>_. returnS pre))))"

definition prepare ::
    "'x ope_ext_scheme \<Rightarrow> 'n ope_upstream \<Rightarrow> ope_host \<Rightarrow> bytes \<Rightarrow> upstream_ctx \<Rightarrow> string
       \<Rightarrow> ('n ope_state, api_error, preassign_response \<times> encrypted_request \<times> string) op" where
  "prepare X U H body ctx openai_path =
     (let model = strip_model_provider_suffix (model_from_body X body)
      in bindS (liftS (request_payload X body)) (\<lambda>payload.
         bindS (assign_engine X U H model ctx) (\<lambda>pre.
         bindS (liftS (map_err (\<lambda>e. Internal (ope_wrap_error_to_string e))
                  (encrypt_openai_body_with_path X (oh_env H) (oh_draw H) (ps_trust pre) (uc_key_id ctx)
                     payload openai_path))) (\<lambda>enc.
         returnS (pre, enc, model)))))"

definition dispatch_of :: "preassign_response \<Rightarrow> encrypted_request \<Rightarrow> upstream_ctx \<Rightarrow> bytes \<Rightarrow> ope_dispatch_request"
where
  "dispatch_of pre enc ctx body =
     \<lparr>dr_engine_id = ps_engine_id pre, dr_conversation_id = None,
      dr_ephemeral_epoch = Some (er_ephemeral_epoch enc), dr_openapi_key_id = Some (uc_key_id ctx),
      dr_assign_id = Some (ps_assign_id pre), dr_body = body\<rparr>"

definition envelope_bytes :: "'x ope_ext_scheme \<Rightarrow> encrypted_request \<Rightarrow> api_error + bytes" where
  "envelope_bytes X enc =
     map_err (\<lambda>e. Internal (ope_wrap_error_to_string e)) (envelope_to_bytes X (er_envelope enc))"

definition dispatch_encrypted ::
    "'x ope_ext_scheme \<Rightarrow> 'n ope_upstream \<Rightarrow> preassign_response \<Rightarrow> encrypted_request \<Rightarrow> upstream_ctx
       \<Rightarrow> ('n ope_state, api_error, dispatch_response) op" where
  "dispatch_encrypted X U pre enc ctx =
     bindS (liftS (envelope_bytes X enc)) (\<lambda>body.
     map_errS map_gw (on_net (go_dispatch (ou_client U) (dispatch_of pre enc ctx body))))"

definition dispatch_streaming ::
    "'x ope_ext_scheme \<Rightarrow> 'n ope_upstream \<Rightarrow> preassign_response \<Rightarrow> encrypted_request \<Rightarrow> upstream_ctx
       \<Rightarrow> ('n ope_state, api_error, nat \<times> header_list \<times> reader) op" where
  "dispatch_streaming X U pre enc ctx =
     bindS (liftS (envelope_bytes X enc)) (\<lambda>body.
     map_errS map_gw (on_net (go_dispatch_reader (ou_client U) (dispatch_of pre enc ctx body))))"

subsection \<open>Metering\<close>

record usage_meter_ctx =
  um_engine_id :: string
  um_epoch_id :: string
  um_verify_key :: string

definition resolve_usage_or_estimate ::
    "'x usage_rep_ext_scheme \<Rightarrow> environ \<Rightarrow> string option \<Rightarrow> bytes \<Rightarrow> string \<Rightarrow> usage_meter_ctx option
       \<Rightarrow> api_error + nat \<times> nat" where
  "resolve_usage_or_estimate X env usage_hdr body completion meter =
     (if \<not> require_signed_usage_from_env env then
        map_err (\<lambda>e. BadRequest (usage_error_to_string e))
          (resolve_usage_tokens X usage_hdr body completion False None)
      else
        bindE (ok_or (BadRequest ''engine usage verify context missing (RB-37)'') meter) (\<lambda>m.
        map_err (\<lambda>e. BadRequest (usage_error_to_string e))
          (resolve_usage_tokens X usage_hdr body completion True
             (Some \<lparr>uv_expected_engine_id = um_engine_id m, uv_expected_epoch_id = um_epoch_id m,
                    uv_verify_key_b64url = um_verify_key m,
                    uv_expected_request_hash_hex = request_body_hash_hex X body,
                    uv_max_total_tokens = independent_token_bound body completion\<rparr>))))"

subsection \<open>The forwarder\<close>

text \<open>What reading to the end leaves in the buffer when an error is ignored.\<close>

fun read_available :: "reader \<Rightarrow> bytes" where
  "read_available [] = []"
| "read_available (Inl e # r) = []"
| "read_available (Inr b # r) = (if b = [] then [] else b @ read_available r)"

definition on_upstream :: "('s, 'e, 'a) op \<Rightarrow> ('s \<times> 'w, 'e, 'a) op" where
  "on_upstream = on_part fst (\<lambda>s. apfst (\<lambda>_. s))"

definition bridge_response ::
    "'x ope_ext_scheme \<Rightarrow> ope_host \<Rightarrow> 'w writer \<Rightarrow> encrypted_request \<Rightarrow> string
       \<Rightarrow> nat \<times> header_list \<times> reader \<Rightarrow> ('n ope_state \<times> 'w, api_error, stream_result) op" where
  "bridge_response X H wr enc model resp s =
     (case resp of (status, headers, r) \<Rightarrow>
        if \<not> (200 \<le> status \<and> status < 300)
        then (Inl (dispatch_status_error status (from_utf8_lossy (read_available r))), s)
        else
          let ct = (case find_header headers ''content-type'' of Some v \<Rightarrow> v | None \<Rightarrow> [])
          in (case bridge_ope_to_openai_sse X wr enc (oh_uuid H) r ct model (snd s) of
                (Inl e, w) \<Rightarrow> (Inl e, (fst s, w))
              | (Inr written, w) \<Rightarrow>
                  (Inr \<lparr>sr_status = 200, sr_content_type = ''text/event-stream'', sr_bytes_written = written\<rparr>,
                   (fst s, w))))"

definition forward_v1_stream_ctx ::
    "'x ope_ext_scheme \<Rightarrow> 'n ope_upstream \<Rightarrow> ope_host \<Rightarrow> 'w writer \<Rightarrow> http_method \<Rightarrow> string \<Rightarrow> bytes option
       \<Rightarrow> upstream_ctx \<Rightarrow> ('n ope_state \<times> 'w, api_error, stream_result) op" where
  "forward_v1_stream_ctx X U H wr method path body ctx =
     (if method \<noteq> Post then failS MethodNotAllowed
      else if contains path ''embeddings''
      then failS (BadRequest ''streaming is not supported for /v1/embeddings'')
      else
        bindS (on_upstream (prepare X U H (case body of Some b \<Rightarrow> b | None \<Rightarrow> []) ctx path))
          (\<lambda>(pre, enc, model).
        bindS (on_upstream (dispatch_streaming X U pre enc ctx)) (\<lambda>resp.
        bridge_response X H wr enc model resp)))"

text \<open>The answer to a buffered dispatch, which no longer talks to anyone.\<close>

definition completion_response ::
    "'x ope_ext_scheme \<Rightarrow> ope_host \<Rightarrow> string \<Rightarrow> bytes \<Rightarrow> preassign_response \<Rightarrow> encrypted_request \<Rightarrow> string
       \<Rightarrow> dispatch_response \<Rightarrow> api_error + upstream_response" where
  "completion_response X H path body pre enc model resp =
     (if \<not> (200 \<le> dp_status resp \<and> dp_status resp < 300)
      then Inl (dispatch_status_error (dp_status resp) (from_utf8_lossy (dp_body resp)))
      else
        bindE (decrypt_ope_body_to_completion X enc (dp_body resp)
                 (case dispatch_header resp ''content-type'' of Some v \<Rightarrow> v | None \<Rightarrow> [])) (\<lambda>agg.
        if contains path ''embeddings'' then
          bindE (map_err (\<lambda>e. Upstream (''embeddings response is not JSON: '' @ e))
                   (json_from_slice X (as_bytes (ag_content agg)))) (\<lambda>embeddings.
          if get_str embeddings ''object'' = Some ''chat.completion''
          then Inl (Upstream ''embeddings path returned chat.completion'')
          else Inr (UpJson embeddings))
        else
          bindE (resolve_usage_or_estimate X (oh_env H) (dispatch_header resp ''x-ope-usage-report'') body
                   (ag_content agg)
                   (Some \<lparr>um_engine_id = ps_engine_id pre, um_epoch_id = pt_epoch_id (ps_trust pre),
                          um_verify_key = pi_ed25519_public (pt_identity (ps_trust pre))\<rparr>))
            (\<lambda>(prompt_tokens, completion_tokens).
          Inr (UpJson (openai_chat_completion_json X (oh_uuid H) model agg prompt_tokens completion_tokens)))))"

definition forward_v1_ctx ::
    "'x ope_ext_scheme \<Rightarrow> 'n ope_upstream \<Rightarrow> ope_host \<Rightarrow> http_method \<Rightarrow> string \<Rightarrow> bytes option
       \<Rightarrow> upstream_ctx \<Rightarrow> ('n ope_state, api_error, upstream_response) op" where
  "forward_v1_ctx X U H method path body ctx =
     (if method \<noteq> Post then failS MethodNotAllowed
      else if \<not> starts_with path ''/v1/'' then failS NotFound
      else let b = (case body of Some b \<Rightarrow> b | None \<Rightarrow> [])
           in if body_wants_stream X b then
                (\<lambda>s. case forward_v1_stream_ctx X U H vec_write method path (Some b) ctx (s, []) of
                       (Inl e, (s1, _)) \<Rightarrow> (Inl e, s1)
                     | (Inr _, (s1, buf)) \<Rightarrow> (Inr (UpRaw buf ''text/event-stream''), s1))
              else
                bindS (prepare X U H b ctx path) (\<lambda>(pre, enc, model).
                bindS (dispatch_encrypted X U pre enc ctx) (\<lambda>resp.
                liftS (completion_response X H path b pre enc model resp))))"

definition ope_forward_v1 ::
    "'x ope_ext_scheme \<Rightarrow> 'n ope_upstream \<Rightarrow> ope_host \<Rightarrow> http_method \<Rightarrow> string \<Rightarrow> bytes option
       \<Rightarrow> ('n ope_state, api_error, upstream_response) op" where
  "ope_forward_v1 X U H method path body = forward_v1_ctx X U H method path body ctx_default"

definition ope_forward_v1_stream ::
    "'x ope_ext_scheme \<Rightarrow> 'n ope_upstream \<Rightarrow> ope_host \<Rightarrow> 'w writer \<Rightarrow> http_method \<Rightarrow> string \<Rightarrow> bytes option
       \<Rightarrow> ('n ope_state \<times> 'w, api_error, stream_result) op" where
  "ope_forward_v1_stream X U H wr method path body =
     forward_v1_stream_ctx X U H wr method path body ctx_default"

text \<open>The models of the healthy engines a key may use, each once, in the order of their bytes.\<close>

definition add_model :: "key_policy \<Rightarrow> string \<Rightarrow> string list \<Rightarrow> string list" where
  "add_model policy m ids = (if allows_model policy m \<and> m \<notin> set ids then ids @ [m] else ids)"

definition inventory_models :: "key_policy \<Rightarrow> inventory_response \<Rightarrow> string list" where
  "inventory_models policy inventory =
     sort (fold (add_model policy) (concat (map ie_models (filter ie_healthy (ir_engines inventory)))) [])"

definition list_models_for_key ::
    "'n ope_upstream \<Rightarrow> upstream_ctx \<Rightarrow> key_policy \<Rightarrow> ('n ope_state, api_error, models_list_response) op" where
  "list_models_for_key U ctx policy =
     bindS (map_errS map_gw (on_net (go_inventory (ou_client U) (uc_key_set ctx)))) (\<lambda>inventory.
     returnS \<lparr>ml_object = ''list'',
              ml_data = map (\<lambda>mid. \<lparr>mo_id = mid, mo_object = ''model'', mo_created = 1700000000,
                                    mo_owned_by = ''teechat''\<rparr>) (inventory_models policy inventory)\<rparr>)"

definition ope_list_models :: "'n ope_upstream \<Rightarrow> ('n ope_state, api_error, models_list_response) op" where
  "ope_list_models U = list_models_for_key U ctx_default unrestricted"

subsection \<open>The CVM edition\<close>

definition cvm_ops :: "'x ope_ext_scheme \<Rightarrow> http_agent \<Rightarrow> gateway_client \<Rightarrow> http_out list gw_ops" where
  "cvm_ops X A c =
     \<lparr>go_inventory = gateway_inventory X A c, go_preassign = gateway_preassign X A c,
      go_challenge = gateway_challenge_engine X A c, go_dispatch = gateway_dispatch A c,
      go_dispatch_reader = gateway_dispatch_reader A c\<rparr>"

definition ope_try_new ::
    "'x ope_ext_scheme \<Rightarrow> http_agent \<Rightarrow> gateway_config \<Rightarrow> gateway_error + http_out list ope_upstream" where
  "ope_try_new X A cfg =
     bindE (gateway_client_try_new X cfg) (\<lambda>c.
     Inr \<lparr>ou_client = cvm_ops X A c, ou_policy = gc_recipient_policy cfg,
          ou_chain = Some (gc_verify_engine_snp_chain cfg)\<rparr>)"

definition ope_from_env ::
    "'x ope_ext_scheme \<Rightarrow> http_agent \<Rightarrow> environ \<Rightarrow> gateway_error + http_out list ope_upstream option" where
  "ope_from_env X A env =
     bindE (gateway_from_env X env) (\<lambda>cfg.
     case cfg of None \<Rightarrow> Inr None | Some cfg \<Rightarrow> bindE (ope_try_new X A cfg) (\<lambda>u. Inr (Some u)))"

text \<open>A process starts with no verified reports.\<close>

definition ope_start :: "'n \<Rightarrow> string option \<Rightarrow> files \<Rightarrow> 'n ope_state" where
  "ope_start net floor fs = \<lparr>os_net = net, os_verified = {}, os_floor = floor, os_files = fs\<rparr>"

end
