(* ===== verification/Ope_Dispatch.thy ===== *)
theory Ope_Dispatch
  imports Ope_Upstream
begin

text \<open>
  What leaves the edge through the OPE upstream. The interface of a gateway client is a locale: its calls,
  the bodies they have dispatched, and the law that only a dispatch dispatches. The theorems are proved
  for any such client and any number of requests whose preparation and dispatch interleave, and
  instantiated for the client of the CVM edition.
\<close>

subsection \<open>Recipients\<close>

text \<open>The certificate chain of a report was verified, with a certificate from the engine or from AMD.\<close>

definition report_vouched :: "'x snp_ext_scheme \<Rightarrow> string \<Rightarrow> bool" where
  "report_vouched X rb \<longleftrightarrow>
     (\<exists>der v. verify_snp_report_with_collateral X rb der True = Inr v) \<or>
     (\<exists>K fs v. fst (verify_snp_report X K rb True fs) = Inr v)"

text \<open>The same, up to a collision of SHA-256 on the text of two reports.\<close>

definition report_key_vouched :: "'x snp_ext_scheme \<Rightarrow> string \<Rightarrow> bool" where
  "report_key_vouched X k \<longleftrightarrow> (\<exists>rb. k = report_key X rb \<and> report_vouched X rb)"

definition recipient_ok :: "'x ope_ext_scheme \<Rightarrow> 'n ope_upstream \<Rightarrow> preassign_trust \<Rightarrow> bool" where
  "recipient_ok X U t \<longleftrightarrow>
     (\<exists>H now acc. accept_engine_recipient X H (ou_policy U) (ephemeral_trust_of t) (cpu_quote t) None now = Inr acc \<and>
        (ou_chain U = Some True \<longrightarrow>
          (\<forall>rb. ar_report_b64 acc = Some rb \<longrightarrow> report_key_vouched X (report_key X rb))))"

text \<open>A request ready to go: what it is encrypted to was accepted, and the assignment is the caller's.\<close>

definition sealed_for ::
    "'x ope_ext_scheme \<Rightarrow> 'n ope_upstream \<Rightarrow> preassign_response \<Rightarrow> encrypted_request \<Rightarrow> upstream_ctx \<Rightarrow> bool" where
  "sealed_for X U pre enc ctx \<longleftrightarrow>
     recipient_ok X U (ps_trust pre) \<and>
     (\<exists>env d payload path.
        encrypt_openai_body_with_path X env d (ps_trust pre) (uc_key_id ctx) payload path = Inr enc) \<and>
     ps_key_set pre = uc_key_set ctx \<and> ps_openapi_key_id pre = uc_key_id ctx"

definition verified_ok :: "'x snp_ext_scheme \<Rightarrow> string set \<Rightarrow> bool" where
  "verified_ok X V \<longleftrightarrow> (\<forall>k\<in>V. report_key_vouched X k)"

lemma snd_on_net [simp]: "snd (on_net m s) = s\<lparr>os_net := snd (m (os_net s))\<rparr>"
  by (simp add: on_net_def on_part_def split: prod.split)

text \<open>Chain verification leaves only verified reports behind.\<close>

lemma verify_report_chain_state:
  assumes "verify_report_chain X b H rb vcek s = (r, s')"
  shows "os_net s' = os_net s" "verified_ok X (os_verified s) \<Longrightarrow> verified_ok X (os_verified s')"
    "r = Inr () \<Longrightarrow> b \<Longrightarrow> report_key X rb \<in> os_verified s'"
proof -
  have v1: "report_key_vouched X (report_key X rb)" if "verify_snp_report_with_collateral X rb der True = Inr v" for der v
    using that unfolding report_key_vouched_def report_vouched_def by blast
  have v2: "report_key_vouched X (report_key X rb)"
    if "verify_snp_report X (oh_kds H) rb True (os_files s) = (Inr v, fs)" for v fs
    using that unfolding report_key_vouched_def report_vouched_def by (metis fst_conv)
  show "os_net s' = os_net s" "verified_ok X (os_verified s) \<Longrightarrow> verified_ok X (os_verified s')"
    "r = Inr () \<Longrightarrow> b \<Longrightarrow> report_key X rb \<in> os_verified s'"
    using assms
    by (auto simp: verify_report_chain_def verified_ok_def
        split: if_splits option.splits sum.splits prod.splits dest: v1 v2)
qed

lemma verify_preassign_ok:
  assumes "verify_preassign X U H pre engine ctx s = (Inr (), s')" "verified_ok X (os_verified s)"
  shows "recipient_ok X U (ps_trust pre)" "ps_key_set pre = uc_key_set ctx" "ps_openapi_key_id pre = uc_key_id ctx"
proof -
  from assms(1) obtain now vcek accepted s1 s2 where a: "preassign_bound pre engine ctx"
    "current_unix_ms H s = (Inr now, s1)" "challenge_recipient X U H (ps_trust pre) s1 = (Inr vcek, s2)"
    "accept_engine_recipient X ((oh_floor H)\<lparr>fh_file := os_floor s2\<rparr>) (ou_policy U)
       (ephemeral_trust_of (ps_trust pre)) (cpu_quote (ps_trust pre)) None now = Inr accepted"
    "(case (ou_chain U, ar_report_b64 accepted) of
       (Some enabled, Some rb) \<Rightarrow> verify_report_chain X enabled H rb vcek | _ \<Rightarrow> returnS ()) s2 = (Inr (), s')"
    by (auto simp: verify_preassign_def accept_recipient_def result_simps split: if_splits)
  from a(1) show "ps_key_set pre = uc_key_set ctx" "ps_openapi_key_id pre = uc_key_id ctx"
    by (simp_all add: preassign_bound_def)
  from a(2) have "os_verified s1 = os_verified s"
    by (auto simp: current_unix_ms_def on_part_def split: prod.splits)
  moreover from a(3) have "os_verified s2 = os_verified s1"
    by (auto simp: challenge_recipient_def on_net_def on_part_def result_simps split: if_splits prod.splits)
  ultimately have "verified_ok X (os_verified s2)" using assms(2) by simp
  then have "report_key_vouched X (report_key X rb)" if "ou_chain U = Some True" "ar_report_b64 accepted = Some rb" for rb
    using that a(5) verify_report_chain_state [of X True H rb vcek s2 "Inr ()" s']
    by (auto simp: verified_ok_def)
  with a(4) show "recipient_ok X U (ps_trust pre)" by (auto simp: recipient_ok_def)
qed

lemma assign_engine_ok:
  assumes "assign_engine X U H model ctx s = (Inr pre, s')" "verified_ok X (os_verified s)"
  shows "recipient_ok X U (ps_trust pre)" "ps_key_set pre = uc_key_set ctx" "ps_openapi_key_id pre = uc_key_id ctx"
proof -
  from assms(1) obtain inventory s1 engine s2 where a:
    "on_net (go_inventory (ou_client U) (uc_key_set ctx)) s = (Inr inventory, s1)"
    "on_net (go_preassign (ou_client U) \<lparr>pq_engine_id = ie_engine_id engine, pq_key_set = Some (uc_key_set ctx),
       pq_model = Some model, pq_openapi_key_id = Some (uc_key_id ctx)\<rparr>) s1 = (Inr pre, s2)"
    "verify_preassign X U H pre engine ctx s2 = (Inr (), s')"
    by (auto simp: assign_engine_def result_simps)
  from a(1,2) have "os_verified s2 = os_verified s"
    by (auto simp: on_net_def on_part_def split: prod.splits)
  with assms(2) have "verified_ok X (os_verified s2)" by simp
  from verify_preassign_ok [OF a(3) this] show "recipient_ok X U (ps_trust pre)"
    "ps_key_set pre = uc_key_set ctx" "ps_openapi_key_id pre = uc_key_id ctx" .
qed

lemma prepare_ok:
  assumes "prepare X U H body ctx path s = (Inr (pre, enc, model), s')" "verified_ok X (os_verified s)"
  shows "sealed_for X U pre enc ctx"
proof -
  from assms(1) obtain payload s1 where a: "assign_engine X U H model ctx s = (Inr pre, s1)"
    "encrypt_openai_body_with_path X (oh_env H) (oh_draw H) (ps_trust pre) (uc_key_id ctx) payload path = Inr enc"
    by (auto simp: prepare_def Let_def result_simps)
  from assign_engine_ok [OF a(1) assms(2)] a(2) show ?thesis by (auto simp: sealed_for_def)
qed

subsection \<open>Interleaved requests\<close>

text \<open>The steps of a process serving any number of requests. Preparation holds the lock of the upstream
  throughout, so it is one step; a prepared request may be dispatched at any later time, and listing
  models takes no lock. The second component of the state is the set of requests prepared so far.\<close>

inductive ope_step ::
    "'x ope_ext_scheme \<Rightarrow> 'n ope_upstream
       \<Rightarrow> 'n ope_state \<times> (preassign_response \<times> encrypted_request \<times> upstream_ctx) set
       \<Rightarrow> 'n ope_state \<times> (preassign_response \<times> encrypted_request \<times> upstream_ctx) set \<Rightarrow> bool"
  for X :: "'x ope_ext_scheme" and U :: "'n ope_upstream" where
  prepared: "prepare X U H body ctx path s = (Inr (pre, enc, model), s') \<Longrightarrow>
     ope_step X U (s, P) (s', insert (pre, enc, ctx) P)"
| refused: "prepare X U H body ctx path s = (Inl e, s') \<Longrightarrow> ope_step X U (s, P) (s', P)"
| dispatched: "(pre, enc, ctx) \<in> P \<Longrightarrow> ope_step X U (s, P) (snd (dispatch_encrypted X U pre enc ctx s), P)"
| streamed: "(pre, enc, ctx) \<in> P \<Longrightarrow> ope_step X U (s, P) (snd (dispatch_streaming X U pre enc ctx s), P)"
| listed: "ope_step X U (s, P) (snd (list_models_for_key U ctx policy s), P)"

text \<open>A step of one request neither dispatches anything nor spoils the verified reports.\<close>

definition quiet :: "'x snp_ext_scheme \<Rightarrow> ('n \<Rightarrow> bytes list) \<Rightarrow> 'n ope_state \<Rightarrow> 'n ope_state \<Rightarrow> bool" where
  "quiet X sent s s' \<longleftrightarrow>
     sent (os_net s') = sent (os_net s) \<and> (verified_ok X (os_verified s) \<longrightarrow> verified_ok X (os_verified s'))"

lemma quiet_order: "reflp (quiet X sent)" "transp (quiet X sent)"
  by (auto simp: quiet_def reflp_def transp_def)

lemmas quiet_keeps = keeps_pure [OF quiet_order(1)] keeps_bindS [OF quiet_order(2)]

lemma quiet_floor: "keeps (quiet X sent) (current_unix_ms H)"
  by (auto simp: keeps_def quiet_def current_unix_ms_def on_part_def split: prod.splits)

lemma quiet_accept: "keeps (quiet X sent) (accept_recipient Y U H t now)"
  by (simp add: keeps_def quiet_def accept_recipient_def)

lemma quiet_chain: "keeps (quiet X sent) (verify_report_chain X b H rb vcek)"
proof
  fix s :: "'a ope_state"
  obtain r s' where "verify_report_chain X b H rb vcek s = (r, s')" by fastforce
  with verify_report_chain_state [of X b H rb vcek s r s']
  show "quiet X sent s (snd (verify_report_chain X b H rb vcek s))" by (simp add: quiet_def)
qed

text \<open>Every prepared request is sealed, and everything dispatched is one of them.\<close>

definition all_sealed ::
    "'x ope_ext_scheme \<Rightarrow> 'n ope_upstream \<Rightarrow> ('n \<Rightarrow> bytes list)
       \<Rightarrow> 'n ope_state \<times> (preassign_response \<times> encrypted_request \<times> upstream_ctx) set \<Rightarrow> bool" where
  "all_sealed X U sent sp \<longleftrightarrow>
     verified_ok X (os_verified (fst sp)) \<and> (\<forall>(pre, enc, ctx)\<in>snd sp. sealed_for X U pre enc ctx) \<and>
     (\<forall>b\<in>set (sent (os_net (fst sp))). \<exists>(pre, enc, ctx)\<in>snd sp. envelope_bytes X enc = Inr b)"

subsection \<open>The interface of a gateway client\<close>

locale gateway_plane =
  fixes G :: "'n gw_ops" and sent :: "'n \<Rightarrow> bytes list"
  assumes inventory_quiet: "sent (snd (go_inventory G key_set n)) = sent n"
    and preassign_quiet: "sent (snd (go_preassign G preq n)) = sent n"
    and challenge_quiet: "sent (snd (go_challenge G engine_id nonce epoch n)) = sent n"
    and dispatch_sends: "sent (snd (go_dispatch G req n)) \<in> {sent n, sent n @ [dr_body req]}"
    and dispatch_reader_sends: "sent (snd (go_dispatch_reader G req n)) \<in> {sent n, sent n @ [dr_body req]}"
begin

lemma net_quiet:
  assumes "\<And>n. sent (snd (m n)) = sent n"
  shows "keeps (quiet X sent) (map_errS f (on_net m))"
  using assms by (simp add: keeps_def quiet_def)

lemma challenge_recipient_quiet:
  assumes "ou_client U = G"
  shows "keeps (quiet X sent) (challenge_recipient Y U H t)"
  unfolding challenge_recipient_def assms
  by (auto intro!: quiet_keeps net_quiet simp: challenge_quiet)

lemma verify_preassign_quiet:
  "ou_client U = G \<Longrightarrow> keeps (quiet X sent) (verify_preassign X U H pre engine ctx)"
  unfolding verify_preassign_def
  by (auto intro!: quiet_keeps challenge_recipient_quiet quiet_floor quiet_accept quiet_chain split: option.split)

lemma assign_engine_quiet:
  assumes "ou_client U = G"
  shows "keeps (quiet X sent) (assign_engine X U H model ctx)"
  unfolding assign_engine_def assms
  by (auto intro!: quiet_keeps net_quiet verify_preassign_quiet assms simp: inventory_quiet preassign_quiet)

lemma prepare_quiet: "ou_client U = G \<Longrightarrow> keeps (quiet X sent) (prepare X U H body ctx path)"
  unfolding prepare_def Let_def by (auto intro!: quiet_keeps assign_engine_quiet)

lemma list_models_quiet:
  assumes "ou_client U = G"
  shows "keeps (quiet X sent) (list_models_for_key U ctx policy)"
  unfolding list_models_for_key_def assms by (auto intro!: quiet_keeps net_quiet simp: inventory_quiet)

lemma dispatch_effect:
  assumes "ou_client U = G" "m \<in> {snd (dispatch_encrypted X U pre enc ctx s), snd (dispatch_streaming X U pre enc ctx s)}"
  shows "os_verified m = os_verified s \<and>
    (sent (os_net m) = sent (os_net s) \<or>
     (\<exists>b. envelope_bytes X enc = Inr b \<and> sent (os_net m) = sent (os_net s) @ [b]))"
proof (cases "envelope_bytes X enc")
  case (Inl e)
  with assms show ?thesis by (auto simp: dispatch_encrypted_def dispatch_streaming_def bindS_def)
next
  case (Inr b)
  with assms dispatch_sends [of "dispatch_of pre enc ctx b" "os_net s"]
    dispatch_reader_sends [of "dispatch_of pre enc ctx b" "os_net s"]
  show ?thesis
    by (auto simp: dispatch_encrypted_def dispatch_streaming_def bindS_def dispatch_of_def)
qed

lemma step_all_sealed:
  assumes "ope_step X U sp sp'" "ou_client U = G" "all_sealed X U sent sp"
  shows "all_sealed X U sent sp'"
  using assms(1)
proof cases
  case (prepared H body ctx path s pre enc model s' P)
  with keepsD [OF prepare_quiet [OF assms(2)], of X s H body ctx path] assms(3) prepare_ok [OF prepared(3)]
  show ?thesis by (auto simp: all_sealed_def quiet_def)
next
  case (refused H body ctx path s e s' P)
  with keepsD [OF prepare_quiet [OF assms(2)], of X s H body ctx path] assms(3)
  show ?thesis by (auto simp: all_sealed_def quiet_def)
next
  case (dispatched pre enc ctx P s)
  with dispatch_effect [OF assms(2), of "snd (dispatch_encrypted X U pre enc ctx s)" X pre enc ctx s] assms(3)
  show ?thesis by (fastforce simp: all_sealed_def)
next
  case (streamed pre enc ctx P s)
  with dispatch_effect [OF assms(2), of "snd (dispatch_streaming X U pre enc ctx s)" X pre enc ctx s] assms(3)
  show ?thesis by (fastforce simp: all_sealed_def)
next
  case (listed s P ctx policy)
  with keepsD [OF list_models_quiet [OF assms(2)], of X s ctx policy] assms(3)
  show ?thesis by (auto simp: all_sealed_def quiet_def)
qed

lemma run_all_sealed:
  assumes "(ope_step X U)\<^sup>*\<^sup>* sp sp'" "ou_client U = G" "all_sealed X U sent sp"
  shows "all_sealed X U sent sp'"
  using assms(1,3) by (induction rule: rtranclp_induct) (auto intro: step_all_sealed [OF _ assms(2)])

end

subsection \<open>The CVM client\<close>

text \<open>The bodies in a log of requests that went to the dispatch route.\<close>

definition dispatched_bodies :: "gateway_client \<Rightarrow> http_out list \<Rightarrow> bytes list" where
  "dispatched_bodies c =
     List.map_filter (\<lambda>r. if ho_url r = gl_base_url c @ ''/v1/ope/dispatch'' then ho_body r else None)"

lemma map_filter_snoc:
  "List.map_filter f (xs @ [x]) = List.map_filter f xs @ (case f x of None \<Rightarrow> [] | Some y \<Rightarrow> [y])"
  by (simp add: List.map_filter_def split: option.split)

lemma dispatched_bodies_snoc [simp]:
  "dispatched_bodies c (log @ [r]) = dispatched_bodies c log @
     (if ho_url r = gl_base_url c @ ''/v1/ope/dispatch'' then (case ho_body r of None \<Rightarrow> [] | Some b \<Rightarrow> [b]) else [])"
  by (simp add: dispatched_bodies_def map_filter_snoc)

lemma snd_bindS_liftS: "snd (bindS m (\<lambda>a. liftS (f a)) s) = snd (m s)"
  by (auto simp: bindS_def split: prod.splits sum.splits)

lemma snd_gateway_get: "snd (gateway_get f A c path log) =
    log @ [\<lparr>ho_method = ''GET'', ho_url = gl_base_url c @ path, ho_headers = auth_headers c, ho_body = None\<rparr>]"
  by (simp add: gateway_get_def snd_bindS_liftS agent_call_def)

lemma snd_gateway_post: "snd (gateway_post f A c path b log) =
    log @ [\<lparr>ho_method = ''POST'', ho_url = gl_base_url c @ path,
            ho_headers = auth_headers c @ [(''Content-Type'', ''application/json'')], ho_body = Some b\<rparr>]"
  by (simp add: gateway_post_def snd_bindS_liftS agent_call_def)

lemma snd_gateway_dispatch_reader: "snd (gateway_dispatch_reader A c req log) =
    (if trim (dr_engine_id req) = [] then log
     else log @ [\<lparr>ho_method = ''POST'', ho_url = gl_base_url c @ ''/v1/ope/dispatch'',
                  ho_headers = auth_headers c @ dispatch_headers req, ho_body = Some (dr_body req)\<rparr>])"
  by (auto simp: gateway_dispatch_reader_def agent_call_def bindS_def split: sum.splits)

lemma snd_gateway_dispatch: "snd (gateway_dispatch A c req log) = snd (gateway_dispatch_reader A c req log)"
  by (auto simp: gateway_dispatch_def bindS_def split: sum.splits prod.splits)

interpretation cvm: gateway_plane "cvm_ops X A c" "dispatched_bodies c" for X :: "'x ope_ext_scheme" and A c
proof
  show "dispatched_bodies c (snd (go_inventory (cvm_ops X A c) k n)) = dispatched_bodies c n" for k n
    by (simp add: cvm_ops_def gateway_inventory_def Let_def snd_gateway_get)
  show "dispatched_bodies c (snd (go_preassign (cvm_ops X A c) r n)) = dispatched_bodies c n" for r n
    by (cases "preassign_to_vec X r")
      (auto simp: cvm_ops_def gateway_preassign_def bindS_def snd_gateway_post)
  show "dispatched_bodies c (snd (go_challenge (cvm_ops X A c) e x p n)) = dispatched_bodies c n" for e x p n
    by (auto simp: cvm_ops_def gateway_challenge_engine_def Let_def bindS_def snd_gateway_post challenge_path_def
        split: sum.splits)
  show "dispatched_bodies c (snd (go_dispatch (cvm_ops X A c) req n)) \<in>
      {dispatched_bodies c n, dispatched_bodies c n @ [dr_body req]}" for req n
    by (simp add: cvm_ops_def snd_gateway_dispatch snd_gateway_dispatch_reader)
  show "dispatched_bodies c (snd (go_dispatch_reader (cvm_ops X A c) req n)) \<in>
      {dispatched_bodies c n, dispatched_bodies c n @ [dr_body req]}" for req n
    by (simp add: cvm_ops_def snd_gateway_dispatch_reader)
qed

text \<open>What the configuration makes of the upstream.\<close>

lemma ope_try_new_parts:
  assumes "ope_try_new X A cfg = Inr U"
  obtains c where "ou_client U = cvm_ops X A c" "gl_base_url c = gc_base_url cfg"
    "ou_policy U = gc_recipient_policy cfg" "ou_chain U = Some (gc_verify_engine_snp_chain cfg)"
proof -
  from assms obtain c where c: "gateway_client_try_new X cfg = Inr c"
    "U = \<lparr>ou_client = cvm_ops X A c, ou_policy = gc_recipient_policy cfg,
          ou_chain = Some (gc_verify_engine_snp_chain cfg)\<rparr>"
    by (auto simp: ope_try_new_def result_simps)
  from c(1) have "gl_base_url c = gc_base_url cfg"
    by (auto simp: gateway_client_try_new_def result_simps split: if_splits)
  with c(2) that show thesis by simp
qed

lemma gateway_from_env_parts:
  assumes "gateway_from_env X env = Inr (Some cfg)"
  shows "\<exists>pins skew. gc_recipient_policy cfg = policy_from_env env pins skew"
    "gc_verify_engine_snp_chain cfg = truthy_env env ''OPENAPI_OPE_VERIFY_ENGINE_SNP_CHAIN''"
proof -
  from assms obtain c0 pins where "cfg = c0\<lparr>gc_engine_identity_pins := pins,
      gc_epoch_clock_skew_secs := duration_secs_from_env env ''OPENAPI_OPE_EPOCH_CLOCK_SKEW_SEC'' 300,
      gc_recipient_policy := policy_from_env env pins (duration_secs_from_env env ''OPENAPI_OPE_EPOCH_CLOCK_SKEW_SEC'' 300),
      gc_verify_engine_snp_chain := truthy_env env ''OPENAPI_OPE_VERIFY_ENGINE_SNP_CHAIN''\<rparr>"
    by (auto simp: gateway_from_env_def result_simps Let_def split: option.splits)
  then have "gc_recipient_policy cfg = policy_from_env env pins (duration_secs_from_env env ''OPENAPI_OPE_EPOCH_CLOCK_SKEW_SEC'' 300)"
    "gc_verify_engine_snp_chain cfg = truthy_env env ''OPENAPI_OPE_VERIFY_ENGINE_SNP_CHAIN''"
    by simp_all
  then show "\<exists>pins skew. gc_recipient_policy cfg = policy_from_env env pins skew"
    "gc_verify_engine_snp_chain cfg = truthy_env env ''OPENAPI_OPE_VERIFY_ENGINE_SNP_CHAIN''"
    by blast+
qed

text \<open>The keys a request is encrypted to are the ones a report names; the report carries an allowlisted
  measurement, and its certificate chain was verified.\<close>

definition attested_trust :: "'x ope_ext_scheme \<Rightarrow> recipient_policy \<Rightarrow> preassign_trust \<Rightarrow> bool" where
  "attested_trust X policy t \<longleftrightarrow>
     (\<exists>q w e report.
        cpu_quote t = Some q \<and> parse_wrapper X q = Some w \<and> wc_epoch (qw_claims w) = Some e \<and>
        names_keys e (ephemeral_trust_of t) \<and> std_b64_decode X (trim (qw_report_b64 w)) = Inr report \<and>
        take 64 (drop 0x50 report) = wrapper_report_data X (qw_claims w) e None \<and>
        compose_launch_digest X (hex_encode X (take 48 (drop 0x90 report))) \<in> rp_launch_digest_allowlist policy \<and>
        report_key_vouched X (report_key X (qw_report_b64 w)))"

lemma recipient_ok_attested:
  assumes "recipient_ok X U t" "ou_chain U = Some True" "same_head X"
    and "rp_require_epoch_evidence (ou_policy U)" "rp_require_launch_digest (ou_policy U)"
  shows "attested_trust X (ou_policy U) t"
proof -
  from assms(1) obtain H now acc where a:
    "accept_engine_recipient X H (ou_policy U) (ephemeral_trust_of t) (cpu_quote t) None now = Inr acc"
    "\<forall>rb. ar_report_b64 acc = Some rb \<longrightarrow> report_key_vouched X (report_key X rb)"
    using assms(2) by (auto simp: recipient_ok_def)
  from accepted_is_attested [OF a(1) _ _ assms(3)] assms(4,5) a(2) show ?thesis
    unfolding attested_trust_def by blast
qed


subsection \<open>The forwarder takes only such steps\<close>

lemma prepare_step: "\<exists>P'. ope_step X U (s, P) (snd (prepare X U H body ctx path s), P') \<and>
    (\<forall>pre enc model. fst (prepare X U H body ctx path s) = Inr (pre, enc, model) \<longrightarrow> (pre, enc, ctx) \<in> P')"
proof (cases "prepare X U H body ctx path s")
  case (Pair res s1)
  then show ?thesis
    by (cases res) (fastforce intro: ope_step.intros)+
qed

lemma snd_on_upstream: "snd (on_upstream m sw) = (snd (m (fst sw)), snd sw)"
  by (cases sw) (simp add: on_upstream_def on_part_def split: prod.split)

lemma bridge_response_quiet: "fst (snd (bridge_response X H wr enc model resp sw)) = fst sw"
  by (auto simp: bridge_response_def Let_def split: prod.splits sum.splits)

lemma stream_steps:
  "\<exists>P'. (ope_step X U)\<^sup>*\<^sup>* (s, P) (fst (snd (forward_v1_stream_ctx X U H wr method path body ctx (s, w))), P')"
proof (cases "method \<noteq> Post \<or> contains path ''embeddings''")
  case True
  then show ?thesis by (auto simp: forward_v1_stream_ctx_def)
next
  case False
  let ?b = "case body of Some b \<Rightarrow> b | None \<Rightarrow> []"
  obtain res s1 where p: "prepare X U H ?b ctx path s = (res, s1)" by fastforce
  with prepare_step [of X U s P H ?b ctx path] obtain P1 where s1: "ope_step X U (s, P) (s1, P1)"
    "\<And>pre enc model. res = Inr (pre, enc, model) \<Longrightarrow> (pre, enc, ctx) \<in> P1"
    by auto
  show ?thesis
  proof (cases res)
    case (Inl e)
    with False p s1(1) show ?thesis
      by (auto simp: forward_v1_stream_ctx_def bindS_def on_upstream_def on_part_def)
  next
    case (Inr x)
    then obtain pre enc model where x: "res = Inr (pre, enc, model)" by (cases x) auto
    obtain res2 s2 where d: "dispatch_streaming X U pre enc ctx s1 = (res2, s2)" by fastforce
    with ope_step.streamed [OF s1(2) [OF x], of X U s1] have "ope_step X U (s1, P1) (s2, P1)" by simp
    with s1(1) have "(ope_step X U)\<^sup>*\<^sup>* (s, P) (s2, P1)" by (meson converse_rtranclp_into_rtranclp r_into_rtranclp)
    moreover have "fst (snd (forward_v1_stream_ctx X U H wr method path body ctx (s, w))) = s2"
      using False p x d
      by (cases res2)
        (simp_all add: forward_v1_stream_ctx_def bindS_def on_upstream_def on_part_def bridge_response_quiet)
    ultimately show ?thesis by blast
  qed
qed

lemma forward_steps:
  "\<exists>P'. (ope_step X U)\<^sup>*\<^sup>* (s, P) (snd (forward_v1_ctx X U H method path body ctx s), P')"
proof (cases "method \<noteq> Post \<or> \<not> starts_with path ''/v1/''")
  case True
  then show ?thesis by (auto simp: forward_v1_ctx_def)
next
  case False
  let ?b = "case body of Some b \<Rightarrow> b | None \<Rightarrow> []"
  show ?thesis
  proof (cases "body_wants_stream X ?b")
    case True
    with False have "snd (forward_v1_ctx X U H method path body ctx s) =
        fst (snd (forward_v1_stream_ctx X U H vec_write method path (Some ?b) ctx (s, [])))"
      by (simp add: forward_v1_ctx_def split: prod.split sum.split)
    then show ?thesis using stream_steps [of X U s P H vec_write "method" path "Some ?b" ctx "[]"] by simp
  next
    case buffered: False
    obtain res s1 where p: "prepare X U H ?b ctx path s = (res, s1)" by fastforce
    with prepare_step [of X U s P H ?b ctx path] obtain P1 where s1: "ope_step X U (s, P) (s1, P1)"
      "\<And>pre enc model. res = Inr (pre, enc, model) \<Longrightarrow> (pre, enc, ctx) \<in> P1"
      by auto
    show ?thesis
    proof (cases res)
      case (Inl e)
      with False buffered p s1(1) show ?thesis by (auto simp: forward_v1_ctx_def Let_def bindS_def)
    next
      case (Inr x)
      then obtain pre enc model where x: "res = Inr (pre, enc, model)" by (cases x) auto
      obtain res2 s2 where d: "dispatch_encrypted X U pre enc ctx s1 = (res2, s2)" by fastforce
      with ope_step.dispatched [OF s1(2) [OF x], of X U s1] have "ope_step X U (s1, P1) (s2, P1)" by simp
      with s1(1) have "(ope_step X U)\<^sup>*\<^sup>* (s, P) (s2, P1)" by (meson converse_rtranclp_into_rtranclp r_into_rtranclp)
      moreover have "snd (forward_v1_ctx X U H method path body ctx s) = s2"
        using False buffered p x d by (cases res2) (simp_all add: forward_v1_ctx_def Let_def bindS_def)
      ultimately show ?thesis by blast
    qed
  qed
qed

text \<open>C24. The forwarder refines the step relation: whatever a request asks for and however it ends, the
  change of state made by forwarding it, buffered or streamed, is a sequence of steps in which
  requests are prepared under the lock and only prepared requests are dispatched.\<close>

theorem forwarding_refines_steps:
  "(\<exists>P'. (ope_step X U)\<^sup>*\<^sup>* (s, P) (snd (forward_v1_ctx X U H method path body ctx s), P')) \<and>
   (\<exists>P'. (ope_step X U)\<^sup>*\<^sup>* (s, P) (fst (snd (forward_v1_stream_ctx X U H wr method path body ctx (s, w))), P'))"
  by (intro conjI forward_steps stream_steps)

subsection \<open>What the gateway learns\<close>

text \<open>The bytes a request body is sealed into for a recipient.\<close>

definition seal_request ::
    "'x ope_ext_scheme \<Rightarrow> ope_host \<Rightarrow> upstream_ctx \<Rightarrow> string \<Rightarrow> bytes \<Rightarrow> preassign_trust \<Rightarrow> api_error + encrypted_request \<times> bytes"
where
  "seal_request X H ctx path body t =
     bindE (request_payload X body) (\<lambda>payload.
     bindE (map_err (\<lambda>e. Internal (ope_wrap_error_to_string e))
              (encrypt_openai_body_with_path X (oh_env H) (oh_draw H) t (uc_key_id ctx) payload path)) (\<lambda>enc.
     bindE (envelope_bytes X enc) (\<lambda>b. Inr (enc, b))))"

lemma sealed_epoch: "seal_request X H ctx path body t = Inr (enc, b) \<Longrightarrow> er_ephemeral_epoch enc = pt_epoch_id t"
  by (auto simp: seal_request_def result_simps elim!: encrypt_ok)

text \<open>The state after a request: what the assignment left, and the dispatch if the request was sealed.\<close>

definition after_assign ::
    "'x ope_ext_scheme \<Rightarrow> http_agent \<Rightarrow> gateway_client \<Rightarrow> ope_host \<Rightarrow> upstream_ctx \<Rightarrow> string \<Rightarrow> bytes
       \<Rightarrow> (api_error + preassign_response) \<times> http_out list ope_state \<Rightarrow> http_out list" where
  "after_assign X A c H ctx path body rs =
     (case fst rs of
        Inl _ \<Rightarrow> os_net (snd rs)
      | Inr pre \<Rightarrow>
          (case seal_request X H ctx path body (ps_trust pre) of
             Inl _ \<Rightarrow> os_net (snd rs)
           | Inr (enc, b) \<Rightarrow> snd (gateway_dispatch_reader A c (dispatch_of pre enc ctx b) (os_net (snd rs)))))"

lemma dispatch_net:
  fixes H ctx path s
  assumes "ou_client U = cvm_ops X A c" "is_ok (json_from_slice X body)"
  defines "S \<equiv> after_assign X A c H ctx path body
    (assign_engine X U H (strip_model_provider_suffix (model_from_body X body)) ctx s)"
  shows "os_net (snd (bindS (prepare X U H body ctx path)
      (\<lambda>(pre, enc, model). bindS (dispatch_encrypted X U pre enc ctx) (\<lambda>resp. liftS (f pre enc model resp))) s)) = S"
    and "os_net (fst (snd (bindS (on_upstream (prepare X U H body ctx path))
      (\<lambda>(pre, enc, model). bindS (on_upstream (dispatch_streaming X U pre enc ctx)) (\<lambda>resp.
         bridge_response X H wr enc model resp)) (s, w)))) = S"
proof -
  from assms(2) obtain payload where p: "request_payload X body = Inr payload"
    by (auto simp: request_payload_def is_ok_iff)
  obtain ra sa where a: "assign_engine X U H (strip_model_provider_suffix (model_from_body X body)) ctx s = (ra, sa)"
    by fastforce
  note defs = prepare_def Let_def bindS_def after_assign_def seal_request_def assms(1) cvm_ops_def
  show "os_net (snd (bindS (prepare X U H body ctx path)
      (\<lambda>(pre, enc, model). bindS (dispatch_encrypted X U pre enc ctx) (\<lambda>resp. liftS (f pre enc model resp))) s)) = S"
    using p a unfolding S_def
    by (auto simp: defs dispatch_encrypted_def map_errS_def on_net_def on_part_def
        snd_gateway_dispatch [symmetric] split: sum.splits prod.splits)
  show "os_net (fst (snd (bindS (on_upstream (prepare X U H body ctx path))
      (\<lambda>(pre, enc, model). bindS (on_upstream (dispatch_streaming X U pre enc ctx)) (\<lambda>resp.
         bridge_response X H wr enc model resp)) (s, w)))) = S"
    using p a unfolding S_def
    by (auto simp: defs dispatch_streaming_def map_errS_def on_net_def on_part_def on_upstream_def
        bridge_response_quiet split: sum.splits prod.splits)
qed

lemma forward_net:
  assumes "ou_client U = cvm_ops X A c" "is_ok (json_from_slice X body)" "\<not> contains path ''embeddings''"
  shows "os_net (snd (forward_v1_ctx X U H method path (Some body) ctx s)) =
    (if method \<noteq> Post \<or> \<not> starts_with path ''/v1/'' then os_net s
     else after_assign X A c H ctx path body
       (assign_engine X U H (strip_model_provider_suffix (model_from_body X body)) ctx s))"
proof (cases "method \<noteq> Post \<or> \<not> starts_with path ''/v1/''")
  case True
  then show ?thesis by (auto simp: forward_v1_ctx_def)
next
  case False
  show ?thesis
  proof (cases "body_wants_stream X body")
    case True
    with False have "snd (forward_v1_ctx X U H method path (Some body) ctx s) =
        fst (snd (forward_v1_stream_ctx X U H vec_write method path (Some body) ctx (s, [])))"
      by (simp add: forward_v1_ctx_def split: prod.split sum.split)
    with False assms(3) dispatch_net(2) [OF assms(1,2)] show ?thesis
      by (simp add: forward_v1_stream_ctx_def)
  next
    case buffered: False
    with False dispatch_net(1) [OF assms(1,2)] show ?thesis by (simp add: forward_v1_ctx_def Let_def)
  qed
qed

text \<open>A request without the ciphertext.\<close>

definition redact :: "string \<Rightarrow> http_out \<Rightarrow> http_out" where
  "redact base r = (if ho_url r = base @ ''/v1/ope/dispatch'' then r\<lparr>ho_body := None\<rparr> else r)"


subsection \<open>Billing\<close>


text \<open>With epoch evidence required, that key is whatever the gateway presents: it plays no part in the
  decision about the recipient, and the usage key the report attests is not compared with it.\<close>

lemma usage_key_is_not_attested:
  assumes "rp_require_epoch_evidence policy \<or> rp_stage5_identity_deleted policy"
  shows "accept_engine_recipient X H policy (t\<lparr>et_ed25519_public := k\<rparr>) quote nonce now =
    accept_engine_recipient X H policy t quote nonce now"
proof -
  have "trust_subject (t\<lparr>et_ed25519_public := k\<rparr>) = trust_subject t" by (simp add: trust_subject_def)
  then show ?thesis
    using assms unfolding accept_engine_recipient_def check_epoch_window_def by (simp add: Let_def cong: option.case_cong)
qed

subsection \<open>A concrete run\<close>

definition sample_preassign_trust :: preassign_trust where
  "sample_preassign_trust =
     \<lparr>pt_engine_id = ''e'', pt_epoch_id = ''1'', pt_not_before = ''1970-01-01T00:00:00Z'',
      pt_not_after = ''1970-01-01T00:00:01Z'',
      pt_hybrid = \<lparr>ph_kex = [], ph_mlkem_encapsulation_key = ''m'', ph_x25519_public = ''x''\<rparr>,
      pt_identity = \<lparr>pi_ed25519_public = [], pi_identity_signature = []\<rparr>,
      pt_attestation = Some (Some \<lparr>pc_kind = ''sev-snp'', pc_quote = ''q''\<rparr>)\<rparr>"

definition sample_preassign :: preassign_response where
  "sample_preassign =
     \<lparr>ps_assign_id = ''a'', ps_engine_id = ''e'', ps_engine_set = ''s'', ps_key_set = ''api'',
      ps_openapi_key_id = [], ps_expires_at_ms = 1, ps_ttl_ms = 1, ps_trust = sample_preassign_trust\<rparr>"

definition sample_engine :: inventory_engine where
  "sample_engine = \<lparr>ie_engine_id = ''e'', ie_engine_set = ''s'', ie_models = [''unknown''],
     ie_healthy = True, ie_ready_sessions = 1\<rparr>"

definition sample_inventory :: inventory_response where
  "sample_inventory = \<lparr>ir_engines = [sample_engine], ir_key_set = None\<rparr>"

definition sample_snp_report :: snp_report where
  "sample_snp_report =
     \<lparr>sp_policy_debug = False, sp_policy_migrate_ma = False, sp_chip_id = [], sp_reported_tcb = (0, 0, 0, 0),
      sp_measurement = [], sp_report_data = [], sp_guest_svn = 0, sp_cpuid_fam_id = None, sp_cpuid_mod_id = None\<rparr>"

definition sample_health :: health_response where
  "sample_health = \<lparr>hs_ok = True, hs_plane = [], hs_traffic_class_author = [], hs_auth = None, hs_peer_pin = None\<rparr>"

definition ope_crates :: ope_ext where
  "ope_crates = engine_crates
     \<lparr>signed_usage_from_slice = \<lambda>b. Inl [], snp_report_from_bytes = \<lambda>b. Inr sample_snp_report,
      cert_from_der = Inr, builtin_ark = \<lambda>p. Inr [], builtin_ask = \<lambda>p. Inr [],
      snp_chain_verify = \<lambda>ark ask vcek r. Inr (),
      load_client_tls = \<lambda>url cert key ca insecure.
        Inr \<lparr>lt_base_url = url, lt_client_cert_pem = cert, lt_client_key_pem = key, lt_ca_pem = ca,
             lt_insecure_skip_verify = insecure\<rparr>,
      pem_certs = \<lambda>b. Inr [], pem_private_key = \<lambda>b. Inr None, root_add = \<lambda>b. Inr (),
      client_auth_cert = \<lambda>cs k. Inr (), debug_str = \<lambda>s. s, health_from_str = \<lambda>s. Inr sample_health,
      inventory_from_str = \<lambda>s. Inr sample_inventory, preassign_from_str = \<lambda>s. Inr sample_preassign,
      challenge_from_str = \<lambda>s. Inl [], preassign_to_vec = \<lambda>r. Inr [],
      kex_x25519_mlkem768 = ''k'', session_generate = Inr, encrypt_request = \<lambda>e i p s. Inr e,
      keypair_secret = \<lambda>b. b, sign_envelope = \<lambda>e k. Inr e, envelope_to_vec = \<lambda>e. Inr [1],
      decrypt_response_chunk = \<lambda>e s sh n ct. Inl [], dev_vector_001_seed = []\<rparr>"

definition sample_env :: environ where
  "sample_env =
     [''OPENAPI_GATEWAY_OPE_API_URL'' \<mapsto> ''http://g'', ''OPENAPI_OPE_REQUIRE_EPOCH_EVIDENCE'' \<mapsto> ''1'',
      ''OPENAPI_OPE_REQUIRE_ENGINE_LAUNCH_DIGEST'' \<mapsto> ''1'', ''OPENAPI_OPE_VERIFY_ENGINE_SNP_CHAIN'' \<mapsto> ''1'',
      ''OPENAPI_OPE_REQUIRE_ENGINE_CHALLENGE'' \<mapsto> ''0'', ''OPENAPI_PROFILE'' \<mapsto> ''dev'',
      ''OPENAPI_ENGINE_LAUNCH_DIGEST_ALLOWLIST'' \<mapsto>
        ''aaaaaaaaaaaaaaaaaaaaaaaaaaaaaaaaaaaaaaaaaaaaaaaaaaaaaaaaaaaaaaaa'']"

definition sample_agent :: http_agent where
  "sample_agent = (\<lambda>log r. Inr \<lparr>ha_status = 200, ha_headers = [], ha_text = Inr [], ha_reader = []\<rparr>)"

definition sample_host :: ope_host where
  "sample_host =
     \<lparr>oh_floor = sample_floor_host\<lparr>fh_env := sample_env\<rparr>, oh_now_ms = 0, oh_clock_faults = no_faults,
      oh_nonce = [], oh_draw = \<lparr>ed_session = [], ed_now = [], ed_uuid = []\<rparr>, oh_uuid = [],
      oh_kds = \<lparr>kh_env = Map.empty, kh_tries = \<lambda>u i. Inr (200, Inr [1]), kh_writable = \<lambda>p. False\<rparr>\<rparr>"

definition sample_gateway :: gateway_client where
  "sample_gateway = \<lparr>gl_base_url = ''http://g'', gl_token = None, gl_tls = None\<rparr>"

lemma ope_crates_simps:
  "json_from_slice ope_crates b = (if b = [123, 125] \<or> b = [123, 32, 125] then Inr (JObj []) else Inl ''expected value'')"
  "std_b64_encode ope_crates = bytes_str" "std_b64_decode ope_crates s = Inr (as_bytes s)"
  "b64url_decode ope_crates s = Inr (as_bytes s)"
  "snp_report_from_bytes ope_crates b = Inr sample_snp_report"
  "cert_from_der ope_crates b = Inr b" "builtin_ark ope_crates p = Inr []" "builtin_ask ope_crates p = Inr []"
  "snp_chain_verify ope_crates ark ask vcek r = Inr ()"
  "inventory_from_str ope_crates s = Inr sample_inventory" "preassign_from_str ope_crates s = Inr sample_preassign"
  "health_from_str ope_crates s = Inr sample_health" "preassign_to_vec ope_crates rq = Inr []" "session_generate ope_crates b = Inr b"
  "encrypt_request ope_crates e i pl ss = Inr e" "sign_envelope ope_crates e k = Inr e"
  "envelope_to_vec ope_crates e = Inr [1]"
  "load_client_tls ope_crates url cert key ca insecure =
     Inr \<lparr>lt_base_url = url, lt_client_cert_pem = cert, lt_client_key_pem = key, lt_ca_pem = ca,
          lt_insecure_skip_verify = insecure\<rparr>"
  by (simp_all add: ope_crates_def engine_crates_def chal_crates_def chal_ext.defs)

lemma sample_policy_from_env:
  "policy_from_env sample_env [] 300 =
     \<lparr>rp_identity_pins = [], rp_launch_digest_allowlist = {replicate 64 (CHR ''a'')},
      rp_require_epoch_evidence = True, rp_stage5_identity_deleted = False, rp_require_launch_digest = True,
      rp_epoch_clock_skew_ms = 300000\<rparr>"
proof -
  have "truthy_env sample_env ''OPENAPI_OPE_REQUIRE_EPOCH_EVIDENCE''"
    "\<not> truthy_env sample_env ''OPENAPI_STAGE5_IDENTITY_DELETED''"
    "truthy_env sample_env ''OPENAPI_OPE_REQUIRE_ENGINE_LAUNCH_DIGEST''"
    "parse_launch_digest_allowlist
      (case opt_env sample_env ''OPENAPI_ENGINE_LAUNCH_DIGEST_ALLOWLIST'' of Some s \<Rightarrow> s | None \<Rightarrow> []) =
      {replicate 64 (CHR ''a'')}"
    by code_simp+
  then show ?thesis by (simp add: policy_from_env_def del: replicate.simps)
qed

lemma sample_profile: "load_edge_profile sample_env = Inr Dev"
  by code_simp

definition sample_upstream :: "http_out list ope_upstream" where
  "sample_upstream =
     \<lparr>ou_client = cvm_ops ope_crates sample_agent sample_gateway,
      ou_policy = policy_from_env sample_env [] 300, ou_chain = Some True\<rparr>"

lemma sample_config:
  obtains cfg where "gateway_from_env ope_crates sample_env = Inr (Some cfg)"
    "gc_base_url cfg = ''http://g''" "gc_recipient_policy cfg = policy_from_env sample_env [] 300"
    "ope_try_new ope_crates sample_agent cfg = Inr sample_upstream"
proof -
  have e: "opt_env sample_env ''OPENAPI_GATEWAY_OPE_API_URL'' = Some ''http://g''"
    "truthy_env sample_env ''OPENAPI_OPE_REQUIRE_EPOCH_EVIDENCE''"
    "opt_env sample_env ''OPENAPI_ENGINE_IDENTITY_PINS_JSON'' = None"
    "duration_secs_from_env sample_env ''OPENAPI_OPE_EPOCH_CLOCK_SKEW_SEC'' 300 = 300"
    "opt_env sample_env ''OPENAPI_GATEWAY_OPE_API_TOKEN'' = None" "\<not> is_prod Dev"
    "truthy_env sample_env ''OPENAPI_OPE_VERIFY_ENGINE_SNP_CHAIN''" "\<not> starts_with ''http://g'' ''https://''"
    by code_simp+
  have "\<exists>cfg. gateway_from_env ope_crates sample_env = Inr (Some cfg) \<and>
    gc_base_url cfg = ''http://g'' \<and> gc_token cfg = None \<and>
    gc_recipient_policy cfg = policy_from_env sample_env [] 300 \<and> gc_verify_engine_snp_chain cfg"
    by (simp add: gateway_from_env_def e load_identity_pins_def gateway_from_parts_def ope_crates_simps
        sample_profile validate_for_profile_def sample_policy_from_env Let_def)
  moreover have "ope_try_new ope_crates sample_agent cfg = Inr sample_upstream"
    if "gc_base_url cfg = ''http://g''" "gc_token cfg = None"
      "gc_recipient_policy cfg = policy_from_env sample_env [] 300" "gc_verify_engine_snp_chain cfg" for cfg
    using that e by (simp add: ope_try_new_def gateway_client_try_new_def sample_upstream_def sample_gateway_def)
  ultimately show thesis using that by blast
qed

lemma sample_collateral:
  "is_ok (verify_snp_report_with_collateral ope_crates (replicate 192 (CHR ''a'')) der True)"
proof -
  have "decode_snp_report ope_crates (replicate 192 (CHR ''a'')) True = Inr sample_snp_report"
    by (simp add: decode_snp_report_def ope_crates_simps apply_snp_policy_def sample_snp_report_def
        del: replicate.simps)
  moreover have "builtin_ca ope_crates (snp_product_name sample_snp_report) = Inr ([], [])"
    by (simp add: snp_product_name_def sample_snp_report_def builtin_ca_def ope_crates_simps)
  moreover have "is_ok (snp_report_reportdata_local ope_crates (replicate 192 (CHR ''a'')))"
    by (simp add: snp_report_reportdata_local_def ope_crates_simps sample_text SNP_REPORT_DATA_OFFSET_def
        REPORT_DATA_LEN_def del: replicate.simps)
  ultimately show ?thesis
    by (auto simp: verify_snp_report_with_collateral_def ope_crates_simps Let_def is_ok_iff simp del: replicate.simps)
qed

lemma sample_raw_report: "raw_snp_report_b64 ope_crates (replicate 192 (CHR ''a'')) = Inr (replicate 192 (CHR ''a''))"
proof -
  have "(replicate 192 97 :: bytes) \<noteq> [123, 125]" "(replicate 192 97 :: bytes) \<noteq> [123, 32, 125]"
    by (auto dest: arg_cong [of _ _ length])
  then have "wrapped_report ope_crates (replicate 192 97) = None"
    by (simp add: wrapped_report_def ope_crates_simps split: option.split)
  then have "raw_snp_report_b64 ope_crates (replicate 192 (CHR ''a'')) = Inr (bytes_str (replicate 192 97))"
    by (simp add: raw_snp_report_b64_def decode_b64_flexible_def ope_crates_simps sample_text del: replicate.simps)
  also have "bytes_str (replicate 192 97) = replicate 192 (CHR ''a'')"
    by (metis bytes_str_as_bytes sample_text(3))
  finally show ?thesis .
qed

lemma sample_chain: "fst (verify_report_chain ope_crates True sample_host (replicate 192 (CHR ''a'')) None s) = Inr ()"
  if "os_files s = Map.empty"
proof -
  obtain v where v: "verify_snp_report_with_collateral ope_crates (replicate 192 (CHR ''a'')) [1] True = Inr v"
    using sample_collateral [of "[1]"] by (auto simp: is_ok_iff)
  have d: "decode_snp_report ope_crates (replicate 192 (CHR ''a'')) True = Inr sample_snp_report"
    by (simp add: decode_snp_report_def ope_crates_simps apply_snp_policy_def sample_snp_report_def
        del: replicate.simps)
  have "kds_http_get (oh_kds sample_host) url Map.empty = (Inr [1], Map.empty)" for url
    by (simp add: kds_http_get_def upt_rec sample_host_def)
  then have "verify_snp_report ope_crates (oh_kds sample_host) (replicate 192 (CHR ''a'')) True Map.empty = (Inr v, Map.empty)"
    by (simp add: verify_snp_report_def bindS_def sample_raw_report d v del: replicate.simps)
  with that show ?thesis by (simp add: verify_report_chain_def del: replicate.simps)
qed

lemma sample_net:
  "gateway_inventory ope_crates sample_agent sample_gateway k log = (Inr sample_inventory, log @
     [\<lparr>ho_method = ''GET'', ho_url = ''http://g/v1/ope/api/inventory'' @
         (if trim k = [] then [] else ''?key_set='' @ urlencoding_minimal (trim k)), ho_headers = [], ho_body = None\<rparr>])"
  "trim (pq_engine_id r) \<noteq> [] \<Longrightarrow> gateway_preassign ope_crates sample_agent sample_gateway r log = (Inr sample_preassign, log @
     [\<lparr>ho_method = ''POST'', ho_url = ''http://g/v1/ope/api/preassign'',
       ho_headers = [(''Content-Type'', ''application/json'')], ho_body = Some []\<rparr>])"
  by (simp_all add: gateway_inventory_def gateway_preassign_def gateway_get_def gateway_post_def agent_call_def
      sample_agent_def sample_gateway_def auth_headers_def read_json_answer_def ope_crates_simps bindS_def Let_def)

lemma sample_verified:
  assumes "os_files s = Map.empty"
  shows "fst (verify_preassign ope_crates sample_upstream sample_host sample_preassign sample_engine
    ctx_default s) = Inr ()"
proof -
  have t: "trim ''a'' \<noteq> []" "trim ''q'' = ''q''" "\<not> sealed_time_enabled_from_env sample_env"
    "\<not> require_engine_challenge_from_env sample_env"
    by code_simp+
  have now: "current_unix_ms sample_host s = (Inr 0, s)"
    by (simp add: current_unix_ms_def on_part_def map_errS_def observe_host_time_from_env_def store_from_env_def
        observe_def sample_host_def t)
  have "sealed_floor ((oh_floor sample_host)\<lparr>fh_file := f\<rparr>) = None" for f
    by (simp add: sealed_floor_def sample_host_def t)
  then have "accept_engine_recipient ope_crates ((oh_floor sample_host)\<lparr>fh_file := f\<rparr>)
      (ou_policy sample_upstream) sample_trust (Some ''q'') None 0 =
     Inr \<lparr>ar_via = EpochEvidence, ar_epoch = Some sample_epoch,
          ar_report_b64 = Some (replicate 192 (CHR ''a'')), ar_launch_digest = Some (replicate 64 (CHR ''a''))\<rparr>" for f
    unfolding ope_crates_def by (intro sample_recipient) (simp_all add: sample_upstream_def sample_policy_from_env)
  moreover have "ephemeral_trust_of sample_preassign_trust = sample_trust"
    "cpu_quote sample_preassign_trust = Some ''q''"
    by (simp_all add: ephemeral_trust_of_def sample_preassign_trust_def sample_trust_def cpu_quote_def t)
  ultimately have a: "accept_recipient ope_crates sample_upstream sample_host sample_preassign_trust 0 s =
     (Inr \<lparr>ar_via = EpochEvidence, ar_epoch = Some sample_epoch,
          ar_report_b64 = Some (replicate 192 (CHR ''a'')), ar_launch_digest = Some (replicate 64 (CHR ''a''))\<rparr>, s)"
    by (simp only: accept_recipient_def map_err_simps)
  have c: "challenge_recipient ope_crates sample_upstream sample_host sample_preassign_trust s = (Inr None, s)"
    by (simp add: challenge_recipient_def sample_host_def t)
  show ?thesis
    using sample_chain [OF assms]
    by (simp add: verify_preassign_def preassign_bound_def sample_preassign_def sample_engine_def ctx_default_def t now bindS_def c a
        sample_preassign_trust_def [THEN arg_cong, of pt_engine_id] sample_upstream_def [THEN arg_cong, of ou_chain]
        del: replicate.simps)
qed

lemma sample_assigned:
  assumes "os_files s = Map.empty"
  shows "fst (assign_engine ope_crates sample_upstream sample_host ''unknown'' ctx_default s) = Inr sample_preassign"
proof -
  have t: "trim ''unknown'' = ''unknown''" "strip_model_provider_suffix ''unknown'' = ''unknown''" "trim ''e'' \<noteq> []"
    by code_simp+
  have e: "pick_engine sample_inventory ''unknown'' = Inr sample_engine"
    by (simp add: pick_engine_def sample_inventory_def serves_model_def sample_engine_def t)
  obtain n1 where i: "on_net (go_inventory (ou_client sample_upstream) (uc_key_set ctx_default)) s =
      (Inr sample_inventory, s\<lparr>os_net := n1\<rparr>)"
    by (simp add: on_net_def on_part_def sample_upstream_def cvm_ops_def sample_net)
  obtain n2 where p: "on_net (go_preassign (ou_client sample_upstream)
       \<lparr>pq_engine_id = ie_engine_id sample_engine, pq_key_set = Some (uc_key_set ctx_default), pq_model = Some ''unknown'',
        pq_openapi_key_id = Some (uc_key_id ctx_default)\<rparr>) (s\<lparr>os_net := n1\<rparr>) = (Inr sample_preassign, s\<lparr>os_net := n2\<rparr>)"
    by (simp add: on_net_def on_part_def sample_upstream_def cvm_ops_def sample_net t sample_engine_def)
  show ?thesis
    using sample_verified [of "s\<lparr>os_net := n2\<rparr>"] assms
    by (auto simp: assign_engine_def bindS_def map_errS_def i p e split: prod.splits)
qed

lemma sample_sealed:
  assumes "b \<in> {[123, 125], [123, 32, 125]}"
  shows "is_ok (seal_request ope_crates sample_host ctx_default path b t)"
proof -
  have "\<not> edge_profile_is_prod sample_env" "sample_env ''OPENAPI_OPE_ENVELOPE_SIGNING_SEED_HEX'' = None"
    "sample_env ''TEECHAT_OPE_ENVELOPE_SIGNING_SEED_HEX'' = None" "trim [] = []"
    by code_simp+
  then have "envelope_signing_seed ope_crates sample_env = Inr (dev_vector_001_seed ope_crates)"
    by (simp add: envelope_signing_seed_def)
  then have enc_ok: "is_ok (encrypt_openai_body_with_path ope_crates sample_env d t k p path)" for d k p
    by (simp add: encrypt_openai_body_with_path_def ope_crates_simps Let_def)
  obtain p where p: "request_payload ope_crates b = Inr p"
    using assms by (auto simp: request_payload_def ope_crates_simps)
  obtain enc where "encrypt_openai_body_with_path ope_crates sample_env (oh_draw sample_host) t
      (uc_key_id ctx_default) p path = Inr enc"
    using enc_ok [of "oh_draw sample_host" "uc_key_id ctx_default" p] by (auto simp: is_ok_iff)
  with p show ?thesis
    by (simp add: seal_request_def sample_host_def envelope_bytes_def envelope_to_bytes_def ope_crates_simps)
qed

lemma sample_model: "b \<in> {[123, 125], [123, 32, 125]} \<Longrightarrow>
    strip_model_provider_suffix (model_from_body ope_crates b) = ''unknown''"
proof -
  have "strip_model_provider_suffix ''unknown'' = ''unknown''" by code_simp
  then show "b \<in> {[123, 125], [123, 32, 125]} \<Longrightarrow> ?thesis"
    by (auto simp: model_from_body_def body_json_def ope_crates_simps)
qed

lemma sample_run:
  obtains s P r where
    "(ope_step ope_crates sample_upstream)\<^sup>*\<^sup>* (ope_start [] None Map.empty, {}) (s, P)"
    "r \<in> set (os_net s)" "ho_url r = ''http://g/v1/ope/dispatch''" "ho_body r = Some [1]"
proof -
  let ?start = "ope_start [] None Map.empty :: http_out list ope_state" and ?path = "''/v1/chat/completions''"
  have a: "fst (assign_engine ope_crates sample_upstream sample_host ''unknown'' ctx_default ?start) = Inr sample_preassign"
    by (rule sample_assigned) (simp add: ope_start_def)
  obtain enc b where sealed: "seal_request ope_crates sample_host ctx_default ?path [123, 125] (ps_trust sample_preassign) = Inr (enc, b)"
    using sample_sealed [of "[123, 125]" ?path "ps_trust sample_preassign"] by (auto simp: is_ok_iff)
  let ?s = "snd (forward_v1_ctx ope_crates sample_upstream sample_host Post ?path (Some [123, 125]) ctx_default ?start)"
  obtain P where steps: "(ope_step ope_crates sample_upstream)\<^sup>*\<^sup>* (?start, {}) (?s, P)"
    using forward_steps by blast
  have t: "trim ''e'' \<noteq> []" "\<not> contains ?path ''embeddings''" "starts_with ?path ''/v1/''" by code_simp+
  have "os_net ?s = after_assign ope_crates sample_agent sample_gateway sample_host ctx_default ?path [123, 125]
      (assign_engine ope_crates sample_upstream sample_host ''unknown'' ctx_default ?start)"
    using forward_net [of sample_upstream ope_crates sample_agent sample_gateway "[123, 125]" ?path]
      sample_model [of "[123, 125]"] t
    by (simp add: sample_upstream_def [THEN arg_cong, of ou_client] ope_crates_simps)
  moreover have "ps_engine_id sample_preassign = ''e''" "gl_base_url sample_gateway = ''http://g''"
    by (simp_all add: sample_preassign_def sample_gateway_def)
  ultimately obtain log hs where "os_net ?s = log @ [\<lparr>ho_method = ''POST'', ho_url = ''http://g/v1/ope/dispatch'',
      ho_headers = hs, ho_body = Some b\<rparr>]"
    using t by (simp add: after_assign_def a sealed snd_gateway_dispatch_reader dispatch_of_def)
  moreover from sealed have "b = [1]"
    by (auto simp: seal_request_def envelope_bytes_def envelope_to_bytes_def ope_crates_simps result_simps)
  ultimately show thesis by (intro that [OF steps]) auto
qed



text \<open>An answer without text and a report on it, signed.\<close>

definition sample_usage :: signed_usage_report where
  "sample_usage =
     \<lparr>su_report = \<lparr>eu_request_id = replicate 64 (CHR ''a''), eu_conversation_id = [], eu_engine_id = ''e'',
        eu_prompt_tokens = 1, eu_completion_tokens = 2, eu_cached_tokens = 0, eu_ts = [], eu_epoch_id = None\<rparr>,
      su_sig = replicate 64 (CHR ''a'')\<rparr>"

definition billing_crates :: ope_ext where
  "billing_crates = ope_crates\<lparr>signed_usage_from_slice := \<lambda>b. Inr sample_usage,
     ed25519_verify := \<lambda>vk payload sig. sig = vk @ vk @ payload\<rparr>"

definition billing_host :: ope_host where
  "billing_host = sample_host\<lparr>oh_floor := sample_floor_host\<lparr>fh_env := [''OPENAPI_REQUIRE_SIGNED_USAGE'' \<mapsto> ''1'']\<rparr>\<rparr>"

definition billing_preassign :: preassign_response where
  "billing_preassign = sample_preassign\<lparr>ps_trust := sample_preassign_trust\<lparr>pt_identity :=
     \<lparr>pi_ed25519_public = replicate 32 (CHR ''a''), pi_identity_signature = []\<rparr>\<rparr>\<rparr>"

definition billing_answer :: dispatch_response where
  "billing_answer = \<lparr>dp_status = 200,
     dp_headers = [(''content-type'', ''ope+json-stream''), (''x-ope-usage-report'', ''r'')], dp_body = []\<rparr>"

lemma sample_usage_verifies:
  "verify_usage_signature billing_crates (replicate 32 (CHR ''a'')) sample_usage"
proof -
  have t: "trim (replicate 32 (CHR ''a'')) = replicate 32 (CHR ''a'')" "trim (replicate 64 (CHR ''a'')) = replicate 64 (CHR ''a'')"
    "as_bytes (replicate 32 (CHR ''a'')) = replicate 32 97" "as_bytes (replicate 64 (CHR ''a'')) = replicate 64 97"
    "replicate 64 (97 :: u8) = replicate 32 97 @ replicate 32 97"
    by code_simp+
  show ?thesis
    by (simp add: verify_usage_signature_def sample_usage_def decode_base64url_def billing_crates_def ope_crates_def
        engine_crates_def chal_crates_def chal_ext.defs t(1,2,3,4) usage_report_signing_bytes_def del: replicate.simps)
      (simp add: t(5) del: replicate.simps)
qed

lemma billing_run:
  "\<exists>u. completion_response billing_crates billing_host ''/v1/chat/completions'' [] billing_preassign enc model
    billing_answer = Inr u"
proof -
  have h: "dispatch_header billing_answer ''content-type'' = Some ''ope+json-stream''"
    "dispatch_header billing_answer ''x-ope-usage-report'' = Some ''r''"
    "contains ''ope+json-stream'' ''ope+json-stream''" "\<not> contains ''/v1/chat/completions'' ''embeddings''"
    "str_lines (from_utf8_lossy []) = []" "trim ''r'' = ''r''"
    "require_signed_usage_from_env [''OPENAPI_REQUIRE_SIGNED_USAGE'' \<mapsto> ''1'']"
    by code_simp+
  have n: "independent_token_bound [] [] = 16" "saturating_add64 (Suc 0) 2 = 3"
    by (simp_all add: independent_token_bound_def byte_estimate_def saturating_add64_def)
  have "request_body_hash_hex billing_crates [] = replicate 64 (CHR ''a'')"
    "decode_base64url billing_crates ''r'' = Inr (as_bytes ''r'')"
    "signed_usage_from_slice billing_crates b = Inr sample_usage" for b
    by (simp_all add: request_body_hash_hex_def decode_base64url_def billing_crates_def ope_crates_def engine_crates_def
        chal_crates_def chal_ext.defs del: replicate.simps)
  then show ?thesis
    using sample_usage_verifies
    by (simp add: completion_response_def resolve_usage_or_estimate_def resolve_usage_tokens_def
        parse_usage_report_header_def verify_signed_usage_report_def h n result_simps billing_answer_def [THEN arg_cong, of dp_status]
        billing_answer_def [THEN arg_cong, of dp_body] billing_host_def sample_usage_def billing_preassign_def
        sample_preassign_def decrypt_ope_body_to_completion_def decrypt_ndjson_to_completion_def run_aggregate_def
        aggregated_default_def returnS_def del: replicate.simps)
qed


end
