(* ===== verification/Http_Framing.thy ===== *)
theory Http_Framing
  imports Http_Wire
begin

text \<open>
  The responses of \<open>crates/openapi-http\<close> read back by the HTTP/1.1 reader of
  \<open>crates/openapi-core/src/http1_body.rs\<close>: a response head as a list of lines, how it is scanned for
  its end, split into lines and searched for its framing; the insertion of the CORS headers; and the
  round trips of fixed and streamed responses.
\<close>

declare read_head_from.simps [simp del] suffix_snoc [simp del]

subsection \<open>Heads as lists of lines\<close>

definition render_head :: "string list \<Rightarrow> string" where
  "render_head ls = concat (map (\<lambda>l. l @ crlf) ls) @ crlf"

text \<open>A line of a head: not empty, printable ASCII, no surrounding white space.\<close>

definition head_line :: "string \<Rightarrow> bool" where
  "head_line l \<longleftrightarrow> l \<noteq> [] \<and> is_graphic (hd l) \<and> is_graphic (last l) \<and>
     list_all (\<lambda>c. 32 \<le> code c \<and> code c < 127) l"

lemma head_line_chars:
  assumes "head_line l" "c \<in> set l"
  shows "c \<noteq> CHR 0x0A" "c \<noteq> CHR 0x0D" "code c < 128"
  using assms by (auto simp: head_line_def list_all_iff code_def)

lemma as_bytes_crlf [simp]: "as_bytes crlf = CRLF"
  by (simp add: crlf_def CRLF_def as_bytes_def)

lemma length_crlf: "length crlf = 2" "length CRLF = 2"
  by (simp_all add: crlf_def CRLF_def)

lemma render_head_Cons: "render_head (l # ls) = l @ crlf @ render_head ls"
  by (simp add: render_head_def)

lemma no_LF:
  assumes "head_line l"
  shows "10 \<notin> set (as_bytes l)"
proof
  assume "10 \<in> set (as_bytes l)"
  then obtain c where c: "c \<in> set l" "(10 :: u8) = of_char c" by (auto simp: as_bytes_def)
  from arg_cong [OF c(2), of unat] have "code c = 10" by (simp add: code_def)
  moreover have "32 \<le> code c" using assms c(1) by (simp add: head_line_def list_all_iff)
  ultimately show False by simp
qed

lemma suffix_CRLF_snoc: "suffix (CRLF @ CRLF) (pre @ [c]) \<Longrightarrow> c = 10 \<and> suffix (CRLF @ [13]) pre"
  by (auto simp: CRLF_def suffix_def append_eq_append_conv2 Cons_eq_append_conv)

lemma not_suffix_CRLF2: "c \<noteq> 10 \<Longrightarrow> \<not> suffix (CRLF @ CRLF) (pre @ [c])"
  using suffix_CRLF_snoc by blast

text \<open>Scanning the head byte by byte: a run without line feeds, one line, the closing line.\<close>

lemma read_head_run:
  assumes "clean r" "contents r = l @ rest" "10 \<notin> set l" "length raw + length l \<le> 65536"
  shows "\<exists>r'. read_head_from raw r = read_head_from (raw @ l) r' \<and> clean r' \<and> contents r' = rest"
  using assms
proof (induction l arbitrary: raw r)
  case (Cons c l)
  then have "contents r = c # l @ rest" by simp
  with Cons.prems(1) obtain r1 where r1: "read_some 1 r = (Inr [c], r1)" "clean r1" "contents r1 = l @ rest"
    by (rule read_one_clean)
  from Cons.prems(3) have "\<not> suffix (CRLF @ CRLF) (raw @ [c])" by (intro not_suffix_CRLF2) auto
  with r1(1) Cons.prems(4) have "read_head_from raw r = read_head_from (raw @ [c]) r1"
    by (subst read_head_from.simps) (simp add: Let_def)
  with Cons.IH [OF r1(2,3), of "raw @ [c]"] Cons.prems show ?case by simp
qed auto

lemma read_head_line:
  assumes "clean r" "contents r = as_bytes l @ CRLF @ rest" "head_line l" "length raw + length l + 2 \<le> 65536"
  shows "\<exists>r'. read_head_from raw r = read_head_from (raw @ as_bytes l @ CRLF) r' \<and> clean r' \<and>
    contents r' = rest"
proof -
  let ?l = "as_bytes l @ [13]"
  from assms have c: "contents r = ?l @ 10 # rest" by (simp add: CRLF_def)
  have "10 \<notin> set ?l" using no_LF [OF assms(3)] by auto
  from read_head_run [OF assms(1) c this, of raw] assms(4) obtain r1 where r1:
    "read_head_from raw r = read_head_from (raw @ ?l) r1" "clean r1" "contents r1 = 10 # rest" by auto
  from r1(2,3) obtain r2 where r2: "read_some 1 r1 = (Inr [10], r2)" "clean r2" "contents r2 = rest"
    by (rule read_one_clean)
  have "\<not> suffix (CRLF @ CRLF) ((raw @ ?l) @ [10])"
  proof
    assume "suffix (CRLF @ CRLF) ((raw @ ?l) @ [10])"
    then have "suffix (CRLF @ [13]) ((raw @ as_bytes l) @ [13])" using suffix_CRLF_snoc by fastforce
    then have "suffix CRLF (raw @ as_bytes l)" by (simp add: suffix_def)
    moreover have "as_bytes l \<noteq> []" "last (as_bytes l) \<noteq> 10"
      using no_LF [OF assms(3)] assms(3) last_in_set [of "as_bytes l"] by (auto simp: head_line_def as_bytes_def)
    ultimately show False by (auto simp: suffix_def CRLF_def append_eq_append_conv2 dest: arg_cong [of _ _ last])
  qed
  with r2(1) assms(4) have "read_head_from (raw @ ?l) r1 = read_head_from ((raw @ ?l) @ [10]) r2"
    by (subst read_head_from.simps) (simp add: Let_def)
  with r1(1) r2(2,3) show ?thesis by (auto simp: CRLF_def)
qed

lemma read_head_end:
  assumes "clean r" "contents r = CRLF @ rest" "length raw + 4 \<le> 65536"
  shows "\<exists>r'. read_head_from (raw @ CRLF) r = (Inr (raw @ CRLF @ CRLF), r') \<and> clean r' \<and> contents r' = rest"
proof -
  from assms(2) have "contents r = 13 # 10 # rest" by (simp add: CRLF_def)
  with assms(1) obtain r1 where r1: "read_some 1 r = (Inr [13], r1)" "clean r1" "contents r1 = 10 # rest"
    by (rule read_one_clean)
  from r1(2,3) obtain r2 where r2: "read_some 1 r1 = (Inr [10], r2)" "clean r2" "contents r2 = rest"
    by (rule read_one_clean)
  have "suffix (CRLF @ CRLF) ((raw @ CRLF @ [13]) @ [10])" by (simp add: CRLF_def suffix_def)
  with r2(1) have "read_head_from (raw @ CRLF @ [13]) r1 = (Inr (raw @ CRLF @ CRLF), r2)"
    by (subst read_head_from.simps) (simp add: Let_def CRLF_def)
  moreover have "read_head_from (raw @ CRLF) r = read_head_from (raw @ CRLF @ [13]) r1"
    using r1(1) assms(3) not_suffix_CRLF2 [of 13 "raw @ CRLF"]
    by (subst read_head_from.simps) (simp add: Let_def CRLF_def)
  ultimately show ?thesis using r2 by auto
qed

lemma read_head_lines:
  assumes "clean r" "contents r = as_bytes (render_head ls) @ rest" "list_all head_line ls"
    and "length raw + 2 + length (render_head ls) \<le> 65536"
  shows "\<exists>r'. read_head_from (raw @ CRLF) r = (Inr (raw @ CRLF @ as_bytes (render_head ls)), r') \<and>
    clean r' \<and> contents r' = rest"
  using assms
proof (induction ls arbitrary: raw r)
  case Nil
  then have "contents r = CRLF @ rest" "length raw + 4 \<le> 65536"
    by (simp_all add: render_head_def length_crlf)
  from read_head_end [OF Nil.prems(1) this] show ?case by (simp add: render_head_def)
next
  case (Cons l ls)
  then have "contents r = as_bytes l @ CRLF @ (as_bytes (render_head ls) @ rest)"
    by (simp add: render_head_Cons)
  from read_head_line [OF Cons.prems(1) this, of "raw @ CRLF"] Cons.prems obtain r1 where r1:
    "read_head_from (raw @ CRLF) r = read_head_from ((raw @ CRLF @ as_bytes l) @ CRLF) r1" "clean r1"
    "contents r1 = as_bytes (render_head ls) @ rest"
    by (auto simp: render_head_Cons crlf_def CRLF_def)
  from Cons.IH [OF r1(2,3), of "raw @ CRLF @ as_bytes l"] Cons.prems r1(1) show ?case
    by (auto simp: render_head_Cons CRLF_def crlf_def)
qed

lemma read_head_render:
  assumes "clean r" "contents r = as_bytes (render_head ls) @ rest" "list_all head_line ls" "ls \<noteq> []"
    and "length (render_head ls) \<le> 65536"
  obtains r' where "read_head_from [] r = (Inr (as_bytes (render_head ls)), r')" "clean r'"
    "contents r' = rest"
proof -
  from assms(4) obtain l ks where ls: "ls = l # ks" by (cases ls) auto
  with assms(2) have c: "contents r = as_bytes l @ CRLF @ (as_bytes (render_head ks) @ rest)"
    by (simp add: render_head_Cons)
  from ls assms(3,5) have l: "head_line l" "list_all head_line ks"
    and len: "length l + 2 + length (render_head ks) \<le> 65536"
    by (simp_all add: render_head_Cons length_crlf)
  from read_head_line [OF assms(1) c l(1), of "[]"] len obtain r1 where r1:
    "read_head_from [] r = read_head_from (as_bytes l @ CRLF) r1" "clean r1"
    "contents r1 = as_bytes (render_head ks) @ rest" by auto
  from read_head_lines [OF r1(2,3) l(2), of "as_bytes l"] len r1(1) obtain r2 where
    "read_head_from [] r = (Inr (as_bytes l @ CRLF @ as_bytes (render_head ks)), r2)" "clean r2"
    "contents r2 = rest" by auto
  with that ls show thesis by (simp add: render_head_Cons)
qed

lemma lossy_ascii: "list_all (\<lambda>c. code c < 128) s \<Longrightarrow> from_utf8_lossy (as_bytes s) = s"
  unfolding from_utf8_lossy_def
  by (subst lossy_valid) (auto intro!: utf8_valid_ascii simp: as_bytes_def list_all_iff code_def
      bytes_str_def o_def)

lemma render_head_ascii:
  assumes "list_all head_line ls"
  shows "list_all (\<lambda>c. code c < 128) (render_head ls)"
proof -
  have "code c < 128" if "l \<in> set ls" "c \<in> set l" for l c
    using assms that head_line_chars(3) [of l c] by (auto simp: list_all_iff)
  then show ?thesis by (auto simp: render_head_def list_all_iff crlf_def) (simp_all add: code_def)
qed

lemma split_render_head:
  assumes "list_all head_line ls"
  shows "split_on (\<lambda>c. c = CHR 0x0A) (render_head ls) = map (\<lambda>l. l @ [CHR 0x0D]) (ls @ [[]]) @ [[]]"
  using assms
proof (induction ls)
  case Nil
  then show ?case by (simp add: render_head_def crlf_def)
next
  case (Cons l ls)
  have "\<forall>x\<in>set (l @ [CHR 0x0D]). x \<noteq> CHR 0x0A" using Cons.prems head_line_chars(1) by auto
  from split_on_at [OF this refl, of "render_head ls"] Cons show ?case
    by (simp add: render_head_Cons crlf_def)
qed

lemma lines_render_head:
  assumes "list_all head_line ls"
  shows "str_lines (render_head ls) = ls @ [[]]"
  unfolding str_lines_def split_render_head [OF assms]
  by (simp add: strip_cr_def o_def map_idI butlast_append)

text \<open>One line of the framing scan, and the lines that do not matter to it.\<close>

definition header_line :: "string \<times> string \<Rightarrow> string" where
  "header_line h = fst h @ '': '' @ snd h"

lemma trim_head_line: "head_line l \<Longrightarrow> trim l = l"
  by (rule trim_graphic) (auto simp: head_line_def)

lemma trim_leading_space:
  assumes "v \<noteq> []" "is_graphic (hd v)" "is_graphic (last v)"
  shows "trim ('' '' @ v) = v"
proof -
  have "ws_head (CHR '' '' # v) = 1" by (simp add: ws_head_def ascii_ws_def code_def)
  then have "trim_start ('' '' @ v) = trim_start v" by (subst trim_start.simps) simp
  then have "trim ('' '' @ v) = trim v" by (simp add: trim_def)
  with trim_graphic [of v] assms show ?thesis by simp
qed

lemma framing_header_line:
  assumes "CHR '':'' \<notin> set name" "head_line (header_line (name, v))"
    and "v \<noteq> []" "is_graphic (hd v)" "is_graphic (last v)"
  shows "framing_lines (header_line (name, v) # ls) cl ch =
    framing_lines ls
      (if eq_ignore_ascii_case name ''content-length''
       then (case parse_usize 10 v of Some n \<Rightarrow> Some n | None \<Rightarrow> cl) else cl)
      (ch \<or> eq_ignore_ascii_case name ''transfer-encoding'' \<and>
             contains (to_ascii_lowercase ('' '' @ v)) ''chunked'')"
proof -
  let ?l = "header_line (name, v)"
  have split: "split_once (CHR '':'') ?l = Some (name, '' '' @ v)"
    using split_once_at [OF assms(1), of "'' '' @ v"] by (simp add: header_line_def)
  have ne: "?l \<noteq> []" by (simp add: header_line_def)
  show ?thesis
    unfolding framing_lines.simps trim_head_line [OF assms(2)] Let_def if_not_P [OF ne] split
      option.case prod.case trim_leading_space [OF assms(3-5)] ..
qed

lemma framing_other_line:
  "head_line l \<Longrightarrow> CHR '':'' \<notin> set l \<Longrightarrow> framing_lines (l # ls) cl ch = framing_lines ls cl ch"
  by (simp add: trim_head_line split_once_None Let_def head_line_def)

lemma framing_empty_line: "framing_lines [[]] cl ch = (cl, ch)"
  by (simp add: Let_def)

subsection \<open>Heads with headers\<close>

definition good_header :: "string \<times> string \<Rightarrow> bool" where
  "good_header h \<longleftrightarrow> CHR '':'' \<notin> set (fst h) \<and> head_line (header_line h) \<and>
     snd h \<noteq> [] \<and> is_graphic (hd (snd h)) \<and> is_graphic (last (snd h))"

definition header_step :: "string \<times> string \<Rightarrow> nat option \<times> bool \<Rightarrow> nat option \<times> bool" where
  "header_step h st =
     (if eq_ignore_ascii_case (fst h) ''content-length''
      then (case parse_usize 10 (snd h) of Some n \<Rightarrow> Some n | None \<Rightarrow> fst st) else fst st,
      snd st \<or> eq_ignore_ascii_case (fst h) ''transfer-encoding'' \<and>
               contains (to_ascii_lowercase ('' '' @ snd h)) ''chunked'')"

lemma framing_good_header:
  assumes "good_header h"
  shows "framing_lines (header_line h # ls) cl ch =
    framing_lines ls (fst (header_step h (cl, ch))) (snd (header_step h (cl, ch)))"
  using assms framing_header_line [of "fst h" "snd h" ls cl ch]
  unfolding good_header_def header_step_def prod.collapse fst_conv snd_conv by blast

lemma framing_headers:
  assumes "list_all good_header hs"
  shows "framing_lines (map header_line hs @ ls) cl ch =
    framing_lines ls (fst (fold header_step hs (cl, ch))) (snd (fold header_step hs (cl, ch)))"
  using assms by (induction hs arbitrary: cl ch) (simp_all add: framing_good_header del: framing_lines.simps)

definition framing_of :: "nat option \<times> bool \<Rightarrow> body_framing" where
  "framing_of st =
     (if snd st then Chunked else (case fst st of Some n \<Rightarrow> ContentLength n | None \<Rightarrow> UntilClose))"

text \<open>Reading a rendered head gives back its status and the framing its headers declare.\<close>

lemma read_response_render:
  assumes "clean r" "contents r = as_bytes (render_head (sl # map header_line hs)) @ rest"
    and "head_line sl" "CHR '':'' \<notin> set sl" "list_all good_header hs"
    and "length (render_head (sl # map header_line hs)) \<le> 65536"
  obtains r' where "read_response_headers r =
      (Inr (status_of_line sl, render_head (sl # map header_line hs),
            framing_of (fold header_step hs (None, False))), r')" "clean r'" "contents r' = rest"
proof -
  let ?ls = "sl # map header_line hs"
  have good: "list_all head_line ?ls" using assms(3,5) by (auto simp: list_all_iff good_header_def)
  from read_head_render [OF assms(1,2) good _ assms(6)] obtain r' where r':
    "read_head_from [] r = (Inr (as_bytes (render_head ?ls)), r')" "clean r'" "contents r' = rest" by blast
  have lossy: "from_utf8_lossy (as_bytes (render_head ?ls)) = render_head ?ls"
    by (rule lossy_ascii [OF render_head_ascii [OF good]])
  obtain cl ch where fold: "fold header_step hs (None, False) = (cl, ch)" by fastforce
  have "framing_lines (?ls @ [[]]) None False = (cl, ch)"
    using framing_other_line [OF assms(3,4), of "map header_line hs @ [[]]" None False]
      framing_headers [OF assms(5), of "[[]]" None False] fold framing_empty_line by simp
  then have "parse_body_framing (render_head ?ls) = framing_of (fold header_step hs (None, False))"
    by (simp only: parse_body_framing_def lines_render_head [OF good] fold framing_of_def prod.case
        fst_conv snd_conv)
  with r' lossy lines_render_head [OF good] have
    "read_response_headers r = (Inr (status_of_line sl, render_head ?ls,
       framing_of (fold header_step hs (None, False))), r')"
    unfolding read_response_headers_def by (simp only: prod.case sum.case Let_def append_Cons list.case)
  with r' that show thesis by blast
qed

subsection \<open>The responses as rendered heads\<close>

lemma show_nat_line:
  "list_all (\<lambda>c. 32 \<le> code c \<and> code c < 127) (show_nat n)" "is_graphic (hd (show_nat n))"
  "is_graphic (last (show_nat n))"
proof -
  have an: "is_ascii_alphanumeric c" if "c \<in> set (show_nat n)" for c
    using that show_radix_alphanumeric [of 10 c n] by (simp add: show_nat_def)
  then show "list_all (\<lambda>c. 32 \<le> code c \<and> code c < 127) (show_nat n)"
    by (fastforce simp: list_all_iff is_ascii_alphanumeric_def is_ascii_digit_def)
  show "is_graphic (hd (show_nat n))" "is_graphic (last (show_nat n))"
    using an by (simp_all add: alphanumeric_graphic)
qed

lemma good_header_nat:
  assumes "head_line name" "CHR '':'' \<notin> set name"
  shows "good_header (name, show_nat n)"
  using assms show_nat_line [of n]
  by (auto simp: good_header_def header_line_def head_line_def code_def hd_append last_append)

lemma length_show_nat: "n \<le> u64_max \<Longrightarrow> length (show_nat n) \<le> 20"
  unfolding show_nat_def by (rule length_show_radix) simp_all

lemma parse_show_nat: "n \<le> u64_max \<Longrightarrow> parse_usize 10 (show_nat n) = Some n"
  unfolding parse_usize_def show_nat_def by (rule parse_show_radix) simp_all

definition cors_headers :: "(string \<times> string) list" where
  "cors_headers =
     [(''Access-Control-Allow-Origin'', ''*''),
      (''Access-Control-Allow-Methods'', ''POST, OPTIONS''),
      (''Access-Control-Allow-Headers'', ''content-type''),
      (''Access-Control-Max-Age'', ''86400'')]"

lemma cors_rendered: "CHALLENGE_CORS = concat (map (\<lambda>h. header_line h @ crlf) cors_headers)"
  by (simp add: CHALLENGE_CORS_def cors_headers_def header_line_def)

lemma good_cors: "list_all good_header cors_headers"
  by (code_simp)

lemma no_CR:
  assumes "head_line l"
  shows "13 \<notin> set (as_bytes l)"
proof
  assume "13 \<in> set (as_bytes l)"
  then obtain c where c: "c \<in> set l" "(13 :: u8) = of_char c" by (auto simp: as_bytes_def)
  from arg_cong [OF c(2), of unat] have "code c = 13" by (simp add: code_def)
  moreover have "32 \<le> code c" using assms c(1) by (simp add: head_line_def list_all_iff)
  ultimately show False by simp
qed

lemma find_sub_skip:
  "13 \<notin> set a \<Longrightarrow> find_sub (CRLF @ CRLF) (a @ t) = map_option (\<lambda>i. length a + i) (find_sub (CRLF @ CRLF) t)"
  by (induction a) (cases "find_sub (CRLF @ CRLF) t"; auto simp: CRLF_def)+

text \<open>The first blank line of a response is the end of its head, whatever the body contains.\<close>

lemma find_head_end:
  assumes "ls \<noteq> []" "list_all head_line ls"
  shows "find_sub (CRLF @ CRLF) (as_bytes (render_head ls) @ body) =
    Some (length (concat (map (\<lambda>l. l @ crlf) ls)) - 2)"
  using assms
proof (induction ls)
  case (Cons l ks)
  let ?t = "CRLF @ as_bytes (render_head ks) @ body"
  have skip: "find_sub (CRLF @ CRLF) (as_bytes (render_head (l # ks)) @ body) =
      map_option (\<lambda>i. length l + i) (find_sub (CRLF @ CRLF) ?t)"
    using find_sub_skip [of "as_bytes l" ?t] no_CR [of l] Cons.prems(2) by (simp add: render_head_Cons)
  show ?case
  proof (cases ks)
    case Nil
    then have "find_sub (CRLF @ CRLF) ?t = Some 0" by (simp add: render_head_def CRLF_def)
    with skip Nil show ?thesis by (simp add: length_crlf)
  next
    case k: (Cons k ks')
    let ?u = "as_bytes (render_head ks) @ body"
    from Cons.prems(2) k have "head_line k" by simp
    then obtain c k' where c: "as_bytes k = c # k'" "c \<noteq> 13"
      using no_CR [of k] by (cases "as_bytes k") (auto simp: head_line_def as_bytes_def)
    with k obtain u' where u: "?u = c # u'" by (simp add: render_head_Cons)
    have "find_sub (CRLF @ CRLF) ?t = map_option (\<lambda>i. 2 + i) (find_sub (CRLF @ CRLF) ?u)"
      unfolding u using c(2) by (simp add: CRLF_def option.map_comp o_def)
    with Cons.IH Cons.prems(2) k skip show ?thesis by (simp add: length_crlf)
  qed
qed simp

lemma cors_keeps_head:
  assumes "ls \<noteq> []" "list_all head_line ls"
  shows "with_challenge_cors (as_bytes (render_head ls) @ body) =
    as_bytes (render_head (ls @ map header_line cors_headers)) @ body"
proof -
  let ?p = "concat (map (\<lambda>l. l @ crlf) ls)"
  have "2 \<le> length ?p" using assms(1) by (cases ls) (simp_all add: length_crlf)
  then have at: "length ?p - 2 + 2 = length (as_bytes ?p)" by simp
  have resp: "as_bytes (render_head ls) @ body = as_bytes ?p @ (CRLF @ body)"
    by (simp add: render_head_def)
  have "with_challenge_cors (as_bytes (render_head ls) @ body) =
      as_bytes ?p @ as_bytes CHALLENGE_CORS @ CRLF @ body"
    unfolding with_challenge_cors_def find_head_end [OF assms] option.case at
    unfolding resp by simp
  then show ?thesis by (simp add: render_head_def cors_rendered o_def)
qed

definition json_headers :: "nat \<Rightarrow> nat option \<Rightarrow> (string \<times> string) list" where
  "json_headers n retry =
     [(''Content-Type'', ''application/json''), (''Content-Length'', show_nat n)] @
     (case retry of None \<Rightarrow> [] | Some secs \<Rightarrow> [(''Retry-After'', show_nat secs)]) @
     [(''Connection'', ''close'')]"

definition sse_headers :: "nat \<Rightarrow> (string \<times> string) list" where
  "sse_headers n =
     [(''Content-Type'', ''text/event-stream''), (''Cache-Control'', ''no-cache''),
      (''Content-Length'', show_nat n), (''Connection'', ''close'')]"

definition stream_headers :: "(string \<times> string) list" where
  "stream_headers =
     [(''Content-Type'', ''text/event-stream''), (''Cache-Control'', ''no-cache, no-transform''),
      (''X-Accel-Buffering'', ''no''), (''Transfer-Encoding'', ''chunked''), (''Connection'', ''close'')]"

definition error_line :: "api_error \<Rightarrow> string" where
  "error_line e = ''HTTP/1.1 '' @ show_nat (status_code e) @ '' '' @ reason_phrase (status_code e)"

lemmas rendered_defs = render_head_def header_line_def

lemma json_rendered:
  "build_json_response 200 body =
     as_bytes (render_head (''HTTP/1.1 200 OK'' # map header_line (json_headers (length body) None))) @ body"
proof -
  have "show_nat 200 = ''200''" by code_simp
  then show ?thesis by (simp add: build_json_response_def json_headers_def rendered_defs)
qed

lemma sse_rendered:
  "build_sse_buffered_response body =
     as_bytes (render_head (''HTTP/1.1 200 OK'' # map header_line (sse_headers (length body)))) @ body"
  by (simp add: build_sse_buffered_response_def sse_headers_def rendered_defs)

lemma error_rendered:
  assumes "body = to_vec_or_default X (error_body_json (into_body e))"
  shows "build_error_response X e =
     as_bytes (render_head (error_line e # map header_line (json_headers (length body) (retry_after_secs e))))
       @ body"
  using assms by (cases "retry_after_secs e")
    (simp_all add: build_error_response_def json_headers_def rendered_defs error_line_def Let_def)

lemma stream_head_rendered:
  "write_sse_stream_headers vec_write out =
     (Inr (), out @ as_bytes (render_head (''HTTP/1.1 200 OK'' # map header_line stream_headers)))"
  by (simp add: write_sse_stream_headers_def stream_headers_def rendered_defs vec_write_simp)

subsection \<open>Round trips\<close>

lemma fixed_round_trip:
  assumes "clean r" "contents r = as_bytes (render_head (sl # map header_line hs)) @ body"
    and "head_line sl" "CHR '':'' \<notin> set sl" "list_all good_header hs"
    and "length (render_head (sl # map header_line hs)) \<le> 65536"
    and "fold header_step hs (None, False) = (Some (length body), False)" "0 < buf_len"
  shows "\<exists>text r1 r2. read_response_headers r = (Inr (status_of_line sl, text, ContentLength (length body)), r1) \<and>
    copy_body buf_len vec_write (ContentLength (length body)) r1 [] = (Inr (length body), r2, body) \<and>
    contents r2 = []"
proof -
  from read_response_render [OF assms(1-6)] obtain r1 where r1: "read_response_headers r =
      (Inr (status_of_line sl, render_head (sl # map header_line hs), ContentLength (length body)), r1)"
      "clean r1" "contents r1 = body"
    using assms(7) by (metis framing_of_def fst_conv option.case(2) snd_conv)
  let ?early = "\<lambda>left. Upstream (''upstream closed early ('' @ show_nat left @ '' bytes remaining)'')"
  from copy_exact_enough [OF r1(2) assms(8), of "length body" ?early 0 "[]"] r1(3) obtain r2 where
    "copy_body buf_len vec_write (ContentLength (length body)) r1 [] = (Inr (length body), r2, body)"
    "contents r2 = []"
    by (auto simp: copy_body_def copy_fixed_def)
  with r1(1) show ?thesis by blast
qed

lemma good_fixed_headers:
  "list_all good_header (json_headers n retry)" "list_all good_header (sse_headers n)"
  "list_all good_header stream_headers"
proof -
  have names: "head_line ''Content-Length''" "CHR '':'' \<notin> set ''Content-Length''"
      "head_line ''Retry-After''" "CHR '':'' \<notin> set ''Retry-After''"
    by code_simp+
  have fixed: "good_header (''Content-Type'', ''application/json'')" "good_header (''Connection'', ''close'')"
      "good_header (''Content-Type'', ''text/event-stream'')" "good_header (''Cache-Control'', ''no-cache'')"
    by code_simp+
  note nat = good_header_nat [OF names(1,2)] good_header_nat [OF names(3,4)]
  show "list_all good_header (json_headers n retry)"
    unfolding json_headers_def by (cases retry) (simp_all add: fixed nat)
  show "list_all good_header (sse_headers n)"
    unfolding sse_headers_def by (simp add: fixed nat)
  show "list_all good_header stream_headers" by code_simp
qed

lemma header_step_names:
  "header_step (''Content-Type'', v) st = st" "header_step (''Connection'', v) st = st"
  "header_step (''Cache-Control'', v) st = st" "header_step (''Retry-After'', v) st = st"
  "n \<le> u64_max \<Longrightarrow> header_step (''Content-Length'', show_nat n) st = (Some n, snd st)"
  "h \<in> set cors_headers \<Longrightarrow> header_step h st = st"
proof -
  have plain: "header_step (k, v) st = st"
    if "\<not> eq_ignore_ascii_case k ''content-length''" "\<not> eq_ignore_ascii_case k ''transfer-encoding''" for k v
    using that by (simp add: header_step_def)
  show "header_step (''Content-Type'', v) st = st" by (rule plain) code_simp+
  show "header_step (''Connection'', v) st = st" by (rule plain) code_simp+
  show "header_step (''Cache-Control'', v) st = st" by (rule plain) code_simp+
  show "header_step (''Retry-After'', v) st = st" by (rule plain) code_simp+
  have "eq_ignore_ascii_case ''Content-Length'' ''content-length''"
    "\<not> eq_ignore_ascii_case ''Content-Length'' ''transfer-encoding''" by code_simp+
  then show "n \<le> u64_max \<Longrightarrow> header_step (''Content-Length'', show_nat n) st = (Some n, snd st)"
    by (simp add: header_step_def parse_show_nat)
  have "list_all (\<lambda>h. \<not> eq_ignore_ascii_case (fst h) ''content-length'' \<and>
      \<not> eq_ignore_ascii_case (fst h) ''transfer-encoding'') cors_headers" by code_simp
  then show "h \<in> set cors_headers \<Longrightarrow> header_step h st = st"
    using plain [of "fst h" "snd h"] by (auto simp: list_all_iff)
qed

lemma fold_cors: "fold header_step cors_headers st = st"
proof -
  have "fold header_step hs st = st" if "set hs \<subseteq> set cors_headers" for hs
    using that by (induction hs) (simp_all add: header_step_names(6))
  then show ?thesis by blast
qed

lemma fold_fixed_headers:
  assumes "n \<le> u64_max"
  shows "fold header_step (json_headers n retry) (None, False) = (Some n, False)"
    "fold header_step (sse_headers n) (None, False) = (Some n, False)"
  using assms by (cases retry; simp add: json_headers_def header_step_names(1-5))
    (simp add: sse_headers_def assms header_step_names(1-5))

lemma split_ws_word:
  "list_all is_graphic s \<Longrightarrow> split_ws acc (s @ CHR '' '' # t) = (acc @ s) # split_ws [] t"
proof (induction s arbitrary: acc)
  case Nil
  have "ws_head (CHR '' '' # t) = 1" by (simp add: ws_head_def ascii_ws_def code_def)
  then show ?case by (subst split_ws.simps) simp
next
  case (Cons c s)
  then have "ws_head (c # s @ CHR '' '' # t) = 0" by (intro ws_head_graphic) simp
  with Cons show ?case by (subst split_ws.simps) simp
qed

lemma status_of_status_line:
  assumes "n \<le> 65535"
  shows "status_of_line (''HTTP/1.1 '' @ show_nat n @ '' '' @ reason) = n"
proof -
  have "list_all is_graphic (show_nat n)"
    using show_radix_alphanumeric [of 10 _ n] by (auto simp: list_all_iff show_nat_def alphanumeric_graphic)
  moreover have "list_all is_graphic ''HTTP/1.1''" by code_simp
  ultimately have "split_whitespace (''HTTP/1.1 '' @ show_nat n @ '' '' @ reason) =
      ''HTTP/1.1'' # show_nat n # filter (\<lambda>p. p \<noteq> []) (split_ws [] reason)"
    using split_ws_word [of "''HTTP/1.1''" "[]" "show_nat n @ '' '' @ reason"]
      split_ws_word [of "show_nat n" "[]" reason]
    by (simp add: split_whitespace_def)
  moreover have "parse_uint 10 65535 (show_nat n) = Some n"
    unfolding show_nat_def by (rule parse_show_radix) (use assms in simp_all)
  ultimately show ?thesis unfolding status_of_line_def by (simp only: list.case option.case)
qed

lemma reason_phrase_good:
  "reason_phrase n \<noteq> []" "is_graphic (last (reason_phrase n))" "length (reason_phrase n) \<le> 25"
  "list_all (\<lambda>c. 32 \<le> code c \<and> code c < 127 \<and> c \<noteq> CHR '':'') (reason_phrase n)"
proof -
  let ?ps = "[''Bad Request'', ''Unauthorized'', ''Forbidden'', ''Not Found'', ''Method Not Allowed'',
    ''Payload Too Large'', ''Too Many Requests'', ''Bad Gateway'', ''Service Unavailable'',
    ''Internal Server Error'']"
  have mem: "reason_phrase n \<in> set ?ps" by (simp add: reason_phrase_def)
  have good: "list_all (\<lambda>p. p \<noteq> [] \<and> is_graphic (last p) \<and> length p \<le> 25 \<and>
      list_all (\<lambda>c. 32 \<le> code c \<and> code c < 127 \<and> c \<noteq> CHR '':'') p) ?ps" by code_simp
  have "P p" if "list_all P ps" "p \<in> set ps" for P and p :: string and ps
    using that by (simp add: list_all_iff)
  from this [OF good mem] show
    "reason_phrase n \<noteq> []" "is_graphic (last (reason_phrase n))" "length (reason_phrase n) \<le> 25"
    "list_all (\<lambda>c. 32 \<le> code c \<and> code c < 127 \<and> c \<noteq> CHR '':'') (reason_phrase n)" by blast+
qed

lemma error_line_good:
  "head_line (error_line e)" "CHR '':'' \<notin> set (error_line e)" "status_of_line (error_line e) = status_code e"
  "length (error_line e) \<le> 60"
proof -
  let ?n = "show_nat (status_code e)"
  have digits: "c \<in> set ?n \<Longrightarrow> is_ascii_alphanumeric c" for c
    using show_radix_alphanumeric [of 10 c] by (simp add: show_nat_def)
  have colon: "\<not> is_ascii_alphanumeric (CHR '':'')" by code_simp
  have version: "is_graphic (CHR ''H'')" "list_all (\<lambda>c. 32 \<le> code c \<and> code c < 127) ''HTTP/1.1 ''"
    "list_all (\<lambda>c. 32 \<le> code c \<and> code c < 127) '' ''" by code_simp+
  note phrase = reason_phrase_good [of "status_code e"]
  show "head_line (error_line e)"
    using version show_nat_line [of "status_code e"] phrase
    by (auto simp: head_line_def error_line_def list_all_iff)
  show "CHR '':'' \<notin> set (error_line e)"
    using digits [of "CHR '':''"] colon phrase(4) by (auto simp: error_line_def list_all_iff)
  have "status_code e \<le> u64_max" using status_code_error [of e] by simp
  with phrase(3) show "length (error_line e) \<le> 60"
    using length_show_nat [of "status_code e"] by (simp add: error_line_def)
  show "status_of_line (error_line e) = status_code e"
    unfolding error_line_def by (rule status_of_status_line) (use status_code_error [of e] in simp)
qed

lemma length_render_head:
  "length (render_head ls) = sum_list (map length ls) + 2 * length ls + 2"
  by (induction ls) (simp_all add: render_head_def length_crlf)

lemma ok_line_good:
  "head_line ''HTTP/1.1 200 OK''" "CHR '':'' \<notin> set ''HTTP/1.1 200 OK''"
  "status_of_line ''HTTP/1.1 200 OK'' = 200"
proof -
  show "head_line ''HTTP/1.1 200 OK''" "CHR '':'' \<notin> set ''HTTP/1.1 200 OK''" by code_simp+
  have "show_nat 200 = ''200''" by code_simp
  with status_of_status_line [of 200 "''OK''"] show "status_of_line ''HTTP/1.1 200 OK'' = 200" by simp
qed

text \<open>What a client should receive for a response that is not streamed.\<close>

fun app_status :: "api_error + app_response \<Rightarrow> nat" where
  "app_status (Inl e) = status_code e"
| "app_status (Inr _) = 200"

fun app_body :: "'x ext_scheme \<Rightarrow> api_error + app_response \<Rightarrow> bytes option" where
  "app_body X (Inl e) = Some (to_vec_or_default X (error_body_json (into_body e)))"
| "app_body X (Inr (AppJson j)) = Some (to_vec_or_default X j)"
| "app_body X (Inr (AppSseBuffered b)) = Some b"
| "app_body X (Inr (AppSsePassthrough _ _ _ _ _)) = None"

fun app_retry :: "api_error + app_response \<Rightarrow> nat option" where
  "app_retry (Inl e) = retry_after_secs e"
| "app_retry (Inr _) = None"

text \<open>Every response that is not streamed is a rendered head, possibly with the CORS headers, and the
  body.\<close>

lemma dispatch_fixed:
  assumes handler: "handle_from_ex X W (http_method_parse m) path h body now ip hdr s = (res, s1)"
    and fixed: "app_body X res = Some b"
    and "\<not> (eq_ignore_ascii_case m ''OPTIONS'' \<and> is_attestation_challenge_path path)"
    and "length b \<le> u64_max" "\<forall>n. app_retry res = Some n \<longrightarrow> n \<le> u64_max"
  obtains sl hs where
    "dispatch_to_writer X W m path h body now ip hdr s out =
       (Inr (), s1, out @ as_bytes (render_head (sl # map header_line hs)) @ b)"
    "head_line sl" "CHR '':'' \<notin> set sl" "status_of_line sl = app_status res" "list_all good_header hs"
    "fold header_step hs (None, False) = (Some (length b), False)"
    "length (render_head (sl # map header_line hs)) \<le> 65536"
proof -
  define cors where "cors = (if is_attestation_challenge_path path then cors_headers else [])"
  define sl where "sl = (case res of Inl e \<Rightarrow> error_line e | Inr _ \<Rightarrow> ''HTTP/1.1 200 OK'')"
  define hs where "hs = (case res of Inr (AppSseBuffered _) \<Rightarrow> sse_headers (length b)
    | _ \<Rightarrow> json_headers (length b) (app_retry res) @ cors)"
  have sl_good: "head_line sl" "CHR '':'' \<notin> set sl" "status_of_line sl = app_status res" "length sl \<le> 60"
    by (cases res; simp add: sl_def error_line_good ok_line_good)+
  have hs_good: "list_all good_header hs"
    using good_fixed_headers good_cors
    by (auto simp: hs_def cors_def split: sum.split app_response.split)
  have fold: "fold header_step hs (None, False) = (Some (length b), False)"
    using fold_fixed_headers [OF assms(4)] fold_cors
    by (auto simp: hs_def cors_def split: sum.split app_response.split)
  have "length (show_nat (length b)) \<le> 20" using assms(4) by (rule length_show_nat)
  moreover have "length (show_nat n) \<le> 20" if "app_retry res = Some n" for n
    using assms(5) that by (auto intro: length_show_nat)
  ultimately have len: "length (render_head (sl # map header_line hs)) \<le> 65536"
    using sl_good(4)
    by (auto simp: length_render_head hs_def cors_def json_headers_def sse_headers_def cors_headers_def
        header_line_def split: sum.split app_response.split option.split)
  have heads: "list_all head_line (sl # map header_line hs')" if "list_all good_header hs'" for hs'
    using that sl_good(1) by (auto simp: list_all_iff good_header_def)
  have "dispatch_to_writer X W m path h body now ip hdr s out =
      (Inr (), s1, out @ as_bytes (render_head (sl # map header_line hs)) @ b)"
    using handler fixed assms(3) cors_keeps_head [OF _ heads [OF good_fixed_headers(1)]]
    by (auto simp: dispatch_to_writer_def sl_def hs_def cors_def json_rendered sse_rendered error_rendered
        Let_def split: sum.splits app_response.splits)
  with sl_good hs_good fold len that show thesis by blast
qed

text \<open>C23. Responses are framed so that any HTTP/1.1 client recovers them: whatever a request is and
  however it ends, unless it is a streamed one or a CORS preflight, and whether or not CORS headers
  are inserted, a client that reads the bytes in pieces of any size finds the status of the outcome
  and a declared length, reads exactly the body of the outcome, and nothing is left over.\<close>

theorem fixed_response_is_framed:
  assumes "handle_from_ex X W (http_method_parse m) path h body now ip hdr s = (res, s1)"
    and "app_body X res = Some b"
    and "\<not> (eq_ignore_ascii_case m ''OPTIONS'' \<and> is_attestation_challenge_path path)"
    and "length b \<le> u64_max" "\<forall>n. app_retry res = Some n \<longrightarrow> n \<le> u64_max"
    and "clean r" "contents r = snd (snd (dispatch_to_writer X W m path h body now ip hdr s []))"
    and "0 < buf_len"
  shows "\<exists>text r1 r2. read_response_headers r = (Inr (app_status res, text, ContentLength (length b)), r1) \<and>
    copy_body buf_len vec_write (ContentLength (length b)) r1 [] = (Inr (length b), r2, b) \<and>
    contents r2 = []"
proof -
  from dispatch_fixed [OF assms(1-5), of "[]"] obtain sl hs where
    d: "dispatch_to_writer X W m path h body now ip hdr s [] =
          (Inr (), s1, as_bytes (render_head (sl # map header_line hs)) @ b)"
    and good: "head_line sl" "CHR '':'' \<notin> set sl" "status_of_line sl = app_status res"
      "list_all good_header hs" "fold header_step hs (None, False) = (Some (length b), False)"
      "length (render_head (sl # map header_line hs)) \<le> 65536" by auto
  from assms(7) d have "contents r = as_bytes (render_head (sl # map header_line hs)) @ b" by simp
  from fixed_round_trip [OF assms(6) this good(1,2,4,6,5) assms(8)] good(3) show ?thesis by simp
qed

definition byte_reader :: "bytes \<Rightarrow> reader" where
  "byte_reader bs = map (\<lambda>b. Inr [b]) bs"

lemma byte_reader_simps: "clean (byte_reader bs)" "contents (byte_reader bs) = bs"
  by (induction bs) (simp_all add: byte_reader_def)

text \<open>Stand-ins for the crates whose serialiser writes two bytes.\<close>

definition brace_crates :: body_ext where
  "brace_crates = sample_body_crates\<lparr>json_to_vec := \<lambda>j. Inr [123, 125]\<rparr>"

theorem fixed_response_is_framed_witness:
  "\<exists>text r1 r2. read_response_headers (byte_reader (snd (snd (dispatch_to_writer brace_crates
        sample_world ''GET'' ''/healthz'' None [] 0 None None sample_app [])))) =
      (Inr (200, text, ContentLength 2), r1) \<and>
    copy_body 16 vec_write (ContentLength 2) r1 [] = (Inr 2, r2, [123, 125]) \<and> contents r2 = []"
proof -
  let ?j = "JObj [(''status'', JStr ''ok''), (''region'', JStr ''global'')]"
  have "http_method_parse ''GET'' = Get" "normalize_path ''/healthz'' = Inr ''/healthz''"
    "classify Get ''/healthz'' Allowlist = Health" by code_simp+
  then have handler: "handle_from_ex brace_crates sample_world (http_method_parse ''GET'') ''/healthz'' None
      [] 0 None None sample_app = (Inr (AppJson ?j), sample_app)"
    by (simp add: handle_from_ex_def sample_app_def app_new_def config_default_def)
  have plain: "\<not> (eq_ignore_ascii_case ''GET'' ''OPTIONS'' \<and> is_attestation_challenge_path ''/healthz'')"
    by code_simp
  have "app_body brace_crates (Inr (AppJson ?j)) = Some [123, 125]"
    by (simp add: to_vec_or_default_def brace_crates_def)
  from fixed_response_is_framed [OF handler this plain _ _ byte_reader_simps, of 16] show ?thesis
    by (simp add: numeral_2_eq_2)
qed

subsection \<open>Streamed responses\<close>

lemma write_chunk_vec:
  "chunked_writer vec_write b out = (Inr (), out @ (if b = [] then [] else chunk_frame b))"
  by (simp add: chunked_writer_def write_chunk_def write_internal_def vec_write_simp bindS_def
      chunk_frame_def)

lemma write_pieces_vec:
  "write_pieces (chunked_writer vec_write) ps out =
     (Inr (), out @ concat (map chunk_frame (filter (\<lambda>p. p \<noteq> []) ps)))"
  by (induction ps arbitrary: out) (simp_all add: bindS_def write_chunk_vec)

lemma concat_filter_nonempty: "concat (filter (\<lambda>p. p \<noteq> []) ps) = concat ps"
  by (induction ps) auto

text \<open>Without its last chunk a chunked body delivers what arrived and then fails.\<close>

lemma copy_chunked_cut:
  assumes "clean r" "0 < buf_len" "\<forall>c\<in>set cs. c \<noteq> [] \<and> length c \<le> u64_max"
    and "contents r = concat (map chunk_frame cs)"
  shows "copy_chunked buf_len vec_write acc r w =
    (Inl (Upstream ''unexpected EOF reading header line''), [], w @ concat cs)"
  using assms
proof (induction cs arbitrary: acc r w)
  case Nil
  then have "r = []" using contents_Nil_iff by simp
  then show ?case
    by (subst copy_chunked.simps) (simp add: read_line_def read_line_from.simps [of "[]" "[]"])
next
  case (Cons c cs)
  then have "contents r = chunk_frame c @ concat (map chunk_frame cs)" by simp
  with Cons.prems obtain r1 where "clean r1" "contents r1 = concat (map chunk_frame cs)"
    "copy_chunked buf_len vec_write acc r w = copy_chunked buf_len vec_write (acc + length c) r1 (w @ c)"
    by (metis copy_chunked_chunk list.set_intros(1))
  with Cons.IH [of r1 "acc + length c" "w @ c"] Cons.prems(2,3) show ?case by simp
qed

lemma stream_response_bytes:
  assumes "execute_sse_passthrough_ctx W m p b ctx = (pieces, res)"
  shows "snd (snd (stream_response W m p b ctx s [])) =
    as_bytes (render_head (''HTTP/1.1 200 OK'' # map header_line stream_headers)) @
    concat (map chunk_frame (filter (\<lambda>p. p \<noteq> []) pieces)) @ (if is_ok res then last_chunk else [])"
  using assms
  by (cases res) (simp_all add: stream_response_def stream_head_rendered write_pieces_vec
      write_sse_stream_end_def write_internal_def vec_write_simp last_chunk_def)

text \<open>C30. A streamed answer arrives as the engine sent it: when a request is answered by a stream,
  then however the forwarder cuts it into writes and the network into pieces, the client reads status
  200 and a chunked body whose data are exactly the bytes the forwarder wrote; and the body ends
  properly if and only if the forwarder succeeded, so a stream that broke off is never taken for a
  complete one.\<close>

theorem streamed_response_is_framed:
  assumes "handle_from_ex X W (http_method_parse m) path h body now ip hdr s =
      (Inr (AppSsePassthrough m' p b key_id key_set), s1)"
    and "\<not> (eq_ignore_ascii_case m ''OPTIONS'' \<and> is_attestation_challenge_path path)"
    and "execute_sse_passthrough_ctx W m' p b (ctx_from_auth key_id key_set) = (pieces, res)"
    and "\<forall>x\<in>set pieces. length x \<le> u64_max"
    and "clean r" "contents r = snd (snd (dispatch_to_writer X W m path h body now ip hdr s []))"
    and "0 < buf_len"
  shows "\<exists>text r1 r2 outcome. read_response_headers r = (Inr (200, text, Chunked), r1) \<and>
    copy_body buf_len vec_write Chunked r1 [] = (outcome, r2, concat pieces) \<and> contents r2 = [] \<and>
    (is_ok outcome \<longleftrightarrow> is_ok res)"
proof -
  let ?hd = "''HTTP/1.1 200 OK'' # map header_line stream_headers"
  let ?cs = "filter (\<lambda>p. p \<noteq> []) pieces"
  let ?tl = "concat (map chunk_frame ?cs) @ (if is_ok res then last_chunk else [])"
  from assms(1,2) have "dispatch_to_writer X W m path h body now ip hdr s [] =
      stream_response W m' p b (ctx_from_auth key_id key_set) s1 []"
    by (auto simp: dispatch_to_writer_def Let_def)
  with assms(6) stream_response_bytes [OF assms(3)]
  have c: "contents r = as_bytes (render_head ?hd) @ ?tl" by (simp only:)
  have len: "length (render_head ?hd) \<le> 65536"
    by (simp add: length_render_head stream_headers_def header_line_def)
  have fold: "framing_of (fold header_step stream_headers (None, False)) = Chunked" by code_simp
  obtain r1 where r1: "read_response_headers r = (Inr (200, render_head ?hd, Chunked), r1)"
      "clean r1" "contents r1 = ?tl"
    by (rule read_response_render [OF assms(5) c ok_line_good(1,2) good_fixed_headers(3) len,
          unfolded ok_line_good(3) fold])
  have cs: "\<forall>c\<in>set ?cs. c \<noteq> [] \<and> length c \<le> u64_max" using assms(4) by auto
  show ?thesis
  proof (cases "is_ok res")
    case True
    with copy_chunked_frames [OF r1(2) assms(7) cs, of "[]" 0 "[]"] r1(3) obtain r2 where
      "copy_chunked buf_len vec_write 0 r1 [] = (Inr (length (concat pieces)), r2, concat pieces)"
      "contents r2 = []" by (auto simp: concat_filter_nonempty)
    with r1(1) True show ?thesis by (auto simp: copy_body_def)
  next
    case False
    with copy_chunked_cut [OF r1(2) assms(7) cs, of 0 "[]"] r1(3) r1(1) show ?thesis
      by (auto simp: copy_body_def concat_filter_nonempty)
  qed
qed

text \<open>Stand-ins for the crates that read every body as a streaming request, and an upstream that
  writes three pieces.\<close>

definition stream_crates :: body_ext where
  "stream_crates =
     sample_body_crates\<lparr>json_from_slice := \<lambda>b. Inr (JObj [(''stream'', JBool True)])\<rparr>"

definition stream_world :: world where
  "stream_world = sample_world\<lparr>w_upstream := (w_upstream sample_world)
     \<lparr>fw_stream_ctx := \<lambda>m p b c. ([[104, 105], [], [33]],
        Inr \<lparr>sr_status = 200, sr_content_type = [], sr_bytes_written = 3\<rparr>)\<rparr>\<rparr>"

lemma stream_sample:
  "\<exists>t. handle_from_ex stream_crates stream_world (http_method_parse ''POST'') ''/v1/completions''
     (Some (''Bearer '' @ sample_key)) [1, 2] 0 None None sample_app =
   (Inr (AppSsePassthrough Post ''/v1/completions'' [1, 2] ''tcak_abcd1234'' (pol_key_set unrestricted)), t)"
proof -
  have X: "json_from_slice stream_crates b = Inr (JObj [(''stream'', JBool True)])" for b
    by (simp add: stream_crates_def)
  have "hash_api_key stream_crates sample_key = sample_key"
    by (simp add: hash_api_key_def stream_crates_def sample_body_crates_def sample_crates_def auth_ext.defs
        body_ext.defs)
  then obtain t where t: "admit stream_crates stream_world 0 None (Some (''Bearer '' @ sample_key))
      sample_app = (Inr sample_auth, t)" "app_limits t = limits_default"
    using sample_admit [of stream_crates stream_world] by blast
  have n: "http_method_parse ''POST'' = Post" "normalize_path ''/v1/completions'' = Inr ''/v1/completions''"
    "classify Post ''/v1/completions'' Allowlist = InferencePost" by code_simp+
  have a: "cfg_proxy_mode (app_config sample_app) = Allowlist"
    by (simp add: sample_app_def app_new_def config_default_def)
  have "check_prompt stream_crates sample_auth [1, 2] = Inr ()"
    by (simp add: check_prompt_ok quota_ok max_context_ok allows_model_iff unrestricted_def)
  moreover have "body_wants_stream stream_crates [1, 2]"
    by (simp add: body_wants_stream_def body_json_def X)
  ultimately have "handle_inference stream_crates stream_world sample_auth ''/v1/completions'' [1, 2] t =
      (Inr (AppSsePassthrough Post ''/v1/completions'' [1, 2] ''tcak_abcd1234'' (pol_key_set unrestricted)), t)"
    using t(2) by (simp add: handle_inference_def handle_inference_post_def bindS_liftS
        validate_body_size_def limits_default_def Let_def)
  then show ?thesis
    by (simp add: handle_from_ex_def n a bindS_def t(1) [simplified])
qed

theorem streamed_response_is_framed_witness:
  "\<exists>text r1 r2 outcome. read_response_headers (byte_reader (snd (snd (dispatch_to_writer stream_crates
        stream_world ''POST'' ''/v1/completions'' (Some (''Bearer '' @ sample_key)) [1, 2] 0 None None
        sample_app [])))) = (Inr (200, text, Chunked), r1) \<and>
    copy_body 1 vec_write Chunked r1 [] = (outcome, r2, [104, 105, 33]) \<and> contents r2 = [] \<and> is_ok outcome"
proof -
  obtain t where t: "handle_from_ex stream_crates stream_world (http_method_parse ''POST'')
     ''/v1/completions'' (Some (''Bearer '' @ sample_key)) [1, 2] 0 None None sample_app =
   (Inr (AppSsePassthrough Post ''/v1/completions'' [1, 2] ''tcak_abcd1234'' (pol_key_set unrestricted)), t)"
    using stream_sample by blast
  let ?r = "\<lparr>sr_status = 200, sr_content_type = [], sr_bytes_written = 3\<rparr>"
  have plain: "\<not> (eq_ignore_ascii_case ''POST'' ''OPTIONS'' \<and> is_attestation_challenge_path ''/v1/completions'')"
    by code_simp
  have "execute_sse_passthrough_ctx stream_world Post ''/v1/completions'' [1, 2]
      (ctx_from_auth ''tcak_abcd1234'' (pol_key_set unrestricted)) = ([[104, 105], [], [33]], Inr ?r)"
    by (simp add: execute_sse_passthrough_ctx_def stream_world_def)
  from streamed_response_is_framed [OF t plain this _ byte_reader_simps, of 1] show ?thesis by simp
qed

end
