(* ===== verification/Sgx_Gateway.thy ===== *)
theory Sgx_Gateway
  imports Ope_Dispatch Http_Framing
begin

text \<open>
  \<open>crates/openapi-platform-sgx/src/gateway_ope_api.rs\<close>: the client the SGX edge dials the gateway with. The
  enclave has no HTTP library, so requests are written and answers are read by hand over TLS. TCP and TLS
  are parameters; the state is the log of the requests written, which is not in the source.
\<close>

subsection \<open>IP literals\<close>

text \<open>The standard library's parser of IP addresses, as far as whether it succeeds. A number is a run of
  digits of at most the given length.\<close>

definition read_number :: "nat \<Rightarrow> nat \<Rightarrow> nat \<Rightarrow> bool \<Rightarrow> string \<Rightarrow> string option" where
  "read_number rad maxv max_digits zero_prefix s =
     (let ds = takeWhile (\<lambda>c. case digit_val c of Some d \<Rightarrow> d < rad | None \<Rightarrow> False) s
      in if ds = [] \<or> max_digits < length ds \<or> \<not> zero_prefix \<and> hd ds = CHR ''0'' \<and> 1 < length ds \<or>
            parse_uint rad maxv ds = None
         then None else Some (drop (length ds) s))"

fun read_char :: "char \<Rightarrow> string \<Rightarrow> string option" where
  "read_char c [] = None"
| "read_char c (d # s) = (if c = d then Some s else None)"

fun read_octets :: "nat \<Rightarrow> string \<Rightarrow> string option" where
  "read_octets 0 s = Some s"
| "read_octets (Suc n) s =
     Option.bind (read_char (CHR ''.'') s) (\<lambda>s1. Option.bind (read_number 10 255 3 False s1) (read_octets n))"

definition read_ipv4 :: "string \<Rightarrow> string option" where
  "read_ipv4 s = Option.bind (read_number 10 255 3 False s) (read_octets 3)"

text \<open>Up to \<open>left\<close> groups, the last two possibly as an IPv4 address: their number, whether it ended in one,
  and the rest.\<close>

fun read_groups :: "nat \<Rightarrow> nat \<Rightarrow> string \<Rightarrow> nat \<times> bool \<times> string" where
  "read_groups 0 i s = (i, False, s)"
| "read_groups (Suc left) i s =
     (let s1 = (if i = 0 then Some s else read_char (CHR '':'') s)
      in (case (if 0 < left then Option.bind s1 read_ipv4 else None) of
            Some rest \<Rightarrow> (i + 2, True, rest)
          | None \<Rightarrow>
              (case Option.bind s1 (read_number 16 65535 4 True) of
                 Some rest \<Rightarrow> read_groups left (Suc i) rest
               | None \<Rightarrow> (i, False, s))))"

definition read_ipv6 :: "string \<Rightarrow> string option" where
  "read_ipv6 s =
     (case read_groups 8 0 s of
        (n, v4, rest) \<Rightarrow>
          if n = 8 then Some rest
          else if v4 then None
          else Option.bind (read_char (CHR '':'') rest) (\<lambda>s1.
               Option.bind (read_char (CHR '':'') s1) (\<lambda>s2.
               Some (snd (snd (read_groups (7 - n) 0 s2))))))"

definition is_ip_addr :: "string \<Rightarrow> bool" where
  "is_ip_addr s =
     ((case read_ipv4 s of Some rest \<Rightarrow> Some rest | None \<Rightarrow> read_ipv6 s) = Some [])"

subsection \<open>Configuration\<close>

definition rsplit_once :: "char \<Rightarrow> string \<Rightarrow> (string \<times> string) option" where
  "rsplit_once c s = map_option (\<lambda>i. (take i s, drop (Suc i) s)) (rfind c s)"

definition parse_https_ip_endpoint :: "string \<Rightarrow> gateway_error + string \<times> nat" where
  "parse_https_ip_endpoint base_url =
     bindE (ok_or (GwConfig ''OPENAPI_GATEWAY_OPE_API_URL must be https://IP:port (SGX: no DNS in enclave, no clear-text F' dial)'')
              (strip_prefix (trim_end_char (CHR ''/'') (trim base_url)) ''https://'')) (\<lambda>rest.
     bindE (ok_or (GwConfig ''OPENAPI_GATEWAY_OPE_API_URL must include an explicit port'')
              (rsplit_once (CHR '':'') rest)) (\<lambda>(host, port_str).
     bindE (ok_or (GwConfig (''invalid port in OPENAPI_GATEWAY_OPE_API_URL: '' @ port_str))
              (parse_uint 10 65535 port_str)) (\<lambda>port.
     if \<not> is_ip_addr host
     then Inl (GwConfig (''OPENAPI_GATEWAY_OPE_API_URL host `'' @ host @
                         ''` must be a literal IP address (no DNS in SGX enclave)''))
     else if host = [] then Inl (GwConfig ''OPENAPI_GATEWAY_OPE_API_URL host is empty'')
     else Inr (host, port))))"

definition require_ip_https_base_url :: "string \<Rightarrow> gateway_error + unit" where
  "require_ip_https_base_url base_url = bindE (parse_https_ip_endpoint base_url) (\<lambda>_. Inr ())"

text \<open>A PEM text that was loaded must have been given inline.\<close>

fun require_inline_pem :: "(string \<times> string option \<times> string option) list \<Rightarrow> gateway_error + unit" where
  "require_inline_pem [] = Inr ()"
| "require_inline_pem ((name, raw, loaded) # rest) =
     (if loaded \<noteq> None \<and> \<not> contains (trim (case raw of Some s \<Rightarrow> s | None \<Rightarrow> [])) ''-----BEGIN''
      then Inl (GwConfig (name @ '' must be inline PEM (-----BEGIN...) on SGX; path-based PEM is unsupported (std::fs disabled on Fortanix EDP)''))
      else require_inline_pem rest)"

definition sgx_from_parts ::
    "'x gw_ext_scheme \<Rightarrow> environ \<Rightarrow> string \<Rightarrow> string option \<Rightarrow> string option \<Rightarrow> string option
       \<Rightarrow> string option \<Rightarrow> bool \<Rightarrow> gateway_error + gateway_config" where
  "sgx_from_parts X env base_url token cert key ca insecure =
     bindE (map_err GwConfig (load_client_tls X base_url cert key ca insecure)) (\<lambda>l.
     bindE (require_ip_https_base_url (lt_base_url l)) (\<lambda>_.
     bindE (require_inline_pem
              [(''OPENAPI_GATEWAY_OPE_API_TLS_CLIENT_CERT_PEM'', cert, lt_client_cert_pem l),
               (''OPENAPI_GATEWAY_OPE_API_TLS_CLIENT_KEY_PEM'', key, lt_client_key_pem l),
               (''OPENAPI_GATEWAY_OPE_API_TLS_CA_PEM'', ca, lt_ca_pem l)]) (\<lambda>_.
     Inr \<lparr>gc_base_url = lt_base_url l,
          gc_token = (case token of Some s \<Rightarrow> if s = [] then None else Some s | None \<Rightarrow> None),
          gc_client_cert_pem = lt_client_cert_pem l, gc_client_key_pem = lt_client_key_pem l,
          gc_ca_pem = lt_ca_pem l, gc_insecure_skip_verify = lt_insecure_skip_verify l,
          gc_connect_timeout_secs = 10,
          gc_read_timeout_secs = duration_secs_from_env env ''OPENAPI_GATEWAY_OPE_API_READ_TIMEOUT_SECS'' 300,
          gc_engine_identity_pins = [], gc_epoch_clock_skew_secs = 300,
          gc_recipient_policy = recipient_policy_default\<lparr>rp_epoch_clock_skew_ms := 300000\<rparr>,
          gc_verify_engine_snp_chain = False\<rparr>)))"

definition sgx_validate_for_profile :: "gateway_config \<Rightarrow> edge_profile \<Rightarrow> gateway_error + unit" where
  "sgx_validate_for_profile cfg profile =
     (if gc_insecure_skip_verify cfg \<and> is_prod profile
      then Inl (GwConfig ''OPENAPI_GATEWAY_OPE_API_TLS_INSECURE_SKIP_VERIFY forbidden when OPENAPI_PROFILE=prod'')
      else if is_prod profile \<and> gc_engine_identity_pins cfg = [] \<and>
              \<not> rp_require_epoch_evidence (gc_recipient_policy cfg) \<and>
              \<not> rp_stage5_identity_deleted (gc_recipient_policy cfg)
      then Inl (GwConfig ''OPENAPI_ENGINE_IDENTITY_PINS_JSON required in prod unless OPENAPI_OPE_REQUIRE_EPOCH_EVIDENCE=1 or OPENAPI_STAGE5_IDENTITY_DELETED=1'')
      else if rp_require_launch_digest (gc_recipient_policy cfg) \<and>
              rp_launch_digest_allowlist (gc_recipient_policy cfg) = {}
      then Inl (GwConfig ''OPENAPI_ENGINE_LAUNCH_DIGEST_ALLOWLIST required when OPENAPI_OPE_REQUIRE_ENGINE_LAUNCH_DIGEST=1'')
      else require_ip_https_base_url (gc_base_url cfg))"

definition sgx_gateway_from_env :: "'x gw_ext_scheme \<Rightarrow> environ \<Rightarrow> gateway_error + gateway_config option" where
  "sgx_gateway_from_env X env =
     (case opt_env env ''OPENAPI_GATEWAY_OPE_API_URL'' of
        None \<Rightarrow> Inr None
      | Some base_url \<Rightarrow>
          bindE (sgx_from_parts X env base_url (opt_env env ''OPENAPI_GATEWAY_OPE_API_TOKEN'')
                   (opt_env env ''OPENAPI_GATEWAY_OPE_API_TLS_CLIENT_CERT_PEM'')
                   (opt_env env ''OPENAPI_GATEWAY_OPE_API_TLS_CLIENT_KEY_PEM'')
                   (opt_env env ''OPENAPI_GATEWAY_OPE_API_TLS_CA_PEM'')
                   (truthy_env env ''OPENAPI_GATEWAY_OPE_API_TLS_INSECURE_SKIP_VERIFY'')) (\<lambda>cfg.
          let pins_optional = (truthy_env env ''OPENAPI_OPE_REQUIRE_EPOCH_EVIDENCE'' \<or>
                               truthy_env env ''OPENAPI_STAGE5_IDENTITY_DELETED'');
              skew = duration_secs_from_env env ''OPENAPI_OPE_EPOCH_CLOCK_SKEW_SEC'' 300
          in bindE (load_identity_pins X env pins_optional) (\<lambda>pins.
             let cfg' = cfg\<lparr>gc_engine_identity_pins := pins, gc_epoch_clock_skew_secs := skew,
                            gc_recipient_policy := policy_from_env env pins skew\<rparr>
             in bindE (map_err (\<lambda>e. GwConfig (profile_error_to_string (debug_str X) e))
                         (load_edge_profile env)) (\<lambda>profile.
                bindE (sgx_validate_for_profile cfg' profile) (\<lambda>_. Inr (Some cfg'))))))"

subsection \<open>Reading bodies\<close>

text \<open>The line so far; the end of the stream ends the line.\<close>

function read_line_bytes :: "bytes \<Rightarrow> reader \<Rightarrow> (string + bytes) \<times> reader" where
  "read_line_bytes line r =
     (case read_some 1 r of
        (Inl e, r1) \<Rightarrow> (Inl e, r1)
      | (Inr b, r1) \<Rightarrow>
          if b = [] then (Inr line, r1)
          else let line1 = line @ b
               in if 2 \<le> length line1 \<and> suffix CRLF line1 then (Inr (take (length line1 - 2) line1), r1)
                  else if 8192 < length line1 then (Inl ''chunk header line too long'', r1)
                  else read_line_bytes line1 r1)"
  by pat_completeness auto
termination
  by (relation "measure (\<lambda>(line, r). reader_size r)") (auto dest!: read_some_size [OF sym])

declare read_line_bytes.simps [simp del]

definition read_chunk_size :: "reader \<Rightarrow> (string + nat) \<times> reader" where
  "read_chunk_size r =
     (case read_line_bytes [] r of
        (Inl e, r1) \<Rightarrow> (Inl e, r1)
      | (Inr line, r1) \<Rightarrow>
          let size_str = chunk_size_text (from_utf8_lossy line)
          in (case parse_usize 16 size_str of
                Some n \<Rightarrow> (Inr n, r1)
              | None \<Rightarrow> (Inl (''invalid chunk size: '' @ parse_int_error 16 u64_max size_str), r1)))"

definition consume_line :: "reader \<Rightarrow> (string + unit) \<times> reader" where
  "consume_line r = (case read_line_bytes [] r of (Inl e, r1) \<Rightarrow> (Inl e, r1) | (Inr _, r1) \<Rightarrow> (Inr (), r1))"

datatype framed_state = FContentLength nat | FUntilClose | FChunked nat bool

definition framed_new :: "body_framing \<Rightarrow> framed_state" where
  "framed_new f =
     (case f of ContentLength n \<Rightarrow> FContentLength n | UntilClose \<Rightarrow> FUntilClose | Chunked \<Rightarrow> FChunked 0 False)"

text \<open>The data of a chunk of which \<open>remaining\<close> bytes are left.\<close>

definition framed_chunk_data :: "nat \<Rightarrow> nat \<Rightarrow> reader \<Rightarrow> (string + bytes) \<times> framed_state \<times> reader" where
  "framed_chunk_data cap remaining r =
     (case read_some (min cap remaining) r of
        (Inl e, r1) \<Rightarrow> (Inl e, FChunked remaining False, r1)
      | (Inr b, r1) \<Rightarrow>
          if b = [] then (Inl ''upstream closed mid-chunk'', FChunked remaining False, r1)
          else let left = remaining - length b
               in if left = 0 then
                    (case consume_line r1 of
                       (Inl e, r2) \<Rightarrow> (Inl e, FChunked left False, r2)
                     | (Inr _, r2) \<Rightarrow> (Inr b, FChunked left False, r2))
                  else (Inr b, FChunked left False, r1))"

definition framed_read :: "nat \<Rightarrow> framed_state \<Rightarrow> reader \<Rightarrow> (string + bytes) \<times> framed_state \<times> reader" where
  "framed_read cap st r =
     (if cap = 0 then (Inr [], st, r)
      else (case st of
              FContentLength n \<Rightarrow>
                if n = 0 then (Inr [], st, r)
                else (case read_some (min cap n) r of
                        (Inl e, r1) \<Rightarrow> (Inl e, st, r1)
                      | (Inr b, r1) \<Rightarrow> (Inr b, FContentLength (n - length b), r1))
            | FUntilClose \<Rightarrow> (case read_some cap r of (x, r1) \<Rightarrow> (x, st, r1))
            | FChunked remaining fin \<Rightarrow>
                if fin then (Inr [], st, r)
                else if remaining = 0 then
                  (case read_chunk_size r of
                     (Inl e, r1) \<Rightarrow> (Inl e, st, r1)
                   | (Inr sz, r1) \<Rightarrow>
                       if sz = 0 then
                         (case consume_line r1 of
                            (Inl e, r2) \<Rightarrow> (Inl e, st, r2)
                          | (Inr _, r2) \<Rightarrow> (Inr [], FChunked 0 True, r2))
                       else framed_chunk_data cap sz r1)
                else framed_chunk_data cap remaining r))"

text \<open>The pieces a caller gets that reads with a buffer of \<open>cap\<close> bytes until the end or an error.\<close>

lemma read_line_bytes_size: "read_line_bytes line r = (x, r') \<Longrightarrow> reader_size r' \<le> reader_size r"
proof (induction line r rule: read_line_bytes.induct)
  case (1 line r)
  obtain y r1 where y: "read_some 1 r = (y, r1)" by fastforce
  have size: "reader_size r1 \<le> reader_size r"
    using y by (cases "(1 :: nat, r)" rule: read_some.cases) (auto split: if_splits)
  show ?case
  proof (cases "\<exists>b. y = Inr b \<and> b \<noteq> [] \<and> \<not> (2 \<le> length (line @ b) \<and> suffix CRLF (line @ b)) \<and> \<not> 8192 < length (line @ b)")
    case True
    then obtain b where b: "y = Inr b" "b \<noteq> []" "\<not> (2 \<le> length (line @ b) \<and> suffix CRLF (line @ b))" "\<not> 8192 < length (line @ b)"
      by blast
    with "1.prems" y have "read_line_bytes (line @ b) r1 = (x, r')"
      by (subst (asm) read_line_bytes.simps) (simp add: Let_def split: if_splits)
    from "1.IH" [OF y [symmetric] b(1,2) refl b(3,4) this] size show ?thesis by simp
  next
    case False
    with "1.prems" y size show ?thesis
      by (subst (asm) read_line_bytes.simps) (auto simp: Let_def split: sum.splits if_splits)
  qed
qed

lemma framed_chunk_data_size:
  "framed_chunk_data cap n r = (Inr b, st, r') \<Longrightarrow> b \<noteq> [] \<and> reader_size r' < reader_size r"
  by (auto simp: framed_chunk_data_def consume_line_def Let_def split: prod.splits sum.splits if_splits
      dest!: read_some_size read_line_bytes_size)

lemma framed_read_size: "framed_read cap st r = (Inr b, st', r') \<Longrightarrow> b \<noteq> [] \<Longrightarrow> reader_size r' < reader_size r"
  by (auto simp: framed_read_def read_chunk_size_def consume_line_def Let_def
      split: framed_state.splits prod.splits sum.splits if_splits option.splits
      dest!: read_some_size read_line_bytes_size framed_chunk_data_size)

function framed_pieces :: "nat \<Rightarrow> framed_state \<Rightarrow> reader \<Rightarrow> reader" where
  "framed_pieces cap st r =
     (case framed_read cap st r of
        (Inl e, st1, r1) \<Rightarrow> [Inl e]
      | (Inr b, st1, r1) \<Rightarrow> if b = [] then [] else Inr b # framed_pieces cap st1 r1)"
  by pat_completeness auto
termination
  by (relation "measure (\<lambda>(cap, st, r). reader_size r)") (auto dest!: framed_read_size [OF sym])

declare framed_pieces.simps [simp del]

subsection \<open>Requests\<close>

record sgx_client =
  sl_host :: string
  sl_port :: nat
  sl_token :: "string option"
  sl_tls :: client_tls

definition sgx_client_try_new :: "'x gw_ext_scheme \<Rightarrow> gateway_config \<Rightarrow> gateway_error + sgx_client" where
  "sgx_client_try_new X cfg =
     bindE (parse_https_ip_endpoint (gc_base_url cfg)) (\<lambda>(host, port).
     bindE (build_client_tls_config X cfg) (\<lambda>tls.
     Inr \<lparr>sl_host = host, sl_port = port, sl_token = gc_token cfg, sl_tls = tls\<rparr>))"

text \<open>A request as it is written: the head, and the body after it.\<close>

record sgx_out =
  so_path :: string
  so_head :: string
  so_body :: "bytes option"

text \<open>The network: TCP and TLS, each of which may refuse, and what a request is answered with: an error
  while writing it, or the stream of the connection. \<open>dl_cap\<close> is the size of the caller's reads.\<close>

record sgx_dialer =
  dl_tcp :: "sgx_out list \<Rightarrow> string \<Rightarrow> nat \<Rightarrow> string + unit"
  dl_tls :: "string \<Rightarrow> client_tls \<Rightarrow> string + unit"
  dl_exchange :: "sgx_out list \<Rightarrow> sgx_out \<Rightarrow> string + reader"
  dl_cap :: nat

definition sgx_connect :: "sgx_dialer \<Rightarrow> sgx_client \<Rightarrow> (sgx_out list, gateway_error, unit) op" where
  "sgx_connect D c log =
     ((if \<not> is_ip_addr (sl_host c) then Inl (GwConfig (''invalid host `'' @ sl_host c @ ''`''))
       else bindE (map_err (\<lambda>e. GwTransport (''connect '' @ e)) (dl_tcp D log (sl_host c) (sl_port c))) (\<lambda>_.
            map_err GwTls (dl_tls D (sl_host c) (sl_tls c)))), log)"

definition sgx_auth_headers :: "sgx_client \<Rightarrow> header_list" where
  "sgx_auth_headers c =
     (case sl_token c of Some tok \<Rightarrow> [(''Authorization'', ''Bearer '' @ tok)] | None \<Rightarrow> [])"

definition request_head :: "string \<Rightarrow> string \<Rightarrow> string \<Rightarrow> header_list \<Rightarrow> bytes option \<Rightarrow> string" where
  "request_head host method path headers body =
     method @ '' '' @ path @ '' HTTP/1.1'' @ crlf @ ''Host: '' @ host @ crlf @
     concat (map (\<lambda>(k, v). k @ '': '' @ v @ crlf) headers) @
     (case body of Some b \<Rightarrow> ''Content-Length: '' @ show_nat (length b) @ crlf | None \<Rightarrow> []) @
     ''Connection: close'' @ crlf @ crlf"

definition write_request ::
    "sgx_dialer \<Rightarrow> string \<Rightarrow> string \<Rightarrow> string \<Rightarrow> header_list \<Rightarrow> bytes option
       \<Rightarrow> (sgx_out list, gateway_error, reader) op" where
  "write_request D host method path headers body log =
     (let out = \<lparr>so_path = path, so_head = request_head host method path headers body, so_body = body\<rparr>
      in (map_err GwTransport (dl_exchange D log out), log @ [out]))"

definition parse_header_pairs :: "string \<Rightarrow> header_list" where
  "parse_header_pairs headers_text =
     List.map_filter (\<lambda>l. map_option (\<lambda>(k, v). (trim k, trim v)) (split_once (CHR '':'') (trim_end_char (CHR 0x0D) l)))
       (drop 1 (str_lines headers_text))"

definition sgx_exec ::
    "sgx_dialer \<Rightarrow> sgx_client \<Rightarrow> string \<Rightarrow> string \<Rightarrow> header_list \<Rightarrow> bytes option
       \<Rightarrow> (sgx_out list, gateway_error, nat \<times> header_list \<times> reader) op" where
  "sgx_exec D c method path headers body =
     bindS (sgx_connect D c) (\<lambda>_.
     bindS (write_request D (sl_host c) method path headers body) (\<lambda>stream.
     liftS (case read_response_headers stream of
              (Inl e, _) \<Rightarrow> Inl (GwTransport (error_to_string e))
            | (Inr (status, headers_text, framing), r) \<Rightarrow>
                Inr (status, parse_header_pairs headers_text, framed_pieces (dl_cap D) (framed_new framing) r))))"

text \<open>An answer as the calls read it: the whole body, as text.\<close>

definition sgx_answer :: "nat \<times> header_list \<times> reader \<Rightarrow> http_answer" where
  "sgx_answer x =
     (case x of (status, headers, r) \<Rightarrow>
        \<lparr>ha_status = status, ha_headers = headers,
         ha_text = bindE (read_to_end r) (\<lambda>b. Inr (from_utf8_lossy b)), ha_reader = r\<rparr>)"

definition sgx_exec_json ::
    "(string \<Rightarrow> string + 'a) \<Rightarrow> sgx_dialer \<Rightarrow> sgx_client \<Rightarrow> string \<Rightarrow> string \<Rightarrow> header_list \<Rightarrow> bytes option
       \<Rightarrow> (sgx_out list, gateway_error, 'a) op" where
  "sgx_exec_json from_str D c method path headers body =
     bindS (sgx_exec D c method path headers body) (\<lambda>x. liftS (read_json_answer from_str (sgx_answer x)))"

definition sgx_health ::
    "'x gw_ext_scheme \<Rightarrow> sgx_dialer \<Rightarrow> sgx_client \<Rightarrow> (sgx_out list, gateway_error, health_response) op" where
  "sgx_health X D c = sgx_exec_json (health_from_str X) D c ''GET'' ''/v1/ope/api/health'' (sgx_auth_headers c) None"

definition sgx_inventory ::
    "'x gw_ext_scheme \<Rightarrow> sgx_dialer \<Rightarrow> sgx_client \<Rightarrow> string \<Rightarrow> (sgx_out list, gateway_error, inventory_response) op"
where
  "sgx_inventory X D c key_set =
     (let ks = trim key_set
      in sgx_exec_json (inventory_from_str X) D c ''GET''
           (''/v1/ope/api/inventory'' @ (if ks = [] then [] else ''?key_set='' @ urlencoding_minimal ks))
           (sgx_auth_headers c) None)"

definition sgx_preassign ::
    "'x gw_ext_scheme \<Rightarrow> sgx_dialer \<Rightarrow> sgx_client \<Rightarrow> preassign_request
       \<Rightarrow> (sgx_out list, gateway_error, preassign_response) op" where
  "sgx_preassign X D c req =
     (if trim (pq_engine_id req) = [] then failS (GwConfig ''preassign requires non-empty engine_id'')
      else bindS (liftS (map_err GwDecode (preassign_to_vec X req))) (\<lambda>body.
           sgx_exec_json (preassign_from_str X) D c ''POST'' ''/v1/ope/api/preassign''
             (sgx_auth_headers c @ [(''Content-Type'', ''application/json'')]) (Some body)))"

definition sgx_challenge_engine ::
    "'x gw_ext_scheme \<Rightarrow> sgx_dialer \<Rightarrow> sgx_client \<Rightarrow> string \<Rightarrow> string \<Rightarrow> string option
       \<Rightarrow> (sgx_out list, gateway_error, wire_response) op" where
  "sgx_challenge_engine X D c engine_id nonce_b64 epoch_id =
     (if trim engine_id = [] then failS (GwConfig ''challenge requires non-empty engine_id'')
      else let body = JObj ((case trimmed_nonempty epoch_id of
                               Some epoch \<Rightarrow> [(''epoch_id'', JStr epoch)] | None \<Rightarrow> []) @
                            [(''nonce_b64'', JStr nonce_b64)])
           in bindS (liftS (map_err GwDecode (json_to_vec X body))) (\<lambda>b.
              sgx_exec_json (challenge_from_str X) D c ''POST'' (challenge_path (trim engine_id))
                (sgx_auth_headers c @ [(''Content-Type'', ''application/json'')]) (Some b)))"

definition sgx_dispatch_reader ::
    "sgx_dialer \<Rightarrow> sgx_client \<Rightarrow> ope_dispatch_request
       \<Rightarrow> (sgx_out list, gateway_error, nat \<times> header_list \<times> reader) op" where
  "sgx_dispatch_reader D c req =
     (if trim (dr_engine_id req) = [] then failS (GwConfig ''dispatch requires non-empty engine_id'')
      else sgx_exec D c ''POST'' ''/v1/ope/dispatch'' (sgx_auth_headers c @ dispatch_headers req) (Some (dr_body req)))"

definition sgx_dispatch ::
    "sgx_dialer \<Rightarrow> sgx_client \<Rightarrow> ope_dispatch_request \<Rightarrow> (sgx_out list, gateway_error, dispatch_response) op" where
  "sgx_dispatch D c req =
     bindS (sgx_dispatch_reader D c req) (\<lambda>(status, headers, r).
     liftS (bindE (map_err (\<lambda>e. GwTransport (''read body: '' @ e)) (read_to_end r)) (\<lambda>body.
            Inr \<lparr>dp_status = status, dp_headers = headers, dp_body = body\<rparr>)))"

definition sgx_require_healthy ::
    "'x gw_ext_scheme \<Rightarrow> environ \<Rightarrow> sgx_dialer \<Rightarrow> edge_profile \<Rightarrow> (sgx_out list, gateway_error, unit) op" where
  "sgx_require_healthy X env D profile =
     bindS (liftS (sgx_gateway_from_env X env)) (\<lambda>cfg.
     case cfg of
       None \<Rightarrow>
         if is_prod profile
         then failS (GwConfig ''OPENAPI_GATEWAY_OPE_API_URL required in prod (hard OPE cutover)'')
         else returnS ()
     | Some cfg \<Rightarrow>
         bindS (liftS (sgx_client_try_new X cfg)) (\<lambda>c log.
         case sgx_health X D c log of
           (Inr _, log1) \<Rightarrow> (Inr (), log1)
         | (Inl e, log1) \<Rightarrow>
             (Inl (if is_prod profile
                   then GwTransport (''F'' @ [CHR 0xE2, CHR 0x80, CHR 0xB2] @ '' health failed at '' @
                          gc_base_url cfg @ '': '' @ gateway_error_to_string e)
                   else e), log1)))"

subsection \<open>The SGX client as a gateway client\<close>

definition sgx_ops :: "'x ope_ext_scheme \<Rightarrow> sgx_dialer \<Rightarrow> sgx_client \<Rightarrow> sgx_out list gw_ops" where
  "sgx_ops X D c =
     \<lparr>go_inventory = sgx_inventory X D c, go_preassign = sgx_preassign X D c,
      go_challenge = sgx_challenge_engine X D c, go_dispatch = sgx_dispatch D c,
      go_dispatch_reader = sgx_dispatch_reader D c\<rparr>"

definition sgx_try_new ::
    "'x ope_ext_scheme \<Rightarrow> sgx_dialer \<Rightarrow> gateway_config \<Rightarrow> gateway_error + sgx_out list ope_upstream" where
  "sgx_try_new X D cfg =
     bindE (sgx_client_try_new X cfg) (\<lambda>c.
     Inr \<lparr>ou_client = sgx_ops X D c, ou_policy = gc_recipient_policy cfg, ou_chain = None\<rparr>)"

definition sgx_ope_from_env ::
    "'x ope_ext_scheme \<Rightarrow> sgx_dialer \<Rightarrow> environ \<Rightarrow> gateway_error + sgx_out list ope_upstream option" where
  "sgx_ope_from_env X D env =
     bindE (sgx_gateway_from_env X env) (\<lambda>cfg.
     case cfg of None \<Rightarrow> Inr None | Some cfg \<Rightarrow> bindE (sgx_try_new X D cfg) (\<lambda>u. Inr (Some u)))"

definition sgx_dispatched :: "sgx_out list \<Rightarrow> bytes list" where
  "sgx_dispatched = List.map_filter (\<lambda>r. if so_path r = ''/v1/ope/dispatch'' then so_body r else None)"

lemma sgx_dispatched_snoc [simp]:
  "sgx_dispatched (log @ [r]) = sgx_dispatched log @
     (if so_path r = ''/v1/ope/dispatch'' then (case so_body r of None \<Rightarrow> [] | Some b \<Rightarrow> [b]) else [])"
  by (simp add: sgx_dispatched_def map_filter_snoc)

lemma snd_sgx_exec:
  "snd (sgx_exec D c method path headers body log) \<in>
     {log, log @ [\<lparr>so_path = path, so_head = request_head (sl_host c) method path headers body, so_body = body\<rparr>]}"
  by (auto simp: sgx_exec_def sgx_connect_def write_request_def bindS_def Let_def split: sum.splits)

lemma snd_sgx_exec_json: "snd (sgx_exec_json f D c method path headers body log) = snd (sgx_exec D c method path headers body log)"
  by (simp add: sgx_exec_json_def snd_bindS_liftS)

lemma sgx_quiet:
  assumes "path \<noteq> ''/v1/ope/dispatch''"
  shows "sgx_dispatched (snd (sgx_exec_json f D c method path headers body log)) = sgx_dispatched log"
  using snd_sgx_exec [of D c "method" path headers body log] assms
  by (auto simp: snd_sgx_exec_json)

lemma sgx_dispatch_logs: "sgx_dispatched (snd (sgx_dispatch_reader D c req log)) \<in>
    {sgx_dispatched log, sgx_dispatched log @ [dr_body req]}"
  using snd_sgx_exec [of D c "''POST''" "''/v1/ope/dispatch''" "sgx_auth_headers c @ dispatch_headers req"
      "Some (dr_body req)" log]
  by (auto simp: sgx_dispatch_reader_def)

interpretation sgx: gateway_plane "sgx_ops X D c" sgx_dispatched for X :: "'x ope_ext_scheme" and D c
proof
  show "sgx_dispatched (snd (go_inventory (sgx_ops X D c) k n)) = sgx_dispatched n" for k n
    by (simp add: sgx_ops_def sgx_inventory_def Let_def sgx_quiet)
  show "sgx_dispatched (snd (go_preassign (sgx_ops X D c) r n)) = sgx_dispatched n" for r n
    by (cases "preassign_to_vec X r") (auto simp: sgx_ops_def sgx_preassign_def bindS_def sgx_quiet)
  show "sgx_dispatched (snd (go_challenge (sgx_ops X D c) e x p n)) = sgx_dispatched n" for e x p n
    by (auto simp: sgx_ops_def sgx_challenge_engine_def Let_def bindS_def challenge_path_def sgx_quiet
        split: sum.splits)
  show "sgx_dispatched (snd (go_dispatch (sgx_ops X D c) req n)) \<in>
      {sgx_dispatched n, sgx_dispatched n @ [dr_body req]}" for req n
  proof -
    have "snd (sgx_dispatch D c req n) = snd (sgx_dispatch_reader D c req n)"
      by (auto simp: sgx_dispatch_def bindS_def split: sum.splits prod.splits)
    with sgx_dispatch_logs show ?thesis by (simp add: sgx_ops_def)
  qed
  show "sgx_dispatched (snd (go_dispatch_reader (sgx_ops X D c) req n)) \<in>
      {sgx_dispatched n, sgx_dispatched n @ [dr_body req]}" for req n
    using sgx_dispatch_logs by (simp add: sgx_ops_def)
qed

text \<open>The SGX edition sends out sealed requests only, too.\<close>

lemma sgx_requests_are_sealed:
  assumes "sgx_try_new X D cfg = Inr U" "(ope_step X U)\<^sup>*\<^sup>* (ope_start [] floor files, {}) (s, P)"
    and "b \<in> set (sgx_dispatched (os_net s))"
  shows "\<exists>pre enc ctx. sealed_for X U pre enc ctx \<and> envelope_bytes X enc = Inr b"
proof -
  from assms(1) obtain c where c: "ou_client U = sgx_ops X D c"
    by (auto simp: sgx_try_new_def result_simps)
  have "all_sealed X U sgx_dispatched (ope_start [] floor files, {})"
    by (simp add: all_sealed_def ope_start_def verified_ok_def sgx_dispatched_def List.map_filter_def)
  from sgx.run_all_sealed [OF assms(2) c this] assms(3) show ?thesis by (fastforce simp: all_sealed_def)
qed

subsection \<open>The body reader\<close>

lemma read_line_bytes_clean:
  assumes "clean r" "contents r = l @ CRLF @ rest" "10 \<notin> set l" "length pre + length l \<le> 8191"
  shows "\<exists>r'. read_line_bytes pre r = (Inr (pre @ l), r') \<and> clean r' \<and> contents r' = rest"
  using assms
proof (induction l arbitrary: pre r)
  case Nil
  then have "contents r = 13 # 10 # rest" by (simp add: CRLF_def)
  with Nil.prems(1) obtain r1 where r1: "read_some 1 r = (Inr [13], r1)" "clean r1" "contents r1 = 10 # rest"
    by (rule read_one_clean)
  from r1(2,3) obtain r2 where r2: "read_some 1 r1 = (Inr [10], r2)" "clean r2" "contents r2 = rest"
    by (rule read_one_clean)
  have "suffix CRLF ((pre @ [13]) @ [10])" by (simp add: CRLF_def suffix_def)
  with r2 have "read_line_bytes (pre @ [13]) r1 = (Inr pre, r2)"
    by (subst read_line_bytes.simps) (simp add: Let_def)
  with r1 Nil.prems(4) not_suffix_CRLF [of 13 pre] r2 show ?case
    by (subst read_line_bytes.simps) (simp add: Let_def)
next
  case (Cons c l)
  then have "contents r = c # l @ CRLF @ rest" by simp
  with Cons.prems(1) obtain r1 where r1: "read_some 1 r = (Inr [c], r1)" "clean r1"
    "contents r1 = l @ CRLF @ rest"
    by (rule read_one_clean)
  from Cons.prems(3) have "\<not> suffix CRLF (pre @ [c])" by (intro not_suffix_CRLF) auto
  with r1 Cons.prems Cons.IH [OF r1(2,3), of "pre @ [c]"] show ?case
    by (subst read_line_bytes.simps) (simp add: Let_def)
qed

text \<open>The rest of a chunk, read with any buffer.\<close>

lemma framed_chunk:
  assumes "clean r" "0 < cap" "data \<noteq> []" "contents r = data @ CRLF @ rest"
    and "\<And>r'. clean r' \<Longrightarrow> contents r' = rest \<Longrightarrow> read_to_end (framed_pieces cap (FChunked 0 False) r') = Inr out"
  shows "(case framed_chunk_data cap (length data) r of
      (Inl e, _) \<Rightarrow> False
    | (Inr b, st1, r1) \<Rightarrow> b \<noteq> [] \<and> (\<exists>bs. read_to_end (framed_pieces cap st1 r1) = Inr bs \<and> b @ bs = data @ out))"
  using assms(1,3,4)
proof (induction "length data" arbitrary: data r rule: less_induct)
  case less
  have "0 < min cap (length data)" using assms(2) less.prems(2) by simp
  with less.prems(1) obtain b r1 where b: "read_some (min cap (length data)) r = (Inr b, r1)" "clean r1"
    "contents r = b @ contents r1" "length b \<le> min cap (length data)" "b = [] \<longleftrightarrow> r = []"
    by (rule read_some_clean)
  from b(5) less.prems(2,3) have ne: "b \<noteq> []" by auto
  from b(3) less.prems(3) have eq: "data @ CRLF @ rest = b @ contents r1" by simp
  from arg_cong [OF eq, of "take (length b)"] b(4) have "take (length b) data = b" by simp
  then have split: "data = b @ drop (length b) data" by (metis append_take_drop_id)
  from arg_cong [OF eq, of "drop (length b)"] b(4) have tail: "contents r1 = drop (length b) data @ CRLF @ rest" by simp
  show ?case
  proof (cases "length data = length b")
    case True
    with tail have "contents r1 = [] @ CRLF @ rest" by simp
    from read_line_bytes_clean [OF b(2) this, of "[]"] obtain r2 where
      r2: "consume_line r1 = (Inr (), r2)" "clean r2" "contents r2 = rest"
      by (auto simp: consume_line_def)
    with True assms(5) [OF r2(2,3)] b(1) ne split show ?thesis
      by (simp add: framed_chunk_data_def Let_def)
  next
    case False
    let ?d = "drop (length b) data"
    from False b(4) ne have "0 < length b" "length b < length data" by auto
    then have d: "length ?d < length data" "?d \<noteq> []" unfolding length_drop by (linarith, auto)
    from less.hyps [OF d(1) b(2) d(2) tail] obtain b2 st2 r2 bs where
      c: "framed_chunk_data cap (length ?d) r1 = (Inr b2, st2, r2)" "b2 \<noteq> []"
      "read_to_end (framed_pieces cap st2 r2) = Inr bs" "b2 @ bs = ?d @ out"
      by (auto split: prod.splits sum.splits)
    from c d assms(2) have "read_to_end (framed_pieces cap (FChunked (length ?d) False) r1) = Inr (?d @ out)"
      by (subst framed_pieces.simps) (simp add: framed_read_def)
    with False b(1,4) ne split show ?thesis
      by (simp add: framed_chunk_data_def Let_def)
  qed
qed

lemma framed_chunk_frame:
  assumes "clean r" "0 < cap" "c \<noteq> []" "length c \<le> u64_max" "contents r = chunk_frame c @ rest"
    and "\<And>r'. clean r' \<Longrightarrow> contents r' = rest \<Longrightarrow> read_to_end (framed_pieces cap (FChunked 0 False) r') = Inr out"
  shows "read_to_end (framed_pieces cap (FChunked 0 False) r) = Inr (c @ out)"
proof -
  note hex = show_hex_line [OF assms(4)]
  from assms(5) have "contents r = as_bytes (show_hex (length c)) @ CRLF @ (c @ CRLF @ rest)"
    by (simp add: chunk_frame_def)
  from read_line_bytes_clean [OF assms(1) this hex(1), of "[]"] hex(2) obtain r1 where
    r1: "read_line_bytes [] r = (Inr (as_bytes (show_hex (length c))), r1)" "clean r1" "contents r1 = c @ CRLF @ rest"
    by auto
  have "from_utf8_lossy (as_bytes (show_hex (length c))) = show_hex (length c)"
    using hex(3) by (intro from_utf8_lossy_valid) (simp add: from_utf8_def)
  with r1(1) hex(5,6) have size: "read_chunk_size r = (Inr (length c), r1)"
    by (simp add: read_chunk_size_def)
  from framed_chunk [OF r1(2) assms(2,3) r1(3) assms(6)] obtain b st1 r2 bs where
    "framed_chunk_data cap (length c) r1 = (Inr b, st1, r2)" "b \<noteq> []"
    "read_to_end (framed_pieces cap st1 r2) = Inr bs" "b @ bs = c @ out"
    by (auto split: prod.splits sum.splits)
  with size assms(2,3) show ?thesis
    by (subst framed_pieces.simps) (simp add: framed_read_def)
qed

lemma framed_last_chunk:
  assumes "clean r" "0 < cap" "contents r = last_chunk @ rest"
  shows "read_to_end (framed_pieces cap (FChunked 0 False) r) = Inr []"
proof -
  have hex0: "show_hex 0 = ''0''" by code_simp
  note hex = show_hex_line [of 0, unfolded hex0]
  from assms(3) have "contents r = as_bytes ''0'' @ CRLF @ (CRLF @ rest)"
    unfolding last_chunk_def append_assoc .
  from read_line_bytes_clean [OF assms(1) this hex(1), of "[]"] hex(2) obtain r1 where
    r1: "read_line_bytes [] r = (Inr (as_bytes ''0''), r1)" "clean r1" "contents r1 = [] @ CRLF @ rest"
    by auto
  have "from_utf8_lossy (as_bytes ''0'') = ''0''"
    using hex(3) by (intro from_utf8_lossy_valid) (simp add: from_utf8_def del: as_bytes_simps)
  with r1(1) hex(5,6) have size: "read_chunk_size r = (Inr 0, r1)"
    by (simp add: read_chunk_size_def del: as_bytes_simps)
  from read_line_bytes_clean [OF r1(2,3), of "[]"] obtain r2 where "consume_line r1 = (Inr (), r2)"
    by (auto simp: consume_line_def)
  with size assms(2) show ?thesis by (subst framed_pieces.simps) (simp add: framed_read_def)
qed

lemma framed_chunks:
  assumes "clean r" "0 < cap" "\<forall>c\<in>set cs. c \<noteq> [] \<and> length c \<le> u64_max"
    and "contents r = concat (map chunk_frame cs) @ last_chunk @ rest"
  shows "read_to_end (framed_pieces cap (FChunked 0 False) r) = Inr (concat cs)"
  using assms(1,3,4)
proof (induction cs arbitrary: r)
  case Nil
  then show ?case using framed_last_chunk [of r cap rest] assms(2) by simp
next
  case (Cons c cs)
  then have "contents r = chunk_frame c @ (concat (map chunk_frame cs) @ last_chunk @ rest)" by simp
  from framed_chunk_frame [OF Cons.prems(1) assms(2) _ _ this, of "concat cs"] Cons.IH Cons.prems(2)
  show ?case by simp
qed

lemma framed_fixed:
  assumes "clean r" "0 < cap"
  shows "read_to_end (framed_pieces cap (FContentLength n) r) = Inr (take n (contents r))"
  using assms(1)
proof (induction n arbitrary: r rule: less_induct)
  case (less n)
  show ?case
  proof (cases "n = 0")
    case True
    with assms(2) show ?thesis by (subst framed_pieces.simps) (simp add: framed_read_def)
  next
    case False
    with assms(2) have "0 < min cap n" by simp
    with less.prems obtain b r1 where b: "read_some (min cap n) r = (Inr b, r1)" "clean r1"
      "contents r = b @ contents r1" "length b \<le> min cap n" "b = [] \<longleftrightarrow> r = []"
      by (rule read_some_clean)
    show ?thesis
    proof (cases "b = []")
      case True
      with False b assms(2) show ?thesis by (subst framed_pieces.simps) (simp add: framed_read_def)
    next
      case ne: False
      with False have "n - length b < n" by simp
      from less.IH [OF this b(2)] False ne b assms(2) show ?thesis
        by (subst framed_pieces.simps) (simp add: framed_read_def)
    qed
  qed
qed

lemma framed_until_close:
  assumes "clean r" "0 < cap"
  shows "read_to_end (framed_pieces cap FUntilClose r) = Inr (contents r)"
  using assms(1)
proof (induction "reader_size r" arbitrary: r rule: less_induct)
  case less
  from less.prems assms(2) obtain b r1 where b: "read_some cap r = (Inr b, r1)" "clean r1"
    "contents r = b @ contents r1" "b = [] \<longleftrightarrow> r = []"
    by (rule read_some_clean) blast
  show ?case
  proof (cases "b = []")
    case True
    with b assms(2) show ?thesis by (subst framed_pieces.simps) (simp add: framed_read_def)
  next
    case False
    with read_some_size [OF b(1)] have "reader_size r1 < reader_size r" by simp
    from less.hyps [OF this b(2)] False b assms(2) show ?thesis
      by (subst framed_pieces.simps) (simp add: framed_read_def)
  qed
qed

text \<open>The ways a peer may frame a body.\<close>

definition framed_as :: "body_framing \<Rightarrow> bytes \<Rightarrow> bytes \<Rightarrow> bool" where
  "framed_as f body wire \<longleftrightarrow>
     (case f of
        ContentLength n \<Rightarrow> n = length body \<and> prefix body wire
      | UntilClose \<Rightarrow> wire = body
      | Chunked \<Rightarrow> (\<exists>cs rest. body = concat cs \<and> (\<forall>c\<in>set cs. c \<noteq> [] \<and> length c \<le> u64_max) \<and>
                     wire = concat (map chunk_frame cs) @ last_chunk @ rest))"

lemma copy_framed:
  assumes "clean r" "0 < buf_len" "framed_as f body (contents r)"
  shows "\<exists>r1. copy_body buf_len vec_write f r w = (Inr (length body), r1, w @ body)"
proof (cases f)
  case (ContentLength n)
  with assms(3) have "n = length body" "n \<le> length (contents r)" "take n (contents r) = body"
    by (auto simp: framed_as_def prefix_def)
  with copy_exact_enough [OF assms(1,2), of n _ 0 w] ContentLength show ?thesis
    by (auto simp: copy_body_def copy_fixed_def)
next
  case Chunked
  with assms(3) obtain cs rest where "body = concat cs" "\<forall>c\<in>set cs. c \<noteq> [] \<and> length c \<le> u64_max"
    "contents r = concat (map chunk_frame cs) @ last_chunk @ rest"
    by (auto simp: framed_as_def)
  with copy_chunked_frames [OF assms(1,2), of cs rest 0 w] Chunked show ?thesis by (auto simp: copy_body_def)
next
  case UntilClose
  with assms(3) copy_until_eof_all [OF assms(1,2), of 0 w] show ?thesis
    by (simp add: framed_as_def copy_body_def)
qed

lemma read_framed:
  assumes "clean r" "0 < cap" "framed_as f body (contents r)"
  shows "read_to_end (framed_pieces cap (framed_new f) r) = Inr body"
proof (cases f)
  case (ContentLength n)
  with assms(3) have "take n (contents r) = body" by (auto simp: framed_as_def prefix_def)
  with framed_fixed [OF assms(1,2), of n] ContentLength show ?thesis by (simp add: framed_new_def)
next
  case Chunked
  with assms(3) obtain cs rest where "body = concat cs" "\<forall>c\<in>set cs. c \<noteq> [] \<and> length c \<le> u64_max"
    "contents r = concat (map chunk_frame cs) @ last_chunk @ rest"
    by (auto simp: framed_as_def)
  with framed_chunks [OF assms(1,2), of cs rest] Chunked show ?thesis by (simp add: framed_new_def)
next
  case UntilClose
  with assms(3) framed_until_close [OF assms(1,2)] show ?thesis by (simp add: framed_as_def framed_new_def)
qed

text \<open>C26. The incremental reader of the enclave and the copier of the core agree: on a connection that cuts
  the stream anywhere, whatever the sizes of the callers' buffers, both deliver the body the peer framed,
  by length, by chunks or by closing, and nothing more.\<close>

theorem sgx_reader_agrees_with_core:
  assumes "clean r" "0 < cap" "0 < buf_len" "framed_as f body (contents r)"
  shows "read_to_end (framed_pieces cap (framed_new f) r) = Inr body \<and>
    (\<exists>r1. copy_body buf_len vec_write f r [] = (Inr (length body), r1, body))"
  using read_framed [OF assms(1,2,4)] copy_framed [OF assms(1,3,4), of "[]"] by simp

theorem sgx_reader_agrees_with_core_witness:
  "read_to_end (framed_pieces 2 (framed_new (ContentLength 3)) [Inr [1], Inr [2, 3, 4]]) = Inr [1, 2, 3]"
  using sgx_reader_agrees_with_core [of "[Inr [1], Inr [2, 3, 4]]" 2 1 "ContentLength 3" "[1, 2, 3]"]
  by (simp add: framed_as_def)

text \<open>A body cut short is where they differ: the core reports it, the enclave delivers what it has.\<close>

lemma short_body_is_silent:
  assumes "clean r" "0 < cap" "0 < buf_len" "length (contents r) < n"
  shows "read_to_end (framed_pieces cap (framed_new (ContentLength n)) r) = Inr (contents r)"
    and "\<exists>e. fst (copy_body buf_len vec_write (ContentLength n) r []) = Inl e"
  using framed_fixed [OF assms(1,2), of n] copy_exact_short [OF assms(1,3,4), of _ 0 "[]"] assms(4)
  by (simp_all add: framed_new_def copy_body_def copy_fixed_def)

end
