(* ===== verification/Edge_Upstream.thy ===== *)
theory Edge_Upstream
  imports Ope_Dispatch
begin

text \<open>
  \<open>crates/openapi-platform-cvm/src/edge_upstream.rs\<close> and \<open>upstream.rs\<close>: which upstream an edge uses, OPE
  or clear HTTP, and the clear HTTP client. The state of both is the one of the OPE upstream, whose log
  records what either client hands to the HTTP agent.
\<close>

subsection \<open>The clear HTTP client\<close>

record ureq_upstream =
  uu_base_url :: string

definition ureq_upstream_new :: "string \<Rightarrow> ureq_upstream" where
  "ureq_upstream_new base_url = \<lparr>uu_base_url = trim_end_char (CHR ''/'') base_url\<rparr>"

definition ureq_url :: "ureq_upstream \<Rightarrow> string \<Rightarrow> string" where
  "ureq_url u path = uu_base_url u @ path"

text \<open>The request of both methods; the agent reports a status from 400 on as an error.\<close>

definition clear_request :: "ureq_upstream \<Rightarrow> http_method \<Rightarrow> string \<Rightarrow> bytes option \<Rightarrow> http_out option" where
  "clear_request u method path body =
     (case method of
        Get \<Rightarrow> Some \<lparr>ho_method = ''GET'', ho_url = ureq_url u path, ho_headers = [], ho_body = None\<rparr>
      | Post \<Rightarrow> Some \<lparr>ho_method = ''POST'', ho_url = ureq_url u path,
                     ho_headers = [(''Content-Type'', ''application/json'')],
                     ho_body = Some (case body of Some b \<Rightarrow> b | None \<Rightarrow> [])\<rparr>
      | Other \<Rightarrow> None)"

definition clear_call ::
    "http_agent \<Rightarrow> ureq_upstream \<Rightarrow> http_method \<Rightarrow> string \<Rightarrow> bytes option
       \<Rightarrow> (http_out list, api_error, http_answer) op" where
  "clear_call A u method path body log =
     (case clear_request u method path body of
        None \<Rightarrow> (Inl MethodNotAllowed, log)
      | Some req \<Rightarrow> (map_err Upstream (A log req), log @ [req]))"

definition clear_forward_v1 ::
    "'x ext_scheme \<Rightarrow> http_agent \<Rightarrow> ureq_upstream \<Rightarrow> http_method \<Rightarrow> string \<Rightarrow> bytes option
       \<Rightarrow> (http_out list, api_error, upstream_response) op" where
  "clear_forward_v1 X A u method path body =
     (let wants_stream = (method = Post \<and> (case body of Some b \<Rightarrow> body_wants_stream X b | None \<Rightarrow> False))
      in bindS (clear_call A u method path body) (\<lambda>a.
         liftS (bindE (map_err Upstream (ha_text a)) (\<lambda>t.
                decode_upstream_response X (ha_status a)
                  (case find_header (ha_headers a) ''Content-Type'' of Some v \<Rightarrow> v | None \<Rightarrow> [])
                  (as_bytes t) wants_stream))))"

definition clear_forward_v1_stream ::
    "http_agent \<Rightarrow> ureq_upstream \<Rightarrow> 'w writer \<Rightarrow> http_method \<Rightarrow> string \<Rightarrow> bytes option
       \<Rightarrow> (http_out list \<times> 'w, api_error, stream_result) op" where
  "clear_forward_v1_stream A u wr method path body =
     bindS (on_upstream (clear_call A u method path body)) (\<lambda>a (log, w).
       if \<not> (200 \<le> ha_status a \<and> ha_status a < 300) then
         (bindE (map_err Upstream (ha_text a)) (\<lambda>err.
            Inl (Upstream (''upstream status '' @ show_nat (ha_status a) @ '': '' @ err))), (log, w))
       else (case copy_until_eof 8192 wr 0 (ha_reader a) w of
               (res, _, w1) \<Rightarrow>
                 (bindE res (\<lambda>n. Inr \<lparr>sr_status = ha_status a,
                     sr_content_type = (case find_header (ha_headers a) ''Content-Type'' of
                                          Some v \<Rightarrow> v | None \<Rightarrow> ''text/event-stream''),
                     sr_bytes_written = n\<rparr>), (log, w1))))"

text \<open>The methods it inherits.\<close>

definition clear_list_models ::
    "'y body_ext_scheme \<Rightarrow> http_agent \<Rightarrow> ureq_upstream \<Rightarrow> (http_out list, api_error, models_list_response) op" where
  "clear_list_models B A u =
     bindS (clear_forward_v1 B A u Get ''/v1/models'' None) (\<lambda>resp.
     liftS (case resp of UpJson v \<Rightarrow> parse_models_json B v | UpRaw b _ \<Rightarrow> parse_models_bytes B b))"

definition clear_list_models_for_key ::
    "'y body_ext_scheme \<Rightarrow> http_agent \<Rightarrow> ureq_upstream \<Rightarrow> key_policy
       \<Rightarrow> (http_out list, api_error, models_list_response) op" where
  "clear_list_models_for_key B A u policy =
     bindS (clear_list_models B A u) (\<lambda>models.
     returnS (models\<lparr>ml_data := filter (\<lambda>m. allows_model policy (mo_id m)) (ml_data models)\<rparr>))"

subsection \<open>Selection\<close>

datatype edge_upstream =
    EdgeOpe "http_out list ope_upstream"
  | EdgeClear ureq_upstream

definition clear_http_break_glass_enabled :: "environ \<Rightarrow> bool" where
  "clear_http_break_glass_enabled env =
     (case env ''OPENAPI_UPSTREAM_CLEAR_HTTP'' of
        Some v \<Rightarrow> to_ascii_lowercase (trim v) \<in> {''1'', ''true'', ''yes''} | None \<Rightarrow> False)"

definition edge_upstream_from_env ::
    "'x ope_ext_scheme \<Rightarrow> http_agent \<Rightarrow> environ \<Rightarrow> edge_profile \<Rightarrow> string \<Rightarrow> (http_out list, string, edge_upstream) op"
where
  "edge_upstream_from_env X A env profile clear_base_url =
     (let clear = EdgeClear (ureq_upstream_new clear_base_url);
          break_glass = clear_http_break_glass_enabled env
      in if break_glass \<and> is_prod profile
         then failS ''OPENAPI_UPSTREAM_CLEAR_HTTP forbidden when OPENAPI_PROFILE=prod''
         else if break_glass then returnS clear
         else (case ope_from_env X A env of
                 Inr (Some ope) \<Rightarrow>
                   (\<lambda>log. case require_gateway_ope_api_healthy X env A profile log of
                            (Inr _, log1) \<Rightarrow> (Inr (EdgeOpe ope), log1)
                          | (Inl e, log1) \<Rightarrow>
                              (if is_prod profile then Inl (gateway_error_to_string e) else Inr clear, log1))
               | Inr None \<Rightarrow>
                   if is_prod profile
                   then failS ''OPENAPI_GATEWAY_OPE_API_URL required in prod (hard OPE cutover); set URL or OPENAPI_UPSTREAM_CLEAR_HTTP=1 only in non-prod''
                   else returnS clear
               | Inl e \<Rightarrow> if is_prod profile then failS (gateway_error_to_string e) else returnS clear))"

subsection \<open>Forwarding\<close>

definition on_log :: "('n, 'e, 'a) op \<Rightarrow> ('n ope_state, 'e, 'a) op" where
  "on_log = on_part os_net (\<lambda>n. os_net_update (\<lambda>_. n))"

definition on_log_out :: "('n \<times> 'w, 'e, 'a) op \<Rightarrow> ('n ope_state \<times> 'w, 'e, 'a) op" where
  "on_log_out = on_part (\<lambda>(s, w). (os_net s, w)) (\<lambda>(n, w) (s, _). (s\<lparr>os_net := n\<rparr>, w))"

definition edge_forward_v1 ::
    "'x ope_ext_scheme \<Rightarrow> http_agent \<Rightarrow> edge_upstream \<Rightarrow> ope_host \<Rightarrow> http_method \<Rightarrow> string \<Rightarrow> bytes option
       \<Rightarrow> (http_out list ope_state, api_error, upstream_response) op" where
  "edge_forward_v1 X A u H method path body =
     (case u of
        EdgeOpe ope \<Rightarrow> ope_forward_v1 X ope H method path body
      | EdgeClear c \<Rightarrow> on_log (clear_forward_v1 X A c method path body))"

definition edge_forward_v1_ctx ::
    "'x ope_ext_scheme \<Rightarrow> http_agent \<Rightarrow> edge_upstream \<Rightarrow> ope_host \<Rightarrow> http_method \<Rightarrow> string \<Rightarrow> bytes option
       \<Rightarrow> upstream_ctx \<Rightarrow> (http_out list ope_state, api_error, upstream_response) op" where
  "edge_forward_v1_ctx X A u H method path body ctx =
     (case u of
        EdgeOpe ope \<Rightarrow> forward_v1_ctx X ope H method path body ctx
      | EdgeClear c \<Rightarrow> on_log (clear_forward_v1 X A c method path body))"

definition edge_forward_v1_stream ::
    "'x ope_ext_scheme \<Rightarrow> http_agent \<Rightarrow> edge_upstream \<Rightarrow> ope_host \<Rightarrow> 'w writer \<Rightarrow> http_method \<Rightarrow> string
       \<Rightarrow> bytes option \<Rightarrow> (http_out list ope_state \<times> 'w, api_error, stream_result) op" where
  "edge_forward_v1_stream X A u H wr method path body =
     (case u of
        EdgeOpe ope \<Rightarrow> ope_forward_v1_stream X ope H wr method path body
      | EdgeClear c \<Rightarrow> on_log_out (clear_forward_v1_stream A c wr method path body))"

definition edge_forward_v1_stream_ctx ::
    "'x ope_ext_scheme \<Rightarrow> http_agent \<Rightarrow> edge_upstream \<Rightarrow> ope_host \<Rightarrow> 'w writer \<Rightarrow> http_method \<Rightarrow> string
       \<Rightarrow> bytes option \<Rightarrow> upstream_ctx \<Rightarrow> (http_out list ope_state \<times> 'w, api_error, stream_result) op" where
  "edge_forward_v1_stream_ctx X A u H wr method path body ctx =
     (case u of
        EdgeOpe ope \<Rightarrow> forward_v1_stream_ctx X ope H wr method path body ctx
      | EdgeClear c \<Rightarrow> on_log_out (clear_forward_v1_stream A c wr method path body))"

definition edge_list_models ::
    "'y body_ext_scheme \<Rightarrow> http_agent \<Rightarrow> edge_upstream \<Rightarrow> (http_out list ope_state, api_error, models_list_response) op"
where
  "edge_list_models B A u =
     (case u of EdgeOpe ope \<Rightarrow> ope_list_models ope | EdgeClear c \<Rightarrow> on_log (clear_list_models B A c))"

definition edge_list_models_for_key ::
    "'y body_ext_scheme \<Rightarrow> http_agent \<Rightarrow> edge_upstream \<Rightarrow> upstream_ctx \<Rightarrow> key_policy
       \<Rightarrow> (http_out list ope_state, api_error, models_list_response) op" where
  "edge_list_models_for_key B A u ctx policy =
     (case u of
        EdgeOpe ope \<Rightarrow> list_models_for_key ope ctx policy
      | EdgeClear c \<Rightarrow> on_log (clear_list_models_for_key B A c policy))"

subsection \<open>Production\<close>

lemma validate_ok_prod:
  assumes "validate_for_profile cfg Prod = Inr ()"
  shows "\<not> gc_insecure_skip_verify cfg" "starts_with (gc_base_url cfg) ''https://''"
    "gc_engine_identity_pins cfg \<noteq> [] \<or> rp_require_epoch_evidence (gc_recipient_policy cfg) \<or>
     rp_stage5_identity_deleted (gc_recipient_policy cfg)"
    "rp_require_launch_digest (gc_recipient_policy cfg) \<longrightarrow> rp_launch_digest_allowlist (gc_recipient_policy cfg) \<noteq> {}"
  using assms by (auto simp: validate_for_profile_def is_prod_def split: if_splits)

lemma gateway_from_env_validated:
  assumes "gateway_from_env X env = Inr (Some cfg)" "load_edge_profile env = Inr profile"
  shows "validate_for_profile cfg profile = Inr ()"
  using assms by (auto simp: gateway_from_env_def result_simps Let_def split: option.splits)

lemma client_tls_verified:
  assumes "gateway_client_try_new X cfg = Inr c" "starts_with (gc_base_url cfg) ''https://''"
    "\<not> gc_insecure_skip_verify cfg"
  obtains tls where "gl_tls c = Some tls" "ct_server tls \<noteq> SkipServerVerify" "gl_base_url c = gc_base_url cfg"
proof -
  from assms(1,2) obtain tls where t: "build_client_tls_config X cfg = Inr tls"
    "c = \<lparr>gl_base_url = gc_base_url cfg, gl_token = gc_token cfg, gl_tls = Some tls\<rparr>"
    by (auto simp: gateway_client_try_new_def result_simps)
  from t(1) obtain trust where "server_trust_of X cfg = Inr trust" "ct_server tls = trust"
    by (cases "gc_client_cert_pem cfg"; cases "gc_client_key_pem cfg") (auto simp: build_client_tls_config_def result_simps)
  with assms(3) have "ct_server tls \<noteq> SkipServerVerify"
    by (auto simp: server_trust_of_def result_simps split: option.splits if_splits)
  with t(2) that show thesis by simp
qed

lemma prod_upstream_ok:
  assumes "edge_upstream_from_env X A env Prod base log = (Inr u, log')" "load_edge_profile env = Inr Prod"
  obtains cfg c ope tls where "u = EdgeOpe ope" "gateway_from_env X env = Inr (Some cfg)" "gateway_client_try_new X cfg = Inr c"
    "require_gateway_ope_api_healthy X env A Prod log = (Inr (), log')"
    "ou_client ope = cvm_ops X A c" "ou_policy ope = gc_recipient_policy cfg" "gl_base_url c = gc_base_url cfg"
    "gl_tls c = Some tls" "ct_server tls \<noteq> SkipServerVerify" "validate_for_profile cfg Prod = Inr ()"
proof -
  from assms(1) obtain ope where o: "u = EdgeOpe ope" "ope_from_env X A env = Inr (Some ope)"
    "require_gateway_ope_api_healthy X env A Prod log = (Inr (), log')"
    by (auto simp: edge_upstream_from_env_def Let_def is_prod_def split: if_splits sum.splits option.splits prod.splits)
  from o(2) obtain cfg where cfg: "gateway_from_env X env = Inr (Some cfg)" "ope_try_new X A cfg = Inr ope"
    by (auto simp: ope_from_env_def result_simps split: option.splits)
  from cfg(2) obtain c where c: "gateway_client_try_new X cfg = Inr c"
    "ope = \<lparr>ou_client = cvm_ops X A c, ou_policy = gc_recipient_policy cfg,
            ou_chain = Some (gc_verify_engine_snp_chain cfg)\<rparr>"
    by (auto simp: ope_try_new_def result_simps)
  note v = gateway_from_env_validated [OF cfg(1) assms(2)]
  from c(1) validate_ok_prod(2,1) [OF v] obtain tls where "gl_tls c = Some tls" "ct_server tls \<noteq> SkipServerVerify"
    "gl_base_url c = gc_base_url cfg"
    by (rule client_tls_verified)
  moreover from c(2) have "ou_client ope = cvm_ops X A c" "ou_policy ope = gc_recipient_policy cfg" by simp_all
  ultimately show thesis using that o(1,3) cfg(1) c(1) v by blast
qed

text \<open>C6. In production nothing but the OPE upstream, over verified TLS: when an edge in the production
  profile comes up at all, it uses the OPE upstream of its environment, whose client speaks TLS to the
  gateway and verifies its certificate, whose recipients need a pin or epoch evidence and, if a launch
  digest is required, an allowlisted one; and the health of that gateway was asked exactly once. Clear HTTP is
  out of reach whatever else the environment says.\<close>

theorem prod_edge_uses_verified_ope:
  assumes "edge_upstream_from_env X A env Prod base log = (Inr u, log')" "load_edge_profile env = Inr Prod"
  shows "\<exists>cfg c ope tls. u = EdgeOpe ope \<and> gateway_from_env X env = Inr (Some cfg) \<and>
    ou_client ope = cvm_ops X A c \<and> ou_policy ope = gc_recipient_policy cfg \<and>
    gl_base_url c = gc_base_url cfg \<and> starts_with (gl_base_url c) ''https://'' \<and>
    gl_tls c = Some tls \<and> ct_server tls \<noteq> SkipServerVerify \<and>
    (gc_engine_identity_pins cfg \<noteq> [] \<or> rp_require_epoch_evidence (ou_policy ope) \<or>
     rp_stage5_identity_deleted (ou_policy ope)) \<and>
    (rp_require_launch_digest (ou_policy ope) \<longrightarrow> rp_launch_digest_allowlist (ou_policy ope) \<noteq> {}) \<and>
    (\<exists>h. fst (gateway_health X A c log) = Inr h \<and> log' = snd (gateway_health X A c log))"
proof -
  from assms obtain cfg c ope tls where o: "u = EdgeOpe ope" "gateway_from_env X env = Inr (Some cfg)"
    "gateway_client_try_new X cfg = Inr c" "require_gateway_ope_api_healthy X env A Prod log = (Inr (), log')"
    "ou_client ope = cvm_ops X A c" "ou_policy ope = gc_recipient_policy cfg" "gl_base_url c = gc_base_url cfg"
    "gl_tls c = Some tls" "ct_server tls \<noteq> SkipServerVerify" "validate_for_profile cfg Prod = Inr ()"
    by (rule prod_upstream_ok)
  have "\<exists>h. fst (gateway_health X A c log) = Inr h \<and> log' = snd (gateway_health X A c log)"
    using o(2-4)
    by (auto simp: require_gateway_ope_api_healthy_def bindS_def split: sum.splits prod.splits)
  with o(1,2,5-9) validate_ok_prod [OF o(10)] show ?thesis by auto
qed

subsection \<open>A production environment\<close>

definition prod_env :: environ where
  "prod_env =
     [''OPENAPI_PROFILE'' \<mapsto> ''prod'', ''OPENAPI_GATEWAY_OPE_API_URL'' \<mapsto> ''https://g'',
      ''OPENAPI_OPE_REQUIRE_EPOCH_EVIDENCE'' \<mapsto> ''1'']"

text \<open>What the construction of the upstream needs of it.\<close>

definition names_gateway :: "environ \<Rightarrow> bool" where
  "names_gateway env \<longleftrightarrow>
     opt_env env ''OPENAPI_GATEWAY_OPE_API_URL'' = Some ''https://g'' \<and>
     truthy_env env ''OPENAPI_OPE_REQUIRE_EPOCH_EVIDENCE'' \<and>
     \<not> truthy_env env ''OPENAPI_OPE_REQUIRE_ENGINE_LAUNCH_DIGEST'' \<and>
     \<not> truthy_env env ''OPENAPI_GATEWAY_OPE_API_TLS_INSECURE_SKIP_VERIFY'' \<and>
     opt_env env ''OPENAPI_ENGINE_IDENTITY_PINS_JSON'' = None \<and>
     opt_env env ''OPENAPI_GATEWAY_OPE_API_TLS_CA_PEM'' = None \<and>
     opt_env env ''OPENAPI_GATEWAY_OPE_API_TLS_CLIENT_CERT_PEM'' = None \<and>
     load_edge_profile env = Inr Prod \<and> \<not> clear_http_break_glass_enabled env"

lemma prod_env_names_gateway: "names_gateway prod_env"
  unfolding names_gateway_def by (intro conjI; code_simp)

lemma prod_config:
  assumes "names_gateway env"
  obtains cfg where "gateway_from_env ope_crates env = Inr (Some cfg)" "gc_base_url cfg = ''https://g''"
    "gc_insecure_skip_verify cfg = False" "gc_ca_pem cfg = None" "gc_client_cert_pem cfg = None"
proof -
  note e = assms [unfolded names_gateway_def]
  have "starts_with ''https://g'' ''https://''" by code_simp
  then have "\<exists>cfg. gateway_from_env ope_crates env = Inr (Some cfg) \<and> gc_base_url cfg = ''https://g'' \<and>
      gc_insecure_skip_verify cfg = False \<and> gc_ca_pem cfg = None \<and> gc_client_cert_pem cfg = None"
    by (simp add: gateway_from_env_def e load_identity_pins_def gateway_from_parts_def ope_crates_simps
        validate_for_profile_def policy_from_env_def Let_def)
  with that show thesis by blast
qed

lemma prod_edge_starts:
  assumes "names_gateway env"
  shows "\<exists>u log'. edge_upstream_from_env ope_crates sample_agent env Prod base [] = (Inr u, log')"
proof -
  obtain cfg where cfg: "gateway_from_env ope_crates env = Inr (Some cfg)" "gc_base_url cfg = ''https://g''"
    "gc_insecure_skip_verify cfg = False" "gc_ca_pem cfg = None" "gc_client_cert_pem cfg = None"
    using assms by (rule prod_config)
  have b: "starts_with ''https://g'' ''https://''" "\<not> clear_http_break_glass_enabled env"
    using assms by (code_simp, simp add: names_gateway_def)
  have "build_client_tls_config ope_crates cfg = Inr \<lparr>ct_server = WebpkiRoots, ct_client = None\<rparr>"
    by (simp add: build_client_tls_config_def server_trust_of_def cfg)
  then obtain c where c: "gateway_client_try_new ope_crates cfg = Inr c"
    using b by (simp add: gateway_client_try_new_def cfg)
  have "\<exists>log'. gateway_health ope_crates sample_agent c [] = (Inr sample_health, log')"
    by (simp add: gateway_health_def gateway_get_def agent_call_def sample_agent_def bindS_def read_json_answer_def
        ope_crates_simps)
  with cfg(1) c b show ?thesis
    by (auto simp: edge_upstream_from_env_def ope_from_env_def ope_try_new_def require_gateway_ope_api_healthy_def
        bindS_def)
qed

theorem prod_edge_uses_verified_ope_witness:
  "\<exists>ope. starts_with ''https://g'' ''https://'' \<and> fst (edge_upstream_from_env ope_crates sample_agent prod_env Prod [] []) = Inr (EdgeOpe ope)"
proof -
  obtain u log' where u: "edge_upstream_from_env ope_crates sample_agent prod_env Prod [] [] = (Inr u, log')"
    using prod_edge_starts [OF prod_env_names_gateway] by blast
  have "load_edge_profile prod_env = Inr Prod" "starts_with ''https://g'' ''https://''" by code_simp+
  with prod_edge_uses_verified_ope [OF u] u show ?thesis by auto
qed

end
