(* ===== verification/Sgx_Upstream.thy ===== *)
theory Sgx_Upstream
  imports Sgx_Gateway Edge_Upstream
begin

text \<open>
  \<open>crates/openapi-platform-sgx/src/upstream.rs\<close> and \<open>edge_upstream.rs\<close>: the clear HTTP client of the
  enclave, which writes requests to a TCP stream and reads the answer with the readers of the core, and
  the choice between it and the OPE upstream.
\<close>

subsection \<open>The clear HTTP client\<close>

record http_endpoint =
  he_host :: string
  he_port :: nat

definition parse_http_base_url :: "string \<Rightarrow> api_error + http_endpoint" where
  "parse_http_base_url base_url =
     bindE (ok_or (BadRequest ''upstream must be http://IP:port (no TLS, no DNS)'')
              (strip_prefix (trim_end_char (CHR ''/'') (trim base_url)) ''http://'')) (\<lambda>rest.
     case split_once (CHR '':'') rest of
       None \<Rightarrow> Inl (BadRequest ''upstream must include explicit port'')
     | Some (host, p) \<Rightarrow>
         bindE (ok_or (BadRequest (parse_int_error 10 65535 p)) (parse_uint 10 65535 p)) (\<lambda>port.
         if host = [] then Inl (BadRequest ''upstream host empty'')
         else Inr \<lparr>he_host = host, he_port = port\<rparr>))"

text \<open>TCP: connecting to an address may fail, and a request is answered by an error while it is written
  or by the stream of the connection.\<close>

record tcp_net =
  tn_connect :: "sgx_out list \<Rightarrow> string \<Rightarrow> string + unit"
  tn_exchange :: "sgx_out list \<Rightarrow> sgx_out \<Rightarrow> string + reader"

definition tcp_addr :: "http_endpoint \<Rightarrow> string" where
  "tcp_addr e = he_host e @ '':'' @ show_nat (he_port e)"

definition tcp_connect :: "tcp_net \<Rightarrow> http_endpoint \<Rightarrow> (sgx_out list, api_error, unit) op" where
  "tcp_connect N e log =
     (map_err (\<lambda>m. Upstream (''connect '' @ tcp_addr e @ '': '' @ m)) (tn_connect N log (tcp_addr e)), log)"

definition tcp_request :: "http_endpoint \<Rightarrow> string \<Rightarrow> string \<Rightarrow> bytes option \<Rightarrow> sgx_out" where
  "tcp_request e method path body =
     \<lparr>so_path = path,
      so_head = method @ '' '' @ path @ '' HTTP/1.1'' @ crlf @ ''Host: '' @ he_host e @ crlf @
        (case body of
           Some b \<Rightarrow> ''Content-Type: application/json'' @ crlf @ ''Content-Length: '' @ show_nat (length b) @ crlf
         | None \<Rightarrow> []) @
        ''Connection: close'' @ crlf @ crlf,
      so_body = body\<rparr>"

definition tcp_write_request ::
    "tcp_net \<Rightarrow> http_endpoint \<Rightarrow> string \<Rightarrow> string \<Rightarrow> bytes option \<Rightarrow> (sgx_out list, api_error, reader) op" where
  "tcp_write_request N e method path body log =
     (map_err Upstream (tn_exchange N log (tcp_request e method path body)), log @ [tcp_request e method path body])"

definition content_type_from_headers :: "string \<Rightarrow> string" where
  "content_type_from_headers headers =
     (case List.map_filter (\<lambda>l. case split_once (CHR '':'') l of
              Some (name, v) \<Rightarrow> if eq_ignore_ascii_case name ''content-type'' then Some (trim v) else None
            | None \<Rightarrow> None) (str_lines headers) of
        v # _ \<Rightarrow> v | [] \<Rightarrow> [])"

text \<open>Connecting, writing the request, and reading the head and an error status: both operations.\<close>

definition tcp_exchange ::
    "tcp_net \<Rightarrow> http_endpoint \<Rightarrow> http_method \<Rightarrow> string \<Rightarrow> bytes option
       \<Rightarrow> (sgx_out list, api_error, nat \<times> string \<times> body_framing \<times> reader) op" where
  "tcp_exchange N e method path body =
     bindS (tcp_connect N e) (\<lambda>_.
     bindS (case method of
              Get \<Rightarrow> tcp_write_request N e ''GET'' path None
            | Post \<Rightarrow> tcp_write_request N e ''POST'' path body
            | Other \<Rightarrow> failS MethodNotAllowed) (\<lambda>stream.
     liftS (case read_response_headers stream of
              (Inl m, _) \<Rightarrow> Inl m
            | (Inr (status, headers, framing), r) \<Rightarrow>
                if \<not> (200 \<le> status \<and> status < 300) then
                  bindE (fst (read_error_body 8192 framing r)) (\<lambda>err.
                  Inl (Upstream (''upstream status '' @ show_nat status @ '': '' @ err)))
                else Inr (status, headers, framing, r))))"

definition tcp_forward_v1 ::
    "'x ext_scheme \<Rightarrow> tcp_net \<Rightarrow> http_endpoint \<Rightarrow> http_method \<Rightarrow> string \<Rightarrow> bytes option
       \<Rightarrow> (sgx_out list, api_error, upstream_response) op" where
  "tcp_forward_v1 X N e method path body =
     (let wants_stream = (case body of Some b \<Rightarrow> body_wants_stream X b | None \<Rightarrow> False)
      in bindS (tcp_exchange N e method path body) (\<lambda>(status, headers, framing, r).
         liftS (case copy_body 8192 vec_write framing r [] of
                  (Inl m, _) \<Rightarrow> Inl m
                | (Inr _, _, body_out) \<Rightarrow>
                    decode_upstream_response X status (content_type_from_headers headers) body_out wants_stream)))"

definition tcp_forward_v1_stream ::
    "tcp_net \<Rightarrow> http_endpoint \<Rightarrow> 'w writer \<Rightarrow> http_method \<Rightarrow> string \<Rightarrow> bytes option
       \<Rightarrow> (sgx_out list \<times> 'w, api_error, stream_result) op" where
  "tcp_forward_v1_stream N e wr method path body =
     bindS (on_upstream (tcp_exchange N e method path body)) (\<lambda>(status, headers, framing, r) (log, w).
       case copy_body 8192 wr framing r w of
         (res, _, w1) \<Rightarrow>
           (bindE res (\<lambda>n. Inr \<lparr>sr_status = status, sr_content_type = content_type_from_headers headers,
                               sr_bytes_written = n\<rparr>), (log, w1)))"

text \<open>The methods it inherits.\<close>

definition tcp_list_models ::
    "'y body_ext_scheme \<Rightarrow> tcp_net \<Rightarrow> http_endpoint \<Rightarrow> (sgx_out list, api_error, models_list_response) op" where
  "tcp_list_models B N e =
     bindS (tcp_forward_v1 B N e Get ''/v1/models'' None) (\<lambda>resp.
     liftS (case resp of UpJson v \<Rightarrow> parse_models_json B v | UpRaw b _ \<Rightarrow> parse_models_bytes B b))"

definition tcp_list_models_for_key ::
    "'y body_ext_scheme \<Rightarrow> tcp_net \<Rightarrow> http_endpoint \<Rightarrow> key_policy
       \<Rightarrow> (sgx_out list, api_error, models_list_response) op" where
  "tcp_list_models_for_key B N e policy =
     bindS (tcp_list_models B N e) (\<lambda>models.
     returnS (models\<lparr>ml_data := filter (\<lambda>m. allows_model policy (mo_id m)) (ml_data models)\<rparr>))"

subsection \<open>Selection\<close>

datatype sgx_edge_upstream =
    SgxOpe "sgx_out list ope_upstream"
  | SgxClear http_endpoint

definition sgx_edge_from_env ::
    "'x ope_ext_scheme \<Rightarrow> sgx_dialer \<Rightarrow> environ \<Rightarrow> edge_profile \<Rightarrow> string
       \<Rightarrow> (sgx_out list, string, sgx_edge_upstream) op" where
  "sgx_edge_from_env X D env profile clear_base_url =
     (let clear = bindE (map_err error_to_string (parse_http_base_url clear_base_url)) (\<lambda>e. Inr (SgxClear e));
          break_glass = clear_http_break_glass_enabled env
      in if break_glass \<and> is_prod profile
         then failS ''OPENAPI_UPSTREAM_CLEAR_HTTP forbidden when OPENAPI_PROFILE=prod''
         else if break_glass then liftS clear
         else (case sgx_ope_from_env X D env of
                 Inr (Some ope) \<Rightarrow>
                   (\<lambda>log. case sgx_require_healthy X env D profile log of
                            (Inr _, log1) \<Rightarrow> (Inr (SgxOpe ope), log1)
                          | (Inl e, log1) \<Rightarrow>
                              (if is_prod profile then Inl (gateway_error_to_string e) else clear, log1))
               | Inr None \<Rightarrow>
                   if is_prod profile
                   then failS ''OPENAPI_GATEWAY_OPE_API_URL required in prod (hard OPE cutover); set URL or OPENAPI_UPSTREAM_CLEAR_HTTP=1 only in non-prod''
                   else liftS clear
               | Inl e \<Rightarrow> if is_prod profile then failS (gateway_error_to_string e) else liftS clear))"

definition sgx_edge_forward_v1 ::
    "'x ope_ext_scheme \<Rightarrow> tcp_net \<Rightarrow> sgx_edge_upstream \<Rightarrow> ope_host \<Rightarrow> http_method \<Rightarrow> string \<Rightarrow> bytes option
       \<Rightarrow> (sgx_out list ope_state, api_error, upstream_response) op" where
  "sgx_edge_forward_v1 X N u H method path body =
     (case u of
        SgxOpe ope \<Rightarrow> ope_forward_v1 X ope H method path body
      | SgxClear e \<Rightarrow> on_log (tcp_forward_v1 X N e method path body))"

definition sgx_edge_forward_v1_ctx ::
    "'x ope_ext_scheme \<Rightarrow> tcp_net \<Rightarrow> sgx_edge_upstream \<Rightarrow> ope_host \<Rightarrow> http_method \<Rightarrow> string \<Rightarrow> bytes option
       \<Rightarrow> upstream_ctx \<Rightarrow> (sgx_out list ope_state, api_error, upstream_response) op" where
  "sgx_edge_forward_v1_ctx X N u H method path body ctx =
     (case u of
        SgxOpe ope \<Rightarrow> forward_v1_ctx X ope H method path body ctx
      | SgxClear e \<Rightarrow> on_log (tcp_forward_v1 X N e method path body))"

definition sgx_edge_forward_v1_stream ::
    "'x ope_ext_scheme \<Rightarrow> tcp_net \<Rightarrow> sgx_edge_upstream \<Rightarrow> ope_host \<Rightarrow> 'w writer \<Rightarrow> http_method \<Rightarrow> string
       \<Rightarrow> bytes option \<Rightarrow> (sgx_out list ope_state \<times> 'w, api_error, stream_result) op" where
  "sgx_edge_forward_v1_stream X N u H wr method path body =
     (case u of
        SgxOpe ope \<Rightarrow> ope_forward_v1_stream X ope H wr method path body
      | SgxClear e \<Rightarrow> on_log_out (tcp_forward_v1_stream N e wr method path body))"

definition sgx_edge_forward_v1_stream_ctx ::
    "'x ope_ext_scheme \<Rightarrow> tcp_net \<Rightarrow> sgx_edge_upstream \<Rightarrow> ope_host \<Rightarrow> 'w writer \<Rightarrow> http_method \<Rightarrow> string
       \<Rightarrow> bytes option \<Rightarrow> upstream_ctx \<Rightarrow> (sgx_out list ope_state \<times> 'w, api_error, stream_result) op" where
  "sgx_edge_forward_v1_stream_ctx X N u H wr method path body ctx =
     (case u of
        SgxOpe ope \<Rightarrow> forward_v1_stream_ctx X ope H wr method path body ctx
      | SgxClear e \<Rightarrow> on_log_out (tcp_forward_v1_stream N e wr method path body))"

definition sgx_edge_list_models ::
    "'y body_ext_scheme \<Rightarrow> tcp_net \<Rightarrow> sgx_edge_upstream \<Rightarrow> (sgx_out list ope_state, api_error, models_list_response) op"
where
  "sgx_edge_list_models B N u =
     (case u of SgxOpe ope \<Rightarrow> ope_list_models ope | SgxClear e \<Rightarrow> on_log (tcp_list_models B N e))"

definition sgx_edge_list_models_for_key ::
    "'y body_ext_scheme \<Rightarrow> tcp_net \<Rightarrow> sgx_edge_upstream \<Rightarrow> upstream_ctx \<Rightarrow> key_policy
       \<Rightarrow> (sgx_out list ope_state, api_error, models_list_response) op" where
  "sgx_edge_list_models_for_key B N u ctx policy =
     (case u of
        SgxOpe ope \<Rightarrow> list_models_for_key ope ctx policy
      | SgxClear e \<Rightarrow> on_log (tcp_list_models_for_key B N e policy))"

subsection \<open>One decision for both editions\<close>

text \<open>The decision of \<open>from_env\<close> in the abstract: what the operator asked for, the profile, and whether the
  gateway is configured and answers.\<close>

datatype upstream_choice = Refuse | UseOpe | UseClear

definition choose_upstream :: "bool \<Rightarrow> bool \<Rightarrow> bool \<Rightarrow> upstream_choice" where
  "choose_upstream break_glass in_prod ready =
     (if break_glass then if in_prod then Refuse else UseClear
      else if ready then UseOpe else if in_prod then Refuse else UseClear)"

definition cvm_choice :: "string + edge_upstream \<Rightarrow> upstream_choice" where
  "cvm_choice x = (case x of Inl _ \<Rightarrow> Refuse | Inr (EdgeOpe _) \<Rightarrow> UseOpe | Inr (EdgeClear _) \<Rightarrow> UseClear)"

definition sgx_choice :: "string + sgx_edge_upstream \<Rightarrow> upstream_choice" where
  "sgx_choice x = (case x of Inl _ \<Rightarrow> Refuse | Inr (SgxOpe _) \<Rightarrow> UseOpe | Inr (SgxClear _) \<Rightarrow> UseClear)"

definition cvm_ready :: "'x ope_ext_scheme \<Rightarrow> http_agent \<Rightarrow> environ \<Rightarrow> edge_profile \<Rightarrow> http_out list \<Rightarrow> bool" where
  "cvm_ready X A env profile log \<longleftrightarrow>
     (case ope_from_env X A env of Inr (Some _) \<Rightarrow> is_ok (fst (require_gateway_ope_api_healthy X env A profile log))
      | _ \<Rightarrow> False)"

definition sgx_ready :: "'x ope_ext_scheme \<Rightarrow> sgx_dialer \<Rightarrow> environ \<Rightarrow> edge_profile \<Rightarrow> sgx_out list \<Rightarrow> bool" where
  "sgx_ready X D env profile log \<longleftrightarrow>
     (case sgx_ope_from_env X D env of Inr (Some _) \<Rightarrow> is_ok (fst (sgx_require_healthy X env D profile log))
      | _ \<Rightarrow> False)"

text \<open>C27. The two editions decide alike: each \<open>from_env\<close> implements the one abstract decision, whatever the
  environment, the gateway and the network do. The enclave adds one refusal: a clear HTTP address
  it cannot parse.\<close>

theorem editions_choose_alike:
  "cvm_choice (fst (edge_upstream_from_env X A env profile url log)) =
     choose_upstream (clear_http_break_glass_enabled env) (is_prod profile) (cvm_ready X A env profile log) \<and>
   sgx_choice (fst (sgx_edge_from_env X D env profile url out)) =
     (let c = choose_upstream (clear_http_break_glass_enabled env) (is_prod profile) (sgx_ready X D env profile out)
      in if c = UseClear \<and> \<not> is_ok (parse_http_base_url url) then Refuse else c)"
proof
  show "cvm_choice (fst (edge_upstream_from_env X A env profile url log)) =
     choose_upstream (clear_http_break_glass_enabled env) (is_prod profile) (cvm_ready X A env profile log)"
    by (simp add: edge_upstream_from_env_def Let_def choose_upstream_def cvm_choice_def cvm_ready_def
        split: sum.split option.split prod.split)
  have clear: "sgx_choice (bindE (map_err error_to_string x) (\<lambda>e. Inr (SgxClear e))) =
      (if is_ok x then UseClear else Refuse)" for x
    by (cases x) (simp_all add: sgx_choice_def)
  have fixed: "sgx_choice (Inl e) = Refuse" "sgx_choice (Inr (SgxOpe u)) = UseOpe" for e u
    by (simp_all add: sgx_choice_def)
  show "sgx_choice (fst (sgx_edge_from_env X D env profile url out)) =
     (let c = choose_upstream (clear_http_break_glass_enabled env) (is_prod profile) (sgx_ready X D env profile out)
      in if c = UseClear \<and> \<not> is_ok (parse_http_base_url url) then Refuse else c)"
    by (simp add: sgx_edge_from_env_def Let_def choose_upstream_def sgx_ready_def fixed clear
        split: sum.split option.split prod.split)
qed

subsection \<open>What the clear client delivers\<close>

lemma parse_uint_bound: "parse_uint b m s = Some n \<Longrightarrow> n \<le> m"
  by (auto simp: parse_uint_def Let_def split: option.splits if_splits)

lemma parse_http_base_url_ok:
  assumes "parse_http_base_url url = Inr e"
  shows "he_host e \<noteq> []" "CHR '':'' \<notin> set (he_host e)" "he_port e \<le> 65535"
  using assms parse_uint_bound
  by (auto simp: parse_http_base_url_def result_simps split_once_def dest: set_takeWhileD split: option.splits if_splits)

text \<open>The first content type of a head.\<close>

definition header_value :: "string \<Rightarrow> (string \<times> string) list \<Rightarrow> string" where
  "header_value name hs = (case filter (\<lambda>h. eq_ignore_ascii_case (fst h) name) hs of h # _ \<Rightarrow> snd h | [] \<Rightarrow> [])"

lemma content_type_render:
  assumes "head_line sl" "CHR '':'' \<notin> set sl" "list_all good_header hs"
  shows "content_type_from_headers (render_head (sl # map header_line hs)) = header_value ''content-type'' hs"
proof -
  let ?f = "\<lambda>l. case split_once (CHR '':'') l of
      Some (name, v) \<Rightarrow> if eq_ignore_ascii_case name ''content-type'' then Some (trim v) else None | None \<Rightarrow> None"
  have lines: "str_lines (render_head (sl # map header_line hs)) = (sl # map header_line hs) @ [[]]"
    using assms by (intro lines_render_head) (auto simp: list_all_iff good_header_def)
  have one: "?f (header_line h) = (if eq_ignore_ascii_case (fst h) ''content-type'' then Some (snd h) else None)"
    if "good_header h" for h
    using that split_once_at [of "CHR '':''" "fst h" "'' '' @ snd h"] trim_leading_space [of "snd h"]
    by (simp add: good_header_def header_line_def)
  have "List.map_filter ?f (map header_line hs @ [[]]) = map snd (filter (\<lambda>h. eq_ignore_ascii_case (fst h) ''content-type'') hs)"
    using assms(3) by (induction hs) (simp_all add: List.map_filter_simps one split_once_None)
  moreover have "?f sl = None" using assms(2) by (simp add: split_once_def)
  ultimately have "List.map_filter ?f (str_lines (render_head (sl # map header_line hs))) =
      map snd (filter (\<lambda>h. eq_ignore_ascii_case (fst h) ''content-type'') hs)"
    unfolding lines by (simp add: List.map_filter_simps)
  then show ?thesis
    unfolding content_type_from_headers_def header_value_def by (simp split: list.split)
qed

text \<open>C28. The clear client of the enclave hands on the engine's answer: when a request is answered with a
  success status and a well-formed head, the bytes written to the client are the body the head
  frames, for every way the network cuts the stream, and status, content type and length are the
  ones of the answer.\<close>

theorem tcp_stream_delivers_body:
  assumes "is_ok (tn_connect N log (tcp_addr e))"
    and "tn_exchange N log (tcp_request e ''POST'' path (Some body)) = Inr r" "clean r"
    and "contents r = as_bytes (render_head (sl # map header_line hs)) @ wire"
    and "head_line sl" "CHR '':'' \<notin> set sl" "list_all good_header hs"
    and "length (render_head (sl # map header_line hs)) \<le> 65536"
    and "200 \<le> status_of_line sl" "status_of_line sl < 300"
    and "framed_as (framing_of (fold header_step hs (None, False))) answer wire"
  shows "tcp_forward_v1_stream N e vec_write Post path (Some body) (log, []) =
    (Inr \<lparr>sr_status = status_of_line sl, sr_content_type = header_value ''content-type'' hs,
          sr_bytes_written = length answer\<rparr>,
     (log @ [tcp_request e ''POST'' path (Some body)], answer))"
proof -
  obtain r1 where r1: "read_response_headers r =
      (Inr (status_of_line sl, render_head (sl # map header_line hs),
            framing_of (fold header_step hs (None, False))), r1)" "clean r1" "contents r1 = wire"
    by (rule read_response_render [OF assms(3-8)])
  from copy_framed [OF r1(2), of 8192 _ answer "[]"] assms(11) r1(3) obtain r2 where
    "copy_body 8192 vec_write (framing_of (fold header_step hs (None, False))) r1 [] = (Inr (length answer), r2, answer)"
    by auto
  with assms(1,2,9,10) r1(1) content_type_render [OF assms(5-7)] show ?thesis
    by (auto simp: tcp_forward_v1_stream_def tcp_exchange_def tcp_connect_def tcp_write_request_def bindS_def
        on_upstream_def on_part_def is_ok_iff)
qed

text \<open>An engine that answers with one chunk, cut in the middle of the head.\<close>

definition sample_answer :: bytes where
  "sample_answer = as_bytes (render_head [''HTTP/1.1 200 OK'', ''Content-Type: text/event-stream'',
     ''Transfer-Encoding: chunked'']) @ chunk_frame [104, 105] @ last_chunk"

theorem tcp_stream_delivers_body_witness:
  "tcp_forward_v1_stream
     \<lparr>tn_connect = \<lambda>log a. Inr (), tn_exchange = \<lambda>log q. Inr (byte_reader sample_answer)\<rparr>
     \<lparr>he_host = ''10.0.0.1'', he_port = 80\<rparr> vec_write Post ''/v1/completions'' (Some [1]) ([], []) =
   (Inr \<lparr>sr_status = 200, sr_content_type = ''text/event-stream'', sr_bytes_written = 2\<rparr>,
    ([tcp_request \<lparr>he_host = ''10.0.0.1'', he_port = 80\<rparr> ''POST'' ''/v1/completions'' (Some [1])], [104, 105]))"
proof -
  let ?hs = "[(''Content-Type'', ''text/event-stream''), (''Transfer-Encoding'', ''chunked'')]"
  have "header_value ''content-type'' ?hs = ''text/event-stream''" "list_all good_header ?hs"
    "framing_of (fold header_step ?hs (None, False)) = Chunked"
    "header_line (''Content-Type'', ''text/event-stream'') = ''Content-Type: text/event-stream''"
    "header_line (''Transfer-Encoding'', ''chunked'') = ''Transfer-Encoding: chunked''"
    by code_simp+
  moreover have "framed_as Chunked [104, 105] (chunk_frame [104, 105] @ last_chunk)"
    unfolding framed_as_def body_framing.case
    by (intro exI [of _ "[[104, 105]]"] exI [of _ "[]"]) simp
  moreover have "length (render_head [''HTTP/1.1 200 OK'', ''Content-Type: text/event-stream'',
      ''Transfer-Encoding: chunked'']) \<le> 65536"
    by (simp add: length_render_head)
  ultimately show ?thesis
    using tcp_stream_delivers_body [of
      "\<lparr>tn_connect = \<lambda>log a. Inr (), tn_exchange = \<lambda>log q. Inr (byte_reader sample_answer)\<rparr>" "[]"
      "\<lparr>he_host = ''10.0.0.1'', he_port = 80\<rparr>" "''/v1/completions''" "[1]" "byte_reader sample_answer"
      "''HTTP/1.1 200 OK''" ?hs "chunk_frame [104, 105] @ last_chunk" "[104, 105]"]
      byte_reader_simps [of sample_answer] ok_line_good
    by (simp add: sample_answer_def numeral_2_eq_2)
qed

end
