(* ===== verification/Sse_Usage.thy ===== *)
theory Sse_Usage
  imports Quota
begin

text \<open>
  Metering helpers of \<open>crates/openapi-core/src\<close>: the accumulator that watches an event stream
  for the latest \<open>usage\<close> object while it passes through (\<open>sse_usage.rs\<close>), and the signed usage
  report (\<open>usage.rs\<close>). The writer below the accumulator is a parameter: a call passes how many
  bytes it took.
\<close>

subsection \<open>Usage in an event\<close>

definition first_of :: "'a option \<Rightarrow> 'a option \<Rightarrow> 'a option" where
  "first_of a b = (case a of None \<Rightarrow> b | Some x \<Rightarrow> Some x)"

definition token_field :: "json \<Rightarrow> string \<Rightarrow> string \<Rightarrow> nat" where
  "token_field usage k1 k2 =
     (case Option.bind (first_of (json_get usage k1) (json_get usage k2)) as_u64 of
        None \<Rightarrow> 0 | Some n \<Rightarrow> n)"

definition usage_from_value :: "json \<Rightarrow> (nat \<times> nat) option" where
  "usage_from_value v =
     (case json_get v ''usage'' of
        None \<Rightarrow> None
      | Some usage \<Rightarrow> Some (token_field usage ''prompt_tokens'' ''input_tokens'',
                           token_field usage ''completion_tokens'' ''output_tokens''))"

text \<open>The \<open>data:\<close> lines of an event; \<open>None\<close> when one of them is the end marker.\<close>

fun data_lines :: "string list \<Rightarrow> string list option" where
  "data_lines [] = Some []"
| "data_lines (l # ls) =
     (case strip_prefix l ''data:'' of
        None \<Rightarrow> data_lines ls
      | Some rest \<Rightarrow>
          if trim rest = ''[DONE]'' then None
          else map_option (\<lambda>ps. trim rest # ps) (data_lines ls))"

fun join_lines :: "string list \<Rightarrow> string" where
  "join_lines [] = []"
| "join_lines [l] = l"
| "join_lines (l # ls) = l @ [CHR 0x0A] @ join_lines ls"

definition usage_from_sse_event :: "'x ext_scheme \<Rightarrow> bytes \<Rightarrow> (nat \<times> nat) option" where
  "usage_from_sse_event X event =
     Option.bind (from_utf8 event) (\<lambda>txt.
     Option.bind (data_lines (str_lines txt)) (\<lambda>ps.
     if ps = [] then None
     else (case json_from_slice X (as_bytes (join_lines ps)) of
             Inl _ \<Rightarrow> None
           | Inr v \<Rightarrow> usage_from_value v)))"

subsection \<open>The accumulator\<close>

fun find_event_end :: "bytes \<Rightarrow> nat option" where
  "find_event_end (a # b # bs) =
     (if a = 10 \<and> b = 10 then Some 2 else map_option Suc (find_event_end (b # bs)))"
| "find_event_end _ = None"

record sse_acc =
  acc_buf :: bytes
  acc_prompt :: nat
  acc_completion :: nat
  acc_saw :: bool

definition sse_acc_new :: sse_acc where
  "sse_acc_new = \<lparr>acc_buf = [], acc_prompt = 0, acc_completion = 0, acc_saw = False\<rparr>"

definition token_counts :: "sse_acc \<Rightarrow> nat \<times> nat" where
  "token_counts s = (acc_prompt s, acc_completion s)"

definition record_event :: "'x ext_scheme \<Rightarrow> bytes \<Rightarrow> sse_acc \<Rightarrow> sse_acc" where
  "record_event X event s =
     (case usage_from_sse_event X event of
        None \<Rightarrow> s
      | Some (p, c) \<Rightarrow> s\<lparr>acc_prompt := p, acc_completion := c, acc_saw := True\<rparr>)"

lemma find_event_end_pos: "find_event_end b = Some n \<Longrightarrow> 2 \<le> n \<and> n \<le> length b"
  by (induction b arbitrary: n rule: find_event_end.induct) (fastforce split: if_splits)+

lemma acc_buf_record [simp]: "acc_buf (record_event X e s) = acc_buf s"
  by (simp add: record_event_def split: option.split prod.split)

text \<open>The loop of \<open>absorb\<close>: events are taken off the buffer while there is a complete one.\<close>

function drain :: "'x ext_scheme \<Rightarrow> sse_acc \<Rightarrow> sse_acc" where
  "drain X s =
     (case find_event_end (acc_buf s) of
        None \<Rightarrow> s
      | Some n \<Rightarrow>
          drain X (record_event X (take n (acc_buf s)) (s\<lparr>acc_buf := drop n (acc_buf s)\<rparr>)))"
  by pat_completeness auto
termination
  by (relation "measure (\<lambda>(X, s). length (acc_buf s))") (auto dest: find_event_end_pos)

definition absorb :: "'x ext_scheme \<Rightarrow> bytes \<Rightarrow> sse_acc \<Rightarrow> sse_acc" where
  "absorb X chunk s = drain X (s\<lparr>acc_buf := acc_buf s @ chunk\<rparr>)"

text \<open>\<open>write\<close> when the inner writer takes \<open>n\<close> bytes (or fails), and \<open>write_all\<close>.\<close>

definition acc_write :: "'x ext_scheme \<Rightarrow> 'e + nat \<Rightarrow> bytes \<Rightarrow> (sse_acc, 'e, nat) op" where
  "acc_write X inner buf s =
     (case inner of
        Inl e \<Rightarrow> (Inl e, s)
      | Inr n \<Rightarrow> (Inr n, if 0 < n then absorb X (take n buf) s else s))"

definition acc_write_all :: "'x ext_scheme \<Rightarrow> 'e + unit \<Rightarrow> bytes \<Rightarrow> (sse_acc, 'e, unit) op" where
  "acc_write_all X inner buf s =
     (case inner of
        Inl e \<Rightarrow> (Inl e, s)
      | Inr _ \<Rightarrow> (Inr (), absorb X buf s))"

subsection \<open>Chunking does not matter\<close>

declare drain.simps [simp del]

lemma find_event_end_append: "find_event_end b = Some n \<Longrightarrow> find_event_end (b @ c) = Some n"
  by (induction b arbitrary: n rule: find_event_end.induct) (auto split: if_splits)

lemma drain_done: "find_event_end (acc_buf s) = None \<Longrightarrow> drain X s = s"
  by (simp add: drain.simps)

lemma drain_next:
  "find_event_end (acc_buf s) = Some n \<Longrightarrow>
     drain X s = drain X (record_event X (take n (acc_buf s)) (s\<lparr>acc_buf := drop n (acc_buf s)\<rparr>))"
  by (subst drain.simps) simp

lemma record_event_buf:
  "(record_event X e (s\<lparr>acc_buf := b\<rparr>))\<lparr>acc_buf := c\<rparr> = record_event X e (s\<lparr>acc_buf := c\<rparr>)"
  by (simp add: record_event_def split: option.split prod.split)

lemma drain_buf: "find_event_end (acc_buf (drain X s)) = None"
proof (induction X s rule: drain.induct)
  case (1 X s)
  then show ?case
    by (cases "find_event_end (acc_buf s)") (simp_all add: drain_done drain_next)
qed

lemma drain_append:
  "drain X ((drain X s)\<lparr>acc_buf := acc_buf (drain X s) @ c\<rparr>) =
     drain X (s\<lparr>acc_buf := acc_buf s @ c\<rparr>)"
proof (induction X s rule: drain.induct)
  case (1 X s)
  show ?case
  proof (cases "find_event_end (acc_buf s)")
    case None
    then show ?thesis by (simp add: drain_done)
  next
    case (Some n)
    let ?s' = "record_event X (take n (acc_buf s)) (s\<lparr>acc_buf := drop n (acc_buf s)\<rparr>)"
    have "drain X (s\<lparr>acc_buf := acc_buf s @ c\<rparr>) = drain X (?s'\<lparr>acc_buf := acc_buf ?s' @ c\<rparr>)"
      using find_event_end_append [OF Some, of c] find_event_end_pos [OF Some]
      by (simp add: drain_next record_event_buf)
    with 1 [OF Some] show ?thesis by (simp add: drain_next [OF Some])
  qed
qed

lemma absorb_absorb: "absorb X b (absorb X a s) = absorb X (a @ b) s"
  using drain_append [of X "s\<lparr>acc_buf := acc_buf s @ a\<rparr>" b] by (simp add: absorb_def)

lemma absorb_buf: "find_event_end (acc_buf (absorb X a s)) = None"
  by (simp add: absorb_def drain_buf)

lemma fold_absorb:
  "find_event_end (acc_buf s) = None \<Longrightarrow> fold (absorb X) cs s = absorb X (concat cs) s"
proof (induction cs arbitrary: s)
  case Nil
  then show ?case by (simp add: absorb_def drain_done)
next
  case (Cons c cs)
  then show ?case using Cons.IH [OF absorb_buf, of X c s] by (simp add: absorb_absorb)
qed

text \<open>C21. Metering does not depend on how the stream is cut: two sequences of writes that carry the
  same bytes leave the accumulator in the same state, so the token counts are those of the stream
  and not of its chunking.\<close>

theorem metering_ignores_chunking:
  assumes "concat cs = concat ds"
  shows "fold (absorb X) cs sse_acc_new = fold (absorb X) ds sse_acc_new"
proof -
  have "find_event_end (acc_buf sse_acc_new) = None" by (simp add: sse_acc_new_def)
  with assms show ?thesis by (simp add: fold_absorb)
qed

theorem metering_ignores_chunking_witness:
  "fold (absorb sample_crates) [[100, 58, 10], [10, 120]] sse_acc_new =
     fold (absorb sample_crates) [[100], [58, 10, 10, 120]] sse_acc_new"
  by (rule metering_ignores_chunking) simp

subsection \<open>Signed usage reports\<close>

record usage_report =
  ur_report_version :: u32
  ur_report_key_id :: string
  ur_model :: string
  ur_prompt_tokens :: nat
  ur_completion_tokens :: nat
  ur_timestamp_ms :: nat
  ur_nonce_b64 :: string
  ur_signature_hex :: string

record unsigned_usage_report =
  uu_report_version :: u32
  uu_key_id :: string
  uu_model :: string
  uu_prompt_tokens :: nat
  uu_completion_tokens :: nat
  uu_timestamp_ms :: nat
  uu_nonce_b64 :: string

record usage_ext = body_ext +
  ser_usage :: "unsigned_usage_report \<Rightarrow> string + bytes"
  ed25519_sign :: "bytes \<Rightarrow> bytes \<Rightarrow> bytes"
  ed25519_public :: "bytes \<Rightarrow> bytes"

text \<open>The signing key of a \<open>UsageSigner\<close> is its seed; the random nonce is an argument.\<close>

definition sign_report ::
    "'x usage_ext_scheme \<Rightarrow> bytes \<Rightarrow> bytes \<Rightarrow> string \<Rightarrow> string \<Rightarrow> nat \<Rightarrow> nat \<Rightarrow> nat
       \<Rightarrow> api_error + usage_report" where
  "sign_report X seed nonce key_id model prompt_tokens completion_tokens timestamp_ms =
     (let nonce_b64 = b64url_encode X nonce;
          unsigned = \<lparr>uu_report_version = 1, uu_key_id = key_id, uu_model = model,
            uu_prompt_tokens = prompt_tokens, uu_completion_tokens = completion_tokens,
            uu_timestamp_ms = timestamp_ms, uu_nonce_b64 = nonce_b64\<rparr>
      in bindE (map_err Internal (ser_usage X unsigned)) (\<lambda>payload.
         Inr \<lparr>ur_report_version = uu_report_version unsigned, ur_report_key_id = uu_key_id unsigned,
              ur_model = uu_model unsigned, ur_prompt_tokens = uu_prompt_tokens unsigned,
              ur_completion_tokens = uu_completion_tokens unsigned,
              ur_timestamp_ms = uu_timestamp_ms unsigned, ur_nonce_b64 = nonce_b64,
              ur_signature_hex = hex_encode X (ed25519_sign X seed payload)\<rparr>))"

definition report_unsigned :: "usage_report \<Rightarrow> unsigned_usage_report" where
  "report_unsigned r =
     \<lparr>uu_report_version = ur_report_version r, uu_key_id = ur_report_key_id r,
      uu_model = ur_model r, uu_prompt_tokens = ur_prompt_tokens r,
      uu_completion_tokens = ur_completion_tokens r, uu_timestamp_ms = ur_timestamp_ms r,
      uu_nonce_b64 = ur_nonce_b64 r\<rparr>"

definition verify_report ::
    "'x usage_ext_scheme \<Rightarrow> usage_report \<Rightarrow> bytes \<Rightarrow> api_error + unit" where
  "verify_report X r verify_key =
     bindE (map_err Internal (ser_usage X (report_unsigned r))) (\<lambda>payload.
     bindE (map_err (\<lambda>e. Internal (''usage sig hex: '' @ e)) (hex_decode X (ur_signature_hex r)))
       (\<lambda>sig_bytes.
     bindE (map_err (\<lambda>e. Internal (''usage sig: '' @ e)) (sig_from_slice X sig_bytes))
       (\<lambda>signature.
     if ed25519_verify X verify_key payload signature then Inr ()
     else Inl (Internal ''usage signature invalid''))))"

lemma sign_report_unsigned:
  assumes "sign_report X seed nonce k m p c t = Inr r"
  shows "\<exists>payload. ser_usage X (report_unsigned r) = Inr payload \<and>
      ur_signature_hex r = hex_encode X (ed25519_sign X seed payload) \<and>
      report_unsigned r =
        \<lparr>uu_report_version = 1, uu_key_id = k, uu_model = m, uu_prompt_tokens = p,
         uu_completion_tokens = c, uu_timestamp_ms = t, uu_nonce_b64 = b64url_encode X nonce\<rparr>"
  using assms by (auto simp: sign_report_def Let_def result_simps report_unsigned_def)

text \<open>Reports round-trip: with a hex codec that decodes what it encoded and a signature scheme
  that accepts its own 64-byte signatures, a report the signer produced verifies under the signer's
  public key and carries the counts it was given.\<close>

theorem usage_report_round_trip:
  assumes hex: "\<And>b. hex_decode X (hex_encode X b) = Inr b"
    and slice: "\<And>m. sig_from_slice X (ed25519_sign X seed m) = Inr (ed25519_sign X seed m)"
    and scheme: "\<And>m. ed25519_verify X (ed25519_public X seed) m (ed25519_sign X seed m)"
    and signed: "sign_report X seed nonce k m p c t = Inr r"
  shows "verify_report X r (ed25519_public X seed) = Inr () \<and>
    ur_report_key_id r = k \<and> ur_model r = m \<and> ur_prompt_tokens r = p \<and>
    ur_completion_tokens r = c \<and> ur_timestamp_ms r = t"
proof -
  obtain payload where "ser_usage X (report_unsigned r) = Inr payload"
    "ur_signature_hex r = hex_encode X (ed25519_sign X seed payload)"
    "report_unsigned r =
        \<lparr>uu_report_version = 1, uu_key_id = k, uu_model = m, uu_prompt_tokens = p,
         uu_completion_tokens = c, uu_timestamp_ms = t, uu_nonce_b64 = b64url_encode X nonce\<rparr>"
    using sign_report_unsigned [OF signed] by blast
  then show ?thesis
    using hex slice scheme by (simp add: verify_report_def) (simp add: report_unsigned_def)
qed

definition sample_usage_crates :: usage_ext where
  "sample_usage_crates =
     body_ext.extend sample_body_crates
       (usage_ext.fields (\<lambda>u. Inr (as_bytes (uu_key_id u))) (\<lambda>seed m. seed @ m) (\<lambda>seed. seed))"

lemmas sample_usage_simps =
  sample_usage_crates_def sample_body_crates_def sample_crates_def auth_ext.defs body_ext.defs
  usage_ext.defs

definition sample_report :: usage_report where
  "sample_report =
     \<lparr>ur_report_version = 1, ur_report_key_id = ''k'', ur_model = ''m'', ur_prompt_tokens = 3,
      ur_completion_tokens = 4, ur_timestamp_ms = 5, ur_nonce_b64 = ''n'',
      ur_signature_hex = ''Sk''\<rparr>"

theorem usage_report_round_trip_witness:
  "verify_report sample_usage_crates sample_report (ed25519_public sample_usage_crates [83]) = Inr () \<and>
   ur_report_key_id sample_report = ''k'' \<and> ur_model sample_report = ''m'' \<and>
   ur_prompt_tokens sample_report = 3 \<and> ur_completion_tokens sample_report = 4 \<and>
   ur_timestamp_ms sample_report = 5"
proof (rule usage_report_round_trip)
  show "sign_report sample_usage_crates [83] [110] ''k'' ''m'' 3 4 5 = Inr sample_report"
    by (simp add: sign_report_def sample_report_def sample_usage_simps as_bytes_def bytes_str_def)
      code_simp
qed (simp_all add: sample_usage_simps)

end
