(* ===== verification/Ephemeral.thy ===== *)
theory Ephemeral
  imports Rust_Std "HOL-Library.AList"
begin

text \<open>
  The bounded in-memory store of \<open>crates/openapi-core/src/ephemeral.rs\<close>. The hash map is an
  association list with distinct keys, so that its size is the length; time is the reading of the
  monotonic clock in nanoseconds that each operation takes.
\<close>

record store_config =
  default_ttl :: nat
  max_entries :: nat
  max_bytes_per_entry :: nat

definition store_config_default :: store_config where
  "store_config_default =
     \<lparr>default_ttl = 3600 * 1000000000, max_entries = 10000,
      max_bytes_per_entry = 4 * 1024 * 1024\<rparr>"

record entry =
  entry_value :: bytes
  expires_at :: nat

datatype ephemeral_error = TooLarge | Capacity

record ephemeral_store =
  store_cfg :: store_config
  entries :: "(string \<times> entry) list"

definition store_new :: "store_config \<Rightarrow> ephemeral_store" where
  "store_new cfg = \<lparr>store_cfg = cfg, entries = []\<rparr>"

definition evict_expired :: "nat \<Rightarrow> (string \<times> entry) list \<Rightarrow> (string \<times> entry) list" where
  "evict_expired now m = filter (\<lambda>(_, e). now < expires_at e) m"

definition store_put ::
    "nat \<Rightarrow> string \<Rightarrow> bytes \<Rightarrow> (ephemeral_store, ephemeral_error, unit) op" where
  "store_put now key val s =
     (if max_bytes_per_entry (store_cfg s) < length val then (Inl TooLarge, s)
      else let m = evict_expired now (entries s)
           in if max_entries (store_cfg s) \<le> length m \<and> map_of m key = None
              then (Inl Capacity, s\<lparr>entries := m\<rparr>)
              else (Inr (), s\<lparr>entries := AList.update key
                      \<lparr>entry_value = val, expires_at = now + default_ttl (store_cfg s)\<rparr> m\<rparr>))"

definition store_get :: "nat \<Rightarrow> string \<Rightarrow> ephemeral_store \<Rightarrow> bytes option \<times> ephemeral_store" where
  "store_get now key s =
     (let m = evict_expired now (entries s)
      in (map_option entry_value (map_of m key), s\<lparr>entries := m\<rparr>))"

definition store_remove :: "string \<Rightarrow> ephemeral_store \<Rightarrow> bool \<times> ephemeral_store" where
  "store_remove key s =
     (map_of (entries s) key \<noteq> None, s\<lparr>entries := AList.delete key (entries s)\<rparr>)"

subsection \<open>The bounds\<close>

definition store_wf :: "ephemeral_store \<Rightarrow> bool" where
  "store_wf s \<longleftrightarrow>
     distinct (map fst (entries s)) \<and> length (entries s) \<le> max_entries (store_cfg s) \<and>
     (\<forall>(k, e)\<in>set (entries s). length (entry_value e) \<le> max_bytes_per_entry (store_cfg s))"

lemma evict_distinct: "distinct (map fst m) \<Longrightarrow> distinct (map fst (evict_expired now m))"
  by (simp add: evict_expired_def distinct_map_filter)

lemma evict_subset: "set (evict_expired now m) \<subseteq> set m"
  by (auto simp: evict_expired_def)

lemma evict_length: "length (evict_expired now m) \<le> length m"
  by (simp add: evict_expired_def)

lemma map_of_evict:
  assumes "distinct (map fst m)"
  shows "map_of (evict_expired now m) k =
    (case map_of m k of None \<Rightarrow> None | Some e \<Rightarrow> if now < expires_at e then Some e else None)"
  using assms by (induction m) (auto simp: evict_expired_def split: option.splits
      dest!: map_of_SomeD intro: rev_image_eqI)

lemma evict_wf: "store_wf s \<Longrightarrow> store_wf (s\<lparr>entries := evict_expired now (entries s)\<rparr>)"
  by (auto simp: store_wf_def evict_distinct intro: le_trans [OF evict_length]
      dest!: subsetD [OF evict_subset])

lemma length_update:
  "length (AList.update k v m) = (if k \<in> fst ` set m then length m else Suc (length m))"
  by (induction m) auto

lemma set_update: "set (AList.update k v m) \<subseteq> insert (k, v) (set m)"
  by (induction m) auto

lemma put_wf:
  assumes "store_wf s"
  shows "store_wf (snd (store_put now key v s))"
proof (cases "fst (store_put now key v s)")
  case (Inl e)
  with evict_wf [OF assms, of now] assms show ?thesis
    by (auto simp: store_put_def Let_def split: if_splits)
next
  case (Inr u)
  let ?m = "evict_expired now (entries s)"
  let ?e = "\<lparr>entry_value = v, expires_at = now + default_ttl (store_cfg s)\<rparr>"
  from Inr have small: "length v \<le> max_bytes_per_entry (store_cfg s)"
    and room: "length ?m < max_entries (store_cfg s) \<or> key \<in> fst ` set ?m"
    and t: "snd (store_put now key v s) = s\<lparr>entries := AList.update key ?e ?m\<rparr>"
    by (auto simp: store_put_def Let_def map_of_eq_None_iff split: if_splits)
  from evict_wf [OF assms, of now] small room show ?thesis
    unfolding t store_wf_def
    by (auto simp: distinct_update length_update dest!: subsetD [OF set_update])
qed

lemma remove_wf: "store_wf s \<Longrightarrow> store_wf (snd (store_remove key s))"
  by (auto simp: store_wf_def store_remove_def AList.delete_eq distinct_map_filter
      intro: le_trans [OF length_filter_le])

inductive store_step :: "ephemeral_store \<Rightarrow> ephemeral_store \<Rightarrow> bool" where
  put: "store_step s (snd (store_put now key v s))"
| get: "store_step s (snd (store_get now key s))"
| remove: "store_step s (snd (store_remove key s))"

lemma step_wf: "store_step s t \<Longrightarrow> store_wf s \<Longrightarrow> store_wf t"
  by (induction rule: store_step.induct)
    (auto simp: put_wf remove_wf store_get_def Let_def evict_wf)

lemma steps_wf: "store_step\<^sup>*\<^sup>* s t \<Longrightarrow> store_wf s \<Longrightarrow> store_wf t"
  by (induction rule: rtranclp_induct) (auto intro: step_wf)

lemma step_cfg: "store_step s t \<Longrightarrow> store_cfg t = store_cfg s"
  by (induction rule: store_step.induct)
    (auto simp: store_put_def store_get_def store_remove_def Let_def)

lemma steps_cfg: "store_step\<^sup>*\<^sup>* s t \<Longrightarrow> store_cfg t = store_cfg s"
  by (induction rule: rtranclp_induct) (auto dest: step_cfg)

text \<open>C40. Memory is bounded: after any sequence of puts, gets and removals, at any times, a fresh
  store holds at most the configured number of entries, each at most the configured size.\<close>

theorem store_stays_bounded:
  assumes "store_step\<^sup>*\<^sup>* (store_new cfg) s"
  shows "length (entries s) \<le> max_entries cfg \<and>
    (\<forall>(k, e)\<in>set (entries s). length (entry_value e) \<le> max_bytes_per_entry cfg)"
proof -
  have "store_wf (store_new cfg)" by (simp add: store_wf_def store_new_def)
  from steps_wf [OF assms this] steps_cfg [OF assms] show ?thesis
    by (simp add: store_wf_def store_new_def)
qed

definition tiny_config :: store_config where
  "tiny_config = \<lparr>default_ttl = 10, max_entries = 1, max_bytes_per_entry = 2\<rparr>"

theorem store_stays_bounded_witness:
  "length (entries (snd (store_put 0 ''a'' [1] (store_new tiny_config)))) \<le> max_entries tiny_config"
  using store_stays_bounded [of tiny_config "snd (store_put 0 ''a'' [1] (store_new tiny_config))"]
    r_into_rtranclp [of store_step, OF store_step.put [of "store_new tiny_config" 0 "''a''" "[1]"]]
  by blast

text \<open>What is put is what is read, until it expires: in a well-formed store, after a successful
  put at time \<open>now\<close>, a get of that key at any later time gives the value before the time to live has
  passed and nothing from then on, while every other key reads as it would have without the put.\<close>

theorem put_then_get:
  assumes "store_wf s" "store_put now key v s = (Inr (), t)" "now \<le> later"
  shows "fst (store_get later k t) =
    (if k = key then if later < now + default_ttl (store_cfg s) then Some v else None
     else fst (store_get later k s))"
proof -
  let ?m = "evict_expired now (entries s)"
  let ?e = "\<lparr>entry_value = v, expires_at = now + default_ttl (store_cfg s)\<rparr>"
  from assms(2) have t: "t = s\<lparr>entries := AList.update key ?e ?m\<rparr>"
    by (auto simp: store_put_def Let_def split: if_splits)
  have d: "distinct (map fst (entries s))" using assms(1) by (simp add: store_wf_def)
  then have "distinct (map fst (AList.update key ?e ?m))"
    by (simp add: distinct_update evict_distinct)
  from map_of_evict [OF this, of later k]
  have "fst (store_get later k t) = map_option entry_value
      (case ((map_of ?m)(key \<mapsto> ?e)) k of
         None \<Rightarrow> None | Some e \<Rightarrow> if later < expires_at e then Some e else None)"
    by (simp add: t store_get_def Let_def update_conv')
  moreover have "fst (store_get later k s) = map_option entry_value
      (case map_of (entries s) k of
         None \<Rightarrow> None | Some e \<Rightarrow> if later < expires_at e then Some e else None)"
    by (simp add: store_get_def Let_def map_of_evict [OF d])
  ultimately show ?thesis
    using assms(3) by (auto simp: map_of_evict [OF d] split: option.split)
qed

theorem put_then_get_witness:
  "fst (store_get 3 ''a'' (snd (store_put 0 ''a'' [1] (store_new tiny_config)))) = Some [1]"
  using put_then_get [of "store_new tiny_config" 0 "''a''" "[1]"
      "snd (store_put 0 ''a'' [1] (store_new tiny_config))" 3 "''a''"]
  by (simp add: store_wf_def store_new_def store_put_def evict_expired_def tiny_config_def)

end
