(* ===== verification/Attest_Spki.thy ===== *)
theory Attest_Spki
  imports Attest_Snp
begin

text \<open>
  \<open>crates/openapi-attest/src/tls_spki.rs\<close>: the key of a TLS leaf certificate, found by walking its DER.
  The connection that delivers the certificates is a parameter.
\<close>

subsection \<open>The walker\<close>

definition der_header_len :: "bytes \<Rightarrow> attest_error + nat" where
  "der_header_len inp =
     (if length inp < 2 then Inl (AttestTls ''der short'')
      else let len_byte = inp ! 1
           in if len_byte AND 0x80 = 0 then Inr 2 else Inr (2 + unat (len_byte AND 0x7f)))"

definition be_value :: "bytes \<Rightarrow> nat" where
  "be_value bs = foldl (\<lambda>len b. len * 256 + unat b) 0 bs"

definition read_tlv :: "bytes \<Rightarrow> attest_error + u8 \<times> bytes \<times> bytes" where
  "read_tlv inp =
     (if length inp < 2 then Inl (AttestTls ''der truncated'')
      else let tag = inp ! 0; len_byte = inp ! 1
           in bindE (if len_byte AND 0x80 = 0 then Inr (2, unat len_byte)
                     else let n = unat (len_byte AND 0x7f)
                          in if n = 0 \<or> 4 < n \<or> length inp < 2 + n then Inl (AttestTls ''der length'')
                             else Inr (2 + n, be_value (take n (drop 2 inp)))) (\<lambda>(hdr, len).
              if length inp < hdr + len then Inl (AttestTls ''der out of range'')
              else Inr (tag, take len (drop hdr inp), drop (hdr + len) inp)))"

fun skip_tlvs :: "nat \<Rightarrow> bytes \<Rightarrow> attest_error + bytes" where
  "skip_tlvs 0 rest = Inr rest"
| "skip_tlvs (Suc n) rest = bindE (read_tlv rest) (\<lambda>(_, _, r). skip_tlvs n r)"

definition extract_spki_der :: "bytes \<Rightarrow> attest_error + bytes" where
  "extract_spki_der cert_der =
     bindE (read_tlv cert_der) (\<lambda>(tag, cert_body, _).
     if tag \<noteq> 0x30 then Inl (AttestTls ''cert not SEQUENCE'')
     else bindE (read_tlv cert_body) (\<lambda>(tag, tbs, _).
          if tag \<noteq> 0x30 then Inl (AttestTls ''tbs not SEQUENCE'')
          else bindE (if tbs \<noteq> [] \<and> hd tbs = 0xa0 then bindE (read_tlv tbs) (\<lambda>(_, _, r). Inr r) else Inr tbs)
            (\<lambda>rest.
          bindE (skip_tlvs 5 rest) (\<lambda>rest.
          bindE (der_header_len rest) (\<lambda>content_off.
          bindE (read_tlv rest) (\<lambda>(_, body, _).
          Inr (take (content_off + length body) rest)))))))"

definition spki_sha256_hex :: "'x ext_scheme \<Rightarrow> bytes \<Rightarrow> attest_error + string" where
  "spki_sha256_hex X cert_der = bindE (extract_spki_der cert_der) (\<lambda>spki. Inr (hex_encode X (sha256 X spki)))"

record peer_tls_identity =
  pe_spki_sha256_hex :: string
  pe_cert_sha256_hex :: string

definition identity_from_cert_der :: "'x ext_scheme \<Rightarrow> bytes \<Rightarrow> attest_error + peer_tls_identity" where
  "identity_from_cert_der X cert_der =
     bindE (spki_sha256_hex X cert_der) (\<lambda>spki.
     Inr \<lparr>pe_spki_sha256_hex = spki, pe_cert_sha256_hex = hex_encode X (sha256 X cert_der)\<rparr>)"

text \<open>The handshake with a host and port: an error of name, TCP or TLS, or the certificates of the peer.\<close>

type_synonym tls_peer = "string \<Rightarrow> nat \<Rightarrow> attest_error + bytes list option"

definition fetch_peer_tls_identity ::
    "'x ext_scheme \<Rightarrow> tls_peer \<Rightarrow> string \<Rightarrow> nat \<Rightarrow> attest_error + peer_tls_identity" where
  "fetch_peer_tls_identity X P host port =
     bindE (P host port) (\<lambda>peer.
     bindE (ok_or (AttestTls ''no peer certificates'') peer) (\<lambda>certs.
     case certs of
       [] \<Rightarrow> Inl (AttestTls ''empty peer chain'')
     | leaf # _ \<Rightarrow> identity_from_cert_der X leaf))"

definition fetch_peer_spki_sha256 :: "'x ext_scheme \<Rightarrow> tls_peer \<Rightarrow> string \<Rightarrow> nat \<Rightarrow> attest_error + string" where
  "fetch_peer_spki_sha256 X P host port =
     bindE (fetch_peer_tls_identity X P host port) (\<lambda>p. Inr (pe_spki_sha256_hex p))"

subsection \<open>Encoding\<close>

text \<open>DER as X.690 defines it for lengths below \<open>2 ^ 32\<close>: a short length in one byte, a longer one in as
  few bytes as it needs, after their number.\<close>

function be_bytes :: "nat \<Rightarrow> bytes" where
  "be_bytes n = (if n < 256 then [word_of_nat n] else be_bytes (n div 256) @ [word_of_nat (n mod 256)])"
  by pat_completeness auto
termination
  by (relation "measure (\<lambda>n. n)") auto

declare be_bytes.simps [simp del]

definition der_length :: "nat \<Rightarrow> bytes" where
  "der_length n = (if n < 128 then [word_of_nat n] else (0x80 OR word_of_nat (length (be_bytes n))) # be_bytes n)"

definition der :: "u8 \<Rightarrow> bytes \<Rightarrow> bytes" where
  "der tag body = tag # der_length (length body) @ body"

lemma be_value_snoc: "be_value (bs @ [b]) = be_value bs * 256 + unat b"
  by (simp add: be_value_def)

lemma unat_byte: "n < 256 \<Longrightarrow> unat (word_of_nat n :: u8) = n"
  by (simp add: unat_of_nat take_bit_eq_mod)

lemma be_value_be_bytes: "be_value (be_bytes n) = n"
proof (induction n rule: be_bytes.induct)
  case (1 n)
  show ?case
  proof (cases "n < 256")
    case True
    then show ?thesis by (subst be_bytes.simps) (simp add: be_value_def unat_byte)
  next
    case False
    with 1 show ?thesis by (subst be_bytes.simps) (simp add: be_value_snoc unat_byte)
  qed
qed

lemma length_be_bytes: "n < 256 ^ k \<Longrightarrow> 0 < k \<Longrightarrow> 0 < length (be_bytes n) \<and> length (be_bytes n) \<le> k"
proof (induction k arbitrary: n)
  case (Suc k)
  show ?case
  proof (cases "n < 256")
    case True
    then show ?thesis by (simp add: be_bytes.simps [of n])
  next
    case False
    with Suc.prems have "n div 256 < 256 ^ k" "0 < k" by (auto simp: div_less_iff_less_mult intro: ccontr)
    with Suc.IH [of "n div 256"] False show ?thesis by (simp add: be_bytes.simps [of n])
  qed
qed simp

lemma len_byte_short: "n < 128 \<Longrightarrow> (word_of_nat n :: u8) AND 0x80 = 0 \<and> unat (word_of_nat n :: u8) = n"
proof -
  assume "n < 128"
  then have n: "take_bit 7 n = n" by (simp add: take_bit_nat_eq_self_iff)
  have low: "i < 7" if "bit n i" for i
    using that by (subst (asm) n [symmetric]) (simp add: bit_take_bit_iff)
  have "\<not> bit (0x80 :: u8) i" if "i < 7" for i
    using that by (auto simp: less_Suc_eq numeral_eq_Suc)
  with low have "(word_of_nat n :: u8) AND 0x80 = 0"
    by (intro bit_word_eqI) (auto simp: bit_simps)
  then show ?thesis using \<open>n < 128\<close> by (simp add: unat_byte)
qed

lemma len_byte_long:
  assumes "0 < n" "n \<le> 4"
  shows "(0x80 OR word_of_nat n :: u8) AND 0x80 \<noteq> 0" "unat ((0x80 OR word_of_nat n :: u8) AND 0x7f) = n"
proof -
  from assms have "n = 1 \<or> n = 2 \<or> n = 3 \<or> n = 4" by auto
  then show "(0x80 OR word_of_nat n :: u8) AND 0x80 \<noteq> 0" "unat ((0x80 OR word_of_nat n :: u8) AND 0x7f) = n"
    by auto
qed

subsection \<open>Walking what was encoded\<close>

lemma read_tlv_der:
  assumes "length body < 2 ^ 32"
  shows "read_tlv (der tag body @ rest) = Inr (tag, body, rest)"
proof (cases "length body < 128")
  case True
  with len_byte_short [OF True] show ?thesis by (simp add: read_tlv_def der_def der_length_def Let_def)
next
  case False
  have k: "0 < length (be_bytes (length body))" "length (be_bytes (length body)) \<le> 4"
    using length_be_bytes [of "length body" 4] assms by simp_all
  with False len_byte_long [OF k] be_value_be_bytes [of "length body"] show ?thesis
    by (simp add: read_tlv_def der_def der_length_def Let_def)
qed

lemma der_header_len_der:
  assumes "length body < 2 ^ 32"
  shows "\<exists>h. der_header_len (der tag body @ rest) = Inr h \<and> h + length body = length (der tag body)"
proof (cases "length body < 128")
  case True
  with len_byte_short [OF True] show ?thesis by (simp add: der_header_len_def der_def der_length_def Let_def)
next
  case False
  have k: "0 < length (be_bytes (length body))" "length (be_bytes (length body)) \<le> 4"
    using length_be_bytes [of "length body" 4] assms by simp_all
  with False len_byte_long [OF k] show ?thesis
    by (simp add: der_header_len_def der_def der_length_def Let_def)
qed

lemma skip_tlvs_der:
  assumes "\<forall>(t, b)\<in>set fs. length b < 2 ^ 32"
  shows "skip_tlvs (length fs) (concat (map (\<lambda>(t, b). der t b) fs) @ rest) = Inr rest"
  using assms by (induction fs) (auto simp: read_tlv_der)

text \<open>A certificate: the fields of its body before the key, an optional version among them, the key, and
  what follows.\<close>

definition der_certificate :: "bytes option \<Rightarrow> (u8 \<times> bytes) list \<Rightarrow> u8 \<times> bytes \<Rightarrow> bytes \<Rightarrow> bytes \<Rightarrow> bytes" where
  "der_certificate version heads spki extensions signature =
     der 0x30 (der 0x30 ((case version of Some v \<Rightarrow> der 0xa0 v | None \<Rightarrow> []) @
        concat (map (\<lambda>(t, b). der t b) heads) @ der (fst spki) (snd spki) @ extensions) @ signature)"

lemma length_der: "length body \<le> length (der tag body)"
  by (simp add: der_def)

definition to_be_signed :: "bytes option \<Rightarrow> (u8 \<times> bytes) list \<Rightarrow> u8 \<times> bytes \<Rightarrow> bytes \<Rightarrow> bytes" where
  "to_be_signed version heads spki extensions =
     (case version of Some v \<Rightarrow> der 0xa0 v | None \<Rightarrow> []) @
     concat (map (\<lambda>(t, b). der t b) heads) @ der (fst spki) (snd spki) @ extensions"

lemma certificate_sizes:
  assumes "length (der_certificate version heads spki extensions signature) < 2 ^ 32"
  shows "length (der 0x30 (to_be_signed version heads spki extensions) @ signature) < 2 ^ 32"
    and "length (to_be_signed version heads spki extensions) < 2 ^ 32"
    and "\<forall>(t, b)\<in>set heads. length b < 2 ^ 32" and "length (snd spki) < 2 ^ 32"
    and "version = Some v \<Longrightarrow> length v < 2 ^ 32"
proof -
  let ?tbs = "to_be_signed version heads spki extensions"
  let ?fs = "concat (map (\<lambda>(t, b). der t b) heads)"
  show outer: "length (der 0x30 ?tbs @ signature) < 2 ^ 32"
    using assms length_der [of "der 0x30 ?tbs @ signature" "0x30"]
    unfolding der_certificate_def to_be_signed_def by linarith
  then show tbs: "length ?tbs < 2 ^ 32" using length_der [of ?tbs "0x30"] by simp
  have "length b \<le> length ?fs" if "(t, b) \<in> set heads" for t b
    using that length_der [of b t] by (induction heads) (auto intro: order_trans trans_le_add2)
  with tbs show "\<forall>(t, b)\<in>set heads. length b < 2 ^ 32" by (fastforce simp: to_be_signed_def)
  show "length (snd spki) < 2 ^ 32"
    using tbs length_der [of "snd spki" "fst spki"] by (simp add: to_be_signed_def)
  show "length v < 2 ^ 32" if "version = Some v"
    using tbs length_der [of v "0xa0"] that by (simp add: to_be_signed_def)
qed

text \<open>C29. The session key is found in every certificate: for each certificate with or without a version
  field, the walker returns exactly the encoded key, whatever the sizes of its fields and their
  encoded lengths, and the digest the verifier compares is the one of that key.\<close>

theorem spki_of_certificate:
  assumes "length (der_certificate version heads spki extensions signature) < 2 ^ 32" "length heads = 5"
    and "fst (hd heads) \<noteq> 0xa0"
  shows "spki_sha256_hex X (der_certificate version heads spki extensions signature) =
    Inr (hex_encode X (sha256 X (der (fst spki) (snd spki))))"
proof -
  let ?fs = "concat (map (\<lambda>(t, b). der t b) heads)" and ?key = "der (fst spki) (snd spki)"
  let ?tbs = "to_be_signed version heads spki extensions"
  note small = certificate_sizes [OF assms(1)]
  have outer: "read_tlv (der_certificate version heads spki extensions signature) = Inr (0x30, der 0x30 ?tbs @ signature, [])"
    using read_tlv_der [OF small(1), of "0x30" "[]"] by (simp add: der_certificate_def to_be_signed_def)
  have first: "(?fs @ ?key @ extensions) \<noteq> [] \<and> hd (?fs @ ?key @ extensions) \<noteq> 0xa0"
    using assms(2,3) by (cases heads) (auto simp: der_def split_beta)
  have version: "(if ?tbs \<noteq> [] \<and> hd ?tbs = 0xa0 then bindE (read_tlv ?tbs) (\<lambda>(_, _, r). Inr r) else Inr ?tbs) =
      Inr (?fs @ ?key @ extensions)"
  proof (cases version)
    case None
    with first show ?thesis by (simp add: to_be_signed_def)
  next
    case (Some v)
    then have "?tbs = der 0xa0 v @ ?fs @ ?key @ extensions" by (simp add: to_be_signed_def)
    with read_tlv_der [OF small(5) [OF Some]] show ?thesis by (simp add: der_def)
  qed
  obtain h where h: "der_header_len (?key @ extensions) = Inr h" "h + length (snd spki) = length ?key"
    using der_header_len_der [OF small(4)] by blast
  have "extract_spki_der (der_certificate version heads spki extensions signature) = Inr ?key"
    using skip_tlvs_der [OF small(3), of "?key @ extensions"] h read_tlv_der [OF small(2), of "0x30" signature]
      read_tlv_der [OF small(4)] assms(2)
    unfolding extract_spki_der_def outer by (simp add: version [simplified])
  then show ?thesis by (simp add: spki_sha256_hex_def)
qed

theorem spki_of_certificate_witness:
  "spki_sha256_hex chal_crates (der_certificate None [(2, [1]), (0x30, []), (0x30, []), (0x30, []), (0x30, [])]
      (0x30, [2, 1, 42]) [] [3, 1, 0]) = Inr (hex_encode chal_crates (sha256 chal_crates [0x30, 3, 2, 1, 42]))"
proof -
  let ?c = "der_certificate None [(2, [1]), (0x30, []), (0x30, []), (0x30, []), (0x30, [])] (0x30, [2, 1, 42]) [] [3, 1, 0]"
  have "length ?c < 2 ^ 32" "der 0x30 [2, 1, 42] = [0x30, 3, 2, 1, 42]"
    by (simp_all add: der_certificate_def der_def der_length_def)
  with spki_of_certificate [of None "[(2, [1]), (0x30, []), (0x30, []), (0x30, []), (0x30, [])]" "(0x30, [2, 1, 42])"
      "[]" "[3, 1, 0]" chal_crates]
  show ?thesis by simp
qed

text \<open>On any bytes at all the two readings of a header agree, so the slice that cuts out the key stays
  inside its input: a hostile certificate is refused or yields a part of itself.\<close>

lemma spki_slice_in_range:
  assumes "read_tlv rest = Inr (tag, body, r)" "der_header_len rest = Inr h"
  shows "h + length body + length r = length rest" "take (h + length body) rest @ r = rest"
  using assms
  by (auto simp: read_tlv_def der_header_len_def Let_def result_simps split: if_splits)

lemma skip_tlvs_suffix: "skip_tlvs n rest = Inr r \<Longrightarrow> suffix r rest"
proof (induction n arbitrary: rest)
  case (Suc n)
  then obtain t b r1 where "read_tlv rest = Inr (t, b, r1)" "skip_tlvs n r1 = Inr r"
    by (auto simp: result_simps)
  moreover from this(1) have "suffix r1 rest"
    by (auto simp: read_tlv_def Let_def result_simps suffix_drop split: if_splits)
  ultimately show ?case using Suc.IH suffix_order.trans by blast
qed simp

end
