(* ===== verification/Attest_Manifest.thy ===== *)
theory Attest_Manifest
  imports Attest_Spki Http1_Body Rfc3339
begin

text \<open>
  \<open>crates/openapi-attest/src/manifest.rs\<close>, \<open>golden.rs\<close>, \<open>ceremony.rs\<close> and \<open>github_release.rs\<close>: the published
  allowlists a verifier compares an edge with, where they are loaded from, and which of them are
  signed. The decoders of the documents, the web and the file system are parameters; the clock is read
  once per run.
\<close>

subsection \<open>The documents\<close>

text \<open>With the fields some code reads; \<open>published_at\<close>, notes and the like are only carried along.\<close>

record edge_release =
  er_build_version :: string
  er_code_hash :: string
  er_quote_formats :: "string list"
  er_golden_version :: "string option"
  er_policy_hash :: "string option"
  er_measurement :: measurement
  er_retired_at :: "string option"

record manifest_region =
  mr_region :: string
  mr_hostnames :: "string list"
  mr_active :: "edge_release list"
  mr_retired :: "edge_release list"

record manifest_policy =
  mp_reject_debug :: bool
  mp_require_session_spki_bind :: bool
  mp_require_runtime_policy_pin :: bool

record edge_manifest =
  em_schema :: string
  em_key_id :: string
  em_epoch :: nat
  em_not_after :: string
  em_retired_grace_period_days :: nat
  em_policy :: manifest_policy
  em_regions :: "manifest_region list"

record verified_manifest =
  vf_manifest :: edge_manifest
  vf_key_id :: string
  vf_bytes :: bytes

record golden_release =
  gr_golden_version :: string
  gr_tls_key_policy :: "string option"
  gr_launch_digest :: "string option"
  gr_image_digest :: "string option"
  gr_mr_enclave :: "string option"

record golden_backend =
  gb_active :: "golden_release list"
  gb_retired :: "golden_release list"

type_synonym golden_role = "string \<Rightarrow> golden_backend option"

record golden_manifest =
  gm_schema :: string
  gm_key_id :: string
  gm_epoch :: nat
  gm_not_after :: string
  gm_openapi :: "golden_role option"
  gm_gateway :: "golden_role option"
  gm_engine :: "golden_role option"

record verified_golden =
  vg_manifest :: golden_manifest
  vg_trust_source :: string

record ceremony_release =
  ce_spki_sha256 :: string
  ce_golden_version :: string
  ce_retired_at :: "string option"

record ceremony_manifest =
  cm_schema :: string
  cm_key_id :: string
  cm_epoch :: nat
  cm_not_after :: string
  cm_retired_grace_period_days :: nat
  cm_hostnames :: "string list"
  cm_active :: "ceremony_release list"
  cm_retired :: "ceremony_release list"

record gh_release =
  gh_tag_name :: string
  gh_html_url :: string
  gh_assets :: "(string \<times> string) list"

text \<open>The decoders of the crates, and the world a verifier runs in: its clock, what a GET answers (a
  transport error, or a status and the body or the error of reading it), and files.\<close>

record att_ext = snp_ext +
  edge_manifest_from_slice :: "bytes \<Rightarrow> string + edge_manifest"
  golden_from_slice :: "bytes \<Rightarrow> string + golden_manifest"
  ceremony_from_slice :: "bytes \<Rightarrow> string + ceremony_manifest"
  gh_release_from_slice :: "bytes \<Rightarrow> string + gh_release"
  signature_error :: string
  str_debug :: "string \<Rightarrow> string"

record att_world =
  aw_now :: nat
  aw_get :: "(string \<times> string) list \<Rightarrow> string \<Rightarrow> string + nat \<times> (string + bytes)"
  aw_read :: "string \<Rightarrow> string + bytes"

subsection \<open>Timestamps\<close>

text \<open>\<open>YYYY-MM-DDTHH:MM:SS(.mmm)Z\<close> in seconds; the arithmetic wraps at 64 bits.\<close>

definition att_num :: "(string \<Rightarrow> 'n option) \<Rightarrow> string \<Rightarrow> string list \<Rightarrow> attest_error + 'n \<times> string list" where
  "att_num parse what ps = map_err AttestManifest (next_num parse (''bad '' @ what) ps)"

definition parse_rfc3339_secs :: "string \<Rightarrow> attest_error + nat" where
  "parse_rfc3339_secs s0 =
     (let s = trim s0
      in bindE (ok_or (AttestManifest (''bad timestamp '' @ s))
                  (Option.bind (strip_suffix s ''Z'') (split_once (CHR ''T'')))) (\<lambda>(date, tim).
         bindE (att_num parse_i64 ''year'' (split_on (\<lambda>c. c = CHR ''-'') date)) (\<lambda>(y0, d).
         bindE (att_num parse_u32 ''month'' d) (\<lambda>(mo, d).
         bindE (att_num parse_u32 ''day'' d) (\<lambda>(day, _).
         bindE (att_num parse_u32 ''hour''
                  (split_on (\<lambda>c. c = CHR '':'') (hd (split_on (\<lambda>c. c = CHR ''.'') tim)))) (\<lambda>(hh, t).
         bindE (att_num parse_u32 ''minute'' t) (\<lambda>(mm, t).
         bindE (att_num parse_u32 ''second'' t) (\<lambda>(ss, _).
         let y = (if mo \<le> 2 then i64 (y0 - 1) else y0);
             era = y div 400;
             yoe = y mod 400;
             mp = (if 2 < mo then mo - 3 else mo + 9);
             doy = int ((153 * mp + 2) div 5) + int day - 1;
             doe = yoe * 365 + yoe div 4 - yoe div 100 + doy;
             days = i64 (era * 146097 + doe - 719468);
             secs = i64 (days * 86400 + int hh * 3600 + int mm * 60 + int ss)
         in if secs < 0 then Inl (AttestManifest ''timestamp before epoch'') else Inr (nat secs)))))))))"

subsection \<open>Signed manifests\<close>

definition PINNED_KEY_ID :: string where
  "PINNED_KEY_ID = ''openapi-attestation-v1''"

definition ATTEST_PINNED_PUBLIC_KEY_HEX :: string where
  "ATTEST_PINNED_PUBLIC_KEY_HEX = ''e2ea0bdac9f57cd912e45d3bcd11c46576273b72608b294fcc8660193db234b5''"

definition verifying_key_from_hex :: "'x engine_ext_scheme \<Rightarrow> string \<Rightarrow> attest_error + bytes" where
  "verifying_key_from_hex X hex_str =
     bindE (map_err AttestManifest (hex_decode X (trim hex_str))) (\<lambda>b.
     if length b \<noteq> 32 then Inl (AttestManifest ''public key must be 32 bytes'')
     else map_err AttestManifest (vk_from_bytes X b))"

definition load_pinned_verifying_key :: "'x engine_ext_scheme \<Rightarrow> attest_error + bytes" where
  "load_pinned_verifying_key X = verifying_key_from_hex X ATTEST_PINNED_PUBLIC_KEY_HEX"

definition verify_manifest_signature :: "'x ext_scheme \<Rightarrow> bytes \<Rightarrow> string \<Rightarrow> bytes \<Rightarrow> attest_error + unit" where
  "verify_manifest_signature X b sig_hex key =
     bindE (map_err (\<lambda>e. AttestManifest (''sig hex: '' @ e))
              (hex_decode X (filter (\<lambda>c. c \<notin> {CHR 0x0A, CHR '' '', CHR 0x0D}) (trim sig_hex)))) (\<lambda>sig_bytes.
     if length sig_bytes \<noteq> 64 then Inl (AttestManifest ''signature must be 64 bytes'')
     else if ed25519_verify X key b sig_bytes then Inr ()
     else Inl (AttestManifest ''Ed25519 signature invalid''))"

definition is_lower_hex :: "char \<Rightarrow> bool" where
  "is_lower_hex c \<longleftrightarrow> is_ascii_digit c \<or> (97 \<le> code c \<and> code c \<le> 102)"

definition validate_policy_hash :: "string option \<Rightarrow> string + unit" where
  "validate_policy_hash policy_hash =
     (case policy_hash of
        None \<Rightarrow> Inl ''policy_hash required by manifest policy''
      | Some v \<Rightarrow>
          if length v \<noteq> 64 \<or> \<not> list_all is_lower_hex v
          then Inl ''policy_hash must be 64 lowercase hexadecimal characters''
          else Inr ())"

fun validate_active :: "string \<Rightarrow> edge_release list \<Rightarrow> attest_error + unit" where
  "validate_active region [] = Inr ()"
| "validate_active region (rel # rels) =
     bindE (map_err (\<lambda>e. AttestManifest (''active release '' @ er_build_version rel @ '' in region '' @ region @
                     '': '' @ e)) (validate_policy_hash (er_policy_hash rel))) (\<lambda>_.
     validate_active region rels)"

fun validate_regions :: "manifest_region list \<Rightarrow> attest_error + unit" where
  "validate_regions [] = Inr ()"
| "validate_regions (r # rs) = bindE (validate_active (mr_region r) (mr_active r)) (\<lambda>_. validate_regions rs)"

definition parse_and_validate_manifest ::
    "'x att_ext_scheme \<Rightarrow> att_world \<Rightarrow> bytes \<Rightarrow> attest_error + edge_manifest" where
  "parse_and_validate_manifest X W b =
     bindE (map_err (\<lambda>e. AttestManifest (''json: '' @ e)) (edge_manifest_from_slice X b)) (\<lambda>m.
     if em_schema m \<noteq> ''teechat-openapi-edge-manifest/v1''
     then Inl (AttestManifest (''unsupported schema '' @ em_schema m))
     else bindE (parse_rfc3339_secs (em_not_after m)) (\<lambda>not_after.
     if not_after < aw_now W then Inl (AttestManifest (''manifest expired at '' @ em_not_after m))
     else if \<not> mp_require_runtime_policy_pin (em_policy m)
     then Inl (AttestManifest ''policy.require_runtime_policy_pin must be true'')
     else bindE (validate_regions (em_regions m)) (\<lambda>_. Inr m)))"

definition verify_signed_manifest_bytes ::
    "'x att_ext_scheme \<Rightarrow> att_world \<Rightarrow> bytes \<Rightarrow> string \<Rightarrow> attest_error + verified_manifest" where
  "verify_signed_manifest_bytes X W b sig_hex =
     bindE (load_pinned_verifying_key X) (\<lambda>pinned.
     bindE (verify_manifest_signature X b sig_hex pinned) (\<lambda>_.
     bindE (parse_and_validate_manifest X W b) (\<lambda>m.
     if em_key_id m \<noteq> PINNED_KEY_ID
     then Inl (AttestManifest (''unexpected key_id '' @ em_key_id m @ '' (pinned '' @ PINNED_KEY_ID @ '')''))
     else Inr \<lparr>vf_manifest = m, vf_key_id = em_key_id m, vf_bytes = b\<rparr>)))"

subsection \<open>The web and files\<close>

text \<open>\<open>replacen(from, to, 1)\<close> and \<open>replace\<close> of a non-empty pattern.\<close>

fun replace_first :: "string \<Rightarrow> string \<Rightarrow> string \<Rightarrow> string" where
  "replace_first p q [] = []"
| "replace_first p q (c # s) =
     (if prefix p (c # s) then q @ drop (length p) (c # s) else c # replace_first p q s)"

function (sequential) replace_all :: "string \<Rightarrow> string \<Rightarrow> string \<Rightarrow> string" where
  "replace_all p q [] = []"
| "replace_all p q (c # s) =
     (if p \<noteq> [] \<and> prefix p (c # s) then q @ replace_all p q (drop (length p) (c # s))
      else c # replace_all p q s)"
  by pat_completeness auto
termination
  by (relation "measure (\<lambda>(p, q, s). length s)") auto

definition web_bytes ::
    "(string \<Rightarrow> string) \<Rightarrow> att_world \<Rightarrow> (string \<times> string) list \<Rightarrow> string \<Rightarrow> attest_error + bytes" where
  "web_bytes ctx W headers url =
     (case aw_get W headers url of
        Inl e \<Rightarrow> Inl (AttestHttp (ctx e))
      | Inr (status, body) \<Rightarrow>
          if \<not> (200 \<le> status \<and> status < 300)
          then Inl (AttestHttp (ctx (''HTTP '' @ show_nat status)))
          else map_err AttestHttp body)"

definition http_get_bytes :: "att_world \<Rightarrow> string \<Rightarrow> attest_error + bytes" where
  "http_get_bytes W url =
     web_bytes (\<lambda>e. ''GET '' @ url @ '': '' @ e) W [(''Accept'', ''application/json, text/plain, */*'')] url"

definition http_get_github :: "att_world \<Rightarrow> string \<Rightarrow> attest_error + bytes" where
  "http_get_github W url =
     web_bytes (\<lambda>e. ''GET '' @ url @ '': '' @ e) W
       [(''Accept'', ''application/vnd.github+json, application/octet-stream, */*''),
        (''User-Agent'', ''teechat-openapi-attest'')] url"

text \<open>No status is checked here; the agent reports one from 400 on as an error.\<close>

definition fetch_url :: "att_world \<Rightarrow> string \<Rightarrow> attest_error + bytes" where
  "fetch_url W url =
     (case aw_get W [] url of Inl e \<Rightarrow> Inl (AttestHttp e) | Inr (status, body) \<Rightarrow> map_err AttestHttp body)"

definition utf8_text :: "(string \<Rightarrow> attest_error) \<Rightarrow> bytes \<Rightarrow> attest_error + string" where
  "utf8_text err b = (case from_utf8 b of Some s \<Rightarrow> Inr s | None \<Rightarrow> Inl (err (utf8_error b)))"

definition read_text :: "att_world \<Rightarrow> string \<Rightarrow> attest_error + string" where
  "read_text W path =
     bindE (map_err AttestIo (aw_read W path)) (\<lambda>b.
     ok_or (AttestIo ''stream did not contain valid UTF-8'') (from_utf8 b))"

definition fetch_signed_manifest ::
    "'x att_ext_scheme \<Rightarrow> att_world \<Rightarrow> string \<Rightarrow> attest_error + verified_manifest" where
  "fetch_signed_manifest X W url =
     (let sig_url = (if suffix ''manifest.json'' url then replace_first ''manifest.json'' ''manifest.sig'' url
                     else url @ ''.sig'')
      in bindE (http_get_bytes W url) (\<lambda>b.
         bindE (http_get_bytes W sig_url) (\<lambda>raw.
         bindE (utf8_text (\<lambda>e. AttestManifest (''sig utf8: '' @ e)) raw) (\<lambda>sig.
         verify_signed_manifest_bytes X W b sig))))"

definition load_signed_manifest_files ::
    "'x att_ext_scheme \<Rightarrow> att_world \<Rightarrow> string \<Rightarrow> string \<Rightarrow> attest_error + verified_manifest" where
  "load_signed_manifest_files X W manifest_path sig_path =
     bindE (map_err AttestIo (aw_read W manifest_path)) (\<lambda>b.
     bindE (read_text W sig_path) (\<lambda>sig.
     verify_signed_manifest_bytes X W b sig))"

subsection \<open>Rows of the manifest\<close>

fun measurement_eq :: "measurement \<Rightarrow> measurement \<Rightarrow> bool" where
  "measurement_eq (Mrenclave a) (Mrenclave b) = eq_ignore_ascii_case a b"
| "measurement_eq (LaunchDigest la ia) (LaunchDigest lb ib) =
     (eq_ignore_ascii_case la lb \<and> eq_ignore_ascii_case ia ib)"
| "measurement_eq _ _ = False"

definition saturating_mul64 :: "nat \<Rightarrow> nat \<Rightarrow> nat" where
  "saturating_mul64 a b = min (a * b) u64_max"

definition saturating_sum64 :: "nat \<Rightarrow> nat \<Rightarrow> nat" where
  "saturating_sum64 a b = min (a + b) u64_max"

text \<open>A row that matches in every field before its retirement is looked at.\<close>

definition row_matches :: "edge_identity \<Rightarrow> quote_format \<Rightarrow> edge_release \<Rightarrow> bool" where
  "row_matches e fmt rel \<longleftrightarrow>
     er_build_version rel = ei_build_version e \<and>
     eq_ignore_ascii_case (er_code_hash rel) (ei_code_hash e) \<and>
     measurement_eq (er_measurement rel) (ei_measurement e) \<and>
     quote_format_as_str fmt \<in> set (er_quote_formats rel) \<and>
     (case (er_policy_hash rel, ei_policy_hash e) of
        (Some want, Some got) \<Rightarrow> eq_ignore_ascii_case want got | _ \<Rightarrow> False)"

definition in_grace :: "att_world \<Rightarrow> edge_manifest \<Rightarrow> string \<Rightarrow> attest_error + bool" where
  "in_grace W m retired_at =
     bindE (parse_rfc3339_secs retired_at) (\<lambda>retired.
     Inr (\<not> saturating_sum64 retired (saturating_mul64 (em_retired_grace_period_days m) 86400) < aw_now W))"

fun matching_rows ::
    "att_world \<Rightarrow> edge_manifest \<Rightarrow> edge_identity \<Rightarrow> quote_format \<Rightarrow> edge_release list
       \<Rightarrow> attest_error + edge_release list" where
  "matching_rows W m e fmt [] = Inr []"
| "matching_rows W m e fmt (rel # rels) =
     (if \<not> row_matches e fmt rel then matching_rows W m e fmt rels
      else bindE (case er_retired_at rel of None \<Rightarrow> Inr True | Some at \<Rightarrow> in_grace W m at) (\<lambda>live.
           bindE (matching_rows W m e fmt rels) (\<lambda>out. Inr (if live then rel # out else out))))"

definition find_matching_releases ::
    "att_world \<Rightarrow> edge_manifest \<Rightarrow> string \<Rightarrow> edge_identity \<Rightarrow> quote_format \<Rightarrow> attest_error + edge_release list" where
  "find_matching_releases W m hostname e fmt =
     (case find (\<lambda>r. list_ex (\<lambda>h. eq_ignore_ascii_case h (to_ascii_lowercase hostname)) (mr_hostnames r)) (em_regions m) of
        None \<Rightarrow> Inl (AttestPolicy (''hostname '' @ hostname @ '' not in manifest''))
      | Some region \<Rightarrow>
          bindE (matching_rows W m e fmt (mr_active region @ mr_retired region)) (\<lambda>out.
          if out = []
          then Inl (AttestPolicy ''edge measurement/build/code_hash/policy_hash not on allowlist for this hostname'')
          else Inr out))"

definition find_matching_release ::
    "att_world \<Rightarrow> edge_manifest \<Rightarrow> string \<Rightarrow> edge_identity \<Rightarrow> quote_format \<Rightarrow> attest_error + edge_release" where
  "find_matching_release W m hostname e fmt =
     bindE (find_matching_releases W m hostname e fmt) (\<lambda>rels. Inr (rels ! 0))"

subsection \<open>Golden digests\<close>

definition GOLDEN_SCHEMA :: string where
  "GOLDEN_SCHEMA = ''teechat-golden-digests-manifest/v1''"

definition GOLDEN_KEY_ID :: string where
  "GOLDEN_KEY_ID = ''golden-digests-v1''"

definition DEFAULT_GOLDEN_RELEASE_TAG :: string where
  "DEFAULT_GOLDEN_RELEASE_TAG = ''epoch-76-engine-app-0.15.6''"

definition DEFAULT_GOLDEN_WWW_URL :: string where
  "DEFAULT_GOLDEN_WWW_URL = ''https://www.teechat.ai/.well-known/teechat/golden/manifest.json''"

record golden_load_options =
  go_github_owner :: string
  go_github_repo :: string
  go_github_tag :: "string option"
  go_www_url :: "string option"
  go_manifest_path :: "string option"
  go_manifest_sig_path :: "string option"
  go_prefer_www :: bool

definition golden_options_default :: golden_load_options where
  "golden_options_default =
     \<lparr>go_github_owner = ''Lightec-AI'', go_github_repo = ''teechat-golden-digests'', go_github_tag = None,
      go_www_url = Some DEFAULT_GOLDEN_WWW_URL, go_manifest_path = None, go_manifest_sig_path = None,
      go_prefer_www = False\<rparr>"

definition parse_golden_manifest :: "'x att_ext_scheme \<Rightarrow> bytes \<Rightarrow> attest_error + golden_manifest" where
  "parse_golden_manifest X b =
     bindE (map_err (\<lambda>e. AttestManifest (''golden json: '' @ e)) (golden_from_slice X b)) (\<lambda>m.
     if gm_schema m \<noteq> GOLDEN_SCHEMA then Inl (AttestManifest (''unsupported golden schema '' @ gm_schema m))
     else if gm_key_id m \<noteq> GOLDEN_KEY_ID
     then Inl (AttestManifest (''unexpected golden key_id '' @ gm_key_id m @ '' (want '' @ GOLDEN_KEY_ID @ '')''))
     else Inr m)"

definition verify_signed_golden_bytes ::
    "'x att_ext_scheme \<Rightarrow> bytes \<Rightarrow> string \<Rightarrow> attest_error + verified_golden" where
  "verify_signed_golden_bytes X b sig_hex =
     bindE (load_pinned_verifying_key X) (\<lambda>key.
     bindE (verify_manifest_signature X b sig_hex key) (\<lambda>_.
     bindE (parse_golden_manifest X b) (\<lambda>m.
     Inr \<lparr>vg_manifest = m, vg_trust_source = ''teechat_fallback''\<rparr>)))"

definition load_signed_golden_files ::
    "'x att_ext_scheme \<Rightarrow> att_world \<Rightarrow> string \<Rightarrow> string \<Rightarrow> attest_error + verified_golden" where
  "load_signed_golden_files X W manifest_path sig_path =
     bindE (map_err AttestIo (aw_read W manifest_path)) (\<lambda>b.
     bindE (read_text W sig_path) (\<lambda>sig.
     bindE (verify_signed_golden_bytes X b sig) (\<lambda>v. Inr (v\<lparr>vg_trust_source := ''local''\<rparr>))))"

definition fetch_signed_golden_www :: "'x att_ext_scheme \<Rightarrow> att_world \<Rightarrow> string \<Rightarrow> attest_error + verified_golden" where
  "fetch_signed_golden_www X W url =
     (let sig_url = (if suffix ''manifest.json'' url then replace_first ''manifest.json'' ''manifest.sig'' url
                     else url @ ''.sig'')
      in bindE (http_get_bytes W url) (\<lambda>b.
         bindE (http_get_bytes W sig_url) (\<lambda>raw.
         bindE (utf8_text (\<lambda>e. AttestManifest (''golden sig utf8: '' @ e)) raw) (\<lambda>sig.
         verify_signed_golden_bytes X b sig))))"

definition fetch_github_golden_digests ::
    "'x att_ext_scheme \<Rightarrow> att_world \<Rightarrow> string \<Rightarrow> string \<Rightarrow> string option \<Rightarrow> attest_error + verified_golden" where
  "fetch_github_golden_digests X W owner repo tag =
     bindE (case trimmed_nonempty tag of
              Some t \<Rightarrow>
                if t = ''latest''
                then Inl (AttestManifest ''golden releases/latest is refused (RB-04); pass --golden-github-tag epoch-N'')
                else Inr t
            | None \<Rightarrow> Inr DEFAULT_GOLDEN_RELEASE_TAG) (\<lambda>tag.
     bindE (http_get_bytes W (''https://github.com/'' @ owner @ ''/'' @ repo @ ''/releases/download/'' @ tag @
              ''/golden-digests.json'')) (\<lambda>b.
     bindE (parse_golden_manifest X b) (\<lambda>m.
     Inr \<lparr>vg_manifest = m, vg_trust_source = ''github''\<rparr>)))"

definition load_golden_digests ::
    "'x att_ext_scheme \<Rightarrow> att_world \<Rightarrow> golden_load_options \<Rightarrow> attest_error + verified_golden" where
  "load_golden_digests X W opts =
     (let www = (case go_www_url opts of Some u \<Rightarrow> u | None \<Rightarrow> DEFAULT_GOLDEN_WWW_URL)
      in (case (go_manifest_path opts, go_manifest_sig_path opts) of
            (Some mp, Some sp) \<Rightarrow> load_signed_golden_files X W mp sp
          | _ \<Rightarrow>
              if go_prefer_www opts then fetch_signed_golden_www X W www
              else (case fetch_github_golden_digests X W (go_github_owner opts) (go_github_repo opts)
                           (go_github_tag opts) of
                      Inr v \<Rightarrow> Inr v
                    | Inl gh_err \<Rightarrow>
                        bindE (fetch_signed_golden_www X W www) (\<lambda>v.
                        Inr (v\<lparr>vg_trust_source := ''teechat_fallback (GitHub error: '' @
                                  attest_error_to_string gh_err @ '')''\<rparr>)))))"

definition find_golden_release ::
    "golden_manifest \<Rightarrow> string \<Rightarrow> string \<Rightarrow> string \<Rightarrow> attest_error + golden_release" where
  "find_golden_release m role backend golden_version =
     bindE (if role = ''openapi'' then Inr (gm_openapi m)
            else if role = ''gateway'' then Inr (gm_gateway m)
            else if role = ''engine'' then Inr (gm_engine m)
            else Inl (AttestPolicy (''unknown golden role '' @ role))) (\<lambda>role_opt.
     bindE (ok_or (AttestPolicy (''golden role '' @ role @ '' missing'')) role_opt) (\<lambda>role_obj.
     bindE (ok_or (AttestPolicy (''golden backend '' @ backend @ '' missing for '' @ role)) (role_obj backend)) (\<lambda>b.
     ok_or (AttestPolicy (''golden_version '' @ golden_version @ '' not on allowlist for '' @ role @ ''/'' @ backend))
       (find (\<lambda>rel. gr_golden_version rel = golden_version) (gb_active b @ gb_retired b)))))"

fun measurement_matches_golden :: "golden_release \<Rightarrow> measurement \<Rightarrow> bool" where
  "measurement_matches_golden g (LaunchDigest ld im) =
     (case (gr_launch_digest g, gr_image_digest g) of
        (Some gl, Some gi) \<Rightarrow> eq_ignore_ascii_case gl ld \<and> eq_ignore_ascii_case gi im | _ \<Rightarrow> False)"
| "measurement_matches_golden g (Mrenclave v) =
     (case gr_mr_enclave g of Some m \<Rightarrow> eq_ignore_ascii_case m v | None \<Rightarrow> False)"

fun golden_os_pin_matches :: "golden_release \<Rightarrow> measurement \<Rightarrow> bool" where
  "golden_os_pin_matches g (LaunchDigest ld im) =
     (case gr_image_digest g of Some gi \<Rightarrow> eq_ignore_ascii_case gi im | None \<Rightarrow> False)"
| "golden_os_pin_matches g (Mrenclave v) =
     (case gr_mr_enclave g of Some m \<Rightarrow> eq_ignore_ascii_case m v | None \<Rightarrow> False)"

subsection \<open>The ceremony allowlist\<close>

definition CEREMONY_SCHEMA :: string where
  "CEREMONY_SCHEMA = ''teechat-openapi-tls-ceremony/v1''"

definition DEFAULT_CEREMONY_WWW_URL :: string where
  "DEFAULT_CEREMONY_WWW_URL = ''https://www.teechat.ai/.well-known/teechat/openapi-tls-ceremony/manifest.json''"

record ceremony_load_options =
  co_manifest_path :: "string option"
  co_manifest_sig_path :: "string option"
  co_www_url :: "string option"

definition ceremony_options_default :: ceremony_load_options where
  "ceremony_options_default = \<lparr>co_manifest_path = None, co_manifest_sig_path = None, co_www_url = None\<rparr>"

definition parse_ceremony_manifest :: "'x att_ext_scheme \<Rightarrow> bytes \<Rightarrow> attest_error + ceremony_manifest" where
  "parse_ceremony_manifest X b =
     bindE (map_err (\<lambda>e. AttestManifest (''ceremony json: '' @ e)) (ceremony_from_slice X b)) (\<lambda>m.
     if cm_schema m \<noteq> CEREMONY_SCHEMA then Inl (AttestManifest (''unsupported ceremony schema '' @ cm_schema m))
     else if cm_key_id m \<noteq> PINNED_KEY_ID
     then Inl (AttestManifest (''unexpected ceremony key_id '' @ cm_key_id m @ '' (want '' @ PINNED_KEY_ID @ '')''))
     else Inr m)"

definition ceremony_verify_sig :: "'x att_ext_scheme \<Rightarrow> bytes \<Rightarrow> string \<Rightarrow> attest_error + unit" where
  "ceremony_verify_sig X b sig_hex =
     bindE (map_err (\<lambda>e. AttestManifest (''pinned pubkey: '' @ e)) (hex_decode X ATTEST_PINNED_PUBLIC_KEY_HEX)) (\<lambda>pk.
     if length pk \<noteq> 32 then Inl (AttestManifest ''pinned pubkey length'')
     else bindE (map_err (\<lambda>e. AttestManifest (''pubkey: '' @ e)) (vk_from_bytes X pk)) (\<lambda>vk.
     bindE (map_err (\<lambda>e. AttestManifest (''ceremony sig hex: '' @ e)) (hex_decode X (trim sig_hex))) (\<lambda>sig_raw.
     bindE (map_err (\<lambda>e. AttestManifest (''ceremony sig: '' @ e)) (sig_from_slice X sig_raw)) (\<lambda>sig.
     if ed25519_verify X vk b sig then Inr ()
     else Inl (AttestManifest (''ceremony signature: '' @ signature_error X))))))"

definition load_signed_ceremony_files ::
    "'x att_ext_scheme \<Rightarrow> att_world \<Rightarrow> string \<Rightarrow> string \<Rightarrow> attest_error + ceremony_manifest \<times> string" where
  "load_signed_ceremony_files X W manifest_path sig_path =
     bindE (map_err AttestIo (aw_read W manifest_path)) (\<lambda>b.
     bindE (read_text W sig_path) (\<lambda>sig.
     bindE (ceremony_verify_sig X b sig) (\<lambda>_.
     bindE (parse_ceremony_manifest X b) (\<lambda>m. Inr (m, ''local'')))))"

definition load_ceremony_allowlist ::
    "'x att_ext_scheme \<Rightarrow> att_world \<Rightarrow> ceremony_load_options \<Rightarrow> attest_error + ceremony_manifest \<times> string" where
  "load_ceremony_allowlist X W opts =
     (case (co_manifest_path opts, co_manifest_sig_path opts) of
        (Some mp, Some sp) \<Rightarrow> load_signed_ceremony_files X W mp sp
      | _ \<Rightarrow>
          let www = (case co_www_url opts of Some u \<Rightarrow> u | None \<Rightarrow> DEFAULT_CEREMONY_WWW_URL)
          in bindE (fetch_url W www) (\<lambda>b.
             bindE (fetch_url W (if suffix ''manifest.json'' www then replace_all ''manifest.json'' ''manifest.sig'' www
                                 else www @ ''.sig'')) (\<lambda>raw.
             bindE (utf8_text (\<lambda>e. AttestHttp (''ceremony sig utf8: '' @ e)) raw) (\<lambda>sig.
             bindE (ceremony_verify_sig X b sig) (\<lambda>_.
             bindE (parse_ceremony_manifest X b) (\<lambda>m. Inr (m, ''teechat_fallback'')))))))"

fun retired_ceremony :: "att_world \<Rightarrow> nat \<Rightarrow> string \<Rightarrow> ceremony_release list \<Rightarrow> ceremony_release option" where
  "retired_ceremony W grace h [] = None"
| "retired_ceremony W grace h (r # rs) =
     (if \<not> eq_ignore_ascii_case (ce_spki_sha256 r) h then retired_ceremony W grace h rs
      else (case ce_retired_at r of
              None \<Rightarrow> Some r
            | Some at \<Rightarrow>
                (case parse_rfc3339_secs at of
                   Inr retired \<Rightarrow> if aw_now W \<le> saturating_sum64 retired grace then Some r
                                  else retired_ceremony W grace h rs
                 | Inl _ \<Rightarrow> retired_ceremony W grace h rs)))"

definition find_ceremony_release_by_spki :: "att_world \<Rightarrow> ceremony_manifest \<Rightarrow> string \<Rightarrow> ceremony_release option" where
  "find_ceremony_release_by_spki W m spki_sha256 =
     (let h = to_ascii_lowercase (trim spki_sha256)
      in (case find (\<lambda>r. eq_ignore_ascii_case (ce_spki_sha256 r) h) (cm_active m) of
            Some r \<Rightarrow> Some r
          | None \<Rightarrow> retired_ceremony W (saturating_mul64 (cm_retired_grace_period_days m) 86400) h (cm_retired m)))"

definition spki_on_ceremony_allowlist :: "att_world \<Rightarrow> ceremony_manifest \<Rightarrow> string \<Rightarrow> bool" where
  "spki_on_ceremony_allowlist W m spki_sha256 \<longleftrightarrow> find_ceremony_release_by_spki W m spki_sha256 \<noteq> None"

definition ceremony_pin_required :: "ceremony_manifest \<Rightarrow> bool" where
  "ceremony_pin_required m \<longleftrightarrow> cm_active m \<noteq> []"

subsection \<open>GitHub releases\<close>

definition DEFAULT_OPENAPI_RELEASE_TAG :: string where
  "DEFAULT_OPENAPI_RELEASE_TAG = ''v0.11.1''"

definition resolve_openapi_release_tag :: "string option \<Rightarrow> bool \<Rightarrow> attest_error + string" where
  "resolve_openapi_release_tag tag allow_latest =
     (case trimmed_nonempty tag of
        Some t \<Rightarrow>
          if t = ''latest'' then
            if allow_latest then Inr ''latest''
            else Inl (AttestPolicy ''releases/latest is refused (RB-04); pass --github-tag vX.Y.Z'')
          else Inr t
      | None \<Rightarrow> Inr DEFAULT_OPENAPI_RELEASE_TAG)"

definition assert_not_mutable_latest_url :: "string \<Rightarrow> attest_error + unit" where
  "assert_not_mutable_latest_url url =
     (if contains url ''/releases/latest''
      then Inl (AttestPolicy (''mutable releases/latest URL refused (RB-04): '' @ url)) else Inr ())"

definition github_releases_api_url :: "string \<Rightarrow> string \<Rightarrow> string option \<Rightarrow> string" where
  "github_releases_api_url owner repo tag =
     ''https://api.github.com/repos/'' @ owner @ ''/'' @ repo @ ''/releases/'' @
     (case tag of
        Some t \<Rightarrow> if t = ''latest'' then ''latest'' else if t \<noteq> [] then ''tags/'' @ t
                  else ''tags/'' @ DEFAULT_OPENAPI_RELEASE_TAG
      | None \<Rightarrow> ''tags/'' @ DEFAULT_OPENAPI_RELEASE_TAG)"

definition github_releases_html_url :: "string \<Rightarrow> string \<Rightarrow> string" where
  "github_releases_html_url owner repo = ''https://github.com/'' @ owner @ ''/'' @ repo @ ''/releases''"

fun sha256sums_lines :: "string list \<Rightarrow> attest_error + string list" where
  "sha256sums_lines [] = Inr []"
| "sha256sums_lines (l # ls) =
     (let line = trim l
      in if line = [] \<or> starts_with line ''#'' then sha256sums_lines ls
         else (case split_whitespace line of
                 [] \<Rightarrow> Inl (AttestManifest ''SHA256SUMS: empty line'')
               | h # _ \<Rightarrow>
                   if length h \<noteq> 64 \<or> \<not> list_all is_ascii_hexdigit h
                   then Inl (AttestManifest (''SHA256SUMS: bad digest '' @ h))
                   else bindE (sha256sums_lines ls) (\<lambda>out. Inr (to_ascii_lowercase h # out))))"

definition parse_sha256sums :: "string \<Rightarrow> attest_error + string list" where
  "parse_sha256sums txt = sha256sums_lines (str_lines txt)"

record github_release_trust =
  gt_manifest :: verified_manifest
  gt_release_html_url :: string
  gt_release_tag :: string
  gt_sha256sums :: "string list option"

definition fetch_sha256sums :: "att_world \<Rightarrow> string \<Rightarrow> attest_error + string list" where
  "fetch_sha256sums W url =
     bindE (http_get_github W url) (\<lambda>raw.
     bindE (utf8_text (\<lambda>e. AttestManifest (''SHA256SUMS utf8: '' @ e)) raw) parse_sha256sums)"

definition fetch_github_release_trust_resolved ::
    "'x att_ext_scheme \<Rightarrow> att_world \<Rightarrow> string \<Rightarrow> string \<Rightarrow> string option \<Rightarrow> bool
       \<Rightarrow> attest_error + github_release_trust" where
  "fetch_github_release_trust_resolved X W owner repo tag allow_latest =
     bindE (resolve_openapi_release_tag tag allow_latest) (\<lambda>tag.
     bindE (http_get_github W (github_releases_api_url owner repo (Some tag))) (\<lambda>body.
     bindE (map_err (\<lambda>e. AttestHttp (''GitHub release JSON: '' @ e)) (gh_release_from_slice X body)) (\<lambda>release.
     bindE (ok_or (AttestManifest (''GitHub release '' @ gh_tag_name release @ '' missing asset openapi-edge-attest.json''))
              (map_option snd (find (\<lambda>a. fst a = ''openapi-edge-attest.json'') (gh_assets release)))) (\<lambda>attest_url.
     bindE (http_get_github W attest_url) (\<lambda>attest_bytes.
     bindE (parse_and_validate_manifest X W attest_bytes) (\<lambda>m.
     bindE (case find (\<lambda>a. fst a = ''SHA256SUMS'') (gh_assets release) of
              Some a \<Rightarrow> bindE (fetch_sha256sums W (snd a)) (\<lambda>sums. Inr (Some sums))
            | None \<Rightarrow> Inr None) (\<lambda>sums.
     Inr \<lparr>gt_manifest = \<lparr>vf_manifest = m, vf_key_id = ''github:'' @ repo @ '':'' @ gh_tag_name release,
                         vf_bytes = attest_bytes\<rparr>,
          gt_release_html_url = gh_html_url release, gt_release_tag = gh_tag_name release,
          gt_sha256sums = sums\<rparr>)))))))"

definition cross_check_code_hash_against_sha256sums :: "string \<Rightarrow> string list option \<Rightarrow> attest_error + unit" where
  "cross_check_code_hash_against_sha256sums code_hash sums =
     (case sums of
        None \<Rightarrow> Inr ()
      | Some ds \<Rightarrow>
          if ds = [] then Inl (AttestPolicy ''SHA256SUMS is empty'')
          else if \<not> list_ex (\<lambda>d. eq_ignore_ascii_case d (to_ascii_lowercase code_hash)) ds
          then Inl (AttestPolicy (''edge code_hash '' @ code_hash @ '' not present in GitHub release SHA256SUMS''))
          else Inr ())"

definition version_tag :: "string \<Rightarrow> string" where
  "version_tag v = (if starts_with v ''v'' then v else ''v'' @ v)"

definition cross_check_code_hash_for_edge ::
    "att_world \<Rightarrow> string \<Rightarrow> string \<Rightarrow> string \<Rightarrow> string \<Rightarrow> string list option \<Rightarrow> attest_error + unit" where
  "cross_check_code_hash_for_edge W code_hash build_version owner repo latest =
     (if is_ok (cross_check_code_hash_against_sha256sums code_hash latest) then Inr ()
      else let url = ''https://github.com/'' @ owner @ ''/'' @ repo @ ''/releases/download/'' @
                     version_tag build_version @ ''/SHA256SUMS''
           in (case http_get_github W url of
                 Inr raw \<Rightarrow>
                   bindE (utf8_text (\<lambda>e. AttestManifest (''SHA256SUMS utf8: '' @ e)) raw) (\<lambda>txt.
                   bindE (parse_sha256sums txt) (\<lambda>sums.
                   cross_check_code_hash_against_sha256sums code_hash (Some sums)))
               | Inl e \<Rightarrow>
                   Inl (AttestPolicy (''edge code_hash '' @ code_hash @ '' not in latest SHA256SUMS and failed to fetch '' @
                          url @ '': '' @ attest_error_to_string e))))"

definition fallback_tip :: "string \<Rightarrow> string \<Rightarrow> string option \<Rightarrow> string" where
  "fallback_tip owner repo release_html_url =
     (let page = (case release_html_url of
                    Some s \<Rightarrow> if s \<noteq> [] then s else github_releases_html_url owner repo
                  | None \<Rightarrow> github_releases_html_url owner repo)
      in ''GitHub Releases were unreachable; used the teechat.ai signed allowlist as a network fallback. When you can reach GitHub, open '' @
         page @ '' and confirm the release asset openapi-edge-attest.json (and SHA256SUMS) lists the same build_version / code_hash / measurement as this result.'')"

definition load_unsigned_allowlist_bytes ::
    "'x att_ext_scheme \<Rightarrow> att_world \<Rightarrow> bytes \<Rightarrow> attest_error + verified_manifest" where
  "load_unsigned_allowlist_bytes X W b =
     bindE (parse_and_validate_manifest X W b) (\<lambda>m.
     Inr \<lparr>vf_manifest = m, vf_key_id = ''local-unsigned'', vf_bytes = b\<rparr>)"

end
