(* ===== verification/Disk.thy ===== *)
theory Disk
  imports Rust_Std
begin

text \<open>
  The parts of \<open>std::fs\<close> the guest uses: regular files by path, symbolic links that name their canonical
  target, and directories with the names they may list. A call may fail with an error the host chooses;
  a write that fails may leave anything behind.
\<close>

record disk =
  dk_file :: "string \<Rightarrow> bytes option"
  dk_link :: "string \<Rightarrow> string option"
  dk_dir :: "string \<Rightarrow> string list option"

datatype fs_call = FsMkdir | FsRead | FsOpen | FsWrite | FsSync | FsRemove | FsList | FsChmod

record fs_faults =
  ff_fault :: "fs_call \<Rightarrow> string \<Rightarrow> string option"
  ff_torn :: "string \<Rightarrow> bytes option"

definition no_fs_faults :: fs_faults where
  "no_fs_faults = \<lparr>ff_fault = \<lambda>c p. None, ff_torn = \<lambda>p. None\<rparr>"

definition ENOENT :: string where
  "ENOENT = ''No such file or directory (os error 2)''"

definition fs_guard :: "fs_faults \<Rightarrow> fs_call \<Rightarrow> string \<Rightarrow> (disk, string, unit) op" where
  "fs_guard F c p d = (case ff_fault F c p of Some e \<Rightarrow> (Inl e, d) | None \<Rightarrow> (Inr (), d))"

text \<open>\<open>canonicalize\<close>, \<open>exists\<close>, and \<open>join\<close> with a relative path.\<close>

definition fs_canon :: "disk \<Rightarrow> string \<Rightarrow> string" where
  "fs_canon d p = (case dk_link d p of Some q \<Rightarrow> q | None \<Rightarrow> p)"

definition fs_exists :: "disk \<Rightarrow> string \<Rightarrow> bool" where
  "fs_exists d p \<longleftrightarrow> dk_file d (fs_canon d p) \<noteq> None"

definition path_join :: "string \<Rightarrow> string \<Rightarrow> string" where
  "path_join dir name = (if dir = [] \<or> last dir = CHR ''/'' then dir @ name else dir @ ''/'' @ name)"

definition fs_create_dir_all :: "fs_faults \<Rightarrow> string \<Rightarrow> (disk, string, unit) op" where
  "fs_create_dir_all F p = fs_guard F FsMkdir p"

definition fs_read :: "fs_faults \<Rightarrow> string \<Rightarrow> (disk, string, bytes) op" where
  "fs_read F p =
     bindS (fs_guard F FsRead p) (\<lambda>_ d.
     case dk_file d (fs_canon d p) of None \<Rightarrow> (Inl ENOENT, d) | Some b \<Rightarrow> (Inr b, d))"

definition fs_read_to_string :: "fs_faults \<Rightarrow> string \<Rightarrow> (disk, string, string) op" where
  "fs_read_to_string F p =
     bindS (fs_read F p) (\<lambda>b.
     case from_utf8 b of
       None \<Rightarrow> failS ''stream did not contain valid UTF-8'' | Some s \<Rightarrow> returnS s)"

definition fs_write :: "fs_faults \<Rightarrow> string \<Rightarrow> bytes \<Rightarrow> (disk, string, unit) op" where
  "fs_write F p b d =
     (case ff_fault F FsWrite p of
        Some e \<Rightarrow> (Inl e, d\<lparr>dk_file := (dk_file d)(fs_canon d p := ff_torn F p)\<rparr>)
      | None \<Rightarrow> (Inr (), d\<lparr>dk_file := (dk_file d)(fs_canon d p := Some b)\<rparr>))"

text \<open>\<open>remove_file\<close> removes the name: a link, not what it points to.\<close>

definition fs_remove :: "fs_faults \<Rightarrow> string \<Rightarrow> (disk, string, unit) op" where
  "fs_remove F p =
     bindS (fs_guard F FsRemove p) (\<lambda>_ d.
     if dk_link d p \<noteq> None then (Inr (), d\<lparr>dk_link := (dk_link d)(p := None)\<rparr>)
     else if dk_file d p \<noteq> None then (Inr (), d\<lparr>dk_file := (dk_file d)(p := None)\<rparr>)
     else (Inl ENOENT, d))"

definition fs_copy :: "fs_faults \<Rightarrow> string \<Rightarrow> string \<Rightarrow> (disk, string, unit) op" where
  "fs_copy F src dst = bindS (fs_read F src) (\<lambda>b. fs_write F dst b)"

text \<open>The names in a directory, in the order the system lists them.\<close>

definition fs_read_dir :: "fs_faults \<Rightarrow> string \<Rightarrow> (disk, string, string list) op" where
  "fs_read_dir F p =
     bindS (fs_guard F FsList p) (\<lambda>_ d.
     case dk_dir d p of
       None \<Rightarrow> (Inl ENOENT, d)
     | Some names \<Rightarrow>
         (Inr (filter (\<lambda>n. dk_file d (path_join p n) \<noteq> None \<or> dk_link d (path_join p n) \<noteq> None) names), d))"

lemma fs_write_ok: "fs_write F p b d = (Inr (), d') \<Longrightarrow> d' = d\<lparr>dk_file := (dk_file d)(fs_canon d p := Some b)\<rparr>"
  by (auto simp: fs_write_def split: option.splits)

lemma fs_guard_ok: "fs_guard F c p d = (res, d') \<Longrightarrow> d' = d"
  by (auto simp: fs_guard_def split: option.splits)

lemma fs_read_ok: "fs_read F p d = (Inr b, d') \<Longrightarrow> d' = d \<and> dk_file d (fs_canon d p) = Some b"
  by (auto simp: fs_read_def result_simps split: option.splits dest!: fs_guard_ok)

end
