(* ===== verification/Attest_Floor.thy ===== *)
theory Attest_Floor
  imports Attest_Snp Sealed_Time Disk
begin

text \<open>
  \<open>crates/openapi-attest/src/epoch_floor.rs\<close>: the highest manifest epoch a verifier has accepted, kept in
  one file per kind. The state is the content of the files by path; the faults of the file system are
  an argument, per path.
\<close>

type_synonym floors = "string \<Rightarrow> string option"

definition OPENAPI_EPOCH_KIND :: string where
  "OPENAPI_EPOCH_KIND = ''openapi-edge''"

definition GOLDEN_EPOCH_KIND :: string where
  "GOLDEN_EPOCH_KIND = ''golden-digests''"

text \<open>A variable that is set to more than white space.\<close>

definition set_env :: "environ \<Rightarrow> string \<Rightarrow> string option" where
  "set_env env name = (case env name of Some p \<Rightarrow> if trim p = [] then None else Some p | None \<Rightarrow> None)"

definition epoch_floor_dir :: "environ \<Rightarrow> string \<Rightarrow> string" where
  "epoch_floor_dir env temp_dir =
     (case set_env env ''TEECHAT_OPENAPI_ATTEST_EPOCH_FLOOR_DIR'' of
        Some p \<Rightarrow> p
      | None \<Rightarrow>
          (case set_env env ''XDG_STATE_HOME'' of
             Some p \<Rightarrow> path_join p ''teechat-openapi-attest''
           | None \<Rightarrow>
               (case env ''HOME'' of
                  Some home \<Rightarrow>
                    path_join (path_join (path_join home ''.local'') ''state'') ''teechat-openapi-attest''
                | None \<Rightarrow> path_join temp_dir ''teechat-openapi-attest'')))"

definition floor_path :: "environ \<Rightarrow> string \<Rightarrow> string \<Rightarrow> string" where
  "floor_path env temp_dir kind = path_join (epoch_floor_dir env temp_dir) (kind @ ''.epoch'')"

definition read_epoch_floor_at :: "io_faults \<Rightarrow> string \<Rightarrow> floors \<Rightarrow> attest_error + nat option" where
  "read_epoch_floor_at F path fs =
     (case read_fault F of
        Some e \<Rightarrow> Inl (AttestIo (''read epoch floor '' @ path @ '': '' @ e))
      | None \<Rightarrow>
          (case fs path of
             None \<Rightarrow> Inr None
           | Some s \<Rightarrow>
               (case parse_u64 (trim s) of
                  None \<Rightarrow> Inl (AttestPolicy (''corrupt epoch floor '' @ path @ '': '' @ trim s))
                | Some n \<Rightarrow> Inr (Some n))))"

definition remember_epoch_at :: "io_faults \<Rightarrow> string \<Rightarrow> nat \<Rightarrow> (floors, attest_error, unit) op" where
  "remember_epoch_at F path epoch fs =
     (if epoch < 1 then (Inl (AttestPolicy (''invalid epoch '' @ show_nat epoch)), fs)
      else (case read_epoch_floor_at F path fs of
              Inl e \<Rightarrow> (Inl e, fs)
            | Inr floor \<Rightarrow>
                if epoch \<le> (case floor of Some n \<Rightarrow> n | None \<Rightarrow> 0) then (Inr (), fs)
                else (case mkdir_fault F of
                        Some e \<Rightarrow> (Inl (AttestIo (''epoch floor dir: '' @ e)), fs)
                      | None \<Rightarrow>
                          (case write_fault F of
                             Some (e, left) \<Rightarrow>
                               (Inl (AttestIo (''write epoch floor '' @ path @ '': '' @ e)), fs(path := left))
                           | None \<Rightarrow> (Inr (), fs(path := Some (show_nat epoch @ [CHR 0x0A])))))))"

definition assert_epoch_monotonic_at ::
    "io_faults \<Rightarrow> string \<Rightarrow> nat \<Rightarrow> string \<Rightarrow> floors \<Rightarrow> attest_error + unit" where
  "assert_epoch_monotonic_at F kind epoch path fs =
     (if epoch < 1 then Inl (AttestPolicy (kind @ '' epoch '' @ show_nat epoch @ '' is invalid''))
      else bindE (read_epoch_floor_at F path fs) (\<lambda>floor.
           case floor of
             Some n \<Rightarrow>
               if epoch < n
               then Inl (AttestPolicy (kind @ '' epoch '' @ show_nat epoch @ '' is below persisted floor '' @
                      show_nat n @ '' (RB-04)''))
               else Inr ()
           | None \<Rightarrow> Inr ()))"

subsection \<open>The floor\<close>

definition floor_at :: "floors \<Rightarrow> string \<Rightarrow> nat" where
  "floor_at fs path = (case floor_of (fs path) of Some n \<Rightarrow> n | None \<Rightarrow> 0)"

lemma read_epoch_floor_ok:
  assumes "read_epoch_floor_at F path fs = Inr floor"
  shows "(case floor of Some n \<Rightarrow> n | None \<Rightarrow> 0) = floor_at fs path"
  using assms by (auto simp: read_epoch_floor_at_def floor_at_def floor_of_def split: option.splits)

lemma assert_epoch_ok:
  "assert_epoch_monotonic_at F kind epoch path fs = Inr () \<Longrightarrow> 1 \<le> epoch \<and> floor_at fs path \<le> epoch"
  by (auto simp: assert_epoch_monotonic_at_def result_simps dest!: read_epoch_floor_ok
      split: if_splits option.splits)

text \<open>Unless a write fails half way, remembering never lowers a floor and touches no other file.\<close>

lemma remember_epoch_raises:
  assumes "remember_epoch_at F path epoch fs = (res, fs')" "write_fault F = None" "epoch \<le> u64_max"
  shows "floor_at fs p \<le> floor_at fs' p" "p \<noteq> path \<Longrightarrow> fs' p = fs p" "res = Inr () \<Longrightarrow> epoch \<le> floor_at fs' path"
  using assms parse_written [of epoch]
  by (auto simp: remember_epoch_at_def floor_at_def floor_of_def dest!: read_epoch_floor_ok
      split: if_splits sum.splits option.splits)

end
