(* ===== verification/Attest_Verify.thy ===== *)
theory Attest_Verify
  imports Attest_Manifest Attest_Floor
begin

text \<open>
  \<open>crates/openapi-attest/src/verify.rs\<close>, \<open>sgx.rs\<close> and \<open>challenge_client.rs\<close>: the independent verifier of an
  edge. It challenges the edge, loads the allowlists and accepts only an edge whose quote, key and
  measurement they list. The state is the epoch floors and the cache of AMD certificates.
\<close>

subsection \<open>SGX quotes\<close>

text \<open>What \<open>dcap-qvl\<close> reports of a quote that verified against its collateral.\<close>

record dcap_enclave =
  de_attributes0 :: u8
  de_mr_enclave :: bytes
  de_mr_signer :: bytes
  de_report_data :: bytes
  de_isv_prod_id :: nat
  de_isv_svn :: nat

record dcap_report =
  dc_status :: string
  dc_enclave :: "string + dcap_enclave"

record vfy_ext = att_ext +
  pcs_collateral :: "bytes \<Rightarrow> string + bytes"
  collateral_from_slice :: "bytes \<Rightarrow> string + bytes"
  dcap_verify :: "bytes \<Rightarrow> bytes \<Rightarrow> nat \<Rightarrow> string + dcap_report"
  challenge_request_to_string :: "string \<Rightarrow> string + string"
  challenge_response_from_str :: "string \<Rightarrow> string + challenge_response"
  measurement_to_value :: "measurement \<Rightarrow> string + json"
  url_parse :: "string \<Rightarrow> string + string option \<times> nat option"

record sgx_verify_report =
  sq_mrenclave_hex :: string
  sq_mrsigner_hex :: string
  sq_report_data_hex :: string
  sq_isv_prod_id :: nat
  sq_isv_svn :: nat
  sq_debug :: bool
  sq_tcb_status :: string

definition sgx_decode_quote :: "'x chal_ext_scheme \<Rightarrow> string \<Rightarrow> attest_error + bytes" where
  "sgx_decode_quote X quote_b64 =
     map_err (\<lambda>e. AttestQuote (''quote_b64: '' @ e)) (std_b64_decode X (trim quote_b64))"

definition verify_quote_with_collateral ::
    "'x vfy_ext_scheme \<Rightarrow> nat \<Rightarrow> bytes \<Rightarrow> bytes \<Rightarrow> bool \<Rightarrow> attest_error + sgx_verify_report" where
  "verify_quote_with_collateral X now quote collateral reject_debug =
     bindE (map_err (\<lambda>e. AttestQuote (''DCAP verify: '' @ e)) (dcap_verify X quote collateral now)) (\<lambda>report.
     if contains (to_ascii_lowercase (dc_status report)) ''revoked''
     then Inl (AttestPolicy (''TCB revoked: '' @ dc_status report))
     else bindE (map_err (\<lambda>other. AttestQuote (''expected SGX enclave report, got '' @ other)) (dc_enclave report))
       (\<lambda>enclave.
     let debug = (de_attributes0 enclave AND 0x02 \<noteq> 0)
     in if reject_debug \<and> debug then Inl (AttestPolicy ''SGX quote indicates debug enclave'')
        else Inr \<lparr>sq_mrenclave_hex = hex_encode X (de_mr_enclave enclave),
                  sq_mrsigner_hex = hex_encode X (de_mr_signer enclave),
                  sq_report_data_hex = hex_encode X (de_report_data enclave),
                  sq_isv_prod_id = de_isv_prod_id enclave, sq_isv_svn = de_isv_svn enclave,
                  sq_debug = debug, sq_tcb_status = dc_status report\<rparr>))"

definition verify_sgx_dcap_quote ::
    "'x vfy_ext_scheme \<Rightarrow> nat \<Rightarrow> string \<Rightarrow> bool \<Rightarrow> attest_error + sgx_verify_report" where
  "verify_sgx_dcap_quote X now quote_b64 reject_debug =
     bindE (sgx_decode_quote X quote_b64) (\<lambda>quote.
     bindE (map_err (\<lambda>e. AttestQuote (''PCS collateral: '' @ e)) (pcs_collateral X quote)) (\<lambda>collateral.
     verify_quote_with_collateral X now quote collateral reject_debug))"

definition verify_sgx_dcap_quote_with_collateral_json ::
    "'x vfy_ext_scheme \<Rightarrow> nat \<Rightarrow> string \<Rightarrow> bytes \<Rightarrow> bool \<Rightarrow> attest_error + sgx_verify_report" where
  "verify_sgx_dcap_quote_with_collateral_json X now quote_b64 collateral_json reject_debug =
     bindE (sgx_decode_quote X quote_b64) (\<lambda>quote.
     bindE (map_err (\<lambda>e. AttestQuote (''DCAP collateral JSON: '' @ e)) (collateral_from_slice X collateral_json))
       (\<lambda>collateral. verify_quote_with_collateral X now quote collateral reject_debug))"

subsection \<open>The challenge\<close>

text \<open>What a run of the verifier meets: the web and files, the answer to a POST, the peer of a TLS
  connection, the nonce it draws, its environment, and the faults of its own files.\<close>

record vfy_host =
  vh_world :: att_world
  vh_post :: "string \<Rightarrow> string \<Rightarrow> string + nat \<times> (string + string)"
  vh_peer :: tls_peer
  vh_nonce :: bytes
  vh_env :: environ
  vh_temp_dir :: string
  vh_faults :: "string \<Rightarrow> io_faults"
  vh_kds :: kds_host

record challenge_outcome =
  oc_nonce :: bytes
  oc_response :: challenge_response
  oc_endpoint :: string

text \<open>\<open>chars().take(n)\<close>, on the bytes of the text.\<close>

fun take_chars :: "nat \<Rightarrow> string \<Rightarrow> string" where
  "take_chars n [] = []"
| "take_chars n (c # s) =
     (if 128 \<le> code c \<and> code c < 192 then c # take_chars n s
      else case n of 0 \<Rightarrow> [] | Suc m \<Rightarrow> c # take_chars m s)"

definition challenge_edge ::
    "'x vfy_ext_scheme \<Rightarrow> vfy_host \<Rightarrow> string \<Rightarrow> bytes \<Rightarrow> attest_error + challenge_outcome" where
  "challenge_edge X H base_url nonce =
     (let base = trim_end_char (CHR ''/'') base_url;
          url = base @ ''/v1/attestation/challenge''
      in bindE (map_err (\<lambda>e. AttestChallenge (''encode request: '' @ e))
                  (challenge_request_to_string X (b64url_encode X nonce))) (\<lambda>payload.
         bindE (map_err (\<lambda>e. AttestHttp (''POST '' @ url @ '': '' @ e)) (vh_post H url payload)) (\<lambda>(status, body).
         bindE (map_err AttestHttp body) (\<lambda>txt.
         if status \<noteq> 200
         then Inl (AttestChallenge (''HTTP '' @ show_nat status @ '': '' @ take_chars 240 txt))
         else bindE (map_err (\<lambda>e. AttestChallenge (''decode response: '' @ e)) (challenge_response_from_str X txt))
           (\<lambda>response.
         Inr \<lparr>oc_nonce = nonce, oc_response = response, oc_endpoint = base\<rparr>)))))"

definition hostname_of :: "'x vfy_ext_scheme \<Rightarrow> string \<Rightarrow> attest_error + string" where
  "hostname_of X endpoint =
     bindE (map_err (\<lambda>e. AttestHttp (''bad url: '' @ e)) (url_parse X endpoint)) (\<lambda>(host, _).
     ok_or (AttestHttp ''endpoint missing host'') host)"

definition port_of :: "'x vfy_ext_scheme \<Rightarrow> string \<Rightarrow> attest_error + nat" where
  "port_of X endpoint =
     bindE (map_err (\<lambda>e. AttestHttp (''bad url: '' @ e)) (url_parse X endpoint)) (\<lambda>(_, port).
     Inr (case port of Some p \<Rightarrow> p | None \<Rightarrow> 443))"

subsection \<open>Where trust comes from\<close>

record verify_options =
  vo_endpoint :: string
  vo_allowlist_hostname :: "string option"
  vo_manifest_url :: "string option"
  vo_manifest_path :: "string option"
  vo_manifest_sig_path :: "string option"
  vo_skip_session_spki :: bool
  vo_prefer_teechat_manifest :: bool
  vo_github_owner :: string
  vo_github_repo :: string
  vo_github_tag :: "string option"
  vo_allow_latest :: bool
  vo_golden :: golden_load_options
  vo_require_golden_digests :: bool
  vo_ceremony :: ceremony_load_options
  vo_require_ceremony_spki :: bool

definition DEFAULT_MANIFEST_URL :: string where
  "DEFAULT_MANIFEST_URL = ''https://www.teechat.ai/.well-known/teechat/openapi-attestation/global/manifest.json''"

definition verify_options_default :: verify_options where
  "verify_options_default =
     \<lparr>vo_endpoint = ''https://openapi.teechat.ai'', vo_allowlist_hostname = None,
      vo_manifest_url = Some DEFAULT_MANIFEST_URL, vo_manifest_path = None, vo_manifest_sig_path = None,
      vo_skip_session_spki = False, vo_prefer_teechat_manifest = False, vo_github_owner = ''Lightec-AI'',
      vo_github_repo = ''teechat-openapi'', vo_github_tag = None, vo_allow_latest = False,
      vo_golden = golden_options_default, vo_require_golden_digests = True,
      vo_ceremony = ceremony_options_default, vo_require_ceremony_spki = True\<rparr>"

record trust_bundle =
  tb_manifest :: verified_manifest
  tb_trust_source :: string
  tb_github_release_url :: string
  tb_trust_fallback_tip :: string
  tb_sha256sums :: "string list option"

definition load_teechat_fallback ::
    "'x att_ext_scheme \<Rightarrow> att_world \<Rightarrow> verify_options \<Rightarrow> string \<Rightarrow> string option \<Rightarrow> attest_error + trust_bundle" where
  "load_teechat_fallback X W opts default_gh_url tip =
     (let url = (case vo_manifest_url opts of Some u \<Rightarrow> u | None \<Rightarrow> DEFAULT_MANIFEST_URL)
      in bindE (assert_not_mutable_latest_url url) (\<lambda>_.
         bindE (fetch_signed_manifest X W url) (\<lambda>m.
         Inr \<lparr>tb_manifest = m, tb_trust_source = ''teechat_fallback'', tb_github_release_url = default_gh_url,
              tb_trust_fallback_tip = (case tip of Some t \<Rightarrow> t | None \<Rightarrow> []), tb_sha256sums = None\<rparr>)))"

definition load_trust_bundle ::
    "'x att_ext_scheme \<Rightarrow> att_world \<Rightarrow> verify_options \<Rightarrow> attest_error + trust_bundle" where
  "load_trust_bundle X W opts =
     (let default_gh_url = github_releases_html_url (vo_github_owner opts) (vo_github_repo opts)
      in (case (vo_manifest_path opts, vo_manifest_sig_path opts) of
            (Some mp, Some sp) \<Rightarrow>
              bindE (load_signed_manifest_files X W mp sp) (\<lambda>m.
              Inr \<lparr>tb_manifest = m, tb_trust_source = ''local'', tb_github_release_url = default_gh_url,
                   tb_trust_fallback_tip = [], tb_sha256sums = None\<rparr>)
          | _ \<Rightarrow>
              if vo_prefer_teechat_manifest opts then load_teechat_fallback X W opts default_gh_url None
              else (case fetch_github_release_trust_resolved X W (vo_github_owner opts) (vo_github_repo opts)
                           (vo_github_tag opts) (vo_allow_latest opts) of
                      Inr gh \<Rightarrow>
                        Inr \<lparr>tb_manifest = gt_manifest gh, tb_trust_source = ''github'',
                             tb_github_release_url = gt_release_html_url gh, tb_trust_fallback_tip = [],
                             tb_sha256sums = gt_sha256sums gh\<rparr>
                    | Inl gh_err \<Rightarrow>
                        let tip = fallback_tip (vo_github_owner opts) (vo_github_repo opts) (Some default_gh_url)
                        in bindE (load_teechat_fallback X W opts default_gh_url (Some tip)) (\<lambda>b.
                           Inr (b\<lparr>tb_trust_fallback_tip := tip @ '' (GitHub error: '' @
                                    attest_error_to_string gh_err @ '')''\<rparr>)))))"

definition bump_semver_patch_tag :: "string \<Rightarrow> string option" where
  "bump_semver_patch_tag tag =
     (let t = (case strip_prefix tag ''v'' of Some r \<Rightarrow> r | None \<Rightarrow> tag)
      in (case List.map_filter parse_u64 (split_on (\<lambda>c. c = CHR ''.'') t) of
            a # b # c # _ \<Rightarrow>
              Some (''v'' @ show_nat a @ ''.'' @ show_nat b @ ''.'' @ show_nat (min (c + 1) u64_max))
          | _ \<Rightarrow> None))"

definition edge_matches_manifest :: "att_world \<Rightarrow> edge_manifest \<Rightarrow> challenge_outcome \<Rightarrow> string \<Rightarrow> bool" where
  "edge_matches_manifest W m outcome hostname \<longleftrightarrow>
     is_ok (find_matching_releases W m hostname (cr_edge (oc_response outcome)) (cr_quote_format (oc_response outcome)))"

text \<open>The tries left, the tag of the next one, and the last bundle that loaded; the result is a bundle,
  an error, or the end of the loop.\<close>

fun tag_loop ::
    "'x att_ext_scheme \<Rightarrow> att_world \<Rightarrow> verify_options \<Rightarrow> challenge_outcome \<Rightarrow> string \<Rightarrow> nat \<Rightarrow> string
       \<Rightarrow> trust_bundle option \<Rightarrow> (attest_error + trust_bundle) + trust_bundle option" where
  "tag_loop X W opts outcome hostname 0 tag last_bundle = Inr last_bundle"
| "tag_loop X W opts outcome hostname (Suc n) tag last_bundle =
     (case load_trust_bundle X W (opts\<lparr>vo_github_tag := Some tag\<rparr>) of
        Inr bundle \<Rightarrow>
          if edge_matches_manifest W (vf_manifest (tb_manifest bundle)) outcome hostname then Inl (Inr bundle)
          else (case bump_semver_patch_tag tag of
                  Some next_tag \<Rightarrow> tag_loop X W opts outcome hostname n next_tag (Some bundle)
                | None \<Rightarrow> Inr (Some bundle))
      | Inl e \<Rightarrow>
          if last_bundle \<noteq> None then Inr last_bundle
          else (case bump_semver_patch_tag tag of
                  Some next_tag \<Rightarrow> tag_loop X W opts outcome hostname n next_tag last_bundle
                | None \<Rightarrow> Inl (Inl e)))"

definition load_trust_bundle_for_edge ::
    "'x att_ext_scheme \<Rightarrow> att_world \<Rightarrow> verify_options \<Rightarrow> challenge_outcome \<Rightarrow> string \<Rightarrow> bool
       \<Rightarrow> attest_error + trust_bundle" where
  "load_trust_bundle_for_edge X W opts outcome hostname auto_github_tag =
     (if \<not> auto_github_tag then load_trust_bundle X W opts
      else (case vo_github_tag opts of
              None \<Rightarrow> load_trust_bundle X W opts
            | Some base_tag \<Rightarrow>
                (case tag_loop X W opts outcome hostname 6 base_tag None of
                   Inl res \<Rightarrow> res
                 | Inr (Some bundle) \<Rightarrow> Inr bundle
                 | Inr None \<Rightarrow> load_trust_bundle X W opts)))"

subsection \<open>The verdict\<close>

record vfy_state =
  vs_floors :: floors
  vs_files :: files

definition on_floors :: "(floors, 'e, 'a) op \<Rightarrow> (vfy_state, 'e, 'a) op" where
  "on_floors m s = (case m (vs_floors s) of (res, f) \<Rightarrow> (res, s\<lparr>vs_floors := f\<rparr>))"

definition on_files :: "(files, 'e, 'a) op \<Rightarrow> (vfy_state, 'e, 'a) op" where
  "on_files m s = (case m (vs_files s) of (res, f) \<Rightarrow> (res, s\<lparr>vs_files := f\<rparr>))"

definition vh_floor_path :: "vfy_host \<Rightarrow> string \<Rightarrow> string" where
  "vh_floor_path H kind = floor_path (vh_env H) (vh_temp_dir H) kind"

definition assert_epoch_monotonic :: "vfy_host \<Rightarrow> string \<Rightarrow> nat \<Rightarrow> (vfy_state, attest_error, unit) op" where
  "assert_epoch_monotonic H kind epoch s =
     (assert_epoch_monotonic_at (vh_faults H (vh_floor_path H kind)) kind epoch (vh_floor_path H kind) (vs_floors s), s)"

definition remember_epoch :: "vfy_host \<Rightarrow> string \<Rightarrow> nat \<Rightarrow> (vfy_state, attest_error, unit) op" where
  "remember_epoch H kind epoch =
     on_floors (remember_epoch_at (vh_faults H (vh_floor_path H kind)) (vh_floor_path H kind) epoch)"

record golden_match =
  gx_release :: edge_release
  gx_golden_version :: "string option"
  gx_trust_source :: string

text \<open>The first candidate that needs no golden row or has one that matches.\<close>

fun golden_hit :: "golden_manifest \<Rightarrow> measurement \<Rightarrow> edge_release list \<Rightarrow> (edge_release \<times> string option) option" where
  "golden_hit g ms [] = None"
| "golden_hit g ms (rel # rels) =
     (case er_golden_version rel of
        None \<Rightarrow> Some (rel, None)
      | Some gv \<Rightarrow>
          (case find_golden_release g ''openapi'' ''sev-snp-cvm'' gv of
             Inr grelease \<Rightarrow>
               if golden_os_pin_matches grelease ms then Some (rel, Some gv) else golden_hit g ms rels
           | Inl _ \<Rightarrow> golden_hit g ms rels))"

fun match_golden_sources ::
    "'x att_ext_scheme \<Rightarrow> vfy_host \<Rightarrow> edge_release list \<Rightarrow> measurement \<Rightarrow> golden_load_options list
       \<Rightarrow> (vfy_state, attest_error, golden_match) op" where
  "match_golden_sources X H candidates ms [] =
     failS (AttestPolicy ''challenge measurement does not match any golden digests row for this build/code_hash'')"
| "match_golden_sources X H candidates ms (opts # rest) =
     bindS (liftS (load_golden_digests X (vh_world H) opts)) (\<lambda>golden.
     case golden_hit (vg_manifest golden) ms candidates of
       None \<Rightarrow> match_golden_sources X H candidates ms rest
     | Some (rel, gv) \<Rightarrow>
         bindS (assert_epoch_monotonic H GOLDEN_EPOCH_KIND (gm_epoch (vg_manifest golden))) (\<lambda>_.
         bindS (remember_epoch H GOLDEN_EPOCH_KIND (gm_epoch (vg_manifest golden))) (\<lambda>_.
         returnS \<lparr>gx_release = rel, gx_golden_version = gv, gx_trust_source = vg_trust_source golden\<rparr>)))"

definition match_golden_for_candidates ::
    "'x att_ext_scheme \<Rightarrow> vfy_host \<Rightarrow> edge_release list \<Rightarrow> measurement \<Rightarrow> golden_load_options
       \<Rightarrow> (vfy_state, attest_error, golden_match) op" where
  "match_golden_for_candidates X H candidates ms opts =
     match_golden_sources X H candidates ms
       (opts # (if go_prefer_www opts then [] else [opts\<lparr>go_prefer_www := True\<rparr>]))"

definition session_bind ::
    "verified_manifest \<Rightarrow> bool \<Rightarrow> peer_tls_identity \<Rightarrow> string \<Rightarrow> attest_error + string" where
  "session_bind m skip_session_spki peer edge =
     (if mp_require_session_spki_bind (em_policy (vf_manifest m)) \<and> \<not> skip_session_spki then
        if eq_ignore_ascii_case edge (pe_spki_sha256_hex peer) then Inr ''spki''
        else if eq_ignore_ascii_case edge (pe_cert_sha256_hex peer) then Inr ''cert_der''
        else Inl (AttestPolicy (''session SPKI mismatch: edge='' @ edge @ '' peer_spki='' @ pe_spki_sha256_hex peer @
                    '' peer_cert='' @ pe_cert_sha256_hex peer))
      else Inr ''skipped'')"

definition debug_opt :: "'x att_ext_scheme \<Rightarrow> string option \<Rightarrow> string" where
  "debug_opt X x = (case x of None \<Rightarrow> ''None'' | Some s \<Rightarrow> ''Some('' @ str_debug X s @ '')'')"

definition check_ceremony ::
    "'x att_ext_scheme \<Rightarrow> att_world \<Rightarrow> string \<Rightarrow> string \<Rightarrow> golden_load_options \<Rightarrow> ceremony_load_options
       \<Rightarrow> attest_error + unit" where
  "check_ceremony X W hostname spki golden_opts ceremony_opts =
     bindE (load_ceremony_allowlist X W ceremony_opts) (\<lambda>(ceremony, _).
     if \<not> ceremony_pin_required ceremony then Inr ()
     else if \<not> list_ex (\<lambda>h. eq_ignore_ascii_case h hostname) (cm_hostnames ceremony)
     then Inl (AttestPolicy (''hostname '' @ hostname @ '' not on TLS ceremony allowlist''))
     else (case find_ceremony_release_by_spki W ceremony spki of
             None \<Rightarrow> Inl (AttestPolicy (''serving SPKI '' @ spki @
                            '' not on TLS ceremony allowlist (publish after key ceremony)''))
           | Some crow \<Rightarrow>
               bindE (load_golden_digests X W golden_opts) (\<lambda>golden.
               bindE (find_golden_release (vg_manifest golden) ''openapi'' ''sev-snp-cvm'' (ce_golden_version crow))
                 (\<lambda>grelease.
               if gr_tls_key_policy grelease = Some ''key_ceremony'' then Inr ()
               else Inl (AttestPolicy (''ceremony SPKI golden_version '' @ ce_golden_version crow @
                           '' tls_key_policy='' @ debug_opt X (gr_tls_key_policy grelease) @ '' (want key_ceremony)''))))))"

definition check_sgx_hardware ::
    "'x vfy_ext_scheme \<Rightarrow> nat \<Rightarrow> string \<Rightarrow> bool \<Rightarrow> measurement \<Rightarrow> attest_error + json" where
  "check_sgx_hardware X now quote_b64 reject_debug row =
     bindE (verify_sgx_dcap_quote X now quote_b64 reject_debug) (\<lambda>r.
     case row of
       Mrenclave v \<Rightarrow>
         if \<not> eq_ignore_ascii_case v (sq_mrenclave_hex r)
         then Inl (AttestPolicy (''quote MRENCLAVE '' @ sq_mrenclave_hex r @ '' != allowlist '' @ v))
         else Inr (JObj [(''debug'', JBool (sq_debug r)), (''isv_prod_id'', JNum (PosInt (sq_isv_prod_id r))),
                (''isv_svn'', JNum (PosInt (sq_isv_svn r))), (''kind'', JStr ''sgx_dcap_ecdsa''),
                (''mrenclave'', JStr (sq_mrenclave_hex r)), (''mrsigner'', JStr (sq_mrsigner_hex r)),
                (''report_data'', JStr (sq_report_data_hex r)), (''tcb_status'', JStr (sq_tcb_status r))])
     | LaunchDigest _ _ \<Rightarrow>
         Inl (AttestPolicy ''sgx_dcap_ecdsa quote but allowlist measurement is launch_digest''))"

definition check_snp_measurement :: "'x ext_scheme \<Rightarrow> snp_verify_report \<Rightarrow> measurement \<Rightarrow> attest_error + json" where
  "check_snp_measurement X r row =
     (let composed = challenge_canonical_launch_digest X (sv_launch_measurement_hex r)
      in case row of
           LaunchDigest ld _ \<Rightarrow>
             if \<not> eq_ignore_ascii_case ld composed
             then Inl (AttestPolicy (''quote MEASUREMENT (challenge-canonical '' @ composed @
                         '') != allowlist composed launch_digest '' @ ld))
             else Inr (JObj [(''challenge_canonical_launch_digest'', JStr composed),
                    (''chip_id'', JStr (sv_chip_id_hex r)), (''guest_svn'', JNum (PosInt (sv_guest_svn r))),
                    (''kind'', JStr ''snp_report''), (''launch_measurement'', JStr (sv_launch_measurement_hex r)),
                    (''policy_debug'', JBool (sv_policy_debug r)), (''product'', JStr (sv_product_name r))])
         | Mrenclave _ \<Rightarrow> Inl (AttestPolicy ''snp_report quote but allowlist measurement is mrenclave''))"

definition check_hardware ::
    "'x vfy_ext_scheme \<Rightarrow> vfy_host \<Rightarrow> challenge_response \<Rightarrow> bool \<Rightarrow> measurement \<Rightarrow> (vfy_state, attest_error, json) op" where
  "check_hardware X H response reject_debug row =
     (case cr_quote_format response of
        SgxReport \<Rightarrow>
          failS (AttestPolicy ''quote_format=sgx_report is not remotely verifiable; reject for internet clients'')
      | SgxDcapEcdsa \<Rightarrow>
          liftS (check_sgx_hardware X (aw_now (vh_world H)) (cr_quote_b64 response) reject_debug row)
      | SnpReport \<Rightarrow>
          bindS (on_files (verify_snp_report X (vh_kds H) (cr_quote_b64 response) reject_debug)) (\<lambda>r.
          liftS (check_snp_measurement X r row)))"

fun platform_error_to_string :: "platform_error \<Rightarrow> string" where
  "platform_error_to_string (AttestationErr e) = ''attestation failed: '' @ e"
| "platform_error_to_string (SealErr e) = ''seal failed: '' @ e"
| "platform_error_to_string (PlatformIo e) = ''io: '' @ e"

record attestation_verdict =
  av_ok :: bool
  av_endpoint :: string
  av_hostname :: string
  av_quote_format :: string
  av_build_version :: string
  av_code_hash :: string
  av_measurement :: json
  av_golden_version :: "string option"
  av_policy_hash :: "string option"
  av_tls_cert_spki_sha256 :: string
  av_peer_spki_sha256 :: string
  av_session_bind_mode :: string
  av_manifest_epoch :: nat
  av_manifest_key_id :: string
  av_trust_source :: string
  av_golden_trust_source :: "string option"
  av_github_release_url :: string
  av_trust_fallback_tip :: string
  av_hardware :: json
  av_verified_at_unix :: nat

text \<open>The row that counts: the one the golden channel confirms, or the first candidate.\<close>

definition matched_row ::
    "'x att_ext_scheme \<Rightarrow> vfy_host \<Rightarrow> verify_options \<Rightarrow> edge_release list \<Rightarrow> measurement
       \<Rightarrow> (vfy_state, attest_error, string option \<times> string option \<times> edge_release) op" where
  "matched_row X H opts candidates ms =
     (if vo_require_golden_digests opts then
        bindS (match_golden_for_candidates X H candidates ms (vo_golden opts)) (\<lambda>gm.
        returnS (Some (gx_trust_source gm), gx_golden_version gm, gx_release gm))
      else (case candidates of
              [] \<Rightarrow> failS (AttestPolicy ''edge measurement/build/code_hash/policy_hash not on allowlist for this hostname'')
            | rel # _ \<Rightarrow> returnS (None, er_golden_version rel, rel)))"

definition finish_verify ::
    "'x vfy_ext_scheme \<Rightarrow> vfy_host \<Rightarrow> verify_options \<Rightarrow> challenge_outcome \<Rightarrow> trust_bundle \<Rightarrow> peer_tls_identity \<Rightarrow> string
       \<Rightarrow> (vfy_state, attest_error, attestation_verdict) op" where
  "finish_verify X H opts outcome trust peer hostname =
     (let response = oc_response outcome; edge = cr_edge response; vm = tb_manifest trust; m = vf_manifest vm;
          W = vh_world H
      in bindS (assert_epoch_monotonic H OPENAPI_EPOCH_KIND (em_epoch m)) (\<lambda>_.
         bindS (liftS (map_err (\<lambda>e. AttestChallenge (platform_error_to_string e))
                  (verify_challenge_report_data X (oc_nonce outcome) response))) (\<lambda>_.
         bindS (liftS (session_bind vm (vo_skip_session_spki opts) peer (ei_tls_cert_spki_sha256 edge))) (\<lambda>mode.
         bindS (liftS (find_matching_releases W m hostname edge (cr_quote_format response))) (\<lambda>candidates.
         bindS (matched_row X H opts candidates (ei_measurement edge)) (\<lambda>(golden_source, golden_version, row).
         bindS (liftS (if vo_require_ceremony_spki opts
                       then check_ceremony X W hostname (ei_tls_cert_spki_sha256 edge) (vo_golden opts) (vo_ceremony opts)
                       else Inr ())) (\<lambda>_.
         bindS (liftS (cross_check_code_hash_for_edge W (ei_code_hash edge) (ei_build_version edge)
                  ''Lightec-AI'' ''teechat-openapi'' (tb_sha256sums trust))) (\<lambda>_.
         bindS (check_hardware X H response (mp_reject_debug (em_policy m)) (er_measurement row)) (\<lambda>hardware.
         bindS (liftS (map_err AttestChallenge (measurement_to_value X (ei_measurement edge)))) (\<lambda>ms.
         bindS (remember_epoch H OPENAPI_EPOCH_KIND (em_epoch m)) (\<lambda>_.
         returnS \<lparr>av_ok = True, av_endpoint = oc_endpoint outcome, av_hostname = hostname,
           av_quote_format = quote_format_as_str (cr_quote_format response),
           av_build_version = ei_build_version edge, av_code_hash = ei_code_hash edge, av_measurement = ms,
           av_golden_version = golden_version, av_policy_hash = ei_policy_hash edge,
           av_tls_cert_spki_sha256 = ei_tls_cert_spki_sha256 edge, av_peer_spki_sha256 = pe_spki_sha256_hex peer,
           av_session_bind_mode = mode, av_manifest_epoch = em_epoch m, av_manifest_key_id = vf_key_id vm,
           av_trust_source = tb_trust_source trust, av_golden_trust_source = golden_source,
           av_github_release_url = tb_github_release_url trust,
           av_trust_fallback_tip = tb_trust_fallback_tip trust, av_hardware = hardware,
           av_verified_at_unix = aw_now W\<rparr>)))))))))))"

text \<open>Without a tag of the caller the allowlist is the one of the train the edge claims to run.\<close>

definition trust_options :: "verify_options \<Rightarrow> string \<Rightarrow> verify_options \<times> bool" where
  "trust_options opts build_version =
     (let bv = trim build_version
      in if vo_github_tag opts = None \<and> \<not> vo_prefer_teechat_manifest opts \<and> vo_manifest_path opts = None \<and> bv \<noteq> []
         then (opts\<lparr>vo_github_tag := Some (version_tag bv)\<rparr>, True) else (opts, False))"

definition verify_openapi_edge ::
    "'x vfy_ext_scheme \<Rightarrow> vfy_host \<Rightarrow> verify_options \<Rightarrow> (vfy_state, attest_error, attestation_verdict) op" where
  "verify_openapi_edge X H opts =
     bindS (liftS (hostname_of X (vo_endpoint opts))) (\<lambda>connect_host.
     bindS (liftS (port_of X (vo_endpoint opts))) (\<lambda>port.
     let allowlist_host = (case vo_allowlist_hostname opts of
                             Some h \<Rightarrow> if h \<noteq> [] then h else connect_host | None \<Rightarrow> connect_host)
     in bindS (liftS (fetch_peer_tls_identity X (vh_peer H) connect_host port)) (\<lambda>peer.
        bindS (liftS (challenge_edge X H (vo_endpoint opts) (vh_nonce H))) (\<lambda>outcome.
        let (topts, auto_tag) = trust_options opts (ei_build_version (cr_edge (oc_response outcome)))
        in bindS (liftS (load_trust_bundle_for_edge X (vh_world H) topts outcome allowlist_host auto_tag)) (\<lambda>trust.
           finish_verify X H opts outcome trust peer allowlist_host)))))"

end
