(* ===== verification/Attest_Sound.thy ===== *)
theory Attest_Sound
  imports Attest_Verify
begin

text \<open>
  What a verdict of the independent verifier means, and that the epochs it accepts never go back.
\<close>

subsection \<open>Rows and golden digests\<close>

text \<open>A row of the manifest for a host: in a region that names the host, active or retired and still in
  its grace period.\<close>

definition listed_row :: "att_world \<Rightarrow> edge_manifest \<Rightarrow> string \<Rightarrow> edge_release \<Rightarrow> bool" where
  "listed_row W m hostname rel \<longleftrightarrow>
     (\<exists>region\<in>set (em_regions m). (\<exists>h\<in>set (mr_hostnames region). eq_ignore_ascii_case h hostname) \<and>
        rel \<in> set (mr_active region) \<union> set (mr_retired region)) \<and>
     (\<forall>at. er_retired_at rel = Some at \<longrightarrow> in_grace W m at = Inr True)"

lemma matching_rows_ok:
  assumes "matching_rows W m e fmt rels = Inr out" "rel \<in> set out"
  shows "rel \<in> set rels \<and> row_matches e fmt rel \<and> (\<forall>at. er_retired_at rel = Some at \<longrightarrow> in_grace W m at = Inr True)"
  using assms
proof (induction rels arbitrary: out)
  case (Cons r rels)
  show ?case
  proof (cases "row_matches e fmt r")
    case True
    with Cons.prems(1) obtain live out1 where
      "(case er_retired_at r of None \<Rightarrow> Inr True | Some at \<Rightarrow> in_grace W m at) = Inr live"
      "matching_rows W m e fmt rels = Inr out1" "out = (if live then r # out1 else out1)"
      by (auto simp: result_simps)
    with Cons.IH Cons.prems(2) True show ?thesis by (auto split: option.splits if_splits)
  next
    case False
    with Cons show ?thesis by auto
  qed
qed simp

lemma ascii_lower_idem: "ascii_lower (ascii_lower c) = ascii_lower c"
  by (simp add: ascii_lower_def code_def)

lemma to_ascii_lowercase_idem: "to_ascii_lowercase (to_ascii_lowercase s) = to_ascii_lowercase s"
  by (simp add: to_ascii_lowercase_def ascii_lower_idem)

lemma find_matching_ok:
  assumes "find_matching_releases W m hostname e fmt = Inr rows"
  shows "rows \<noteq> []" and "rel \<in> set rows \<Longrightarrow> listed_row W m hostname rel \<and> row_matches e fmt rel"
proof -
  from assms obtain region where r: "find (\<lambda>r. list_ex (\<lambda>h. eq_ignore_ascii_case h (to_ascii_lowercase hostname))
      (mr_hostnames r)) (em_regions m) = Some region"
    "matching_rows W m e fmt (mr_active region @ mr_retired region) = Inr rows" "rows \<noteq> []"
    by (auto simp: find_matching_releases_def result_simps split: option.splits if_splits)
  then show "rows \<noteq> []" by simp
  from r(1) have "region \<in> set (em_regions m)" "\<exists>h\<in>set (mr_hostnames region). eq_ignore_ascii_case h hostname"
    by (auto simp: find_Some_iff list_ex_iff eq_ignore_ascii_case_def to_ascii_lowercase_idem)
  with matching_rows_ok [OF r(2)] show "rel \<in> set rows \<Longrightarrow> listed_row W m hostname rel \<and> row_matches e fmt rel"
    by (auto simp: listed_row_def)
qed

text \<open>The golden channel confirms a row that names a golden version.\<close>

definition golden_confirms :: "golden_manifest \<Rightarrow> measurement \<Rightarrow> edge_release \<Rightarrow> bool" where
  "golden_confirms g ms rel \<longleftrightarrow>
     (\<forall>gv. er_golden_version rel = Some gv \<longrightarrow>
        (\<exists>gr. find_golden_release g ''openapi'' ''sev-snp-cvm'' gv = Inr gr \<and> golden_os_pin_matches gr ms))"

lemma golden_hit_ok:
  "golden_hit g ms cands = Some (rel, gv) \<Longrightarrow>
     rel \<in> set cands \<and> gv = er_golden_version rel \<and> golden_confirms g ms rel"
  by (induction cands) (auto simp: golden_confirms_def split: option.splits sum.splits if_splits)

lemma match_golden_ok:
  assumes "match_golden_sources X H cands ms opts s = (Inr gm, s')"
  shows "gx_release gm \<in> set cands \<and>
    (\<exists>o1\<in>set opts. \<exists>g. load_golden_digests X (vh_world H) o1 = Inr g \<and>
        golden_confirms (vg_manifest g) ms (gx_release gm))"
  using assms
proof (induction opts arbitrary: s)
  case (Cons o1 opts)
  then obtain g where g: "load_golden_digests X (vh_world H) o1 = Inr g"
    by (auto simp: result_simps)
  show ?case
  proof (cases "golden_hit (vg_manifest g) ms cands")
    case None
    with Cons g show ?thesis by (fastforce simp: result_simps)
  next
    case (Some hit)
    with Cons.prems g have "gx_release gm = fst hit" by (auto simp: result_simps split: prod.splits)
    with golden_hit_ok [of "vg_manifest g" ms cands "fst hit" "snd hit"] Some g show ?thesis by auto
  qed
qed (simp add: result_simps)

subsection \<open>Where the manifest comes from\<close>

definition pinned_signature :: "'x engine_ext_scheme \<Rightarrow> bytes \<Rightarrow> bool" where
  "pinned_signature X b \<longleftrightarrow>
     (\<exists>key sig. load_pinned_verifying_key X = Inr key \<and> verify_manifest_signature X b sig key = Inr ())"

text \<open>A bundle is valid now, and unless GitHub served it, its bytes carry a signature of the pinned key.\<close>

definition bundle_ok :: "'x att_ext_scheme \<Rightarrow> att_world \<Rightarrow> trust_bundle \<Rightarrow> bool" where
  "bundle_ok X W b \<longleftrightarrow>
     parse_and_validate_manifest X W (vf_bytes (tb_manifest b)) = Inr (vf_manifest (tb_manifest b)) \<and>
     (tb_trust_source b = ''github'' \<or> pinned_signature X (vf_bytes (tb_manifest b)))"

lemma signed_manifest_ok:
  assumes "verify_signed_manifest_bytes X W b sig = Inr v"
  shows "parse_and_validate_manifest X W (vf_bytes v) = Inr (vf_manifest v)" "pinned_signature X (vf_bytes v)"
  using assms by (auto simp: verify_signed_manifest_bytes_def pinned_signature_def result_simps split: if_splits)

lemma fallback_ok: "load_teechat_fallback X W opts gh tip = Inr b \<Longrightarrow> bundle_ok X W b"
  by (auto simp: load_teechat_fallback_def fetch_signed_manifest_def bundle_ok_def Let_def result_simps
      dest: signed_manifest_ok)

lemma github_ok:
  assumes "fetch_github_release_trust_resolved X W owner repo tag allow_latest = Inr gh"
  shows "parse_and_validate_manifest X W (vf_bytes (gt_manifest gh)) = Inr (vf_manifest (gt_manifest gh))"
  using assms by (auto simp: fetch_github_release_trust_resolved_def result_simps)

lemma load_trust_bundle_ok:
  assumes "load_trust_bundle X W opts = Inr b"
  shows "bundle_ok X W b"
proof (cases "\<exists>mp sp. vo_manifest_path opts = Some mp \<and> vo_manifest_sig_path opts = Some sp")
  case True
  with assms obtain m data sig where "tb_manifest b = m" "verify_signed_manifest_bytes X W data sig = Inr m"
    by (auto simp: load_trust_bundle_def load_signed_manifest_files_def Let_def result_simps)
  with signed_manifest_ok [of X W data sig m] show ?thesis
    by (simp add: bundle_ok_def)
next
  case False
  then have "load_trust_bundle X W opts =
     (let default_gh_url = github_releases_html_url (vo_github_owner opts) (vo_github_repo opts)
      in if vo_prefer_teechat_manifest opts then load_teechat_fallback X W opts default_gh_url None
         else (case fetch_github_release_trust_resolved X W (vo_github_owner opts) (vo_github_repo opts)
                      (vo_github_tag opts) (vo_allow_latest opts) of
                 Inr gh \<Rightarrow>
                   Inr \<lparr>tb_manifest = gt_manifest gh, tb_trust_source = ''github'',
                        tb_github_release_url = gt_release_html_url gh, tb_trust_fallback_tip = [],
                        tb_sha256sums = gt_sha256sums gh\<rparr>
               | Inl gh_err \<Rightarrow>
                   let tip = fallback_tip (vo_github_owner opts) (vo_github_repo opts) (Some default_gh_url)
                   in bindE (load_teechat_fallback X W opts default_gh_url (Some tip)) (\<lambda>b.
                      Inr (b\<lparr>tb_trust_fallback_tip := tip @ '' (GitHub error: '' @
                               attest_error_to_string gh_err @ '')''\<rparr>))))"
    unfolding load_trust_bundle_def by (auto simp: Let_def split: option.split)
  with assms github_ok show ?thesis
    by (fastforce simp: Let_def bundle_ok_def result_simps dest: fallback_ok split: if_splits sum.splits)
qed

text \<open>Every bundle the search over tags ends with was loaded under one of them.\<close>

lemma tag_loop_ok:
  assumes "tag_loop X W opts outcome hostname n tag lst = res" "\<And>b. lst = Some b \<Longrightarrow> bundle_ok X W b"
  shows "res = Inl (Inr b) \<Longrightarrow> bundle_ok X W b" "res = Inr (Some b) \<Longrightarrow> bundle_ok X W b"
  using assms
  by (induction n arbitrary: tag lst)
    (auto split: sum.splits option.splits if_splits dest: load_trust_bundle_ok)

lemma load_for_edge_ok:
  assumes "load_trust_bundle_for_edge X W opts outcome hostname auto_tag = Inr b"
  shows "bundle_ok X W b"
  using assms tag_loop_ok [OF refl, of None]
  by (auto simp: load_trust_bundle_for_edge_def split: if_splits option.splits sum.splits
      dest: load_trust_bundle_ok) blast+

subsection \<open>One quote\<close>

definition rd_offset :: "quote_format \<Rightarrow> nat" where
  "rd_offset fmt = (case fmt of SgxReport \<Rightarrow> SGX_REPORT_DATA_OFFSET | SgxDcapEcdsa \<Rightarrow> SGX_DCAP_REPORT_DATA_OFFSET
                              | SnpReport \<Rightarrow> SNP_REPORT_DATA_OFFSET)"

text \<open>The report data in the bytes of a quote is the digest of the nonce and the identity.\<close>

definition quote_binds :: "'x chal_ext_scheme \<Rightarrow> bytes \<Rightarrow> edge_identity \<Rightarrow> quote_format \<Rightarrow> bytes \<Rightarrow> bool" where
  "quote_binds X nonce edge fmt raw \<longleftrightarrow>
     (\<exists>e p. canonicalize_edge_identity X edge = Inr e \<and> build_preimage_v1 X nonce e = Inr p \<and>
        take REPORT_DATA_LEN (drop (rd_offset fmt) raw) = sha256 X p @ replicate 32 0)"

text \<open>The vendor's chain vouches for the bytes of a quote, and the measurement in it is the one of the row.\<close>

definition quote_genuine :: "'x vfy_ext_scheme \<Rightarrow> nat \<Rightarrow> bool \<Rightarrow> quote_format \<Rightarrow> bytes \<Rightarrow> measurement \<Rightarrow> bool" where
  "quote_genuine X now reject_debug fmt raw row \<longleftrightarrow>
     (case fmt of
        SgxReport \<Rightarrow> False
      | SgxDcapEcdsa \<Rightarrow>
          (\<exists>collateral report enclave v. dcap_verify X raw collateral now = Inr report \<and>
             \<not> contains (to_ascii_lowercase (dc_status report)) ''revoked'' \<and> dc_enclave report = Inr enclave \<and>
             \<not> (reject_debug \<and> de_attributes0 enclave AND 0x02 \<noteq> 0) \<and>
             row = Mrenclave v \<and> eq_ignore_ascii_case v (hex_encode X (de_mr_enclave enclave)))
      | SnpReport \<Rightarrow>
          (\<exists>r vcek ark ask ld img. snp_report_from_bytes X raw = Inr r \<and> snp_chain_verify X ark ask vcek r = Inr () \<and>
             builtin_ark X (snp_product_name r) = Inr ark \<and> builtin_ask X (snp_product_name r) = Inr ask \<and>
             \<not> (reject_debug \<and> sp_policy_debug r) \<and> \<not> sp_policy_migrate_ma r \<and>
             row = LaunchDigest ld img \<and>
             eq_ignore_ascii_case ld (challenge_canonical_launch_digest X (hex_encode X (sp_measurement r)))))"

lemma challenge_binds_quote:
  assumes "verify_challenge_report_data X nonce r = Inr ()"
  obtains raw where "std_b64_decode X (trim (cr_quote_b64 r)) = Inr raw"
    "quote_binds X nonce (cr_edge r) (cr_quote_format r) raw"
proof -
  from assms obtain edge p where e: "canonicalize_edge_identity X (cr_edge r) = Inr edge"
    "build_preimage_v1 X nonce edge = Inr p"
    "quote_reportdata X (cr_quote_format r) (cr_quote_b64 r) = Inr (sha256 X p @ replicate 32 0)"
    by (rule verify_challenge_ok)
  from e(3) obtain raw where "std_b64_decode X (trim (cr_quote_b64 r)) = Inr raw"
    "take REPORT_DATA_LEN (drop (rd_offset (cr_quote_format r)) raw) = sha256 X p @ replicate 32 0"
    by (cases "cr_quote_format r")
      (auto simp: rd_offset_def sgx_report_reportdata_def sgx_dcap_quote_reportdata_def snp_report_reportdata_def
        decode_quote_def result_simps Let_def simp del: replicate.simps replicate_Suc split: if_splits)
  with e(1,2) that show thesis unfolding quote_binds_def by blast
qed

text \<open>A JSON text has no zero byte, and report data ends in thirty-two of them: the bytes whose report data
  was read are never taken for a wrapper around another report.\<close>

definition json_has_no_nul :: "'x ext_scheme \<Rightarrow> bool" where
  "json_has_no_nul X \<longleftrightarrow> (\<forall>b v. json_from_slice X b = Inr v \<longrightarrow> 0 \<notin> set b)"

lemma bound_quote_is_bare:
  assumes "quote_binds X nonce edge fmt raw" "json_has_no_nul X"
  shows "wrapped_report X raw = None"
proof -
  from assms(1) obtain p where "take REPORT_DATA_LEN (drop (rd_offset fmt) raw) = sha256 X p @ replicate 32 0"
    by (auto simp: quote_binds_def)
  then have "0 \<in> set (take REPORT_DATA_LEN (drop (rd_offset fmt) raw))" by simp
  then have "0 \<in> set raw" by (meson in_set_dropD in_set_takeD)
  with assms(2) show ?thesis
    by (auto simp: wrapped_report_def json_has_no_nul_def split: option.splits sum.splits)
qed

lemma snp_quote_genuine:
  assumes "verify_snp_report X K q rd fs = (Inr v, fs')" "check_snp_measurement X v row = Inr out"
    and "std_b64_decode X (trim q) = Inr raw" "wrapped_report X raw = None" "std_b64_round_trip X"
  shows "quote_genuine X now rd SnpReport raw row"
proof -
  from assms(3,4) have "raw_snp_report_b64 X q = Inr (std_b64_encode X raw)"
    by (simp add: raw_snp_report_b64_def decode_b64_flexible_def)
  with assms(1) obtain vcek where v: "verify_snp_report_with_collateral X (std_b64_encode X raw) vcek rd = Inr v"
    by (auto simp: verify_snp_report_def bindS_def liftS_def split: sum.splits prod.splits)
  with assms(5) obtain r vc ark ask where r: "snp_report_from_bytes X raw = Inr r" "snp_chain_verify X ark ask vc r = Inr ()"
    "builtin_ark X (snp_product_name r) = Inr ark" "builtin_ask X (snp_product_name r) = Inr ask"
    "\<not> (rd \<and> sp_policy_debug r)" "\<not> sp_policy_migrate_ma r"
    "sv_launch_measurement_hex v = hex_encode X (sp_measurement r)"
    by (auto simp: verify_snp_report_with_collateral_def decode_snp_report_def apply_snp_policy_def
        builtin_ca_def std_b64_round_trip_def result_simps Let_def split: if_splits)
  from assms(2) r(7) obtain ld img where "row = LaunchDigest ld img"
    "eq_ignore_ascii_case ld (challenge_canonical_launch_digest X (hex_encode X (sp_measurement r)))"
    by (auto simp: check_snp_measurement_def Let_def split: measurement.splits if_splits)
  with r(1-6) show ?thesis unfolding quote_genuine_def by auto
qed

lemma sgx_quote_genuine:
  assumes "check_sgx_hardware X now q rd row = Inr out" "std_b64_decode X (trim q) = Inr raw"
  shows "quote_genuine X now rd SgxDcapEcdsa raw row"
proof -
  from assms obtain collateral r v where r: "verify_quote_with_collateral X now raw collateral rd = Inr r"
    "row = Mrenclave v" "eq_ignore_ascii_case v (sq_mrenclave_hex r)"
    by (cases row) (auto simp: check_sgx_hardware_def verify_sgx_dcap_quote_def sgx_decode_quote_def result_simps
        split: if_splits)
  from r(1) obtain report enclave where "dcap_verify X raw collateral now = Inr report"
    "\<not> contains (to_ascii_lowercase (dc_status report)) ''revoked''" "dc_enclave report = Inr enclave"
    "\<not> (rd \<and> de_attributes0 enclave AND 0x02 \<noteq> 0)" "sq_mrenclave_hex r = hex_encode X (de_mr_enclave enclave)"
    by (auto simp: verify_quote_with_collateral_def result_simps Let_def split: if_splits)
  with r(2,3) show ?thesis unfolding quote_genuine_def by auto
qed

lemma hardware_genuine:
  assumes "check_hardware X H resp rd row s = (Inr out, s')"
    and "std_b64_decode X (trim (cr_quote_b64 resp)) = Inr raw" "wrapped_report X raw = None" "std_b64_round_trip X"
  shows "quote_genuine X (aw_now (vh_world H)) rd (cr_quote_format resp) raw row"
proof (cases "cr_quote_format resp")
  case SnpReport
  with assms(1) obtain v fs fs' where "verify_snp_report X (vh_kds H) (cr_quote_b64 resp) rd fs = (Inr v, fs')"
    "check_snp_measurement X v row = Inr out"
    by (auto simp: check_hardware_def on_files_def result_simps split: prod.splits)
  from snp_quote_genuine [OF this assms(2-4)] SnpReport show ?thesis by simp
next
  case SgxDcapEcdsa
  with assms sgx_quote_genuine show ?thesis by (fastforce simp: check_hardware_def result_simps)
qed (use assms in \<open>simp add: check_hardware_def result_simps\<close>)

subsection \<open>What a verdict shows\<close>

lemma matched_row_ok:
  assumes "matched_row X H opts cands ms s = (Inr (src, gv, row), s')"
  shows "row \<in> set cands" and "vo_require_golden_digests opts \<Longrightarrow>
    \<exists>o1 g. load_golden_digests X (vh_world H) o1 = Inr g \<and> golden_confirms (vg_manifest g) ms row"
  using assms
  by (auto simp: matched_row_def match_golden_for_candidates_def result_simps
      simp del: match_golden_sources.simps split: if_splits list.splits dest!: match_golden_ok)

text \<open>The ceremony list, once it pins a key, lists this key for this host, under a golden version whose key
  comes from the ceremony.\<close>

definition ceremony_lists :: "'x att_ext_scheme \<Rightarrow> att_world \<Rightarrow> verify_options \<Rightarrow> string \<Rightarrow> string \<Rightarrow> bool" where
  "ceremony_lists X W opts hostname spki \<longleftrightarrow>
     (\<exists>c src. load_ceremony_allowlist X W (vo_ceremony opts) = Inr (c, src) \<and>
        (ceremony_pin_required c \<longrightarrow>
           (\<exists>h\<in>set (cm_hostnames c). eq_ignore_ascii_case h hostname) \<and> spki_on_ceremony_allowlist W c spki))"

lemma check_ceremony_ok:
  "check_ceremony X W hostname spki gopts (vo_ceremony opts) = Inr () \<Longrightarrow> ceremony_lists X W opts hostname spki"
  by (auto simp: check_ceremony_def ceremony_lists_def spki_on_ceremony_allowlist_def list_ex_iff result_simps
      split: if_splits option.splits)

definition session_bound :: "verify_options \<Rightarrow> trust_bundle \<Rightarrow> peer_tls_identity \<Rightarrow> string \<Rightarrow> bool" where
  "session_bound opts trust peer spki \<longleftrightarrow>
     (mp_require_session_spki_bind (em_policy (vf_manifest (tb_manifest trust))) \<and> \<not> vo_skip_session_spki opts \<longrightarrow>
        eq_ignore_ascii_case spki (pe_spki_sha256_hex peer) \<or> eq_ignore_ascii_case spki (pe_cert_sha256_hex peer))"

lemma session_bind_ok:
  "session_bind (tb_manifest trust) (vo_skip_session_spki opts) peer spki = Inr mode \<Longrightarrow> session_bound opts trust peer spki"
  by (auto simp: session_bind_def session_bound_def split: if_splits)

lemma on_state_simps:
  "assert_epoch_monotonic H kind epoch s = (Inr (), s') \<Longrightarrow>
     s' = s \<and> 1 \<le> epoch \<and> floor_at (vs_floors s) (vh_floor_path H kind) \<le> epoch"
  by (auto simp: assert_epoch_monotonic_def dest: assert_epoch_ok)

text \<open>What each step of the last part established, for a verdict.\<close>

definition verdict_backed ::
    "'x vfy_ext_scheme \<Rightarrow> vfy_host \<Rightarrow> verify_options \<Rightarrow> challenge_outcome \<Rightarrow> trust_bundle \<Rightarrow> peer_tls_identity
       \<Rightarrow> attestation_verdict \<Rightarrow> edge_release \<Rightarrow> bytes \<Rightarrow> bool" where
  "verdict_backed X H opts outcome trust peer v row raw \<longleftrightarrow>
     (let resp = oc_response outcome; edge = cr_edge resp; m = vf_manifest (tb_manifest trust); W = vh_world H
      in listed_row W m (av_hostname v) row \<and> row_matches edge (cr_quote_format resp) row \<and>
         quote_binds X (oc_nonce outcome) edge (cr_quote_format resp) raw \<and>
         quote_genuine X (aw_now W) (mp_reject_debug (em_policy m)) (cr_quote_format resp) raw (er_measurement row) \<and>
         session_bound opts trust peer (ei_tls_cert_spki_sha256 edge) \<and>
         (vo_require_golden_digests opts \<longrightarrow>
            (\<exists>o1 g. load_golden_digests X W o1 = Inr g \<and> golden_confirms (vg_manifest g) (ei_measurement edge) row)) \<and>
         (vo_require_ceremony_spki opts \<longrightarrow> ceremony_lists X W opts (av_hostname v) (ei_tls_cert_spki_sha256 edge)) \<and>
         av_ok v \<and> av_code_hash v = ei_code_hash edge \<and> av_tls_cert_spki_sha256 v = ei_tls_cert_spki_sha256 edge \<and>
         av_build_version v = ei_build_version edge \<and> av_manifest_epoch v = em_epoch m \<and>
         av_trust_source v = tb_trust_source trust)"

lemma finish_verify_ok:
  assumes "finish_verify X H opts outcome trust peer hostname s = (Inr v, s')"
    and "std_b64_round_trip X" "json_has_no_nul X"
  obtains row raw where "verdict_backed X H opts outcome trust peer v row raw"
    "std_b64_decode X (trim (cr_quote_b64 (oc_response outcome))) = Inr raw" "av_hostname v = hostname"
    "floor_at (vs_floors s) (vh_floor_path H OPENAPI_EPOCH_KIND) \<le> av_manifest_epoch v"
proof -
  let ?r = "oc_response outcome" and ?W = "vh_world H" and ?m = "vf_manifest (tb_manifest trust)"
  let ?e = "cr_edge ?r"
  from assms(1) obtain mode cands src gv row hw t1 t2 t3 where c:
    "verify_challenge_report_data X (oc_nonce outcome) ?r = Inr ()"
    "session_bind (tb_manifest trust) (vo_skip_session_spki opts) peer (ei_tls_cert_spki_sha256 ?e) = Inr mode"
    "find_matching_releases ?W ?m hostname ?e (cr_quote_format ?r) = Inr cands"
    "matched_row X H opts cands (ei_measurement ?e) s = (Inr (src, gv, row), t1)"
    "vo_require_ceremony_spki opts \<Longrightarrow>
       check_ceremony X ?W hostname (ei_tls_cert_spki_sha256 ?e) (vo_golden opts) (vo_ceremony opts) = Inr ()"
    "check_hardware X H ?r (mp_reject_debug (em_policy ?m)) (er_measurement row) t2 = (Inr hw, t3)"
    "floor_at (vs_floors s) (vh_floor_path H OPENAPI_EPOCH_KIND) \<le> em_epoch ?m"
    "av_ok v" "av_code_hash v = ei_code_hash ?e" "av_tls_cert_spki_sha256 v = ei_tls_cert_spki_sha256 ?e"
    "av_build_version v = ei_build_version ?e" "av_manifest_epoch v = em_epoch ?m"
    "av_trust_source v = tb_trust_source trust" "av_hostname v = hostname"
    by (auto simp: finish_verify_def Let_def result_simps split: if_splits dest!: on_state_simps)
  from challenge_binds_quote [OF c(1)] obtain raw where
    q: "std_b64_decode X (trim (cr_quote_b64 ?r)) = Inr raw" "quote_binds X (oc_nonce outcome) ?e (cr_quote_format ?r) raw" .
  from matched_row_ok(1) [OF c(4)] find_matching_ok(2) [OF c(3)]
  have "listed_row ?W ?m hostname row \<and> row_matches ?e (cr_quote_format ?r) row" by blast
  with hardware_genuine [OF c(6) q(1) bound_quote_is_bare [OF q(2) assms(3)] assms(2)] matched_row_ok(2) [OF c(4)]
    session_bind_ok [OF c(2)] check_ceremony_ok [OF c(5)] q(2) c(8-14)
  have "verdict_backed X H opts outcome trust peer v row raw"
    by (simp add: verdict_backed_def Let_def)
  from that [OF this q(1)] c(7,12,14) show thesis by simp
qed

lemma verify_edge_cases:
  assumes "verify_openapi_edge X H opts s = (res, s')"
  obtains e where "res = Inl e" "s' = s"
  | host port peer outcome trust hostname where "hostname_of X (vo_endpoint opts) = Inr host"
    "port_of X (vo_endpoint opts) = Inr port" "fetch_peer_tls_identity X (vh_peer H) host port = Inr peer"
    "challenge_edge X H (vo_endpoint opts) (vh_nonce H) = Inr outcome" "oc_nonce outcome = vh_nonce H"
    "bundle_ok X (vh_world H) trust" "finish_verify X H opts outcome trust peer hostname s = (res, s')"
proof -
  have nonce: "oc_nonce outcome = vh_nonce H"
    if "challenge_edge X H (vo_endpoint opts) (vh_nonce H) = Inr outcome" for outcome
    using that by (auto simp: challenge_edge_def Let_def result_simps split: if_splits)
  from assms that nonce load_for_edge_ok show thesis
    unfolding verify_openapi_edge_def Let_def
    by (auto simp: bindS_def liftS_def split: sum.splits prod.splits) blast+
qed


subsection \<open>Epochs never go back\<close>

text \<open>Runs of the verifier one after another; the files stay.\<close>

fun verify_runs ::
    "'x vfy_ext_scheme \<Rightarrow> (vfy_host \<times> verify_options) list \<Rightarrow> vfy_state \<Rightarrow> (attest_error + attestation_verdict) list" where
  "verify_runs X [] s = []"
| "verify_runs X ((H, opts) # runs) s =
     (case verify_openapi_edge X H opts s of (res, s') \<Rightarrow> res # verify_runs X runs s')"

definition accepted_epochs :: "(attest_error + attestation_verdict) list \<Rightarrow> nat list" where
  "accepted_epochs results = map (\<lambda>res. av_manifest_epoch (projr res)) (filter is_ok results)"

text \<open>The decoder reads epochs of 64 bits.\<close>

definition epochs_are_u64 :: "'x att_ext_scheme \<Rightarrow> bool" where
  "epochs_are_u64 X \<longleftrightarrow> (\<forall>b m. edge_manifest_from_slice X b = Inr m \<longrightarrow> em_epoch m \<le> u64_max)"

definition floor_rises :: "string \<Rightarrow> vfy_state \<Rightarrow> vfy_state \<Rightarrow> bool" where
  "floor_rises p s s' \<longleftrightarrow> floor_at (vs_floors s) p \<le> floor_at (vs_floors s') p"

lemma floor_rises_order: "reflp (floor_rises p)" "transp (floor_rises p)"
  by (auto simp: floor_rises_def reflp_def transp_def intro: le_trans)

lemmas floor_keeps = keeps_bindS [OF floor_rises_order(2)] keeps_pure [OF floor_rises_order(1)]

lemma floor_paths_differ: "vh_floor_path H GOLDEN_EPOCH_KIND \<noteq> vh_floor_path H OPENAPI_EPOCH_KIND"
  by (simp add: vh_floor_path_def floor_path_def path_join_def GOLDEN_EPOCH_KIND_def OPENAPI_EPOCH_KIND_def)

lemma remember_elsewhere: "remember_epoch_at F path epoch fs = (res, fs') \<Longrightarrow> p \<noteq> path \<Longrightarrow> fs' p = fs p"
  by (auto simp: remember_epoch_at_def split: if_splits sum.splits option.splits)

lemma epoch_steps_keep:
  "keeps (floor_rises p) (assert_epoch_monotonic H kind epoch)"
  "keeps (floor_rises p) (on_files m)"
  by (auto simp: keeps_def floor_rises_def assert_epoch_monotonic_def on_files_def split: prod.splits)

lemma remember_golden_keeps:
  "keeps (floor_rises (vh_floor_path H OPENAPI_EPOCH_KIND)) (remember_epoch H GOLDEN_EPOCH_KIND epoch)"
proof (rule keepsI)
  fix s :: vfy_state
  let ?p = "vh_floor_path H OPENAPI_EPOCH_KIND"
  obtain res fs where r: "remember_epoch_at (vh_faults H (vh_floor_path H GOLDEN_EPOCH_KIND))
      (vh_floor_path H GOLDEN_EPOCH_KIND) epoch (vs_floors s) = (res, fs)" by fastforce
  from remember_elsewhere [OF this floor_paths_differ [symmetric]] r
  show "floor_rises ?p s (snd (remember_epoch H GOLDEN_EPOCH_KIND epoch s))"
    by (simp add: floor_rises_def remember_epoch_def on_floors_def floor_at_def)
qed

lemma golden_keeps: "keeps (floor_rises (vh_floor_path H OPENAPI_EPOCH_KIND)) (match_golden_sources X H cands ms opts)"
  by (induction opts)
    (auto simp: keeps_pure(2) [OF floor_rises_order(1), unfolded failS_def]
      intro!: floor_keeps epoch_steps_keep remember_golden_keeps split: option.split)

lemma matched_row_keeps: "keeps (floor_rises (vh_floor_path H OPENAPI_EPOCH_KIND)) (matched_row X H opts cands ms)"
  unfolding matched_row_def match_golden_for_candidates_def
  by (auto simp del: match_golden_sources.simps intro!: floor_keeps golden_keeps split: list.split)

lemma check_hardware_keeps: "keeps (floor_rises p) (check_hardware X H resp rd row)"
  unfolding check_hardware_def
  by (auto intro!: floor_keeps epoch_steps_keep split: quote_format.split)

lemma remember_openapi:
  assumes "write_fault (vh_faults H (vh_floor_path H OPENAPI_EPOCH_KIND)) = None" "epoch \<le> u64_max"
  shows "keeps (floor_rises (vh_floor_path H OPENAPI_EPOCH_KIND)) (remember_epoch H OPENAPI_EPOCH_KIND epoch)"
    "remember_epoch H OPENAPI_EPOCH_KIND epoch s = (Inr (), s') \<Longrightarrow>
       epoch \<le> floor_at (vs_floors s') (vh_floor_path H OPENAPI_EPOCH_KIND)"
  using assms by (auto simp: keeps_def floor_rises_def remember_epoch_def on_floors_def split: prod.splits
      dest: remember_epoch_raises)

lemma finish_keeps:
  assumes "write_fault (vh_faults H (vh_floor_path H OPENAPI_EPOCH_KIND)) = None"
    and "em_epoch (vf_manifest (tb_manifest trust)) \<le> u64_max"
  shows "keeps (floor_rises (vh_floor_path H OPENAPI_EPOCH_KIND)) (finish_verify X H opts outcome trust peer hostname)"
  unfolding finish_verify_def Let_def
  by (auto intro!: floor_keeps epoch_steps_keep matched_row_keeps check_hardware_keeps remember_openapi(1) assms)

lemma finish_remembers:
  assumes "finish_verify X H opts outcome trust peer hostname s = (Inr v, s')"
    and "write_fault (vh_faults H (vh_floor_path H OPENAPI_EPOCH_KIND)) = None"
    and "em_epoch (vf_manifest (tb_manifest trust)) \<le> u64_max"
  shows "floor_at (vs_floors s) (vh_floor_path H OPENAPI_EPOCH_KIND) \<le> av_manifest_epoch v"
    "av_manifest_epoch v \<le> floor_at (vs_floors s') (vh_floor_path H OPENAPI_EPOCH_KIND)"
proof -
  from assms(1) obtain t where v: "av_manifest_epoch v = em_epoch (vf_manifest (tb_manifest trust))"
    and f: "floor_at (vs_floors s) (vh_floor_path H OPENAPI_EPOCH_KIND) \<le> em_epoch (vf_manifest (tb_manifest trust))"
    and t: "remember_epoch H OPENAPI_EPOCH_KIND (em_epoch (vf_manifest (tb_manifest trust))) t = (Inr (), s')"
    by (auto simp: finish_verify_def Let_def result_simps dest!: on_state_simps)
  from f v show "floor_at (vs_floors s) (vh_floor_path H OPENAPI_EPOCH_KIND) \<le> av_manifest_epoch v" by simp
  from remember_openapi(2) [OF assms(2,3) t] v
  show "av_manifest_epoch v \<le> floor_at (vs_floors s') (vh_floor_path H OPENAPI_EPOCH_KIND)" by simp
qed

lemma bundle_epoch:
  "bundle_ok X W trust \<Longrightarrow> epochs_are_u64 X \<Longrightarrow> em_epoch (vf_manifest (tb_manifest trust)) \<le> u64_max"
  by (auto simp: bundle_ok_def epochs_are_u64_def parse_and_validate_manifest_def result_simps split: if_splits)

text \<open>One run: the floor does not fall, and an accepted epoch is between the floors before and after.\<close>

lemma run_raises_floor:
  assumes "verify_openapi_edge X H opts s = (res, s')"
    and "write_fault (vh_faults H (vh_floor_path H OPENAPI_EPOCH_KIND)) = None" "epochs_are_u64 X"
  shows "floor_rises (vh_floor_path H OPENAPI_EPOCH_KIND) s s' \<and>
    (\<forall>v. res = Inr v \<longrightarrow> floor_at (vs_floors s) (vh_floor_path H OPENAPI_EPOCH_KIND) \<le> av_manifest_epoch v \<and>
       av_manifest_epoch v \<le> floor_at (vs_floors s') (vh_floor_path H OPENAPI_EPOCH_KIND))"
  using assms(1)
proof (cases rule: verify_edge_cases)
  case (2 host port peer outcome trust hostname)
  note u64 = bundle_epoch [OF 2(6) assms(3)]
  from keepsD [OF finish_keeps [OF assms(2) u64], of s X opts outcome peer hostname] 2(7)
  have "floor_rises (vh_floor_path H OPENAPI_EPOCH_KIND) s s'" by simp
  with finish_remembers [OF _ assms(2) u64] 2(7) show ?thesis by blast
qed (simp add: floor_rises_def)

lemma runs_above_floor:
  assumes "\<And>H opts. (H, opts) \<in> set runs \<Longrightarrow>
      vh_floor_path H OPENAPI_EPOCH_KIND = path \<and> write_fault (vh_faults H path) = None" "epochs_are_u64 X"
  shows "sorted (floor_at (vs_floors s) path # accepted_epochs (verify_runs X runs s))"
  using assms
proof (induction runs arbitrary: s)
  case (Cons run runs)
  obtain H opts where run: "run = (H, opts)" by fastforce
  obtain res s' where r: "verify_openapi_edge X H opts s = (res, s')" by fastforce
  from Cons.prems(1) [of H opts] run have H: "vh_floor_path H OPENAPI_EPOCH_KIND = path" "write_fault (vh_faults H path) = None"
    by auto
  from run_raises_floor [OF r] H Cons.prems(2)
  have one: "floor_at (vs_floors s) path \<le> floor_at (vs_floors s') path"
    "res = Inr v \<Longrightarrow> floor_at (vs_floors s) path \<le> av_manifest_epoch v \<and> av_manifest_epoch v \<le> floor_at (vs_floors s') path" for v
    by (auto simp: floor_rises_def)
  from Cons.IH [of s'] Cons.prems
  have rest: "sorted (floor_at (vs_floors s') path # accepted_epochs (verify_runs X runs s'))" by auto
  show ?case
  proof (cases res)
    case (Inl e)
    with rest one(1) r run show ?thesis by (auto simp: accepted_epochs_def is_ok_def)
  next
    case (Inr v)
    from one(2) [OF this] rest r run Inr show ?thesis by (auto simp: accepted_epochs_def is_ok_def)
  qed
qed (simp add: accepted_epochs_def)

text \<open>C11. The epochs of the allowlists a verifier accepts never go back. Over any runs one after another
  that keep their floor in one file, with any servers, edges and options, and with any faults but a
  write of that file cut short, the epochs of the accepted verdicts are in order: an old list, however
  well signed, is refused once a newer one was accepted.\<close>

theorem accepted_epochs_never_go_back:
  assumes "\<And>H opts. (H, opts) \<in> set runs \<Longrightarrow>
      vh_floor_path H OPENAPI_EPOCH_KIND = path \<and> write_fault (vh_faults H path) = None"
    and "epochs_are_u64 X"
  shows "sorted (accepted_epochs (verify_runs X runs s))"
  using runs_above_floor [OF assms, where s = s] by simp

subsection \<open>A run that accepts\<close>

text \<open>The two theorems at work: a codec that marks both ends of what it encodes, a signed local allowlist of
  epoch three with one row, and an edge whose SNP report it lists.\<close>

definition marked_encode :: "bytes \<Rightarrow> string" where
  "marked_encode b = CHR ''a'' # bytes_str b @ ''a''"

definition marked_decode :: "string \<Rightarrow> string + bytes" where
  "marked_decode s = Inr (as_bytes (butlast (tl s)))"

definition digest_a :: string where
  "digest_a = ''aaaaaaaaaaaaaaaaaaaaaaaaaaaaaaaaaaaaaaaaaaaaaaaaaaaaaaaaaaaaaaaa''"

definition sample_listed :: edge_manifest where
  "sample_listed =
     \<lparr>em_schema = ''teechat-openapi-edge-manifest/v1'', em_key_id = PINNED_KEY_ID, em_epoch = 3,
      em_not_after = ''2030-01-01T00:00:00Z'', em_retired_grace_period_days = 0,
      em_policy = \<lparr>mp_reject_debug = True, mp_require_session_spki_bind = True, mp_require_runtime_policy_pin = True\<rparr>,
      em_regions = [\<lparr>mr_region = ''r'', mr_hostnames = [''h''],
        mr_active = [\<lparr>er_build_version = ''1'', er_code_hash = digest_a, er_quote_formats = [''snp_report''],
                      er_golden_version = None, er_policy_hash = Some digest_a,
                      er_measurement = LaunchDigest digest_a digest_a, er_retired_at = None\<rparr>],
        mr_retired = []\<rparr>]\<rparr>"

definition sample_raw_quote :: bytes where
  "sample_raw_quote = replicate 112 97 @ replicate 32 0 @ [97]"

definition sample_edge_answer :: challenge_response where
  "sample_edge_answer =
     \<lparr>cr_schema_version = 1, cr_report_data_version = 1,
      cr_edge = \<lparr>ei_build_version = ''1'', ei_code_hash = digest_a, ei_measurement = LaunchDigest digest_a digest_a,
                 ei_tls_cert_spki_sha256 = digest_a, ei_policy_hash = Some digest_a\<rparr>,
      cr_challenge_nonce_b64 = bytes_str (replicate 32 7), cr_quote_format = SnpReport,
      cr_quote_b64 = marked_encode sample_raw_quote\<rparr>"

definition vfy_crates :: vfy_ext where
  "vfy_crates =
     \<lparr>sha256 = \<lambda>b. replicate 32 97, hex_encode = \<lambda>b. digest_a, hex_decode = \<lambda>s. Inr (replicate (length s div 2) 97),
      sig_from_slice = Inr, ed25519_verify = \<lambda>vk payload sig. payload = [1] \<and> sig = replicate 64 97,
      json_from_slice = \<lambda>b. Inl [], json_to_vec = \<lambda>j. Inr [], json_to_string = \<lambda>j. [],
      b64url_decode = \<lambda>s. Inr (as_bytes s), b64url_encode = bytes_str,
      std_b64_decode = marked_decode, std_b64_encode = marked_encode,
      b64url_pad_decode = \<lambda>s. Inl [], sha512 = \<lambda>b. [], vk_from_bytes = Inr, pins_from_str = \<lambda>s. Inl [],
      pins_to_vec = \<lambda>p. [], wrapper_from_slice = \<lambda>b. Inl [], head_from_slice = \<lambda>b. Inl [],
      signed_usage_from_slice = \<lambda>b. Inl [],
      snp_report_from_bytes = \<lambda>b. Inr \<lparr>sp_policy_debug = False, sp_policy_migrate_ma = False, sp_chip_id = [],
        sp_reported_tcb = (0, 0, 0, 0), sp_measurement = [], sp_report_data = [], sp_guest_svn = 0,
        sp_cpuid_fam_id = None, sp_cpuid_mod_id = None\<rparr>,
      cert_from_der = Inr, builtin_ark = \<lambda>p. Inr [], builtin_ask = \<lambda>p. Inr [],
      snp_chain_verify = \<lambda>ark ask vcek r. Inr (),
      edge_manifest_from_slice = \<lambda>b. if b = [1] then Inr sample_listed else Inl [],
      golden_from_slice = \<lambda>b. Inl [], ceremony_from_slice = \<lambda>b. Inl [], gh_release_from_slice = \<lambda>b. Inl [],
      signature_error = [], str_debug = \<lambda>s. s,
      pcs_collateral = \<lambda>q. Inl [], collateral_from_slice = \<lambda>b. Inl [], dcap_verify = \<lambda>q c n. Inl [],
      challenge_request_to_string = Inr, challenge_response_from_str = \<lambda>s. Inr sample_edge_answer,
      measurement_to_value = \<lambda>m. Inr (JStr []), url_parse = \<lambda>u. Inr (Some ''h'', None)\<rparr>"

definition sample_vfy_host :: vfy_host where
  "sample_vfy_host =
     \<lparr>vh_world = \<lparr>aw_now = 1000, aw_get = \<lambda>hs u. Inl [],
        aw_read = \<lambda>p. Inr (if p = ''m'' then [1] else replicate 128 97)\<rparr>,
      vh_post = \<lambda>u b. Inr (200, Inr []),
      vh_peer = \<lambda>h p. Inr (Some [[0x30, 21, 0x30, 16, 2, 1, 1, 0x30, 0, 0x30, 0, 0x30, 0, 0x30, 0,
                                  0x30, 3, 2, 1, 42, 3, 1, 0]]),
      vh_nonce = replicate 32 7, vh_env = Map.empty, vh_temp_dir = ''t'', vh_faults = \<lambda>p. no_faults,
      vh_kds = \<lparr>kh_env = Map.empty, kh_tries = \<lambda>u i. Inr (200, Inr [1]), kh_writable = \<lambda>p. False\<rparr>\<rparr>"

definition sample_vfy_options :: verify_options where
  "sample_vfy_options = verify_options_default
     \<lparr>vo_endpoint := ''https://h'', vo_manifest_path := Some ''m'', vo_manifest_sig_path := Some ''s'',
      vo_require_golden_digests := False, vo_require_ceremony_spki := False\<rparr>"

definition sample_vfy_state :: vfy_state where
  "sample_vfy_state = \<lparr>vs_floors = Map.empty, vs_files = Map.empty\<rparr>"

lemma vfy_crates_simps:
  "sha256 vfy_crates b = replicate 32 97" "hex_encode vfy_crates b = digest_a"
  "hex_decode vfy_crates s = Inr (replicate (length s div 2) 97)"
  "ed25519_verify vfy_crates vk payload sig \<longleftrightarrow> payload = [1] \<and> sig = replicate 64 97"
  "json_from_slice vfy_crates b = Inl []" "b64url_decode vfy_crates s = Inr (as_bytes s)"
  "b64url_encode vfy_crates = bytes_str" "std_b64_decode vfy_crates = marked_decode"
  "std_b64_encode vfy_crates = marked_encode" "vk_from_bytes vfy_crates b = Inr b"
  "cert_from_der vfy_crates b = Inr b" "builtin_ark vfy_crates p = Inr []" "builtin_ask vfy_crates p = Inr []"
  "snp_chain_verify vfy_crates ark ask vcek r = Inr ()"
  "edge_manifest_from_slice vfy_crates b = (if b = [1] then Inr sample_listed else Inl [])"
  "challenge_request_to_string vfy_crates s = Inr s" "challenge_response_from_str vfy_crates s = Inr sample_edge_answer"
  "measurement_to_value vfy_crates m = Inr (JStr [])" "url_parse vfy_crates s = Inr (Some ''h'', None)"
  by (simp_all add: vfy_crates_def)

lemma sample_report:
  "snp_report_from_bytes vfy_crates b =
     Inr \<lparr>sp_policy_debug = False, sp_policy_migrate_ma = False, sp_chip_id = [], sp_reported_tcb = (0, 0, 0, 0),
       sp_measurement = [], sp_report_data = [], sp_guest_svn = 0, sp_cpuid_fam_id = None, sp_cpuid_mod_id = None\<rparr>"
  by (simp add: vfy_crates_def)

lemma marked_round_trip: "marked_decode (trim (marked_encode b)) = Inr b"
proof -
  have "is_graphic (CHR ''a'')" by code_simp
  then have "trim (marked_encode b) = marked_encode b"
    by (intro trim_graphic) (simp_all add: marked_encode_def)
  then show ?thesis by (simp add: marked_encode_def marked_decode_def)
qed

lemma digest_a_facts: "trim digest_a = digest_a" "to_ascii_lowercase digest_a = digest_a" "length digest_a = 64" "digest_a \<noteq> []"
  "list_all is_ascii_hexdigit digest_a"
  by code_simp+

lemma sample_peer: "fetch_peer_tls_identity vfy_crates (vh_peer sample_vfy_host) ''h'' 443 =
    Inr \<lparr>pe_spki_sha256_hex = digest_a, pe_cert_sha256_hex = digest_a\<rparr>"
proof -
  have "is_ok (extract_spki_der [0x30, 21, 0x30, 16, 2, 1, 1, 0x30, 0, 0x30, 0, 0x30, 0, 0x30, 0, 0x30, 3, 2, 1, 42, 3, 1, 0])"
    by code_simp
  then show ?thesis
    by (auto simp: fetch_peer_tls_identity_def sample_vfy_host_def identity_from_cert_der_def spki_sha256_hex_def
        vfy_crates_simps is_ok_def split: sum.splits)
qed

lemma sample_outcome: "challenge_edge vfy_crates sample_vfy_host ''https://h'' (replicate 32 7) =
   Inr \<lparr>oc_nonce = replicate 32 7, oc_response = sample_edge_answer, oc_endpoint = ''https://h''\<rparr>"
proof -
  have "trim_end_char (CHR ''/'') ''https://h'' = ''https://h''" by code_simp
  then show ?thesis
    by (simp add: challenge_edge_def vfy_crates_simps sample_vfy_host_def)
qed

lemma sample_edge_answer_binds: "verify_challenge_report_data vfy_crates (replicate 32 7) sample_edge_answer = Inr ()"
proof -
  have "canonicalize_digest_field vfy_crates digest_a = digest_a"
    by (simp add: canonicalize_digest_field_def digest_a_facts Let_def)  
  then have "canonicalize_edge_identity vfy_crates (cr_edge sample_edge_answer) = Inr (cr_edge sample_edge_answer)"
    by (simp add: canonicalize_edge_identity_def sample_edge_answer_def digest_a_facts)
  moreover have "is_ok (build_preimage_v1 vfy_crates (replicate 32 7) (cr_edge sample_edge_answer))"
    by (simp add: build_preimage_v1_def sample_edge_answer_def decode_hex32_def vfy_crates_simps digest_a_facts
        CHALLENGE_NONCE_LEN_def is_ok_def)
  moreover have "quote_reportdata vfy_crates SnpReport (marked_encode sample_raw_quote) = Inr (replicate 32 97 @ replicate 32 0)"
    by (simp add: snp_report_reportdata_def decode_quote_def vfy_crates_simps marked_round_trip sample_raw_quote_def
       SNP_REPORT_DATA_OFFSET_def REPORT_DATA_LEN_def del: replicate.simps)
  ultimately show ?thesis
    by (auto simp: verify_challenge_report_data_def report_data_matches_v1_def build_report_data_v1_def
        vfy_crates_simps sample_edge_answer_def CHALLENGE_SCHEMA_VERSION_def REPORT_DATA_VERSION_def REPORT_DATA_LEN_def is_ok_def
        split: sum.splits)
qed

lemma sample_digits: "digits_val 10 0 ''2030'' = Some 2030" "digits_val 10 0 ''01'' = Some 1" "digits_val 10 0 ''00'' = Some 0"
  by (simp_all add: digit_val_def is_ascii_digit_def code_def)

lemma sample_year: "parse_i64 ''2030'' = Some 2030"
  unfolding parse_i64_def parse_uint_def by (simp add: sample_digits del: digits_val.simps)

lemma sample_month: "parse_u32 ''01'' = Some 1" "parse_u32 ''00'' = Some 0"
  unfolding parse_u32_def parse_uint_def by (simp_all add: sample_digits del: digits_val.simps)

lemma sample_not_after: "parse_rfc3339_secs ''2030-01-01T00:00:00Z'' = Inr 1893456000"
proof -
  have "ok_or (AttestManifest (''bad timestamp '' @ trim ''2030-01-01T00:00:00Z''))
     (Option.bind (strip_suffix (trim ''2030-01-01T00:00:00Z'') ''Z'') (split_once (CHR ''T''))) =
     Inr (''2030-01-01'', ''00:00:00'')" by code_simp
  moreover have "split_on (\<lambda>c. c = CHR ''-'') ''2030-01-01'' = [''2030'', ''01'', ''01'']"
    "split_on (\<lambda>c. c = CHR '':'') (hd (split_on (\<lambda>c. c = CHR ''.'') ''00:00:00'')) = [''00'', ''00'', ''00'']"
    by code_simp+
  ultimately show ?thesis
    by (simp only: parse_rfc3339_secs_def att_num_def next_num_def Let_def sample_year sample_month
        bindE_def map_err_def sum.case prod.case list.case option.case)
      (simp add: i64_def)
qed

lemma sample_signature:
  "load_pinned_verifying_key vfy_crates = Inr (replicate 32 97)"
  "verify_manifest_signature vfy_crates [1] (bytes_str (replicate 128 97)) (replicate 32 97) = Inr ()"
  "from_utf8 (replicate 128 97) = Some (bytes_str (replicate 128 97))"
proof -
  have "length (trim ATTEST_PINNED_PUBLIC_KEY_HEX) = 64" by code_simp
  then show "load_pinned_verifying_key vfy_crates = Inr (replicate 32 97)"
    by (simp add: load_pinned_verifying_key_def verifying_key_from_hex_def vfy_crates_simps del: replicate.simps)
  have b: "as_bytes (replicate 128 (CHR ''a'')) = replicate 128 97" by (simp add: as_bytes_def del: replicate.simps)
  have a: "bytes_str (replicate 128 97) = replicate 128 (CHR ''a'')"
    unfolding b [symmetric] by (simp del: replicate.simps)
  have g: "is_graphic (CHR ''a'')" by code_simp
  then have "trim (replicate 128 (CHR ''a'')) = replicate 128 (CHR ''a'')"
    by (intro trim_graphic) simp_all
  then show "verify_manifest_signature vfy_crates [1] (bytes_str (replicate 128 97)) (replicate 32 97) = Inr ()"
    unfolding a by (simp add: verify_manifest_signature_def vfy_crates_simps filter_replicate del: replicate.simps)
  from from_utf8_ascii [of "replicate 128 (CHR ''a'')"] a b
  show "from_utf8 (replicate 128 97) = Some (bytes_str (replicate 128 97))"
    by (simp add: code_def del: replicate.simps)
qed

lemma sample_trust:
  "load_trust_bundle vfy_crates (vh_world sample_vfy_host) sample_vfy_options =
     Inr \<lparr>tb_manifest = \<lparr>vf_manifest = sample_listed, vf_key_id = PINNED_KEY_ID, vf_bytes = [1]\<rparr>,
          tb_trust_source = ''local'', tb_github_release_url = github_releases_html_url ''Lightec-AI'' ''teechat-openapi'',
          tb_trust_fallback_tip = [], tb_sha256sums = None\<rparr>"
proof -
  have "is_ok (validate_regions (em_regions sample_listed))" by code_simp
  moreover have "em_not_after sample_listed = ''2030-01-01T00:00:00Z''" "em_key_id sample_listed = PINNED_KEY_ID"
    "em_schema sample_listed = ''teechat-openapi-edge-manifest/v1''" "mp_require_runtime_policy_pin (em_policy sample_listed)"
    by (simp_all add: sample_listed_def)
  moreover have "aw_now (vh_world sample_vfy_host) = 1000" by (simp add: sample_vfy_host_def)
  ultimately have "parse_and_validate_manifest vfy_crates (vh_world sample_vfy_host) [1] = Inr sample_listed"
    by (auto simp: parse_and_validate_manifest_def vfy_crates_simps sample_not_after is_ok_def split: sum.splits)
  moreover note sample_signature
  ultimately show ?thesis
    by (simp add: load_trust_bundle_def sample_vfy_options_def verify_options_default_def load_signed_manifest_files_def
        read_text_def verify_signed_manifest_bytes_def sample_vfy_host_def \<open>em_key_id sample_listed = PINNED_KEY_ID\<close>)
qed

lemma sample_row: "find_matching_releases (vh_world sample_vfy_host) sample_listed ''h'' (cr_edge sample_edge_answer) SnpReport =
    Inr (mr_active (hd (em_regions sample_listed)))"
proof -
  have "eq_ignore_ascii_case ''h'' (to_ascii_lowercase ''h'')" by code_simp
  then show ?thesis
    by (simp add: find_matching_releases_def sample_listed_def sample_edge_answer_def row_matches_def
        eq_ignore_ascii_case_def)
qed

lemma sample_hardware:
  assumes "vs_files s = Map.empty"
  shows "\<exists>j. check_hardware vfy_crates sample_vfy_host sample_edge_answer True (LaunchDigest digest_a digest_a) s = (Inr j, s)"
proof -
  let ?q = "marked_encode sample_raw_quote" and ?K = "vh_kds sample_vfy_host"
  have "raw_snp_report_b64 vfy_crates ?q = Inr ?q"
    by (simp add: raw_snp_report_b64_def decode_b64_flexible_def vfy_crates_simps marked_round_trip wrapped_report_def
        split: option.split)
  moreover obtain r where r: "decode_snp_report vfy_crates ?q True = Inr r" "snp_product_name r = ''Genoa''"
    by (simp add: decode_snp_report_def vfy_crates_simps sample_report marked_round_trip apply_snp_policy_def snp_product_name_def)
  moreover have "kds_http_get ?K url Map.empty = (Inr [1], Map.empty)" for url
    by (simp add: kds_http_get_def sample_vfy_host_def upt_rec Let_def)
  moreover have "is_ok (snp_report_reportdata_local vfy_crates ?q)"
    by (simp add: snp_report_reportdata_local_def vfy_crates_simps marked_round_trip sample_raw_quote_def is_ok_def
        SNP_REPORT_DATA_OFFSET_def REPORT_DATA_LEN_def)
  then have "\<exists>v. verify_snp_report_with_collateral vfy_crates ?q [1] True = Inr v \<and> sv_launch_measurement_hex v = digest_a"
    by (auto simp: verify_snp_report_with_collateral_def r Let_def vfy_crates_simps builtin_ca_def is_ok_def split: sum.splits)
  ultimately obtain v where "verify_snp_report vfy_crates ?K ?q True Map.empty = (Inr v, Map.empty)"
    by (auto simp: verify_snp_report_def bindS_def liftS_def)
  with assms show ?thesis
    by (auto simp: check_hardware_def sample_edge_answer_def on_files_def check_snp_measurement_def bindS_def liftS_def
        challenge_canonical_launch_digest_def vfy_crates_simps eq_ignore_ascii_case_def Let_def)
qed

lemma sample_epochs:
  "assert_epoch_monotonic sample_vfy_host OPENAPI_EPOCH_KIND 3 sample_vfy_state = (Inr (), sample_vfy_state)"
  "\<exists>s'. remember_epoch sample_vfy_host OPENAPI_EPOCH_KIND 3 sample_vfy_state = (Inr (), s')"
  by (simp_all add: remember_epoch_def on_floors_def remember_epoch_at_def read_epoch_floor_at_def sample_vfy_host_def
      sample_vfy_state_def no_faults_def assert_epoch_monotonic_def assert_epoch_monotonic_at_def)

lemma sample_fields:
  "em_epoch sample_listed = 3" "mp_reject_debug (em_policy sample_listed)" "cr_quote_format sample_edge_answer = SnpReport"
  "ei_tls_cert_spki_sha256 (cr_edge sample_edge_answer) = digest_a" "vh_nonce sample_vfy_host = replicate 32 7"
  "vo_endpoint sample_vfy_options = ''https://h''" "vo_allowlist_hostname sample_vfy_options = None"
  "\<not> vo_require_golden_digests sample_vfy_options" "\<not> vo_require_ceremony_spki sample_vfy_options"
  "trust_options sample_vfy_options bv = (sample_vfy_options, False)"
  by (simp_all add: sample_listed_def sample_edge_answer_def sample_vfy_host_def sample_vfy_options_def
      verify_options_default_def trust_options_def)

lemma sample_finish:
  assumes "vf_manifest (tb_manifest trust) = sample_listed" "tb_sha256sums trust = None" "oc_response outcome = sample_edge_answer"
    "oc_nonce outcome = replicate 32 7" "pe_spki_sha256_hex peer = digest_a"
  shows "\<exists>v s'. finish_verify vfy_crates sample_vfy_host sample_vfy_options outcome trust peer ''h'' sample_vfy_state = (Inr v, s') \<and>
     av_manifest_epoch v = 3"
proof -
  obtain j where j: "check_hardware vfy_crates sample_vfy_host sample_edge_answer True (LaunchDigest digest_a digest_a) sample_vfy_state =
      (Inr j, sample_vfy_state)"
    using sample_hardware [of sample_vfy_state] by (auto simp: sample_vfy_state_def)
  obtain s' where s': "remember_epoch sample_vfy_host OPENAPI_EPOCH_KIND 3 sample_vfy_state = (Inr (), s')"
    using sample_epochs(2) by blast
  obtain rel where rel: "mr_active (hd (em_regions sample_listed)) = [rel]" "er_measurement rel = LaunchDigest digest_a digest_a"
    by (simp add: sample_listed_def)
  obtain md where md: "session_bind (tb_manifest trust) (vo_skip_session_spki sample_vfy_options) peer digest_a = Inr md"
    using assms(5) by (cases "session_bind (tb_manifest trust) (vo_skip_session_spki sample_vfy_options) peer digest_a")
      (auto simp: session_bind_def eq_ignore_ascii_case_def split: if_splits)
  have sums: "cross_check_code_hash_for_edge W c b ow re None = Inr ()" for W c b ow re
    by (simp add: cross_check_code_hash_for_edge_def cross_check_code_hash_against_sha256sums_def is_ok_def)
  show ?thesis
    by (simp add: finish_verify_def assms sample_fields sample_epochs(1) sample_edge_answer_binds sample_row md rel matched_row_def
        sums j s' vfy_crates_simps bindS_def liftS_def returnS_def Let_def del: replicate.simps)
qed

lemma sample_accepts:
  "\<exists>v s'. verify_openapi_edge vfy_crates sample_vfy_host sample_vfy_options sample_vfy_state = (Inr v, s') \<and> av_manifest_epoch v = 3"
  unfolding verify_openapi_edge_def
  by (simp add: hostname_of_def port_of_def load_trust_bundle_for_edge_def sample_fields vfy_crates_simps sample_peer
      sample_outcome sample_trust bindS_def liftS_def sample_finish Let_def del: replicate.simps ex_simps)

lemma vfy_crates_laws: "std_b64_round_trip vfy_crates" "json_has_no_nul vfy_crates" "epochs_are_u64 vfy_crates"
  by (auto simp: std_b64_round_trip_def json_has_no_nul_def epochs_are_u64_def vfy_crates_simps marked_round_trip
      sample_fields split: if_splits)


theorem accepted_epochs_never_go_back_witness:
  "let runs = [(sample_vfy_host, sample_vfy_options), (sample_vfy_host, sample_vfy_options)];
       epochs = accepted_epochs (verify_runs vfy_crates runs sample_vfy_state)
   in hd epochs = 3 \<and> sorted epochs"
proof -
  let ?run = "(sample_vfy_host, sample_vfy_options)"
  have "sorted (accepted_epochs (verify_runs vfy_crates [?run, ?run] sample_vfy_state))"
    by (rule accepted_epochs_never_go_back [OF _ vfy_crates_laws(3)])
      (auto simp: sample_vfy_host_def [THEN arg_cong, of vh_faults] no_faults_def)
  with sample_accepts show ?thesis by (auto simp: accepted_epochs_def is_ok_def Let_def)
qed

end
