(* ===== verification/Cvm_Platform.thy ===== *)
theory Cvm_Platform
  imports Attest_Sound
begin

text \<open>
  \<open>crates/openapi-platform-cvm/src/snp_report.rs\<close> and \<open>attest.rs\<close>: the report of the guest over chosen
  report data, and the platform that answers a challenge with it. The shell and the tool \<open>snpguest\<close> are
  parameters.
\<close>

subsection \<open>The report\<close>

text \<open>What the host of the process does: whether a path is a file, the output of \<open>command -v\<close> when the
  shell reports success, the error of writing the request, the run of the tool on a request with its
  success and its error output, and the bytes of the report it leaves.\<close>

record report_host =
  rp_env :: environ
  rp_is_file :: "string \<Rightarrow> bool"
  rp_command_v :: "string \<Rightarrow> bytes option"
  rp_sev_guest :: bool
  rp_write :: "string option"
  rp_run :: "string \<Rightarrow> bytes \<Rightarrow> string + bool \<times> bytes"
  rp_read :: "string \<Rightarrow> bytes \<Rightarrow> string + bytes"

definition report_snpguest_bin :: "report_host \<Rightarrow> string" where
  "report_snpguest_bin H =
     (case trimmed_nonempty (rp_env H ''OPENAPI_SNPGUEST_BIN'') of
        Some p \<Rightarrow> p
      | None \<Rightarrow>
          (case trimmed_nonempty (map_option from_utf8_lossy (rp_command_v H ''snpguest'')) of
             Some s \<Rightarrow> s | None \<Rightarrow> ''snpguest''))"

definition snp_report_linux :: "report_host \<Rightarrow> bytes \<Rightarrow> platform_error + bytes" where
  "snp_report_linux H report_data =
     (let snpguest = report_snpguest_bin H
      in if \<not> (rp_is_file H snpguest \<or> rp_command_v H snpguest \<noteq> None)
         then Inl (AttestationErr (''SNP report unavailable: '' @
                (if rp_sev_guest H
                 then ''install snpguest (device present but CLI missing); set OPENAPI_SNPGUEST_BIN''
                 else ''/dev/sev-guest missing and snpguest not in PATH'')))
         else case rp_write H of
                Some e \<Rightarrow> Inl (PlatformIo e)
              | None \<Rightarrow>
                  bindE (map_err (\<lambda>e. AttestationErr (''snpguest spawn: '' @ e)) (rp_run H snpguest report_data))
                    (\<lambda>(success, err).
                  if \<not> success then Inl (AttestationErr (''snpguest report failed: '' @ from_utf8_lossy err))
                  else bindE (map_err PlatformIo (rp_read H snpguest report_data)) (\<lambda>b.
                       if length b < SNP_REPORT_DATA_OFFSET + REPORT_DATA_LEN
                       then Inl (AttestationErr (''snpguest report too short: '' @ show_nat (length b) @ '' bytes''))
                       else if take REPORT_DATA_LEN (drop SNP_REPORT_DATA_OFFSET b) \<noteq> report_data
                       then Inl (AttestationErr ''snpguest report REPORT_DATA does not match request'')
                       else Inr b)))"

definition snp_report_with_data :: "report_host \<Rightarrow> bytes \<Rightarrow> platform_error + bytes" where
  "snp_report_with_data H report_data = snp_report_linux H report_data"

subsection \<open>The platform\<close>

record cvm_platform =
  cp_identity :: edge_identity

definition cvm_platform_from_env :: "string \<Rightarrow> string \<Rightarrow> string \<Rightarrow> string \<Rightarrow> string \<Rightarrow> string option \<Rightarrow> cvm_platform" where
  "cvm_platform_from_env build_version code_hash launch img spki policy_hash =
     \<lparr>cp_identity = \<lparr>ei_build_version = build_version, ei_code_hash = code_hash,
        ei_measurement = LaunchDigest launch img, ei_tls_cert_spki_sha256 = spki, ei_policy_hash = policy_hash\<rparr>\<rparr>"

definition challenge_with_report ::
    "'x chal_ext_scheme \<Rightarrow> cvm_platform \<Rightarrow> bytes \<Rightarrow> bytes \<Rightarrow> platform_error + challenge_response" where
  "challenge_with_report X P nonce report_bytes =
     bindE (map_err bind_err (build_report_data_v1 X nonce (cp_identity P))) (\<lambda>_.
     map_err bind_err (challenge_response_new X (cp_identity P) nonce SnpReport report_bytes))"

definition cvm_challenge ::
    "'x chal_ext_scheme \<Rightarrow> report_host \<Rightarrow> cvm_platform \<Rightarrow> bytes \<Rightarrow> platform_error + challenge_response" where
  "cvm_challenge X H P nonce =
     (if length nonce \<noteq> CHALLENGE_NONCE_LEN
      then Inl (AttestationErr (''nonce must be exactly '' @ show_nat CHALLENGE_NONCE_LEN @ '' bytes''))
      else bindE (map_err bind_err (build_report_data_v1 X nonce (cp_identity P))) (\<lambda>report_data.
           bindE (snp_report_with_data H report_data) (\<lambda>report_bytes.
           map_err bind_err (challenge_response_new X (cp_identity P) nonce SnpReport report_bytes))))"

subsection \<open>What the edge answers\<close>

lemma report_carries_data:
  assumes "snp_report_with_data H rd = Inr b"
  shows "SNP_REPORT_DATA_OFFSET + REPORT_DATA_LEN \<le> length b" "take REPORT_DATA_LEN (drop SNP_REPORT_DATA_OFFSET b) = rd"
  using assms
  by (auto simp: snp_report_with_data_def snp_report_linux_def Let_def result_simps split: if_splits option.splits)

text \<open>C17. The edge answers no challenge its verifier would refuse: whatever the tool leaves as a report,
  when the platform answers a nonce at all, the answer carries the canonical identity of this edge and
  passes the verification of the report data under that nonce. A tool that ignores the requested report
  data, or a truncated report, makes the challenge fail instead.\<close>

theorem answered_challenge_verifies:
  assumes "cvm_challenge X H P nonce = Inr r"
    and hash: "\<And>b. length (sha256 X b) = 32" "\<And>b. lower_hex64 (hex_encode X (sha256 X b))"
    and codec: "\<And>b. b64url_decode X (b64url_encode X b) = Inr b" "std_b64_round_trip X"
  shows "verify_challenge_report_data X nonce r = Inr () \<and>
    canonicalize_edge_identity X (cp_identity P) = Inr (cr_edge r)"
proof -
  from assms(1) obtain rd b where rd: "build_report_data_v1 X nonce (cp_identity P) = Inr rd"
    and b: "snp_report_with_data H rd = Inr b" "challenge_response_new X (cp_identity P) nonce SnpReport b = Inr r"
    by (auto simp: cvm_challenge_def result_simps split: if_splits)
  have "quote_reportdata X SnpReport (std_b64_encode X b) = Inr rd"
    using report_carries_data [OF b(1)] codec(2)
    by (simp add: snp_report_reportdata_def decode_quote_def std_b64_round_trip_def)
  from honest_challenge_verifies [OF hash codec(1) b(2) rd this]
  have "verify_challenge_report_data X nonce r = Inr ()" .
  moreover from b(2) have "canonicalize_edge_identity X (cp_identity P) = Inr (cr_edge r)"
    by (auto simp: challenge_response_new_def result_simps split: if_splits)
  ultimately show ?thesis ..
qed

text \<open>A guest whose tool embeds the request.\<close>

definition sample_report_host :: report_host where
  "sample_report_host = \<lparr>rp_env = Map.empty, rp_is_file = \<lambda>p. False, rp_command_v = \<lambda>p. Some [], rp_sev_guest = True,
     rp_write = None, rp_run = \<lambda>b rd. Inr (True, []), rp_read = \<lambda>b rd. Inr (replicate 80 97 @ rd @ [97])\<rparr>"

definition sample_platform :: cvm_platform where
  "sample_platform = cvm_platform_from_env ''1'' digest_a digest_a digest_a digest_a (Some digest_a)"

lemma sample_platform_identity: "cp_identity sample_platform = cr_edge sample_edge_answer"
  by (simp add: sample_platform_def cvm_platform_from_env_def sample_edge_answer_def)

lemma sample_answered: "cvm_challenge vfy_crates sample_report_host sample_platform (replicate 32 7) = Inr sample_edge_answer"
proof -
  have "canonicalize_digest_field vfy_crates digest_a = digest_a"
    by (simp add: canonicalize_digest_field_def digest_a_facts Let_def)
  then have c: "canonicalize_edge_identity vfy_crates (cr_edge sample_edge_answer) = Inr (cr_edge sample_edge_answer)"
    by (simp add: canonicalize_edge_identity_def sample_edge_answer_def digest_a_facts)
  have "is_ok (build_preimage_v1 vfy_crates (replicate 32 7) (cr_edge sample_edge_answer))"
    by (simp add: build_preimage_v1_def sample_edge_answer_def decode_hex32_def vfy_crates_simps digest_a_facts
        CHALLENGE_NONCE_LEN_def is_ok_def)
  with c have rd: "build_report_data_v1 vfy_crates (replicate 32 7) (cr_edge sample_edge_answer) =
      Inr (replicate 32 97 @ replicate 32 0)"
    by (auto simp: build_report_data_v1_def vfy_crates_simps is_ok_def split: sum.splits)
  have "replicate 80 97 @ replicate 32 97 = (replicate 112 97 :: u8 list)"
    by (simp add: replicate_add [symmetric] del: replicate.simps)
  then have raw: "replicate 80 97 @ (replicate 32 97 @ replicate 32 0) @ [97] = sample_raw_quote"
    unfolding sample_raw_quote_def append_assoc [symmetric] by (simp only:)
  have "snp_report_with_data sample_report_host (replicate 32 97 @ replicate 32 0) = Inr sample_raw_quote"
    unfolding raw [symmetric]
    by (simp add: snp_report_with_data_def snp_report_linux_def sample_report_host_def SNP_REPORT_DATA_OFFSET_def
        REPORT_DATA_LEN_def del: replicate.simps)
  moreover have "challenge_response_new vfy_crates (cr_edge sample_edge_answer) (replicate 32 7) SnpReport sample_raw_quote =
      Inr sample_edge_answer"
    by (simp add: challenge_response_new_def c vfy_crates_simps CHALLENGE_NONCE_LEN_def CHALLENGE_SCHEMA_VERSION_def
        REPORT_DATA_VERSION_def) (simp add: sample_edge_answer_def)
  ultimately show ?thesis
    by (simp add: cvm_challenge_def sample_platform_identity rd CHALLENGE_NONCE_LEN_def del: replicate.simps)
qed

theorem answered_challenge_verifies_witness:
  "verify_challenge_report_data vfy_crates (replicate 32 7) sample_edge_answer = Inr () \<and>
   canonicalize_edge_identity vfy_crates (cp_identity sample_platform) = Inr (cr_edge sample_edge_answer)"
proof (rule answered_challenge_verifies [OF sample_answered])
  have "lower_hex64 digest_a" by code_simp
  then show "lower_hex64 (hex_encode vfy_crates (sha256 vfy_crates b))" for b by (simp add: vfy_crates_simps)
qed (simp_all add: vfy_crates_simps vfy_crates_laws)

end
