(* ===== verification/Sealing.thy ===== *)
theory Sealing
  imports Attest_Sound
begin

text \<open>
  The sealed TLS key: \<open>crates/openapi-platform/src/seal.rs\<close>, the \<open>Sealer\<close> trait of its \<open>lib.rs\<close>, and on the CVM
  side \<open>seal.rs\<close>, \<open>amd_sp_key.rs\<close>, \<open>guest_digest.rs\<close> and \<open>tls_key_policy.rs\<close>. A blob binds the key to a
  measurement; in production the sealing key comes from the AMD secure processor. HKDF, AES-GCM, the
  crate \<open>attested-mtls-snp-seal\<close>, the processor and the \<open>snpguest\<close> tool are parameters.
\<close>

subsection \<open>Blobs\<close>

text \<open>The request parameters of \<open>AmdSpSealMeta\<close> are opaque here; a blob of \<open>attested-mtls-snp-seal\<close> is for a
  launch and an image digest.\<close>

type_synonym amd_sp_meta = bytes

record sealed_blob =
  sb_seal_version :: nat
  sb_measurement :: measurement
  sb_nonce_b64 :: string
  sb_ciphertext_b64 :: string
  sb_seal_data_b64 :: "string option"
  sb_amd_sp :: "amd_sp_meta option"

record snp_blob =
  sn_seal_version :: nat
  sn_measurement :: "string \<times> string"
  sn_nonce_b64 :: string
  sn_ciphertext_b64 :: string
  sn_amd_sp :: amd_sp_meta

record seal_ext = vfy_ext +
  hkdf_sha256 :: "bytes \<Rightarrow> bytes \<Rightarrow> bytes"
  aes_new :: "bytes \<Rightarrow> string + unit"
  aes_gcm_encrypt :: "bytes \<Rightarrow> bytes \<Rightarrow> bytes \<Rightarrow> bytes \<Rightarrow> string + bytes"
  aes_gcm_open :: "bytes \<Rightarrow> bytes \<Rightarrow> bytes \<Rightarrow> bytes \<Rightarrow> bytes option"
  snp_seal :: "string \<times> string \<Rightarrow> bytes \<Rightarrow> bytes \<Rightarrow> amd_sp_meta \<Rightarrow> string + snp_blob"
  snp_unseal :: "snp_blob \<Rightarrow> string \<times> string \<Rightarrow> bytes \<Rightarrow> string + bytes"
  amd_sp_default :: amd_sp_meta
  blob_to_vec_pretty :: "sealed_blob \<Rightarrow> string + bytes"
  blob_from_str :: "string \<Rightarrow> string + sealed_blob"
  srv_pem_certs :: "bytes \<Rightarrow> string + bytes list"
  srv_pem_key :: "bytes \<Rightarrow> string + bytes option"
  srv_single_cert :: "bytes list \<Rightarrow> bytes \<Rightarrow> string + unit"

definition SEAL_AAD :: bytes where
  "SEAL_AAD = as_bytes ''teechat-openapi-tls-key-v1''"

definition SEAL_VERSION :: nat where
  "SEAL_VERSION = 1"

definition SEAL_VERSION_SGX_EGETKEY :: nat where
  "SEAL_VERSION_SGX_EGETKEY = 2"

definition SEAL_VERSION_SNP_AMD_SP :: nat where
  "SEAL_VERSION_SNP_AMD_SP = 3"

fun measurement_binding_label :: "measurement \<Rightarrow> string" where
  "measurement_binding_label (Mrenclave v) = ''mrenclave:'' @ v"
| "measurement_binding_label (LaunchDigest l i) = ''launch_digest:'' @ l @ ''|image_digest:'' @ i"

definition derive_seal_key :: "'x seal_ext_scheme \<Rightarrow> string \<Rightarrow> bytes option \<Rightarrow> bytes" where
  "derive_seal_key X binding seal_root =
     (let ikm = (case seal_root of Some root \<Rightarrow> root @ as_bytes binding | None \<Rightarrow> as_bytes binding)
      in hkdf_sha256 X ikm (as_bytes ''teechat-openapi-edge-seal-v1''))"

definition derive_cvm_seal_root :: "'x seal_ext_scheme \<Rightarrow> string \<Rightarrow> string \<Rightarrow> bytes" where
  "derive_cvm_seal_root X attested_launch_digest img_digest =
     derive_seal_key X (''cvm-seal-root|launch:'' @ attested_launch_digest @ ''|image:'' @ img_digest) None"

definition aad_for :: "string \<Rightarrow> bytes" where
  "aad_for binding = SEAL_AAD @ as_bytes binding"

text \<open>The nonce is what the random source gives.\<close>

definition seal_tls_private_key ::
    "'x seal_ext_scheme \<Rightarrow> bytes \<Rightarrow> measurement \<Rightarrow> bytes \<Rightarrow> bytes option \<Rightarrow> platform_error + sealed_blob" where
  "seal_tls_private_key X nonce ms key_pem seal_root =
     (if key_pem = [] then Inl (SealErr ''empty tls key'')
      else let binding = measurement_binding_label ms; seal_key = derive_seal_key X binding seal_root
           in bindE (map_err (\<lambda>e. SealErr (''cipher init: '' @ e)) (aes_new X seal_key)) (\<lambda>_.
              bindE (map_err (\<lambda>e. SealErr (''encrypt: '' @ e))
                       (aes_gcm_encrypt X seal_key nonce key_pem (aad_for binding))) (\<lambda>ciphertext.
              Inr \<lparr>sb_seal_version = SEAL_VERSION, sb_measurement = ms, sb_nonce_b64 = b64url_encode X nonce,
                   sb_ciphertext_b64 = b64url_encode X ciphertext, sb_seal_data_b64 = None, sb_amd_sp = None\<rparr>)))"

definition aes_gcm_decrypt ::
    "'x seal_ext_scheme \<Rightarrow> bytes \<Rightarrow> string \<Rightarrow> string \<Rightarrow> bytes \<Rightarrow> platform_error + bytes" where
  "aes_gcm_decrypt X seal_key nonce_b64 ciphertext_b64 aad =
     bindE (map_err (\<lambda>e. SealErr (''cipher init: '' @ e)) (aes_new X seal_key)) (\<lambda>_.
     bindE (map_err (\<lambda>e. SealErr (''nonce decode: '' @ e)) (b64url_decode X nonce_b64)) (\<lambda>nonce.
     if length nonce \<noteq> 12 then Inl (SealErr ''invalid nonce length'')
     else bindE (map_err (\<lambda>e. SealErr (''ciphertext decode: '' @ e)) (b64url_decode X ciphertext_b64)) (\<lambda>ciphertext.
          bindE (ok_or (SealErr ''decrypt failed (wrong measurement, AMD-SP key, or tampered blob)'')
                   (aes_gcm_open X seal_key nonce ciphertext aad)) (\<lambda>plaintext.
          if plaintext = [] then Inl (SealErr ''empty tls key after unseal'') else Inr plaintext))))"

definition unseal_tls_private_key ::
    "'x seal_ext_scheme \<Rightarrow> sealed_blob \<Rightarrow> measurement \<Rightarrow> bytes option \<Rightarrow> platform_error + bytes" where
  "unseal_tls_private_key X blob expected seal_root =
     (if sb_seal_version blob \<noteq> SEAL_VERSION
      then Inl (SealErr (''unsupported seal_version '' @ show_nat (sb_seal_version blob) @
                  '' for HKDF unseal (expected '' @ show_nat SEAL_VERSION @ '')''))
      else if sb_seal_data_b64 blob \<noteq> None
      then Inl (SealErr (''seal_data_b64 present '' @ em_dash @ '' use SGX hardware unseal (seal_version 2)''))
      else if sb_amd_sp blob \<noteq> None
      then Inl (SealErr (''amd_sp present '' @ em_dash @ '' use AMD-SP unseal (seal_version 3)''))
      else if sb_measurement blob \<noteq> expected then Inl (SealErr ''sealed blob measurement mismatch'')
      else let binding = measurement_binding_label expected; seal_key = derive_seal_key X binding seal_root
           in aes_gcm_decrypt X seal_key (sb_nonce_b64 blob) (sb_ciphertext_b64 blob) (aad_for binding))"

fun to_snp_measurement :: "measurement \<Rightarrow> platform_error + string \<times> string" where
  "to_snp_measurement (LaunchDigest l i) = Inr (l, i)"
| "to_snp_measurement (Mrenclave v) = Inl (SealErr ''AMD-SP seal requires launch_digest measurement'')"

definition from_snp_blob :: "snp_blob \<Rightarrow> sealed_blob" where
  "from_snp_blob b =
     \<lparr>sb_seal_version = sn_seal_version b, sb_measurement = case_prod LaunchDigest (sn_measurement b),
      sb_nonce_b64 = sn_nonce_b64 b, sb_ciphertext_b64 = sn_ciphertext_b64 b, sb_seal_data_b64 = None,
      sb_amd_sp = Some (sn_amd_sp b)\<rparr>"

definition to_snp_blob :: "sealed_blob \<Rightarrow> platform_error + snp_blob" where
  "to_snp_blob b =
     bindE (ok_or (SealErr ''amd_sp metadata required for seal_version 3'') (sb_amd_sp b)) (\<lambda>amd_sp.
     bindE (to_snp_measurement (sb_measurement b)) (\<lambda>ms.
     Inr \<lparr>sn_seal_version = sb_seal_version b, sn_measurement = ms, sn_nonce_b64 = sb_nonce_b64 b,
          sn_ciphertext_b64 = sb_ciphertext_b64 b, sn_amd_sp = amd_sp\<rparr>))"

definition seal_tls_private_key_amd_sp ::
    "'x seal_ext_scheme \<Rightarrow> measurement \<Rightarrow> bytes \<Rightarrow> bytes \<Rightarrow> amd_sp_meta \<Rightarrow> platform_error + sealed_blob" where
  "seal_tls_private_key_amd_sp X ms key_pem derived_key meta =
     bindE (to_snp_measurement ms) (\<lambda>snp_m.
     bindE (map_err SealErr (snp_seal X snp_m key_pem derived_key meta)) (\<lambda>blob. Inr (from_snp_blob blob)))"

definition unseal_tls_private_key_amd_sp ::
    "'x seal_ext_scheme \<Rightarrow> sealed_blob \<Rightarrow> measurement \<Rightarrow> bytes \<Rightarrow> platform_error + bytes" where
  "unseal_tls_private_key_amd_sp X blob expected derived_key =
     (if sb_seal_data_b64 blob \<noteq> None
      then Inl (SealErr (''seal_data_b64 present '' @ em_dash @ '' not an AMD-SP blob''))
      else bindE (to_snp_blob blob) (\<lambda>snp_b.
           bindE (to_snp_measurement expected) (\<lambda>snp_m.
           map_err SealErr (snp_unseal X snp_b snp_m derived_key))))"

subsection \<open>The attested launch digest\<close>

text \<open>What the calls of \<open>snpguest\<close> do, by the path of the tool: errors of the directory and the request
  file, of starting the tool, its exit status unless it is success, and its output.\<close>

record snp_tool =
  st_mkdir :: "string option"
  st_write :: "string option"
  st_report :: "string \<Rightarrow> string + string option"
  st_display :: "string \<Rightarrow> string + bool \<times> bytes \<times> bytes"

record tee_host =
  th_env :: environ
  th_sev_guest :: bool
  th_tool :: snp_tool
  th_derive :: "bool \<Rightarrow> amd_sp_meta \<Rightarrow> string + bytes"
  th_nonce :: bytes
  th_fs :: fs_faults

text \<open>The hexadecimal words of a line, joined; and the lines that continue a measurement.\<close>

definition hex_words :: "string \<Rightarrow> string" where
  "hex_words s = concat (filter (list_all is_ascii_hexdigit) (split_whitespace s))"

fun hex_lines :: "string list \<Rightarrow> string" where
  "hex_lines [] = []"
| "hex_lines (l # ls) =
     (if l = [] \<or> CHR '':'' \<in> set l \<or> hex_words l = [] then [] else hex_words l @ hex_lines ls)"

definition after_label :: "string \<Rightarrow> string option" where
  "after_label line =
     (case strip_prefix line ''Launch Measurement:'' of
        Some r \<Rightarrow> Some r | None \<Rightarrow> strip_prefix line ''Measurement:'')"

text \<open>The lines a measurement took are not looked at again.\<close>

fun hex_lines_rest :: "string list \<Rightarrow> string list" where
  "hex_lines_rest [] = []"
| "hex_lines_rest (l # ls) =
     (if l = [] \<or> CHR '':'' \<in> set l \<or> hex_words l = [] then l # ls else hex_lines_rest ls)"

lemma length_hex_lines_rest: "length (hex_lines_rest ls) \<le> length ls"
  by (induction ls) auto

function find_measurement :: "string list \<Rightarrow> string option" where
  "find_measurement [] = None"
| "find_measurement (l # ls) =
     (case after_label l of
        None \<Rightarrow> find_measurement ls
      | Some r \<Rightarrow>
          let hex = hex_words r @ hex_lines ls
          in if 64 \<le> length hex \<and> list_all is_ascii_hexdigit hex then Some (to_ascii_lowercase hex)
             else find_measurement (hex_lines_rest ls))"
  by pat_completeness auto

termination
  by (relation "measure length") (auto simp: less_Suc_eq_le length_hex_lines_rest)

definition parse_launch_measurement_from_display :: "string \<Rightarrow> platform_error + string" where
  "parse_launch_measurement_from_display txt =
     ok_or (AttestationErr ''snpguest display output missing Measurement'')
       (find_measurement (map trim (str_lines txt)))"

definition guest_snpguest_bin :: "environ \<Rightarrow> string" where
  "guest_snpguest_bin env = (case env ''OPENAPI_SNPGUEST_BIN'' of Some b \<Rightarrow> b | None \<Rightarrow> ''snpguest'')"

definition read_launch_digest_via_snpguest :: "tee_host \<Rightarrow> platform_error + string" where
  "read_launch_digest_via_snpguest H =
     (let T = th_tool H; bin = guest_snpguest_bin (th_env H)
      in case st_mkdir T of
           Some e \<Rightarrow> Inl (AttestationErr (''temp dir: '' @ e))
         | None \<Rightarrow>
             (case st_write T of
                Some e \<Rightarrow> Inl (AttestationErr (''write request: '' @ e))
              | None \<Rightarrow>
                  bindE (map_err (\<lambda>e. AttestationErr (''snpguest report: '' @ e)) (st_report T bin)) (\<lambda>status.
                  case status of
                    Some st \<Rightarrow> Inl (AttestationErr (''snpguest report failed (exit '' @ st @ '')''))
                  | None \<Rightarrow>
                      bindE (map_err (\<lambda>e. AttestationErr (''snpguest display: '' @ e)) (st_display T bin))
                        (\<lambda>(success, out, err).
                      if \<not> success
                      then Inl (AttestationErr (''snpguest display failed: '' @ from_utf8_lossy err))
                      else parse_launch_measurement_from_display (from_utf8_lossy out)))))"

definition read_attested_launch_digest :: "'x att_ext_scheme \<Rightarrow> tee_host \<Rightarrow> platform_error + string" where
  "read_attested_launch_digest X H =
     (let hardware = (if th_sev_guest H then read_launch_digest_via_snpguest H
                      else Inl (AttestationErr ''no attested launch digest source (/dev/sev-guest or OPENAPI_ATTESTED_LAUNCH_DIGEST)''))
      in case th_env H ''OPENAPI_ATTESTED_LAUNCH_DIGEST'' of
           Some v \<Rightarrow>
             if v \<noteq> [] \<and> v \<noteq> ''unknown'' then
               bindE (map_err (\<lambda>e. SealErr (profile_error_to_string (str_debug X) e)) (load_edge_profile (th_env H)))
                 (\<lambda>profile.
               if is_prod profile
               then Inl (SealErr ''OPENAPI_ATTESTED_LAUNCH_DIGEST is forbidden when OPENAPI_PROFILE=prod; use snpguest / /dev/sev-guest (OPS-001)'')
               else Inr v)
             else hardware
         | None \<Rightarrow> hardware)"

definition verify_launch_digest_attested :: "'x att_ext_scheme \<Rightarrow> tee_host \<Rightarrow> string \<Rightarrow> platform_error + unit" where
  "verify_launch_digest_attested X H env_launch_digest =
     (if env_launch_digest = [] \<or> env_launch_digest = ''unknown''
      then Inl (SealErr ''OPENAPI_LAUNCH_DIGEST must be set to attested value in prod'')
      else bindE (read_attested_launch_digest X H) (\<lambda>attested.
           if attested \<noteq> to_ascii_lowercase env_launch_digest
           then Inl (SealErr (''OPENAPI_LAUNCH_DIGEST mismatch: env='' @ env_launch_digest @ '' attested='' @ attested))
           else Inr ()))"

definition derive_amd_sp_seal_key :: "'x att_ext_scheme \<Rightarrow> tee_host \<Rightarrow> amd_sp_meta \<Rightarrow> platform_error + bytes" where
  "derive_amd_sp_seal_key X H meta =
     bindE (map_err (\<lambda>e. SealErr (profile_error_to_string (str_debug X) e)) (load_edge_profile (th_env H))) (\<lambda>profile.
     map_err SealErr (th_derive H (is_prod profile) meta))"

subsection \<open>The sealer of the guest\<close>

record cvm_sealer =
  cs_launch_digest :: string
  cs_image_digest :: string
  cs_prod :: bool

definition cvm_sealer_new :: "string \<Rightarrow> string \<Rightarrow> cvm_sealer" where
  "cvm_sealer_new launch img = \<lparr>cs_launch_digest = launch, cs_image_digest = img, cs_prod = False\<rparr>"

definition cvm_sealer_with_profile :: "string \<Rightarrow> string \<Rightarrow> bool \<Rightarrow> cvm_sealer" where
  "cvm_sealer_with_profile launch img production =
     \<lparr>cs_launch_digest = launch, cs_image_digest = img, cs_prod = production\<rparr>"

definition HOST_ROOT_FORBIDDEN :: platform_error where
  "HOST_ROOT_FORBIDDEN = SealErr ''OPENAPI_SEAL_ROOT_HEX must not be host-supplied in prod''"

definition resolve_seal_root :: "cvm_sealer \<Rightarrow> bytes option \<Rightarrow> platform_error + bytes option" where
  "resolve_seal_root S supplied =
     (if cs_prod S then if supplied \<noteq> None then Inl HOST_ROOT_FORBIDDEN else Inr None
      else Inr supplied)"

definition sealing_measurement :: "cvm_sealer \<Rightarrow> measurement" where
  "sealing_measurement S = LaunchDigest (cs_launch_digest S) (cs_image_digest S)"

definition seal_tls_key ::
    "'x seal_ext_scheme \<Rightarrow> tee_host \<Rightarrow> cvm_sealer \<Rightarrow> bytes \<Rightarrow> bytes option \<Rightarrow> platform_error + sealed_blob" where
  "seal_tls_key X H S key_pem seal_root =
     (if cs_prod S then
        if seal_root \<noteq> None then Inl HOST_ROOT_FORBIDDEN
        else bindE (verify_launch_digest_attested X H (cs_launch_digest S)) (\<lambda>_.
             let meta = amd_sp_default X
             in bindE (derive_amd_sp_seal_key X H meta) (\<lambda>amd_key.
                seal_tls_private_key_amd_sp X (sealing_measurement S) key_pem amd_key meta))
      else seal_tls_private_key X (th_nonce H) (sealing_measurement S) key_pem seal_root)"

definition unseal_tls_key ::
    "'x seal_ext_scheme \<Rightarrow> tee_host \<Rightarrow> cvm_sealer \<Rightarrow> sealed_blob \<Rightarrow> bytes option \<Rightarrow> platform_error + bytes" where
  "unseal_tls_key X H S blob seal_root =
     (if cs_prod S then
        if seal_root \<noteq> None then Inl HOST_ROOT_FORBIDDEN
        else bindE (verify_launch_digest_attested X H (cs_launch_digest S)) (\<lambda>_.
             if sb_seal_version blob \<noteq> SEAL_VERSION_SNP_AMD_SP
             then Inl (SealErr (''legacy or unsupported seal_version '' @ show_nat (sb_seal_version blob) @
                         '' forbidden for CVM prod unseal; expected '' @ show_nat SEAL_VERSION_SNP_AMD_SP))
             else bindE (ok_or (SealErr ''amd_sp metadata required for seal_version 3'') (sb_amd_sp blob)) (\<lambda>meta.
                  bindE (derive_amd_sp_seal_key X H meta) (\<lambda>amd_key.
                  unseal_tls_private_key_amd_sp X blob (sealing_measurement S) amd_key)))
      else unseal_tls_private_key X blob (sealing_measurement S) seal_root)"

text \<open>The default operations of the trait on files.\<close>

definition seal_tls_key_to_file ::
    "'x seal_ext_scheme \<Rightarrow> tee_host \<Rightarrow> cvm_sealer \<Rightarrow> bytes \<Rightarrow> string \<Rightarrow> bytes option \<Rightarrow> (disk, platform_error, unit) op" where
  "seal_tls_key_to_file X H S key_pem path seal_root =
     bindS (liftS (seal_tls_key X H S key_pem seal_root)) (\<lambda>blob.
     bindS (liftS (map_err (\<lambda>e. SealErr (''encode blob: '' @ e)) (blob_to_vec_pretty X blob))) (\<lambda>json.
     map_errS PlatformIo (fs_write (th_fs H) path json)))"

definition unseal_tls_key_from_file ::
    "'x seal_ext_scheme \<Rightarrow> tee_host \<Rightarrow> cvm_sealer \<Rightarrow> string \<Rightarrow> bytes option \<Rightarrow> (disk, platform_error, bytes) op" where
  "unseal_tls_key_from_file X H S path seal_root =
     bindS (map_errS PlatformIo (fs_read_to_string (th_fs H) path)) (\<lambda>raw.
     bindS (liftS (map_err (\<lambda>e. SealErr (''parse blob: '' @ e)) (blob_from_str X raw))) (\<lambda>blob.
     liftS (unseal_tls_key X H S blob seal_root)))"

subsection \<open>The key policy of the image\<close>

definition TLS_KEY_POLICY_PATH :: string where
  "TLS_KEY_POLICY_PATH = ''/etc/tls_key_policy''"

datatype tls_key_policy = KeyCeremony | SealSync

fun tls_key_policy_as_str :: "tls_key_policy \<Rightarrow> string" where
  "tls_key_policy_as_str KeyCeremony = ''key_ceremony''"
| "tls_key_policy_as_str SealSync = ''seal_sync''"

definition tls_key_policy_parse :: "string \<Rightarrow> tls_key_policy option" where
  "tls_key_policy_parse raw =
     (let t = trim raw
      in if t = ''key_ceremony'' then Some KeyCeremony else if t = ''seal_sync'' then Some SealSync else None)"

definition read_tls_key_policy_from ::
    "'x att_ext_scheme \<Rightarrow> tee_host \<Rightarrow> string \<Rightarrow> (disk, string, tls_key_policy) op" where
  "read_tls_key_policy_from X H path =
     bindS (map_errS (\<lambda>e. ''read '' @ path @ '': '' @ e) (fs_read_to_string (th_fs H) path)) (\<lambda>raw.
     case map trim (take 1 (str_lines raw)) of
       [line] \<Rightarrow>
         if line = [] then failS (path @ '' empty'')
         else liftS (ok_or (path @ '': invalid tls_key_policy '' @ str_debug X line @ '' (want key_ceremony|seal_sync)'')
                       (tls_key_policy_parse line))
     | _ \<Rightarrow> failS (path @ '' empty''))"

definition tls_key_policy_path :: "tee_host \<Rightarrow> string" where
  "tls_key_policy_path H =
     (if load_edge_profile (th_env H) \<noteq> Inr Dev then TLS_KEY_POLICY_PATH
      else (case th_env H ''OPENAPI_TLS_KEY_POLICY_PATH'' of
              Some p \<Rightarrow> if p \<noteq> [] then p else TLS_KEY_POLICY_PATH | None \<Rightarrow> TLS_KEY_POLICY_PATH))"

definition read_tls_key_policy :: "'x att_ext_scheme \<Rightarrow> tee_host \<Rightarrow> (disk, string, tls_key_policy) op" where
  "read_tls_key_policy X H = read_tls_key_policy_from X H (tls_key_policy_path H)"

definition resolve_tls_key_policy_for_profile ::
    "'x att_ext_scheme \<Rightarrow> tee_host \<Rightarrow> bool \<Rightarrow> (disk, string, tls_key_policy) op" where
  "resolve_tls_key_policy_for_profile X H profile_prod d =
     (if profile_prod \<and> env_set (th_env H) ''OPENAPI_TLS_KEY_POLICY''
      then (Inl ''OPENAPI_TLS_KEY_POLICY env override is forbidden in prod (use /etc/tls_key_policy)'', d)
      else (case read_tls_key_policy X H d of
              (Inr p, d') \<Rightarrow> (Inr p, d')
            | (Inl file_err, d') \<Rightarrow>
                (if profile_prod
                 then Inl (''prod requires measured '' @ tls_key_policy_path H @ '': '' @ file_err)
                 else (case th_env H ''OPENAPI_TLS_KEY_POLICY'' of
                         Some v \<Rightarrow>
                           ok_or (''OPENAPI_TLS_KEY_POLICY invalid '' @ str_debug X v @ '' (want key_ceremony|seal_sync)'')
                             (tls_key_policy_parse v)
                       | None \<Rightarrow> Inr SealSync), d')))"

subsection \<open>What sealing promises\<close>

text \<open>What the code relies on: AES-GCM opens what it sealed, the base64 and JSON codecs read back what they
  wrote, JSON text is UTF-8, and \<open>attested-mtls-snp-seal\<close> unseals, under the key and measurement it
  sealed with, a blob of version three with the metadata it was given.\<close>

definition seal_laws :: "'x seal_ext_scheme \<Rightarrow> bool" where
  "seal_laws X \<longleftrightarrow>
     (\<forall>k n m a c. aes_gcm_encrypt X k n m a = Inr c \<longrightarrow> aes_gcm_open X k n c a = Some m) \<and>
     (\<forall>b. b64url_decode X (b64url_encode X b) = Inr b) \<and>
     (\<forall>b j. blob_to_vec_pretty X b = Inr j \<longrightarrow> (\<exists>s. from_utf8 j = Some s \<and> blob_from_str X s = Inr b)) \<and>
     (\<forall>ms key dk meta b. snp_seal X ms key dk meta = Inr b \<longrightarrow>
        sn_seal_version b = 3 \<and> sn_measurement b = ms \<and> sn_amd_sp b = meta \<and> snp_unseal X b ms dk = Inr key)"

lemma seal_lawsD:
  assumes "seal_laws X"
  shows "aes_gcm_encrypt X k n m a = Inr c \<Longrightarrow> aes_gcm_open X k n c a = Some m"
    "b64url_decode X (b64url_encode X b) = Inr b"
    "blob_to_vec_pretty X blob = Inr j \<Longrightarrow> \<exists>s. from_utf8 j = Some s \<and> blob_from_str X s = Inr blob"
    "snp_seal X ms key dk meta = Inr sb \<Longrightarrow>
       sn_seal_version sb = 3 \<and> sn_measurement sb = ms \<and> sn_amd_sp sb = meta \<and> snp_unseal X sb ms dk = Inr key"
  using assms unfolding seal_laws_def by blast+

lemma snp_blob_round_trip: "to_snp_blob (from_snp_blob b) = Inr b"
  by (cases b; cases "sn_measurement b") (simp add: to_snp_blob_def from_snp_blob_def)

lemma seal_unseal_hkdf:
  assumes "seal_laws X" "length nonce = 12" "seal_tls_private_key X nonce ms key root = Inr blob"
  shows "unseal_tls_private_key X blob ms root = Inr key"
proof -
  let ?b = "measurement_binding_label ms"
  from assms(3) obtain c where c: "key \<noteq> []" "aes_new X (derive_seal_key X ?b root) = Inr ()"
    "aes_gcm_encrypt X (derive_seal_key X ?b root) nonce key (aad_for ?b) = Inr c"
    "blob = \<lparr>sb_seal_version = SEAL_VERSION, sb_measurement = ms, sb_nonce_b64 = b64url_encode X nonce,
       sb_ciphertext_b64 = b64url_encode X c, sb_seal_data_b64 = None, sb_amd_sp = None\<rparr>"
    by (auto simp: seal_tls_private_key_def Let_def result_simps split: if_splits)
  with assms(2) seal_lawsD(1) [OF assms(1) c(3)] seal_lawsD(2) [OF assms(1)] show ?thesis
    by (simp add: unseal_tls_private_key_def aes_gcm_decrypt_def Let_def)
qed

lemma seal_unseal_amd_sp:
  assumes "seal_laws X" "seal_tls_private_key_amd_sp X ms key dk meta = Inr blob"
  shows "unseal_tls_private_key_amd_sp X blob ms dk = Inr key" "sb_seal_version blob = 3" "sb_amd_sp blob = Some meta"
proof -
  from assms(2) obtain m b where b: "to_snp_measurement ms = Inr m" "snp_seal X m key dk meta = Inr b" "blob = from_snp_blob b"
    by (auto simp: seal_tls_private_key_amd_sp_def result_simps)
  from seal_lawsD(4) [OF assms(1) b(2)]
  have s: "sn_seal_version b = 3" "sn_amd_sp b = meta" "snp_unseal X b m dk = Inr key" by simp_all
  from b s show "unseal_tls_private_key_amd_sp X blob ms dk = Inr key"
    by (simp add: unseal_tls_private_key_amd_sp_def snp_blob_round_trip) (simp add: from_snp_blob_def)
  from b(3) s show "sb_seal_version blob = 3" "sb_amd_sp blob = Some meta"
    by (simp_all add: from_snp_blob_def)
qed

lemma seal_unseal_key:
  assumes "seal_laws X" "length (th_nonce H) = 12" "seal_tls_key X H S key root = Inr blob"
  shows "unseal_tls_key X H S blob root = Inr key"
proof (cases "cs_prod S")
  case True
  with assms(3) obtain dk where dk: "root = None" "verify_launch_digest_attested X H (cs_launch_digest S) = Inr ()"
    "derive_amd_sp_seal_key X H (amd_sp_default X) = Inr dk"
    "seal_tls_private_key_amd_sp X (sealing_measurement S) key dk (amd_sp_default X) = Inr blob"
    by (auto simp: seal_tls_key_def Let_def result_simps split: if_splits)
  with True seal_unseal_amd_sp [OF assms(1) dk(4)] show ?thesis
    by (simp add: unseal_tls_key_def SEAL_VERSION_SNP_AMD_SP_def)
next
  case False
  with assms seal_unseal_hkdf [OF assms(1,2)] show ?thesis by (simp add: seal_tls_key_def unseal_tls_key_def)
qed

text \<open>Unsealing depends on the environment, the tool and the processor alone.\<close>

lemma unseal_depends:
  assumes same: "th_env H' = th_env H" "th_sev_guest H' = th_sev_guest H" "th_tool H' = th_tool H" "th_derive H' = th_derive H"
  shows "unseal_tls_key X H' S blob root = unseal_tls_key X H S blob root"
proof -
  have "read_launch_digest_via_snpguest H' = read_launch_digest_via_snpguest H"
    unfolding read_launch_digest_via_snpguest_def same ..
  then have "read_attested_launch_digest X H' = read_attested_launch_digest X H"
    unfolding read_attested_launch_digest_def same by simp
  moreover have "derive_amd_sp_seal_key X H' = derive_amd_sp_seal_key X H"
    unfolding derive_amd_sp_seal_key_def same ..
  ultimately show ?thesis unfolding unseal_tls_key_def verify_launch_digest_attested_def by simp
qed

text \<open>C15. A sealed key comes back. Whatever the profile, when sealing the TLS key into a file succeeds, the
  same guest reads exactly that key back from the file, at any later time the file can be read.\<close>

theorem sealed_key_comes_back:
  assumes "seal_laws X" "length (th_nonce H) = 12"
    and "seal_tls_key_to_file X H S key path root d = (Inr (), d')"
    and "ff_fault F FsRead path = None"
  shows "unseal_tls_key_from_file X (H\<lparr>th_fs := F, th_nonce := n\<rparr>) S path root d' = (Inr key, d')"
proof -
  from assms(3) obtain blob json where b: "seal_tls_key X H S key root = Inr blob" "blob_to_vec_pretty X blob = Inr json"
    "fs_write (th_fs H) path json d = (Inr (), d')"
    by (auto simp: seal_tls_key_to_file_def result_simps)
  from seal_lawsD(3) [OF assms(1) b(2)] obtain s where s: "from_utf8 json = Some s" "blob_from_str X s = Inr blob"
    by blast
  have "dk_file d' (fs_canon d' path) = Some json"
    using fs_write_ok [OF b(3)] by (simp add: fs_canon_def)
  with assms(4) s(1) have "fs_read_to_string F path d' = (Inr s, d')"
    by (simp add: fs_read_to_string_def fs_read_def fs_guard_def bindS_def)
  moreover have "unseal_tls_key X (H\<lparr>th_fs := F, th_nonce := n\<rparr>) S blob root = Inr key"
    using seal_unseal_key [OF assms(1,2) b(1)] unseal_depends [of "H\<lparr>th_fs := F, th_nonce := n\<rparr>" H X S blob root] by simp
  ultimately show ?thesis
    using s(2) by (simp add: unseal_tls_key_from_file_def bindS_def map_errS_def)
qed

text \<open>What stands behind a key that was unsealed in production.\<close>

definition hardware_bound :: "'x seal_ext_scheme \<Rightarrow> tee_host \<Rightarrow> cvm_sealer \<Rightarrow> sealed_blob \<Rightarrow> bytes \<Rightarrow> bool" where
  "hardware_bound X H S blob key \<longleftrightarrow>
     (\<exists>meta dk b. sb_seal_version blob = 3 \<and> sb_amd_sp blob = Some meta \<and> th_derive H True meta = Inr dk \<and>
        to_snp_blob blob = Inr b \<and> snp_unseal X b (cs_launch_digest S, cs_image_digest S) dk = Inr key) \<and>
     th_sev_guest H \<and> read_launch_digest_via_snpguest H = Inr (to_ascii_lowercase (cs_launch_digest S)) \<and>
     \<not> (env_set (th_env H) ''OPENAPI_ATTESTED_LAUNCH_DIGEST'' \<and>
        th_env H ''OPENAPI_ATTESTED_LAUNCH_DIGEST'' \<noteq> Some ''unknown'')"

lemma prod_attested_digest:
  assumes "verify_launch_digest_attested X H ld = Inr ()" "load_edge_profile (th_env H) = Inr Prod"
  shows "th_sev_guest H \<and> read_launch_digest_via_snpguest H = Inr (to_ascii_lowercase ld) \<and>
    \<not> (env_set (th_env H) ''OPENAPI_ATTESTED_LAUNCH_DIGEST'' \<and>
       th_env H ''OPENAPI_ATTESTED_LAUNCH_DIGEST'' \<noteq> Some ''unknown'')"
  using assms
  by (auto simp: verify_launch_digest_attested_def read_attested_launch_digest_def env_set_def is_prod_def Let_def
      result_simps split: if_splits option.splits)

lemma prod_unseal_hardware_bound:
  assumes "unseal_tls_key X H S blob root = Inr key" "cs_prod S" "load_edge_profile (th_env H) = Inr Prod"
  shows "hardware_bound X H S blob key" "root = None"
proof -
  from assms obtain meta dk where u: "verify_launch_digest_attested X H (cs_launch_digest S) = Inr ()"
    "sb_seal_version blob = 3" "sb_amd_sp blob = Some meta" "th_derive H True meta = Inr dk"
    "unseal_tls_private_key_amd_sp X blob (sealing_measurement S) dk = Inr key"
    by (auto simp: unseal_tls_key_def SEAL_VERSION_SNP_AMD_SP_def derive_amd_sp_seal_key_def is_prod_def result_simps
        split: if_splits)
  from u(5) obtain b where "to_snp_blob blob = Inr b" "snp_unseal X b (cs_launch_digest S, cs_image_digest S) dk = Inr key"
    by (auto simp: unseal_tls_private_key_amd_sp_def sealing_measurement_def result_simps split: if_splits)
  with u prod_attested_digest [OF u(1) assms(3)] show "hardware_bound X H S blob key"
    unfolding hardware_bound_def by blast
  from assms show "root = None" by (auto simp: unseal_tls_key_def split: if_splits)
qed

subsection \<open>A guest at work\<close>

text \<open>Codecs that keep bytes, a processor that gives one key, and a tool that shows one measurement.\<close>

definition sample_sealed :: sealed_blob where
  "sample_sealed = from_snp_blob \<lparr>sn_seal_version = 3, sn_measurement = (digest_a, digest_a), sn_nonce_b64 = [],
     sn_ciphertext_b64 = ''k'', sn_amd_sp = []\<rparr>"

definition seal_crates :: seal_ext where
  "seal_crates = vfy_ext.extend vfy_crates
     \<lparr>hkdf_sha256 = \<lambda>ikm info. [], aes_new = \<lambda>k. Inr (), aes_gcm_encrypt = \<lambda>k n m a. Inr m, aes_gcm_open = \<lambda>k n c a. Some c,
      snp_seal = \<lambda>ms key dk meta. Inr \<lparr>sn_seal_version = 3, sn_measurement = ms, sn_nonce_b64 = [],
        sn_ciphertext_b64 = bytes_str key, sn_amd_sp = meta\<rparr>,
      snp_unseal = \<lambda>b ms dk. Inr (as_bytes (sn_ciphertext_b64 b)), amd_sp_default = [],
      blob_to_vec_pretty = \<lambda>b. if b = sample_sealed then Inr (as_bytes ''{}'') else Inl [],
      blob_from_str = \<lambda>s. Inr sample_sealed,
      srv_pem_certs = \<lambda>b. Inr [b], srv_pem_key = \<lambda>b. Inr (Some b), srv_single_cert = \<lambda>cs k. Inr ()\<rparr>"

definition sample_guest :: tee_host where
  "sample_guest = \<lparr>th_env = [''OPENAPI_PROFILE'' \<mapsto> ''prod''], th_sev_guest = True,
     th_tool = \<lparr>st_mkdir = None, st_write = None, st_report = \<lambda>b. Inr None,
       st_display = \<lambda>b. Inr (True, as_bytes (''Measurement: '' @ digest_a), [])\<rparr>,
     th_derive = \<lambda>p m. Inr [], th_nonce = replicate 12 0, th_fs = no_fs_faults\<rparr>"

definition sample_sealer :: cvm_sealer where
  "sample_sealer = cvm_sealer_with_profile digest_a digest_a True"

lemma seal_crates_simps:
  "aes_gcm_encrypt seal_crates k n m a = Inr m" "aes_gcm_open seal_crates k n m a = Some m"
  "snp_seal seal_crates ms key dk meta = Inr \<lparr>sn_seal_version = 3, sn_measurement = ms, sn_nonce_b64 = [],
     sn_ciphertext_b64 = bytes_str key, sn_amd_sp = meta\<rparr>"
  "snp_unseal seal_crates b ms dk = Inr (as_bytes (sn_ciphertext_b64 b))" "amd_sp_default seal_crates = []"
  "blob_to_vec_pretty seal_crates blob = (if blob = sample_sealed then Inr (as_bytes ''{}'') else Inl [])"
  "blob_from_str seal_crates s = Inr sample_sealed"
  "b64url_decode seal_crates s = Inr (as_bytes s)" "b64url_encode seal_crates = bytes_str"
  "srv_pem_certs seal_crates p = Inr [p]" "srv_pem_key seal_crates p = Inr (Some p)" "srv_single_cert seal_crates cs p = Inr ()"
  by (simp_all add: seal_crates_def vfy_crates_def vfy_ext.defs)

lemma seal_crates_laws: "seal_laws seal_crates"
proof -
  have "from_utf8 (as_bytes ''{}'') = Some ''{}''" by (rule from_utf8_ascii) (simp add: code_def)
  then show ?thesis by (simp add: seal_laws_def seal_crates_simps split: if_splits)
qed

lemma sample_displayed: "parse_launch_measurement_from_display (''Measurement: '' @ digest_a) = Inr digest_a"
  by code_simp

lemma sample_attested: "verify_launch_digest_attested X sample_guest digest_a = Inr ()"
proof -
  have "from_utf8_lossy (as_bytes (''Measurement: '' @ digest_a)) = ''Measurement: '' @ digest_a"
    by (intro from_utf8_lossy_valid from_utf8_ascii) (simp add: digest_a_def code_def)
  moreover have "load_edge_profile (th_env sample_guest) = Inr Prod" by code_simp
  ultimately show ?thesis
    using sample_displayed
    by (simp add: verify_launch_digest_attested_def read_attested_launch_digest_def read_launch_digest_via_snpguest_def
        sample_guest_def digest_a_facts guest_snpguest_bin_def) (simp add: digest_a_def)
qed

lemma sample_profile_prod: "load_edge_profile (th_env sample_guest) = Inr Prod"
  by code_simp

lemma sample_seals: "seal_tls_key seal_crates sample_guest sample_sealer [107] None = Inr sample_sealed"
proof -
  have "bytes_str [107] = ''k''"
    using bytes_str_as_bytes [of "''k''"] by (simp add: as_bytes_def)
  then show ?thesis
    using sample_profile_prod
    by (simp add: seal_tls_key_def sample_sealer_def cvm_sealer_with_profile_def sample_attested derive_amd_sp_seal_key_def
        seal_tls_private_key_amd_sp_def sealing_measurement_def seal_crates_simps sample_sealed_def sample_guest_def
        [THEN arg_cong, of th_derive])
qed

theorem sealed_key_comes_back_witness:
  "\<exists>d'. seal_tls_key_to_file seal_crates sample_guest sample_sealer [107] ''/s'' None
       \<lparr>dk_file = Map.empty, dk_link = Map.empty, dk_dir = Map.empty\<rparr> = (Inr (), d') \<and>
     unseal_tls_key_from_file seal_crates sample_guest sample_sealer ''/s'' None d' = (Inr [107], d')"
proof -
  let ?d = "\<lparr>dk_file = Map.empty, dk_link = Map.empty, dk_dir = Map.empty\<rparr>"
  have "\<exists>d'. seal_tls_key_to_file seal_crates sample_guest sample_sealer [107] ''/s'' None ?d = (Inr (), d')"
    by (simp add: seal_tls_key_to_file_def sample_seals seal_crates_simps fs_write_def sample_guest_def
        [THEN arg_cong, of th_fs] no_fs_faults_def bindS_def map_errS_def)
  then obtain d' where d': "seal_tls_key_to_file seal_crates sample_guest sample_sealer [107] ''/s'' None ?d = (Inr (), d')" ..
  have "length (th_nonce sample_guest) = 12" "ff_fault no_fs_faults FsRead ''/s'' = None"
    by (simp_all add: sample_guest_def no_fs_faults_def)
  from sealed_key_comes_back [OF seal_crates_laws this(1) d' this(2), of "th_nonce sample_guest"] d'
  show ?thesis by (auto simp: sample_guest_def)
qed

end
