(* ===== verification/Tls_Ceremony.thy ===== *)
theory Tls_Ceremony
  imports Sealing "HOL-Library.List_Lexorder" "HOL-Library.Char_ord"
begin

text \<open>
  The serving key and certificate: \<open>crates/openapi-platform-cvm/src/tls.rs\<close>, \<open>crates/openapi-platform/src/tls.rs\<close>
  and the issuance ceremony \<open>crates/openapi-platform-cvm/src/tls_ceremony.rs\<close>, which seals the key ACME left on
  the disk, installs the certificate chain and shreds every plain copy of the key.
\<close>

subsection \<open>Server configurations\<close>

datatype tls_error = TlsIo string | TlsRustls string | TlsSeal platform_error

fun tls_error_to_string :: "tls_error \<Rightarrow> string" where
  "tls_error_to_string (TlsIo e) = ''io: '' @ e"
| "tls_error_to_string (TlsRustls e) = ''tls: '' @ e"
| "tls_error_to_string (TlsSeal e) = ''seal: '' @ platform_error_to_string e"

text \<open>A TLS 1.3 server without client authentication: its chain and key.\<close>

record server_config =
  sc_certs :: "bytes list"
  sc_key :: bytes

definition build_server_tls_config :: "'x seal_ext_scheme \<Rightarrow> bytes list \<Rightarrow> bytes \<Rightarrow> string + server_config" where
  "build_server_tls_config X certs key =
     bindE (srv_single_cert X certs key) (\<lambda>_. Inr \<lparr>sc_certs = certs, sc_key = key\<rparr>)"

definition load_server_config_from_pem_paths ::
    "'x seal_ext_scheme \<Rightarrow> tee_host \<Rightarrow> string \<Rightarrow> bytes \<Rightarrow> (disk, tls_error, server_config) op" where
  "load_server_config_from_pem_paths X H cert_path key_pem =
     bindS (map_errS TlsIo (fs_read (th_fs H) cert_path)) (\<lambda>pem.
     bindS (liftS (map_err TlsRustls (srv_pem_certs X pem))) (\<lambda>certs.
     bindS (liftS (map_err TlsRustls (srv_pem_key X key_pem))) (\<lambda>key_opt.
     bindS (liftS (ok_or (TlsRustls ''missing private key'') key_opt)) (\<lambda>key.
     liftS (map_err TlsRustls (build_server_tls_config X certs key))))))"

definition load_server_config_from_sealed ::
    "'x seal_ext_scheme \<Rightarrow> tee_host \<Rightarrow> string \<Rightarrow> cvm_sealer \<Rightarrow> string \<Rightarrow> bytes option \<Rightarrow> (disk, tls_error, server_config) op" where
  "load_server_config_from_sealed X H cert_path S sealed_path seal_root =
     bindS (map_errS TlsSeal (unseal_tls_key_from_file X H S sealed_path seal_root)) (\<lambda>key_pem.
     load_server_config_from_pem_paths X H cert_path key_pem)"

definition load_server_config_from_plain_key_path ::
    "'x seal_ext_scheme \<Rightarrow> tee_host \<Rightarrow> string \<Rightarrow> string \<Rightarrow> (disk, tls_error, server_config) op" where
  "load_server_config_from_plain_key_path X H cert_path key_path =
     bindS (map_errS TlsIo (fs_read (th_fs H) key_path)) (\<lambda>key_pem.
     load_server_config_from_pem_paths X H cert_path key_pem)"

text \<open>The edge reads its own certificate with the tag and length reader of the verifier, whose errors it
  keeps as texts, but does not look at the outer tags.\<close>

fun tls_text :: "attest_error \<Rightarrow> string" where
  "tls_text (AttestTls e) = e"
| "tls_text e = attest_error_to_string e"

definition edge_extract_spki_der :: "bytes \<Rightarrow> string + bytes" where
  "edge_extract_spki_der cert_der =
     map_err tls_text (
     bindE (read_tlv cert_der) (\<lambda>(_, cert_body, _).
     bindE (read_tlv cert_body) (\<lambda>(_, tbs, _).
     bindE (if tbs \<noteq> [] \<and> hd tbs = 0xa0 then bindE (read_tlv tbs) (\<lambda>(_, _, r). Inr r) else Inr tbs) (\<lambda>rest.
     bindE (skip_tlvs 5 rest) (\<lambda>rest.
     bindE (der_header_len rest) (\<lambda>hdr.
     bindE (read_tlv rest) (\<lambda>(_, body, _).
     Inr (take (hdr + length body) rest))))))))"

definition spki_sha256_hex_from_cert_der :: "'x ext_scheme \<Rightarrow> bytes \<Rightarrow> tls_error + string" where
  "spki_sha256_hex_from_cert_der X cert_der =
     bindE (map_err (\<lambda>e. TlsRustls (''SPKI extract: '' @ e)) (edge_extract_spki_der cert_der)) (\<lambda>spki.
     Inr (hex_encode X (sha256 X spki)))"

text \<open>What the verifier reads from a certificate, the edge reads as well.\<close>

lemma edge_extract_if:
  assumes "extract_spki_der cert = Inr k"
  shows "edge_extract_spki_der cert = Inr k"
proof -
  from assms obtain body r tbs r' where b: "read_tlv cert = Inr (0x30, body, r)" "read_tlv body = Inr (0x30, tbs, r')"
    by (auto simp: extract_spki_der_def result_simps split: if_splits)
  with assms show ?thesis unfolding extract_spki_der_def edge_extract_spki_der_def by simp
qed

lemma edge_reads_the_verifiers_key:
  assumes "spki_sha256_hex X cert = Inr h"
  shows "spki_sha256_hex_from_cert_der X cert = Inr h"
proof -
  from assms obtain k where "extract_spki_der cert = Inr k" "h = hex_encode X (sha256 X k)"
    by (auto simp: spki_sha256_hex_def result_simps)
  then show ?thesis by (simp add: spki_sha256_hex_from_cert_der_def edge_extract_if)
qed

definition spki_sha256_hex_from_cert_path ::
    "'x seal_ext_scheme \<Rightarrow> tee_host \<Rightarrow> string \<Rightarrow> (disk, tls_error, string) op" where
  "spki_sha256_hex_from_cert_path X H path =
     bindS (map_errS TlsIo (fs_read (th_fs H) path)) (\<lambda>pem.
     bindS (liftS (map_err TlsRustls (srv_pem_certs X pem))) (\<lambda>certs.
     case certs of
       [] \<Rightarrow> failS (TlsRustls ''no certificate found'')
     | cert # _ \<Rightarrow> liftS (spki_sha256_hex_from_cert_der X cert)))"

definition seal_tls_key_file ::
    "'x seal_ext_scheme \<Rightarrow> tee_host \<Rightarrow> cvm_sealer \<Rightarrow> string \<Rightarrow> string \<Rightarrow> bytes option \<Rightarrow> (disk, tls_error, sealed_blob) op" where
  "seal_tls_key_file X H S plain_key_path sealed_out_path seal_root =
     bindS (map_errS TlsIo (fs_read (th_fs H) plain_key_path)) (\<lambda>key_pem.
     bindS (liftS (map_err TlsSeal (seal_tls_key X H S key_pem seal_root))) (\<lambda>blob.
     bindS (liftS (map_err TlsRustls (blob_to_vec_pretty X blob))) (\<lambda>json.
     bindS (map_errS TlsIo (fs_write (th_fs H) sealed_out_path json)) (\<lambda>_. returnS blob))))"

subsection \<open>The ceremony\<close>

record ceremony_paths =
  cp_cert_path :: string
  cp_sealed_key_path :: string
  cp_launch_digest :: string
  cp_image_digest :: string

datatype ceremony_error =
    CeremonyMissingEnv string
  | CeremonyIo string
  | CeremonyPlatform platform_error
  | CeremonyProfile string
  | CeremonyPolicy string
  | CeremonyAcme string

definition prod_cert_path :: string where
  "prod_cert_path = ''/etc/teechat/openapi-tls.crt''"

definition prod_sealed_key_path :: string where
  "prod_sealed_key_path = ''/etc/teechat/openapi-tls-key.sealed.json''"

definition ceremony_prod_defaults :: ceremony_paths where
  "ceremony_prod_defaults =
     \<lparr>cp_cert_path = prod_cert_path, cp_sealed_key_path = prod_sealed_key_path, cp_launch_digest = [],
      cp_image_digest = []\<rparr>"

definition nonempty_env :: "environ \<Rightarrow> string \<Rightarrow> string option" where
  "nonempty_env env name = (case env name of Some s \<Rightarrow> if s = [] then None else Some s | None \<Rightarrow> None)"

definition unwrap_or :: "'a \<Rightarrow> 'a option \<Rightarrow> 'a" where
  "unwrap_or y x = (case x of Some v \<Rightarrow> v | None \<Rightarrow> y)"

definition ceremony_paths_from_env :: "environ \<Rightarrow> ceremony_error + ceremony_paths" where
  "ceremony_paths_from_env env =
     bindE (ok_or (CeremonyMissingEnv ''OPENAPI_LAUNCH_DIGEST'') (env ''OPENAPI_LAUNCH_DIGEST'')) (\<lambda>launch.
     bindE (ok_or (CeremonyMissingEnv ''OPENAPI_IMAGE_DIGEST'') (env ''OPENAPI_IMAGE_DIGEST'')) (\<lambda>img.
     Inr \<lparr>cp_cert_path = unwrap_or prod_cert_path (nonempty_env env ''OPENAPI_TLS_CERT_PATH''),
          cp_sealed_key_path = unwrap_or prod_sealed_key_path (nonempty_env env ''OPENAPI_TLS_SEALED_KEY_PATH''),
          cp_launch_digest = launch, cp_image_digest = img\<rparr>))"

definition assert_prod_ceremony_policy :: "'x att_ext_scheme \<Rightarrow> tee_host \<Rightarrow> (disk, ceremony_error, unit) op" where
  "assert_prod_ceremony_policy X H =
     (let env = th_env H
      in bindS (liftS (map_err (\<lambda>e. CeremonyProfile (profile_error_to_string (str_debug X) e)) (load_edge_profile env)))
           (\<lambda>profile.
         if \<not> is_prod profile then failS (CeremonyPolicy ''TLS ceremony requires OPENAPI_PROFILE=prod'')
         else bindS (map_errS CeremonyPolicy (resolve_tls_key_policy_for_profile X H True)) (\<lambda>key_policy.
         if key_policy \<noteq> KeyCeremony
         then failS (CeremonyPolicy (''TLS generate/ACME ceremony requires /etc/tls_key_policy=key_ceremony (got '' @
                       tls_key_policy_as_str key_policy @ '')''))
         else if env_set env ''OPENAPI_TLS_KEY_PATH''
         then failS (CeremonyPolicy ''OPENAPI_TLS_KEY_PATH must not be set during ceremony'')
         else if env_set env ''OPENAPI_SEAL_ROOT_HEX''
         then failS (CeremonyPolicy ''OPENAPI_SEAL_ROOT_HEX must not be set during ceremony'')
         else if env_set env ''OPENAPI_ATTESTED_LAUNCH_DIGEST'' \<and> env ''OPENAPI_ATTESTED_LAUNCH_DIGEST'' \<noteq> Some ''unknown''
         then failS (CeremonyPolicy ''OPENAPI_ATTESTED_LAUNCH_DIGEST is forbidden during prod ceremony (OPS-001)'')
         else if env_set env ''OPENAPI_AMD_SP_DERIVED_KEY_HEX''
         then failS (CeremonyPolicy ''OPENAPI_AMD_SP_DERIVED_KEY_HEX is forbidden during prod ceremony (OPS-003)'')
         else returnS ())))"

definition acme_live_dir :: "string \<Rightarrow> string \<Rightarrow> string" where
  "acme_live_dir root cert_name = path_join (path_join root ''live'') cert_name"

text \<open>Paths are ordered by their components.\<close>

definition path_parts :: "string \<Rightarrow> string list" where
  "path_parts p = filter (\<lambda>c. c \<noteq> []) (split_on (\<lambda>c. c = CHR ''/'') p)"

definition sort_paths :: "string list \<Rightarrow> string list" where
  "sort_paths ps = remdups_adj (sort_key path_parts ps)"

definition discover_acme_privkey_paths ::
    "tee_host \<Rightarrow> string \<Rightarrow> string \<Rightarrow> (disk, ceremony_error, string list) op" where
  "discover_acme_privkey_paths H root cert_name d =
     (let link = path_join (acme_live_dir root cert_name) ''privkey.pem'';
          archive = path_join (path_join root ''archive'') cert_name;
          first = link # (if fs_canon d link \<noteq> link then [fs_canon d link] else [])
      in if \<not> fs_exists d link then (Inl (CeremonyAcme (''missing '' @ link)), d)
         else if dk_dir d archive = None then (Inr (sort_paths first), d)
         else bindS (map_errS CeremonyIo (fs_read_dir (th_fs H) archive)) (\<lambda>names.
              returnS (sort_paths (first @ map (path_join archive)
                (filter (\<lambda>n. starts_with n ''privkey'' \<and> suffix ''.pem'' n) names)))) d)"

definition acme_fullchain_path :: "string \<Rightarrow> string" where
  "acme_fullchain_path live_dir = path_join live_dir ''fullchain.pem''"

text \<open>\<open>Path::parent\<close> of a path without dot components.\<close>

definition path_parent :: "string \<Rightarrow> string option" where
  "path_parent p =
     (let q = trim_end_char (CHR ''/'') p; dir = rev (dropWhile (\<lambda>c. c \<noteq> CHR ''/'') (rev q))
      in if q = [] then None
         else if trim_end_char (CHR ''/'') dir = [] \<and> dir \<noteq> [] then Some ''/''
         else Some (trim_end_char (CHR ''/'') dir))"

definition create_parent :: "tee_host \<Rightarrow> string \<Rightarrow> (disk, string, unit) op" where
  "create_parent H p =
     (case path_parent p of None \<Rightarrow> returnS () | Some dir \<Rightarrow> fs_create_dir_all (th_fs H) dir)"

definition install_cert_chain :: "tee_host \<Rightarrow> string \<Rightarrow> string \<Rightarrow> (disk, ceremony_error, unit) op" where
  "install_cert_chain H source cert_path d =
     (if \<not> fs_exists d source then (Inl (CeremonyAcme (''missing fullchain '' @ source)), d)
      else bindS (map_errS CeremonyIo (create_parent H cert_path)) (\<lambda>_.
           bindS (map_errS CeremonyIo (fs_copy (th_fs H) source cert_path)) (\<lambda>_.
           map_errS CeremonyIo (fs_guard (th_fs H) FsChmod cert_path))) d)"

text \<open>The loop that overwrites a file: the length of the zeros, the length of the file, what is written, and
  the content. It is a partial function, so that not ending would be \<open>None\<close>.\<close>

partial_function (option) zero_loop :: "nat \<Rightarrow> nat \<Rightarrow> nat \<Rightarrow> bytes \<Rightarrow> bytes option" where
  "zero_loop zeros len written b =
     (if written < len
      then let chunk = min zeros (len - written)
           in zero_loop zeros len (written + chunk) (take written b @ replicate chunk 0 @ drop (written + chunk) b)
      else Some b)"

definition shred_path :: "tee_host \<Rightarrow> string \<Rightarrow> (disk, ceremony_error, unit) op" where
  "shred_path H path d =
     (case dk_file d (fs_canon d path) of
        None \<Rightarrow> (Inr (), d)
      | Some content \<Rightarrow>
          (let len = length content
           in map_errS CeremonyIo
                (bindS (if len = 0 then returnS ()
                        else bindS (fs_guard (th_fs H) FsOpen path) (\<lambda>_.
                             bindS (case zero_loop (min len 65536) len 0 content of
                                      Some b \<Rightarrow> fs_write (th_fs H) path b | None \<Rightarrow> failS ''diverges'') (\<lambda>_.
                             fs_guard (th_fs H) FsSync path))) (\<lambda>_.
                 fs_remove (th_fs H) path))) d)"

fun shred_all :: "tee_host \<Rightarrow> string list \<Rightarrow> (disk, ceremony_error, unit) op" where
  "shred_all H [] = returnS ()"
| "shred_all H (p # ps) = bindS (shred_path H p) (\<lambda>_. shred_all H ps)"

fun map_tls_error :: "tls_error \<Rightarrow> ceremony_error" where
  "map_tls_error (TlsSeal p) = CeremonyPlatform p"
| "map_tls_error (TlsIo e) = CeremonyIo e"
| "map_tls_error (TlsRustls s) = CeremonyPolicy s"

definition seal_from_acme_live ::
    "'x seal_ext_scheme \<Rightarrow> tee_host \<Rightarrow> ceremony_paths \<Rightarrow> string \<Rightarrow> string \<Rightarrow> string \<Rightarrow> (disk, ceremony_error, unit) op" where
  "seal_from_acme_live X H paths live_dir root cert_name =
     bindS (assert_prod_ceremony_policy X H) (\<lambda>_.
     bindS (liftS (map_err CeremonyPlatform (verify_launch_digest_attested X H (cp_launch_digest paths)))) (\<lambda>_.
     bindS (discover_acme_privkey_paths H root cert_name) (\<lambda>keys.
     bindS (liftS (case keys of [] \<Rightarrow> Inl (CeremonyAcme ''no privkey path'') | k # _ \<Rightarrow> Inr k)) (\<lambda>primary.
     let sealer = cvm_sealer_with_profile (cp_launch_digest paths) (cp_image_digest paths) True
     in bindS (map_errS CeremonyIo (create_parent H (cp_sealed_key_path paths))) (\<lambda>_.
        bindS (map_errS map_tls_error (seal_tls_key_file X H sealer primary (cp_sealed_key_path paths) None)) (\<lambda>_.
        bindS (install_cert_chain H (acme_fullchain_path live_dir) (cp_cert_path paths)) (\<lambda>_.
        shred_all H keys)))))))"

definition assert_no_plaintext_privkey_on_disk ::
    "tee_host \<Rightarrow> string \<Rightarrow> string \<Rightarrow> string list \<Rightarrow> (disk, ceremony_error, unit) op" where
  "assert_no_plaintext_privkey_on_disk H root cert_name extra d =
     (case find (fs_exists d) extra of
        Some p \<Rightarrow> (Inl (CeremonyPolicy (''plaintext key still present: '' @ p)), d)
      | None \<Rightarrow>
          if \<not> fs_exists d root \<and> dk_dir d root = None then (Inr (), d)
          else (case discover_acme_privkey_paths H root cert_name d of
                  (Inl _, d') \<Rightarrow> (Inr (), d')
                | (Inr ps, d') \<Rightarrow>
                    (case find (fs_exists d') ps of
                       Some p \<Rightarrow> (Inl (CeremonyPolicy (''ACME privkey still present: '' @ p)), d')
                     | None \<Rightarrow> (Inr (), d'))))"

subsection \<open>Shredding\<close>

lemma zero_loop_zeroes:
  assumes "0 < zeros" "written \<le> length b" "take written b = replicate written 0"
  shows "zero_loop zeros (length b) written b = Some (replicate (length b) 0)"
  using assms
proof (induction "length b - written" arbitrary: written b rule: less_induct)
  case less
  show ?case
  proof (cases "written < length b")
    case True
    let ?c = "min zeros (length b - written)"
    let ?b = "take written b @ replicate ?c 0 @ drop (written + ?c) b"
    have len: "length ?b = length b" using True by simp
    have "take (written + ?c) ?b = replicate (written + ?c) 0"
      using True less.prems(3) by (simp add: replicate_add)
    with less.hyps [of ?b "written + ?c"] less.prems(1) True len
    have "zero_loop zeros (length b) (written + ?c) ?b = Some (replicate (length b) 0)" by simp
    with True show ?thesis by (subst zero_loop.simps) (simp add: Let_def)
  next
    case False
    with less.prems(2,3) have "b = replicate (length b) 0" by simp
    with False show ?thesis by (subst zero_loop.simps) simp
  qed
qed

text \<open>C39. The loop that overwrites a key file ends, with every byte zero, whatever the length of the file.\<close>

theorem shredding_ends:
  assumes "content \<noteq> []"
  shows "zero_loop (min (length content) 65536) (length content) 0 content = Some (replicate (length content) 0)"
  using assms by (intro zero_loop_zeroes) simp_all

theorem shredding_ends_witness:
  "zero_loop 3 3 0 [1, 2, 3] = Some [0, 0, 0]"
  using shredding_ends [of "[1, 2, 3]"] by (simp add: numeral_3_eq_3)

text \<open>A name is a link or a file, and links lead to files.\<close>

definition plain_disk :: "disk \<Rightarrow> bool" where
  "plain_disk d \<longleftrightarrow> (\<forall>p q. dk_link d p = Some q \<longrightarrow> dk_file d p = None \<and> dk_link d q = None)"

text \<open>No file appears, no link appears, and only the given names and what they lead to change.\<close>

definition only_removed :: "string set \<Rightarrow> disk \<Rightarrow> disk \<Rightarrow> bool" where
  "only_removed A d d' \<longleftrightarrow>
     (\<forall>q. dk_file d q = None \<longrightarrow> dk_file d' q = None) \<and>
     (\<forall>q r. dk_link d' q = Some r \<longrightarrow> dk_link d q = Some r) \<and>
     (\<forall>q. q \<notin> A \<longrightarrow> dk_file d' q = dk_file d q \<and> dk_link d' q = dk_link d q)"

lemma only_removed_refl: "only_removed A d d"
  by (simp add: only_removed_def)

lemma only_removed_trans:
  "only_removed A d e \<Longrightarrow> only_removed B e f \<Longrightarrow> A \<union> B \<subseteq> C \<Longrightarrow> only_removed C d f"
  unfolding only_removed_def by (metis UnI1 UnI2 subsetD)

lemma only_removedD:
  assumes "only_removed A d d'"
  shows "dk_file d q = None \<Longrightarrow> dk_file d' q = None" "dk_link d' q = Some r \<Longrightarrow> dk_link d q = Some r"
    "q \<notin> A \<Longrightarrow> dk_file d' q = dk_file d q \<and> dk_link d' q = dk_link d q"
  using assms unfolding only_removed_def by blast+

lemma plain_disk_removed:
  assumes "plain_disk d" "only_removed A d d'"
  shows "plain_disk d'"
  unfolding plain_disk_def
proof (intro allI impI)
  fix p q
  assume "dk_link d' p = Some q"
  with only_removedD(2) [OF assms(2)] assms(1) have "dk_file d p = None" "dk_link d q = None"
    by (auto simp: plain_disk_def)
  with only_removedD(1,2) [OF assms(2)] show "dk_file d' p = None \<and> dk_link d' q = None"
    by (cases "dk_link d' q") auto
qed

lemma gone_stays_gone:
  assumes "plain_disk d" "only_removed A d d'" "\<not> fs_exists d p"
  shows "\<not> fs_exists d' p"
proof (cases "dk_link d' p")
  case (Some q)
  with only_removedD(2) [OF assms(2)] have "dk_link d p = Some q" by blast
  with Some only_removedD(1) [OF assms(2)] assms(3) show ?thesis by (simp add: fs_exists_def fs_canon_def)
next
  case None
  have "dk_file d p = None"
    using assms(1,3) by (cases "dk_link d p") (auto simp: plain_disk_def fs_exists_def fs_canon_def)
  with None only_removedD(1) [OF assms(2)] show ?thesis by (simp add: fs_exists_def fs_canon_def)
qed

lemma shred_path_ok:
  assumes "shred_path H p d = (Inr (), d')" "plain_disk d"
  shows "only_removed {p, fs_canon d p} d d' \<and> dk_file d' p = None \<and> \<not> fs_exists d' p"
proof (cases "dk_file d (fs_canon d p)")
  case None
  with assms show ?thesis
    by (auto simp: shred_path_def only_removed_def fs_exists_def fs_canon_def plain_disk_def split: option.splits)
next
  case (Some content)
  then obtain b where removed: "fs_remove (th_fs H) p (d\<lparr>dk_file := (dk_file d)(fs_canon d p := Some b)\<rparr>) = (Inr (), d')"
  proof (cases "content = []")
    case True
    with Some have "(dk_file d)(fs_canon d p := Some []) = dk_file d" by (simp add: fun_upd_idem)
    with assms(1) Some True that [of "[]"] show thesis by (simp add: shred_path_def result_simps)
  next
    case False
    then have "zero_loop (min (length content) 65536) (length content) 0 content = Some (replicate (length content) 0)"
      by (intro zero_loop_zeroes) simp_all
    with False assms(1) Some that show thesis
      by (fastforce simp: shred_path_def Let_def result_simps dest!: fs_write_ok fs_guard_ok)
  qed
  show ?thesis
    using removed assms(2) Some
    by (auto simp: fs_remove_def bindS_def fs_guard_def only_removed_def fs_exists_def fs_canon_def plain_disk_def
        split: option.splits if_splits)
qed

lemma shred_all_ok:
  assumes "shred_all H ps d = (Inr (), d')" "plain_disk d"
  shows "only_removed (set ps \<union> fs_canon d ` set ps) d d' \<and> (\<forall>p\<in>set ps. dk_file d' p = None \<and> \<not> fs_exists d' p)"
  using assms
proof (induction ps arbitrary: d)
  case Nil
  then show ?case by (simp add: only_removed_refl)
next
  case (Cons p ps)
  from Cons.prems(1) obtain e where e: "shred_path H p d = (Inr (), e)" "shred_all H ps e = (Inr (), d')"
    by (auto simp: result_simps)
  note one = shred_path_ok [OF e(1) Cons.prems(2)]
  have plain: "plain_disk e" using plain_disk_removed one Cons.prems(2) by blast
  note rest = Cons.IH [OF e(2) plain]
  have "fs_canon e q = fs_canon d q \<or> fs_canon e q = q" for q
    using one by (cases "dk_link e q") (auto simp: only_removed_def fs_canon_def)
  then have "{p, fs_canon d p} \<union> (set ps \<union> fs_canon e ` set ps) \<subseteq> set (p # ps) \<union> fs_canon d ` set (p # ps)"
    by auto (metis image_eqI)
  with only_removed_trans one rest have "only_removed (set (p # ps) \<union> fs_canon d ` set (p # ps)) d d'" by blast
  moreover have "dk_file d' p = None" using one rest by (simp add: only_removed_def)
  moreover have "\<not> fs_exists d' p" using gone_stays_gone [OF plain] one rest by blast
  ultimately show ?case using rest by simp
qed

subsection \<open>The ceremony as a whole\<close>

lemma eq_order: "reflp (=)" "transp (=)"
  by (auto simp: reflp_def transp_def)

lemmas reads = keeps_bindS [OF eq_order(2)] keeps_pure [OF eq_order(1)]

lemma keeps_eqD: "keeps (=) m \<Longrightarrow> m d = (res, d') \<Longrightarrow> d' = d"
  by (metis keepsD snd_conv)

lemma keeps_map_errS: "keeps R m \<Longrightarrow> keeps R (map_errS f m)"
  by (simp add: keeps_def)

lemma fs_reads:
  "keeps (=) (fs_guard F c p)" "keeps (=) (fs_read F p)" "keeps (=) (fs_read_to_string F p)" "keeps (=) (fs_read_dir F p)"
  by (auto simp: keeps_def fs_guard_def fs_read_def fs_read_to_string_def fs_read_dir_def bindS_def split: option.splits)

lemma read_policy_reads: "keeps (=) (read_tls_key_policy X H)"
  unfolding read_tls_key_policy_def read_tls_key_policy_from_def
  by (intro reads keeps_map_errS fs_reads) (auto split: list.split intro!: reads)

lemma resolve_policy_reads: "keeps (=) (resolve_tls_key_policy_for_profile X H p)"
  using read_policy_reads [of X H]
  by (auto simp: keeps_def resolve_tls_key_policy_for_profile_def split: prod.splits sum.splits) (metis snd_conv)+

lemma ceremony_policy_reads: "keeps (=) (assert_prod_ceremony_policy X H)"
  unfolding assert_prod_ceremony_policy_def Let_def
  by (intro reads) (auto intro!: reads keeps_map_errS resolve_policy_reads)

lemma discover_reads: "keeps (=) (discover_acme_privkey_paths H root name)"
  by (auto simp: keeps_def discover_acme_privkey_paths_def fs_read_dir_def map_errS_def bindS_def fs_guard_def Let_def
      split: option.splits)

lemma create_parent_reads: "keeps (=) (create_parent H p)"
  unfolding create_parent_def fs_create_dir_all_def by (auto intro!: reads fs_reads split: option.split)

lemmas disk_unchanged = ceremony_policy_reads [THEN keeps_eqD] discover_reads [THEN keeps_eqD]
  create_parent_reads [THEN keeps_eqD] resolve_policy_reads [THEN keeps_eqD]

lemma install_ok:
  assumes "install_cert_chain H src cert d = (Inr (), d')"
  shows "\<exists>b. d' = d\<lparr>dk_file := (dk_file d)(fs_canon d cert := Some b)\<rparr>"
  using assms
  by (auto simp: install_cert_chain_def fs_copy_def result_simps split: if_splits
      dest!: fs_read_ok fs_write_ok fs_guard_ok disk_unchanged)

lemma seal_file_ok:
  assumes "seal_tls_key_file X H S p out None d = (Inr blob, d')"
  obtains key json where "dk_file d (fs_canon d p) = Some key" "seal_tls_key X H S key None = Inr blob"
    "blob_to_vec_pretty X blob = Inr json" "d' = d\<lparr>dk_file := (dk_file d)(fs_canon d out := Some json)\<rparr>"
  using assms by (auto simp: seal_tls_key_file_def result_simps dest!: fs_read_ok fs_write_ok)

lemma ceremony_steps:
  assumes "seal_from_acme_live X H paths live root name d = (Inr (), d')"
  obtains keys blob d1 d2 where "assert_prod_ceremony_policy X H d = (Inr (), d)"
    "verify_launch_digest_attested X H (cp_launch_digest paths) = Inr ()"
    "discover_acme_privkey_paths H root name d = (Inr keys, d)" "keys \<noteq> []"
    "seal_tls_key_file X H (cvm_sealer_with_profile (cp_launch_digest paths) (cp_image_digest paths) True) (hd keys)
       (cp_sealed_key_path paths) None d = (Inr blob, d1)"
    "install_cert_chain H (acme_fullchain_path live) (cp_cert_path paths) d1 = (Inr (), d2)" "shred_all H keys d2 = (Inr (), d')"
proof -
  from assms obtain u1 keys u2 k u3 blob d1 d2 where s: "assert_prod_ceremony_policy X H d = (Inr (), u1)"
    "verify_launch_digest_attested X H (cp_launch_digest paths) = Inr ()"
    "discover_acme_privkey_paths H root name u1 = (Inr keys, u2)"
    "(case keys of [] \<Rightarrow> Inl (CeremonyAcme ''no privkey path'') | k # _ \<Rightarrow> Inr k) = Inr k"
    "create_parent H (cp_sealed_key_path paths) u2 = (Inr (), u3)"
    "seal_tls_key_file X H (cvm_sealer_with_profile (cp_launch_digest paths) (cp_image_digest paths) True) k
       (cp_sealed_key_path paths) None u3 = (Inr blob, d1)"
    "install_cert_chain H (acme_fullchain_path live) (cp_cert_path paths) d1 = (Inr (), d2)" "shred_all H keys d2 = (Inr (), d')"
    unfolding seal_from_acme_live_def Let_def by (auto simp: result_simps simp del: shred_all.simps)
  from disk_unchanged(1) [OF s(1)] disk_unchanged(2) [OF s(3)] disk_unchanged(3) [OF s(5)]
  have "u1 = d" "u2 = d" "u3 = d" by simp_all
  moreover from s(4) have "keys \<noteq> []" "k = hd keys" by (auto split: list.splits)
  ultimately show thesis using that s by blast
qed

lemma plain_disk_write:
  "plain_disk d \<Longrightarrow> plain_disk (d\<lparr>dk_file := (dk_file d)(fs_canon d p := Some b)\<rparr>)"
  by (auto simp: plain_disk_def fs_canon_def split: option.split)

lemma prod_policy_ok:
  assumes "assert_prod_ceremony_policy X H d = (Inr (), d')"
  shows "load_edge_profile (th_env H) = Inr Prod \<and> resolve_tls_key_policy_for_profile X H True d = (Inr KeyCeremony, d) \<and>
    \<not> env_set (th_env H) ''OPENAPI_SEAL_ROOT_HEX'' \<and> \<not> env_set (th_env H) ''OPENAPI_AMD_SP_DERIVED_KEY_HEX''"
proof -
  from assms obtain profile policy u where "load_edge_profile (th_env H) = Inr profile" "is_prod profile"
    "resolve_tls_key_policy_for_profile X H True d = (Inr policy, u)" "policy = KeyCeremony"
    "\<not> env_set (th_env H) ''OPENAPI_SEAL_ROOT_HEX''" "\<not> env_set (th_env H) ''OPENAPI_AMD_SP_DERIVED_KEY_HEX''"
    by (auto simp: assert_prod_ceremony_policy_def Let_def result_simps split: if_splits)
  with resolve_policy_reads [THEN keeps_eqD] show ?thesis by (auto simp: is_prod_def)
qed

text \<open>C13. The issuance ceremony seals, then leaves no plain key. When it succeeds, the guest runs in production
  under the key ceremony policy of its image; the file at the sealed path, unsealed by this guest, gives
  back the bytes of the first key file that was found; and none of the key files that were found, the live
  one and every archived one, is left under any of its names.\<close>

theorem ceremony_seals_then_shreds:
  assumes run: "seal_from_acme_live X H paths live root name d = (Inr (), d')"
    and found: "discover_acme_privkey_paths H root name d = (Inr keys, d)"
    and "plain_disk d" "seal_laws X" "length (th_nonce H) = 12" "ff_fault (th_fs H) FsRead (cp_sealed_key_path paths) = None"
    and apart: "fs_canon d (cp_sealed_key_path paths) \<notin> set keys \<union> fs_canon d ` set keys"
      "cp_sealed_key_path paths \<notin> set keys \<union> fs_canon d ` set keys"
      "fs_canon d (cp_cert_path paths) \<noteq> fs_canon d (cp_sealed_key_path paths)"
  shows "load_edge_profile (th_env H) = Inr Prod \<and> resolve_tls_key_policy_for_profile X H True d = (Inr KeyCeremony, d) \<and>
    (\<forall>p\<in>set keys. dk_file d' p = None \<and> \<not> fs_exists d' p) \<and>
    (\<exists>key. dk_file d (fs_canon d (hd keys)) = Some key \<and>
       unseal_tls_key_from_file X H (cvm_sealer_with_profile (cp_launch_digest paths) (cp_image_digest paths) True)
         (cp_sealed_key_path paths) None d' = (Inr key, d'))"
proof -
  let ?S = "cvm_sealer_with_profile (cp_launch_digest paths) (cp_image_digest paths) True"
  let ?out = "cp_sealed_key_path paths"
  from run obtain keys' blob d1 d2 where s: "assert_prod_ceremony_policy X H d = (Inr (), d)"
    "discover_acme_privkey_paths H root name d = (Inr keys', d)" "seal_tls_key_file X H ?S (hd keys') ?out None d = (Inr blob, d1)"
    "install_cert_chain H (acme_fullchain_path live) (cp_cert_path paths) d1 = (Inr (), d2)" "shred_all H keys' d2 = (Inr (), d')"
    by (rule ceremony_steps)
  from s(2) found have k: "keys' = keys" by simp
  from seal_file_ok [OF s(3)] obtain key json where j: "dk_file d (fs_canon d (hd keys')) = Some key"
    "seal_tls_key X H ?S key None = Inr blob" "blob_to_vec_pretty X blob = Inr json"
    "d1 = d\<lparr>dk_file := (dk_file d)(fs_canon d ?out := Some json)\<rparr>" .
  from install_ok [OF s(4)] obtain b where d2: "d2 = d1\<lparr>dk_file := (dk_file d1)(fs_canon d1 (cp_cert_path paths) := Some b)\<rparr>" ..
  have canon: "fs_canon d1 q = fs_canon d q" "fs_canon d2 q = fs_canon d q" for q
    using j(4) d2 by (simp_all add: fs_canon_def)
  have "plain_disk d1" unfolding j(4) by (rule plain_disk_write [OF assms(3)])
  then have "plain_disk d2" unfolding d2 by (rule plain_disk_write)
  note shred = shred_all_ok [OF s(5) this, unfolded k canon(2)]
  have gone: "\<forall>p\<in>set keys. dk_file d' p = None \<and> \<not> fs_exists d' p" using shred by blast
  have kept: "dk_file d' q = dk_file d2 q \<and> dk_link d' q = dk_link d2 q" if "q \<notin> set keys \<union> fs_canon d ` set keys" for q
    using only_removedD(3) [OF shred [THEN conjunct1]] that by blast
  have "dk_file d' (fs_canon d ?out) = Some json"
    using kept [OF apart(1)] apart(3) d2 j(4) canon(1) by simp
  with kept [OF apart(2)] canon(2) [of ?out] have written: "dk_file d' (fs_canon d' ?out) = Some json"
    by (simp add: fs_canon_def)
  from seal_lawsD(3) [OF assms(4) j(3)] obtain json_text where t: "from_utf8 json = Some json_text" "blob_from_str X json_text = Inr blob"
    by blast
  from written t(1) assms(6) have "fs_read_to_string (th_fs H) ?out d' = (Inr json_text, d')"
    by (simp add: fs_read_to_string_def fs_read_def fs_guard_def bindS_def)
  with t(2) seal_unseal_key [OF assms(4,5) j(2)] have "unseal_tls_key_from_file X H ?S ?out None d' = (Inr key, d')"
    by (simp add: unseal_tls_key_from_file_def bindS_def map_errS_def)
  with gone j(1) k prod_policy_ok [OF s(1)] show ?thesis by auto
qed

text \<open>The key that is sealed is the first one in the order of paths. After a renewal that left an older key in
  the archive this is the older one, not the live key the certificate is for.\<close>

definition renewed_disk :: disk where
  "renewed_disk =
     \<lparr>dk_file = [''/le/archive/n/privkey1.pem'' \<mapsto> [1], ''/le/archive/n/privkey2.pem'' \<mapsto> [2]],
      dk_link = [''/le/live/n/privkey.pem'' \<mapsto> ''/le/archive/n/privkey2.pem''],
      dk_dir = [''/le/archive/n'' \<mapsto> [''privkey1.pem'', ''privkey2.pem'']]\<rparr>"

lemma oldest_key_is_sealed:
  assumes "th_fs H = no_fs_faults"
  shows "\<exists>keys. discover_acme_privkey_paths H ''/le'' ''n'' renewed_disk = (Inr keys, renewed_disk) \<and>
    dk_file renewed_disk (fs_canon renewed_disk (hd keys)) = Some [1] \<and>
    dk_file renewed_disk (fs_canon renewed_disk ''/le/live/n/privkey.pem'') = Some [2]"
proof -
  have "sort_paths [''/le/live/n/privkey.pem'', ''/le/archive/n/privkey2.pem'', ''/le/archive/n/privkey1.pem'', ''/le/archive/n/privkey2.pem''] =
    [''/le/archive/n/privkey1.pem'', ''/le/archive/n/privkey2.pem'', ''/le/live/n/privkey.pem'']"
    by code_simp
  then show ?thesis
    by (simp add: discover_acme_privkey_paths_def renewed_disk_def acme_live_dir_def path_join_def fs_canon_def fs_exists_def
        fs_read_dir_def fs_guard_def assms no_fs_faults_def bindS_def map_errS_def starts_with_def suffix_def Let_def)
qed

text \<open>The check after the ceremony looks at the archive only while the live link still leads to a file, which
  the ceremony has just removed: it then accepts any archived key.\<close>

lemma check_after_ceremony_is_blind:
  assumes "\<not> fs_exists d (path_join (acme_live_dir root name) ''privkey.pem'')"
  shows "assert_no_plaintext_privkey_on_disk H root name [] d = (Inr (), d)"
  using assms by (simp add: assert_no_plaintext_privkey_on_disk_def discover_acme_privkey_paths_def Let_def)

subsection \<open>A ceremony\<close>

definition acme_disk :: disk where
  "acme_disk =
     \<lparr>dk_file = [''/etc/tls_key_policy'' \<mapsto> as_bytes ''key_ceremony'', ''/le/archive/n/privkey1.pem'' \<mapsto> [107],
                 ''/le/live/n/fullchain.pem'' \<mapsto> [99]],
      dk_link = [''/le/live/n/privkey.pem'' \<mapsto> ''/le/archive/n/privkey1.pem''],
      dk_dir = [''/le/archive/n'' \<mapsto> [''privkey1.pem'']]\<rparr>"

definition sample_ceremony :: ceremony_paths where
  "sample_ceremony = \<lparr>cp_cert_path = ''/c'', cp_sealed_key_path = ''/s'', cp_launch_digest = digest_a, cp_image_digest = digest_a\<rparr>"

definition sample_keys :: "string list" where
  "sample_keys = [''/le/archive/n/privkey1.pem'', ''/le/live/n/privkey.pem'']"

lemma sample_guest_fs: "th_fs sample_guest = no_fs_faults" "length (th_nonce sample_guest) = 12"
  by (simp_all add: sample_guest_def)

lemma acme_disk_plain: "plain_disk acme_disk"
  by (simp add: plain_disk_def acme_disk_def)

lemma sample_discovered: "discover_acme_privkey_paths sample_guest ''/le'' ''n'' acme_disk = (Inr sample_keys, acme_disk)"
proof -
  have "sort_paths [''/le/live/n/privkey.pem'', ''/le/archive/n/privkey1.pem'', ''/le/archive/n/privkey1.pem''] = sample_keys"
    by code_simp
  then show ?thesis
    by (simp add: discover_acme_privkey_paths_def acme_disk_def acme_live_dir_def path_join_def fs_canon_def fs_exists_def
        fs_read_dir_def fs_guard_def sample_guest_fs no_fs_faults_def bindS_def map_errS_def starts_with_def suffix_def Let_def)
qed

lemma sample_policy_file: "resolve_tls_key_policy_for_profile X sample_guest True acme_disk = (Inr KeyCeremony, acme_disk)"
proof -
  have "from_utf8 (as_bytes ''key_ceremony'') = Some ''key_ceremony''" by (rule from_utf8_ascii) (simp add: code_def)
  moreover have "dk_file acme_disk ''/etc/tls_key_policy'' = Some (as_bytes ''key_ceremony'')" "dk_link acme_disk ''/etc/tls_key_policy'' = None"
    by (simp_all add: acme_disk_def)
  ultimately have "fs_read_to_string no_fs_faults ''/etc/tls_key_policy'' acme_disk = (Inr ''key_ceremony'', acme_disk)"
    by (simp add: fs_read_to_string_def fs_read_def fs_guard_def no_fs_faults_def fs_canon_def bindS_def)
  moreover have "map trim (take 1 (str_lines ''key_ceremony'')) = [''key_ceremony'']"
    "tls_key_policy_parse ''key_ceremony'' = Some KeyCeremony" "\<not> env_set (th_env sample_guest) ''OPENAPI_TLS_KEY_POLICY''"
    by code_simp+
  moreover have "tls_key_policy_path sample_guest = ''/etc/tls_key_policy''"
    by (simp add: tls_key_policy_path_def sample_profile_prod TLS_KEY_POLICY_PATH_def)
  ultimately show ?thesis
    by (simp add: resolve_tls_key_policy_for_profile_def read_tls_key_policy_def read_tls_key_policy_from_def
        sample_guest_fs map_errS_def bindS_def)
qed

lemma sample_ceremony_allowed: "assert_prod_ceremony_policy X sample_guest acme_disk = (Inr (), acme_disk)"
proof -
  have "\<not> env_set (th_env sample_guest) ''OPENAPI_TLS_KEY_PATH''" "\<not> env_set (th_env sample_guest) ''OPENAPI_SEAL_ROOT_HEX''"
    "\<not> env_set (th_env sample_guest) ''OPENAPI_ATTESTED_LAUNCH_DIGEST''" "\<not> env_set (th_env sample_guest) ''OPENAPI_AMD_SP_DERIVED_KEY_HEX''"
    by code_simp+
  then show ?thesis
    by (simp add: assert_prod_ceremony_policy_def sample_profile_prod is_prod_def sample_policy_file bindS_def map_errS_def Let_def)
qed

text \<open>Without faults shredding succeeds.\<close>

lemma shred_path_succeeds:
  assumes "th_fs H = no_fs_faults"
  shows "\<exists>d'. shred_path H p d = (Inr (), d')"
proof (cases "dk_file d (fs_canon d p)")
  case (Some content)
  let ?b = "if content = [] then content else replicate (length content) 0"
  obtain d' where "fs_remove no_fs_faults p (d\<lparr>dk_file := (dk_file d)(fs_canon d p := Some ?b)\<rparr>) = (Inr (), d')"
    by (cases "dk_link d p") (auto simp: fs_remove_def fs_guard_def no_fs_faults_def bindS_def fs_canon_def)
  moreover have "content = [] \<Longrightarrow> d\<lparr>dk_file := (dk_file d)(fs_canon d p := Some content)\<rparr> = d"
    using Some by (simp add: fun_upd_idem)
  moreover have "content \<noteq> [] \<Longrightarrow> zero_loop (min (length content) 65536) (length content) 0 content = Some (replicate (length content) 0)"
    by (intro zero_loop_zeroes) simp_all
  ultimately show ?thesis
    using Some assms
    by (cases "content = []") (simp_all add: shred_path_def Let_def bindS_def map_errS_def fs_guard_def fs_write_def
        no_fs_faults_def fun_upd_idem)
qed (simp add: shred_path_def)

lemma shred_all_succeeds: "th_fs H = no_fs_faults \<Longrightarrow> \<exists>d'. shred_all H ps d = (Inr (), d')"
proof (induction ps arbitrary: d)
  case (Cons p ps)
  then obtain e where "shred_path H p d = (Inr (), e)" using shred_path_succeeds by blast
  with Cons show ?case by (simp add: bindS_def)
qed simp

lemma sample_ceremony_runs:
  "\<exists>d'. seal_from_acme_live seal_crates sample_guest sample_ceremony ''/le/live/n'' ''/le'' ''n'' acme_disk = (Inr (), d')"
proof -
  let ?S = "cvm_sealer_with_profile digest_a digest_a True"
  let ?d1 = "acme_disk\<lparr>dk_file := (dk_file acme_disk)(''/s'' := Some (as_bytes ''{}''))\<rparr>"
  let ?d2 = "?d1\<lparr>dk_file := (dk_file ?d1)(''/c'' := Some [99])\<rparr>"
  have seal: "seal_tls_key_file seal_crates sample_guest ?S ''/le/archive/n/privkey1.pem'' ''/s'' None acme_disk = (Inr sample_sealed, ?d1)"
    using sample_seals
    by (simp add: seal_tls_key_file_def fs_read_def fs_guard_def fs_write_def fs_canon_def sample_guest_fs no_fs_faults_def
        acme_disk_def seal_crates_simps sample_sealer_def bindS_def map_errS_def)
  have parent: "create_parent sample_guest p d = (Inr (), d)" for p d
    by (simp add: create_parent_def fs_create_dir_all_def fs_guard_def sample_guest_fs no_fs_faults_def split: option.split)
  have install: "install_cert_chain sample_guest ''/le/live/n/fullchain.pem'' ''/c'' ?d1 = (Inr (), ?d2)"
    by (simp add: install_cert_chain_def parent fs_copy_def fs_read_def fs_guard_def fs_write_def fs_canon_def fs_exists_def
        sample_guest_fs no_fs_faults_def acme_disk_def bindS_def map_errS_def)
  obtain d' where "shred_all sample_guest sample_keys ?d2 = (Inr (), d')"
    using shred_all_succeeds [OF sample_guest_fs(1)] by blast
  moreover have "(case sample_keys of [] \<Rightarrow> Inl e | k # ks \<Rightarrow> Inr k) = Inr ''/le/archive/n/privkey1.pem''" for e :: ceremony_error
    by (simp add: sample_keys_def)
  ultimately show ?thesis
    using seal install
    by (simp add: seal_from_acme_live_def sample_ceremony_allowed sample_attested sample_discovered sample_ceremony_def parent
        acme_fullchain_path_def path_join_def bindS_def map_errS_def Let_def del: shred_all.simps)
qed

theorem ceremony_seals_then_shreds_witness:
  "\<exists>d'. seal_from_acme_live seal_crates sample_guest sample_ceremony ''/le/live/n'' ''/le'' ''n'' acme_disk = (Inr (), d') \<and>
     (\<forall>p\<in>set sample_keys. dk_file d' p = None \<and> \<not> fs_exists d' p) \<and>
     unseal_tls_key_from_file seal_crates sample_guest sample_sealer ''/s'' None d' = (Inr [107], d')"
proof -
  from sample_ceremony_runs obtain d' where
    run: "seal_from_acme_live seal_crates sample_guest sample_ceremony ''/le/live/n'' ''/le'' ''n'' acme_disk = (Inr (), d')" ..
  have "ff_fault (th_fs sample_guest) FsRead (cp_sealed_key_path sample_ceremony) = None"
    "fs_canon acme_disk (cp_sealed_key_path sample_ceremony) \<notin> set sample_keys \<union> fs_canon acme_disk ` set sample_keys"
    "cp_sealed_key_path sample_ceremony \<notin> set sample_keys \<union> fs_canon acme_disk ` set sample_keys"
    "fs_canon acme_disk (cp_cert_path sample_ceremony) \<noteq> fs_canon acme_disk (cp_sealed_key_path sample_ceremony)"
    by (simp_all add: sample_guest_fs no_fs_faults_def sample_ceremony_def acme_disk_def sample_keys_def fs_canon_def)
  from ceremony_seals_then_shreds [OF run sample_discovered acme_disk_plain seal_crates_laws sample_guest_fs(2) this]
  have "\<forall>p\<in>set sample_keys. dk_file d' p = None \<and> \<not> fs_exists d' p"
    "\<exists>key. dk_file acme_disk (fs_canon acme_disk (hd sample_keys)) = Some key \<and>
       unseal_tls_key_from_file seal_crates sample_guest sample_sealer ''/s'' None d' = (Inr key, d')"
    by (simp_all add: sample_ceremony_def sample_sealer_def)
  with run show ?thesis by (auto simp: acme_disk_def sample_keys_def fs_canon_def)
qed

end
