(* ===== verification/Seal_Sync.thy ===== *)
theory Seal_Sync
  imports Cvm_Platform Tls_Ceremony Handler
begin

text \<open>
  \<open>crates/openapi-platform-cvm/src/seal_sync.rs\<close>: the exchange of the TLS key between two guests. The
  protocol itself is the crate \<open>attested-mtls-seal-sync\<close>, a parameter that gets the callbacks the edge
  hands to it: the attestor of the channel, the challenge of the peer and the sealer of the imported key.
\<close>

subsection \<open>The crate\<close>

datatype sync_error = SyAttestation string | SySeal string | SyIo string | SyMsg string

record serving_identity =
  si_spki_sha256 :: string
  si_cert_sha256 :: string
  si_measurement :: string

record sync_evidence =
  sy_measurement :: string
  sy_channel_spki :: string
  sy_evidence_b64 :: string

datatype sync_outcome = AlreadyAligned serving_identity | Migrated serving_identity

text \<open>The disk of the guest and the files of the verifier.\<close>

record sync_state =
  ss_disk :: disk
  ss_vfy :: vfy_state

definition on_disk :: "(disk, 'e, 'a) op \<Rightarrow> (sync_state, 'e, 'a) op" where
  "on_disk = on_part ss_disk (\<lambda>d s. s\<lparr>ss_disk := d\<rparr>)"

definition on_vfy :: "(vfy_state, 'e, 'a) op \<Rightarrow> (sync_state, 'e, 'a) op" where
  "on_vfy = on_part ss_vfy (\<lambda>v s. s\<lparr>ss_vfy := v\<rparr>)"

record sync_callbacks =
  cb_produce :: "string \<Rightarrow> sync_error + sync_evidence"
  cb_verify :: "sync_evidence \<Rightarrow> string \<Rightarrow> (sync_state, sync_error, unit) op"
  cb_allowlisted :: "string \<Rightarrow> bool"
  cb_gate :: "(string \<Rightarrow> (sync_state, sync_error, unit) op) option"
  cb_seal_and_persist :: "bytes \<Rightarrow> bytes option \<Rightarrow> (sync_state, sync_error, unit) op"

record mock_attestor =
  mk_measurement :: string
  mk_psk :: string
  mk_allow :: "string list"

record sync_lib =
  sl_allow_legacy :: "environ \<Rightarrow> bool"
  sl_identity_from_pem :: "string \<Rightarrow> string \<Rightarrow> sync_error + serving_identity"
  sl_server_tls :: "bytes \<Rightarrow> bytes \<Rightarrow> sync_error + string"
  sl_bind :: "string \<Rightarrow> string option"
  sl_mock_produce :: "mock_attestor \<Rightarrow> string \<Rightarrow> sync_error + sync_evidence"
  sl_mock_verify :: "mock_attestor \<Rightarrow> sync_evidence \<Rightarrow> string \<Rightarrow> sync_error + unit"
  sl_mock_allowlisted :: "mock_attestor \<Rightarrow> string \<Rightarrow> bool"
  sl_client :: "string \<Rightarrow> serving_identity \<Rightarrow> sync_callbacks \<Rightarrow> string option \<Rightarrow> bool
                  \<Rightarrow> (sync_state, sync_error, sync_outcome) op"

text \<open>What the guest runs in: its hardware, the report tool and the world of the verifier.\<close>

record sync_host =
  sh_tee :: tee_host
  sh_report :: report_host
  sh_vfy :: vfy_host
  sh_lib :: sync_lib

subsection \<open>Settings\<close>

record seal_sync_config =
  sc_listen :: "string option"
  sc_peer :: "string option"
  sc_allowlist :: "string list"
  sc_mock_psk :: "string option"
  sc_challenge_base_url :: "string option"
  sc_allow_legacy_v3_import :: bool

definition seal_sync_from_env :: "sync_lib \<Rightarrow> environ \<Rightarrow> seal_sync_config" where
  "seal_sync_from_env L env =
     \<lparr>sc_listen = nonempty_env env ''OPENAPI_SEAL_SYNC_LISTEN'',
      sc_peer = nonempty_env env ''OPENAPI_SEAL_SYNC_PEER'',
      sc_allowlist =
        (case env ''OPENAPI_SEAL_SYNC_ALLOWLIST'' of
           Some s \<Rightarrow> filter (\<lambda>x. x \<noteq> []) (map (\<lambda>x. to_ascii_lowercase (trim x)) (split_on (\<lambda>c. c = CHR '','') s))
         | None \<Rightarrow> []),
      sc_mock_psk = nonempty_env env ''OPENAPI_SEAL_SYNC_PSK'',
      sc_challenge_base_url = nonempty_env env ''OPENAPI_SEAL_SYNC_CHALLENGE_BASE_URL'',
      sc_allow_legacy_v3_import = sl_allow_legacy L env\<rparr>"

definition sync_enabled :: "seal_sync_config \<Rightarrow> bool" where
  "sync_enabled cfg \<longleftrightarrow> sc_listen cfg \<noteq> None \<or> sc_peer cfg \<noteq> None"

definition load_profile_msg :: "'x att_ext_scheme \<Rightarrow> environ \<Rightarrow> sync_error + edge_profile" where
  "load_profile_msg X env = map_err (\<lambda>e. SyMsg (profile_error_to_string (str_debug X) e)) (load_edge_profile env)"

definition sync_validate_for_profile :: "'x att_ext_scheme \<Rightarrow> environ \<Rightarrow> seal_sync_config \<Rightarrow> sync_error + unit" where
  "sync_validate_for_profile X env cfg =
     (if \<not> sync_enabled cfg then Inr ()
      else bindE (load_profile_msg X env) (\<lambda>profile.
           if is_prod profile \<and> sc_mock_psk cfg \<noteq> None
           then Inl (SyMsg ''OPENAPI_SEAL_SYNC_PSK is forbidden when OPENAPI_PROFILE=prod; use hardware SNP attestation and OPENAPI_SEAL_SYNC_ALLOWLIST'')
           else if is_prod profile \<and> sc_allowlist cfg = []
           then Inl (SyMsg ''OPENAPI_SEAL_SYNC_ALLOWLIST required when seal-sync enabled in prod'')
           else Inr ()))"

definition use_split_trust_gate :: "seal_sync_config \<Rightarrow> bool" where
  "use_split_trust_gate cfg \<longleftrightarrow> sc_challenge_base_url cfg \<noteq> None \<and> sc_mock_psk cfg = None"

subsection \<open>The sealer of an imported key\<close>

record cvm_local_sealer =
  ls_sealer :: cvm_sealer
  ls_sealed_path :: string
  ls_cert_path :: string

definition seal_and_persist ::
    "'x seal_ext_scheme \<Rightarrow> tee_host \<Rightarrow> cvm_local_sealer \<Rightarrow> bytes \<Rightarrow> bytes option \<Rightarrow> (disk, sync_error, unit) op" where
  "seal_and_persist X H L key_pem cert_pem =
     bindS (map_errS (\<lambda>e. SySeal (''mkdir sealed: '' @ e)) (create_parent H (ls_sealed_path L))) (\<lambda>_.
     bindS (map_errS (\<lambda>e. SySeal (platform_error_to_string e))
              (seal_tls_key_to_file X H (ls_sealer L) key_pem (ls_sealed_path L) None)) (\<lambda>_.
     case cert_pem of
       None \<Rightarrow> returnS ()
     | Some cert \<Rightarrow>
         bindS (map_errS (\<lambda>e. SySeal (''mkdir cert: '' @ e)) (create_parent H (ls_cert_path L))) (\<lambda>_.
         map_errS (\<lambda>e. SySeal (''write cert: '' @ e)) (fs_write (th_fs H) (ls_cert_path L) cert))))"

subsection \<open>The challenge of the peer\<close>

definition both_nonempty :: "environ \<Rightarrow> string \<Rightarrow> string \<Rightarrow> (string \<times> string) option" where
  "both_nonempty env a b =
     (case (nonempty_env env a, nonempty_env env b) of (Some x, Some y) \<Rightarrow> Some (x, y) | _ \<Rightarrow> None)"

definition split_trust_from_env :: "environ \<Rightarrow> verify_options" where
  "split_trust_from_env env =
     (let o0 = verify_options_default;
          o1 = (case nonempty_env env ''OPENAPI_SEAL_SYNC_GITHUB_TAG'' of
                  Some tag \<Rightarrow> o0\<lparr>vo_github_tag := Some tag\<rparr> | None \<Rightarrow> o0);
          o2 = (case both_nonempty env ''OPENAPI_SEAL_SYNC_APP_MANIFEST'' ''OPENAPI_SEAL_SYNC_APP_MANIFEST_SIG'' of
                  Some (mp, sp) \<Rightarrow> o1\<lparr>vo_manifest_path := Some mp, vo_manifest_sig_path := Some sp\<rparr> | None \<Rightarrow> o1);
          g = (case both_nonempty env ''OPENAPI_SEAL_SYNC_GOLDEN_MANIFEST'' ''OPENAPI_SEAL_SYNC_GOLDEN_MANIFEST_SIG'' of
                 Some (gp, gs) \<Rightarrow> golden_options_default\<lparr>go_manifest_path := Some gp, go_manifest_sig_path := Some gs\<rparr>
               | None \<Rightarrow> golden_options_default);
          o3 = o2\<lparr>vo_golden := g, vo_require_golden_digests := True\<rparr>
      in if vo_allowlist_hostname o3 = None
         then o3\<lparr>vo_allowlist_hostname :=
                Some (unwrap_or ''openapi.teechat.ai'' (nonempty_env env ''OPENAPI_SEAL_SYNC_VERIFY_HOSTNAME''))\<rparr>
         else o3)"

definition verify_peer_challenge ::
    "'x vfy_ext_scheme \<Rightarrow> vfy_host \<Rightarrow> verify_options \<Rightarrow> string \<Rightarrow> (vfy_state, sync_error, unit) op" where
  "verify_peer_challenge X V template challenge_base_url s =
     (case verify_openapi_edge X V (template\<lparr>vo_endpoint := trim_end_char (CHR ''/'') challenge_base_url\<rparr>) s of
        (Inr v, s') \<Rightarrow>
          (if av_ok v then Inr ()
           else Inl (SyAttestation (''split-trust challenge returned ok=false for '' @ av_endpoint v)), s')
      | (Inl e, s') \<Rightarrow> (Inl (SyAttestation (''split-trust challenge failed: '' @ attest_error_to_string e)), s'))"

subsection \<open>The attestor of the channel\<close>

record snp_channel_attestor =
  sa_measurement :: string
  sa_allowlist :: "string list"

definition report_data_for_channel :: "'x ext_scheme \<Rightarrow> string \<Rightarrow> bytes" where
  "report_data_for_channel X channel_spki =
     sha256 X (as_bytes ''teechat-seal-sync-v3'' @ as_bytes channel_spki) @ replicate 32 0"

definition snp_produce ::
    "'x ext_scheme \<Rightarrow> report_host \<Rightarrow> snp_channel_attestor \<Rightarrow> string \<Rightarrow> sync_error + sync_evidence" where
  "snp_produce X R a channel_spki =
     bindE (map_err (\<lambda>e. SyAttestation (platform_error_to_string e))
              (snp_report_with_data R (report_data_for_channel X channel_spki))) (\<lambda>report.
     Inr \<lparr>sy_measurement = sa_measurement a, sy_channel_spki = to_ascii_lowercase channel_spki,
          sy_evidence_b64 = b64url_encode X report\<rparr>)"

definition snp_allowlisted :: "snp_channel_attestor \<Rightarrow> string \<Rightarrow> bool" where
  "snp_allowlisted a m \<longleftrightarrow>
     to_ascii_lowercase m \<in> set (sa_allowlist a) \<or> eq_ignore_ascii_case (sa_measurement a) (to_ascii_lowercase m)"

definition snp_channel_verify ::
    "'x snp_ext_scheme \<Rightarrow> kds_host \<Rightarrow> snp_channel_attestor \<Rightarrow> sync_evidence \<Rightarrow> string \<Rightarrow> (files, sync_error, unit) op" where
  "snp_channel_verify X K a evidence expected_spki =
     (if \<not> eq_ignore_ascii_case (sy_channel_spki evidence) expected_spki
      then failS (SyAttestation ''channel_spki_sha256 mismatch'')
      else if \<not> snp_allowlisted a (sy_measurement evidence)
      then failS (SyAttestation (''measurement not allowlisted: '' @ sy_measurement evidence))
      else bindS (map_errS (\<lambda>e. SyAttestation (''SNP VCEK/chain verification failed: '' @ attest_error_to_string e))
                    (verify_snp_report X K (sy_evidence_b64 evidence) True)) (\<lambda>verified.
           if \<not> eq_ignore_ascii_case (sv_report_data_hex verified)
                  (hex_encode X (report_data_for_channel X expected_spki))
           then failS (SyAttestation ''verified SNP report_data does not bind the seal-sync transcript'')
           else if \<not> eq_ignore_ascii_case
                        (challenge_canonical_launch_digest X (sv_launch_measurement_hex verified)) (sy_measurement evidence) \<and>
                   \<not> eq_ignore_ascii_case (sv_launch_measurement_hex verified) (sy_measurement evidence)
           then failS (SyAttestation ''verified SNP launch measurement does not match evidence claim'')
           else returnS ()))"

datatype edge_attestor = MockAttestor mock_attestor | SnpAttestor snp_channel_attestor

fun attestor_produce :: "'x ext_scheme \<Rightarrow> sync_host \<Rightarrow> edge_attestor \<Rightarrow> string \<Rightarrow> sync_error + sync_evidence" where
  "attestor_produce X H (MockAttestor m) spki = sl_mock_produce (sh_lib H) m spki"
| "attestor_produce X H (SnpAttestor a) spki = snp_produce X (sh_report H) a spki"

fun attestor_verify ::
    "'x snp_ext_scheme \<Rightarrow> sync_host \<Rightarrow> edge_attestor \<Rightarrow> sync_evidence \<Rightarrow> string \<Rightarrow> (vfy_state, sync_error, unit) op" where
  "attestor_verify X H (MockAttestor m) ev spki = liftS (sl_mock_verify (sh_lib H) m ev spki)"
| "attestor_verify X H (SnpAttestor a) ev spki = on_files (snp_channel_verify X (vh_kds (sh_vfy H)) a ev spki)"

fun attestor_allowlisted :: "sync_host \<Rightarrow> edge_attestor \<Rightarrow> string \<Rightarrow> bool" where
  "attestor_allowlisted H (MockAttestor m) ms = sl_mock_allowlisted (sh_lib H) m ms"
| "attestor_allowlisted H (SnpAttestor a) ms = snp_allowlisted a ms"

definition build_attestor :: "seal_sync_config \<Rightarrow> string \<Rightarrow> edge_attestor" where
  "build_attestor cfg local_measurement =
     (let allow = (if list_ex (\<lambda>a. eq_ignore_ascii_case a local_measurement) (sc_allowlist cfg) then sc_allowlist cfg
                   else sc_allowlist cfg @ [to_ascii_lowercase local_measurement])
      in case sc_mock_psk cfg of
           Some psk \<Rightarrow> MockAttestor \<lparr>mk_measurement = local_measurement, mk_psk = psk, mk_allow = allow\<rparr>
         | None \<Rightarrow> SnpAttestor \<lparr>sa_measurement = to_ascii_lowercase local_measurement, sa_allowlist = allow\<rparr>)"

subsection \<open>Client and server\<close>

text \<open>The callbacks handed to the crate: the gate is left out when a legacy import is allowed.\<close>

definition client_callbacks ::
    "'x seal_ext_scheme \<Rightarrow> sync_host \<Rightarrow> edge_attestor \<Rightarrow> cvm_local_sealer \<Rightarrow> verify_options option \<Rightarrow> sync_callbacks" where
  "client_callbacks X H a L gate =
     \<lparr>cb_produce = attestor_produce X H a,
      cb_verify = (\<lambda>ev spki. on_vfy (attestor_verify X H a ev spki)),
      cb_allowlisted = attestor_allowlisted H a,
      cb_gate = (if sl_allow_legacy (sh_lib H) (th_env (sh_tee H)) then None
                 else map_option (\<lambda>opts url. on_vfy (verify_peer_challenge X (sh_vfy H) opts url)) gate),
      cb_seal_and_persist = (\<lambda>key cert. on_disk (seal_and_persist X (sh_tee H) L key cert))\<rparr>"

definition run_seal_sync_client ::
    "'x seal_ext_scheme \<Rightarrow> sync_host \<Rightarrow> string \<Rightarrow> serving_identity \<Rightarrow> edge_attestor \<Rightarrow> cvm_local_sealer
       \<Rightarrow> verify_options option \<Rightarrow> string option \<Rightarrow> (sync_state, sync_error, sync_outcome) op" where
  "run_seal_sync_client X H peer local_id a L gate local_url =
     sl_client (sh_lib H) peer local_id (client_callbacks X H a L gate) local_url
       (sl_allow_legacy (sh_lib H) (th_env (sh_tee H)))"

text \<open>A server that was started: where it listens, what it attests with, whom it challenges and the key it
  exports. The thread hands each connection to the crate with these, for ever.\<close>

record sync_server =
  sv_listen :: string
  sv_channel_spki :: string
  sv_identity :: serving_identity
  sv_attestor :: edge_attestor
  sv_gate :: "verify_options option"
  sv_challenge_url :: "string option"
  sv_export_key :: bytes
  sv_cert_path :: string

definition spawn_seal_sync_server ::
    "sync_lib \<Rightarrow> string \<Rightarrow> string \<Rightarrow> bytes \<Rightarrow> string \<Rightarrow> serving_identity \<Rightarrow> edge_attestor
       \<Rightarrow> verify_options option \<Rightarrow> string option \<Rightarrow> bytes \<Rightarrow> sync_error + sync_server" where
  "spawn_seal_sync_server L listen cert_pem key_pem cert_path identity a gate url export_key =
     bindE (sl_server_tls L (as_bytes cert_pem) key_pem) (\<lambda>channel_spki.
     case sl_bind L listen of
       Some e \<Rightarrow> Inl (SyIo e)
     | None \<Rightarrow> Inr \<lparr>sv_listen = listen, sv_channel_spki = channel_spki, sv_identity = identity, sv_attestor = a,
                   sv_gate = gate, sv_challenge_url = url, sv_export_key = export_key, sv_cert_path = cert_path\<rparr>)"

definition read_ok :: "(disk, string, 'a) op \<Rightarrow> (disk, 'e, 'a option) op" where
  "read_ok m d = (case m d of (Inr x, d') \<Rightarrow> (Inr (Some x), d') | (Inl _, d') \<Rightarrow> (Inr None, d'))"

definition serving_identity_of :: "sync_lib \<Rightarrow> string option \<Rightarrow> string \<Rightarrow> sync_error + serving_identity" where
  "serving_identity_of L cert_pem measurement =
     (case cert_pem of
        Some pem \<Rightarrow> sl_identity_from_pem L pem measurement
      | None \<Rightarrow> Inr \<lparr>si_spki_sha256 = replicate 64 (CHR ''0''), si_cert_sha256 = replicate 64 (CHR ''0''),
                    si_measurement = measurement\<rparr>)"

definition maybe_start_seal_sync ::
    "'x seal_ext_scheme \<Rightarrow> sync_host \<Rightarrow> seal_sync_config \<Rightarrow> string \<Rightarrow> string \<Rightarrow> string \<Rightarrow> cvm_sealer \<Rightarrow> bytes option
       \<Rightarrow> (sync_state, sync_error, sync_server option) op" where
  "maybe_start_seal_sync X H cfg launch cert_path sealed_path sealer unsealed =
     (let env = th_env (sh_tee H); L = sh_lib H
      in if \<not> sync_enabled cfg then returnS None
         else bindS (liftS (sync_validate_for_profile X env cfg)) (\<lambda>_.
              bindS (liftS (load_profile_msg X env)) (\<lambda>profile.
              bindS (on_disk (map_errS SyMsg (resolve_tls_key_policy_for_profile X (sh_tee H) (is_prod profile)))) (\<lambda>policy.
              if policy = KeyCeremony \<and> sc_peer cfg \<noteq> None
              then failS (SyMsg ''tls_key_policy=key_ceremony forbids OPENAPI_SEAL_SYNC_PEER (import); export listen only'')
              else let measurement = (case read_attested_launch_digest X (sh_tee H) of
                                        Inr m \<Rightarrow> m | Inl _ \<Rightarrow> to_ascii_lowercase launch)
                   in bindS (on_disk (read_ok (fs_read_to_string (th_fs (sh_tee H)) cert_path))) (\<lambda>cert_pem.
                      bindS (liftS (serving_identity_of L cert_pem measurement)) (\<lambda>identity.
                      let a = build_attestor cfg measurement;
                          gate = (if use_split_trust_gate cfg then Some (split_trust_from_env env) else None);
                          url = sc_challenge_base_url cfg
                      in bindS (case sc_peer cfg of
                                  None \<Rightarrow> returnS ()
                                | Some peer \<Rightarrow>
                                    bindS (run_seal_sync_client X H peer identity a
                                             \<lparr>ls_sealer = sealer, ls_sealed_path = sealed_path, ls_cert_path = cert_path\<rparr>
                                             gate url) (\<lambda>_. returnS ())) (\<lambda>_.
                         case (sc_listen cfg, unsealed, cert_pem) of
                           (Some listen, Some key, Some pem) \<Rightarrow>
                             bindS (liftS (spawn_seal_sync_server L listen pem key cert_path identity a gate url key))
                               (\<lambda>server. returnS (Some server))
                         | _ \<Rightarrow> returnS None)))))))"

subsection \<open>What an accepted peer has shown\<close>

text \<open>Hexadecimal text determines the bytes, whatever the case of its letters; and hashes have 32 bytes.\<close>

definition hex_laws :: "'x ext_scheme \<Rightarrow> bool" where
  "hex_laws X \<longleftrightarrow>
     (\<forall>a b. eq_ignore_ascii_case (hex_encode X a) (hex_encode X b) \<longrightarrow> a = b) \<and> (\<forall>b. length (sha256 X b) = 32)"

text \<open>The report behind some evidence: signed under the vendor's root by a guest that is neither debuggable
  nor migratable, with these report data and this measurement.\<close>

definition genuine_report :: "'x snp_ext_scheme \<Rightarrow> sync_evidence \<Rightarrow> snp_report \<Rightarrow> bool" where
  "genuine_report X ev r \<longleftrightarrow>
     (\<exists>report_b64 raw vcek ark ask. raw_snp_report_b64 X (sy_evidence_b64 ev) = Inr report_b64 \<and>
        std_b64_decode X (trim report_b64) = Inr raw \<and> snp_report_from_bytes X raw = Inr r \<and>
        \<not> sp_policy_debug r \<and> \<not> sp_policy_migrate_ma r \<and>
        builtin_ark X (snp_product_name r) = Inr ark \<and> builtin_ask X (snp_product_name r) = Inr ask \<and>
        snp_chain_verify X ark ask vcek r = Inr ())"

lemma genuine_report_unique: "genuine_report X ev r \<Longrightarrow> genuine_report X ev r' \<Longrightarrow> r = r'"
  by (auto simp: genuine_report_def)

lemma verify_snp_report_ok:
  assumes "verify_snp_report X K (sy_evidence_b64 ev) True fs = (Inr v, fs')"
  shows "\<exists>r. genuine_report X ev r \<and> sv_report_data_hex v = hex_encode X (sp_report_data r) \<and>
    sv_launch_measurement_hex v = hex_encode X (sp_measurement r)"
proof -
  from assms obtain b64 vcek where q: "raw_snp_report_b64 X (sy_evidence_b64 ev) = Inr b64"
    "verify_snp_report_with_collateral X b64 vcek True = Inr v"
    by (auto simp: verify_snp_report_def bindS_def liftS_def split: sum.splits prod.splits)
  from q(2) obtain raw r vc ark ask where "std_b64_decode X (trim b64) = Inr raw" "snp_report_from_bytes X raw = Inr r"
    "\<not> sp_policy_debug r" "\<not> sp_policy_migrate_ma r" "builtin_ark X (snp_product_name r) = Inr ark"
    "builtin_ask X (snp_product_name r) = Inr ask" "snp_chain_verify X ark ask vc r = Inr ()"
    "sv_report_data_hex v = hex_encode X (sp_report_data r)"
    "sv_launch_measurement_hex v = hex_encode X (sp_measurement r)"
    by (auto simp: verify_snp_report_with_collateral_def decode_snp_report_def apply_snp_policy_def
        builtin_ca_def result_simps Let_def split: if_splits)
  with q(1) show ?thesis unfolding genuine_report_def by blast
qed

definition names_measurement :: "'x ext_scheme \<Rightarrow> snp_report \<Rightarrow> string \<Rightarrow> bool" where
  "names_measurement X r m \<longleftrightarrow>
     eq_ignore_ascii_case (challenge_canonical_launch_digest X (hex_encode X (sp_measurement r))) m \<or>
     eq_ignore_ascii_case (hex_encode X (sp_measurement r)) m"

lemma channel_verify_ok:
  assumes "snp_channel_verify X K a ev spki fs = (Inr (), fs')" "hex_laws X"
  shows "\<exists>r. genuine_report X ev r \<and> sp_report_data r = report_data_for_channel X spki \<and>
    names_measurement X r (sy_measurement ev) \<and> snp_allowlisted a (sy_measurement ev) \<and>
    eq_ignore_ascii_case (sy_channel_spki ev) spki"
proof -
  from assms(1) obtain v where v: "verify_snp_report X K (sy_evidence_b64 ev) True fs = (Inr v, fs')"
    "eq_ignore_ascii_case (sv_report_data_hex v) (hex_encode X (report_data_for_channel X spki))"
    "eq_ignore_ascii_case (challenge_canonical_launch_digest X (sv_launch_measurement_hex v)) (sy_measurement ev) \<or>
     eq_ignore_ascii_case (sv_launch_measurement_hex v) (sy_measurement ev)"
    "snp_allowlisted a (sy_measurement ev)" "eq_ignore_ascii_case (sy_channel_spki ev) spki"
    by (auto simp: snp_channel_verify_def result_simps split: if_splits)
  from verify_snp_report_ok [OF v(1)] obtain r where r: "genuine_report X ev r"
    "sv_report_data_hex v = hex_encode X (sp_report_data r)" "sv_launch_measurement_hex v = hex_encode X (sp_measurement r)"
    by blast
  with v(2) assms(2) have "sp_report_data r = report_data_for_channel X spki" by (auto simp: hex_laws_def)
  with r v(3-5) show ?thesis by (auto simp: names_measurement_def)
qed

text \<open>The hash of the code tells two texts apart.\<close>

definition tells_apart :: "'x ext_scheme \<Rightarrow> bytes \<Rightarrow> bytes \<Rightarrow> bool" where
  "tells_apart X p q \<longleftrightarrow> (sha256 X p = sha256 X q \<longrightarrow> p = q)"

definition channel_text :: "string \<Rightarrow> bytes" where
  "channel_text spki = as_bytes ''teechat-seal-sync-v3'' @ as_bytes spki"

lemma channel_data_binds:
  assumes "report_data_for_channel X spki = report_data_for_channel X spki'" "hex_laws X"
    "tells_apart X (channel_text spki) (channel_text spki')"
  shows "spki = spki'"
  using assms by (simp add: report_data_for_channel_def hex_laws_def tells_apart_def channel_text_def)

lemma cb_verify_ok:
  assumes "cb_verify (client_callbacks X H (SnpAttestor a) L gate) ev spki s = (Inr (), s')"
  shows "ss_disk s' = ss_disk s"
    "\<exists>fs fs'. snp_channel_verify X (vh_kds (sh_vfy H)) a ev spki fs = (Inr (), fs')"
  using assms by (auto simp: client_callbacks_def on_vfy_def on_part_def on_files_def split: prod.splits)


text \<open>The challenge of the peer is not required in production: settings without the URL of the own challenge
  pass, and the crate then gets no gate. A gate is left out as well when a legacy import is allowed.\<close>

lemma production_without_gate:
  assumes "sc_mock_psk cfg = None" "sc_allowlist cfg \<noteq> []" "sc_challenge_base_url cfg = None"
    and "load_edge_profile env = Inr Prod"
  shows "sync_validate_for_profile X env cfg = Inr ()" "\<not> use_split_trust_gate cfg"
  using assms by (simp_all add: sync_validate_for_profile_def load_profile_msg_def use_split_trust_gate_def)

lemma legacy_import_drops_gate:
  "sl_allow_legacy (sh_lib H) (th_env (sh_tee H)) \<Longrightarrow> cb_gate (client_callbacks X H a L gate) = None"
  by (simp add: client_callbacks_def)

subsection \<open>An accepted peer\<close>

text \<open>A printer of bytes with two letters each, and a report whose data are its bytes from 80 on.\<close>

definition nibble :: "nat \<Rightarrow> char" where
  "nibble n = char_of (97 + n)"

definition nibbles :: "bytes \<Rightarrow> string" where
  "nibbles b = concat (map (\<lambda>w. [nibble (unat w div 16), nibble (unat w mod 16)]) b)"

definition sync_crates :: seal_ext where
  "sync_crates = seal_crates\<lparr>hex_encode := nibbles,
     snp_report_from_bytes := \<lambda>b. Inr \<lparr>sp_policy_debug = False, sp_policy_migrate_ma = False, sp_chip_id = [],
       sp_reported_tcb = (0, 0, 0, 0), sp_measurement = [1], sp_report_data = take 64 (drop 80 b), sp_guest_svn = 0,
       sp_cpuid_fam_id = None, sp_cpuid_mod_id = None\<rparr>\<rparr>"

lemma nibble_simps:
  assumes "n < 16" "m < 16"
  shows "ascii_lower (nibble n) = nibble n" "nibble n = nibble m \<longleftrightarrow> n = m"
proof -
  have "97 + n < 256" "97 + m < 256" using assms by simp_all
  then have c: "code (nibble n) = 97 + n" "code (nibble m) = 97 + m"
    by (simp_all add: nibble_def code_def)
  then show "ascii_lower (nibble n) = nibble n" by (simp add: ascii_lower_def)
  from c show "nibble n = nibble m \<longleftrightarrow> n = m" by (metis add_left_cancel)
qed

lemma unat_u8: "unat (w :: u8) < 256"
  using unsigned_less [of w, where 'a = nat] by simp

lemma lowercase_nibbles: "to_ascii_lowercase (nibbles b) = nibbles b"
proof -
  have "ascii_lower (nibble (unat w div 16)) = nibble (unat w div 16)" "ascii_lower (nibble (unat w mod 16)) = nibble (unat w mod 16)"
    for w :: u8
    by (intro nibble_simps(1) [where m = 0]; use unat_u8 [of w] in simp)+
  then show ?thesis by (induction b) (simp_all add: nibbles_def to_ascii_lowercase_def)
qed

lemma nibbles_inj: "nibbles a = nibbles b \<Longrightarrow> a = b"
proof (induction a arbitrary: b)
  case Nil
  then show ?case by (cases b) (simp_all add: nibbles_def)
next
  case (Cons v a)
  then obtain w b' where b: "b = w # b'" by (cases b) (simp_all add: nibbles_def)
  have bound: "unat v div 16 < 16" "unat w div 16 < 16" using unat_u8 [of v] unat_u8 [of w] by simp_all
  from Cons.prems b have "nibble (unat v div 16) = nibble (unat w div 16)" "nibble (unat v mod 16) = nibble (unat w mod 16)"
    "nibbles a = nibbles b'"
    by (simp_all add: nibbles_def)
  with bound have "unat v div 16 = unat w div 16" "unat v mod 16 = unat w mod 16"
    by (simp_all add: nibble_simps(2))
  then have "unat v = unat w" by (metis div_mult_mod_eq)
  then have "v = w" by (simp add: word_unat_eq_iff)
  with Cons.IH [OF \<open>nibbles a = nibbles b'\<close>] b show ?case by simp
qed

lemma sync_crates_simps:
  "hex_encode sync_crates = nibbles" "sha256 sync_crates b = replicate 32 97" "std_b64_decode sync_crates = marked_decode"
  "std_b64_encode sync_crates = marked_encode" "json_from_slice sync_crates b = Inl []"
  "cert_from_der sync_crates b = Inr b" "builtin_ark sync_crates p = Inr []" "builtin_ask sync_crates p = Inr []"
  "snp_chain_verify sync_crates ark ask vcek r = Inr ()"
  "snp_report_from_bytes sync_crates b = Inr \<lparr>sp_policy_debug = False, sp_policy_migrate_ma = False, sp_chip_id = [],
       sp_reported_tcb = (0, 0, 0, 0), sp_measurement = [1], sp_report_data = take 64 (drop 80 b), sp_guest_svn = 0,
       sp_cpuid_fam_id = None, sp_cpuid_mod_id = None\<rparr>"
  by (simp_all add: sync_crates_def seal_crates_def vfy_crates_def vfy_ext.defs)

lemma sync_crates_laws: "hex_laws sync_crates"
  by (auto simp: hex_laws_def sync_crates_simps eq_ignore_ascii_case_def lowercase_nibbles dest: nibbles_inj)

definition sample_sync_lib :: sync_lib where
  "sample_sync_lib = \<lparr>sl_allow_legacy = \<lambda>e. False, sl_identity_from_pem = \<lambda>p m. Inl (SyMsg []),
     sl_server_tls = \<lambda>c k. Inr [], sl_bind = \<lambda>l. None, sl_mock_produce = \<lambda>m s. Inl (SyMsg []),
     sl_mock_verify = \<lambda>m e s. Inl (SyMsg []), sl_mock_allowlisted = \<lambda>m s. False,
     sl_client = \<lambda>p i cb u l. failS (SyMsg [])\<rparr>"

definition sample_sync_host :: sync_host where
  "sample_sync_host = \<lparr>sh_tee = sample_guest, sh_report = sample_report_host, sh_vfy = sample_vfy_host, sh_lib = sample_sync_lib\<rparr>"

definition sample_sync_config :: seal_sync_config where
  "sample_sync_config = \<lparr>sc_listen = None, sc_peer = Some ''p'', sc_allowlist = [''ab''], sc_mock_psk = None,
     sc_challenge_base_url = None, sc_allow_legacy_v3_import = False\<rparr>"

definition sample_evidence :: sync_evidence where
  "sample_evidence = \<lparr>sy_measurement = ''ab'', sy_channel_spki = ''c'', sy_evidence_b64 = marked_encode sample_raw_quote\<rparr>"

definition sample_local_sealer :: cvm_local_sealer where
  "sample_local_sealer = \<lparr>ls_sealer = sample_sealer, ls_sealed_path = ''/s'', ls_cert_path = ''/c''\<rparr>"

lemma sample_sync_verified:
  "\<exists>v. verify_snp_report sync_crates (vh_kds sample_vfy_host) (marked_encode sample_raw_quote) True Map.empty = (Inr v, Map.empty) \<and>
     sv_report_data_hex v = nibbles (replicate 32 97 @ replicate 32 0) \<and> sv_launch_measurement_hex v = nibbles [1]"
proof -
  let ?q = "marked_encode sample_raw_quote" and ?K = "vh_kds sample_vfy_host"
  have raw: "raw_snp_report_b64 sync_crates ?q = Inr ?q"
    by (simp add: raw_snp_report_b64_def decode_b64_flexible_def sync_crates_simps marked_round_trip wrapped_report_def
        split: option.split)
  have kds: "kds_http_get ?K url Map.empty = (Inr [1], Map.empty)" for url
    by (simp add: kds_http_get_def sample_vfy_host_def upt_rec Let_def)
  obtain r where r: "decode_snp_report sync_crates ?q True = Inr r" "snp_product_name r = ''Genoa''"
    "sp_report_data r = take 64 (drop 80 sample_raw_quote)" "sp_measurement r = [1]"
    by (simp add: decode_snp_report_def sync_crates_simps marked_round_trip apply_snp_policy_def snp_product_name_def)
  have data: "take 64 (drop 80 sample_raw_quote) = replicate 32 97 @ replicate 32 0"
    by (simp add: sample_raw_quote_def del: replicate.simps)
  have "is_ok (snp_report_reportdata_local sync_crates ?q)"
    by (simp add: snp_report_reportdata_local_def sync_crates_simps marked_round_trip sample_raw_quote_def is_ok_def
        SNP_REPORT_DATA_OFFSET_def REPORT_DATA_LEN_def)
  then obtain v where v: "verify_snp_report_with_collateral sync_crates ?q [1] True = Inr v"
    "sv_report_data_hex v = nibbles (sp_report_data r)" "sv_launch_measurement_hex v = nibbles (sp_measurement r)"
    by (auto simp: verify_snp_report_with_collateral_def r(1,2) Let_def sync_crates_simps builtin_ca_def is_ok_def
        split: sum.splits)
  then have "verify_snp_report sync_crates ?K ?q True Map.empty = (Inr v, Map.empty)"
    by (simp add: verify_snp_report_def bindS_def liftS_def raw r(1) kds)
  with v(2,3) r(3,4) data show ?thesis by auto
qed

lemma sample_peer_accepted:
  "\<exists>s'. cb_verify (client_callbacks sync_crates sample_sync_host (build_attestor sample_sync_config ''ab'') sample_local_sealer None)
     sample_evidence ''c'' \<lparr>ss_disk = acme_disk, ss_vfy = sample_vfy_state\<rparr> = (Inr (), s')"
proof -
  obtain v where v: "verify_snp_report sync_crates (vh_kds sample_vfy_host) (marked_encode sample_raw_quote) True Map.empty =
      (Inr v, Map.empty)" "sv_report_data_hex v = nibbles (replicate 32 97 @ replicate 32 0)"
    "sv_launch_measurement_hex v = nibbles [1]"
    using sample_sync_verified by blast
  have m: "nibbles [1] = ''ab''" by code_simp
  have rd: "report_data_for_channel sync_crates ''c'' = replicate 32 97 @ replicate 32 0"
    by (simp add: report_data_for_channel_def sync_crates_simps)
  have "snp_channel_verify sync_crates (vh_kds sample_vfy_host) \<lparr>sa_measurement = ''ab'', sa_allowlist = [''ab'']\<rparr>
      sample_evidence ''c'' Map.empty = (Inr (), Map.empty)"
  proof -
    have "snp_allowlisted \<lparr>sa_measurement = ''ab'', sa_allowlist = [''ab'']\<rparr> ''ab''" by code_simp
    with v m rd show ?thesis
      by (simp add: snp_channel_verify_def sample_evidence_def sync_crates_simps eq_ignore_ascii_case_def bindS_def
          map_errS_def returnS_def)
  qed
  moreover have "build_attestor sample_sync_config ''ab'' = SnpAttestor \<lparr>sa_measurement = ''ab'', sa_allowlist = [''ab'']\<rparr>"
    by code_simp
  ultimately show ?thesis
    by (simp add: client_callbacks_def on_vfy_def on_part_def on_files_def sample_sync_host_def sample_vfy_state_def)
qed


end
