(* ===== verification/L0_Client.thy ===== *)
theory L0_Client
  imports Remote_Auth Gateway_Api
begin

text \<open>
  \<open>crates/openapi-platform-cvm/src/remote_client.rs\<close>: the HTTP client of the authorisation service L0,
  the construction of the remote authenticator, and the thread that polls for revocations. The HTTP
  agent, serde and the key parser are parameters.
\<close>

subsection \<open>The client\<close>

record l0_ext = auth_ext +
  authz_from_str :: "string \<Rightarrow> string + signed_authz"
  delta_from_str :: "string \<Rightarrow> string + revocation_delta"
  l0_vk_from_bytes :: "bytes \<Rightarrow> string + bytes"

type_synonym web = "http_out \<Rightarrow> string + http_answer"

record ureq_l0 =
  ul_authorize_url :: string
  ul_revocations_url :: string
  ul_internal_token :: string

definition revocations_url_from_authorize :: "string \<Rightarrow> string" where
  "revocations_url_from_authorize authorize_url =
     (case strip_suffix authorize_url ''/authorize'' of
        Some base \<Rightarrow> base @ ''/revocations''
      | None \<Rightarrow> if authorize_url \<noteq> [] \<and> last authorize_url = CHR ''/'' then authorize_url @ ''revocations''
                else authorize_url @ ''/revocations'')"

definition ureq_l0_with_urls :: "string \<Rightarrow> string \<Rightarrow> string \<Rightarrow> ureq_l0" where
  "ureq_l0_with_urls authorize_url revocations_url token =
     \<lparr>ul_authorize_url = authorize_url, ul_revocations_url = revocations_url, ul_internal_token = token\<rparr>"

definition ureq_l0_new :: "string \<Rightarrow> string \<Rightarrow> ureq_l0" where
  "ureq_l0_new authorize_url token =
     ureq_l0_with_urls authorize_url (revocations_url_from_authorize authorize_url) token"

definition ureq_authorize ::
    "'x l0_ext_scheme \<Rightarrow> web \<Rightarrow> ureq_l0 \<Rightarrow> string \<Rightarrow> string \<Rightarrow> api_error + signed_authz" where
  "ureq_authorize X A c key_id key_hash_hex =
     bindE (map_err (\<lambda>e. Internal (''l0 authorize json encode: '' @ e))
              (json_to_vec X (JObj [(''key_hash_hex'', JStr key_hash_hex), (''key_id'', JStr key_id)]))) (\<lambda>body.
     bindE (map_err (\<lambda>e. Internal (''l0 authorize transport: '' @ e))
              (A \<lparr>ho_method = ''POST'', ho_url = ul_authorize_url c,
                  ho_headers = [(''Authorization'', ''Bearer '' @ ul_internal_token c),
                                (''Content-Type'', ''application/json'')],
                  ho_body = Some body\<rparr>)) (\<lambda>resp.
     if ha_status resp = 401 \<or> ha_status resp = 404 then Inl Unauthorized
     else if 400 \<le> ha_status resp
     then Inl (Internal (''l0 authorize status '' @ show_nat (ha_status resp)))
     else bindE (map_err (\<lambda>e. Internal (''l0 authorize body: '' @ e)) (ha_text resp)) (\<lambda>body_text.
          map_err (\<lambda>e. Internal (''l0 authorize json: '' @ e)) (authz_from_str X body_text))))"

definition ureq_fetch_revocations ::
    "'x l0_ext_scheme \<Rightarrow> web \<Rightarrow> ureq_l0 \<Rightarrow> nat \<Rightarrow> api_error + revocation_delta" where
  "ureq_fetch_revocations X A c since_epoch =
     (let url = ul_revocations_url c @ (if CHR ''?'' \<in> set (ul_revocations_url c) then ''&'' else ''?'') @
                ''since_epoch='' @ show_nat since_epoch
      in bindE (map_err (\<lambda>e. Internal (''l0 revocations transport: '' @ e))
                  (A \<lparr>ho_method = ''GET'', ho_url = url,
                      ho_headers = [(''Authorization'', ''Bearer '' @ ul_internal_token c)], ho_body = None\<rparr>))
           (\<lambda>resp.
         if 400 \<le> ha_status resp
         then Inl (Internal (''l0 revocations status '' @ show_nat (ha_status resp)))
         else bindE (map_err (\<lambda>e. Internal (''l0 revocations body: '' @ e)) (ha_text resp)) (\<lambda>body_text.
              map_err (\<lambda>e. Internal (''l0 revocations json: '' @ e)) (delta_from_str X body_text))))"

text \<open>The client as the trait object the authenticator holds.\<close>

definition ureq_client :: "'x l0_ext_scheme \<Rightarrow> web \<Rightarrow> ureq_l0 \<Rightarrow> l0_client" where
  "ureq_client X A c =
     \<lparr>l0_authorize = ureq_authorize X A c, l0_fetch_revocations = ureq_fetch_revocations X A c\<rparr>"

text \<open>The authenticator, with the configuration of its client.\<close>

definition build_remote_authenticator_ex ::
    "'x l0_ext_scheme \<Rightarrow> nat \<Rightarrow> string \<Rightarrow> string \<Rightarrow> string option \<Rightarrow> string \<Rightarrow> nat option
       \<Rightarrow> api_error + ureq_l0 \<times> remote_auth" where
  "build_remote_authenticator_ex X now verify_key_hex authorize_url revocations_url token poll_secs =
     bindE (map_err (\<lambda>e. Internal (''catalog verify hex: '' @ e)) (hex_decode X verify_key_hex)) (\<lambda>b.
     if length b \<noteq> 32 then Inl (Internal ''catalog verify must be 32 bytes'')
     else bindE (map_err (\<lambda>e. Internal (''catalog verify key: '' @ e)) (l0_vk_from_bytes X b)) (\<lambda>vk.
          let client = (case revocations_url of
                          Some r \<Rightarrow> ureq_l0_with_urls authorize_url r token
                        | None \<Rightarrow> ureq_l0_new authorize_url token);
              secs = max 1 (case poll_secs of Some s \<Rightarrow> s | None \<Rightarrow> DEFAULT_REVOKE_POLL_SECS)
          in Inr (client, remote_with_poll_interval vk (secs * 1000000000) now)))"

definition build_remote_authenticator ::
    "'x l0_ext_scheme \<Rightarrow> nat \<Rightarrow> string \<Rightarrow> string \<Rightarrow> string \<Rightarrow> api_error + ureq_l0 \<times> remote_auth" where
  "build_remote_authenticator X now verify_key_hex authorize_url token =
     build_remote_authenticator_ex X now verify_key_hex authorize_url None token None"

subsection \<open>The poller\<close>

text \<open>One turn of the thread at time \<open>now\<close>: it sleeps on when the poll is not due; otherwise it fetches, and
  a failure sets the next time as a success does. The two readings of the clock in one turn are one.\<close>

definition poller_wake :: "'x auth_ext_scheme \<Rightarrow> l0_client \<Rightarrow> nat \<Rightarrow> remote_auth \<Rightarrow> remote_auth" where
  "poller_wake X client now s =
     (case wait_until_due_step now (ra_poll_clock s) of
        Some _ \<Rightarrow> s
      | None \<Rightarrow>
          (case sync_revocations_from_l0 X client now s of
             (Inr _, t) \<Rightarrow> t
           | (Inl _, t) \<Rightarrow> t\<lparr>ra_poll_clock := poll_reset now (ra_poll_clock t)\<rparr>))"

text \<open>Requests and turns of the poller, interleaved.\<close>

datatype auth_event =
    Request l0_client nat nat "string option"
  | Wake l0_client nat

fun auth_event_step :: "'x auth_ext_scheme \<Rightarrow> auth_event \<Rightarrow> remote_auth \<Rightarrow> remote_auth" where
  "auth_event_step X (Request client now_ms now h) s = snd (remote_authenticate_bearer X client now_ms now h s)"
| "auth_event_step X (Wake client now) s = poller_wake X client now s"

fun auth_events :: "'x auth_ext_scheme \<Rightarrow> auth_event list \<Rightarrow> remote_auth \<Rightarrow> remote_auth" where
  "auth_events X [] s = s"
| "auth_events X (e # es) s = auth_events X es (auth_event_step X e s)"

fun event_client :: "auth_event \<Rightarrow> l0_client" where
  "event_client (Request client _ _ _) = client"
| "event_client (Wake client _) = client"

text \<open>An L0 that has published a revocation with epoch \<open>E\<close>: it delivers the revocation to whoever asks from
  before it, among frames that all verify, and no authorisation it signs is older.\<close>

definition published :: "'x auth_ext_scheme \<Rightarrow> bytes \<Rightarrow> nat \<Rightarrow> signed_revocation \<Rightarrow> l0_client \<Rightarrow> bool" where
  "published X vk E r client \<longleftrightarrow>
     (\<forall>since < E. \<exists>delta. l0_fetch_revocations client since = Inr delta \<and> r \<in> set (delta_revocations delta) \<and>
        (\<forall>f \<in> set (delta_revocations delta). revocation_verify_signature X f vk = Inr ())) \<and>
     (\<forall>k h a. l0_authorize client k h = Inr a \<longrightarrow> E \<le> authz_epoch a)"

text \<open>Not yet known here, but due at \<open>T\<close> at the latest; or revoked.\<close>

definition on_its_way :: "bytes \<Rightarrow> nat \<Rightarrow> nat \<Rightarrow> string \<Rightarrow> remote_auth \<Rightarrow> bool" where
  "on_its_way vk E T k s \<longleftrightarrow>
     ra_verify_key s = vk \<and> \<not> ra_rev_poisoned s \<and> \<not> ra_cache_poisoned s \<and>
     (k \<in> ra_revocations s \<or> ra_local_epoch s < E \<and> next_due (ra_poll_clock s) \<le> T)"

lemma apply_frames_all:
  assumes "\<And>f. f \<in> set rs \<Longrightarrow> revocation_verify_signature X f (ra_verify_key s) = Inr ()"
    and "\<not> ra_rev_poisoned s" "\<not> ra_cache_poisoned s"
  shows "\<exists>n' t. apply_frames X rs n s = (Inr n', t) \<and> rev_key_id ` set rs \<subseteq> ra_revocations t \<and> remote_le s t"
  using assms
proof (induction rs arbitrary: n s)
  case (Cons f rs)
  let ?t = "s\<lparr>ra_revocations := insert (rev_key_id f) (ra_revocations s), ra_cache := (ra_cache s)(rev_key_id f := None)\<rparr>"
  have a: "apply_revocation X f s = (Inr (), ?t)"
    using Cons.prems by (simp add: apply_revocation_def)
  have "\<exists>n' t. apply_frames X rs (n + 1) ?t = (Inr n', t) \<and> rev_key_id ` set rs \<subseteq> ra_revocations t \<and> remote_le ?t t"
    by (rule Cons.IH) (use Cons.prems in simp_all)
  then obtain n' t where t: "apply_frames X rs (n + 1) ?t = (Inr n', t)" "rev_key_id ` set rs \<subseteq> ra_revocations t"
    "remote_le ?t t"
    by blast
  from a t show ?case by (auto simp: remote_le_def)
qed simp

lemma sync_delivers:
  assumes "published X vk E r client" "on_its_way vk E T (rev_key_id r) s" "ra_local_epoch s < E"
  shows "\<exists>n t. sync_revocations_from_l0 X client now s = (Inr n, t) \<and> rev_key_id r \<in> ra_revocations t \<and> remote_le s t"
proof -
  from assms(1,3) obtain delta where d: "l0_fetch_revocations client (ra_local_epoch s) = Inr delta"
    "r \<in> set (delta_revocations delta)"
    "\<And>f. f \<in> set (delta_revocations delta) \<Longrightarrow> revocation_verify_signature X f vk = Inr ()"
    by (auto simp: published_def)
  from assms(2) have "ra_verify_key s = vk" "\<not> ra_rev_poisoned s" "\<not> ra_cache_poisoned s"
    by (simp_all add: on_its_way_def)
  with d(3) obtain n t where t: "apply_frames X (delta_revocations delta) 0 s = (Inr n, t)"
    "rev_key_id ` set (delta_revocations delta) \<subseteq> ra_revocations t" "remote_le s t"
    using apply_frames_all [of "delta_revocations delta" X s 0] by metis
  with d(1,2) show ?thesis
    by (auto simp: sync_revocations_from_l0_def Let_def remote_le_def)
qed

lemma on_its_way_grows:
  assumes "on_its_way vk E T k s" "remote_le s t" "k \<in> ra_revocations t"
  shows "on_its_way vk E T k t"
  using assms by (auto simp: on_its_way_def remote_le_def)

lemma convoy_delivers:
  assumes "published X vk E r client" "on_its_way vk E T (rev_key_id r) s" "E \<le> epoch"
  shows "on_its_way vk E T (rev_key_id r) (snd (convoy_after_authorize X client now epoch s))"
proof (cases "rev_key_id r \<in> ra_revocations s")
  case True
  with convoy_le [of s X client now epoch] assms(2) show ?thesis
    by (auto intro: on_its_way_grows simp: remote_le_def)
next
  case False
  with assms(2,3) have "ra_local_epoch s < E" "ra_local_epoch s < epoch" by (auto simp: on_its_way_def)
  with sync_delivers [OF assms(1,2), of now] obtain n t where "sync_revocations_from_l0 X client now s = (Inr n, t)"
    "rev_key_id r \<in> ra_revocations t" "remote_le s t"
    by blast
  with assms(2) \<open>ra_local_epoch s < epoch\<close> show ?thesis
    by (auto simp: convoy_after_authorize_def intro: on_its_way_grows)
qed

lemma request_keeps:
  assumes "published X vk E r client" "on_its_way vk E T (rev_key_id r) s"
  shows "on_its_way vk E T (rev_key_id r) (snd (remote_authenticate_bearer X client now_ms now h s))"
proof -
  have store: "on_its_way vk E T (rev_key_id r) t" if "store_cache X a s = (res, t)" for a res t
    using that assms(2) by (auto simp: store_cache_def on_its_way_def split: sum.splits if_splits)
  have "on_its_way vk E T (rev_key_id r) (snd (admit_authz X client now_ms now p hash a s))"
    if "E \<le> authz_epoch a" for p hash a
  proof (cases "store_cache X a s")
    case (Pair res t)
    from convoy_delivers [OF assms(1) store [OF Pair] that, of now] store [OF Pair] assms(2) Pair show ?thesis
      by (auto simp: admit_authz_def split: sum.splits)
  qed
  moreover have "E \<le> authz_epoch a" if "l0_authorize client k hash = Inr a" for k hash a
    using that assms(1) by (auto simp: published_def)
  ultimately have "on_its_way vk E T (rev_key_id r) (snd (authenticate_parsed X client now_ms now p s))" for p
    using assms(2) by (auto simp: authenticate_parsed_def Let_def split: sum.splits option.splits)
  then show ?thesis
    using assms(2) by (auto simp: remote_authenticate_bearer_def split: sum.splits option.splits)
qed

lemma wake_le: "remote_le s (poller_wake X client now s)"
  using sync_le [of s X client now]
  by (auto simp: poller_wake_def remote_le_def split: option.splits sum.splits prod.splits)

lemma wake_delivers:
  assumes "published X vk E r client" "on_its_way vk E T (rev_key_id r) s"
  shows "on_its_way vk E T (rev_key_id r) (poller_wake X client now s)"
    and "T \<le> now \<Longrightarrow> rev_key_id r \<in> ra_revocations (poller_wake X client now s)"
proof -
  have *: "rev_key_id r \<in> ra_revocations (poller_wake X client now s)"
    if "rev_key_id r \<in> ra_revocations s \<or> next_due (ra_poll_clock s) \<le> now"
  proof (cases "rev_key_id r \<in> ra_revocations s")
    case True
    with wake_le [of s X client now] show ?thesis by (auto simp: remote_le_def)
  next
    case False
    with assms(2) have "ra_local_epoch s < E" by (simp add: on_its_way_def)
    from sync_delivers [OF assms this, of now] False that show ?thesis
      by (auto simp: poller_wake_def wait_until_due_step_def)
  qed
  show "on_its_way vk E T (rev_key_id r) (poller_wake X client now s)"
  proof (cases "rev_key_id r \<in> ra_revocations s \<or> next_due (ra_poll_clock s) \<le> now")
    case True
    with * wake_le assms(2) show ?thesis by (blast intro: on_its_way_grows)
  next
    case False
    with assms(2) show ?thesis by (auto simp: poller_wake_def wait_until_due_step_def)
  qed
  show "rev_key_id r \<in> ra_revocations (poller_wake X client now s)" if "T \<le> now"
    using * that assms(2) by (auto simp: on_its_way_def)
qed

lemma events_keep:
  assumes "\<And>e. e \<in> set es \<Longrightarrow> published X vk E r (event_client e)" "on_its_way vk E T (rev_key_id r) s"
  shows "on_its_way vk E T (rev_key_id r) (auth_events X es s)"
  using assms
proof (induction es arbitrary: s)
  case (Cons e es)
  from Cons.prems(1) have "published X vk E r (event_client e)" by simp
  with Cons.prems(2) have "on_its_way vk E T (rev_key_id r) (auth_event_step X e s)"
    by (cases e) (auto intro: request_keeps wake_delivers)
  with Cons show ?case by simp
qed simp

lemma auth_events_append: "auth_events X (es @ es') s = auth_events X es' (auth_events X es s)"
  by (induction es arbitrary: s) auto

lemma auth_events_le: "remote_le s (auth_events X es s)"
proof (induction es arbitrary: s)
  case (Cons e es)
  have "remote_le s (auth_event_step X e s)"
    by (cases e) (auto simp: remote_authenticate_bearer_def wake_le authenticate_parsed_le split: sum.splits option.splits)
  with Cons.IH show ?case by (auto intro: remote_le_trans)
qed simp


text \<open>An L0 that revoked the sample key at epoch 3: a request and an early turn of the poller, then the turn
  that is due after fifteen seconds.\<close>

definition revoking_l0 :: l0_client where
  "revoking_l0 = sample_client\<lparr>l0_authorize := \<lambda>k h. Inr (sample_authz\<lparr>authz_epoch := 3\<rparr>)\<rparr>"


end
