(* ===== verification/Edge_Env.thy ===== *)
theory Edge_Env
  imports Seal_Sync L0_Client
begin

text \<open>
  \<open>crates/openapi-platform-cvm/src/env.rs\<close> and \<open>crates/openapi-platform/src/edge_policy.rs\<close>, in the build
  without the feature \<open>catalog-auth\<close>: the settings of the edge from its environment, what is derived from
  them, and the hash of the runtime policy. The serialiser of the policy is a parameter.
\<close>

subsection \<open>The runtime policy\<close>

record edge_runtime_policy =
  rp_auth :: string
  rp_region :: string
  rp_catalog_verify_key_hex :: string
  rp_l0_authorize_url :: string
  rp_l0_revocations_url :: "string option"
  rp_gateway_ope_api_url :: "string option"
  rp_engine_identity_pins_sha256 :: "string option"
  rp_upstream_base_url :: string

definition some_nonempty :: "string option \<Rightarrow> string option" where
  "some_nonempty v = (case v of Some s \<Rightarrow> if s = [] then None else Some s | None \<Rightarrow> None)"

definition edge_runtime_policy_from_parts ::
    "string \<Rightarrow> string \<Rightarrow> string \<Rightarrow> string option \<Rightarrow> string option \<Rightarrow> string option \<Rightarrow> string \<Rightarrow> edge_runtime_policy" where
  "edge_runtime_policy_from_parts auth region key_hex authorize_url revocations_url gateway_url base_url =
     \<lparr>rp_auth = to_ascii_lowercase auth, rp_region = region,
      rp_catalog_verify_key_hex = to_ascii_lowercase key_hex,
      rp_l0_authorize_url = unwrap_or [] authorize_url,
      rp_l0_revocations_url = some_nonempty revocations_url,
      rp_gateway_ope_api_url = some_nonempty gateway_url,
      rp_engine_identity_pins_sha256 = None, rp_upstream_base_url = base_url\<rparr>"

definition with_engine_identity_pins_sha256 :: "string option \<Rightarrow> edge_runtime_policy \<Rightarrow> edge_runtime_policy" where
  "with_engine_identity_pins_sha256 v p =
     p\<lparr>rp_engine_identity_pins_sha256 := some_nonempty (map_option to_ascii_lowercase v)\<rparr>"

definition policy_hash_hex :: "'x ext_scheme \<Rightarrow> (edge_runtime_policy \<Rightarrow> bytes) \<Rightarrow> edge_runtime_policy \<Rightarrow> string" where
  "policy_hash_hex X to_vec p = hex_encode X (sha256 X (to_vec p))"

subsection \<open>The settings\<close>

datatype env_error =
    EnvMissing string
  | EnvInvalid string string
  | EnvCatalog api_error
  | EnvProfile profile_error
  | EnvSeal platform_error

record edge_env =
  ee_profile :: edge_profile
  ee_listen_addr :: string
  ee_region :: string
  ee_upstream_base_url :: string
  ee_catalog_path :: "string option"
  ee_catalog_verify_key_hex :: string
  ee_l0_authorize_url :: "string option"
  ee_l0_revocations_url :: "string option"
  ee_l0_internal_token :: "string option"
  ee_engine_identity_pins_sha256 :: "string option"
  ee_revoke_poll_secs :: nat
  ee_usage_sign_seed_hex :: string
  ee_build_version :: string
  ee_code_hash :: string
  ee_launch_digest :: string
  ee_image_digest :: string
  ee_tls_cert_path :: "string option"
  ee_tls_key_path :: "string option"
  ee_tls_sealed_key_path :: "string option"
  ee_seal_root_hex :: "string option"
  ee_max_body_bytes :: nat
  ee_requests_per_minute :: u32
  ee_challenge_requests_per_minute :: u32
  ee_challenge_max_inflight :: u32
  ee_challenge_bench_token :: "string option"
  ee_ip_max_connections :: u32
  ee_ip_requests_per_minute :: u32
  ee_proxy_mode :: proxy_mode

definition req_env :: "environ \<Rightarrow> string \<Rightarrow> env_error + string" where
  "req_env env name = ok_or (EnvMissing name) (env name)"

definition num_env :: "environ \<Rightarrow> (string \<Rightarrow> nat option) \<Rightarrow> string \<Rightarrow> nat \<Rightarrow> nat" where
  "num_env env parse name dflt = unwrap_or dflt (Option.bind (nonempty_env env name) parse)"

definition u32_env :: "environ \<Rightarrow> string \<Rightarrow> nat \<Rightarrow> u32" where
  "u32_env env name dflt = of_nat (num_env env parse_u32 name dflt)"

definition pins_hash_env :: "'x att_ext_scheme \<Rightarrow> environ \<Rightarrow> env_error + string option" where
  "pins_hash_env X env =
     (case nonempty_env env ''OPENAPI_ENGINE_IDENTITY_PINS_JSON'' of
        None \<Rightarrow> Inr None
      | Some raw \<Rightarrow>
          map_err (\<lambda>e. EnvInvalid ''OPENAPI_ENGINE_IDENTITY_PINS_JSON'' (engine_trust_error_to_string (str_debug X) e))
            (bindE (pins_parse_json X raw) (\<lambda>pins. Inr (Some (pins_policy_hash_hex X pins)))))"

definition check_auth_mode :: "'x att_ext_scheme \<Rightarrow> environ \<Rightarrow> env_error + unit" where
  "check_auth_mode X env =
     (case nonempty_env env ''OPENAPI_AUTH_MODE'' of
        None \<Rightarrow> Inr ()
      | Some mode \<Rightarrow>
          let m = to_ascii_lowercase (trim mode)
          in if m = ''remote'' \<or> m = ''d6'' then Inr ()
             else if m = ''catalog''
             then Inl (EnvInvalid ''OPENAPI_AUTH_MODE''
                         ''catalog mode removed from default builds (use --features catalog-auth for lab)'')
             else Inl (EnvInvalid ''OPENAPI_AUTH_MODE''
                         (''unsupported '' @ str_debug X m @ ''; edge is remote-only'')))"

definition proxy_mode_text :: "(string \<Rightarrow> string) \<Rightarrow> proxy_mode_error \<Rightarrow> string" where
  "proxy_mode_text dbg e =
     (case e of UnknownProxyMode s \<Rightarrow> ''unknown OPENAPI_PROXY_MODE='' @ dbg s @ ''; use allowlist|transparent'')"

definition load_edge_env :: "'x att_ext_scheme \<Rightarrow> environ \<Rightarrow> env_error + edge_env" where
  "load_edge_env X env =
     (let opt = nonempty_env env; or_else = (\<lambda>name d. unwrap_or d (nonempty_env env name))
      in bindE (map_err EnvProfile (load_edge_profile env)) (\<lambda>profile.
         bindE (pins_hash_env X env) (\<lambda>pins.
         bindE (check_auth_mode X env) (\<lambda>_.
         bindE (req_env env ''OPENAPI_UPSTREAM_BASE_URL'') (\<lambda>base_url.
         bindE (req_env env ''OPENAPI_CATALOG_VERIFY_KEY_HEX'') (\<lambda>key_hex.
         bindE (map_err (\<lambda>e. EnvInvalid ''OPENAPI_PROXY_MODE'' (proxy_mode_text (str_debug X) e))
                  (proxy_mode_parse (opt ''OPENAPI_PROXY_MODE''))) (\<lambda>mode.
         Inr \<lparr>ee_profile = profile,
              ee_listen_addr = or_else ''OPENAPI_LISTEN_ADDR'' ''0.0.0.0:8443'',
              ee_region = or_else ''OPENAPI_REGION'' ''global'',
              ee_upstream_base_url = base_url, ee_catalog_path = None, ee_catalog_verify_key_hex = key_hex,
              ee_l0_authorize_url = opt ''OPENAPI_L0_AUTHORIZE_URL'',
              ee_l0_revocations_url = opt ''OPENAPI_L0_REVOCATIONS_URL'',
              ee_l0_internal_token = opt ''OPENAPI_L0_INTERNAL_TOKEN'',
              ee_engine_identity_pins_sha256 = pins,
              ee_revoke_poll_secs = num_env env parse_u64 ''OPENAPI_REVOKE_POLL_SECS'' 15,
              ee_usage_sign_seed_hex = or_else ''OPENAPI_USAGE_SIGN_SEED_HEX'' [],
              ee_build_version = or_else ''OPENAPI_BUILD_VERSION'' ''dev'',
              ee_code_hash = or_else ''OPENAPI_CODE_HASH'' ''unknown'',
              ee_launch_digest = or_else ''OPENAPI_LAUNCH_DIGEST'' ''unknown'',
              ee_image_digest = or_else ''OPENAPI_IMAGE_DIGEST'' ''unknown'',
              ee_tls_cert_path = opt ''OPENAPI_TLS_CERT_PATH'',
              ee_tls_key_path = opt ''OPENAPI_TLS_KEY_PATH'',
              ee_tls_sealed_key_path = opt ''OPENAPI_TLS_SEALED_KEY_PATH'',
              ee_seal_root_hex = opt ''OPENAPI_SEAL_ROOT_HEX'',
              ee_max_body_bytes = num_env env (parse_usize 10) ''OPENAPI_MAX_BODY_BYTES'' (4 * 1024 * 1024),
              ee_requests_per_minute = u32_env env ''OPENAPI_REQUESTS_PER_MINUTE'' 5000,
              ee_challenge_requests_per_minute = u32_env env ''OPENAPI_CHALLENGE_RPM'' 10,
              ee_challenge_max_inflight = u32_env env ''OPENAPI_CHALLENGE_MAX_INFLIGHT'' 4,
              ee_challenge_bench_token = opt ''OPENAPI_CHALLENGE_BENCH_TOKEN'',
              ee_ip_max_connections = u32_env env ''OPENAPI_IP_MAX_CONNS'' 16,
              ee_ip_requests_per_minute = u32_env env ''OPENAPI_IP_REQUESTS_PER_MINUTE'' 180,
              ee_proxy_mode = mode\<rparr>)))))))"

subsection \<open>What the settings give\<close>

definition env_config :: "edge_env \<Rightarrow> config" where
  "env_config E =
     \<lparr>cfg_region = ee_region E, cfg_upstream_base_url = ee_upstream_base_url E,
      cfg_max_body_bytes = ee_max_body_bytes E, cfg_proxy_mode = ee_proxy_mode E\<rparr>"

definition env_limits :: "edge_env \<Rightarrow> limits" where
  "env_limits E =
     \<lparr>requests_per_minute = ee_requests_per_minute E, max_body_bytes = ee_max_body_bytes E,
      challenge_requests_per_minute = ee_challenge_requests_per_minute E,
      challenge_max_inflight = ee_challenge_max_inflight E,
      challenge_bench_token = (if is_prod (ee_profile E) then None else ee_challenge_bench_token E),
      ip_max_connections = ee_ip_max_connections E, ip_requests_per_minute = ee_ip_requests_per_minute E\<rparr>"

definition runtime_policy :: "environ \<Rightarrow> edge_env \<Rightarrow> edge_runtime_policy" where
  "runtime_policy env E =
     with_engine_identity_pins_sha256 (ee_engine_identity_pins_sha256 E)
       (edge_runtime_policy_from_parts ''remote'' (ee_region E) (ee_catalog_verify_key_hex E) (ee_l0_authorize_url E)
          (ee_l0_revocations_url E) (nonempty_env env ''OPENAPI_GATEWAY_OPE_API_URL'') (ee_upstream_base_url E))"

text \<open>The authenticator, always a remote one, with the configuration of its client.\<close>

definition env_edge_authenticator :: "'x l0_ext_scheme \<Rightarrow> nat \<Rightarrow> edge_env \<Rightarrow> env_error + ureq_l0 \<times> edge_authenticator" where
  "env_edge_authenticator X now E =
     bindE (ok_or (EnvMissing ''OPENAPI_L0_AUTHORIZE_URL'') (ee_l0_authorize_url E)) (\<lambda>url.
     bindE (ok_or (EnvMissing ''OPENAPI_L0_INTERNAL_TOKEN'') (ee_l0_internal_token E)) (\<lambda>token.
     bindE (map_err EnvCatalog
              (build_remote_authenticator_ex X now (ee_catalog_verify_key_hex E) url (ee_l0_revocations_url E) token
                 (Some (ee_revoke_poll_secs E)))) (\<lambda>(c, remote).
     Inr (c, Remote remote))))"

text \<open>The seed of the usage signer; the random bytes are those the process draws.\<close>

definition env_usage_signer :: "'x ext_scheme \<Rightarrow> bytes \<Rightarrow> edge_env \<Rightarrow> env_error + bytes" where
  "env_usage_signer X random E =
     (if ee_usage_sign_seed_hex E = [] then Inr random
      else bindE (map_err (EnvInvalid ''OPENAPI_USAGE_SIGN_SEED_HEX'') (hex_decode X (ee_usage_sign_seed_hex E))) (\<lambda>b.
           if length b \<noteq> 32 then Inl (EnvInvalid ''OPENAPI_USAGE_SIGN_SEED_HEX'' ''must be 32 bytes'') else Inr b))"

definition validate_profile :: "environ \<Rightarrow> string option \<Rightarrow> string option \<Rightarrow> edge_env \<Rightarrow> env_error + unit" where
  "validate_profile env cmdline exe E =
     bindE (map_err EnvProfile (validate_tls_key_policy env (ee_profile E))) (\<lambda>_.
     map_err EnvProfile (validate_measured_app_path cmdline exe (ee_profile E)))"

definition env_cvm_sealer :: "edge_env \<Rightarrow> cvm_sealer" where
  "env_cvm_sealer E = cvm_sealer_with_profile (ee_launch_digest E) (ee_image_digest E) (is_prod (ee_profile E))"

definition parse_seal_root_hex :: "'x ext_scheme \<Rightarrow> string option \<Rightarrow> env_error + bytes option" where
  "parse_seal_root_hex X raw =
     (case raw of
        None \<Rightarrow> Inr None
      | Some hex_str \<Rightarrow>
          if hex_str = [] then Inr None
          else bindE (map_err (EnvInvalid ''OPENAPI_SEAL_ROOT_HEX'') (hex_decode X hex_str)) (\<lambda>b.
               if length b \<noteq> 32 then Inl (EnvInvalid ''OPENAPI_SEAL_ROOT_HEX'' ''must be 32 bytes'')
               else Inr (Some b)))"

definition env_seal_root :: "'x ext_scheme \<Rightarrow> edge_env \<Rightarrow> env_error + bytes option" where
  "env_seal_root X E =
     bindE (parse_seal_root_hex X (ee_seal_root_hex E)) (\<lambda>supplied.
     map_err EnvSeal (resolve_seal_root (env_cvm_sealer E) supplied))"

subsection \<open>A production environment\<close>

lemma load_edge_env_ok:
  assumes "load_edge_env X env = Inr E"
  shows "load_edge_profile env = Inr (ee_profile E)" "ee_tls_cert_path E = nonempty_env env ''OPENAPI_TLS_CERT_PATH''"
    "ee_tls_key_path E = nonempty_env env ''OPENAPI_TLS_KEY_PATH''"
    "ee_tls_sealed_key_path E = nonempty_env env ''OPENAPI_TLS_SEALED_KEY_PATH''"
    "proxy_mode_parse (nonempty_env env ''OPENAPI_PROXY_MODE'') = Inr (ee_proxy_mode E)"
  using assms by (auto simp: load_edge_env_def result_simps Let_def)

lemma validated_prod_is_allowlist:
  assumes "load_edge_env X env = Inr E" "validate_profile env cmdline exe E = Inr ()" "ee_profile E = Prod"
  shows "ee_proxy_mode E = Allowlist"
proof (rule ccontr)
  assume "ee_proxy_mode E \<noteq> Allowlist"
  then have "ee_proxy_mode E = Transparent" by (cases "ee_proxy_mode E") simp_all
  with load_edge_env_ok(5) [OF assms(1)]
  have "\<exists>s. env ''OPENAPI_PROXY_MODE'' = Some s \<and>
      (eq_ignore_ascii_case (trim s) ''transparent'' \<or> eq_ignore_ascii_case (trim s) ''proxy'')"
    by (auto simp: proxy_mode_parse_def nonempty_env_def trimmed_nonempty_def split: option.splits if_splits)
  with assms(2,3) show False
    by (auto simp: validate_profile_def validate_tls_key_policy_def is_prod_def result_simps split: if_splits)
qed

end
