(* ===== verification/Edge_Main.thy ===== *)
theory Edge_Main
  imports Edge_Env Edge_Upstream
begin

text \<open>
  \<open>bins/openapi/src/main.rs\<close>: the startup of the edge, from the environment to the call that serves. The
  parts it composes are the theories of this development; the installation of the crypto provider, the
  logs and the serving itself (\<open>Edge_Server\<close>) are not part of it.
\<close>

subsection \<open>What main runs in\<close>

record main_crates =
  mc_seal :: seal_ext
  mc_l0 :: l0_ext
  mc_ope :: ope_ext
  mc_maint :: maint_ext
  mc_policy_to_vec :: "edge_runtime_policy \<Rightarrow> bytes"

text \<open>Besides the guest: the kernel command line and the executable, the HTTP agent, the files of the
  maintenance manifest, clock and random bytes, the error of starting a thread, and what the background
  realignment has done by the time the acceptor is built, which may be all, part or nothing of it.\<close>

record main_host =
  mh_sync :: sync_host
  mh_cmdline :: "string option"
  mh_exe :: "string option"
  mh_agent :: http_agent
  mh_maint :: host
  mh_now :: nat
  mh_random :: bytes
  mh_spawn :: "string option"
  mh_realign :: "sync_state \<Rightarrow> sync_state"

record main_state =
  ms_sync :: sync_state
  ms_log :: "http_out list"

definition on_sync :: "(sync_state, 'e, 'a) op \<Rightarrow> (main_state, 'e, 'a) op" where
  "on_sync = on_part ms_sync (\<lambda>y s. s\<lparr>ms_sync := y\<rparr>)"

definition on_http :: "(http_out list, 'e, 'a) op \<Rightarrow> (main_state, 'e, 'a) op" where
  "on_http = on_part ms_log (\<lambda>l s. s\<lparr>ms_log := l\<rparr>)"

text \<open>The errors of main: the part that failed, under the context the code gives it.\<close>

datatype main_error =
    MainEnv string env_error
  | MainTls string tls_error
  | MainSeal string platform_error
  | MainSync string sync_error
  | MainMsg string

definition th_of :: "main_host \<Rightarrow> tee_host" where
  "th_of H = sh_tee (mh_sync H)"

subsection \<open>The TLS key\<close>

definition tls_spki_hex ::
    "'x seal_ext_scheme \<Rightarrow> tee_host \<Rightarrow> edge_env \<Rightarrow> cvm_sealer \<Rightarrow> bytes option \<Rightarrow> (disk, main_error, string) op" where
  "tls_spki_hex X T E S root =
     (case ee_tls_cert_path E of
        None \<Rightarrow> returnS ''unknown''
      | Some cert_path \<Rightarrow>
          (case ee_tls_sealed_key_path E of
             Some sealed_path \<Rightarrow>
               bindS (map_errS (MainTls ''unseal tls key'')
                        (load_server_config_from_sealed X T cert_path S sealed_path root)) (\<lambda>_.
               map_errS (MainTls []) (spki_sha256_hex_from_cert_path X T cert_path))
           | None \<Rightarrow>
               (case ee_tls_key_path E of
                  Some key_path \<Rightarrow>
                    bindS (map_errS (MainTls ''load plaintext tls key'')
                             (load_server_config_from_plain_key_path X T cert_path key_path)) (\<lambda>_.
                    map_errS (MainTls []) (spki_sha256_hex_from_cert_path X T cert_path))
                | None \<Rightarrow> returnS ''unknown'')))"

definition load_tls_material_for_seal_sync ::
    "'x seal_ext_scheme \<Rightarrow> tee_host \<Rightarrow> edge_env \<Rightarrow> cvm_sealer \<Rightarrow> bytes option \<Rightarrow> (disk, main_error, string \<times> string \<times> bytes) op" where
  "load_tls_material_for_seal_sync X T E S root =
     bindS (liftS (ok_or (MainMsg ''OPENAPI_TLS_CERT_PATH required for seal-sync'') (ee_tls_cert_path E))) (\<lambda>cert_path.
     bindS (liftS (ok_or (MainMsg ''OPENAPI_TLS_SEALED_KEY_PATH required for seal-sync'') (ee_tls_sealed_key_path E)))
       (\<lambda>sealed_path.
     bindS (map_errS (MainSeal ''unseal key for seal-sync'') (unseal_tls_key_from_file X T S sealed_path root)) (\<lambda>key.
     returnS (cert_path, sealed_path, key))))"

definition build_tls_acceptor ::
    "'x seal_ext_scheme \<Rightarrow> tee_host \<Rightarrow> edge_env \<Rightarrow> cvm_sealer \<Rightarrow> bytes option \<Rightarrow> (disk, main_error, server_config option) op" where
  "build_tls_acceptor X T E S root =
     (case ee_tls_cert_path E of
        None \<Rightarrow>
          if is_prod (ee_profile E)
          then failS (MainMsg ''prod requires OPENAPI_TLS_CERT_PATH and a working TLS acceptor (TLS-001)'')
          else returnS None
      | Some cert_path \<Rightarrow>
          (case ee_tls_sealed_key_path E of
             Some sealed_path \<Rightarrow>
               bindS (map_errS (MainTls ''unseal tls key'')
                        (load_server_config_from_sealed X T cert_path S sealed_path root)) (\<lambda>c. returnS (Some c))
           | None \<Rightarrow>
               (case ee_tls_key_path E of
                  Some key_path \<Rightarrow>
                    if is_prod (ee_profile E)
                    then failS (MainMsg ''prod forbids plaintext TLS key path (use sealed key)'')
                    else bindS (map_errS (MainTls ''load plaintext tls key'')
                                  (load_server_config_from_plain_key_path X T cert_path key_path)) (\<lambda>c. returnS (Some c))
                | None \<Rightarrow>
                    if is_prod (ee_profile E)
                    then failS (MainMsg ''prod requires sealed TLS key for acceptor (TLS-001)'')
                    else returnS None)))"

subsection \<open>Seal sync at startup\<close>

text \<open>A fleet member without a sealed key imports it from its peer before it unseals anything.\<close>

definition cold_start ::
    "'x seal_ext_scheme \<Rightarrow> sync_host \<Rightarrow> edge_env \<Rightarrow> seal_sync_config \<Rightarrow> cvm_sealer \<Rightarrow> (sync_state, main_error, unit) op" where
  "cold_start X Y E cfg S =
     bindS (liftS (ok_or (MainMsg ''OPENAPI_TLS_CERT_PATH required for seal-sync cold start'') (ee_tls_cert_path E)))
       (\<lambda>cert_path.
     bindS (liftS (ok_or (MainMsg ''OPENAPI_TLS_SEALED_KEY_PATH required for seal-sync cold start'')
                     (ee_tls_sealed_key_path E))) (\<lambda>sealed_path.
     bindS (map_errS (MainSync ''seal-sync cold start'')
              (maybe_start_seal_sync X Y cfg (ee_launch_digest E) cert_path sealed_path S None)) (\<lambda>_ s.
     if fs_exists (ss_disk s) sealed_path then (Inr (), s)
     else (Inl (MainMsg (''seal-sync cold start finished but sealed key still missing at '' @ sealed_path)), s))))"

text \<open>The sync of an edge that has its key: a realignment with the peer alone runs in the background, which
  is the second result.\<close>

definition warm_sync ::
    "'x seal_ext_scheme \<Rightarrow> main_host \<Rightarrow> edge_env \<Rightarrow> seal_sync_config \<Rightarrow> cvm_sealer \<Rightarrow> bytes option \<Rightarrow> bool
       \<Rightarrow> (sync_state, main_error, sync_server option \<times> bool) op" where
  "warm_sync X H E cfg S root sealed_missing =
     (let T = th_of H;
          start = (\<lambda>ctxt (cert_path, sealed_path, key).
            bindS (map_errS (MainSync ctxt)
                     (maybe_start_seal_sync X (mh_sync H) cfg (ee_launch_digest E) cert_path sealed_path S (Some key)))
              (\<lambda>server. returnS (server, False)))
      in if sync_enabled cfg \<and> \<not> (sealed_missing \<and> sc_peer cfg \<noteq> None)
         then bindS (on_disk (load_tls_material_for_seal_sync X T E S root)) (\<lambda>material.
              if sc_peer cfg \<noteq> None \<and> sc_listen cfg = None
              then (case mh_spawn H of
                      Some e \<Rightarrow> failS (MainMsg (''spawn seal-sync warm thread: '' @ e))
                    | None \<Rightarrow> returnS (None, True))
              else start ''seal-sync'' material)
         else if sc_listen cfg \<noteq> None
         then bindS (on_disk (load_tls_material_for_seal_sync X T E S root)) (\<lambda>material.
              start ''seal-sync listen after cold import'' material)
         else returnS (None, False))"

subsection \<open>Main\<close>

text \<open>What the edge serves with: the arguments of \<open>run_edge_server\<close> and the threads beside it.\<close>

record edge_run =
  rn_listen_addr :: string
  rn_app :: app
  rn_upstream :: edge_upstream
  rn_platform :: cvm_platform
  rn_usage_seed :: bytes
  rn_l0 :: ureq_l0
  rn_tls :: "server_config option"
  rn_sync_server :: "sync_server option"

definition main_app :: "main_crates \<Rightarrow> main_host \<Rightarrow> edge_env \<Rightarrow> edge_authenticator \<Rightarrow> app" where
  "main_app C H E auth =
     (let a = app_new (env_config E) (env_limits E) auth
      in a\<lparr>app_maintenance := snd (apply_env_to_state (mc_maint C) (mh_maint H) (app_maintenance a))\<rparr>)"

text \<open>From the key policy to the key hash and the sync: the hash, the server of the sync if one was started,
  and whether a realignment runs in the background.\<close>

definition main_tls ::
    "'x seal_ext_scheme \<Rightarrow> main_host \<Rightarrow> edge_env \<Rightarrow> cvm_sealer \<Rightarrow> bytes option
       \<Rightarrow> (sync_state, main_error, string \<times> sync_server option \<times> bool) op" where
  "main_tls X H E S root s =
     (let T = th_of H; cfg = seal_sync_from_env (sh_lib (mh_sync H)) (th_env T);
          sealed_missing = (case ee_tls_sealed_key_path E of Some p \<Rightarrow> \<not> fs_exists (ss_disk s) p | None \<Rightarrow> False)
      in bindS (on_disk (map_errS MainMsg (resolve_tls_key_policy_for_profile X T (is_prod (ee_profile E))))) (\<lambda>key_policy.
         bindS (if sealed_missing \<and> sc_peer cfg \<noteq> None \<and> key_policy = SealSync
                then cold_start X (mh_sync H) E cfg S else returnS ()) (\<lambda>_.
         bindS (on_disk (tls_spki_hex X T E S root)) (\<lambda>spki.
         bindS (warm_sync X H E cfg S root sealed_missing) (\<lambda>(server, background).
         returnS (spki, server, background))))) s)"

definition edge_main :: "main_crates \<Rightarrow> main_host \<Rightarrow> (main_state, main_error, edge_run) op" where
  "edge_main C H =
     (let X = mc_seal C; T = th_of H; env = th_env T
      in bindS (liftS (map_err (MainEnv ''load edge env'') (load_edge_env X env))) (\<lambda>E.
         bindS (liftS (map_err (MainEnv ''tls/profile policy'') (validate_profile env (mh_cmdline H) (mh_exe H) E))) (\<lambda>_.
         let S = env_cvm_sealer E
         in bindS (liftS (map_err (MainEnv ''seal root'') (env_seal_root X E))) (\<lambda>root.
            bindS (on_sync (main_tls X H E S root)) (\<lambda>(spki, server, background).
            let policy_hash = policy_hash_hex X (mc_policy_to_vec C) (runtime_policy env E);
                platform = cvm_platform_from_env (ee_build_version E) (ee_code_hash E) (ee_launch_digest E)
                             (ee_image_digest E) spki (Some policy_hash)
            in bindS (liftS (map_err (MainEnv ''auth'') (env_edge_authenticator (mc_l0 C) (mh_now H) E))) (\<lambda>(l0, auth).
               bindS (on_http (map_errS MainMsg
                        (edge_upstream_from_env (mc_ope C) (mh_agent H) env (ee_profile E) (ee_upstream_base_url E))))
                 (\<lambda>upstream.
               bindS (liftS (map_err (MainEnv ''usage signer'') (env_usage_signer X (mh_random H) E))) (\<lambda>seed.
               bindS (on_sync (\<lambda>y. (Inr (), if background then mh_realign H y else y))) (\<lambda>_.
               bindS (on_sync (on_disk (build_tls_acceptor X T E S root))) (\<lambda>tls.
               returnS \<lparr>rn_listen_addr = ee_listen_addr E, rn_app = main_app C H E auth, rn_upstream = upstream,
                        rn_platform = platform, rn_usage_seed = seed, rn_l0 = l0, rn_tls = tls,
                        rn_sync_server = server\<rparr>))))))))))"

subsection \<open>What a start shows\<close>

lemma on_part_ok [result_simps]:
  "on_part get put m s = (Inr x, t) \<longleftrightarrow> (\<exists>u. m (get s) = (Inr x, u) \<and> t = put u s)"
  by (auto simp: on_part_def split: prod.splits)

text \<open>A start that succeeds, step by step.\<close>

lemma edge_main_ok:
  assumes "edge_main C H s = (Inr run, s')"
  obtains E root spki server background y auth log log' where
    "load_edge_env (mc_seal C) (th_env (th_of H)) = Inr E"
    "validate_profile (th_env (th_of H)) (mh_cmdline H) (mh_exe H) E = Inr ()"
    "env_seal_root (mc_seal C) E = Inr root"
    "main_tls (mc_seal C) H E (env_cvm_sealer E) root (ms_sync s) = (Inr (spki, server, background), y)"
    "ei_measurement (cp_identity (rn_platform run)) = LaunchDigest (ee_launch_digest E) (ee_image_digest E)"
    "ei_tls_cert_spki_sha256 (cp_identity (rn_platform run)) = spki"
    "env_edge_authenticator (mc_l0 C) (mh_now H) E = Inr (rn_l0 run, auth)" "rn_app run = main_app C H E auth"
    "edge_upstream_from_env (mc_ope C) (mh_agent H) (th_env (th_of H)) (ee_profile E) (ee_upstream_base_url E) log =
       (Inr (rn_upstream run), log')"
    "build_tls_acceptor (mc_seal C) (th_of H) E (env_cvm_sealer E) root
       (ss_disk (if background then mh_realign H y else y)) = (Inr (rn_tls run), ss_disk (ms_sync s'))"
proof -
  from assms obtain E root spki server background y l0 auth up log' seed tls d where
    r: "load_edge_env (mc_seal C) (th_env (th_of H)) = Inr E"
    "validate_profile (th_env (th_of H)) (mh_cmdline H) (mh_exe H) E = Inr ()"
    "env_seal_root (mc_seal C) E = Inr root"
    "main_tls (mc_seal C) H E (env_cvm_sealer E) root (ms_sync s) = (Inr (spki, server, background), y)"
    "env_edge_authenticator (mc_l0 C) (mh_now H) E = Inr (l0, auth)"
    "edge_upstream_from_env (mc_ope C) (mh_agent H) (th_env (th_of H)) (ee_profile E) (ee_upstream_base_url E) (ms_log s) =
       (Inr up, log')"
    "build_tls_acceptor (mc_seal C) (th_of H) E (env_cvm_sealer E) root
       (ss_disk (if background then mh_realign H y else y)) = (Inr tls, d)"
    "ss_disk (ms_sync s') = d"
    "run = \<lparr>rn_listen_addr = ee_listen_addr E, rn_app = main_app C H E auth, rn_upstream = up,
       rn_platform = cvm_platform_from_env (ee_build_version E) (ee_code_hash E) (ee_launch_digest E) (ee_image_digest E) spki
         (Some (policy_hash_hex (mc_seal C) (mc_policy_to_vec C) (runtime_policy (th_env (th_of H)) E))),
       rn_usage_seed = seed, rn_l0 = l0, rn_tls = tls, rn_sync_server = server\<rparr>"
    unfolding edge_main_def Let_def
    by (auto simp: result_simps on_sync_def on_http_def on_disk_def cong: if_cong split: prod.splits)
  show thesis
    by (rule that [OF r(1-4) _ _ _ _ _ _])
      (use r(5-9) in \<open>simp_all add: cvm_platform_from_env_def\<close>)
qed

text \<open>Loading keys and certificates only reads.\<close>

lemma tls_reads:
  "keeps (=) (load_server_config_from_pem_paths X T cert key)" "keeps (=) (unseal_tls_key_from_file X T S sealed root)"
  "keeps (=) (spki_sha256_hex_from_cert_path X T cert)"
  unfolding load_server_config_from_pem_paths_def unseal_tls_key_from_file_def spki_sha256_hex_from_cert_path_def
  by (intro reads keeps_map_errS fs_reads; auto split: list.split intro!: reads)+

lemma load_reads:
  "keeps (=) (load_server_config_from_sealed X T cert S sealed root)"
  "keeps (=) (load_server_config_from_plain_key_path X T cert plain)"
  unfolding load_server_config_from_sealed_def load_server_config_from_plain_key_path_def
  by (intro reads keeps_map_errS tls_reads fs_reads)+

lemma acceptor_reads: "keeps (=) (build_tls_acceptor X T E S root)"
  unfolding build_tls_acceptor_def
  by (auto split: option.split intro!: reads keeps_map_errS load_reads)

lemma spki_reads: "keeps (=) (tls_spki_hex X T E S root)"
  unfolding tls_spki_hex_def
  by (auto split: option.split intro!: reads keeps_map_errS load_reads tls_reads)

text \<open>What the acceptor of a production edge is built from.\<close>

lemma prod_acceptor:
  assumes "build_tls_acceptor X T E S root d = (Inr tls, d')" "ee_profile E = Prod" "cs_prod S"
    and "load_edge_profile (th_env T) = Inr Prod"
  shows "\<exists>cert sealed raw blob key c. tls = Some c \<and> ee_tls_cert_path E = Some cert \<and> ee_tls_sealed_key_path E = Some sealed \<and>
    fs_read_to_string (th_fs T) sealed d' = (Inr raw, d') \<and> blob_from_str X raw = Inr blob \<and> hardware_bound X T S blob key \<and>
    srv_pem_key X key = Inr (Some (sc_key c))"
proof -
  from assms(1,2) obtain cert sealed c where p: "ee_tls_cert_path E = Some cert" "ee_tls_sealed_key_path E = Some sealed"
    "tls = Some c" "load_server_config_from_sealed X T cert S sealed root d = (Inr c, d')"
    by (auto simp: build_tls_acceptor_def is_prod_def result_simps split: option.splits)
  from p(4) obtain raw d1 blob key where u: "fs_read_to_string (th_fs T) sealed d = (Inr raw, d1)"
    "blob_from_str X raw = Inr blob" "unseal_tls_key X T S blob root = Inr key"
    "load_server_config_from_pem_paths X T cert key d1 = (Inr c, d')"
    by (auto simp: load_server_config_from_sealed_def unseal_tls_key_from_file_def result_simps)
  have "d1 = d" "d' = d" using fs_reads(3) [THEN keeps_eqD, OF u(1)] acceptor_reads [THEN keeps_eqD, OF assms(1)] by simp_all
  moreover from u(4) have "srv_pem_key X key = Inr (Some (sc_key c))"
    by (auto simp: load_server_config_from_pem_paths_def build_server_tls_config_def result_simps)
  ultimately show ?thesis using p u(1,2) prod_unseal_hardware_bound(1) [OF u(3) assms(3,4)] by blast
qed

lemma main_app_parts:
  "app_config (main_app C H E auth) = env_config E" "app_limits (main_app C H E auth) = env_limits E"
  "app_auth (main_app C H E auth) = auth"
  by (simp_all add: main_app_def app_new_def Let_def)

text \<open>C5. A production edge serves sealed and attested or not at all. When the executable gets as far as
  serving in the production profile, whatever seal sync did to the disk before, it terminates TLS with a key
  it unsealed from a version-three blob under the hardware key of this guest, whose launch digest the
  hardware attests and the challenge identity names; the authenticator is the remote one; the upstream is the
  OPE one of the environment, over TLS that verifies the gateway; only allowlisted routes are proxied, and
  there is no token that lifts the limits of the challenge.\<close>

theorem prod_edge_serves_sealed:
  assumes "edge_main C H s = (Inr run, s')" "load_edge_profile (th_env (th_of H)) = Inr Prod"
  shows "\<exists>E sealed raw blob key c remote ope cfg client tls.
    load_edge_env (mc_seal C) (th_env (th_of H)) = Inr E \<and>
    rn_tls run = Some c \<and> ee_tls_sealed_key_path E = Some sealed \<and>
    fs_read_to_string (th_fs (th_of H)) sealed (ss_disk (ms_sync s')) = (Inr raw, ss_disk (ms_sync s')) \<and> blob_from_str (mc_seal C) raw = Inr blob \<and>
    hardware_bound (mc_seal C) (th_of H) (env_cvm_sealer E) blob key \<and>
    srv_pem_key (mc_seal C) key = Inr (Some (sc_key c)) \<and>
    ei_measurement (cp_identity (rn_platform run)) = LaunchDigest (ee_launch_digest E) (ee_image_digest E) \<and>
    app_auth (rn_app run) = Remote remote \<and>
    rn_upstream run = EdgeOpe ope \<and> gateway_from_env (mc_ope C) (th_env (th_of H)) = Inr (Some cfg) \<and>
    ou_client ope = cvm_ops (mc_ope C) (mh_agent H) client \<and> starts_with (gl_base_url client) ''https://'' \<and>
    gl_tls client = Some tls \<and> ct_server tls \<noteq> SkipServerVerify \<and>
    cfg_proxy_mode (app_config (rn_app run)) = Allowlist \<and>
    challenge_bench_token (app_limits (rn_app run)) = None"
proof -
  from assms(1) obtain E root spki server background y auth log log' where m:
    "load_edge_env (mc_seal C) (th_env (th_of H)) = Inr E"
    "validate_profile (th_env (th_of H)) (mh_cmdline H) (mh_exe H) E = Inr ()"
    "ei_measurement (cp_identity (rn_platform run)) = LaunchDigest (ee_launch_digest E) (ee_image_digest E)"
    "env_edge_authenticator (mc_l0 C) (mh_now H) E = Inr (rn_l0 run, auth)" "rn_app run = main_app C H E auth"
    "edge_upstream_from_env (mc_ope C) (mh_agent H) (th_env (th_of H)) (ee_profile E) (ee_upstream_base_url E) log =
       (Inr (rn_upstream run), log')"
    "build_tls_acceptor (mc_seal C) (th_of H) E (env_cvm_sealer E) root
       (ss_disk (if background then mh_realign H y else y)) = (Inr (rn_tls run), ss_disk (ms_sync s'))"
    by (rule edge_main_ok)
  from load_edge_env_ok(1) [OF m(1)] assms(2) have prod: "ee_profile E = Prod" by simp
  have "cs_prod (env_cvm_sealer E)" by (simp add: env_cvm_sealer_def cvm_sealer_with_profile_def prod is_prod_def)
  from prod_acceptor [OF m(7) prod this assms(2)] obtain sealed raw blob key c where tls: "rn_tls run = Some c"
    "ee_tls_sealed_key_path E = Some sealed"
    "fs_read_to_string (th_fs (th_of H)) sealed (ss_disk (ms_sync s')) = (Inr raw, ss_disk (ms_sync s'))"
    "blob_from_str (mc_seal C) raw = Inr blob" "hardware_bound (mc_seal C) (th_of H) (env_cvm_sealer E) blob key"
    "srv_pem_key (mc_seal C) key = Inr (Some (sc_key c))"
    by blast
  from m(4) obtain remote where "auth = Remote remote" by (auto simp: env_edge_authenticator_def result_simps)
  then have "app_auth (rn_app run) = Remote remote" by (simp add: m(5) main_app_parts)
  moreover from m(6) [unfolded prod] assms(2) obtain cfg client ope ct where up: "rn_upstream run = EdgeOpe ope"
    "gateway_from_env (mc_ope C) (th_env (th_of H)) = Inr (Some cfg)" "ou_client ope = cvm_ops (mc_ope C) (mh_agent H) client"
    "gl_base_url client = gc_base_url cfg" "gl_tls client = Some ct" "ct_server ct \<noteq> SkipServerVerify"
    "validate_for_profile cfg Prod = Inr ()"
    by (rule prod_upstream_ok)
  moreover have "starts_with (gl_base_url client) ''https://''" using validate_ok_prod(2) [OF up(7)] up(4) by simp
  moreover have "cfg_proxy_mode (app_config (rn_app run)) = Allowlist"
    using validated_prod_is_allowlist [OF m(1,2) prod] by (simp add: m(5) main_app_parts env_config_def)
  moreover have "challenge_bench_token (app_limits (rn_app run)) = None"
    by (simp add: m(5) main_app_parts env_limits_def prod is_prod_def)
  ultimately show ?thesis using m(1,3) tls by blast
qed

text \<open>The certificate an acceptor serves, and the one the key hash is read from.\<close>

lemma loaded_certs:
  assumes "load_server_config_from_pem_paths X T cert key d = (Inr c, d')"
  shows "\<exists>pem. fs_read (th_fs T) cert d = (Inr pem, d) \<and> srv_pem_certs X pem = Inr (sc_certs c)"
proof -
  from assms obtain pem d1 where r: "fs_read (th_fs T) cert d = (Inr pem, d1)" "srv_pem_certs X pem = Inr (sc_certs c)"
    by (auto simp: load_server_config_from_pem_paths_def build_server_tls_config_def result_simps)
  with fs_reads(2) [THEN keeps_eqD, OF r(1)] show ?thesis by blast
qed

lemma acceptor_certs:
  assumes "build_tls_acceptor X T E S root d = (Inr (Some c), d')"
  shows "\<exists>cert pem. ee_tls_cert_path E = Some cert \<and> fs_read (th_fs T) cert d = (Inr pem, d) \<and>
    srv_pem_certs X pem = Inr (sc_certs c) \<and> (ee_tls_sealed_key_path E \<noteq> None \<or> ee_tls_key_path E \<noteq> None)"
proof -
  from assms obtain cert key d1 where "ee_tls_cert_path E = Some cert"
    "ee_tls_sealed_key_path E \<noteq> None \<or> ee_tls_key_path E \<noteq> None"
    "load_server_config_from_pem_paths X T cert key d1 = (Inr c, d')" "d1 = d"
    by (auto simp: build_tls_acceptor_def load_server_config_from_sealed_def load_server_config_from_plain_key_path_def
        result_simps split: option.splits if_splits
        dest: tls_reads(2) [THEN keeps_eqD] fs_reads(2) [THEN keeps_eqD])
  with loaded_certs show ?thesis by blast
qed

lemma spki_certs:
  assumes "tls_spki_hex X T E S root d = (Inr spki, d')" "ee_tls_cert_path E = Some cert"
    and "ee_tls_sealed_key_path E \<noteq> None \<or> ee_tls_key_path E \<noteq> None"
    and "fs_read (th_fs T) cert d = (Inr pem, d)" "srv_pem_certs X pem = Inr certs"
  shows "\<exists>leaf rest. certs = leaf # rest \<and> spki_sha256_hex_from_cert_der X leaf = Inr spki"
proof -
  from assms(1-3) obtain d1 d2 where "spki_sha256_hex_from_cert_path X T cert d1 = (Inr spki, d2)" "d1 = d"
    by (auto simp: tls_spki_hex_def result_simps split: option.splits dest: load_reads [THEN keeps_eqD])
  with assms(4,5) show ?thesis
    by (auto simp: spki_sha256_hex_from_cert_path_def result_simps split: list.splits)
qed

text \<open>Without seal sync the startup leaves the disk alone.\<close>

lemma main_tls_without_sync:
  assumes "main_tls X H E S root y = (Inr (spki, server, background), y')"
    and "\<not> sync_enabled (seal_sync_from_env (sh_lib (mh_sync H)) (th_env (th_of H)))"
  shows "ss_disk y' = ss_disk y" "\<not> background"
    "\<exists>d. tls_spki_hex X (th_of H) E S root (ss_disk y) = (Inr spki, d)"
proof -
  let ?cfg = "seal_sync_from_env (sh_lib (mh_sync H)) (th_env (th_of H))"
  from assms(2) have n: "sc_peer ?cfg = None" "sc_listen ?cfg = None" by (simp_all add: sync_enabled_def)
  from assms(1) n obtain p d1 d2 where
    "resolve_tls_key_policy_for_profile X (th_of H) (is_prod (ee_profile E)) (ss_disk y) = (Inr p, d1)"
    "tls_spki_hex X (th_of H) E S root d1 = (Inr spki, d2)" "y' = y\<lparr>ss_disk := d2\<rparr>" "\<not> background"
    by (auto simp: main_tls_def warm_sync_def sync_enabled_def on_disk_def result_simps Let_def)
  with resolve_policy_reads [THEN keeps_eqD] spki_reads [THEN keeps_eqD]
  show "ss_disk y' = ss_disk y" "\<not> background" "\<exists>d. tls_spki_hex X (th_of H) E S root (ss_disk y) = (Inr spki, d)"
    by fastforce+
qed

text \<open>C14. The identity an edge attests is the one it serves: without seal sync, the key hash in the identity of
  every challenge answer is the one of the leaf certificate the TLS acceptor presents, and a TLS acceptor
  without a certificate is never started.\<close>

theorem attested_key_is_served:
  assumes "edge_main C H s = (Inr run, s')" "rn_tls run = Some c"
    and "\<not> sync_enabled (seal_sync_from_env (sh_lib (mh_sync H)) (th_env (th_of H)))"
  shows "\<exists>leaf rest. sc_certs c = leaf # rest \<and>
    spki_sha256_hex_from_cert_der (mc_seal C) leaf = Inr (ei_tls_cert_spki_sha256 (cp_identity (rn_platform run)))"
proof -
  from assms(1) obtain E root spki server background y where m:
    "main_tls (mc_seal C) H E (env_cvm_sealer E) root (ms_sync s) = (Inr (spki, server, background), y)"
    "ei_tls_cert_spki_sha256 (cp_identity (rn_platform run)) = spki"
    "build_tls_acceptor (mc_seal C) (th_of H) E (env_cvm_sealer E) root
       (ss_disk (if background then mh_realign H y else y)) = (Inr (rn_tls run), ss_disk (ms_sync s'))"
    by (rule edge_main_ok)
  from main_tls_without_sync [OF m(1) assms(3)] m(3) assms(2) obtain d where
    k: "tls_spki_hex (mc_seal C) (th_of H) E (env_cvm_sealer E) root (ss_disk (ms_sync s)) = (Inr spki, d)"
    and a: "build_tls_acceptor (mc_seal C) (th_of H) E (env_cvm_sealer E) root (ss_disk (ms_sync s)) =
      (Inr (Some c), ss_disk (ms_sync s'))"
    by auto
  from acceptor_certs [OF a] obtain cert pem where "ee_tls_cert_path E = Some cert"
    "ee_tls_sealed_key_path E \<noteq> None \<or> ee_tls_key_path E \<noteq> None"
    "fs_read (th_fs (th_of H)) cert (ss_disk (ms_sync s)) = (Inr pem, ss_disk (ms_sync s))"
    "srv_pem_certs (mc_seal C) pem = Inr (sc_certs c)"
    by blast
  from spki_certs [OF k this] show ?thesis using m(2) by simp
qed

subsection \<open>A production edge that starts\<close>

definition main_env :: environ where
  "main_env =
     [''OPENAPI_PROFILE'' \<mapsto> ''prod'', ''OPENAPI_GATEWAY_OPE_API_URL'' \<mapsto> ''https://g'',
      ''OPENAPI_OPE_REQUIRE_EPOCH_EVIDENCE'' \<mapsto> ''1'', ''OPENAPI_UPSTREAM_BASE_URL'' \<mapsto> ''u'',
      ''OPENAPI_CATALOG_VERIFY_KEY_HEX'' \<mapsto> ''k'', ''OPENAPI_L0_AUTHORIZE_URL'' \<mapsto> ''a'',
      ''OPENAPI_L0_INTERNAL_TOKEN'' \<mapsto> ''t'', ''OPENAPI_LAUNCH_DIGEST'' \<mapsto> digest_a,
      ''OPENAPI_IMAGE_DIGEST'' \<mapsto> digest_a, ''OPENAPI_TLS_CERT_PATH'' \<mapsto> ''/c'',
      ''OPENAPI_TLS_SEALED_KEY_PATH'' \<mapsto> ''/s'']"

definition main_guest :: tee_host where
  "main_guest = sample_guest\<lparr>th_env := main_env\<rparr>"

definition main_disk :: disk where
  "main_disk = \<lparr>dk_file = [''/etc/tls_key_policy'' \<mapsto> as_bytes ''key_ceremony'', ''/s'' \<mapsto> as_bytes ''{}'',
       ''/c'' \<mapsto> [0x30, 21, 0x30, 16, 2, 1, 1, 0x30, 0, 0x30, 0, 0x30, 0, 0x30, 0, 0x30, 3, 2, 1, 42, 3, 1, 0]],
     dk_link = Map.empty, dk_dir = Map.empty\<rparr>"

definition main_sample_crates :: main_crates where
  "main_sample_crates = \<lparr>mc_seal = seal_crates,
     mc_l0 = auth_ext.extend (sample_crates\<lparr>hex_decode := \<lambda>s. Inr (replicate 32 0)\<rparr>)
       \<lparr>authz_from_str = \<lambda>s. Inl [], delta_from_str = \<lambda>s. Inl [], l0_vk_from_bytes = Inr\<rparr>,
     mc_ope = ope_crates,
     mc_maint = sample_maint_crates, mc_policy_to_vec = \<lambda>p. []\<rparr>"

definition main_sample_host :: main_host where
  "main_sample_host = \<lparr>mh_sync = sample_sync_host\<lparr>sh_tee := main_guest\<rparr>,
     mh_cmdline = Some ''teechat.app_verity_root=1'', mh_exe = Some ''/usr/local/teechat/openapi'', mh_agent = sample_agent,
     mh_maint = \<lparr>env_var = main_env, read_file = \<lambda>p. Inl [], read_text = \<lambda>p. Inl []\<rparr>, mh_now = 0,
     mh_random = replicate 32 0, mh_spawn = None, mh_realign = \<lambda>y. y\<rparr>"

definition main_start :: main_state where
  "main_start = \<lparr>ms_sync = \<lparr>ss_disk = main_disk, ss_vfy = sample_vfy_state\<rparr>, ms_log = []\<rparr>"

lemma main_sample_parts:
  "th_of main_sample_host = main_guest" "th_env main_guest = main_env" "th_fs main_guest = no_fs_faults"
  "sh_lib (mh_sync main_sample_host) = sample_sync_lib" "mc_seal main_sample_crates = seal_crates"
  "mc_ope main_sample_crates = ope_crates" "mh_agent main_sample_host = sample_agent"
  by (simp_all add: main_sample_host_def th_of_def main_guest_def sample_guest_def sample_sync_host_def main_sample_crates_def)

lemma main_env_facts:
  "names_gateway main_env" "load_edge_profile main_env = Inr Prod"
  "validate_tls_key_policy main_env Prod = Inr ()"
  "validate_measured_app_path (Some ''teechat.app_verity_root=1'') (Some ''/usr/local/teechat/openapi'') Prod = Inr ()"
  "proxy_mode_parse (nonempty_env main_env ''OPENAPI_PROXY_MODE'') = Inr Allowlist"
  "\<not> env_set main_env ''OPENAPI_TLS_KEY_POLICY''"
  by (unfold names_gateway_def, intro conjI; code_simp) code_simp+

lemma main_sync_off: "\<not> sync_enabled (seal_sync_from_env L main_env)"
  by (simp add: sync_enabled_def seal_sync_from_env_def nonempty_env_def main_env_def)

lemma main_env_loads:
  obtains E where "load_edge_env seal_crates main_env = Inr E" "ee_profile E = Prod" "ee_upstream_base_url E = ''u''"
    "ee_catalog_verify_key_hex E = ''k''" "ee_l0_authorize_url E = Some ''a''" "ee_l0_internal_token E = Some ''t''"
    "ee_launch_digest E = digest_a" "ee_image_digest E = digest_a" "ee_tls_cert_path E = Some ''/c''"
    "ee_tls_sealed_key_path E = Some ''/s''" "ee_seal_root_hex E = None" "ee_usage_sign_seed_hex E = []"
proof -
  have v: "nonempty_env main_env ''OPENAPI_UPSTREAM_BASE_URL'' = Some ''u''" "main_env ''OPENAPI_UPSTREAM_BASE_URL'' = Some ''u''"
    "main_env ''OPENAPI_CATALOG_VERIFY_KEY_HEX'' = Some ''k''" "nonempty_env main_env ''OPENAPI_L0_AUTHORIZE_URL'' = Some ''a''"
    "nonempty_env main_env ''OPENAPI_L0_INTERNAL_TOKEN'' = Some ''t''" "nonempty_env main_env ''OPENAPI_LAUNCH_DIGEST'' = Some digest_a"
    "nonempty_env main_env ''OPENAPI_IMAGE_DIGEST'' = Some digest_a" "nonempty_env main_env ''OPENAPI_TLS_CERT_PATH'' = Some ''/c''"
    "nonempty_env main_env ''OPENAPI_TLS_SEALED_KEY_PATH'' = Some ''/s''" "nonempty_env main_env ''OPENAPI_SEAL_ROOT_HEX'' = None"
    "nonempty_env main_env ''OPENAPI_USAGE_SIGN_SEED_HEX'' = None" "nonempty_env main_env ''OPENAPI_ENGINE_IDENTITY_PINS_JSON'' = None"
    "nonempty_env main_env ''OPENAPI_AUTH_MODE'' = None"
    by code_simp+
  show thesis
    by (rule that, unfold load_edge_env_def Let_def pins_hash_env_def check_auth_mode_def req_env_def v main_env_facts(2,5))
      (simp add: ok_or_def unwrap_or_def, simp_all)
qed

lemma main_reads:
  "fs_read_to_string no_fs_faults ''/s'' main_disk = (Inr ''{}'', main_disk)"
  "fs_read_to_string no_fs_faults ''/etc/tls_key_policy'' main_disk = (Inr ''key_ceremony'', main_disk)"
  "\<exists>pem. fs_read no_fs_faults ''/c'' main_disk = (Inr pem, main_disk) \<and> is_ok (edge_extract_spki_der pem)"
proof -
  have "from_utf8 (as_bytes ''{}'') = Some ''{}''" "from_utf8 (as_bytes ''key_ceremony'') = Some ''key_ceremony''"
    by (rule from_utf8_ascii; simp add: code_def)+
  then show "fs_read_to_string no_fs_faults ''/s'' main_disk = (Inr ''{}'', main_disk)"
    "fs_read_to_string no_fs_faults ''/etc/tls_key_policy'' main_disk = (Inr ''key_ceremony'', main_disk)"
    by (simp_all add: fs_read_to_string_def fs_read_def fs_guard_def no_fs_faults_def fs_canon_def main_disk_def bindS_def)
  have "is_ok (edge_extract_spki_der [0x30, 21, 0x30, 16, 2, 1, 1, 0x30, 0, 0x30, 0, 0x30, 0, 0x30, 0, 0x30, 3, 2, 1, 42, 3, 1, 0])"
    by code_simp
  then show "\<exists>pem. fs_read no_fs_faults ''/c'' main_disk = (Inr pem, main_disk) \<and> is_ok (edge_extract_spki_der pem)"
    by (simp add: fs_read_def fs_guard_def no_fs_faults_def fs_canon_def main_disk_def bindS_def)
qed

lemma main_policy: "resolve_tls_key_policy_for_profile X main_guest True main_disk = (Inr KeyCeremony, main_disk)"
proof -
  have "map trim (take 1 (str_lines ''key_ceremony'')) = [''key_ceremony'']"
    "tls_key_policy_parse ''key_ceremony'' = Some KeyCeremony"
    by code_simp+
  moreover have "tls_key_policy_path main_guest = ''/etc/tls_key_policy''"
    by (simp add: tls_key_policy_path_def main_sample_parts main_env_facts TLS_KEY_POLICY_PATH_def)
  ultimately show ?thesis
    by (simp add: resolve_tls_key_policy_for_profile_def read_tls_key_policy_def read_tls_key_policy_from_def
        main_sample_parts main_env_facts main_reads map_errS_def bindS_def)
qed

lemma main_attested: "verify_launch_digest_attested X main_guest digest_a = Inr ()"
proof -
  have "from_utf8_lossy (as_bytes (''Measurement: '' @ digest_a)) = ''Measurement: '' @ digest_a"
    by (intro from_utf8_lossy_valid from_utf8_ascii) (simp add: digest_a_def code_def)
  then have "read_launch_digest_via_snpguest main_guest = Inr digest_a"
    using sample_displayed by (simp add: read_launch_digest_via_snpguest_def main_guest_def sample_guest_def Let_def)
  moreover have "main_env ''OPENAPI_ATTESTED_LAUNCH_DIGEST'' = None" by code_simp
  moreover have "th_sev_guest main_guest" by (simp add: main_guest_def sample_guest_def)
  ultimately have "read_attested_launch_digest X main_guest = Inr digest_a"
    by (simp add: read_attested_launch_digest_def main_sample_parts Let_def)
  moreover have "digest_a \<noteq> ''unknown''" by code_simp
  ultimately show ?thesis by (simp add: verify_launch_digest_attested_def digest_a_facts)
qed

lemma main_sealer:
  assumes "ee_launch_digest E = digest_a" "ee_image_digest E = digest_a" "ee_profile E = Prod"
  shows "env_cvm_sealer E = sample_sealer"
  by (simp add: env_cvm_sealer_def sample_sealer_def assms is_prod_def)

lemma main_loads_key:
  obtains c where "load_server_config_from_sealed seal_crates main_guest ''/c'' sample_sealer ''/s'' None main_disk =
    (Inr c, main_disk)"
proof -
  obtain pem where pem: "fs_read no_fs_faults ''/c'' main_disk = (Inr pem, main_disk)" using main_reads(3) by blast
  have S: "cs_prod sample_sealer" "cs_launch_digest sample_sealer = digest_a"
    by (simp_all add: sample_sealer_def cvm_sealer_with_profile_def)
  have b: "sb_seal_version sample_sealed = SEAL_VERSION_SNP_AMD_SP" "sb_amd_sp sample_sealed = Some []"
    "sb_seal_data_b64 sample_sealed = None" "is_ok (to_snp_blob sample_sealed)"
    by (simp_all add: sample_sealed_def from_snp_blob_def to_snp_blob_def SEAL_VERSION_SNP_AMD_SP_def is_ok_def)
  have "derive_amd_sp_seal_key seal_crates main_guest [] = Inr []"
    by (simp add: derive_amd_sp_seal_key_def main_sample_parts main_env_facts)
      (simp add: main_guest_def sample_guest_def)
  with S b main_attested [of seal_crates] have "\<exists>key. unseal_tls_key seal_crates main_guest sample_sealer sample_sealed None = Inr key"
    by (auto simp: unseal_tls_key_def unseal_tls_private_key_amd_sp_def sealing_measurement_def seal_crates_simps is_ok_def
        split: sum.splits)
  then obtain key where "unseal_tls_key_from_file seal_crates main_guest sample_sealer ''/s'' None main_disk = (Inr key, main_disk)"
    by (auto simp: unseal_tls_key_from_file_def main_sample_parts main_reads seal_crates_simps bindS_def map_errS_def liftS_def)
  with pem that show thesis
    by (simp add: load_server_config_from_sealed_def load_server_config_from_pem_paths_def build_server_tls_config_def
        main_sample_parts seal_crates_simps bindS_def map_errS_def liftS_def)
qed

lemma main_runs: "\<exists>run s' c. edge_main main_sample_crates main_sample_host main_start = (Inr run, s') \<and> rn_tls run = Some c"
proof -
  obtain E where E: "load_edge_env seal_crates main_env = Inr E" "ee_profile E = Prod" "ee_upstream_base_url E = ''u''"
    "ee_catalog_verify_key_hex E = ''k''" "ee_l0_authorize_url E = Some ''a''" "ee_l0_internal_token E = Some ''t''"
    "ee_launch_digest E = digest_a" "ee_image_digest E = digest_a" "ee_tls_cert_path E = Some ''/c''"
    "ee_tls_sealed_key_path E = Some ''/s''" "ee_seal_root_hex E = None" "ee_usage_sign_seed_hex E = []"
    by (rule main_env_loads)
  note S = main_sealer [OF E(7,8,2)]
  obtain c where c: "load_server_config_from_sealed seal_crates main_guest ''/c'' sample_sealer ''/s'' None main_disk =
      (Inr c, main_disk)"
    by (rule main_loads_key)
  obtain pem where pem: "fs_read no_fs_faults ''/c'' main_disk = (Inr pem, main_disk)" "is_ok (edge_extract_spki_der pem)"
    using main_reads(3) by blast
  then obtain spki where "spki_sha256_hex_from_cert_path seal_crates main_guest ''/c'' main_disk = (Inr spki, main_disk)"
    by (auto simp: spki_sha256_hex_from_cert_path_def spki_sha256_hex_from_cert_der_def main_sample_parts seal_crates_simps
        is_ok_def bindS_def map_errS_def liftS_def split: sum.splits)
  with c have spki: "tls_spki_hex seal_crates main_guest E sample_sealer None main_disk = (Inr spki, main_disk)"
    by (simp add: tls_spki_hex_def E bindS_def map_errS_def)
  have acc: "build_tls_acceptor seal_crates main_guest E sample_sealer None main_disk = (Inr (Some c), main_disk)"
    using c by (simp add: build_tls_acceptor_def E bindS_def map_errS_def returnS_def)
  have root: "env_seal_root seal_crates E = Inr None"
    by (simp add: env_seal_root_def parse_seal_root_hex_def E S resolve_seal_root_def sample_sealer_def cvm_sealer_with_profile_def)
  have tls: "main_tls seal_crates main_sample_host E sample_sealer None (ms_sync main_start) =
      (Inr (spki, None, False), ms_sync main_start)"
    using main_sync_off [of sample_sync_lib] spki main_policy [of seal_crates]
    by (simp add: main_tls_def warm_sync_def main_sample_parts E(2) is_prod_def on_disk_def on_part_def main_start_def
        bindS_def map_errS_def returnS_def sync_enabled_def Let_def)
  obtain l0 auth where auth: "env_edge_authenticator (mc_l0 main_sample_crates) (mh_now main_sample_host) E = Inr (l0, auth)"
    by (auto simp: env_edge_authenticator_def E build_remote_authenticator_ex_def main_sample_crates_def sample_crates_def
        auth_ext.defs Let_def ok_or_def)
  obtain u log' where up: "edge_upstream_from_env ope_crates sample_agent main_env Prod ''u'' [] = (Inr u, log')"
    using prod_edge_starts [OF main_env_facts(1)] by blast
  have start: "ms_log main_start = []" "ss_disk (ms_sync main_start) = main_disk" by (simp_all add: main_start_def)
  have valid: "validate_profile main_env (mh_cmdline main_sample_host) (mh_exe main_sample_host) E = Inr ()"
    by (simp add: validate_profile_def E(2) main_env_facts main_sample_host_def)
  have seed: "env_usage_signer seal_crates (mh_random main_sample_host) E = Inr (mh_random main_sample_host)"
    by (simp add: env_usage_signer_def E)
  show ?thesis
    using acc up
    by (simp add: edge_main_def main_sample_parts E(1,2,3) valid root S tls auth seed on_sync_def on_http_def on_disk_def
        on_part_def bindS_def map_errS_def liftS_def returnS_def start Let_def)
qed

theorem prod_edge_serves_sealed_witness:
  "\<exists>run s' sealed raw blob key c E. edge_main main_sample_crates main_sample_host main_start = (Inr run, s') \<and>
     rn_tls run = Some c \<and> fs_read_to_string no_fs_faults sealed (ss_disk (ms_sync s')) = (Inr raw, ss_disk (ms_sync s')) \<and>
     hardware_bound seal_crates main_guest (env_cvm_sealer E) blob key"
proof -
  obtain run s' where run: "edge_main main_sample_crates main_sample_host main_start = (Inr run, s')"
    using main_runs by blast
  have "load_edge_profile (th_env (th_of main_sample_host)) = Inr Prod" by (simp add: main_sample_parts main_env_facts)
  from prod_edge_serves_sealed [OF run this] run show ?thesis unfolding main_sample_parts by blast
qed

theorem attested_key_is_served_witness:
  "\<exists>run s' c leaf rest. edge_main main_sample_crates main_sample_host main_start = (Inr run, s') \<and>
     rn_tls run = Some c \<and> sc_certs c = leaf # rest \<and>
     spki_sha256_hex_from_cert_der seal_crates leaf = Inr (ei_tls_cert_spki_sha256 (cp_identity (rn_platform run)))"
proof -
  obtain run s' c where run: "edge_main main_sample_crates main_sample_host main_start = (Inr run, s')" "rn_tls run = Some c"
    using main_runs by blast
  have "\<not> sync_enabled (seal_sync_from_env (sh_lib (mh_sync main_sample_host)) (th_env (th_of main_sample_host)))"
    by (simp add: main_sample_parts main_sync_off)
  from attested_key_is_served [OF run this] run show ?thesis unfolding main_sample_parts by blast
qed

end
