(* ===== verification/Edge_Tools.thy ===== *)
theory Edge_Tools
  imports Edge_Env
begin

text \<open>
  \<open>bins/openapi-tls-ceremony/src/main.rs\<close> and \<open>bins/seal-tls-key/src/main.rs\<close>: the command lines of the
  ceremony and of the sealing tool of a development host. What they print is left out.
\<close>

datatype tool_error =
    ToolUsage string
  | ToolCeremony string ceremony_error
  | ToolProfile profile_error
  | ToolEnv string env_error
  | ToolTls string tls_error

text \<open>The options of the ceremony: an option at the end without its value unsets it.\<close>

fun ceremony_args :: "string list \<Rightarrow> string option \<Rightarrow> string option \<Rightarrow> tool_error + string option \<times> string option" where
  "ceremony_args [] name root = Inr (name, root)"
| "ceremony_args (arg # args) name root =
     (if arg = ''--cert-name''
      then (case args of [] \<Rightarrow> Inr (None, root) | v # rest \<Rightarrow> ceremony_args rest (Some v) root)
      else if arg = ''--letsencrypt-root''
      then (case args of [] \<Rightarrow> Inr (name, None) | v # rest \<Rightarrow> ceremony_args rest name (Some v))
      else Inl (ToolUsage (''unknown arg: '' @ arg)))"

definition ceremony_main :: "'x seal_ext_scheme \<Rightarrow> tee_host \<Rightarrow> string list \<Rightarrow> (disk, tool_error, unit) op" where
  "ceremony_main X T argv =
     (case argv of
        [] \<Rightarrow> failS (ToolUsage ''usage'')
      | cmd # args \<Rightarrow>
          bindS (liftS (ceremony_args args None None)) (\<lambda>(name_override, root_override).
          let cert_name = unwrap_or (unwrap_or ''openapi.teechat.ai'' (th_env T ''OPENAPI_ACME_CERT_NAME'')) name_override;
              root = unwrap_or (unwrap_or ''/etc/letsencrypt'' (th_env T ''OPENAPI_LETSENCRYPT_ROOT'')) root_override
          in if cmd = ''seal-from-acme''
             then bindS (map_errS (ToolCeremony ''ceremony policy'') (assert_prod_ceremony_policy X T)) (\<lambda>_.
                  bindS (liftS (map_err (ToolCeremony ''load ceremony paths'') (ceremony_paths_from_env (th_env T)))) (\<lambda>paths.
                  bindS (map_errS (ToolCeremony ''seal from acme'')
                           (seal_from_acme_live X T paths (acme_live_dir root cert_name) root cert_name)) (\<lambda>_.
                  map_errS (ToolCeremony ''verify no plaintext privkey'')
                    (assert_no_plaintext_privkey_on_disk T root cert_name []))))
             else if cmd = ''verify-disk''
             then map_errS (ToolCeremony ''plaintext privkey found'')
                    (assert_no_plaintext_privkey_on_disk T root cert_name [])
             else failS (ToolUsage (''unknown command: '' @ cmd))))"

text \<open>The result of \<open>validate_tls_key_policy\<close> is dropped by the tool.\<close>

definition seal_tool_main :: "'x seal_ext_scheme \<Rightarrow> tee_host \<Rightarrow> string list \<Rightarrow> (disk, tool_error, sealed_blob) op" where
  "seal_tool_main X T argv =
     (case argv of
        plain # out # _ \<Rightarrow>
          bindS (liftS (map_err ToolProfile (load_edge_profile (th_env T)))) (\<lambda>profile.
          bindS (liftS (map_err ToolProfile (assert_dev_host_seal_tool profile))) (\<lambda>_.
          bindS (liftS (map_err (ToolEnv ''load edge env'') (load_edge_env X (th_env T)))) (\<lambda>E.
          bindS (liftS (map_err (ToolEnv ''seal root'') (env_seal_root X E))) (\<lambda>root.
          map_errS (ToolTls ''seal tls key'') (seal_tls_key_file X T (env_cvm_sealer E) plain out root)))))
      | _ \<Rightarrow> failS (ToolUsage ''usage: seal-tls-key <plain-key.pem> <sealed-out.json>''))"

text \<open>The ceremony seals in production only and the tool of the host never does: neither touches the disk in
  the profile of the other.\<close>

lemma seal_tool_is_for_development:
  assumes "load_edge_profile (th_env T) = Inr Prod"
  shows "\<exists>e. seal_tool_main X T argv d = (Inl e, d)"
  using assms
  by (auto simp: seal_tool_main_def assert_dev_host_seal_tool_def is_prod_def bindS_def liftS_def failS_def
      split: list.splits)

lemma ceremony_is_for_production:
  assumes "ceremony_main X T (''seal-from-acme'' # args) d = (Inr (), d')"
  shows "load_edge_profile (th_env T) = Inr Prod" "resolve_tls_key_policy_for_profile X T True d = (Inr KeyCeremony, d)"
proof -
  from assms have "\<exists>d1. assert_prod_ceremony_policy X T d = (Inr (), d1)"
    by (auto simp: ceremony_main_def result_simps Let_def)
  then show "load_edge_profile (th_env T) = Inr Prod" "resolve_tls_key_policy_for_profile X T True d = (Inr KeyCeremony, d)"
    using resolve_policy_reads [THEN keeps_eqD]
    by (auto simp: assert_prod_ceremony_policy_def is_prod_def result_simps Let_def split: if_splits)
qed

end
