(* ===== verification/Spec2Isabelle.thy ===== *)
theory Spec2Isabelle
  imports Edge_Server Sgx_Upstream Sse_Usage Ephemeral Edge_Main Edge_Tools
begin

text \<open>
  \<^bold>\<open>The program.\<close> The TEE chat OpenAPI edge is a proxy with the OpenAI interface that runs inside a trusted
  execution environment: an AMD SEV-SNP guest (the CVM edition) or an Intel SGX enclave. A request comes in
  over TLS, is authenticated, limited and checked, and is forwarded to an inference engine in the OPE
  envelope: encrypted to a key the engine attests, so that the gateway in between sees the model name and
  ciphertext only. The edge proves what it is to clients that challenge it; the independent verifier of the
  same repository checks such proofs. The TLS key exists outside the environment only in sealed form.

  \<^bold>\<open>Conventions.\<close> \<open>Rust_Std\<close> is the prelude: machine integers as words or bounded naturals, strings and byte
  lists, results as sums with the error on the left, operations on a state that keep their effect when they
  fail, the parts of the standard library the code calls, and the collection \<open>result_simps\<close> that inverts
  successful runs. \<open>Disk\<close> is \<open>std::fs\<close> with files, links and directories whose calls may fail. Crates outside
  the repository are fields of records (\<open>Third_Party\<close> and its extensions per component: hashes, signatures,
  codecs, serde, TLS, HTTP agents, the \<open>sev\<close>, \<open>dcap-qvl\<close>, \<open>ope\<close> and \<open>attested-mtls\<close> crates); a theorem that
  needs a law of one of them states it as a hypothesis, and its witness instantiates the record. Clocks,
  random bytes, the environment and answers of hosts are arguments.

  \<^bold>\<open>The core\<close> (\<open>crates/openapi-core\<close>). \<open>Api_Error\<close> (\<open>error.rs\<close>), \<open>Routes\<close> (\<open>routes.rs\<close>: the allowlist is exact),
  \<open>Limits\<close> (\<open>limits.rs\<close>: the bound on any minute of any history, and one locale \<open>permit_pool\<close> for the two counters
  of permits, interpreted on both), \<open>Key_Auth\<close> (keys, catalog, signed grants), \<open>Remote_Auth\<close> (\<open>remote_auth.rs\<close>:
  soundness, permanence of revocations over an inductive step relation, and the locale \<open>bearer_auth\<close> of what
  the handler relies on, interpreted on the catalog, the remote and the combined authenticator), \<open>Quota\<close>,
  \<open>Sse_Usage\<close> (metering does not depend on how a stream is cut), \<open>Ephemeral\<close>, \<open>Rfc3339\<close> and \<open>Maintenance\<close>
  (\<open>maintenance.rs\<close>: no rollback of signed windows), \<open>Http1_Body\<close> (bodies read from a stream cut anywhere), and
  \<open>Handler\<close> (\<open>handler.rs\<close>: every route, as a step on the application; a call reaches the upstream only when
  every check before it passed).

  \<^bold>\<open>HTTP and the listener\<close> (\<open>crates/openapi-http\<close>, \<open>crates/openapi-edge\<close>). \<open>Http_Wire\<close> holds the requests, the
  response builders and the dispatch, \<open>Http_Conn\<close> one connection (segmentation does not matter, permits are
  returned), \<open>Http_Framing\<close> that a reader gets back what was written, and \<open>Edge_Server\<close> the worker pool, the
  queue and the shedder with its atomic steps in any interleaving.

  \<^bold>\<open>The platform\<close> (\<open>crates/openapi-platform\<close>). \<open>Profile\<close>, \<open>Sealed_Time\<close>, \<open>Challenge\<close> (an accepted answer binds nonce
  and identity), \<open>Engine_Trust\<close>, \<open>Engine_Recipient\<close> (who may receive plaintext, and that attested keys cannot
  be exchanged for others), \<open>Engine_Usage\<close>, \<open>Engine_Challenge\<close>.

  \<^bold>\<open>The upstream\<close> (\<open>crates/openapi-platform-cvm\<close>, \<open>crates/openapi-platform-sgx\<close>). \<open>Gateway_Api\<close> is the client of the
  gateway, \<open>Ope_Wrap\<close>, \<open>Ope_Response\<close>, \<open>Ope_Text\<close> and \<open>Ope_Upstream\<close> the OPE upstream in the order of
  \<open>ope_upstream.rs\<close>; \<open>Ope_Dispatch\<close> states what leaves the edge, once for every client of the locale
  \<open>gateway_plane\<close>, which is interpreted on the CVM client there and on the SGX client in \<open>Sgx_Gateway\<close>. \<open>Edge_Upstream\<close>
  and \<open>Sgx_Upstream\<close> choose the upstream of each edition, and the two editions choose alike.

  \<^bold>\<open>The independent verifier\<close> (\<open>crates/openapi-attest\<close>). \<open>Attest_Snp\<close>, \<open>Attest_Spki\<close>, \<open>Attest_Floor\<close>,
  \<open>Attest_Manifest\<close> and \<open>Attest_Verify\<close> follow the files of the crate; \<open>Attest_Sound\<close> shows that every part of an
  accepting verdict is backed and that accepted epochs never go back.

  \<^bold>\<open>Keys, sync and startup\<close> (CVM edition). \<open>Sealing\<close> (\<open>seal.rs\<close>, \<open>guest_digest.rs\<close>, \<open>tls_key_policy.rs\<close>: a sealed key
  comes back to the guest that sealed it), \<open>Tls_Ceremony\<close> (\<open>tls.rs\<close>,
  \<open>tls_ceremony.rs\<close>: the ceremony seals, then removes every key file it
  found), \<open>Cvm_Platform\<close> (\<open>attest.rs\<close>, \<open>snp_report.rs\<close>:
  an answer of the edge verifies), \<open>L0_Client\<close> (\<open>remote_client.rs\<close>: a published revocation takes effect at the next
  poll, whatever requests come in between), \<open>Seal_Sync\<close> (\<open>seal_sync.rs\<close>: a peer is accepted on hardware evidence
  for this very channel), \<open>Edge_Env\<close> (\<open>env.rs\<close>, \<open>edge_policy.rs\<close>), \<open>Edge_Main\<close> (\<open>bins/openapi\<close>: the startup, composed of
  all the above; a production edge serves with a hardware-bound key, the remote authenticator, verified OPE
  and allowlisted routes or not at all, and, without seal sync, attests the key it
  serves) and \<open>Edge_Tools\<close> (\<open>bins/openapi-tls-ceremony\<close>,
  \<open>bins/seal-tls-key\<close>).

  \<^bold>\<open>Loops and bounds.\<close> No definition takes fuel. Loops over a stream recurse on the list of what the reader
  delivers, others have a measure; the loop that overwrites a key file is a partial function into \<open>option\<close>, and
  that it returns is proved. Loops that serve for ever are sequences of turns: a turn of the poller, a
  connection, an event of the listener, with theorems over all finite sequences. Bytes and the counters of
  permits are words. Other integers are naturals or integers, with the limits of the parsers, the saturation,
  the overflow checks and the wrap-around of the code written out at their width.

  \<^bold>\<open>Not modelled.\<close> These parts are outside the present scope, and no theorem here is about them. In
  \<open>crates/openapi-platform-sgx\<close>: sealing and the key policy (\<open>seal.rs\<close>, \<open>tls_key_policy.rs\<close>), seal sync
  (\<open>seal_sync.rs\<close>, \<open>sgx_channel_identity.rs\<close>), the enclave side of attestation (\<open>attest.rs\<close>, \<open>report.rs\<close>, \<open>dcap.rs\<close>), settings,
  TLS and the L0 client (\<open>env.rs\<close>, \<open>tls.rs\<close>, \<open>remote_client.rs\<close>), startup and ceremony (\<open>run.rs\<close>, \<open>acme_ceremony.rs\<close>,
  \<open>ceremony_helper.rs\<close>). They have logic of their own, so the theorems on keys, sync and startup hold for the CVM
  edition only. The ACME clients (\<open>crates/openapi-acme-sync\<close>, \<open>bins/openapi-acme\<close>), the host helpers of the enclave
  (\<open>bins/openapi-ceremony-helper\<close>, \<open>bins/openapi-dcap-helper\<close>), the remaining command lines and the browser bindings.
  In modelled files: the code under the feature \<open>catalog-auth\<close> in \<open>env.rs\<close> of the CVM crate, test code, logging, and
  time-outs other than as errors of a reader. \<open>push.rs\<close> is marked deprecated and has no caller.
\<close>

end
